(* ===== verification/Hub_Prelude.thy ===== *)
theory Hub_Prelude
  imports Main "HOL-Library.AList" "HOL-Library.Char_ord" "HOL-Library.List_Lexorder"
    "HOL-Library.Product_Lexorder"
begin

text \<open>
  What every theory of the development shares: Python strings, scalar values, ordered
  dictionaries, exceptions, and computations that thread a state and may raise.

  A Python \<open>str\<close> is a \<open>string\<close>: one \<open>char\<close> per code point, for the code points below 256
  (Isabelle's \<open>char\<close>). A Python \<open>dict\<close> is an association list in insertion order;
  \<open>AList.update\<close> is exactly \<open>d[k] = v\<close> (in place when the key is there, at the end when it
  is not). A statement sequence that may raise is a function from the state to a pair of an
  outcome (\<open>Inl\<close> the exception, \<open>Inr\<close> the value) and the state reached; the state is kept
  when an exception escapes, because the database commits each statement on its own.
\<close>

named_theorems hub_simps \<open>unfolding rules the component proofs share\<close>

section \<open>Exceptions\<close>

text \<open>
  The exception classes the phases and adapters tell apart. \<open>PyError\<close> carries the class name
  and message of any other Python exception.
\<close>

datatype exn =
    AccessGridError string
  | PacsAuthExpired string
  | PacsRecordUnavailable string
  | MillenniumError string
  | MillenniumAuthError string
  | UnityError string
  | UnityAuthError string
  | PyError string string

fun exn_message :: "exn \<Rightarrow> string" where
  "exn_message (AccessGridError m) = m"
| "exn_message (PacsAuthExpired m) = m"
| "exn_message (PacsRecordUnavailable m) = m"
| "exn_message (MillenniumError m) = m"
| "exn_message (MillenniumAuthError m) = m"
| "exn_message (UnityError m) = m"
| "exn_message (UnityAuthError m) = m"
| "exn_message (PyError _ m) = m"

fun exn_class :: "exn \<Rightarrow> string" where
  "exn_class (AccessGridError _) = ''AccessGridError''"
| "exn_class (PacsAuthExpired _) = ''PacsAuthExpired''"
| "exn_class (PacsRecordUnavailable _) = ''PacsRecordUnavailable''"
| "exn_class (MillenniumError _) = ''MillenniumError''"
| "exn_class (MillenniumAuthError _) = ''MillenniumAuthError''"
| "exn_class (UnityError _) = ''UnityError''"
| "exn_class (UnityAuthError _) = ''UnityAuthError''"
| "exn_class (PyError c _) = c"

text \<open>\<open>except PacsAuthExpired\<close>: \<open>MillenniumAuthError\<close> is a subclass of it.\<close>

fun is_auth_expired :: "exn \<Rightarrow> bool" where
  "is_auth_expired (PacsAuthExpired _) = True"
| "is_auth_expired (MillenniumAuthError _) = True"
| "is_auth_expired _ = False"

text \<open>\<open>except MillenniumError\<close>, which the auth error is a subclass of as well.\<close>

fun is_millennium_error :: "exn \<Rightarrow> bool" where
  "is_millennium_error (MillenniumError _) = True"
| "is_millennium_error (MillenniumAuthError _) = True"
| "is_millennium_error _ = False"

fun is_unity_error :: "exn \<Rightarrow> bool" where
  "is_unity_error (UnityError _) = True"
| "is_unity_error (UnityAuthError _) = True"
| "is_unity_error _ = False"

text \<open>\<open>except AccessGridError\<close>.\<close>

fun is_ag_error :: "exn \<Rightarrow> bool" where
  "is_ag_error (AccessGridError _) = True"
| "is_ag_error _ = False"

section \<open>Computations that thread a state and may raise\<close>

type_synonym ('s, 'a) comp = "'s \<Rightarrow> (exn + 'a) \<times> 's"

text \<open>A \<open>for\<close> loop with an accumulator; an exception in the body ends it.\<close>

fun for_each :: "('x \<Rightarrow> 'a \<Rightarrow> ('s, 'a) comp) \<Rightarrow> 'x list \<Rightarrow> 'a \<Rightarrow> ('s, 'a) comp" where
  "for_each body [] acc s = (Inr acc, s)"
| "for_each body (x # xs) acc s =
     (case body x acc s of
        (Inl e, s') \<Rightarrow> (Inl e, s')
      | (Inr acc', s') \<Rightarrow> for_each body xs acc' s')"

definition bind_comp :: "('s, 'a) comp \<Rightarrow> ('a \<Rightarrow> ('s, 'b) comp) \<Rightarrow> ('s, 'b) comp" where
  "bind_comp m k s = (case m s of (Inl e, s') \<Rightarrow> (Inl e, s') | (Inr v, s') \<Rightarrow> k v s')"

text \<open>What holds of the state and survives every pass of the body holds after the loop.\<close>

lemma for_each_invariant:
  assumes "P s"
    and "\<And>x acc t. x \<in> set xs \<Longrightarrow> P t \<Longrightarrow> P (snd (body x acc t))"
  shows "P (snd (for_each body xs acc s))"
  using assms
proof (induction xs arbitrary: acc s)
  case Nil
  then show ?case by simp
next
  case (Cons x xs)
  have step: "P (snd (body x acc s))" using Cons.prems by simp
  obtain r s' where body: "body x acc s = (r, s')" by fastforce
  show ?case
  proof (cases r)
    case (Inl e)
    then show ?thesis using step body by simp
  next
    case (Inr acc')
    have "P (snd (for_each body xs acc' s'))"
      using step body Cons.prems(2) by (intro Cons.IH) simp_all
    then show ?thesis using Inr body by simp
  qed
qed

text \<open>The same for a relation between the accumulator and the state.\<close>

lemma for_each_invariant_acc:
  assumes "P acc s"
    and "\<And>x a t a' t'. x \<in> set xs \<Longrightarrow> P a t \<Longrightarrow> body x a t = (Inr a', t') \<Longrightarrow> P a' t'"
    and "for_each body xs acc s = (Inr r, s')"
  shows "P r s'"
  using assms
proof (induction xs arbitrary: acc s)
  case Nil
  then show ?case by simp
next
  case (Cons x xs)
  from Cons.prems(3) obtain a t where b: "body x acc s = (Inr a, t)"
    and rest: "for_each body xs a t = (Inr r, s')"
    by (auto split: prod.splits sum.splits)
  have "P a t" using Cons.prems(1,2) b by (meson list.set_intros(1))
  moreover have "\<And>y a t a' t'. y \<in> set xs \<Longrightarrow> P a t \<Longrightarrow> body y a t = (Inr a', t') \<Longrightarrow> P a' t'"
    using Cons.prems(2) by (meson list.set_intros(2))
  ultimately show ?case using rest by (rule Cons.IH)
qed

text \<open>The general rule: one predicate while the loop runs, another for the state an exception leaves.\<close>

lemma for_each_rule:
  assumes "P acc s"
    and "\<And>x a t. x \<in> set xs \<Longrightarrow> P a t \<Longrightarrow>
      (case body x a t of (Inl e, t') \<Rightarrow> Q e t' | (Inr a', t') \<Rightarrow> P a' t')"
  shows "case for_each body xs acc s of (Inl e, s') \<Rightarrow> Q e s' | (Inr r, s') \<Rightarrow> P r s'"
  using assms
proof (induction xs arbitrary: acc s)
  case Nil
  then show ?case by simp
next
  case (Cons x xs)
  have step: "case body x acc s of (Inl e, t') \<Rightarrow> Q e t' | (Inr a', t') \<Rightarrow> P a' t'"
    using Cons.prems by simp
  obtain r t where body: "body x acc s = (r, t)" by fastforce
  show ?case
  proof (cases r)
    case (Inl e)
    then show ?thesis using step body by simp
  next
    case (Inr a)
    then show ?thesis using step body Cons.IH [of a t] Cons.prems(2) by simp
  qed
qed

text \<open>A body that never raises makes a loop that never raises.\<close>

lemma for_each_total:
  assumes "\<And>x a t. x \<in> set xs \<Longrightarrow> \<exists>a' t'. body x a t = (Inr a', t')"
  shows "\<exists>a' t'. for_each body xs acc s = (Inr a', t')"
  using assms
proof (induction xs arbitrary: acc s)
  case Nil
  then show ?case by simp
next
  case (Cons x xs)
  obtain a t where "body x acc s = (Inr a, t)" using Cons.prems by fastforce
  moreover have "\<exists>a' t'. for_each body xs a t = (Inr a', t')"
    using Cons.prems by (intro Cons.IH) simp
  ultimately show ?case by simp
qed

lemma for_each_append:
  "for_each body (xs @ ys) acc s =
     (case for_each body xs acc s of
        (Inl e, s') \<Rightarrow> (Inl e, s')
      | (Inr a, s') \<Rightarrow> for_each body ys a s')"
  by (induction xs arbitrary: acc s) (auto split: prod.splits sum.splits)

section \<open>Strings\<close>

definition is_space :: "char \<Rightarrow> bool" where
  "is_space c \<longleftrightarrow> (let n = (of_char c :: nat) in
     (9 \<le> n \<and> n \<le> 13) \<or> (28 \<le> n \<and> n \<le> 32) \<or> n = 133 \<or> n = 160)"

definition py_strip :: "string \<Rightarrow> string" where
  "py_strip s = rev (dropWhile is_space (rev (dropWhile is_space s)))"

definition lower_char :: "char \<Rightarrow> char" where
  "lower_char c = (let n = (of_char c :: nat) in
     if (65 \<le> n \<and> n \<le> 90) \<or> (192 \<le> n \<and> n \<le> 222 \<and> n \<noteq> 215) then char_of (n + 32) else c)"

definition py_lower :: "string \<Rightarrow> string" where
  "py_lower s = List.map lower_char s"

definition is_digit :: "char \<Rightarrow> bool" where
  "is_digit c \<longleftrightarrow> (let n = (of_char c :: nat) in 48 \<le> n \<and> n \<le> 57)"

definition digit_value :: "char \<Rightarrow> nat" where
  "digit_value c = (of_char c :: nat) - 48"

text \<open>\<open>str.isdigit\<close>: the superscripts count as digits there, though \<open>int()\<close> refuses them.\<close>

definition py_isdigit :: "string \<Rightarrow> bool" where
  "py_isdigit s \<longleftrightarrow> s \<noteq> [] \<and>
     list_all (\<lambda>c. is_digit c \<or> (of_char c :: nat) \<in> {178, 179, 185}) s"

definition nat_of_digits :: "string \<Rightarrow> nat" where
  "nat_of_digits s = foldl (\<lambda>n c. 10 * n + digit_value c) 0 s"

definition parse_nat :: "string \<Rightarrow> nat option" where
  "parse_nat s = (if s \<noteq> [] \<and> list_all is_digit s then Some (nat_of_digits s) else None)"

definition py_startswith :: "string \<Rightarrow> string \<Rightarrow> bool" where
  "py_startswith s p \<longleftrightarrow> take (length p) s = p"

fun py_contains :: "string \<Rightarrow> string \<Rightarrow> bool" where
  "py_contains s p = (py_startswith s p \<or> (case s of [] \<Rightarrow> False | _ # s' \<Rightarrow> py_contains s' p))"

declare py_contains.simps [simp del]

text \<open>\<open>s.partition(c)\<close> for a separator of one character.\<close>

definition py_partition :: "char \<Rightarrow> string \<Rightarrow> string \<times> string" where
  "py_partition c s = (takeWhile (\<lambda>d. d \<noteq> c) s, tl (dropWhile (\<lambda>d. d \<noteq> c) s))"

text \<open>\<open>s.split()\<close>: the words between white space.\<close>

definition split_space :: "string \<Rightarrow> string list" where
  "split_space s = List.filter (\<lambda>w. w \<noteq> []) (foldr (\<lambda>c ws. if is_space c then [] # ws else (c # hd ws) # tl ws) s [[]])"

text \<open>\<open>s.split(sep, 1)\<close>, None when the separator is not there.\<close>

fun split_once :: "string \<Rightarrow> string \<Rightarrow> (string \<times> string) option" where
  "split_once sep s = (if py_startswith s sep then Some ([], drop (length sep) s)
     else case s of [] \<Rightarrow> None | c # r \<Rightarrow> map_option (\<lambda>(a, b). (c # a, b)) (split_once sep r))"

declare split_once.simps [simp del]

lemma split_once_head: "split_once sep (sep @ s) = Some ([], s)"
  by (subst split_once.simps) (simp add: py_startswith_def)

text \<open>The first separator is the one written, when nothing before it looks like its first character.\<close>

lemma split_once_after:
  assumes "sep = c # sep'" and "c \<notin> set s"
  shows "split_once sep (s @ sep @ t) = Some (s, t)"
  using assms(2)
proof (induction s)
  case Nil
  then show ?case by (simp add: split_once_head)
next
  case (Cons d s)
  then have "\<not> py_startswith (d # s @ sep @ t) sep" using assms(1) by (auto simp: py_startswith_def)
  then show ?case using Cons by (subst split_once.simps) simp
qed

fun py_join :: "string \<Rightarrow> string list \<Rightarrow> string" where
  "py_join sep [] = ''''"
| "py_join sep [x] = x"
| "py_join sep (x # y # zs) = x @ sep @ py_join sep (y # zs)"

text \<open>\<open>str.splitlines()\<close>, for the line boundaries among the first 256 code points.\<close>

definition line_break :: "char \<Rightarrow> bool" where
  "line_break c \<longleftrightarrow> (let n = (of_char c :: nat) in (10 \<le> n \<and> n \<le> 13) \<or> (28 \<le> n \<and> n \<le> 30) \<or> n = 133)"

fun splitlines_from :: "string \<Rightarrow> string \<Rightarrow> string list" where
  "splitlines_from acc [] = (if acc = [] then [] else [acc])"
| "splitlines_from acc [c] = (if line_break c then [acc] else [acc @ [c]])"
| "splitlines_from acc (c # d # s) =
     (if c = CHR 0x0D \<and> d = CHR 0x0A then acc # splitlines_from [] s
      else if line_break c then acc # splitlines_from [] (d # s)
      else splitlines_from (acc @ [c]) (d # s))"

definition splitlines :: "string \<Rightarrow> string list" where
  "splitlines s = splitlines_from [] s"

definition digit_char :: "nat \<Rightarrow> char" where
  "digit_char d = char_of (48 + d)"

fun string_of_nat :: "nat \<Rightarrow> string" where
  "string_of_nat n = (if n < 10 then [digit_char n] else string_of_nat (n div 10) @ [digit_char (n mod 10)])"

declare string_of_nat.simps [simp del]

definition string_of_int :: "int \<Rightarrow> string" where
  "string_of_int i = (if i < 0 then CHR ''-'' # string_of_nat (nat (- i)) else string_of_nat (nat i))"

definition pad_left :: "nat \<Rightarrow> char \<Rightarrow> string \<Rightarrow> string" where
  "pad_left w c s = replicate (w - length s) c @ s"

lemma is_digit_digit_char [simp]: "d < 10 \<Longrightarrow> is_digit (digit_char d)"
  by (simp add: is_digit_def digit_char_def Let_def)

lemma digit_value_digit_char [simp]: "d < 10 \<Longrightarrow> digit_value (digit_char d) = d"
  by (simp add: digit_value_def digit_char_def)

lemma string_of_nat_digits: "list_all is_digit (string_of_nat n)"
proof (induction n rule: string_of_nat.induct)
  case (1 n)
  show ?case
  proof (cases "n < 10")
    case True
    then show ?thesis by (simp add: string_of_nat.simps [of n])
  next
    case False
    then show ?thesis using 1 by (simp add: string_of_nat.simps [of n])
  qed
qed

lemma string_of_nat_nonempty [simp]: "string_of_nat n \<noteq> []"
  by (subst string_of_nat.simps) simp

lemma nat_of_digits_snoc: "nat_of_digits (s @ [c]) = 10 * nat_of_digits s + digit_value c"
  by (simp add: nat_of_digits_def)

lemma nat_of_digits_string_of_nat [simp]: "nat_of_digits (string_of_nat n) = n"
proof (induction n rule: string_of_nat.induct)
  case (1 n)
  show ?case
  proof (cases "n < 10")
    case True
    then show ?thesis by (simp add: string_of_nat.simps [of n] nat_of_digits_def)
  next
    case False
    then show ?thesis using 1 by (simp add: string_of_nat.simps [of n] nat_of_digits_snoc)
  qed
qed

text \<open>Decimal printing and parsing are inverse, so distinct numbers print differently.\<close>

lemma parse_nat_string_of_nat [simp]: "parse_nat (string_of_nat n) = Some n"
  by (simp add: parse_nat_def string_of_nat_digits)

lemma string_of_nat_inject [simp]: "string_of_nat m = string_of_nat n \<longleftrightarrow> m = n"
  by (metis nat_of_digits_string_of_nat)

lemma py_lower_nil [simp]: "py_lower [] = []"
  by (simp add: py_lower_def)

lemma py_strip_nil [simp]: "py_strip [] = []"
  by (simp add: py_strip_def)

section \<open>Scalar values\<close>

text \<open>What a JSON response or an SDK attribute holds where the code reads a scalar.\<close>

datatype pyval = PNone | PStr string | PInt int | PBool bool

fun truthy :: "pyval \<Rightarrow> bool" where
  "truthy PNone = False"
| "truthy (PStr s) = (s \<noteq> [])"
| "truthy (PInt i) = (i \<noteq> 0)"
| "truthy (PBool b) = b"

fun py_str :: "pyval \<Rightarrow> string" where
  "py_str PNone = ''None''"
| "py_str (PStr s) = s"
| "py_str (PInt i) = string_of_int i"
| "py_str (PBool b) = (if b then ''True'' else ''False'')"

text \<open>\<open>d.get(k)\<close> of a dictionary of scalars.\<close>

definition dget :: "(string \<times> pyval) list \<Rightarrow> string \<Rightarrow> pyval" where
  "dget d k = (case map_of d k of None \<Rightarrow> PNone | Some v \<Rightarrow> v)"

section \<open>Dictionaries of lists\<close>

text \<open>\<open>d.setdefault(k, []).append(x)\<close>.\<close>

definition dict_append :: "'k \<Rightarrow> 'v \<Rightarrow> ('k \<times> 'v list) list \<Rightarrow> ('k \<times> 'v list) list" where
  "dict_append k x d = AList.update k ((case map_of d k of None \<Rightarrow> [] | Some xs \<Rightarrow> xs) @ [x]) d"

definition dict_list :: "('k \<times> 'v list) list \<Rightarrow> 'k \<Rightarrow> 'v list" where
  "dict_list d k = (case map_of d k of None \<Rightarrow> [] | Some xs \<Rightarrow> xs)"

lemma dict_list_append [simp]:
  "dict_list (dict_append k x d) k' = (if k' = k then dict_list d k @ [x] else dict_list d k')"
  by (simp add: dict_list_def dict_append_def update_conv')

lemma dict_list_nil [simp]: "dict_list [] k = []"
  by (simp add: dict_list_def)

lemma map_of_update_AList [simp]: "map_of (AList.update k v d) k' = (if k' = k then Some v else map_of d k')"
  by (simp add: update_conv')

lemma distinct_dict_append: "distinct (List.map fst d) \<Longrightarrow> distinct (List.map fst (dict_append k x d))"
  by (simp add: dict_append_def distinct_update)

text \<open>Updates under keys that are new and different append, in their order.\<close>

lemma fold_update_new:
  "fst ` set d \<inter> k ` set es = {} \<Longrightarrow> distinct (List.map k es) \<Longrightarrow>
    fold (\<lambda>e. AList.update (k e) (v e)) es d = d @ List.map (\<lambda>e. (k e, v e)) es"
proof (induction es arbitrary: d)
  case Nil
  then show ?case by simp
next
  case (Cons e es)
  have "k e \<notin> fst ` set d" using Cons.prems(1) by auto
  then have new: "AList.update (k e) (v e) d = d @ [(k e, v e)]"
    by (induction d) auto
  have "fold (\<lambda>e. AList.update (k e) (v e)) es (d @ [(k e, v e)])
      = (d @ [(k e, v e)]) @ List.map (\<lambda>e. (k e, v e)) es"
    using Cons.prems by (intro Cons.IH) auto
  then show ?case by (simp add: new)
qed

section \<open>Lists\<close>

text \<open>\<open>next((x for x in xs if p(x)), None)\<close>.\<close>

lemma find_SomeD: "List.find P xs = Some x \<Longrightarrow> x \<in> set xs \<and> P x"
  by (induction xs) (auto split: if_splits)

lemma find_None_iff_all: "List.find P xs = None \<longleftrightarrow> (\<forall>x\<in>set xs. \<not> P x)"
  by (induction xs) auto

lemma find_append: "List.find P (xs @ ys) = (case List.find P xs of None \<Rightarrow> List.find P ys | Some x \<Rightarrow> Some x)"
  by (induction xs) auto

lemma find_cong_pred: "(\<And>x. x \<in> set xs \<Longrightarrow> P x = Q x) \<Longrightarrow> List.find P xs = List.find Q xs"
  by (induction xs) auto

end
