(* ===== verification/Keyed_Table.thy ===== *)
theory Keyed_Table
  imports Hub_Prelude
begin

text \<open>
  The SQLite tables. A table with a primary key is the list of its rows in row order; the three
  statements the program issues against a key are \<open>UPDATE .. WHERE key = ?\<close>,
  \<open>INSERT .. ON CONFLICT(key) DO UPDATE\<close> and \<open>DELETE .. WHERE key = ?\<close>. The locale
  \<open>keyed_store\<close> states what a client may rely on, and every table of the development
  (tracking, settings, login attempts) interprets it.
\<close>

section \<open>The statements on a list of rows\<close>

definition table_get :: "('r \<Rightarrow> 'k) \<Rightarrow> 'r list \<Rightarrow> 'k \<Rightarrow> 'r option" where
  "table_get key rows k = List.find (\<lambda>r. key r = k) rows"

definition table_update :: "('r \<Rightarrow> 'k) \<Rightarrow> 'k \<Rightarrow> ('r \<Rightarrow> 'r) \<Rightarrow> 'r list \<Rightarrow> 'r list" where
  "table_update key k f rows = List.map (\<lambda>r. if key r = k then f r else r) rows"

definition table_upsert :: "('r \<Rightarrow> 'k) \<Rightarrow> 'k \<Rightarrow> 'r \<Rightarrow> ('r \<Rightarrow> 'r) \<Rightarrow> 'r list \<Rightarrow> 'r list" where
  "table_upsert key k new f rows =
     (if \<exists>r\<in>set rows. key r = k then table_update key k f rows else rows @ [new])"

definition table_delete :: "('r \<Rightarrow> 'k) \<Rightarrow> 'k \<Rightarrow> 'r list \<Rightarrow> 'r list" where
  "table_delete key k rows = List.filter (\<lambda>r. key r \<noteq> k) rows"

text \<open>The primary key constraint.\<close>

definition table_ok :: "('r \<Rightarrow> 'k) \<Rightarrow> 'r list \<Rightarrow> bool" where
  "table_ok key rows \<longleftrightarrow> distinct (List.map key rows)"

lemma table_get_None_iff: "table_get key rows k = None \<longleftrightarrow> (\<forall>r\<in>set rows. key r \<noteq> k)"
  by (simp add: table_get_def find_None_iff_all)

lemma table_get_SomeD: "table_get key rows k = Some r \<Longrightarrow> r \<in> set rows \<and> key r = k"
  by (auto simp: table_get_def dest: find_SomeD)

lemma table_get_update:
  assumes "\<And>r. key r = k \<Longrightarrow> key (f r) = k"
  shows "table_get key (table_update key k f rows) k' =
     (if k' = k then map_option f (table_get key rows k) else table_get key rows k')"
  using assms by (induction rows) (auto simp: table_get_def table_update_def)

lemma table_get_append_new:
  "table_get key (rows @ [new]) k =
     (case table_get key rows k of None \<Rightarrow> if key new = k then Some new else None | Some r \<Rightarrow> Some r)"
  by (induction rows) (auto simp: table_get_def)

lemma table_get_upsert:
  assumes "\<And>r. key r = k \<Longrightarrow> key (f r) = k" and "key new = k"
  shows "table_get key (table_upsert key k new f rows) k' =
     (if k' = k then Some (case table_get key rows k of None \<Rightarrow> new | Some r \<Rightarrow> f r)
      else table_get key rows k')"
proof (cases "\<exists>r\<in>set rows. key r = k")
  case True
  then obtain r where "table_get key rows k = Some r"
    by (metis not_None_eq table_get_None_iff)
  then show ?thesis using True assms(1)
    by (simp add: table_upsert_def table_get_update)
next
  case False
  then have "table_get key rows k = None" by (simp add: table_get_None_iff)
  then show ?thesis using False assms(2)
    by (auto simp: table_upsert_def table_get_append_new split: option.split)
qed

lemma table_get_delete:
  "table_get key (table_delete key k rows) k' = (if k' = k then None else table_get key rows k')"
  by (induction rows) (auto simp: table_get_def table_delete_def)

lemma keys_table_update:
  assumes "\<And>r. key r = k \<Longrightarrow> key (f r) = k"
  shows "List.map key (table_update key k f rows) = List.map key rows"
  using assms by (auto simp: table_update_def)

lemma table_ok_update:
  assumes "\<And>r. key r = k \<Longrightarrow> key (f r) = k"
  shows "table_ok key (table_update key k f rows) = table_ok key rows"
  using assms keys_table_update [of key k f rows] by (simp add: table_ok_def)

lemma table_ok_upsert:
  assumes "\<And>r. key r = k \<Longrightarrow> key (f r) = k" and "key new = k" and "table_ok key rows"
  shows "table_ok key (table_upsert key k new f rows)"
proof (cases "\<exists>r\<in>set rows. key r = k")
  case True
  then show ?thesis using assms(1,3) by (simp add: table_upsert_def table_ok_update)
next
  case False
  then show ?thesis using assms(2,3) by (auto simp: table_upsert_def table_ok_def)
qed

lemma table_ok_delete: "table_ok key rows \<Longrightarrow> table_ok key (table_delete key k rows)"
  by (simp add: table_ok_def table_delete_def distinct_map_filter)

lemma table_get_mem: "table_ok key rows \<Longrightarrow> r \<in> set rows \<Longrightarrow> table_get key rows (key r) = Some r"
  by (induction rows) (auto simp: table_ok_def table_get_def)

section \<open>What a client of a keyed table relies on\<close>

locale keyed_store =
  fixes row_key :: "'r \<Rightarrow> 'k"
    and get :: "'s \<Rightarrow> 'k \<Rightarrow> 'r option"
    and change :: "'k \<Rightarrow> ('r \<Rightarrow> 'r) \<Rightarrow> 's \<Rightarrow> 's"
    and put :: "'k \<Rightarrow> 'r \<Rightarrow> ('r \<Rightarrow> 'r) \<Rightarrow> 's \<Rightarrow> 's"
    and erase :: "'k \<Rightarrow> 's \<Rightarrow> 's"
    and valid :: "'s \<Rightarrow> bool"
  assumes get_change: "(\<And>r. row_key r = k \<Longrightarrow> row_key (f r) = k) \<Longrightarrow>
      get (change k f s) k' = (if k' = k then map_option f (get s k) else get s k')"
    and get_put: "(\<And>r. row_key r = k \<Longrightarrow> row_key (f r) = k) \<Longrightarrow> row_key new = k \<Longrightarrow>
      get (put k new f s) k' =
        (if k' = k then Some (case get s k of None \<Rightarrow> new | Some r \<Rightarrow> f r) else get s k')"
    and get_erase: "get (erase k s) k' = (if k' = k then None else get s k')"
    and valid_change: "(\<And>r. row_key r = k \<Longrightarrow> row_key (f r) = k) \<Longrightarrow> valid s \<Longrightarrow> valid (change k f s)"
    and valid_put: "(\<And>r. row_key r = k \<Longrightarrow> row_key (f r) = k) \<Longrightarrow> row_key new = k \<Longrightarrow>
      valid s \<Longrightarrow> valid (put k new f s)"
    and valid_erase: "valid s \<Longrightarrow> valid (erase k s)"
begin

text \<open>A statement on one key leaves every other key as it was.\<close>

lemma change_other: "k' \<noteq> k \<Longrightarrow> (\<And>r. row_key r = k \<Longrightarrow> row_key (f r) = k) \<Longrightarrow>
    get (change k f s) k' = get s k'"
  by (simp add: get_change)

lemma put_other: "k' \<noteq> k \<Longrightarrow> (\<And>r. row_key r = k \<Longrightarrow> row_key (f r) = k) \<Longrightarrow> row_key new = k \<Longrightarrow>
    get (put k new f s) k' = get s k'"
  by (simp add: get_put)

lemma erase_other: "k' \<noteq> k \<Longrightarrow> get (erase k s) k' = get s k'"
  by (simp add: get_erase)

text \<open>The read after the write.\<close>

lemma put_read: "(\<And>r. row_key r = k \<Longrightarrow> row_key (f r) = k) \<Longrightarrow> row_key new = k \<Longrightarrow> get s k = None \<Longrightarrow>
    get (put k new f s) k = Some new"
  by (simp add: get_put)

lemma put_erase: "(\<And>r. row_key r = k \<Longrightarrow> row_key (f r) = k) \<Longrightarrow> row_key new = k \<Longrightarrow>
    get (put k new f (erase k s)) k = Some new"
  by (simp add: get_put get_erase)

lemma erase_read: "get (erase k s) k = None"
  by (simp add: get_erase)

text \<open>Two statements on different keys commute, as far as reads can tell.\<close>

lemma change_commute:
  assumes "k \<noteq> l" and "\<And>r. row_key r = k \<Longrightarrow> row_key (f r) = k"
    and "\<And>r. row_key r = l \<Longrightarrow> row_key (g r) = l"
  shows "get (change k f (change l g s)) = get (change l g (change k f s))"
  using assms by (auto simp: get_change fun_eq_iff)

end

end
