(* ===== verification/Hub_Time.thy ===== *)
theory Hub_Time
  imports Hub_Prelude
begin

text \<open>
  Instants and their text, from Python's \<open>datetime\<close>. A \<open>datetime\<close> is a count of
  microseconds since 1970-01-01 and the UTC offset it prints with (None for a value without
  a zone, whose count is of its own fields). Comparisons are on the count. The text is what
  \<open>isoformat()\<close> prints, and \<open>parse_iso\<close> reads calendar dates in the extended
  and the basic ISO form (week dates, which neither service sends, are read as no date).
\<close>

record datetime =
  dt_us :: int
  dt_off :: "int option"

definition utc_at :: "int \<Rightarrow> datetime" where
  "utc_at us = \<lparr>dt_us = us, dt_off = Some 0\<rparr>"

definition dt_before :: "datetime \<Rightarrow> datetime \<Rightarrow> bool" where
  "dt_before a b \<longleftrightarrow> dt_us a < dt_us b"

definition dt_plus_days :: "datetime \<Rightarrow> int \<Rightarrow> datetime" where
  "dt_plus_days d n = d\<lparr>dt_us := dt_us d + n * 86400000000\<rparr>"

text \<open>The proleptic Gregorian calendar, from a day count and back.\<close>

definition civil_of_days :: "int \<Rightarrow> int \<times> int \<times> int" where
  "civil_of_days z0 =
     (let z = z0 + 719468; era = z div 146097; doe = z mod 146097;
          yoe = (doe - doe div 1460 + doe div 36524 - doe div 146096) div 365;
          doy = doe - (365 * yoe + yoe div 4 - yoe div 100);
          mp = (5 * doy + 2) div 153;
          d = doy - (153 * mp + 2) div 5 + 1;
          m = (if mp < 10 then mp + 3 else mp - 9)
      in (yoe + era * 400 + (if m \<le> 2 then 1 else 0), m, d))"

definition days_of_civil :: "int \<Rightarrow> int \<Rightarrow> int \<Rightarrow> int" where
  "days_of_civil y0 m d =
     (let y = (if m \<le> 2 then y0 - 1 else y0); era = y div 400; yoe = y mod 400;
          doy = (153 * (if m > 2 then m - 3 else m + 9) + 2) div 5 + d - 1;
          doe = yoe * 365 + yoe div 4 - yoe div 100 + doy
      in era * 146097 + doe - 719468)"

definition leap_year :: "int \<Rightarrow> bool" where
  "leap_year y \<longleftrightarrow> y mod 4 = 0 \<and> (y mod 100 \<noteq> 0 \<or> y mod 400 = 0)"

definition days_in_month :: "int \<Rightarrow> int \<Rightarrow> int" where
  "days_in_month y m = (if m = 2 then (if leap_year y then 29 else 28)
     else if m \<in> {4, 6, 9, 11} then 30 else 31)"

definition pad2 :: "int \<Rightarrow> string" where
  "pad2 n = pad_left 2 (CHR ''0'') (string_of_int n)"

definition iso_date :: "int \<Rightarrow> string" where
  "iso_date days = (case civil_of_days days of (y, m, d) \<Rightarrow>
     pad_left 4 (CHR ''0'') (string_of_int y) @ ''-'' @ pad2 m @ ''-'' @ pad2 d)"

definition iso_clock :: "int \<Rightarrow> string" where
  "iso_clock s = pad2 (s div 3600) @ '':'' @ pad2 (s div 60 mod 60) @ '':'' @ pad2 (s mod 60)"

definition iso_offset :: "int \<Rightarrow> string" where
  "iso_offset off =
     (let a = \<bar>off\<bar> in (if off < 0 then ''-'' else ''+'') @ pad2 (a div 3600) @ '':'' @ pad2 (a div 60 mod 60)
       @ (if a mod 60 = 0 then '''' else '':'' @ pad2 (a mod 60)))"

definition isoformat :: "datetime \<Rightarrow> string" where
  "isoformat d =
     (let local = dt_us d + (case dt_off d of None \<Rightarrow> 0 | Some o' \<Rightarrow> o') * 1000000;
          secs = local div 1000000; us = local mod 1000000
      in iso_date (secs div 86400) @ ''T'' @ iso_clock (secs mod 86400)
         @ (if us = 0 then '''' else ''.'' @ pad_left 6 (CHR ''0'') (string_of_int us))
         @ (case dt_off d of None \<Rightarrow> '''' | Some o' \<Rightarrow> iso_offset o'))"

section \<open>Reading\<close>

text \<open>A field of exactly \<open>n\<close> digits, and the rest.\<close>

definition take_digits :: "nat \<Rightarrow> string \<Rightarrow> (int \<times> string) option" where
  "take_digits n s =
     (if length s \<ge> n \<and> list_all is_digit (take n s)
      then Some (int (nat_of_digits (take n s)), drop n s) else None)"

definition read_date :: "string \<Rightarrow> (int \<times> string) option" where
  "read_date s =
     (case take_digits 4 s of None \<Rightarrow> None | Some (y, s1) \<Rightarrow>
      let dash = (take 1 s1 = ''-''); skip = (if dash then 1 else 0) in
     (case take_digits 2 (drop skip s1) of None \<Rightarrow> None | Some (m, s2) \<Rightarrow>
      if dash \<and> take 1 s2 \<noteq> ''-'' then None else
     (case take_digits 2 (drop skip s2) of None \<Rightarrow> None | Some (d, s3) \<Rightarrow>
      if 1 \<le> y \<and> 1 \<le> m \<and> m \<le> 12 \<and> 1 \<le> d \<and> d \<le> days_in_month y m
      then Some (days_of_civil y m d, s3) else None)))"

text \<open>
  \<open>HH[:MM[:SS[.f+]]]\<close> with nothing left over, in microseconds, with the colons or without them.
  Digits past the sixth are dropped.
\<close>

definition read_fraction :: "string \<Rightarrow> int option" where
  "read_fraction s =
     (if s \<noteq> [] \<and> list_all is_digit s
      then Some (int (nat_of_digits (take 6 (s @ replicate 6 (CHR ''0''))))) else None)"

definition read_clock :: "string \<Rightarrow> int option" where
  "read_clock s =
     (case take_digits 2 s of None \<Rightarrow> None | Some (h, s1) \<Rightarrow>
      if \<not> h < 24 then None else if s1 = [] then Some (h * 3600000000) else
      let colon = (take 1 s1 = '':''); skip = (if colon then 1 else 0) in
     (case take_digits 2 (drop skip s1) of None \<Rightarrow> None | Some (m, s2) \<Rightarrow>
      if \<not> m < 60 then None else if s2 = [] then Some ((h * 60 + m) * 60000000) else
      if colon \<and> take 1 s2 \<noteq> '':'' then None else
     (case take_digits 2 (drop skip s2) of None \<Rightarrow> None | Some (sec, s3) \<Rightarrow>
      if \<not> sec < 60 then None else
      let whole = ((h * 60 + m) * 60 + sec) * 1000000 in
      if s3 = [] then Some whole else
      if take 1 s3 \<noteq> ''.'' \<and> take 1 s3 \<noteq> '','' then None else
      map_option (\<lambda>f. whole + f) (read_fraction (drop 1 s3)))))"

definition zone_start :: "char \<Rightarrow> bool" where
  "zone_start c \<longleftrightarrow> c = CHR ''+'' \<or> c = CHR ''-'' \<or> c = CHR ''Z''"

definition read_zone :: "string \<Rightarrow> int option option" where
  "read_zone s =
     (if s = [] then Some None
      else if s = ''Z'' then Some (Some 0)
      else if hd s = CHR ''Z'' then None
      else map_option (\<lambda>us. Some ((if hd s = CHR ''-'' then - 1 else 1) * (us div 1000000))) (read_clock (tl s)))"

text \<open>\<open>datetime.fromisoformat(value.replace("Z", "+00:00"))\<close>, None for its ValueError.\<close>

definition parse_iso :: "string \<Rightarrow> datetime option" where
  "parse_iso s =
     (case read_date s of None \<Rightarrow> None | Some (days, rest) \<Rightarrow>
      if rest = [] then Some \<lparr>dt_us = days * 86400000000, dt_off = None\<rparr>
      else let body = drop 1 rest; clock = takeWhile (\<lambda>c. \<not> zone_start c) body;
               zone = dropWhile (\<lambda>c. \<not> zone_start c) body in
      (case (read_clock clock, read_zone zone) of
         (Some us, Some off) \<Rightarrow>
           Some \<lparr>dt_us = days * 86400000000 + us - (case off of None \<Rightarrow> 0 | Some o' \<Rightarrow> o' * 1000000),
                 dt_off = off\<rparr>
       | _ \<Rightarrow> None))"

end
