(* ===== verification/Pacs_Contract.thy ===== *)
theory Pacs_Contract
  imports Hub_Time
begin

text \<open>
  The adapter contract of \<open>lib/pacs/base.py\<close>: the two domain models, the identities that travel
  back into a PACS, and the operations the engine calls on an adapter, as a record of functions
  over a state \<open>'p\<close> that stands for the adapter object and the PACS behind it. The adapters'
  \<open>raw\<close> dictionaries are left out: no phase reads them.
\<close>

datatype cred_status = ACTIVE | SUSPENDED | AWAITING_INSTALL | UNKNOWN

fun status_value :: "cred_status \<Rightarrow> string" where
  "status_value ACTIVE = ''active''"
| "status_value SUSPENDED = ''suspended''"
| "status_value AWAITING_INSTALL = ''awaiting_install''"
| "status_value UNKNOWN = ''unknown''"

record person =
  pe_id :: string
  pe_full_name :: string
  pe_first_name :: string
  pe_last_name :: string
  pe_email :: string
  pe_phone :: string
  pe_title :: string
  pe_department :: string
  pe_active :: bool

record credential =
  cr_id :: string
  cr_person_id :: string
  cr_card_number :: string
  cr_site_code :: string
  cr_allocate_identity :: bool
  cr_hold :: bool
  cr_file_data :: string
  cr_status :: cred_status
  cr_activate_date :: "datetime option"
  cr_deactivate_date :: "datetime option"
  cr_trigger_active :: bool

text \<open>\<open>Credential(id=.., person_id=..)\<close> and \<open>Person(id=.., full_name=..)\<close> with the field defaults.\<close>

definition mk_credential :: "string \<Rightarrow> string \<Rightarrow> credential" where
  "mk_credential i p = \<lparr>cr_id = i, cr_person_id = p, cr_card_number = '''', cr_site_code = '''',
     cr_allocate_identity = False, cr_hold = False, cr_file_data = '''', cr_status = UNKNOWN,
     cr_activate_date = None, cr_deactivate_date = None, cr_trigger_active = False\<rparr>"

definition mk_person :: "string \<Rightarrow> string \<Rightarrow> person" where
  "mk_person i n = \<lparr>pe_id = i, pe_full_name = n, pe_first_name = '''', pe_last_name = '''',
     pe_email = '''', pe_phone = '''', pe_title = '''', pe_department = '''', pe_active = True\<rparr>"

record identity =
  id_site_code :: string
  id_card_number :: string
  id_activate_date :: "datetime option"
  id_deactivate_date :: "datetime option"
  id_device_type :: string

definition identity_key :: "identity \<Rightarrow> string \<times> string" where
  "identity_key i = (id_site_code i, id_card_number i)"

text \<open>
  The operations of \<open>PacsAdapter\<close>. A capability an adapter does not define reads as False, as
  \<open>getattr(pacs, "supports_..", False)\<close> does, and \<open>pacs_finish_cycle\<close> is None for an adapter
  without one. The engine asks for one capability without that default:
  \<open>pacs_declares_writeback\<close> is whether the adapter defines it at all.
\<close>

record 'p pacs_api =
  pacs_declares_writeback :: bool
  pacs_supports_status_writeback :: "'p \<Rightarrow> bool"
  pacs_supports_credential_writeback :: "'p \<Rightarrow> bool"
  pacs_supports_credential_retirement :: "'p \<Rightarrow> bool"
  pacs_list_people :: "('p, person list) comp"
  pacs_list_credentials :: "string \<Rightarrow> ('p, credential list) comp"
  pacs_update_credential_status :: "string \<Rightarrow> string \<Rightarrow> cred_status \<Rightarrow> ('p, bool) comp"
  pacs_write_back_credentials :: "string \<Rightarrow> string \<Rightarrow> identity list \<Rightarrow> ('p, bool) comp"
  pacs_retire_credentials :: "string \<Rightarrow> string \<Rightarrow> identity list \<Rightarrow> ('p, nat) comp"
  pacs_written_credentials :: "('p, ((string \<times> string) \<times> string list) list) comp"
  pacs_finish_cycle :: "('p, unit) comp option"

text \<open>\<open>next((c for c in creds if c.id == credential_id), None)\<close>, which every phase starts from.\<close>

definition find_cred :: "credential list \<Rightarrow> string \<Rightarrow> credential option" where
  "find_cred creds cid = List.find (\<lambda>c. cr_id c = cid) creds"

lemma find_cred_SomeD: "find_cred creds cid = Some c \<Longrightarrow> c \<in> set creds \<and> cr_id c = cid"
  by (auto simp: find_cred_def dest: find_SomeD)

lemma find_cred_None: "find_cred creds cid = None \<longleftrightarrow> (\<forall>c\<in>set creds. cr_id c \<noteq> cid)"
  by (simp add: find_cred_def find_None_iff_all)

end
