(* ===== verification/Tracking.thy ===== *)
theory Tracking
  imports Keyed_Table Pacs_Contract
begin

text \<open>
  \<open>sync/tracking.py\<close>: the \<open>ag_credentials\<close> table, one row per (person, credential) ever
  provisioned. A row is the \<open>TrackedCredential\<close> the module reads back (a NULL text column and
  an empty one read the same) with its two timestamps. The code stores those as ISO text cut to
  the second, which orders as the instants do; rows stamped within one second, whose order the
  database leaves open, are ordered here by the instant and then by row. Each operation is the
  SQL statement the function issues.
\<close>

record tracked =
  t_person_id :: string
  t_credential_id :: string
  t_ag_card_id :: "string option"
  t_full_name :: string
  t_employee_id :: string
  t_status :: string
  t_last_synced_email :: string
  t_last_synced_phone :: string
  t_last_synced_full_name :: string
  t_last_synced_title :: string
  t_last_known_ag_state :: string
  t_sync_error :: "string option"
  t_retry_count :: nat
  t_sync_ref :: string
  t_last_synced_expiration :: "string option"
  t_created_at :: int
  t_updated_at :: int

type_synonym key = "string \<times> string"
type_synonym table = "tracked list"

definition t_key :: "tracked \<Rightarrow> key" where
  "t_key t = (t_person_id t, t_credential_id t)"

text \<open>\<open>if tracked.ag_card_id\<close>: a NULL and an empty id are both no card.\<close>

definition has_card :: "tracked \<Rightarrow> bool" where
  "has_card t \<longleftrightarrow> t_ag_card_id t \<noteq> None \<and> t_ag_card_id t \<noteq> Some ''''"

definition card_ref :: "tracked \<Rightarrow> string" where
  "card_ref t = (case t_ag_card_id t of None \<Rightarrow> '''' | Some i \<Rightarrow> i)"

section \<open>Reads\<close>

definition all_tracked :: "table \<Rightarrow> tracked list" where
  "all_tracked rows = sort_key t_created_at rows"

definition tracking_get :: "table \<Rightarrow> string \<Rightarrow> string \<Rightarrow> tracked option" where
  "tracking_get rows p c = table_get t_key rows (p, c)"

definition get_by_ag_card_id :: "table \<Rightarrow> string \<Rightarrow> tracked option" where
  "get_by_ag_card_id rows i = List.find (\<lambda>t. t_ag_card_id t = Some i) rows"

definition failed_records :: "nat \<Rightarrow> table \<Rightarrow> tracked list" where
  "failed_records max_retries rows = sort_key t_updated_at
     (List.filter (\<lambda>t. t_sync_error t \<noteq> None \<and> t_retry_count t < max_retries \<and> t_ag_card_id t = None) rows)"

section \<open>Writes\<close>

text \<open>
  The values \<open>upsert\<close> is called with. An existing row keeps its retry count, its created time,
  its last expiry, and its reference when the caller gives none.
\<close>

record upsert_args =
  u_person_id :: string
  u_credential_id :: string
  u_ag_card_id :: "string option"
  u_full_name :: string
  u_employee_id :: string
  u_status :: string
  u_email :: string
  u_phone :: string
  u_synced_full_name :: string
  u_title :: string
  u_ag_state :: string
  u_sync_ref :: string

definition upsert_row :: "int \<Rightarrow> upsert_args \<Rightarrow> tracked \<Rightarrow> tracked" where
  "upsert_row now u t = t\<lparr>
     t_ag_card_id := u_ag_card_id u,
     t_full_name := u_full_name u,
     t_employee_id := u_employee_id u,
     t_status := u_status u,
     t_last_synced_email := u_email u,
     t_last_synced_phone := u_phone u,
     t_last_synced_full_name := u_synced_full_name u,
     t_last_synced_title := u_title u,
     t_last_known_ag_state := u_ag_state u,
     t_sync_ref := (if u_sync_ref u = '''' then t_sync_ref t else u_sync_ref u),
     t_sync_error := None,
     t_updated_at := now\<rparr>"

definition insert_row :: "int \<Rightarrow> upsert_args \<Rightarrow> tracked" where
  "insert_row now u = \<lparr>
     t_person_id = u_person_id u, t_credential_id = u_credential_id u,
     t_ag_card_id = u_ag_card_id u, t_full_name = u_full_name u,
     t_employee_id = u_employee_id u, t_status = u_status u,
     t_last_synced_email = u_email u, t_last_synced_phone = u_phone u,
     t_last_synced_full_name = u_synced_full_name u, t_last_synced_title = u_title u,
     t_last_known_ag_state = u_ag_state u, t_sync_error = None, t_retry_count = 0,
     t_sync_ref = u_sync_ref u, t_last_synced_expiration = None,
     t_created_at = now, t_updated_at = now\<rparr>"

definition upsert :: "int \<Rightarrow> upsert_args \<Rightarrow> table \<Rightarrow> table" where
  "upsert now u rows = table_upsert t_key (u_person_id u, u_credential_id u)
     (insert_row now u) (upsert_row now u) rows"

definition update_status :: "int \<Rightarrow> string \<Rightarrow> string \<Rightarrow> string \<Rightarrow> string \<Rightarrow> table \<Rightarrow> table" where
  "update_status now p c status ag_state rows = table_update t_key (p, c)
     (\<lambda>t. t\<lparr>t_status := status,
            t_last_known_ag_state := (if ag_state = '''' then t_last_known_ag_state t else ag_state),
            t_sync_error := None, t_retry_count := 0, t_updated_at := now\<rparr>) rows"

definition mark_deleted :: "int \<Rightarrow> string \<Rightarrow> string \<Rightarrow> table \<Rightarrow> table" where
  "mark_deleted now p c rows = table_update t_key (p, c)
     (\<lambda>t. t\<lparr>t_status := ''deleted'', t_last_known_ag_state := ''deleted'', t_ag_card_id := None,
            t_sync_error := None, t_retry_count := 0, t_updated_at := now\<rparr>) rows"

definition record_error :: "int \<Rightarrow> string \<Rightarrow> string \<Rightarrow> string \<Rightarrow> table \<Rightarrow> table" where
  "record_error now p c err rows = table_update t_key (p, c)
     (\<lambda>t. t\<lparr>t_sync_error := Some err, t_retry_count := Suc (t_retry_count t), t_updated_at := now\<rparr>) rows"

definition tracking_remove :: "string \<Rightarrow> string \<Rightarrow> table \<Rightarrow> table" where
  "tracking_remove p c rows = table_delete t_key (p, c) rows"

definition update_field_tracking ::
    "int \<Rightarrow> string \<Rightarrow> string \<Rightarrow> string \<Rightarrow> string \<Rightarrow> string \<Rightarrow> string \<Rightarrow> string \<Rightarrow> table \<Rightarrow> table" where
  "update_field_tracking now p c full_name email phone title expiration rows =
     table_update t_key (p, c)
     (\<lambda>t. t\<lparr>t_last_synced_full_name := full_name, t_last_synced_email := email,
            t_last_synced_phone := phone, t_last_synced_title := title,
            t_last_synced_expiration := Some expiration, t_updated_at := now\<rparr>) rows"

definition update_last_known_ag_state :: "int \<Rightarrow> string \<Rightarrow> string \<Rightarrow> string \<Rightarrow> table \<Rightarrow> table" where
  "update_last_known_ag_state now p c ag_state rows = table_update t_key (p, c)
     (\<lambda>t. t\<lparr>t_last_known_ag_state := ag_state, t_updated_at := now\<rparr>) rows"

definition deduped_row :: "int \<Rightarrow> string \<Rightarrow> string \<Rightarrow> string option \<Rightarrow> string \<Rightarrow> tracked" where
  "deduped_row now p c existing full_name = \<lparr>
     t_person_id = p, t_credential_id = c, t_ag_card_id = existing, t_full_name = full_name,
     t_employee_id = p, t_status = ''deduped'', t_last_synced_email = '''',
     t_last_synced_phone = '''', t_last_synced_full_name = full_name, t_last_synced_title = '''',
     t_last_known_ag_state = '''', t_sync_error = None, t_retry_count = 0, t_sync_ref = '''',
     t_last_synced_expiration = None, t_created_at = now, t_updated_at = now\<rparr>"

definition mark_deduped :: "int \<Rightarrow> string \<Rightarrow> string \<Rightarrow> string option \<Rightarrow> string \<Rightarrow> table \<Rightarrow> table" where
  "mark_deduped now p c existing full_name rows = table_upsert t_key (p, c)
     (deduped_row now p c existing full_name)
     (\<lambda>t. t\<lparr>t_ag_card_id := existing, t_status := ''deduped'', t_sync_error := None, t_updated_at := now\<rparr>)
     rows"

text \<open>\<open>label\<close>: how the logs name a tracked pass.\<close>

definition label :: "tracked \<Rightarrow> string" where
  "label t = (let who = t_person_id t @ ''/'' @ t_credential_id t in
     if t_full_name t = '''' then who else who @ '' ('' @ t_full_name t @ '')'')"

section \<open>The table as a keyed store\<close>

interpretation rows: keyed_store t_key "table_get t_key" "table_update t_key" "table_upsert t_key"
    "table_delete t_key" "table_ok t_key"
  by unfold_locales
    (auto simp: table_get_update table_get_upsert table_get_delete table_ok_update table_ok_upsert
       table_ok_delete)

lemmas write_defs = upsert_def update_status_def mark_deleted_def record_error_def tracking_remove_def
  update_field_tracking_def update_last_known_ag_state_def mark_deduped_def

lemma t_key_updates [simp]:
  "t_key (upsert_row now u t) = t_key t"
  "t_key (t\<lparr>t_status := x1\<rparr>) = t_key t" "t_key (t\<lparr>t_last_known_ag_state := x2\<rparr>) = t_key t"
  "t_key (t\<lparr>t_ag_card_id := x3\<rparr>) = t_key t" "t_key (t\<lparr>t_sync_error := x4\<rparr>) = t_key t"
  "t_key (t\<lparr>t_retry_count := x5\<rparr>) = t_key t" "t_key (t\<lparr>t_updated_at := x6\<rparr>) = t_key t"
  "t_key (t\<lparr>t_last_synced_full_name := x7\<rparr>) = t_key t" "t_key (t\<lparr>t_last_synced_email := x8\<rparr>) = t_key t"
  "t_key (t\<lparr>t_last_synced_phone := x9\<rparr>) = t_key t" "t_key (t\<lparr>t_last_synced_title := x10\<rparr>) = t_key t"
  "t_key (t\<lparr>t_last_synced_expiration := x11\<rparr>) = t_key t"
  by (simp_all add: t_key_def upsert_row_def)

lemma t_key_new [simp]:
  "t_key (insert_row now u) = (u_person_id u, u_credential_id u)"
  "t_key (deduped_row now p c existing n) = (p, c)"
  by (simp_all add: t_key_def insert_row_def deduped_row_def)

text \<open>Every write preserves the primary key, and touches no row but its own.\<close>

lemma table_ok_writes [intro, simp]:
  assumes "table_ok t_key rows"
  shows "table_ok t_key (upsert now u rows)"
    and "table_ok t_key (update_status now p c st ag rows)"
    and "table_ok t_key (mark_deleted now p c rows)"
    and "table_ok t_key (record_error now p c err rows)"
    and "table_ok t_key (tracking_remove p c rows)"
    and "table_ok t_key (update_field_tracking now p c nm em ph ti ex rows)"
    and "table_ok t_key (update_last_known_ag_state now p c ag rows)"
    and "table_ok t_key (mark_deduped now p c existing nm rows)"
  using assms
  by (simp_all add: write_defs rows.valid_put rows.valid_change rows.valid_erase)

lemma get_write_other [simp]:
  assumes "(p', c') \<noteq> (p, c)"
  shows "tracking_get (update_status now p c st ag rows) p' c' = tracking_get rows p' c'"
    and "tracking_get (mark_deleted now p c rows) p' c' = tracking_get rows p' c'"
    and "tracking_get (record_error now p c err rows) p' c' = tracking_get rows p' c'"
    and "tracking_get (tracking_remove p c rows) p' c' = tracking_get rows p' c'"
    and "tracking_get (update_field_tracking now p c nm em ph ti ex rows) p' c' = tracking_get rows p' c'"
    and "tracking_get (update_last_known_ag_state now p c ag rows) p' c' = tracking_get rows p' c'"
    and "tracking_get (mark_deduped now p c existing nm rows) p' c' = tracking_get rows p' c'"
  using assms
  by (auto simp: tracking_get_def write_defs rows.change_other rows.put_other rows.erase_other)

lemma get_upsert_other [simp]:
  "(p', c') \<noteq> (u_person_id u, u_credential_id u) \<Longrightarrow>
   tracking_get (upsert now u rows) p' c' = tracking_get rows p' c'"
  by (auto simp: tracking_get_def write_defs rows.put_other)

lemma get_upsert:
  "tracking_get (upsert now u rows) (u_person_id u) (u_credential_id u) =
     Some (case tracking_get rows (u_person_id u) (u_credential_id u) of
             None \<Rightarrow> insert_row now u | Some t \<Rightarrow> upsert_row now u t)"
  by (simp add: tracking_get_def upsert_def rows.get_put)

lemma get_mark_deleted:
  "tracking_get (mark_deleted now p c rows) p c =
     map_option (\<lambda>t. t\<lparr>t_status := ''deleted'', t_last_known_ag_state := ''deleted'', t_ag_card_id := None,
            t_sync_error := None, t_retry_count := 0, t_updated_at := now\<rparr>) (tracking_get rows p c)"
  by (simp add: tracking_get_def mark_deleted_def rows.get_change)

lemma get_update_last_known:
  "tracking_get (update_last_known_ag_state now p c s rows) p c =
     map_option (\<lambda>t. t\<lparr>t_last_known_ag_state := s, t_updated_at := now\<rparr>) (tracking_get rows p c)"
  by (simp add: tracking_get_def update_last_known_ag_state_def rows.get_change)

lemma get_update_status:
  "tracking_get (update_status now p c st ag rows) p c =
     map_option (\<lambda>t. t\<lparr>t_status := st,
            t_last_known_ag_state := (if ag = '''' then t_last_known_ag_state t else ag),
            t_sync_error := None, t_retry_count := 0, t_updated_at := now\<rparr>) (tracking_get rows p c)"
  by (simp add: tracking_get_def update_status_def rows.get_change)

lemma get_record_error:
  "tracking_get (record_error now p c err rows) p c =
     map_option (\<lambda>t. t\<lparr>t_sync_error := Some err, t_retry_count := Suc (t_retry_count t), t_updated_at := now\<rparr>)
       (tracking_get rows p c)"
  by (simp add: tracking_get_def record_error_def rows.get_change)

lemma get_remove: "tracking_get (tracking_remove p c rows) p c = None"
  by (simp add: tracking_get_def tracking_remove_def rows.erase_read)

lemma all_tracked_set [simp]: "set (all_tracked rows) = set rows"
  by (simp add: all_tracked_def)

lemma failed_records_set:
  "t \<in> set (failed_records n rows) \<longleftrightarrow>
     t \<in> set rows \<and> t_sync_error t \<noteq> None \<and> t_retry_count t < n \<and> t_ag_card_id t = None"
  by (auto simp: failed_records_def)

lemma failed_records_sorted: "sorted (List.map t_updated_at (failed_records n rows))"
  by (simp add: failed_records_def)

lemma all_tracked_get: "table_ok t_key rows \<Longrightarrow> t \<in> set (all_tracked rows) \<Longrightarrow>
    tracking_get rows (t_person_id t) (t_credential_id t) = Some t"
  using table_get_mem [of t_key rows t] by (simp add: tracking_get_def t_key_def)

section \<open>The life of a row\<close>

text \<open>
  The steps a row can take, one rule per statement that writes it. A row is gone once it is
  deleted from the table.
\<close>

inductive row_step :: "tracked option \<Rightarrow> tracked option \<Rightarrow> bool" where
  issue: "row_step None (Some (insert_row now u))"
| reissue: "row_step (Some t) (Some (upsert_row now u t))"
| dedupe_new: "row_step None (Some (deduped_row now p c e n))"
| dedupe: "row_step (Some t) (Some (t\<lparr>t_ag_card_id := e, t_status := ''deduped'', t_sync_error := None, t_updated_at := now\<rparr>))"
| status: "row_step (Some t) (Some (t\<lparr>t_status := st, t_last_known_ag_state := ag, t_sync_error := None,
     t_retry_count := 0, t_updated_at := now\<rparr>))"
| fail: "row_step (Some t) (Some (t\<lparr>t_sync_error := Some err, t_retry_count := Suc (t_retry_count t), t_updated_at := now\<rparr>))"
| deleted: "row_step (Some t) (Some (t\<lparr>t_status := ''deleted'', t_last_known_ag_state := ''deleted'',
     t_ag_card_id := None, t_sync_error := None, t_retry_count := 0, t_updated_at := now\<rparr>))"
| fields: "row_step (Some t) (Some (t\<lparr>t_last_synced_full_name := nm, t_last_synced_email := em,
     t_last_synced_phone := ph, t_last_synced_title := ti, t_last_synced_expiration := Some ex, t_updated_at := now\<rparr>))"
| state: "row_step (Some t) (Some (t\<lparr>t_last_known_ag_state := ag, t_updated_at := now\<rparr>))"
| forget: "row_step (Some t) None"

inductive_cases row_step_Some: "row_step (Some t) (Some t')"
inductive_cases row_step_None: "row_step None r"

text \<open>No statement moves a row to another key, changes when it was created, or loses its reference.\<close>

lemma row_step_stable:
  assumes "row_step (Some t) (Some t')"
  shows "t_key t' = t_key t \<and> t_created_at t' = t_created_at t \<and>
     (t_sync_ref t \<noteq> '''' \<longrightarrow> t_sync_ref t' \<noteq> '''')"
  using assms by (rule row_step_Some) (auto simp: t_key_def upsert_row_def)

end
