(* ===== verification/Ag_Client.thy ===== *)
theory Ag_Client
  imports Hub_Time
begin

text \<open>
  AccessGrid as \<open>ag/__init__.py\<close> and the phases see it. The SDK (the \<open>accessgrid\<close> package) is not
  part of the repository: its calls are the fields of a record of functions over a state \<open>'a\<close>
  that stands for the service. A pass, one of its cards or one device entry is a set of scalar
  attributes, read with \<open>getattr(obj, k, None)\<close> or \<open>obj.get(k)\<close> alike; a pass also has its
  metadata and its collections of entries.
\<close>

record ag_entry =
  ae_attrs :: "(string \<times> pyval) list"

record ag_card = ag_entry +
  ac_metadata :: "(string \<times> pyval) list"
  ac_collections :: "(string \<times> ag_entry list) list"

definition attr_of :: "'z ag_entry_scheme \<Rightarrow> string \<Rightarrow> pyval" where
  "attr_of e k = dget (ae_attrs e) k"

text \<open>\<open>getattr(card, collection, None) or []\<close>.\<close>

definition entries_of :: "ag_card \<Rightarrow> string \<Rightarrow> ag_entry list" where
  "entries_of c k = dict_list (ac_collections c) k"

text \<open>\<open>(getattr(card, "state", "") or "").lower()\<close>.\<close>

definition card_state :: "'z ag_entry_scheme \<Rightarrow> string" where
  "card_state c = (if truthy (attr_of c ''state'') then py_lower (py_str (attr_of c ''state'')) else '''')"

definition card_state_opt :: "ag_card option \<Rightarrow> string" where
  "card_state_opt c = (case c of None \<Rightarrow> '''' | Some x \<Rightarrow> card_state x)"

text \<open>The keyword arguments of \<open>access_cards.provision\<close>; None is an argument not passed.\<close>

record provision_params =
  pp_card_template_id :: string
  pp_employee_id :: string
  pp_full_name :: string
  pp_start_date :: string
  pp_expiration_date :: string
  pp_metadata :: "(string \<times> string) list"
  pp_file_data :: "string option"
  pp_site_code :: "nat option"
  pp_card_number :: "string option"
  pp_email :: "string option"
  pp_phone_number :: "string option"
  pp_title :: "string option"
  pp_classification :: "string option"

record 'a ag_api =
  api_list_cards :: "string \<Rightarrow> ('a, ag_card list) comp"
  api_get :: "string \<Rightarrow> ('a, ag_card) comp"
  api_provision :: "provision_params \<Rightarrow> ('a, ag_card) comp"
  api_suspend :: "string \<Rightarrow> ('a, unit) comp"
  api_resume :: "string \<Rightarrow> ('a, unit) comp"
  api_delete :: "string \<Rightarrow> ('a, unit) comp"
  api_update :: "string \<Rightarrow> (string \<times> string) list \<Rightarrow> ('a, unit) comp"

section \<open>Listing a template's passes\<close>

text \<open>
  \<open>list_cards\<close> asks for one page after another until a page is empty or the server's own count
  of pages is reached. The response of one page is its cards and its \<open>total_pages\<close>. The loop has
  no bound of its own: a server that keeps raising \<open>total_pages\<close> keeps it going, so the result
  is an option, None when it never returns.
\<close>

partial_function (option) list_cards_from ::
    "(nat \<Rightarrow> ('a, ag_card list \<times> int option) comp) \<Rightarrow> nat \<Rightarrow> ag_card list \<Rightarrow> 'a \<Rightarrow>
     ((exn + ag_card list) \<times> 'a) option" where
  "list_cards_from page_of page cards s =
     (case page_of page s of
        (Inl e, s') \<Rightarrow> Some (Inl e, s')
      | (Inr (keys, total_pages), s') \<Rightarrow>
          (if keys = [] \<or> int page \<ge> (case total_pages of None \<Rightarrow> 1 | Some t \<Rightarrow> if t = 0 then 1 else t)
           then Some (Inr (cards @ keys), s')
           else list_cards_from page_of (Suc page) (cards @ keys) s'))"

definition list_cards :: "(nat \<Rightarrow> ('a, ag_card list \<times> int option) comp) \<Rightarrow> 'a \<Rightarrow>
    ((exn + ag_card list) \<times> 'a) option" where
  "list_cards page_of s = list_cards_from page_of 1 [] s"

text \<open>
  A server that answers \<open>n\<close> non-empty pages, and says so on each, is read whole: every card of
  every page, in order.
\<close>

lemma list_cards_from_complete:
  assumes "\<And>p t. 1 \<le> p \<Longrightarrow> p \<le> n \<Longrightarrow> page_of p t = (Inr (pages p, Some (int n)), t)"
    and "\<And>p. 1 \<le> p \<Longrightarrow> p \<le> n \<Longrightarrow> pages p \<noteq> []"
    and "1 \<le> p" "p \<le> n"
  shows "list_cards_from page_of p cards s =
     Some (Inr (cards @ concat (List.map pages [p..<Suc n])), s)"
  using assms(3,4)
proof (induction "n - p" arbitrary: p cards)
  case 0
  then have "p = n" by simp
  then show ?case using assms(1)[of p s] 0 by (subst list_cards_from.simps) (auto simp: Let_def)
next
  case (Suc k)
  then have lt: "p < n" and "1 \<le> p" by auto
  have "list_cards_from page_of p cards s = list_cards_from page_of (Suc p) (cards @ pages p) s"
    using assms(1)[of p s] assms(2)[of p] lt \<open>1 \<le> p\<close> by (subst list_cards_from.simps) auto
  also have "\<dots> = Some (Inr ((cards @ pages p) @ concat (List.map pages [Suc p..<Suc n])), s)"
    using Suc.hyps lt by (intro Suc.hyps(1)) auto
  finally show ?case using lt by (simp add: upt_conv_Cons)
qed

section \<open>The shape of a card template\<close>

text \<open>
  \<open>template_shape\<close>: the first non-blank protocol among the templates the id names, and whether
  it names more than one. A read that fails answers the empty protocol.
\<close>

definition first_protocol :: "ag_entry list \<Rightarrow> string" where
  "first_protocol ts =
     (case List.find (\<lambda>p. p \<noteq> '''')
        (List.map (\<lambda>t. py_lower (py_strip (if truthy (attr_of t ''protocol'') then py_str (attr_of t ''protocol'') else ''''))) ts) of
        None \<Rightarrow> '''' | Some p \<Rightarrow> p)"

definition template_shape :: "exn + ag_entry list \<Rightarrow> string \<times> bool" where
  "template_shape r = (case r of Inl _ \<Rightarrow> ('''', False) | Inr ts \<Rightarrow> (first_protocol ts, length ts > 1))"

definition template_protocol :: "exn + ag_entry list \<Rightarrow> string" where
  "template_protocol r = fst (template_shape r)"

end
