(* ===== verification/Sync_World.thy ===== *)
theory Sync_World
  imports Tracking Ag_Client
begin

text \<open>
  The state a sync cycle works on, and the calls that leave the process. The state is the
  tracking table, the one setting phase 3 keeps, the two services and the per-cycle cache of
  re-read cards. \<open>w_calls\<close> is a ghost field: every call to a service appends what was asked and
  whether it returned (True) or raised, so that a property can speak of what the program sent.

  The SDK and the adapter are records of functions (\<open>ag_api\<close>, \<open>pacs_api\<close>); \<open>refs\<close> supplies the
  references \<open>tracking.new_sync_ref\<close> draws from \<open>secrets.token_hex\<close>.
\<close>

datatype call =
    CProvision provision_params
  | CSuspend string
  | CResume string
  | CDelete string
  | CUpdate string "(string \<times> string) list"
  | CGet string
  | CList string
  | PListPeople
  | PListCredentials string
  | PUpdateStatus string string cred_status
  | PWriteBack string string "identity list"
  | PRetire string string "identity list"
  | PWritten
  | PFinish

text \<open>The calls that change something in AccessGrid, and those that change something in the PACS.\<close>

fun ag_mutation :: "call \<Rightarrow> bool" where
  "ag_mutation (CProvision _) = True"
| "ag_mutation (CSuspend _) = True"
| "ag_mutation (CResume _) = True"
| "ag_mutation (CDelete _) = True"
| "ag_mutation (CUpdate _ _) = True"
| "ag_mutation _ = False"

fun pacs_mutation :: "call \<Rightarrow> bool" where
  "pacs_mutation (PUpdateStatus _ _ _) = True"
| "pacs_mutation (PWriteBack _ _ _) = True"
| "pacs_mutation (PRetire _ _ _) = True"
| "pacs_mutation PFinish = True"
| "pacs_mutation _ = False"

record ('a, 'p) world =
  w_rows :: table
  w_last_complete :: "int option"
  w_ag :: 'a
  w_pacs :: 'p
  w_refs :: nat
  w_detail :: "(pyval \<times> ag_card) list"
  w_calls :: "(call \<times> bool) list"

type_synonym ('a, 'p, 'x) sync = "(('a, 'p) world, 'x) comp"

fun returned :: "exn + 'x \<Rightarrow> bool" where
  "returned (Inl _) = False"
| "returned (Inr _) = True"

definition ag_call :: "call \<Rightarrow> ('a, 'x) comp \<Rightarrow> ('a, 'p, 'x) sync" where
  "ag_call c m w = (case m (w_ag w) of (r, a) \<Rightarrow> (r, w\<lparr>w_ag := a, w_calls := w_calls w @ [(c, returned r)]\<rparr>))"

definition pacs_call :: "call \<Rightarrow> ('p, 'x) comp \<Rightarrow> ('a, 'p, 'x) sync" where
  "pacs_call c m w = (case m (w_pacs w) of (r, p) \<Rightarrow> (r, w\<lparr>w_pacs := p, w_calls := w_calls w @ [(c, returned r)]\<rparr>))"

text \<open>A statement on the tracking table.\<close>

definition on_rows :: "(table \<Rightarrow> table) \<Rightarrow> ('a, 'p) world \<Rightarrow> ('a, 'p) world" where
  "on_rows f w = w\<lparr>w_rows := f (w_rows w)\<rparr>"

definition new_sync_ref :: "(nat \<Rightarrow> string) \<Rightarrow> ('a, 'p) world \<Rightarrow> string \<times> ('a, 'p) world" where
  "new_sync_ref refs w = (refs (w_refs w), w\<lparr>w_refs := Suc (w_refs w)\<rparr>)"

lemma on_rows_simps [simp]:
  "w_rows (on_rows f w) = f (w_rows w)" "w_calls (on_rows f w) = w_calls w"
  "w_ag (on_rows f w) = w_ag w" "w_pacs (on_rows f w) = w_pacs w"
  "w_detail (on_rows f w) = w_detail w" "w_refs (on_rows f w) = w_refs w"
  "w_last_complete (on_rows f w) = w_last_complete w"
  by (simp_all add: on_rows_def)

lemma ag_call_keeps:
  assumes "ag_call c m w = (r, w')"
  shows "w_rows w' = w_rows w" "w_calls w' = w_calls w @ [(c, returned r)]" "w_pacs w' = w_pacs w"
    "w_detail w' = w_detail w" "w_refs w' = w_refs w" "w_last_complete w' = w_last_complete w"
  using assms by (auto simp: ag_call_def split: prod.splits)

lemma pacs_call_keeps:
  assumes "pacs_call c m w = (r, w')"
  shows "w_rows w' = w_rows w" "w_calls w' = w_calls w @ [(c, returned r)]" "w_ag w' = w_ag w"
    "w_detail w' = w_detail w" "w_refs w' = w_refs w" "w_last_complete w' = w_last_complete w"
  using assms by (auto simp: pacs_call_def split: prod.splits)

section \<open>What a step of the cycle sent\<close>

definition sends :: "(call \<Rightarrow> bool) \<Rightarrow> ('a, 'p) world \<Rightarrow> ('a, 'p) world \<Rightarrow> bool" where
  "sends P w w' \<longleftrightarrow> (\<exists>cs. w_calls w' = w_calls w @ cs \<and> list_all (\<lambda>c. P (fst c)) cs)"

definition same_row :: "string \<Rightarrow> string \<Rightarrow> ('a, 'p) world \<Rightarrow> ('a, 'p) world \<Rightarrow> bool" where
  "same_row p c w w' \<longleftrightarrow> tracking_get (w_rows w') p c = tracking_get (w_rows w) p c"

lemma sends_refl [simp, intro]: "sends P w w"
  by (simp add: sends_def)

lemma sends_same_calls: "w_calls w' = w_calls w \<Longrightarrow> sends P w w'"
  by (simp add: sends_def)

lemma sends_trans [trans]: "sends P u v \<Longrightarrow> sends P v w \<Longrightarrow> sends P u w"
  by (auto simp: sends_def)

lemma sends_mono: "sends P v w \<Longrightarrow> (\<And>c. P c \<Longrightarrow> Q c) \<Longrightarrow> sends Q v w"
  by (auto simp: sends_def list_all_iff)

lemma sends_conj: "sends P v w \<Longrightarrow> sends Q v w \<Longrightarrow> sends (\<lambda>c. P c \<and> Q c) v w"
  by (auto simp: sends_def list_all_iff)

lemma sends_updates [simp]:
  "sends P v (on_rows f w) = sends P v w" "sends P (on_rows f v) w = sends P v w"
  "sends P v (w\<lparr>w_refs := k\<rparr>) = sends P v w" "sends P (v\<lparr>w_refs := k\<rparr>) w = sends P v w"
  "sends P v (w\<lparr>w_detail := d\<rparr>) = sends P v w" "sends P (v\<lparr>w_detail := d\<rparr>) w = sends P v w"
  "sends P v (w\<lparr>w_last_complete := n\<rparr>) = sends P v w" "sends P (v\<lparr>w_last_complete := n\<rparr>) w = sends P v w"
  by (simp_all add: sends_def)

text \<open>The calls between two states of the world.\<close>

definition sent :: "('a, 'p) world \<Rightarrow> ('a, 'p) world \<Rightarrow> call list" where
  "sent w w' = List.map fst (drop (length (w_calls w)) (w_calls w'))"

lemma sends_sent: "sends P w w' \<Longrightarrow> c \<in> set (sent w w') \<Longrightarrow> P c"
  by (auto simp: sends_def sent_def list_all_iff)

lemma sends_none: "sends (\<lambda>c. \<not> P c) w w' \<Longrightarrow> List.filter P (sent w w') = []"
  by (auto simp: sends_def sent_def list_all_iff filter_empty_conv)

text \<open>The passes AccessGrid has answered an issue for.\<close>

fun is_provision :: "call \<Rightarrow> bool" where
  "is_provision (CProvision _) = True"
| "is_provision _ = False"

definition issued :: "('a, 'p) world \<Rightarrow> nat" where
  "issued w = length (List.filter (\<lambda>c. is_provision (fst c) \<and> snd c) (w_calls w))"

lemma issued_updates [simp]:
  "issued (on_rows f w) = issued w" "issued (w\<lparr>w_refs := k\<rparr>) = issued w"
  "issued (w\<lparr>w_detail := d\<rparr>) = issued w" "issued (w\<lparr>w_last_complete := n\<rparr>) = issued w"
  by (simp_all add: issued_def)

lemma issued_ag_call:
  "ag_call c m w = (r, w') \<Longrightarrow> issued w' = issued w + (if is_provision c \<and> returned r then 1 else 0)"
  by (auto simp: issued_def ag_call_keeps)

lemma issued_sends:
  assumes "sends (\<lambda>c. \<not> is_provision c) w w'"
  shows "issued w' = issued w"
  using assms by (auto simp: sends_def issued_def list_all_iff filter_empty_conv)

lemma sends_ag_call: "ag_call c m w = (r, w') \<Longrightarrow> P c \<Longrightarrow> sends P w w'"
  by (auto simp: sends_def ag_call_def split: prod.splits)

lemma sends_pacs_call: "pacs_call c m w = (r, w') \<Longrightarrow> P c \<Longrightarrow> sends P w w'"
  by (auto simp: sends_def pacs_call_def split: prod.splits)

lemma same_row_refl [simp, intro]: "same_row p c w w"
  by (simp add: same_row_def)

lemma same_row_trans [trans]: "same_row p c u v \<Longrightarrow> same_row p c v w \<Longrightarrow> same_row p c u w"
  by (simp add: same_row_def)

lemma same_row_calls [simp]:
  "ag_call x m w = (r, w') \<Longrightarrow> same_row p c w w'"
  "pacs_call x n w = (q, w') \<Longrightarrow> same_row p c w w'"
  by (auto simp: same_row_def ag_call_keeps pacs_call_keeps)

lemma sends_fold: "(\<And>x v. sends P v (f x v)) \<Longrightarrow> sends P w (fold f xs w)"
proof (induction xs arbitrary: w)
  case (Cons x xs)
  then have "sends P w (f x w)" "sends P (f x w) (fold f xs (f x w))" by blast+
  then show ?case by (auto intro: sends_trans)
qed simp

text \<open>A loop sends what its passes send, and keeps a row that every pass keeps.\<close>

lemma for_each_sends:
  assumes "\<And>x acc v. x \<in> set xs \<Longrightarrow> sends P v (snd (body x acc v))"
  shows "sends P w (snd (for_each body xs acc w))"
  using assms by (intro for_each_invariant [where P = "sends P w"]) (auto intro: sends_trans)

lemma for_each_same_row:
  assumes "\<And>x acc v. x \<in> set xs \<Longrightarrow> same_row p c v (snd (body x acc v))"
  shows "same_row p c w (snd (for_each body xs acc w))"
  using assms by (intro for_each_invariant [where P = "same_row p c w"]) (auto intro: same_row_trans)

lemma for_each_table_ok:
  assumes "table_ok t_key (w_rows w)"
    and "\<And>x acc v. x \<in> set xs \<Longrightarrow> table_ok t_key (w_rows v) \<Longrightarrow> table_ok t_key (w_rows (snd (body x acc v)))"
  shows "table_ok t_key (w_rows (snd (for_each body xs acc w)))"
  using assms by (intro for_each_invariant [where P = "\<lambda>v. table_ok t_key (w_rows v)"])

end
