(* ===== verification/Snapshot.thy ===== *)
theory Snapshot
  imports Sync_World
begin

text \<open>
  \<open>sync/snapshot.py\<close>: one coherent view of both systems per cycle. The five indexes are
  dictionaries in insertion order; the sixth, the cache of re-read cards, is written during the
  cycle and so lives in the world (\<open>w_detail\<close>). Reads of a failed cardholder leave no entry in
  \<open>sn_creds\<close>, which phase 3 tells apart from an empty one.
\<close>

record snapshot =
  sn_people :: "(string \<times> person) list"
  sn_creds :: "(string \<times> credential list) list"
  sn_by_employee :: "(pyval \<times> ag_card list) list"
  sn_by_token :: "((pyval \<times> pyval) \<times> ag_card list) list"
  sn_by_id :: "(pyval \<times> ag_card) list"
  sn_by_ref :: "(string \<times> ag_card list) list"
  sn_by_site_card :: "((string \<times> string) \<times> ag_card) list"

definition empty_snapshot :: snapshot where
  "empty_snapshot = \<lparr>sn_people = [], sn_creds = [], sn_by_employee = [], sn_by_token = [],
     sn_by_id = [], sn_by_ref = [], sn_by_site_card = []\<rparr>"

definition person_of :: "snapshot \<Rightarrow> string \<Rightarrow> person option" where
  "person_of snap pid = map_of (sn_people snap) pid"

definition creds_of :: "snapshot \<Rightarrow> string \<Rightarrow> credential list" where
  "creds_of snap pid = (case map_of (sn_creds snap) pid of None \<Rightarrow> [] | Some cs \<Rightarrow> cs)"

text \<open>The credential of a tracked row, as every phase looks it up.\<close>

definition cred_of :: "snapshot \<Rightarrow> tracked \<Rightarrow> credential option" where
  "cred_of snap t = find_cred (creds_of snap (t_person_id t)) (t_credential_id t)"

text \<open>
  The adapter holds this credential: it is on the cardholder, and every credential of that id
  is marked held.
\<close>

definition held_in :: "snapshot \<Rightarrow> string \<Rightarrow> string \<Rightarrow> bool" where
  "held_in snap p c \<longleftrightarrow> find_cred (creds_of snap p) c \<noteq> None \<and>
     list_all (\<lambda>(q, creds). q = p \<longrightarrow> list_all (\<lambda>k. cr_id k = c \<longrightarrow> cr_hold k) creds) (sn_creds snap)"

lemma held_in_mem:
  "held_in snap p c \<Longrightarrow> (p, creds) \<in> set (sn_creds snap) \<Longrightarrow> k \<in> set creds \<Longrightarrow> cr_id k = c \<Longrightarrow> cr_hold k"
  by (auto simp: held_in_def list_all_iff)

lemma held_in_cred:
  assumes "held_in snap (t_person_id t) (t_credential_id t)"
  shows "\<exists>k. cred_of snap t = Some k \<and> cr_hold k"
proof -
  obtain k where k: "find_cred (creds_of snap (t_person_id t)) (t_credential_id t) = Some k"
    using assms by (auto simp: held_in_def)
  then obtain cs where "map_of (sn_creds snap) (t_person_id t) = Some cs" "k \<in> set cs"
    by (auto simp: creds_of_def dest!: find_cred_SomeD split: option.splits)
  then show ?thesis using k assms find_cred_SomeD [OF k]
    by (auto simp: cred_of_def dest!: map_of_SomeD intro: held_in_mem)
qed

section \<open>Resolving the cards of an issue\<close>

definition resolve_ag_cards :: "snapshot \<Rightarrow> string option \<Rightarrow> string \<Rightarrow> string \<Rightarrow> string \<Rightarrow> ag_card list" where
  "resolve_ag_cards snap ag_card_id person_id credential_id sync_ref =
     (let by_ref = (if sync_ref = '''' then [] else dict_list (sn_by_ref snap) sync_ref);
          by_id = (case ag_card_id of None \<Rightarrow> None
                   | Some i \<Rightarrow> if i = '''' then None else map_of (sn_by_id snap) (PStr i))
      in if by_ref \<noteq> [] then by_ref
         else if by_id \<noteq> None then [the by_id]
         else if sync_ref \<noteq> '''' then []
         else if person_id \<noteq> '''' \<and> credential_id \<noteq> ''''
           then dict_list (sn_by_token snap) (PStr person_id, PStr credential_id)
         else [])"

definition resolve_ag_card :: "snapshot \<Rightarrow> string option \<Rightarrow> string \<Rightarrow> string \<Rightarrow> string \<Rightarrow> ag_card option" where
  "resolve_ag_card snap ag_card_id person_id credential_id sync_ref =
     (case resolve_ag_cards snap ag_card_id person_id credential_id sync_ref of
        [] \<Rightarrow> None | c # _ \<Rightarrow> Some c)"

definition resolve_tracked :: "snapshot \<Rightarrow> tracked \<Rightarrow> ag_card list" where
  "resolve_tracked snap t = resolve_ag_cards snap (t_ag_card_id t) (t_person_id t) (t_credential_id t) (t_sync_ref t)"

text \<open>One pass of the loop in \<open>detailed_cards\<close>: read the card once per cycle, keep the listed one on failure.\<close>

definition detail_step :: "'a ag_api \<Rightarrow> ag_card \<Rightarrow> ag_card list \<Rightarrow> ('a, 'p, ag_card list) sync" where
  "detail_step ag crd out w =
     (let i = attr_of crd ''id'' in
      if \<not> truthy i then (Inr (out @ [crd]), w)
      else (case map_of (w_detail w) i of
          Some c \<Rightarrow> (Inr (out @ [c]), w)
        | None \<Rightarrow>
          (case ag_call (CGet (py_str i)) (api_get ag (py_str i)) w of
             (Inl e, w1) \<Rightarrow> (Inr (out @ [crd]), w1\<lparr>w_detail := AList.update i crd (w_detail w1)\<rparr>)
           | (Inr c, w1) \<Rightarrow> (Inr (out @ [c]), w1\<lparr>w_detail := AList.update i c (w_detail w1)\<rparr>))))"

definition detailed_cards :: "'a ag_api \<Rightarrow> snapshot \<Rightarrow> tracked \<Rightarrow> ('a, 'p, ag_card list) sync" where
  "detailed_cards ag snap t = for_each (detail_step ag) (resolve_tracked snap t) []"

text \<open>The value of \<open>detailed_cards\<close>, which never raises.\<close>

definition detailed :: "'a ag_api \<Rightarrow> snapshot \<Rightarrow> tracked \<Rightarrow> ('a, 'p) world \<Rightarrow> ag_card list \<times> ('a, 'p) world" where
  "detailed ag snap t w = (case detailed_cards ag snap t w of (Inl e, w1) \<Rightarrow> ([], w1) | (Inr cs, w1) \<Rightarrow> (cs, w1))"

section \<open>Building the snapshot\<close>

definition note_person :: "person \<Rightarrow> snapshot \<Rightarrow> snapshot" where
  "note_person p snap = snap\<lparr>sn_people := AList.update (pe_id p) p (sn_people snap)\<rparr>"

text \<open>One cardholder: an inactive one has no credentials, an unread one has no entry at all.\<close>

definition read_credentials :: "'p pacs_api \<Rightarrow> string \<times> person \<Rightarrow> snapshot \<Rightarrow> ('a, 'p, snapshot) sync" where
  "read_credentials pacs pp snap w =
     (if \<not> pe_active (snd pp) then (Inr (snap\<lparr>sn_creds := AList.update (fst pp) [] (sn_creds snap)\<rparr>), w)
      else (case pacs_call (PListCredentials (fst pp)) (pacs_list_credentials pacs (fst pp)) w of
          (Inl e, w1) \<Rightarrow> (Inr snap, w1)
        | (Inr cs, w1) \<Rightarrow> (Inr (snap\<lparr>sn_creds := AList.update (fst pp) cs (sn_creds snap)\<rparr>), w1)))"

definition card_metadata :: "ag_card \<Rightarrow> string \<Rightarrow> pyval" where
  "card_metadata c k = dget (ac_metadata c) k"

text \<open>One listed card into the indexes.\<close>

definition note_card :: "ag_card \<Rightarrow> snapshot \<Rightarrow> snapshot" where
  "note_card crd snap =
     (let ref = card_metadata crd ''sync_ref'';
          emp = attr_of crd ''employee_id'';
          tok = (let t = card_metadata crd ''pacs_credential_id''
                 in if truthy t then t else card_metadata crd ''avigilon_token_id'');
          site = card_metadata crd ''site_code'';
          num = card_metadata crd ''card_number'';
          s1 = snap\<lparr>sn_by_id := AList.update (attr_of crd ''id'') crd (sn_by_id snap)\<rparr>;
          s2 = (if truthy ref then s1\<lparr>sn_by_ref := dict_append (py_str ref) crd (sn_by_ref s1)\<rparr> else s1);
          s3 = (if truthy emp then s2\<lparr>sn_by_employee := dict_append emp crd (sn_by_employee s2)\<rparr> else s2);
          s4 = (if truthy emp \<and> truthy tok then s3\<lparr>sn_by_token := dict_append (emp, tok) crd (sn_by_token s3)\<rparr> else s3)
      in if site \<noteq> PNone \<and> num \<noteq> PNone
         then s4\<lparr>sn_by_site_card := AList.update (py_str site, py_str num) crd (sn_by_site_card s4)\<rparr> else s4)"

definition build_snapshot :: "'a ag_api \<Rightarrow> 'p pacs_api \<Rightarrow> string \<Rightarrow> ('a, 'p, snapshot) sync" where
  "build_snapshot ag pacs template_id w0 =
     (let w = w0\<lparr>w_detail := []\<rparr> in
      case pacs_call PListPeople (pacs_list_people pacs) w of
        (Inl e, w1) \<Rightarrow> (Inl e, w1)
      | (Inr people, w1) \<Rightarrow>
        (let snap = fold note_person people empty_snapshot in
         case for_each (read_credentials pacs) (sn_people snap) snap w1 of
           (Inl e, w2) \<Rightarrow> (Inl e, w2)
         | (Inr snap2, w2) \<Rightarrow>
           (case ag_call (CList template_id) (api_list_cards ag template_id) w2 of
              (Inl e, w3) \<Rightarrow> (Inr snap2, w3)
            | (Inr cards, w3) \<Rightarrow> (Inr (fold note_card cards snap2), w3))))"

definition total_credentials :: "snapshot \<Rightarrow> nat" where
  "total_credentials snap = sum_list (List.map (\<lambda>e. length (snd e)) (sn_creds snap))"

definition trigger_credentials :: "snapshot \<Rightarrow> nat" where
  "trigger_credentials snap = sum_list (List.map (\<lambda>e. length (List.filter cr_trigger_active (snd e))) (sn_creds snap))"

section \<open>What the indexes hold\<close>

definition has_ref :: "string \<Rightarrow> ag_card \<Rightarrow> bool" where
  "has_ref r c \<longleftrightarrow> truthy (card_metadata c ''sync_ref'') \<and> py_str (card_metadata c ''sync_ref'') = r"

definition token_of :: "ag_card \<Rightarrow> pyval" where
  "token_of c = (if truthy (card_metadata c ''pacs_credential_id'') then card_metadata c ''pacs_credential_id''
     else card_metadata c ''avigilon_token_id'')"

definition has_token :: "pyval \<Rightarrow> pyval \<Rightarrow> ag_card \<Rightarrow> bool" where
  "has_token emp tok c \<longleftrightarrow> truthy emp \<and> truthy tok \<and> attr_of c ''employee_id'' = emp \<and> token_of c = tok"

lemma note_card_keeps [simp]:
  "sn_people (note_card c s) = sn_people s" "sn_creds (note_card c s) = sn_creds s"
  by (simp_all add: note_card_def Let_def)

lemma fold_note_card_keeps [simp]:
  "sn_people (fold note_card cards s) = sn_people s" "sn_creds (fold note_card cards s) = sn_creds s"
  by (induction cards arbitrary: s) simp_all

lemma note_card_ref: "dict_list (sn_by_ref (note_card c s)) r =
    dict_list (sn_by_ref s) r @ (if has_ref r c then [c] else [])"
  by (auto simp: note_card_def Let_def has_ref_def)

lemma note_card_token: "dict_list (sn_by_token (note_card c s)) (emp, tok) =
    dict_list (sn_by_token s) (emp, tok) @ (if has_token emp tok c then [c] else [])"
  by (auto simp: note_card_def Let_def has_token_def token_of_def)

lemma note_card_id: "map_of (sn_by_id (note_card c s)) i =
    (if i = attr_of c ''id'' then Some c else map_of (sn_by_id s) i)"
  by (simp add: note_card_def Let_def)

lemma index_by_ref: "dict_list (sn_by_ref (fold note_card cards s)) r =
    dict_list (sn_by_ref s) r @ List.filter (has_ref r) cards"
  by (induction cards arbitrary: s) (simp_all add: note_card_ref)

lemma index_by_token: "dict_list (sn_by_token (fold note_card cards s)) (emp, tok) =
    dict_list (sn_by_token s) (emp, tok) @ List.filter (has_token emp tok) cards"
  by (induction cards arbitrary: s) (simp_all add: note_card_token)

lemma index_by_id: "map_of (sn_by_id (fold note_card cards s)) i =
    (case List.find (\<lambda>c. attr_of c ''id'' = i) (rev cards) of None \<Rightarrow> map_of (sn_by_id s) i | Some c \<Rightarrow> Some c)"
  by (induction cards arbitrary: s) (auto simp: note_card_id find_append split: option.split)

text \<open>The sixth index, by what the metadata says of the physical card.\<close>

definition has_site_card :: "string \<times> string \<Rightarrow> ag_card \<Rightarrow> bool" where
  "has_site_card k c \<longleftrightarrow> card_metadata c ''site_code'' \<noteq> PNone \<and> card_metadata c ''card_number'' \<noteq> PNone \<and>
     (py_str (card_metadata c ''site_code''), py_str (card_metadata c ''card_number'')) = k"

lemma note_card_site: "map_of (sn_by_site_card (note_card c s)) k =
    (if has_site_card k c then Some c else map_of (sn_by_site_card s) k)"
  by (auto simp: note_card_def Let_def has_site_card_def)

lemma index_by_site_card: "map_of (sn_by_site_card (fold note_card cards s)) k =
    (case List.find (has_site_card k) (rev cards) of None \<Rightarrow> map_of (sn_by_site_card s) k | Some c \<Rightarrow> Some c)"
  by (induction cards arbitrary: s) (auto simp: note_card_site find_append split: option.split)

section \<open>Reading cards one by one\<close>

lemma detail_step_returns: "\<exists>out' w'. detail_step ag c out w = (Inr out', w')"
  by (auto simp: detail_step_def Let_def split: option.split sum.split prod.split)

lemma detail_step_effect:
  "sends (\<lambda>c. \<exists>i. c = CGet i) w (snd (detail_step ag c out w)) \<and>
   w_rows (snd (detail_step ag c out w)) = w_rows w \<and> w_pacs (snd (detail_step ag c out w)) = w_pacs w \<and>
   w_last_complete (snd (detail_step ag c out w)) = w_last_complete w"
  by (auto simp: detail_step_def Let_def sends_def ag_call_def split: option.split sum.split prod.split)

text \<open>\<open>detailed_cards\<close> returns, sends reads only, and changes nothing but the cache.\<close>

lemma detailed_cards_returns: "\<exists>cs w'. detailed_cards ag snap t w = (Inr cs, w')"
  unfolding detailed_cards_def by (intro for_each_total detail_step_returns)

lemma detailed_effect:
  assumes "detailed ag snap t w = (cs, w')"
  shows "sends (\<lambda>c. \<exists>i. c = CGet i) w w'" "w_rows w' = w_rows w" "w_pacs w' = w_pacs w"
    "w_last_complete w' = w_last_complete w"
proof -
  have "w' = snd (for_each (detail_step ag) (resolve_tracked snap t) [] w)"
    using assms by (auto simp: detailed_def detailed_cards_def split: prod.splits sum.splits)
  moreover have "sends (\<lambda>c. \<exists>i. c = CGet i) w (snd (for_each (detail_step ag) xs [] w))" for xs
    by (rule for_each_sends) (simp add: detail_step_effect)
  moreover have "w_rows (snd (for_each (detail_step ag) xs [] w)) = w_rows w \<and>
      w_pacs (snd (for_each (detail_step ag) xs [] w)) = w_pacs w \<and>
      w_last_complete (snd (for_each (detail_step ag) xs [] w)) = w_last_complete w" for xs
    by (rule for_each_invariant [where P = "\<lambda>v. w_rows v = w_rows w \<and> w_pacs v = w_pacs w \<and> w_last_complete v = w_last_complete w"])
      (simp_all add: detail_step_effect)
  ultimately show "sends (\<lambda>c. \<exists>i. c = CGet i) w w'" "w_rows w' = w_rows w" "w_pacs w' = w_pacs w"
    "w_last_complete w' = w_last_complete w"
    by blast+
qed

lemma detailed_quiet:
  assumes "detailed ag snap t w = (cs, w')"
  shows "sends (\<lambda>c. \<not> ag_mutation c \<and> \<not> pacs_mutation c) w w'"
  by (rule sends_mono [OF detailed_effect(1) [OF assms]]) auto

section \<open>Reading the cardholders\<close>

lemma read_credentials_keys:
  assumes "read_credentials pacs pp snap w = (Inr snap', w')" "q \<noteq> fst pp"
  shows "map_of (sn_creds snap') q = map_of (sn_creds snap) q"
  using assms by (auto simp: read_credentials_def split: if_splits sum.splits prod.splits)

lemma read_credentials_keeps:
  assumes "read_credentials pacs pp snap w = (Inr snap', w')"
  shows "sn_people snap' = sn_people snap"
  using assms by (auto simp: read_credentials_def split: if_splits sum.splits prod.splits)

lemma read_credentials_returns: "\<exists>snap' w'. read_credentials pacs pp snap w = (Inr snap', w')"
  by (auto simp: read_credentials_def split: sum.split prod.split)

text \<open>
  An adapter that cannot read a cardholder leaves no entry for them: no amount of the rest of
  the roster puts one there.
\<close>

lemma no_entry_if_unread:
  assumes "\<And>s. \<exists>e s'. pacs_list_credentials pacs pid s = (Inl e, s')"
    and "\<And>pp. pp \<in> set pps \<Longrightarrow> fst pp = pid \<Longrightarrow> pe_active (snd pp)"
    and "map_of (sn_creds snap) pid = None"
    and "for_each (read_credentials pacs) pps snap w = (Inr snap', w')"
  shows "map_of (sn_creds snap') pid = None"
proof (rule for_each_invariant_acc [where P = "\<lambda>sn _. map_of (sn_creds sn) pid = None", OF assms(3) _ assms(4)])
  fix pp a v a' v'
  assume pp: "pp \<in> set pps" and a: "map_of (sn_creds a) pid = None"
    and body: "read_credentials pacs pp a v = (Inr a', v')"
  show "map_of (sn_creds a') pid = None"
  proof (cases "fst pp = pid")
    case True
    obtain e p' where "pacs_list_credentials pacs pid (w_pacs v) = (Inl e, p')" using assms(1) by blast
    then show ?thesis using True body a assms(2) [OF pp]
      by (auto simp: read_credentials_def pacs_call_def)
  next
    case False
    then show ?thesis using a read_credentials_keys [OF body, of pid] by simp
  qed
qed

lemma fold_note_person_creds [simp]: "sn_creds (fold note_person ps s) = sn_creds s"
  by (induction ps arbitrary: s) (simp_all add: note_person_def)

lemma fold_note_person_distinct:
  "distinct (List.map fst (sn_people s)) \<Longrightarrow> distinct (List.map fst (sn_people (fold note_person ps s)))"
  by (induction ps arbitrary: s) (simp_all add: note_person_def distinct_update)

lemma build_snapshot_people:
  fixes w w' :: "('a, 'p) world"
  assumes "build_snapshot ag pacs tpl w = (Inr snap, w')"
  obtains ps snap2 and w1 w2 :: "('a, 'p) world" where
    "sn_people snap = sn_people (fold note_person ps empty_snapshot)"
    "for_each (read_credentials pacs) (sn_people snap) (fold note_person ps empty_snapshot) w1 = (Inr snap2, w2)"
    "sn_creds snap = sn_creds snap2"
proof -
  from assms obtain ps snap2 and w1 w2 :: "('a, 'p) world" where
    people: "pacs_call PListPeople (pacs_list_people pacs) (w\<lparr>w_detail := []\<rparr>) = (Inr ps, w1)"
    and loop: "for_each (read_credentials pacs) (sn_people (fold note_person ps empty_snapshot))
       (fold note_person ps empty_snapshot) w1 = (Inr snap2, w2)"
    and res: "snap = snap2 \<or> (\<exists>cards. snap = fold note_card cards snap2)"
    by (auto simp: build_snapshot_def Let_def split: prod.splits sum.splits)
  have "sn_people snap2 = sn_people (fold note_person ps empty_snapshot)"
    by (rule for_each_invariant_acc [where P = "\<lambda>sn _. sn_people sn = sn_people (fold note_person ps empty_snapshot)", OF refl _ loop])
      (simp add: read_credentials_keeps)
  then show thesis using that [of ps w1 snap2 w2] loop res by auto
qed

end
