(* ===== verification/Writeback.thy ===== *)
theory Writeback
  imports Snapshot
begin

text \<open>
  \<open>sync/phases/writeback.py\<close>: reading the identities AccessGrid allocated off the cards of an
  issue, and handing them to a PACS that receives them. A card argument is always a list here:
  the code wraps a single card into one.
\<close>

definition device_collections :: "string list" where
  "device_collections = [''details'', ''device_credentials'', ''devices'', ''credentials'']"

definition site_keys :: "string list" where
  "site_keys = [''site_code'', ''facility_code'', ''siteCode'']"

definition card_keys :: "string list" where
  "card_keys = [''card_number'', ''cardNumber'', ''number'']"

definition dead_states :: "string list" where
  "dead_states = [''deleted'', ''unlink'', ''unlinked'']"

definition installed_states :: "string list" where
  "installed_states = [''installed'', ''active'']"

definition as_datetime :: "pyval \<Rightarrow> datetime option" where
  "as_datetime v = (case v of PStr s \<Rightarrow> if py_strip s = '''' then None else parse_iso s | _ \<Rightarrow> None)"

fun first_attr :: "'z ag_entry_scheme \<Rightarrow> string list \<Rightarrow> string" where
  "first_attr e [] = ''''"
| "first_attr e (k # ks) =
     (if attr_of e k \<noteq> PNone \<and> attr_of e k \<noteq> PStr '''' then py_str (attr_of e k) else first_attr e ks)"

definition state_of :: "'z ag_entry_scheme \<Rightarrow> string" where
  "state_of e = py_lower (py_strip (first_attr e [''state'', ''status'']))"

definition is_dead :: "'z ag_entry_scheme \<Rightarrow> bool" where
  "is_dead e \<longleftrightarrow> state_of e \<in> set dead_states"

definition is_installed :: "ag_card list \<Rightarrow> bool" where
  "is_installed cards \<longleftrightarrow>
     list_ex (\<lambda>c. list_ex (\<lambda>d. state_of d \<in> set installed_states) (entries_of c ''devices'')) cards"

definition id_of_entry :: "'z ag_entry_scheme \<Rightarrow> string \<times> string" where
  "id_of_entry e = (first_attr e site_keys, first_attr e card_keys)"

text \<open>Every entry of every collection, in the order the code walks them.\<close>

definition device_entries :: "ag_card \<Rightarrow> ag_entry list" where
  "device_entries c = concat (List.map (entries_of c) device_collections)"

section \<open>The live identities\<close>

text \<open>One entry of a card: \<open>acc\<close> is what the loop has appended, whose keys are \<open>seen\<close>.\<close>

definition entry_identity :: "datetime option \<Rightarrow> datetime option \<Rightarrow> ag_entry \<Rightarrow> identity" where
  "entry_identity activate expire e =
     \<lparr>id_site_code = first_attr e site_keys, id_card_number = first_attr e card_keys,
      id_activate_date = activate,
      id_deactivate_date =
        (case as_datetime (PStr (first_attr e [''expiration_date''])) of None \<Rightarrow> expire | Some d \<Rightarrow> Some d),
      id_device_type = first_attr e [''device_type'']\<rparr>"

definition add_entry :: "datetime option \<Rightarrow> datetime option \<Rightarrow> ag_entry \<Rightarrow> identity list \<Rightarrow> identity list" where
  "add_entry activate expire e out =
     (if first_attr e card_keys = '''' \<or> id_of_entry e \<in> set (List.map identity_key out) then out
      else if is_dead e then out
      else out @ [entry_identity activate expire e])"

definition identities_from_card :: "ag_card \<Rightarrow> identity list" where
  "identities_from_card c =
     (let activate = as_datetime (attr_of c ''start_date'');
          expire = as_datetime (attr_of c ''expiration_date'');
          out = fold (add_entry activate expire) (device_entries c) [];
          (site, number) = id_of_entry c
      in if number \<noteq> '''' \<and> (site, number) \<notin> set (List.map identity_key out) \<and> \<not> is_dead c
         then out @ [\<lparr>id_site_code = site, id_card_number = number, id_activate_date = activate,
                      id_deactivate_date = expire, id_device_type = ''''\<rparr>]
         else out)"

definition add_identity :: "identity \<Rightarrow> identity list \<Rightarrow> identity list" where
  "add_identity i out = (if identity_key i \<in> set (List.map identity_key out) then out else out @ [i])"

definition identities_from_cards :: "ag_card list \<Rightarrow> identity list" where
  "identities_from_cards cards =
     fold (\<lambda>c out. fold add_identity (identities_from_card c) out) cards []"

section \<open>The deleted identities\<close>

definition add_gone :: "bool \<Rightarrow> (string \<times> string) \<times> bool \<Rightarrow> identity list \<Rightarrow> identity list" where
  "add_gone parent_dead e out =
     (case e of ((site, number), dead) \<Rightarrow>
       if number = '''' \<or> (site, number) \<in> set (List.map identity_key out) then out
       else if \<not> (parent_dead \<or> dead) then out
       else out @ [\<lparr>id_site_code = site, id_card_number = number, id_activate_date = None,
                    id_deactivate_date = None, id_device_type = ''''\<rparr>])"

definition gone_candidates :: "ag_card \<Rightarrow> ((string \<times> string) \<times> bool) list" where
  "gone_candidates c =
     List.map (\<lambda>e. (id_of_entry e, is_dead e)) (device_entries c) @ [(id_of_entry c, is_dead c)]"

definition deleted_identities_from_cards :: "ag_card list \<Rightarrow> identity list" where
  "deleted_identities_from_cards cards =
     fold (\<lambda>c out. fold (add_gone (is_dead c)) (gone_candidates c) out) cards []"

section \<open>Handing them back\<close>

definition push_allocated_identities ::
    "'p pacs_api \<Rightarrow> string \<Rightarrow> string \<Rightarrow> ag_card list \<Rightarrow> ('a, 'p) world \<Rightarrow> bool \<times> ('a, 'p) world" where
  "push_allocated_identities pacs person_id credential_id cards w =
     (if \<not> pacs_supports_credential_writeback pacs (w_pacs w) then (False, w)
      else if identities_from_cards cards = [] then (False, w)
      else (case pacs_call (PWriteBack person_id credential_id (identities_from_cards cards))
                   (pacs_write_back_credentials pacs person_id credential_id (identities_from_cards cards)) w of
              (Inl e, w1) \<Rightarrow> (False, w1)
            | (Inr b, w1) \<Rightarrow> (b, w1)))"

lemma push_effect:
  assumes "push_allocated_identities pacs p c cards w = (b, w')"
  shows "w_rows w' = w_rows w" "w_last_complete w' = w_last_complete w" "w_ag w' = w_ag w"
    "w_detail w' = w_detail w" "w_refs w' = w_refs w"
    "sends (\<lambda>x. x = PWriteBack p c (identities_from_cards cards)) w w'"
  using assms
  by (auto simp: push_allocated_identities_def pacs_call_def sends_def split: if_splits prod.splits sum.splits)

section \<open>What the readers return\<close>

lemma identities_distinct_step:
  "distinct (List.map identity_key out) \<Longrightarrow> distinct (List.map identity_key (add_identity i out))"
  by (auto simp: add_identity_def)

lemma distinct_fold_add_identity:
  "distinct (List.map identity_key out) \<Longrightarrow> distinct (List.map identity_key (fold add_identity is out))"
  by (induction "is" arbitrary: out) (simp_all add: identities_distinct_step)

lemma fold_add_identity_keys:
  "set (List.map identity_key (fold add_identity is out)) = set (List.map identity_key out) \<union> identity_key ` set is"
  by (induction "is" arbitrary: out) (auto simp: add_identity_def)

lemma identities_from_cards_snoc:
  "identities_from_cards (cards @ [c]) = fold add_identity (identities_from_card c) (identities_from_cards cards)"
  by (simp add: identities_from_cards_def)

lemma identities_from_cards_distinct: "distinct (List.map identity_key (identities_from_cards cards))"
proof (induction cards rule: rev_induct)
  case Nil
  then show ?case by (simp add: identities_from_cards_def)
next
  case (snoc c cards)
  then show ?case by (simp only: identities_from_cards_snoc distinct_fold_add_identity)
qed

lemma identities_from_cards_keys:
  "identity_key ` set (identities_from_cards cards) = (\<Union>c\<in>set cards. identity_key ` set (identities_from_card c))"
proof (induction cards rule: rev_induct)
  case Nil
  then show ?case by (simp add: identities_from_cards_def)
next
  case (snoc c cards)
  then show ?case
    using fold_add_identity_keys [of "identities_from_card c" "identities_from_cards cards"]
    by (auto simp: identities_from_cards_snoc)
qed

text \<open>The keys a card's own loop collects are those of its live, numbered entries.\<close>

definition live_keys :: "ag_card \<Rightarrow> (string \<times> string) set" where
  "live_keys c = id_of_entry ` {e \<in> set (device_entries c). \<not> is_dead e \<and> first_attr e card_keys \<noteq> ''''}
     \<union> (if is_dead c \<or> first_attr c card_keys = '''' then {} else {id_of_entry c})"

lemma entry_identity_key [simp]: "identity_key (entry_identity a x e) = id_of_entry e"
  by (simp add: identity_key_def entry_identity_def id_of_entry_def)

lemma fold_add_entry_keys:
  "identity_key ` set (fold (add_entry a x) es out) =
     identity_key ` set out \<union> id_of_entry ` {e \<in> set es. \<not> is_dead e \<and> first_attr e card_keys \<noteq> ''''}"
  by (induction es arbitrary: out) (auto simp: add_entry_def)

lemma identities_from_card_keys: "identity_key ` set (identities_from_card c) = live_keys c"
  using fold_add_entry_keys [of "as_datetime (attr_of c ''start_date'')" "as_datetime (attr_of c ''expiration_date'')" "device_entries c" "[]"]
  by (auto simp: identities_from_card_def Let_def live_keys_def id_of_entry_def identity_key_def split: if_splits)

definition dead_keys :: "ag_card \<Rightarrow> (string \<times> string) set" where
  "dead_keys c = fst ` {e \<in> set (gone_candidates c). (is_dead c \<or> snd e) \<and> snd (fst e) \<noteq> ''''}"

lemma fold_add_gone_keys:
  "identity_key ` set (fold (add_gone d) es out) =
     identity_key ` set out \<union> fst ` {e \<in> set es. (d \<or> snd e) \<and> snd (fst e) \<noteq> ''''}"
proof (induction es arbitrary: out)
  case Nil
  then show ?case by simp
next
  case (Cons e es)
  obtain site number dead where e: "e = ((site, number), dead)" by (metis prod.collapse)
  have step: "identity_key ` set (add_gone d e out) = identity_key ` set out \<union>
      (if (d \<or> dead) \<and> number \<noteq> '''' then {(site, number)} else {})"
    by (auto simp: add_gone_def e identity_key_def)
  have split: "fst ` {x \<in> set (e # es). (d \<or> snd x) \<and> snd (fst x) \<noteq> ''''} =
      (if (d \<or> dead) \<and> number \<noteq> '''' then {(site, number)} else {}) \<union>
      fst ` {x \<in> set es. (d \<or> snd x) \<and> snd (fst x) \<noteq> ''''}"
    by (auto simp: e image_iff)
  show ?case unfolding split using Cons [of "add_gone d e out"] step by simp
qed

lemma deleted_identities_keys:
  "identity_key ` set (deleted_identities_from_cards cards) = (\<Union>c\<in>set cards. dead_keys c)"
proof -
  have "identity_key ` set (fold (\<lambda>c out. fold (add_gone (is_dead c)) (gone_candidates c) out) cards out) =
      identity_key ` set out \<union> (\<Union>c\<in>set cards. dead_keys c)" for out
    by (induction cards arbitrary: out) (auto simp: fold_add_gone_keys dead_keys_def)
  from this [of "[]"] show ?thesis by (simp add: deleted_identities_from_cards_def)
qed

end
