(* ===== verification/Phase2.thy ===== *)
theory Phase2
  imports Writeback
begin

text \<open>
  \<open>sync/phases/phase2_local_to_ag.py\<close>: push status changes of the PACS to AccessGrid. The
  decision is a function of the row, the credential and the state the listing shows; the step
  carries it out, catching \<open>AccessGridError\<close> only.
\<close>

datatype p2_action =
    P2Ignore
  | P2Terminate
  | P2Suspend
  | P2Resume

definition p2_decide :: "tracked \<Rightarrow> credential option \<Rightarrow> string \<Rightarrow> p2_action" where
  "p2_decide t cred_opt ag_state =
     (if t_status t \<in> {''deleted'', ''pending'', ''deduped''} then P2Ignore
      else if \<not> has_card t then P2Ignore
      else case cred_opt of
        None \<Rightarrow> P2Ignore
      | Some cred \<Rightarrow>
          if cr_hold cred then P2Ignore
          else if \<not> cr_trigger_active cred then P2Terminate
          else if ag_state \<noteq> '''' \<and> ag_state \<noteq> t_last_known_ag_state t \<and> t_last_known_ag_state t \<noteq> '''' then P2Ignore
          else if cr_status cred = AWAITING_INSTALL then P2Ignore
          else let desired = (if cr_status cred = ACTIVE then ''active'' else ''suspended'') in
            if ag_state = desired then P2Ignore
            else if desired = ''suspended'' \<and> ag_state = ''created'' \<and> cr_allocate_identity cred then P2Ignore
            else if desired = ''suspended'' \<and> ag_state \<in> {''active'', ''created'', ''''} then P2Suspend
            else if desired = ''active'' \<and> ag_state = ''suspended'' then P2Resume
            else P2Ignore)"

text \<open>The re-reads of \<open>_suspend_debug_after\<close>: every half with an id, then the tracked id. Nothing is used of them.\<close>

definition probe :: "'a ag_api \<Rightarrow> string \<Rightarrow> ('a, 'p) world \<Rightarrow> ('a, 'p) world" where
  "probe ag i w = snd (ag_call (CGet i) (api_get ag i) w)"

definition suspend_debug_after :: "'a ag_api \<Rightarrow> snapshot \<Rightarrow> tracked \<Rightarrow> ('a, 'p) world \<Rightarrow> ('a, 'p) world" where
  "suspend_debug_after ag snap t w =
     probe ag (card_ref t)
       (fold (\<lambda>c v. if truthy (attr_of c ''id'') then probe ag (py_str (attr_of c ''id'')) v else v)
         (resolve_tracked snap t) w)"

definition listed_state :: "snapshot \<Rightarrow> tracked \<Rightarrow> string" where
  "listed_state snap t = card_state_opt
     (resolve_ag_card snap (t_ag_card_id t) (t_person_id t) (t_credential_id t) (t_sync_ref t))"

text \<open>One call of the SDK and the bookkeeping after it; an \<open>AccessGridError\<close> is logged and the row kept.\<close>

definition ag_change ::
    "call \<Rightarrow> ('a, unit) comp \<Rightarrow> (('a, 'p) world \<Rightarrow> ('a, 'p) world) \<Rightarrow> nat \<Rightarrow> ('a, 'p, nat) sync" where
  "ag_change c m after n w =
     (case ag_call c m w of
        (Inl e, w1) \<Rightarrow> (if is_ag_error e then Inr n else Inl e, w1)
      | (Inr _, w1) \<Rightarrow> (Inr (Suc n), after w1))"

definition p2_row :: "'a ag_api \<Rightarrow> snapshot \<Rightarrow> bool \<Rightarrow> int \<Rightarrow> tracked \<Rightarrow> nat \<Rightarrow> ('a, 'p, nat) sync" where
  "p2_row ag snap dry now t n w =
     (let p = t_person_id t; c = t_credential_id t; i = card_ref t in
      case p2_decide t (cred_of snap t) (listed_state snap t) of
        P2Ignore \<Rightarrow> (Inr n, w)
      | P2Terminate \<Rightarrow> if dry then (Inr n, w) else
          ag_change (CDelete i) (api_delete ag i) (on_rows (mark_deleted now p c)) n w
      | P2Suspend \<Rightarrow> if dry then (Inr n, w) else
          ag_change (CSuspend i) (api_suspend ag i)
            (\<lambda>v. on_rows (update_status now p c ''suspended'' ''suspended'') (suspend_debug_after ag snap t v)) n w
      | P2Resume \<Rightarrow> if dry then (Inr n, w) else
          ag_change (CResume i) (api_resume ag i) (on_rows (update_status now p c ''active'' ''active'')) n w)"

definition phase2 :: "'a ag_api \<Rightarrow> snapshot \<Rightarrow> bool \<Rightarrow> int \<Rightarrow> ('a, 'p, nat) sync" where
  "phase2 ag snap dry now w = for_each (p2_row ag snap dry now) (all_tracked (w_rows w)) 0 w"

section \<open>What the phase sends and keeps\<close>

lemma probe_keeps [simp]: "w_rows (probe ag i w) = w_rows w"
  by (simp add: probe_def ag_call_def split: prod.split)

lemma probe_sends [simp]: "P (CGet i) \<Longrightarrow> sends P w (probe ag i w)"
  unfolding probe_def by (rule sends_ag_call [OF prod.collapse [symmetric]])

lemma suspend_debug_rows [simp]: "w_rows (suspend_debug_after ag snap t w) = w_rows w"
proof -
  have "w_rows (fold (\<lambda>c v. if truthy (attr_of c ''id'') then probe ag (py_str (attr_of c ''id'')) v else v) cs v) = w_rows v"
    for cs and v :: "('a, 'b) world"
    by (induction cs arbitrary: v) auto
  then show ?thesis by (simp add: suspend_debug_after_def)
qed

lemma suspend_debug_sends:
  assumes "\<And>i. P (CGet i)"
  shows "sends P w (suspend_debug_after ag snap t w)"
proof -
  have "sends P v (fold (\<lambda>c v. if truthy (attr_of c ''id'') then probe ag (py_str (attr_of c ''id'')) v else v) cs v)"
    for cs and v :: "('a, 'b) world"
    by (rule sends_fold) (simp add: assms)
  then show ?thesis unfolding suspend_debug_after_def
    by (rule sends_trans) (rule probe_sends, rule assms)
qed

lemma ag_change_sends:
  assumes "P c" and "\<And>v. sends P v (after v)"
  shows "sends P w (snd (ag_change c m after n w))"
proof -
  obtain r w1 where call: "ag_call c m w = (r, w1)" by fastforce
  have "sends P w w1" using sends_ag_call [OF call] assms(1) by simp
  moreover have "sends P w (after w1)" using calculation assms(2) by (blast intro: sends_trans)
  ultimately show ?thesis using call by (auto simp: ag_change_def split: sum.split)
qed

lemma ag_change_row:
  assumes "\<And>v. same_row p c v (after v)"
  shows "same_row p c w (snd (ag_change x m after n w))"
proof -
  obtain r w1 where call: "ag_call x m w = (r, w1)" by fastforce
  have "same_row p c w w1" using call by simp
  moreover have "same_row p c w (after w1)" using calculation assms by (blast intro: same_row_trans)
  ultimately show ?thesis using call by (auto simp: ag_change_def split: sum.split)
qed

definition p2_call_ok :: "snapshot \<Rightarrow> bool \<Rightarrow> tracked \<Rightarrow> call \<Rightarrow> bool" where
  "p2_call_ok snap dry t c \<longleftrightarrow> \<not> dry \<and>
     (case c of
        CDelete i \<Rightarrow> i = card_ref t \<and> p2_decide t (cred_of snap t) (listed_state snap t) = P2Terminate
      | CSuspend i \<Rightarrow> i = card_ref t \<and> p2_decide t (cred_of snap t) (listed_state snap t) = P2Suspend
      | CResume i \<Rightarrow> i = card_ref t \<and> p2_decide t (cred_of snap t) (listed_state snap t) = P2Resume
      | CGet _ \<Rightarrow> True
      | _ \<Rightarrow> False)"

lemma p2_row_sends: "sends (p2_call_ok snap dry t) w (snd (p2_row ag snap dry now t n w))"
  by (auto simp: p2_row_def Let_def p2_call_ok_def split: p2_action.split
      intro!: ag_change_sends suspend_debug_sends)

lemma p2_row_other:
  assumes "(p, c) \<noteq> t_key t"
  shows "same_row p c w (snd (p2_row ag snap dry now t n w))"
proof -
  have "(p, c) \<noteq> (t_person_id t, t_credential_id t)" using assms by (simp add: t_key_def)
  then show ?thesis
    by (auto simp: p2_row_def Let_def same_row_def [where w' = "on_rows _ _"] split: p2_action.split
        intro!: ag_change_row)
qed

lemma p2_ignore_held:
  assumes "held_in snap (t_person_id t) (t_credential_id t)"
  shows "p2_decide t (cred_of snap t) s = P2Ignore"
  using held_in_cred [OF assms] by (auto simp: p2_decide_def)

lemma phase2_held_row:
  assumes "held_in snap p c"
  shows "same_row p c w (snd (phase2 ag snap dry now w))"
proof -
  have "same_row p c v (snd (p2_row ag snap dry now t n v))" for t n and v :: "('a, 'b) world"
  proof (cases "(p, c) = t_key t")
    case True
    then show ?thesis using assms p2_ignore_held [of snap t] by (simp add: t_key_def p2_row_def Let_def)
  next
    case False
    then show ?thesis by (rule p2_row_other)
  qed
  then show ?thesis unfolding phase2_def by (rule for_each_same_row)
qed

lemma phase2_sends:
  "sends (\<lambda>c. \<exists>t\<in>set (w_rows w). p2_call_ok snap dry t c) w (snd (phase2 ag snap dry now w))"
proof -
  have "sends (\<lambda>c. \<exists>t\<in>set (w_rows w). p2_call_ok snap dry t c) v (snd (p2_row ag snap dry now t n v))"
    if "t \<in> set (all_tracked (w_rows w))" for t n and v :: "('a, 'b) world"
    by (rule sends_mono [OF p2_row_sends]) (use that in auto)
  then show ?thesis unfolding phase2_def by (rule for_each_sends)
qed

end
