(* ===== verification/Issue.thy ===== *)
theory Issue
  imports Writeback
begin

text \<open>
  What phases 1 and 5 share: the settings a pass is issued with, the keyword arguments of the
  provision call, and the row written once it succeeds. The code repeats these lines in both
  phases; the employee id is the cardholder's id in each.
\<close>

record issue_cfg =
  ic_template_id :: string
  ic_site_code :: string
  ic_dedupe :: bool
  ic_extra_metadata :: "(string \<times> string) list"
  ic_use_file_data :: bool
  ic_card_title :: string
  ic_card_classification :: string

definition eff_site_code :: "issue_cfg \<Rightarrow> credential \<Rightarrow> string" where
  "eff_site_code cfg cred = (if cr_site_code cred \<noteq> '''' then cr_site_code cred else ic_site_code cfg)"

text \<open>The card another issue already carries for this physical credential, if dedupe looks for one.\<close>

definition dedupe_hit :: "issue_cfg \<Rightarrow> snapshot \<Rightarrow> credential \<Rightarrow> ag_card option" where
  "dedupe_hit cfg snap cred =
     (if ic_dedupe cfg \<and> \<not> cr_allocate_identity cred \<and> eff_site_code cfg cred \<noteq> '''' \<and> cr_card_number cred \<noteq> ''''
      then map_of (sn_by_site_card snap) (eff_site_code cfg cred, cr_card_number cred) else None)"

definition issue_metadata :: "issue_cfg \<Rightarrow> credential \<Rightarrow> string \<Rightarrow> (string \<times> string) list" where
  "issue_metadata cfg cred sync_ref =
     (let m1 = AList.update ''sync_ref'' sync_ref (ic_extra_metadata cfg);
          m2 = AList.update ''pacs_credential_id'' (cr_id cred) m1
      in if cr_allocate_identity cred then m2
         else let m3 = (if eff_site_code cfg cred \<noteq> '''' then AList.update ''site_code'' (eff_site_code cfg cred) m2 else m2)
              in if cr_card_number cred \<noteq> '''' then AList.update ''card_number'' (cr_card_number cred) m3 else m3)"

definition nonempty :: "string \<Rightarrow> string option" where
  "nonempty s = (if s = '''' then None else Some s)"

text \<open>
  \<open>int(eff_site_code)\<close> behind \<open>isdigit()\<close>: None when the argument is left out, and the
  ValueError of a superscript digit.
\<close>

definition site_code_arg :: "string \<Rightarrow> exn + nat option" where
  "site_code_arg s =
     (if py_isdigit s then (case parse_nat s of Some n \<Rightarrow> Inr (Some n)
                            | None \<Rightarrow> Inl (PyError ''ValueError'' ''invalid literal for int() with base 10''))
      else Inr None)"

definition issue_params ::
    "issue_cfg \<Rightarrow> int \<Rightarrow> string \<Rightarrow> person \<Rightarrow> credential \<Rightarrow> string \<Rightarrow> exn + provision_params" where
  "issue_params cfg now pid person cred sync_ref =
     (let start_date = (case cr_activate_date cred of Some d \<Rightarrow> d | None \<Rightarrow> utc_at now);
          expiration = (case cr_deactivate_date cred of Some d \<Rightarrow> d | None \<Rightarrow> dt_plus_days (utc_at now) 365);
          base = \<lparr>pp_card_template_id = ic_template_id cfg, pp_employee_id = pid,
                  pp_full_name = pe_full_name person, pp_start_date = isoformat start_date,
                  pp_expiration_date = isoformat expiration,
                  pp_metadata = issue_metadata cfg cred sync_ref,
                  pp_file_data = None, pp_site_code = None, pp_card_number = None,
                  pp_email = nonempty (pe_email person), pp_phone_number = nonempty (pe_phone person),
                  pp_title = nonempty (if pe_title person \<noteq> '''' then pe_title person else ic_card_title cfg),
                  pp_classification = nonempty (ic_card_classification cfg)\<rparr>
      in if cr_allocate_identity cred then Inr base
         else if ic_use_file_data cfg \<and> cr_file_data cred \<noteq> '''' then Inr (base\<lparr>pp_file_data := Some (cr_file_data cred)\<rparr>)
         else (case (if eff_site_code cfg cred \<noteq> '''' then site_code_arg (eff_site_code cfg cred) else Inr None) of
                 Inl e \<Rightarrow> Inl e
               | Inr site \<Rightarrow> Inr (base\<lparr>pp_site_code := site, pp_card_number := nonempty (cr_card_number cred)\<rparr>)))"

definition id_opt :: "ag_card \<Rightarrow> string option" where
  "id_opt c = (case attr_of c ''id'' of PNone \<Rightarrow> None | v \<Rightarrow> Some (py_str v))"

text \<open>\<open>(getattr(card, "state", "active") or "active").lower()\<close>.\<close>

definition new_state :: "ag_card \<Rightarrow> string" where
  "new_state c = (if truthy (attr_of c ''state'') then py_lower (py_str (attr_of c ''state'')) else ''active'')"

definition pending_args :: "string \<Rightarrow> person \<Rightarrow> credential \<Rightarrow> upsert_args" where
  "pending_args pid person cred = \<lparr>u_person_id = pid, u_credential_id = cr_id cred, u_ag_card_id = None,
     u_full_name = pe_full_name person, u_employee_id = pid, u_status = ''pending'',
     u_email = pe_email person, u_phone = pe_phone person, u_synced_full_name = pe_full_name person,
     u_title = pe_title person, u_ag_state = '''', u_sync_ref = ''''\<rparr>"

definition issued_args :: "string \<Rightarrow> person \<Rightarrow> string \<Rightarrow> ag_card \<Rightarrow> string \<Rightarrow> upsert_args" where
  "issued_args pid person cid crd sync_ref = \<lparr>u_person_id = pid, u_credential_id = cid,
     u_ag_card_id = id_opt crd, u_full_name = pe_full_name person, u_employee_id = pid,
     u_status = (if new_state crd = ''active'' \<or> new_state crd = ''created'' then ''active'' else new_state crd),
     u_email = pe_email person, u_phone = pe_phone person, u_synced_full_name = pe_full_name person,
     u_title = pe_title person, u_ag_state = new_state crd, u_sync_ref = sync_ref\<rparr>"

text \<open>What the two \<open>except\<close> clauses record: the message, with its class for an unexpected one.\<close>

definition error_text :: "exn \<Rightarrow> string" where
  "error_text e = (case e of AccessGridError m \<Rightarrow> m | _ \<Rightarrow> exn_class e @ '': '' @ exn_message e)"

section \<open>What a provision call carries\<close>

lemma issue_metadata_reserved:
  "map_of (issue_metadata cfg cred ref) ''sync_ref'' = Some ref"
  "map_of (issue_metadata cfg cred ref) ''pacs_credential_id'' = Some (cr_id cred)"
  by (simp_all add: issue_metadata_def Let_def)

lemma issue_metadata_identity:
  "\<not> cr_allocate_identity cred \<Longrightarrow> eff_site_code cfg cred \<noteq> '''' \<Longrightarrow>
     map_of (issue_metadata cfg cred ref) ''site_code'' = Some (eff_site_code cfg cred)"
  "\<not> cr_allocate_identity cred \<Longrightarrow> cr_card_number cred \<noteq> '''' \<Longrightarrow>
     map_of (issue_metadata cfg cred ref) ''card_number'' = Some (cr_card_number cred)"
  by (simp_all add: issue_metadata_def Let_def)

lemma issue_metadata_extra:
  assumes "k \<notin> {''sync_ref'', ''pacs_credential_id'', ''site_code'', ''card_number''}"
  shows "map_of (issue_metadata cfg cred ref) k = map_of (ic_extra_metadata cfg) k"
  using assms by (auto simp: issue_metadata_def Let_def)

lemma issue_params_fixed:
  assumes "issue_params cfg now pid person cred ref = Inr p"
  shows "pp_card_template_id p = ic_template_id cfg" "pp_employee_id p = pid"
    "pp_full_name p = pe_full_name person" "pp_metadata p = issue_metadata cfg cred ref"
    "pp_email p = nonempty (pe_email person)" "pp_phone_number p = nonempty (pe_phone person)"
  using assms by (auto simp: issue_params_def Let_def split: if_splits sum.splits)

lemma issue_params_no_identity:
  assumes "cr_allocate_identity cred"
  shows "\<exists>p. issue_params cfg now pid person cred ref = Inr p \<and>
     pp_file_data p = None \<and> pp_site_code p = None \<and> pp_card_number p = None"
  using assms by (simp add: issue_params_def Let_def)

text \<open>Exactly one of the two wire formats is used.\<close>

lemma issue_params_one_format:
  assumes "issue_params cfg now pid person cred ref = Inr p"
  shows "pp_file_data p = None \<or> pp_site_code p = None \<and> pp_card_number p = None"
  using assms by (auto simp: issue_params_def Let_def split: if_splits sum.splits)

end
