(* ===== verification/Phase1.thy ===== *)
theory Phase1
  imports Issue
begin

text \<open>
  \<open>sync/phases/phase1_provision.py\<close>: issue a pass for every trigger-active credential that has
  none. \<open>stop\<close> is \<open>should_stop()\<close> as it answers when a cardholder is reached, \<open>dry\<close> is
  \<open>dryrun.active()\<close> and \<open>now\<close> the clock, both constant over one run of the phase.
\<close>

text \<open>\<open>expired\<close> of phase 3. The adapters only produce dates with a zone, as \<open>now\<close> has.\<close>

definition expired :: "int \<Rightarrow> credential \<Rightarrow> bool" where
  "expired now cred = (case cr_deactivate_date cred of None \<Rightarrow> False | Some d \<Rightarrow> dt_before d (utc_at now))"

record p1_count =
  p1_provisioned :: nat
  p1_skipped :: nat
  p1_deduped :: nat
  p1_eligible :: nat

definition MAX_PROVISIONS_PER_CYCLE :: nat where
  "MAX_PROVISIONS_PER_CYCLE = 25"

definition skip :: "p1_count \<Rightarrow> p1_count" where
  "skip n = n\<lparr>p1_skipped := Suc (p1_skipped n)\<rparr>"

text \<open>An already provisioned credential: its row follows the state the listing shows.\<close>

definition p1_refresh :: "snapshot \<Rightarrow> int \<Rightarrow> string \<Rightarrow> string \<Rightarrow> tracked \<Rightarrow> ('a, 'p) world \<Rightarrow> ('a, 'p) world" where
  "p1_refresh snap now pid cid t w =
     (if t_status t = ''deduped'' then w
      else let ag_state = card_state_opt (resolve_ag_card snap (t_ag_card_id t) pid cid '''')
           in if ag_state \<noteq> '''' \<and> ag_state \<noteq> t_last_known_ag_state t
              then on_rows (update_last_known_ag_state now pid cid ag_state) w else w)"

text \<open>
  The issue itself: the pending row first, then the call, then the issued row and, for an
  identity AccessGrid allocated, the write back. Every exception of the call is recorded.
\<close>

definition p1_issue ::
    "'a ag_api \<Rightarrow> 'p pacs_api option \<Rightarrow> int \<Rightarrow> string \<Rightarrow> person \<Rightarrow> credential \<Rightarrow> string \<Rightarrow> provision_params \<Rightarrow>
     p1_count \<Rightarrow> ('a, 'p, p1_count) sync" where
  "p1_issue ag pacs now pid person cred sync_ref params n w =
     (let w1 = on_rows (upsert now (pending_args pid person cred)) w in
      case ag_call (CProvision params) (api_provision ag params) w1 of
        (Inl e, w2) \<Rightarrow> (Inr n, on_rows (record_error now pid (cr_id cred) (error_text e)) w2)
      | (Inr crd, w2) \<Rightarrow>
          (let w3 = on_rows (upsert now (issued_args pid person (cr_id cred) crd sync_ref)) w2;
               w4 = (case pacs of
                       Some p \<Rightarrow> if cr_allocate_identity cred
                                 then snd (push_allocated_identities p pid (cr_id cred) [crd] w3) else w3
                     | None \<Rightarrow> w3)
           in (Inr (n\<lparr>p1_provisioned := Suc (p1_provisioned n)\<rparr>), w4)))"

definition p1_new ::
    "(nat \<Rightarrow> string) \<Rightarrow> 'a ag_api \<Rightarrow> 'p pacs_api option \<Rightarrow> snapshot \<Rightarrow> issue_cfg \<Rightarrow> bool \<Rightarrow> nat \<Rightarrow> int \<Rightarrow>
     string \<Rightarrow> person \<Rightarrow> credential \<Rightarrow> p1_count \<Rightarrow> ('a, 'p, p1_count) sync" where
  "p1_new refs ag pacs snap cfg dry cap now pid person cred n w =
     (if expired now cred then (Inr (skip n), w)
      else if pe_full_name person = '''' then (Inr (skip n), w)
      else if pe_email person = '''' \<and> pe_phone person = '''' then (Inr (skip n), w)
      else (case dedupe_hit cfg snap cred of
          Some hit \<Rightarrow> (Inr (n\<lparr>p1_deduped := Suc (p1_deduped n)\<rparr>),
             on_rows (mark_deduped now pid (cr_id cred) (id_opt hit) (pe_full_name person)) w)
        | None \<Rightarrow>
           (let n1 = n\<lparr>p1_eligible := Suc (p1_eligible n)\<rparr> in
            if p1_provisioned n1 \<ge> cap then (Inr n1, w)
            else (let (sync_ref, w1) = new_sync_ref refs w in
              case issue_params cfg now pid person cred sync_ref of
                Inl e \<Rightarrow> (Inl e, w1)
              | Inr params \<Rightarrow>
                  if dry then (Inr n1, w1)
                  else p1_issue ag pacs now pid person cred sync_ref params n1 w1))))"

definition p1_credential ::
    "(nat \<Rightarrow> string) \<Rightarrow> 'a ag_api \<Rightarrow> 'p pacs_api option \<Rightarrow> snapshot \<Rightarrow> issue_cfg \<Rightarrow> bool \<Rightarrow> nat \<Rightarrow> int \<Rightarrow>
     string \<Rightarrow> person \<Rightarrow> credential \<Rightarrow> p1_count \<Rightarrow> ('a, 'p, p1_count) sync" where
  "p1_credential refs ag pacs snap cfg dry cap now pid person cred n w =
     (if cr_hold cred then (Inr n, w)
      else if \<not> cr_trigger_active cred then (Inr (skip n), w)
      else (case tracking_get (w_rows w) pid (cr_id cred) of
          Some t \<Rightarrow> if has_card t then (Inr n, p1_refresh snap now pid (cr_id cred) t w)
                    else p1_new refs ag pacs snap cfg dry cap now pid person cred n w
        | None \<Rightarrow> p1_new refs ag pacs snap cfg dry cap now pid person cred n w))"

text \<open>The walk over the cardholders, which a changed configuration ends early.\<close>

fun p1_people ::
    "(nat \<Rightarrow> string) \<Rightarrow> 'a ag_api \<Rightarrow> 'p pacs_api option \<Rightarrow> (string \<Rightarrow> bool) \<Rightarrow> snapshot \<Rightarrow> issue_cfg \<Rightarrow>
     bool \<Rightarrow> nat \<Rightarrow> int \<Rightarrow> (string \<times> credential list) list \<Rightarrow> p1_count \<Rightarrow> ('a, 'p, p1_count) sync" where
  "p1_people refs ag pacs stop snap cfg dry cap now [] n w = (Inr n, w)"
| "p1_people refs ag pacs stop snap cfg dry cap now ((pid, creds) # rest) n w =
     (case person_of snap pid of
        None \<Rightarrow> p1_people refs ag pacs stop snap cfg dry cap now rest n w
      | Some person \<Rightarrow>
          if \<not> pe_active person then p1_people refs ag pacs stop snap cfg dry cap now rest n w
          else if stop pid then (Inr n, w)
          else (case for_each (p1_credential refs ag pacs snap cfg dry cap now pid person) creds n w of
                  (Inl e, w1) \<Rightarrow> (Inl e, w1)
                | (Inr n1, w1) \<Rightarrow> p1_people refs ag pacs stop snap cfg dry cap now rest n1 w1))"

definition phase1 ::
    "(nat \<Rightarrow> string) \<Rightarrow> 'a ag_api \<Rightarrow> 'p pacs_api option \<Rightarrow> (string \<Rightarrow> bool) \<Rightarrow> snapshot \<Rightarrow> issue_cfg \<Rightarrow>
     bool \<Rightarrow> nat \<Rightarrow> int \<Rightarrow> ('a, 'p, nat) sync" where
  "phase1 refs ag pacs stop snap cfg dry cap now w =
     (case p1_people refs ag pacs stop snap cfg dry cap now (sn_creds snap)
             \<lparr>p1_provisioned = 0, p1_skipped = 0, p1_deduped = 0, p1_eligible = 0\<rparr> w of
        (Inl e, w1) \<Rightarrow> (Inl e, w1)
      | (Inr n, w1) \<Rightarrow> (Inr (p1_provisioned n), w1))"

section \<open>The walk as a loop\<close>

text \<open>
  What every credential's step preserves the phase preserves: \<open>P\<close> relates the counters and the
  state while it runs, and holds of the state an exception leaves, for some counters.
\<close>

lemma p1_people_rule:
  assumes "P n w"
    and "\<And>pid creds person cred m v. (pid, creds) \<in> set xs \<Longrightarrow> person_of snap pid = Some person \<Longrightarrow>
      pe_active person \<Longrightarrow> cred \<in> set creds \<Longrightarrow> P m v \<Longrightarrow>
      (case p1_credential refs ag pacs snap cfg dry cap now pid person cred m v of
         (Inl e, v') \<Rightarrow> \<exists>m'. P m' v' | (Inr m', v') \<Rightarrow> P m' v')"
  shows "case p1_people refs ag pacs stop snap cfg dry cap now xs n w of
     (Inl e, w') \<Rightarrow> \<exists>m. P m w' | (Inr m, w') \<Rightarrow> P m w'"
  using assms
proof (induction xs arbitrary: n w)
  case Nil
  then show ?case by simp
next
  case (Cons x xs)
  obtain pid creds where x: "x = (pid, creds)" by fastforce
  have IH: "case p1_people refs ag pacs stop snap cfg dry cap now xs m v of
     (Inl e, w') \<Rightarrow> \<exists>m. P m w' | (Inr m, w') \<Rightarrow> P m w'" if "P m v" for m v
    by (rule Cons.IH [OF that]) (rule Cons.prems(2), auto)
  show ?case
  proof (cases "\<exists>person. person_of snap pid = Some person \<and> pe_active person")
    case False
    then have "p1_people refs ag pacs stop snap cfg dry cap now (x # xs) n w =
        p1_people refs ag pacs stop snap cfg dry cap now xs n w"
      using x by (auto split: option.split)
    then show ?thesis using IH [OF Cons.prems(1)] by simp
  next
    case True
    then obtain person where person: "person_of snap pid = Some person" "pe_active person" by blast
    have loop: "case for_each (p1_credential refs ag pacs snap cfg dry cap now pid person) creds n w of
        (Inl e, w') \<Rightarrow> \<exists>m. P m w' | (Inr m, w') \<Rightarrow> P m w'"
    proof (rule for_each_rule)
      show "P n w" by (rule Cons.prems(1))
      show "case p1_credential refs ag pacs snap cfg dry cap now pid person cred m v of
          (Inl e, w') \<Rightarrow> \<exists>m. P m w' | (Inr m, w') \<Rightarrow> P m w'" if "cred \<in> set creds" "P m v" for cred m v
        by (rule Cons.prems(2) [of pid creds]) (use that person x in auto)
    qed
    obtain r w1 where body: "for_each (p1_credential refs ag pacs snap cfg dry cap now pid person) creds n w = (r, w1)"
      by fastforce
    show ?thesis
    proof (cases r)
      case (Inl e)
      then show ?thesis using loop body person Cons.prems(1) x by simp
    next
      case (Inr m)
      then show ?thesis using loop body person IH [of m w1] Cons.prems(1) x by simp
    qed
  qed
qed

lemma phase1_rule:
  assumes "P \<lparr>p1_provisioned = 0, p1_skipped = 0, p1_deduped = 0, p1_eligible = 0\<rparr> w"
    and "\<And>pid creds person cred m v. (pid, creds) \<in> set (sn_creds snap) \<Longrightarrow> person_of snap pid = Some person \<Longrightarrow>
      pe_active person \<Longrightarrow> cred \<in> set creds \<Longrightarrow> P m v \<Longrightarrow>
      (case p1_credential refs ag pacs snap cfg dry cap now pid person cred m v of
         (Inl e, v') \<Rightarrow> \<exists>m'. P m' v' | (Inr m', v') \<Rightarrow> P m' v')"
    and "phase1 refs ag pacs stop snap cfg dry cap now w = (r, w')"
  shows "\<exists>m. P m w' \<and> (\<forall>k. r = Inr k \<longrightarrow> k = p1_provisioned m)"
proof -
  have "case p1_people refs ag pacs stop snap cfg dry cap now (sn_creds snap)
          \<lparr>p1_provisioned = 0, p1_skipped = 0, p1_deduped = 0, p1_eligible = 0\<rparr> w of
     (Inl e, w') \<Rightarrow> \<exists>m. P m w' | (Inr m, w') \<Rightarrow> P m w'"
    by (rule p1_people_rule [OF assms(1,2)])
  then show ?thesis using assms(3) by (auto simp: phase1_def split: prod.splits sum.splits)
qed

section \<open>What one credential's step does\<close>

text \<open>A credential the step may issue a pass for, with the arguments it sends.\<close>

definition p1_may_issue ::
    "snapshot \<Rightarrow> issue_cfg \<Rightarrow> int \<Rightarrow> string \<Rightarrow> person \<Rightarrow> credential \<Rightarrow> provision_params \<Rightarrow> bool" where
  "p1_may_issue snap cfg now pid person cred params \<longleftrightarrow>
     cr_trigger_active cred \<and> \<not> cr_hold cred \<and> \<not> expired now cred \<and> pe_full_name person \<noteq> '''' \<and>
     (pe_email person \<noteq> '''' \<or> pe_phone person \<noteq> '''') \<and> dedupe_hit cfg snap cred = None \<and>
     (\<exists>ref. issue_params cfg now pid person cred ref = Inr params)"

definition p1_call_ok ::
    "snapshot \<Rightarrow> issue_cfg \<Rightarrow> bool \<Rightarrow> int \<Rightarrow> string \<Rightarrow> person \<Rightarrow> credential \<Rightarrow> call \<Rightarrow> bool" where
  "p1_call_ok snap cfg dry now pid person cred c \<longleftrightarrow>
     (case c of CProvision params \<Rightarrow> \<not> dry \<and> p1_may_issue snap cfg now pid person cred params
      | PWriteBack p i ids \<Rightarrow> \<not> dry \<and> p = pid \<and> i = cr_id cred \<and> cr_allocate_identity cred \<and> \<not> cr_hold cred
      | _ \<Rightarrow> False)"



lemma p1_issue_sends:
  assumes "p1_issue ag pacs now pid person cred ref params n w = (r, w')"
    and "P (CProvision params)" and "\<And>ids. cr_allocate_identity cred \<Longrightarrow> P (PWriteBack pid (cr_id cred) ids)"
  shows "sends P w w'"
proof -
  let ?w1 = "on_rows (upsert now (pending_args pid person cred)) w"
  obtain q w2 where call: "ag_call (CProvision params) (api_provision ag params) ?w1 = (q, w2)" by fastforce
  have w2: "sends P w w2" using sends_ag_call [OF call, of P] assms(2) by simp
  show ?thesis
  proof (cases q)
    case (Inl e)
    then show ?thesis using assms(1) call w2 by (auto simp: p1_issue_def Let_def)
  next
    case (Inr crd)
    let ?w3 = "on_rows (upsert now (issued_args pid person (cr_id cred) crd ref)) w2"
    have "sends P ?w3 w'"
    proof (cases "\<exists>p. pacs = Some p \<and> cr_allocate_identity cred")
      case True
      then obtain p where p: "pacs = Some p" "cr_allocate_identity cred" by blast
      obtain b w4 where push: "push_allocated_identities p pid (cr_id cred) [crd] ?w3 = (b, w4)" by fastforce
      have "sends P ?w3 w4" by (rule sends_mono [OF push_effect(6) [OF push]]) (use assms(3) p in auto)
      then show ?thesis using assms(1) call Inr p push by (auto simp: p1_issue_def Let_def)
    next
      case False
      then have "w' = ?w3" using assms(1) call Inr by (auto simp: p1_issue_def Let_def split: option.splits)
      then show ?thesis by simp
    qed
    then show ?thesis using w2 by (auto intro: sends_trans)
  qed
qed

lemma p1_new_sends:
  assumes "cr_trigger_active cred" "\<not> cr_hold cred"
  shows "sends (p1_call_ok snap cfg dry now pid person cred) w
     (snd (p1_new refs ag pacs snap cfg dry cap now pid person cred n w))"
proof -
  have issue: "sends (p1_call_ok snap cfg False now pid person cred) v
       (snd (p1_issue ag pacs now pid person cred ref params m v))"
    if "p1_may_issue snap cfg now pid person cred params" for ref params m v
    by (rule p1_issue_sends [OF prod.collapse [symmetric]])
      (use that assms in \<open>auto simp: p1_call_ok_def\<close>)
  have chain: "sends (p1_call_ok snap cfg False now pid person cred) w
       (snd (p1_issue ag pacs now pid person cred ref params m (w\<lparr>w_refs := k\<rparr>)))"
    if "p1_may_issue snap cfg now pid person cred params" for ref params m k
    using issue [where ref = ref and m = m and v = "w\<lparr>w_refs := k\<rparr>", OF that] by simp
  show ?thesis
    using assms
    by (auto simp: p1_new_def new_sync_ref_def Let_def p1_may_issue_def intro!: chain
        split: option.split prod.split sum.split)
qed

lemma p1_refresh_sends: "sends P w (p1_refresh snap now pid cid t w)"
  by (simp add: p1_refresh_def Let_def)

lemma p1_credential_sends:
  "sends (p1_call_ok snap cfg dry now pid person cred) w
     (snd (p1_credential refs ag pacs snap cfg dry cap now pid person cred n w))"
  using p1_new_sends p1_refresh_sends
  by (auto simp: p1_credential_def split: option.split)

section \<open>Rows\<close>

lemma upsert_keys [simp]:
  "u_person_id (pending_args pid person cred) = pid" "u_credential_id (pending_args pid person cred) = cr_id cred"
  "u_person_id (issued_args pid person cid crd ref) = pid" "u_credential_id (issued_args pid person cid crd ref) = cid"
  by (simp_all add: pending_args_def issued_args_def)

lemma same_row_on_rows:
  "tracking_get (f (w_rows w)) p c = tracking_get (w_rows w) p c \<Longrightarrow> same_row p c w (on_rows f w)"
  by (simp add: same_row_def)

text \<open>The two ways an issue ends.\<close>

lemma p1_issue_cases:
  assumes "p1_issue ag pacs now pid person cred ref params n w = (r, w')"
  obtains (failed) e where "r = Inr n" "issued w' = issued w"
      "w_rows w' = record_error now pid (cr_id cred) (error_text e) (upsert now (pending_args pid person cred) (w_rows w))"
      "fst (api_provision ag params (w_ag w)) = Inl e"
  | (succeeded) crd where "r = Inr (n\<lparr>p1_provisioned := Suc (p1_provisioned n)\<rparr>)" "issued w' = Suc (issued w)"
      "w_rows w' = upsert now (issued_args pid person (cr_id cred) crd ref) (upsert now (pending_args pid person cred) (w_rows w))"
      "fst (api_provision ag params (w_ag w)) = Inr crd"
proof -
  let ?w1 = "on_rows (upsert now (pending_args pid person cred)) w"
  obtain q w2 where call: "ag_call (CProvision params) (api_provision ag params) ?w1 = (q, w2)" by fastforce
  note keeps = ag_call_keeps [OF call] and count = issued_ag_call [OF call]
  have q: "fst (api_provision ag params (w_ag w)) = q"
    using call by (auto simp: ag_call_def split: prod.splits)
  show thesis
  proof (cases q)
    case (Inl e)
    then show thesis using assms call keeps count q failed [of e] by (auto simp: p1_issue_def Let_def)
  next
    case (Inr crd)
    let ?w3 = "on_rows (upsert now (issued_args pid person (cr_id cred) crd ref)) w2"
    have "w_rows w' = w_rows ?w3 \<and> issued w' = issued ?w3 \<and> r = Inr (n\<lparr>p1_provisioned := Suc (p1_provisioned n)\<rparr>)"
    proof (cases "\<exists>p. pacs = Some p \<and> cr_allocate_identity cred")
      case True
      then obtain p where p: "pacs = Some p" "cr_allocate_identity cred" by blast
      obtain b w4 where push: "push_allocated_identities p pid (cr_id cred) [crd] ?w3 = (b, w4)" by fastforce
      have "issued w4 = issued ?w3"
        by (rule issued_sends [OF sends_mono [OF push_effect(6) [OF push]]]) auto
      then show ?thesis using assms call Inr p push push_effect(1) [OF push] by (auto simp: p1_issue_def Let_def)
    next
      case False
      then show ?thesis using assms call Inr by (auto simp: p1_issue_def Let_def split: option.splits)
    qed
    then show thesis using succeeded [of crd] keeps count Inr q by auto
  qed
qed

text \<open>The step of a new credential, by what it does to the counters and the rows.\<close>

lemma p1_new_cases:
  assumes "p1_new refs ag pacs snap cfg dry cap now pid person cred n w = (r, w')"
  obtains (quiet) m where "(\<exists>e. r = Inl e) \<or> r = Inr m" "p1_provisioned m = p1_provisioned n"
      "w_rows w' = w_rows w" "issued w' = issued w"
  | (deduped) m e where "r = Inr m" "p1_provisioned m = p1_provisioned n" "issued w' = issued w"
      "w_rows w' = mark_deduped now pid (cr_id cred) e (pe_full_name person) (w_rows w)"
  | (issue) ref params n1 w1 where "p1_issue ag pacs now pid person cred ref params n1 w1 = (r, w')"
      "p1_provisioned n1 = p1_provisioned n" "p1_provisioned n < cap" "\<not> dry"
      "w_rows w1 = w_rows w" "issued w1 = issued w"
  using assms
  by (auto simp: p1_new_def new_sync_ref_def skip_def Let_def not_le
      split: if_splits option.splits sum.splits)

lemma p1_new_other_row:
  assumes "(p, c) \<noteq> (pid, cr_id cred)"
    and "p1_new refs ag pacs snap cfg dry cap now pid person cred n w = (r, w')"
  shows "same_row p c w w'"
  using assms(2)
proof (cases rule: p1_new_cases)
  case quiet
  then show ?thesis by (simp add: same_row_def)
next
  case deduped
  then show ?thesis using assms(1) by (auto simp: same_row_def)
next
  case (issue ref params n1 w1)
  from issue(1) show ?thesis
    by (cases rule: p1_issue_cases) (use issue(5) assms(1) in \<open>auto simp: same_row_def\<close>)
qed

lemma p1_credential_other_row:
  assumes "(p, c) \<noteq> (pid, cr_id cred)"
  shows "same_row p c w (snd (p1_credential refs ag pacs snap cfg dry cap now pid person cred n w))"
proof -
  have "same_row p c w (p1_refresh snap now pid (cr_id cred) t w)" for t
    using assms by (auto simp: p1_refresh_def Let_def same_row_def)
  moreover have "same_row p c w (snd (p1_new refs ag pacs snap cfg dry cap now pid person cred n w))"
    by (rule p1_new_other_row [OF assms prod.collapse [symmetric]])
  ultimately show ?thesis by (auto simp: p1_credential_def split: option.split)
qed

text \<open>The counter of a run counts the passes AccessGrid answered for, and stays within the cap.\<close>

lemma p1_credential_count:
  assumes "issued w = k + p1_provisioned n" "p1_provisioned n \<le> cap"
  shows "case p1_credential refs ag pacs snap cfg dry cap now pid person cred n w of
     (Inl e, w') \<Rightarrow> \<exists>m::p1_count. issued w' = k + p1_provisioned m \<and> p1_provisioned m \<le> cap
   | (Inr m, w') \<Rightarrow> issued w' = k + p1_provisioned m \<and> p1_provisioned m \<le> cap"
proof -
  have new: "case p1_new refs ag pacs snap cfg dry cap now pid person cred n w of
      (Inl e, w') \<Rightarrow> \<exists>m::p1_count. issued w' = k + p1_provisioned m \<and> p1_provisioned m \<le> cap
    | (Inr m, w') \<Rightarrow> issued w' = k + p1_provisioned m \<and> p1_provisioned m \<le> cap"
  proof -
    obtain r w' where step: "p1_new refs ag pacs snap cfg dry cap now pid person cred n w = (r, w')" by fastforce
    from step show ?thesis
    proof (cases rule: p1_new_cases)
      case (quiet m)
      then show ?thesis using step assms by (auto split: sum.split)
    next
      case deduped
      then show ?thesis using step assms by simp
    next
      case (issue ref params n1 w1)
      from issue(1) show ?thesis
        by (cases rule: p1_issue_cases) (use issue step assms in auto)
    qed
  qed
  have "issued (p1_refresh snap now pid (cr_id cred) t w) = issued w" for t
    by (simp add: p1_refresh_def Let_def)
  then show ?thesis using new assms by (auto simp: p1_credential_def skip_def split: option.split)
qed

section \<open>The phase\<close>

lemma phase1_sends:
  assumes "phase1 refs ag pacs stop snap cfg dry cap now w = (r, w')"
  shows "sends (\<lambda>c. \<exists>pid creds person cred. (pid, creds) \<in> set (sn_creds snap) \<and>
     person_of snap pid = Some person \<and> pe_active person \<and> cred \<in> set creds \<and>
     p1_call_ok snap cfg dry now pid person cred c) w w'"
proof -
  have "\<exists>m::p1_count. sends (\<lambda>c. \<exists>pid creds person cred. (pid, creds) \<in> set (sn_creds snap) \<and>
     person_of snap pid = Some person \<and> pe_active person \<and> cred \<in> set creds \<and>
     p1_call_ok snap cfg dry now pid person cred c) w w' \<and> (\<forall>k. r = Inr k \<longrightarrow> k = p1_provisioned m)"
    (is "\<exists>m. sends ?Q w w' \<and> _ m")
  proof (rule phase1_rule [OF _ _ assms])
    show "sends ?Q w w" by simp
  next
    fix pid creds person cred and m :: p1_count and v :: "('a, 'b) world"
    assume here: "(pid, creds) \<in> set (sn_creds snap)" "person_of snap pid = Some person" "pe_active person"
      "cred \<in> set creds" and v: "sends ?Q w v"
    let ?step = "p1_credential refs ag pacs snap cfg dry cap now pid person cred m v"
    have "sends ?Q v (snd ?step)"
      by (rule sends_mono [OF p1_credential_sends]) (use here in blast)
    then have "sends ?Q w (snd ?step)" using v by (blast intro: sends_trans)
    then show "case ?step of (Inl e, v') \<Rightarrow> \<exists>m'::p1_count. sends ?Q w v' | (Inr m', v') \<Rightarrow> sends ?Q w v'"
      by (auto split: prod.split sum.split)
  qed
  then show ?thesis by blast
qed

lemma phase1_held_row:
  assumes "phase1 refs ag pacs stop snap cfg dry cap now w = (r, w')" "held_in snap p c"
  shows "same_row p c w w'"
proof -
  have "\<exists>m::p1_count. same_row p c w w' \<and> (\<forall>k. r = Inr k \<longrightarrow> k = p1_provisioned m)"
  proof (rule phase1_rule [OF _ _ assms(1)])
    show "same_row p c w w" by simp
  next
    fix pid creds person cred and m :: p1_count and v :: "('a, 'b) world"
    assume here: "(pid, creds) \<in> set (sn_creds snap)" "cred \<in> set creds" and v: "same_row p c w v"
    let ?step = "p1_credential refs ag pacs snap cfg dry cap now pid person cred m v"
    have "same_row p c v (snd ?step)"
    proof (cases "(p, c) = (pid, cr_id cred)")
      case True
      then have "cr_hold cred" using held_in_mem [OF assms(2)] here by auto
      then show ?thesis by (simp add: p1_credential_def)
    next
      case False
      then show ?thesis by (rule p1_credential_other_row)
    qed
    then have "same_row p c w (snd ?step)" using v by (blast intro: same_row_trans)
    then show "case ?step of (Inl e, v') \<Rightarrow> \<exists>m'::p1_count. same_row p c w v' | (Inr m', v') \<Rightarrow> same_row p c w v'"
      by (auto split: prod.split sum.split)
  qed
  then show ?thesis by blast
qed

lemma phase1_count:
  assumes "phase1 refs ag pacs stop snap cfg dry cap now w = (r, w')"
  shows "\<exists>n \<le> cap. issued w' = issued w + n \<and> (\<forall>k. r = Inr k \<longrightarrow> k = n)"
proof -
  have "\<exists>m::p1_count. (issued w' = issued w + p1_provisioned m \<and> p1_provisioned m \<le> cap) \<and>
      (\<forall>k. r = Inr k \<longrightarrow> k = p1_provisioned m)"
    by (rule phase1_rule [OF _ _ assms]) (simp, rule p1_credential_count, simp_all)
  then show ?thesis by blast
qed

end
