(* ===== verification/Phase3.thy ===== *)
theory Phase3
  imports Phase2 Phase1
begin

text \<open>
  \<open>sync/phases/phase3_deletions.py\<close>: delete the passes of cardholders and credentials the PACS
  no longer holds, then release the PACS slots of credentials AccessGrid has deleted. The share
  \<open>0.3\<close> of a count is compared exactly: \<open>3 * previous \<le> 10 * people\<close> is what the float
  comparison decides for every count below \<open>2 ^ 50\<close>.
\<close>

definition MAX_RETIREMENTS_PER_CYCLE :: nat where
  "MAX_RETIREMENTS_PER_CYCLE = 25"

definition MAX_EXPIRIES_PER_CYCLE :: nat where
  "MAX_EXPIRIES_PER_CYCLE = 25"

definition read_complete :: "int option \<Rightarrow> nat \<Rightarrow> bool" where
  "read_complete previous people = (3 * (case previous of None \<Rightarrow> 0 | Some n \<Rightarrow> n) \<le> 10 * int people)"

datatype p3_verdict = P3Keep | P3PersonGone | P3CredentialGone | P3Expired

text \<open>Why a row's pass is to be deleted; \<open>expired_n\<close> is the number of expiries so far.\<close>

definition p3_verdict_of :: "snapshot \<Rightarrow> bool \<Rightarrow> int \<Rightarrow> nat \<Rightarrow> tracked \<Rightarrow> p3_verdict" where
  "p3_verdict_of snap complete now expired_n t =
     (let person = person_of snap (t_person_id t); cred_opt = cred_of snap t in
      if t_status t \<in> {''deleted'', ''deduped''} \<or> \<not> has_card t then P3Keep
      else if (case cred_opt of Some cred \<Rightarrow> cr_hold cred | None \<Rightarrow> False) then P3Keep
      else if person \<noteq> None \<and> map_of (sn_creds snap) (t_person_id t) = None then P3Keep
      else if \<not> complete \<and> (person = None \<or> cred_opt = None) then P3Keep
      else if person = None then P3PersonGone
      else case cred_opt of
          None \<Rightarrow> P3CredentialGone
        | Some cred \<Rightarrow>
            if expired now cred then (if expired_n \<ge> MAX_EXPIRIES_PER_CYCLE then P3Keep else P3Expired)
            else P3Keep)"

text \<open>The exception clause: an AccessGrid that says the card is gone takes the row with it.\<close>

definition says_gone :: "string \<Rightarrow> bool" where
  "says_gone m \<longleftrightarrow> py_contains (py_lower m) ''not found'' \<or> py_contains (py_lower m) ''404''"

definition p3_failed :: "tracked \<Rightarrow> exn \<Rightarrow> 'n \<Rightarrow> ('a, 'p, 'n) sync" where
  "p3_failed t e n w =
     (if \<not> is_ag_error e then (Inl e, w)
      else if says_gone (exn_message e) then (Inr n, on_rows (tracking_remove (t_person_id t) (t_credential_id t)) w)
      else (Inr n, w))"

text \<open>The cards of an expired credential, read before the delete, for an adapter that retires.\<close>

definition p3_expired_cards ::
    "'a ag_api \<Rightarrow> 'p pacs_api option \<Rightarrow> snapshot \<Rightarrow> int \<Rightarrow> tracked \<Rightarrow> ('a, 'p) world \<Rightarrow> ag_card list \<times> ('a, 'p) world" where
  "p3_expired_cards ag pacs snap now t w =
     (case (pacs, cred_of snap t) of
        (Some p, Some cred) \<Rightarrow>
          if pacs_supports_credential_retirement p (w_pacs w) \<and> expired now cred then detailed ag snap t w else ([], w)
      | _ \<Rightarrow> ([], w))"

definition p3_retire_expired ::
    "'p pacs_api option \<Rightarrow> tracked \<Rightarrow> ag_card list \<Rightarrow> ('a, 'p, nat) sync" where
  "p3_retire_expired pacs t cards w =
     (case pacs of
        Some p \<Rightarrow> if cards = [] then (Inr 0, w)
                  else pacs_call (PRetire (t_person_id t) (t_credential_id t) (identities_from_cards cards))
                         (pacs_retire_credentials p (t_person_id t) (t_credential_id t) (identities_from_cards cards)) w
      | None \<Rightarrow> (Inr 0, w))"

text \<open>One row of the first pass; the accumulator is (deleted, expired this cycle).\<close>

definition p3_delete ::
    "'a ag_api \<Rightarrow> 'p pacs_api option \<Rightarrow> int \<Rightarrow> tracked \<Rightarrow> ag_card list \<Rightarrow> nat \<times> nat \<Rightarrow> ('a, 'p, nat \<times> nat) sync" where
  "p3_delete ag pacs now t cards n w =
     (case ag_call (CDelete (card_ref t)) (api_delete ag (card_ref t)) w of
        (Inl e, w1) \<Rightarrow> p3_failed t e n w1
      | (Inr _, w1) \<Rightarrow>
          (let w2 = on_rows (mark_deleted now (t_person_id t) (t_credential_id t)) w1 in
           case p3_retire_expired pacs t cards w2 of
             (Inl e, w3) \<Rightarrow> p3_failed t e (Suc (fst n), snd n) w3
           | (Inr _, w3) \<Rightarrow> (Inr (Suc (fst n), snd n), w3)))"

definition p3_row ::
    "'a ag_api \<Rightarrow> 'p pacs_api option \<Rightarrow> snapshot \<Rightarrow> bool \<Rightarrow> bool \<Rightarrow> int \<Rightarrow> tracked \<Rightarrow> nat \<times> nat \<Rightarrow>
     ('a, 'p, nat \<times> nat) sync" where
  "p3_row ag pacs snap complete dry now t n w =
     (case p3_verdict_of snap complete now (snd n) t of
        P3Keep \<Rightarrow> (Inr n, w)
      | v \<Rightarrow>
         (let n1 = (if v = P3Expired then (fst n, Suc (snd n)) else n);
              (cards, w1) = p3_expired_cards ag pacs snap now t w
          in if dry then (Inr n1, w1) else p3_delete ag pacs now t cards n1 w1))"

section \<open>Releasing what AccessGrid has deleted\<close>

definition p3_retire_row ::
    "'a ag_api \<Rightarrow> 'p pacs_api \<Rightarrow> snapshot \<Rightarrow> ((string \<times> string) \<times> string list) list \<Rightarrow> tracked \<Rightarrow> nat \<Rightarrow>
     ('a, 'p) world \<Rightarrow> nat \<times> ('a, 'p) world" where
  "p3_retire_row ag pacs snap written t retired w =
     (if t_status t = ''deduped'' \<or> \<not> has_card t then (retired, w)
      else if map_of written (t_key t) = None then (retired, w)
      else case detailed ag snap t w of (cards, w1) \<Rightarrow>
        (let gone = deleted_identities_from_cards cards in
         if cards = [] \<or> gone = [] then (retired, w1)
         else (case pacs_call (PRetire (t_person_id t) (t_credential_id t) gone)
                      (pacs_retire_credentials pacs (t_person_id t) (t_credential_id t) gone) w1 of
                 (Inl _, w2) \<Rightarrow> (retired, w2)
               | (Inr count, w2) \<Rightarrow> (retired + count, w2))))"

fun p3_retire_rows ::
    "'a ag_api \<Rightarrow> 'p pacs_api \<Rightarrow> snapshot \<Rightarrow> ((string \<times> string) \<times> string list) list \<Rightarrow> tracked list \<Rightarrow> nat \<Rightarrow>
     ('a, 'p) world \<Rightarrow> nat \<times> ('a, 'p) world" where
  "p3_retire_rows ag pacs snap written [] retired w = (retired, w)"
| "p3_retire_rows ag pacs snap written (t # ts) retired w =
     (if retired \<ge> MAX_RETIREMENTS_PER_CYCLE then (retired, w)
      else case p3_retire_row ag pacs snap written t retired w of
        (r, w1) \<Rightarrow> p3_retire_rows ag pacs snap written ts r w1)"

definition retire_deleted_credentials ::
    "'a ag_api \<Rightarrow> 'p pacs_api \<Rightarrow> snapshot \<Rightarrow> ('a, 'p) world \<Rightarrow> nat \<times> ('a, 'p) world" where
  "retire_deleted_credentials ag pacs snap w =
     (if \<not> pacs_supports_credential_retirement pacs (w_pacs w) then (0, w)
      else case pacs_call PWritten (pacs_written_credentials pacs) w of
          (Inl _, w1) \<Rightarrow> (0, w1)
        | (Inr written, w1) \<Rightarrow>
            if written = [] then (0, w1)
            else p3_retire_rows ag pacs snap written (all_tracked (w_rows w1)) 0 w1)"

definition phase3 ::
    "'a ag_api \<Rightarrow> 'p pacs_api option \<Rightarrow> snapshot \<Rightarrow> bool \<Rightarrow> int \<Rightarrow> ('a, 'p, nat) sync" where
  "phase3 ag pacs snap dry now w =
     (if sn_people snap = [] then (Inr 0, w)
      else (let complete = read_complete (w_last_complete w) (length (sn_people snap));
                w1 = (if complete then w\<lparr>w_last_complete := Some (int (length (sn_people snap)))\<rparr> else w)
            in case for_each (p3_row ag pacs snap complete dry now) (all_tracked (w_rows w1)) (0, 0) w1 of
                 (Inl e, w2) \<Rightarrow> (Inl e, w2)
               | (Inr n, w2) \<Rightarrow>
                   (Inr (fst n), case pacs of None \<Rightarrow> w2 | Some p \<Rightarrow> snd (retire_deleted_credentials ag p snap w2))))"

section \<open>The first pass\<close>

text \<open>A pass the first pass may delete, whatever was deleted before it.\<close>

definition p3_may_delete :: "snapshot \<Rightarrow> bool \<Rightarrow> int \<Rightarrow> tracked \<Rightarrow> bool" where
  "p3_may_delete snap complete now t \<longleftrightarrow> p3_verdict_of snap complete now 0 t \<noteq> P3Keep"

lemma verdict_cap: "p3_verdict_of snap complete now n t \<noteq> P3Keep \<Longrightarrow> p3_may_delete snap complete now t"
  by (auto simp: p3_may_delete_def p3_verdict_of_def Let_def MAX_EXPIRIES_PER_CYCLE_def split: option.splits if_splits)

definition p3_call_ok :: "snapshot \<Rightarrow> bool \<Rightarrow> bool \<Rightarrow> int \<Rightarrow> tracked \<Rightarrow> call \<Rightarrow> bool" where
  "p3_call_ok snap complete dry now t c \<longleftrightarrow>
     (case c of
        CDelete i \<Rightarrow> \<not> dry \<and> i = card_ref t \<and> p3_may_delete snap complete now t
      | PRetire p k ids \<Rightarrow> \<not> dry \<and> (p, k) = t_key t \<and> (\<exists>cred. cred_of snap t = Some cred \<and> expired now cred \<and> \<not> cr_hold cred)
          \<and> p3_may_delete snap complete now t
      | CGet _ \<Rightarrow> True
      | _ \<Rightarrow> False)"

lemma p3_expired_cards_effect:
  assumes "p3_expired_cards ag pacs snap now t w = (cards, w')"
  shows "sends (\<lambda>c. \<exists>i. c = CGet i) w w'" "w_rows w' = w_rows w"
    "cards \<noteq> [] \<Longrightarrow> \<exists>cred. cred_of snap t = Some cred \<and> expired now cred"
proof -
  have "sends (\<lambda>c. \<exists>i. c = CGet i) w w' \<and> w_rows w' = w_rows w \<and>
      (cards \<noteq> [] \<longrightarrow> (\<exists>cred. cred_of snap t = Some cred \<and> expired now cred))"
    using assms detailed_effect(1,2) [of ag snap t w cards w']
    by (auto simp: p3_expired_cards_def split: option.splits if_splits)
  then show "sends (\<lambda>c. \<exists>i. c = CGet i) w w'" "w_rows w' = w_rows w"
    "cards \<noteq> [] \<Longrightarrow> \<exists>cred. cred_of snap t = Some cred \<and> expired now cred" by auto
qed

lemma p3_failed_effect:
  "sends P w (snd (p3_failed t e n w))"
  "(p, c) \<noteq> t_key t \<Longrightarrow> same_row p c w (snd (p3_failed t e n w))"
  by (auto simp: p3_failed_def same_row_def t_key_def)

lemma p3_retire_expired_effect:
  assumes "p3_retire_expired pacs t cards w = (r, w')"
  shows "w_rows w' = w_rows w"
    "(cards \<noteq> [] \<Longrightarrow> P (PRetire (t_person_id t) (t_credential_id t) (identities_from_cards cards))) \<Longrightarrow> sends P w w'"
  using assms
  by (auto simp: p3_retire_expired_def pacs_call_keeps split: option.splits if_splits intro: sends_pacs_call)

lemma p3_delete_sends:
  assumes "P (CDelete (card_ref t))"
    and "cards \<noteq> [] \<Longrightarrow> P (PRetire (t_person_id t) (t_credential_id t) (identities_from_cards cards))"
  shows "sends P w (snd (p3_delete ag pacs now t cards n w))"
proof -
  obtain r w1 where call: "ag_call (CDelete (card_ref t)) (api_delete ag (card_ref t)) w = (r, w1)" by fastforce
  have 1: "sends P w w1" by (rule sends_ag_call [OF call]) (rule assms(1))
  let ?w2 = "on_rows (mark_deleted now (t_person_id t) (t_credential_id t)) w1"
  obtain q w3 where ret: "p3_retire_expired pacs t cards ?w2 = (q, w3)" by fastforce
  have 2: "sends P w w3" using sends_trans [OF 1, of w3] p3_retire_expired_effect(2) [OF ret, of P] assms(2) by simp
  have 3: "sends P w (snd (p3_failed t e m w1))" "sends P w (snd (p3_failed t e m w3))"
    for e and m :: "nat \<times> nat"
    by (rule sends_trans [OF 1 p3_failed_effect(1)], rule sends_trans [OF 2 p3_failed_effect(1)])
  show ?thesis using call ret 2 3 by (auto simp: p3_delete_def Let_def split: sum.split)
qed

lemma p3_delete_other:
  assumes "(p, c) \<noteq> t_key t"
  shows "same_row p c w (snd (p3_delete ag pacs now t cards n w))"
proof -
  have pc: "(p, c) \<noteq> (t_person_id t, t_credential_id t)" using assms by (simp add: t_key_def)
  obtain r w1 where call: "ag_call (CDelete (card_ref t)) (api_delete ag (card_ref t)) w = (r, w1)" by fastforce
  have 1: "same_row p c w w1" using call by simp
  let ?w2 = "on_rows (mark_deleted now (t_person_id t) (t_credential_id t)) w1"
  obtain q w3 where ret: "p3_retire_expired pacs t cards ?w2 = (q, w3)" by fastforce
  have 2: "same_row p c w w3" using 1 p3_retire_expired_effect(1) [OF ret] pc by (auto simp: same_row_def)
  have 3: "same_row p c w (snd (p3_failed t e m w1))" "same_row p c w (snd (p3_failed t e m w3))"
    for e and m :: "nat \<times> nat"
    by (rule same_row_trans [OF 1 p3_failed_effect(2) [OF assms]], rule same_row_trans [OF 2 p3_failed_effect(2) [OF assms]])
  show ?thesis using call ret 2 3 by (auto simp: p3_delete_def Let_def split: sum.split)
qed

lemma p3_row_sends: "sends (p3_call_ok snap complete dry now t) w (snd (p3_row ag pacs snap complete dry now t n w))"
proof (cases "p3_verdict_of snap complete now (snd n) t = P3Keep")
  case True
  then show ?thesis by (simp add: p3_row_def)
next
  case False
  then have may: "p3_may_delete snap complete now t" by (rule verdict_cap)
  have not_held: "\<not> cr_hold cred" if "cred_of snap t = Some cred" for cred
    using False that by (auto simp: p3_verdict_of_def Let_def split: if_splits)
  obtain cards w1 where cards: "p3_expired_cards ag pacs snap now t w = (cards, w1)" by fastforce
  have 1: "sends (p3_call_ok snap complete dry now t) w w1"
    by (rule sends_mono [OF p3_expired_cards_effect(1) [OF cards]]) (auto simp: p3_call_ok_def)
  have 2: "sends (p3_call_ok snap complete dry now t) w1 (snd (p3_delete ag pacs now t cards m w1))" if "\<not> dry" for m
    by (rule p3_delete_sends)
      (use that may not_held p3_expired_cards_effect(3) [OF cards] in \<open>auto simp: p3_call_ok_def t_key_def\<close>)
  show ?thesis using False cards 1 sends_trans [OF 1 2]
    by (auto simp: p3_row_def Let_def split: p3_verdict.split)
qed

lemma p3_row_other:
  assumes "(p, c) \<noteq> t_key t"
  shows "same_row p c w (snd (p3_row ag pacs snap complete dry now t n w))"
proof -
  obtain cards w1 where cards: "p3_expired_cards ag pacs snap now t w = (cards, w1)" by fastforce
  have 1: "same_row p c w w1" using p3_expired_cards_effect(2) [OF cards] by (simp add: same_row_def)
  have 2: "same_row p c w1 (snd (p3_delete ag pacs now t cards m w1))" for m
    by (rule p3_delete_other [OF assms])
  show ?thesis using cards 1 same_row_trans [OF 1 2]
    by (auto simp: p3_row_def Let_def split: p3_verdict.split)
qed

lemma p3_keep_held: "held_in snap (t_person_id t) (t_credential_id t) \<Longrightarrow> p3_verdict_of snap complete now n t = P3Keep"
  using held_in_cred [of snap t] by (auto simp: p3_verdict_of_def Let_def)

text \<open>A row the verdict always keeps is kept by the loop.\<close>

lemma p3_loop_kept_row:
  assumes "\<And>t n. t_key t = (p, c) \<Longrightarrow> p3_verdict_of snap complete now n t = P3Keep"
  shows "same_row p c w (snd (for_each (p3_row ag pacs snap complete dry now) ts n w))"
proof (rule for_each_same_row)
  fix t m and v :: "('a, 'b) world"
  show "same_row p c v (snd (p3_row ag pacs snap complete dry now t m v))"
  proof (cases "(p, c) = t_key t")
    case True
    then show ?thesis using assms [of t "snd m"] by (simp add: p3_row_def)
  next
    case False
    then show ?thesis by (rule p3_row_other)
  qed
qed

section \<open>The second pass\<close>

definition p3_retire_ok :: "table \<Rightarrow> call \<Rightarrow> bool" where
  "p3_retire_ok rows c \<longleftrightarrow>
     (case c of PRetire p k ids \<Rightarrow> (\<exists>t\<in>set rows. t_key t = (p, k) \<and> has_card t \<and> t_status t \<noteq> ''deduped'')
      | CGet _ \<Rightarrow> True | PWritten \<Rightarrow> True | _ \<Rightarrow> False)"

lemma p3_retire_row_effect:
  assumes "t \<in> set rows" "p3_retire_row ag pacs snap written t retired w = (k, w')"
  shows "sends (p3_retire_ok rows) w w' \<and> w_rows w' = w_rows w \<and> w_last_complete w' = w_last_complete w"
proof -
  obtain cards w1 where cards: "detailed ag snap t w = (cards, w1)" by fastforce
  note d = detailed_effect [OF cards]
  have 1: "sends (p3_retire_ok rows) w w1"
    by (rule sends_mono [OF d(1)]) (auto simp: p3_retire_ok_def)
  let ?gone = "deleted_identities_from_cards cards"
  let ?c = "PRetire (t_person_id t) (t_credential_id t) ?gone"
  obtain q w2 where call: "pacs_call ?c (pacs_retire_credentials pacs (t_person_id t) (t_credential_id t) ?gone) w1 = (q, w2)"
    by fastforce
  have 2: "sends (p3_retire_ok rows) w w2" if "t_status t \<noteq> ''deduped''" "has_card t"
    by (rule sends_trans [OF 1 sends_pacs_call [OF call]])
      (use assms(1) that in \<open>auto simp: p3_retire_ok_def t_key_def\<close>)
  show ?thesis
    using assms(2) cards call 1 2 d pacs_call_keeps [OF call]
    by (auto simp: p3_retire_row_def Let_def split: if_splits sum.splits)
qed

lemma p3_retire_rows_effect:
  assumes "set ts \<subseteq> set rows" "p3_retire_rows ag pacs snap written ts retired w = (k, w')"
  shows "sends (p3_retire_ok rows) w w' \<and> w_rows w' = w_rows w \<and> w_last_complete w' = w_last_complete w"
  using assms
proof (induction ts arbitrary: retired w)
  case Nil
  then show ?case by simp
next
  case (Cons t ts)
  obtain r w1 where step: "p3_retire_row ag pacs snap written t retired w = (r, w1)" by fastforce
  have s: "sends (p3_retire_ok rows) w w1 \<and> w_rows w1 = w_rows w \<and> w_last_complete w1 = w_last_complete w"
    by (rule p3_retire_row_effect [OF _ step]) (use Cons.prems in simp)
  show ?case
  proof (cases "retired \<ge> MAX_RETIREMENTS_PER_CYCLE")
    case True
    then show ?thesis using Cons.prems by simp
  next
    case False
    then have "p3_retire_rows ag pacs snap written ts r w1 = (k, w')" using Cons.prems step by simp
    then have "sends (p3_retire_ok rows) w1 w' \<and> w_rows w' = w_rows w1 \<and> w_last_complete w' = w_last_complete w1"
      using Cons.prems by (intro Cons.IH) auto
    then show ?thesis using s sends_trans by metis
  qed
qed

lemma retire_deleted_effect:
  assumes "retire_deleted_credentials ag pacs snap w = (k, w')"
  shows "sends (p3_retire_ok (w_rows w)) w w'" "w_rows w' = w_rows w"
proof -
  have "sends (p3_retire_ok (w_rows w)) w w' \<and> w_rows w' = w_rows w"
  proof (cases "pacs_supports_credential_retirement pacs (w_pacs w)")
    case False
    then show ?thesis using assms by (simp add: retire_deleted_credentials_def)
  next
    case True
    obtain q w1 where call: "pacs_call PWritten (pacs_written_credentials pacs) w = (q, w1)" by fastforce
    have 1: "sends (p3_retire_ok (w_rows w)) w w1" by (rule sends_pacs_call [OF call]) (simp add: p3_retire_ok_def)
    note rows = pacs_call_keeps(1) [OF call]
    show ?thesis
    proof (cases "\<exists>written. q = Inr written \<and> written \<noteq> []")
      case False
      then show ?thesis using assms True call 1 rows
        by (auto simp: retire_deleted_credentials_def split: sum.splits)
    next
      case True2: True
      then obtain written where q: "q = Inr written" "written \<noteq> []" by blast
      then have "p3_retire_rows ag pacs snap written (all_tracked (w_rows w1)) 0 w1 = (k, w')"
        using assms True call by (simp add: retire_deleted_credentials_def)
      from p3_retire_rows_effect [OF _ this, of "w_rows w"] show ?thesis
        using 1 rows sends_trans by (metis all_tracked_set order_refl)
    qed
  qed
  then show "sends (p3_retire_ok (w_rows w)) w w'" "w_rows w' = w_rows w" by auto
qed

section \<open>The phase\<close>

lemma phase3_kept_row:
  assumes "phase3 ag pacs snap dry now w = (r, w')"
    and "\<And>complete t n. t_key t = (p, c) \<Longrightarrow> p3_verdict_of snap complete now n t = P3Keep"
  shows "same_row p c w w'"
proof -
  define complete where "complete = read_complete (w_last_complete w) (length (sn_people snap))"
  define w1 where "w1 = (if complete then w\<lparr>w_last_complete := Some (int (length (sn_people snap)))\<rparr> else w)"
  obtain q w2 where loop: "for_each (p3_row ag pacs snap complete dry now) (all_tracked (w_rows w1)) (0, 0) w1 = (q, w2)"
    by fastforce
  have "same_row p c w1 w2"
    using p3_loop_kept_row [OF assms(2), where w = w1 and ts = "all_tracked (w_rows w1)" and n = "(0, 0)" and ag = ag and pacs = pacs and dry = dry and complete = complete] loop by simp
  then have 2: "same_row p c w w2" by (auto simp: w1_def same_row_def)
  have "same_row p c w2 (snd (retire_deleted_credentials ag x snap w2))" for x
    using retire_deleted_effect(2) [of ag x snap w2] by (simp add: same_row_def prod_eq_iff)
  then have "same_row p c w (snd (retire_deleted_credentials ag x snap w2))" for x
    by (rule same_row_trans [OF 2])
  with 2 show ?thesis using assms(1) loop
    by (auto simp: phase3_def Let_def complete_def [symmetric] w1_def [symmetric] split: if_splits sum.splits option.splits)
qed

lemma phase3_held_row:
  assumes "phase3 ag pacs snap dry now w = (r, w')" "held_in snap p c"
  shows "same_row p c w w'"
  by (rule phase3_kept_row [OF assms(1)]) (use assms(2) p3_keep_held [of snap] in \<open>auto simp: t_key_def\<close>)

text \<open>Every call of the phase, with the row that justifies it.\<close>

lemma phase3_sends:
  assumes "phase3 ag pacs snap dry now w = (r, w')"
  shows "sends (\<lambda>c. (\<exists>t\<in>set (w_rows w). p3_call_ok snap
       (read_complete (w_last_complete w) (length (sn_people snap))) dry now t c)
     \<or> (\<exists>rows. p3_retire_ok rows c)) w w'"
    (is "sends ?Q w w'")
proof (cases "sn_people snap = []")
  case True
  then show ?thesis using assms by (simp add: phase3_def)
next
  case False
  define complete where "complete = read_complete (w_last_complete w) (length (sn_people snap))"
  define w1 where "w1 = (if complete then w\<lparr>w_last_complete := Some (int (length (sn_people snap)))\<rparr> else w)"
  obtain q w2 where loop: "for_each (p3_row ag pacs snap complete dry now) (all_tracked (w_rows w1)) (0, 0) w1 = (q, w2)"
    by fastforce
  have rows: "w_rows w1 = w_rows w" by (simp add: w1_def)
  have "sends ?Q w1 (snd (for_each (p3_row ag pacs snap complete dry now) (all_tracked (w_rows w1)) (0, 0) w1))"
    by (rule for_each_sends, rule sends_mono [OF p3_row_sends]) (auto simp: complete_def rows)
  then have "sends ?Q w1 w2" using loop by simp
  then have 2: "sends ?Q w w2" unfolding w1_def by (simp split: if_splits)
  have 3: "sends ?Q w2 (snd (retire_deleted_credentials ag x snap w2))" for x
    by (rule sends_mono [OF retire_deleted_effect(1) [OF prod.collapse [symmetric]]]) auto
  show ?thesis using assms loop False 2 sends_trans [OF 2 3]
    by (auto simp: phase3_def Let_def complete_def [symmetric] w1_def [symmetric] split: if_splits sum.splits option.splits)
qed

end
