(* ===== verification/Phase4.thy ===== *)
theory Phase4
  imports Phase2
begin

text \<open>
  \<open>sync/phases/phase4_ag_to_local.py\<close>: offer the identities AccessGrid allocated, make each card
  we minted say what its pass says, and carry status changes made in AccessGrid back to a PACS
  that accepts them.
\<close>

section \<open>Offering new credentials\<close>

definition p4_mine :: "snapshot \<Rightarrow> tracked \<Rightarrow> bool" where
  "p4_mine snap t \<longleftrightarrow> t_status t \<notin> {''deleted'', ''deduped'', ''pending''} \<and> has_card t \<and>
     (case cred_of snap t of None \<Rightarrow> False | Some cred \<Rightarrow> \<not> cr_hold cred \<and> cr_allocate_identity cred)"

definition p4_cards :: "'a ag_api option \<Rightarrow> snapshot \<Rightarrow> tracked \<Rightarrow> ('a, 'p) world \<Rightarrow> ag_card list \<times> ('a, 'p) world" where
  "p4_cards ag snap t w = (case ag of Some a \<Rightarrow> detailed a snap t w | None \<Rightarrow> (resolve_tracked snap t, w))"

definition p4_push_row ::
    "'a ag_api option \<Rightarrow> 'p pacs_api \<Rightarrow> snapshot \<Rightarrow> tracked \<Rightarrow> nat \<Rightarrow> ('a, 'p, nat) sync" where
  "p4_push_row ag pacs snap t n w =
     (if \<not> p4_mine snap t then (Inr n, w)
      else case p4_cards ag snap t w of (cards, w1) \<Rightarrow>
        (if cards = [] then (Inr n, w1)
         else case push_allocated_identities pacs (t_person_id t) (t_credential_id t) cards w1 of
           (b, w2) \<Rightarrow> (Inr (if b then Suc n else n), w2)))"

definition push_new_credentials ::
    "'a ag_api option \<Rightarrow> 'p pacs_api \<Rightarrow> snapshot \<Rightarrow> ('a, 'p, nat) sync" where
  "push_new_credentials ag pacs snap w =
     (if \<not> pacs_supports_credential_writeback pacs (w_pacs w) then (Inr 0, w)
      else for_each (p4_push_row ag pacs snap) (all_tracked (w_rows w)) 0 w)"

section \<open>The install gate\<close>

definition desired_card_status :: "ag_card list \<Rightarrow> cred_status" where
  "desired_card_status cards =
     (let live = List.filter (\<lambda>c. \<not> is_dead c) cards in
      if live = [] then SUSPENDED
      else if list_ex (\<lambda>c. state_of c = ''suspended'') live then SUSPENDED
      else if is_installed live then ACTIVE
      else AWAITING_INSTALL)"

definition already_so :: "credential \<Rightarrow> cred_status \<Rightarrow> bool" where
  "already_so cred desired = (if desired = ACTIVE then cr_status cred = ACTIVE else cr_status cred \<noteq> ACTIVE)"

definition p4_gate_row ::
    "'a ag_api \<Rightarrow> 'p pacs_api \<Rightarrow> snapshot \<Rightarrow> tracked \<Rightarrow> nat \<Rightarrow> ('a, 'p, nat) sync" where
  "p4_gate_row ag pacs snap t n w =
     (if \<not> p4_mine snap t then (Inr n, w)
      else case cred_of snap t of
        None \<Rightarrow> (Inr n, w)
      | Some cred \<Rightarrow>
        (case detailed ag snap t w of (cards, w1) \<Rightarrow>
          (if cards = [] \<or> already_so cred (desired_card_status cards) then (Inr n, w1)
           else case pacs_call (PUpdateStatus (t_person_id t) (t_credential_id t) (desired_card_status cards))
                  (pacs_update_credential_status pacs (t_person_id t) (t_credential_id t) (desired_card_status cards)) w1 of
               (Inl _, w2) \<Rightarrow> (Inr n, w2)
             | (Inr ok, w2) \<Rightarrow> (Inr (if ok then Suc n else n), w2))))"

definition hold_uninstalled_inactive ::
    "'a ag_api \<Rightarrow> 'p pacs_api \<Rightarrow> snapshot \<Rightarrow> ('a, 'p, nat) sync" where
  "hold_uninstalled_inactive ag pacs snap w =
     (if \<not> pacs_supports_credential_writeback pacs (w_pacs w) then (Inr 0, w)
      else for_each (p4_gate_row ag pacs snap) (all_tracked (w_rows w)) 0 w)"

section \<open>Status changes made in AccessGrid\<close>

definition ag_to_cred_status :: "string \<Rightarrow> cred_status option" where
  "ag_to_cred_status s = map_of [(''active'', ACTIVE), (''created'', ACTIVE), (''suspended'', SUSPENDED)] s"

datatype p4_action = P4Ignore | P4Record string | P4Write cred_status string

definition p4_decide :: "tracked \<Rightarrow> credential option \<Rightarrow> ag_card option \<Rightarrow> p4_action" where
  "p4_decide t cred_opt card_opt =
     (if t_status t \<in> {''deleted'', ''deduped''} \<or> \<not> has_card t then P4Ignore
      else case card_opt of None \<Rightarrow> P4Ignore | Some crd \<Rightarrow>
        (let ag_state = card_state crd in
         if ag_state = '''' \<or> ag_state = t_last_known_ag_state t then P4Ignore
         else case ag_to_cred_status ag_state of
             None \<Rightarrow> P4Record ag_state
           | Some desired \<Rightarrow>
             (case cred_opt of
                None \<Rightarrow> P4Record ag_state
              | Some cred \<Rightarrow>
                  if cr_hold cred then P4Ignore
                  else if cr_allocate_identity cred then P4Record ag_state
                  else if cr_status cred = desired then P4Record ag_state
                  else P4Write desired ag_state)))"

definition listed_card :: "snapshot \<Rightarrow> tracked \<Rightarrow> ag_card option" where
  "listed_card snap t = resolve_ag_card snap (t_ag_card_id t) (t_person_id t) (t_credential_id t) (t_sync_ref t)"

definition p4_status_row :: "'p pacs_api \<Rightarrow> snapshot \<Rightarrow> int \<Rightarrow> tracked \<Rightarrow> nat \<Rightarrow> ('a, 'p, nat) sync" where
  "p4_status_row pacs snap now t n w =
     (let p = t_person_id t; c = t_credential_id t in
      case p4_decide t (cred_of snap t) (listed_card snap t) of
        P4Ignore \<Rightarrow> (Inr n, w)
      | P4Record s \<Rightarrow> (Inr n, on_rows (update_last_known_ag_state now p c s) w)
      | P4Write desired s \<Rightarrow>
         (case pacs_call (PUpdateStatus p c desired) (pacs_update_credential_status pacs p c desired) w of
            (Inl _, w1) \<Rightarrow> (Inr n, w1)
          | (Inr ok, w1) \<Rightarrow>
              if ok then (Inr (Suc n), on_rows (update_last_known_ag_state now p c s) w1) else (Inr n, w1)))"

definition phase4 :: "'a ag_api option \<Rightarrow> 'p pacs_api \<Rightarrow> snapshot \<Rightarrow> int \<Rightarrow> ('a, 'p, nat) sync" where
  "phase4 ag pacs snap now w =
     bind_comp (push_new_credentials ag pacs snap) (\<lambda>pushed.
     bind_comp (case ag of Some a \<Rightarrow> hold_uninstalled_inactive a pacs snap | None \<Rightarrow> (\<lambda>v. (Inr 0, v))) (\<lambda>gated v.
       if \<not> pacs_supports_status_writeback pacs (w_pacs v) then (Inr (pushed + gated), v)
       else for_each (p4_status_row pacs snap now) (all_tracked (w_rows v)) (pushed + gated) v)) w"

section \<open>The phase never raises\<close>

lemma p4_push_row_returns: "\<exists>n' w'. p4_push_row ag pacs snap t n w = (Inr n', w')"
  by (auto simp: p4_push_row_def split: prod.split)

lemma p4_gate_row_returns: "\<exists>n' w'. p4_gate_row ag pacs snap t n w = (Inr n', w')"
  by (auto simp: p4_gate_row_def split: prod.split option.split sum.split)

lemma p4_status_row_returns: "\<exists>n' w'. p4_status_row pacs snap now t n w = (Inr n', w')"
  by (auto simp: p4_status_row_def Let_def split: prod.split p4_action.split sum.split)

lemma push_new_returns: "\<exists>n w'. push_new_credentials ag pacs snap w = (Inr n, w')"
  by (auto simp: push_new_credentials_def intro!: for_each_total p4_push_row_returns)

lemma hold_returns: "\<exists>n w'. hold_uninstalled_inactive ag pacs snap w = (Inr n, w')"
  by (auto simp: hold_uninstalled_inactive_def intro!: for_each_total p4_gate_row_returns)

section \<open>What the phase sends and keeps\<close>

definition p4_call_ok :: "snapshot \<Rightarrow> tracked \<Rightarrow> call \<Rightarrow> bool" where
  "p4_call_ok snap t c \<longleftrightarrow>
     (case c of
        PWriteBack p k ids \<Rightarrow> (p, k) = t_key t \<and> p4_mine snap t \<and> ids \<noteq> [] \<and> distinct (List.map identity_key ids)
      | PUpdateStatus p k st \<Rightarrow> (p, k) = t_key t \<and> st \<in> {ACTIVE, SUSPENDED, AWAITING_INSTALL} \<and>
          (\<exists>cred. cred_of snap t = Some cred \<and> \<not> cr_hold cred \<and>
             (if cr_allocate_identity cred then p4_mine snap t \<and> \<not> already_so cred st
              else \<exists>s. p4_decide t (Some cred) (listed_card snap t) = P4Write st s))
      | CGet _ \<Rightarrow> True
      | _ \<Rightarrow> False)"

lemma p4_cards_effect:
  assumes "p4_cards ag snap t w = (cards, w')"
  shows "sends (p4_call_ok snap u) w w'" "w_rows w' = w_rows w" "w_pacs w' = w_pacs w"
proof -
  have "sends (p4_call_ok snap u) w w'" if "sends (\<lambda>c. \<exists>i. c = CGet i) w w'"
    by (rule sends_mono [OF that]) (auto simp: p4_call_ok_def)
  then have "sends (p4_call_ok snap u) w w' \<and> w_rows w' = w_rows w \<and> w_pacs w' = w_pacs w"
    using assms detailed_effect [of _ snap t w cards w'] by (auto simp: p4_cards_def split: option.splits)
  then show "sends (p4_call_ok snap u) w w'" "w_rows w' = w_rows w" "w_pacs w' = w_pacs w" by auto
qed

lemma push_sends_some:
  assumes "push_allocated_identities pacs p c cards w = (b, w')"
    and "identities_from_cards cards \<noteq> [] \<Longrightarrow> P (PWriteBack p c (identities_from_cards cards))"
  shows "sends P w w'"
  using assms by (auto simp: push_allocated_identities_def split: if_splits sum.splits prod.splits intro: sends_pacs_call)

lemma p4_push_row_effect:
  "sends (p4_call_ok snap t) w (snd (p4_push_row ag pacs snap t n w)) \<and>
   w_rows (snd (p4_push_row ag pacs snap t n w)) = w_rows w"
proof -
  obtain cards w1 where cards: "p4_cards ag snap t w = (cards, w1)" by fastforce
  obtain b w2 where push: "push_allocated_identities pacs (t_person_id t) (t_credential_id t) cards w1 = (b, w2)" by fastforce
  note 1 = p4_cards_effect(1,2) [OF cards]
  have "sends (p4_call_ok snap t) w1 w2" if "p4_mine snap t"
    by (rule push_sends_some [OF push])
      (use that in \<open>simp add: p4_call_ok_def t_key_def identities_from_cards_distinct\<close>)
  then have "sends (p4_call_ok snap t) w w2" if "p4_mine snap t" using that 1 sends_trans by blast
  then show ?thesis using cards push 1 push_effect(1) [OF push] by (auto simp: p4_push_row_def)
qed

lemma p4_gate_row_effect:
  "sends (p4_call_ok snap t) w (snd (p4_gate_row ag pacs snap t n w)) \<and>
   w_rows (snd (p4_gate_row ag pacs snap t n w)) = w_rows w"
proof (cases "p4_mine snap t")
  case False
  then show ?thesis by (simp add: p4_gate_row_def)
next
  case True
  then obtain cred where cred: "cred_of snap t = Some cred" "\<not> cr_hold cred" "cr_allocate_identity cred"
    by (auto simp: p4_mine_def split: option.splits)
  obtain cards w1 where cards: "detailed ag snap t w = (cards, w1)" by fastforce
  have 1: "sends (p4_call_ok snap t) w w1"
    by (rule sends_mono [OF detailed_effect(1) [OF cards]]) (auto simp: p4_call_ok_def)
  let ?d = "desired_card_status cards"
  let ?c = "PUpdateStatus (t_person_id t) (t_credential_id t) ?d"
  obtain q w2 where call: "pacs_call ?c (pacs_update_credential_status pacs (t_person_id t) (t_credential_id t) ?d) w1 = (q, w2)"
    by fastforce
  have "?d \<in> {ACTIVE, SUSPENDED, AWAITING_INSTALL}" by (simp add: desired_card_status_def Let_def)
  then have "sends (p4_call_ok snap t) w w2" if "\<not> already_so cred ?d"
    by (intro sends_trans [OF 1 sends_pacs_call [OF call]])
      (use that cred True in \<open>simp add: p4_call_ok_def t_key_def\<close>)
  then show ?thesis
    using True cred cards call 1 detailed_effect(2) [OF cards] pacs_call_keeps(1) [OF call]
    by (auto simp: p4_gate_row_def split: sum.split)
qed

lemma p4_status_row_sends: "sends (p4_call_ok snap t) w (snd (p4_status_row pacs snap now t n w))"
proof (cases "p4_decide t (cred_of snap t) (listed_card snap t)")
  case (P4Write st s)
  then obtain cred where cred: "cred_of snap t = Some cred" "\<not> cr_hold cred" "\<not> cr_allocate_identity cred"
      "st \<in> {ACTIVE, SUSPENDED}"
    by (auto simp: p4_decide_def Let_def ag_to_cred_status_def split: option.splits if_splits)
  obtain q w1 where call: "pacs_call (PUpdateStatus (t_person_id t) (t_credential_id t) st)
      (pacs_update_credential_status pacs (t_person_id t) (t_credential_id t) st) w = (q, w1)" by fastforce
  have "sends (p4_call_ok snap t) w w1"
    by (rule sends_pacs_call [OF call]) (use cred P4Write in \<open>auto simp: p4_call_ok_def t_key_def\<close>)
  then show ?thesis using P4Write call by (auto simp: p4_status_row_def Let_def split: sum.split)
qed (simp_all add: p4_status_row_def Let_def)

lemma p4_status_row_other:
  assumes "(p, c) \<noteq> t_key t"
  shows "same_row p c w (snd (p4_status_row pacs snap now t n w))"
proof -
  have pc: "(p, c) \<noteq> (t_person_id t, t_credential_id t)" using assms by (simp add: t_key_def)
  have upd: "same_row p c v (on_rows (update_last_known_ag_state now (t_person_id t) (t_credential_id t) s) v)" for s
      and v :: "('a, 'b) world"
    using pc by (auto simp: same_row_def)
  show ?thesis
  proof (cases "p4_decide t (cred_of snap t) (listed_card snap t)")
    case (P4Write st s)
    obtain q w1 where call: "pacs_call (PUpdateStatus (t_person_id t) (t_credential_id t) st)
        (pacs_update_credential_status pacs (t_person_id t) (t_credential_id t) st) w = (q, w1)" by fastforce
    have 1: "same_row p c w w1" using call by simp
    show ?thesis using P4Write call 1 same_row_trans [OF 1 upd]
      by (auto simp: p4_status_row_def Let_def split: sum.split)
  qed (use upd in \<open>simp_all add: p4_status_row_def Let_def\<close>)
qed

lemma p4_held_ignored:
  assumes "held_in snap (t_person_id t) (t_credential_id t)"
  shows "\<not> p4_mine snap t" "\<nexists>st s. p4_decide t (cred_of snap t) cc = P4Write st s"
  using held_in_cred [OF assms]
  by (auto simp: p4_mine_def p4_decide_def Let_def split: option.splits if_splits)

text \<open>The three loops in one: the rows they walk are those the phase started with.\<close>

lemma phase4_stages:
  obtains m1 w1 m2 w2 where
    "push_new_credentials ag pacs snap w = (Inr m1, w1)"
    "(case ag of Some a \<Rightarrow> hold_uninstalled_inactive a pacs snap | None \<Rightarrow> (\<lambda>v. (Inr 0, v))) w1 = (Inr m2, w2)"
    "phase4 ag pacs snap now w =
       (if \<not> pacs_supports_status_writeback pacs (w_pacs w2) then (Inr (m1 + m2), w2)
        else for_each (p4_status_row pacs snap now) (all_tracked (w_rows w2)) (m1 + m2) w2)"
proof -
  obtain m1 w1 where 1: "push_new_credentials ag pacs snap w = (Inr m1, w1)" using push_new_returns by blast
  obtain m2 w2 where 2: "(case ag of Some a \<Rightarrow> hold_uninstalled_inactive a pacs snap | None \<Rightarrow> (\<lambda>v. (Inr 0, v))) w1 = (Inr m2, w2)"
    using hold_returns by (cases ag) (auto, blast)
  show thesis by (rule that [OF 1 2]) (simp add: phase4_def bind_comp_def 1 2)
qed

lemma push_new_effect:
  "sends (\<lambda>c. \<exists>t\<in>set (w_rows w). p4_call_ok snap t c) w (snd (push_new_credentials ag pacs snap w)) \<and>
   w_rows (snd (push_new_credentials ag pacs snap w)) = w_rows w"
proof -
  have "sends (\<lambda>c. \<exists>t\<in>set (w_rows w). p4_call_ok snap t c) w
      (snd (for_each (p4_push_row ag pacs snap) (all_tracked (w_rows w)) 0 w))"
    by (rule for_each_sends, rule sends_mono [OF conjunct1 [OF p4_push_row_effect]]) auto
  moreover have "w_rows (snd (for_each (p4_push_row ag pacs snap) ts 0 w)) = w_rows w" for ts
    by (rule for_each_invariant [where P = "\<lambda>v. w_rows v = w_rows w"]) (simp_all add: p4_push_row_effect)
  ultimately show ?thesis by (simp add: push_new_credentials_def)
qed

lemma hold_effect:
  "sends (\<lambda>c. \<exists>t\<in>set (w_rows w). p4_call_ok snap t c) w (snd (hold_uninstalled_inactive ag pacs snap w)) \<and>
   w_rows (snd (hold_uninstalled_inactive ag pacs snap w)) = w_rows w"
proof -
  have "sends (\<lambda>c. \<exists>t\<in>set (w_rows w). p4_call_ok snap t c) w
      (snd (for_each (p4_gate_row ag pacs snap) (all_tracked (w_rows w)) 0 w))"
    by (rule for_each_sends, rule sends_mono [OF conjunct1 [OF p4_gate_row_effect]]) auto
  moreover have "w_rows (snd (for_each (p4_gate_row ag pacs snap) ts 0 w)) = w_rows w" for ts
    by (rule for_each_invariant [where P = "\<lambda>v. w_rows v = w_rows w"]) (simp_all add: p4_gate_row_effect)
  ultimately show ?thesis by (simp add: hold_uninstalled_inactive_def)
qed

text \<open>
  A held row. The status loop records a state it has no translation for before it looks at the
  hold, so the last known state of a held row may move; nothing else of it does.
\<close>

definition same_pass :: "string \<Rightarrow> string \<Rightarrow> ('a, 'p) world \<Rightarrow> ('a, 'p) world \<Rightarrow> bool" where
  "same_pass p c w w' \<longleftrightarrow>
     map_option (\<lambda>t. t\<lparr>t_last_known_ag_state := [], t_updated_at := 0\<rparr>) (tracking_get (w_rows w') p c) =
     map_option (\<lambda>t. t\<lparr>t_last_known_ag_state := [], t_updated_at := 0\<rparr>) (tracking_get (w_rows w) p c)"

lemma same_pass_refl [simp]: "same_pass p c w w"
  by (simp add: same_pass_def)

lemma same_pass_trans: "same_pass p c u v \<Longrightarrow> same_pass p c v w \<Longrightarrow> same_pass p c u w"
  by (simp add: same_pass_def)

lemma same_row_pass: "same_row p c v w \<Longrightarrow> same_pass p c v w"
  by (simp add: same_row_def same_pass_def)

lemma p4_status_row_held:
  assumes "held_in snap p c"
  shows "same_pass p c w (snd (p4_status_row pacs snap now t n w))"
proof (cases "(p, c) = t_key t")
  case False
  then show ?thesis by (intro same_row_pass p4_status_row_other)
next
  case True
  then have "\<nexists>st s. p4_decide t (cred_of snap t) (listed_card snap t) = P4Write st s"
    using p4_held_ignored(2) [of snap t] assms by (simp add: t_key_def)
  then show ?thesis using True
    by (auto simp: p4_status_row_def Let_def t_key_def same_pass_def get_update_last_known option.map_comp
        split: p4_action.split intro!: option.map_cong)
qed

lemma phase4_effect:
  "sends (\<lambda>c. \<exists>t\<in>set (w_rows w). p4_call_ok snap t c) w (snd (phase4 ag pacs snap now w))"
  "held_in snap p c \<Longrightarrow> same_pass p c w (snd (phase4 ag pacs snap now w))"
proof -
  obtain m1 w1 m2 w2 where
    1: "push_new_credentials ag pacs snap w = (Inr m1, w1)" and
    2: "(case ag of Some a \<Rightarrow> hold_uninstalled_inactive a pacs snap | None \<Rightarrow> (\<lambda>v. (Inr 0, v))) w1 = (Inr m2, w2)" and
    3: "phase4 ag pacs snap now w =
       (if \<not> pacs_supports_status_writeback pacs (w_pacs w2) then (Inr (m1 + m2), w2)
        else for_each (p4_status_row pacs snap now) (all_tracked (w_rows w2)) (m1 + m2) w2)"
    by (rule phase4_stages)
  let ?Q = "\<lambda>c. \<exists>t\<in>set (w_rows w). p4_call_ok snap t c"
  have w1: "sends ?Q w w1" "w_rows w1 = w_rows w"
    using push_new_effect [of w snap ag pacs] 1 by simp_all
  have "sends ?Q w1 w2 \<and> w_rows w2 = w_rows w1"
  proof (cases ag)
    case None
    then show ?thesis using 2 by simp
  next
    case (Some a)
    then show ?thesis using 2 hold_effect [of w1 snap a pacs] w1(2) by simp
  qed
  then have w2: "sends ?Q w w2" "w_rows w2 = w_rows w"
    using w1 sends_trans [OF w1(1)] by auto
  have "sends ?Q w2 (snd (for_each (p4_status_row pacs snap now) (all_tracked (w_rows w2)) k w2))" for k
    by (rule for_each_sends, rule sends_mono [OF p4_status_row_sends]) (auto simp: w2(2))
  from sends_trans [OF w2(1) this] show "sends ?Q w (snd (phase4 ag pacs snap now w))"
    using 3 w2(1) by simp
  assume held: "held_in snap p c"
  have start: "same_pass p c w w2" using w2(2) by (simp add: same_pass_def)
  have "same_pass p c w2 (snd (for_each (p4_status_row pacs snap now) ts k w2))" for ts k
    by (rule for_each_invariant [where P = "same_pass p c w2"])
      (auto intro: same_pass_trans p4_status_row_held [OF held])
  from same_pass_trans [OF start this] show "same_pass p c w (snd (phase4 ag pacs snap now w))"
    using 3 start by simp
qed

end
