(* ===== verification/Phase5.thy ===== *)
theory Phase5
  imports Phase4 Phase1
begin

text \<open>
  \<open>sync/phases/phase5_retries.py\<close>: run the failed provisions again, while a row has retries left.
\<close>

definition MAX_RETRIES :: nat where
  "MAX_RETRIES = 3"

definition p5_retry ::
    "'a ag_api \<Rightarrow> 'p pacs_api option \<Rightarrow> int \<Rightarrow> tracked \<Rightarrow> person \<Rightarrow> credential \<Rightarrow> string \<Rightarrow> provision_params \<Rightarrow>
     nat \<Rightarrow> ('a, 'p, nat) sync" where
  "p5_retry ag pacs now t person cred sync_ref params n w =
     (let p = t_person_id t; c = t_credential_id t in
      case ag_call (CProvision params) (api_provision ag params) w of
        (Inl e, w1) \<Rightarrow> (Inr n, on_rows (record_error now p c (error_text e)) w1)
      | (Inr crd, w1) \<Rightarrow>
          (let w2 = on_rows (upsert now (issued_args p person c crd sync_ref)) w1;
               w3 = (case pacs of
                       Some a \<Rightarrow> if cr_allocate_identity cred
                                 then snd (push_allocated_identities a p c [crd] w2) else w2
                     | None \<Rightarrow> w2)
           in (Inr (Suc n), w3)))"

definition p5_row ::
    "(nat \<Rightarrow> string) \<Rightarrow> 'a ag_api \<Rightarrow> 'p pacs_api option \<Rightarrow> snapshot \<Rightarrow> issue_cfg \<Rightarrow> bool \<Rightarrow> int \<Rightarrow> tracked \<Rightarrow>
     nat \<Rightarrow> ('a, 'p, nat) sync" where
  "p5_row refs ag pacs snap cfg dry now t n w =
     (let p = t_person_id t; c = t_credential_id t in
      case (cred_of snap t, person_of snap p) of
        (None, _) \<Rightarrow> (Inr n, on_rows (tracking_remove p c) w)
      | (Some cred, person_opt) \<Rightarrow>
        if cr_hold cred then (Inr n, w)
        else (case person_opt of
            None \<Rightarrow> (Inr n, on_rows (tracking_remove p c) w)
          | Some person \<Rightarrow>
              if \<not> cr_trigger_active cred then (Inr n, on_rows (tracking_remove p c) w)
              else if pe_email person = '''' \<and> pe_phone person = ''''
                then (Inr n, on_rows (record_error now p c ''still missing email and phone'') w)
              else (case dedupe_hit cfg snap cred of
                  Some hit \<Rightarrow> (Inr n, on_rows (mark_deduped now p c (id_opt hit) (pe_full_name person)) w)
                | None \<Rightarrow>
                    (let (sync_ref, w1) = new_sync_ref refs w in
                     case issue_params cfg now p person cred sync_ref of
                       Inl e \<Rightarrow> (Inl e, w1)
                     | Inr params \<Rightarrow>
                         if dry then (Inr n, w1)
                         else p5_retry ag pacs now t person cred sync_ref params n w1))))"

definition phase5 ::
    "(nat \<Rightarrow> string) \<Rightarrow> 'a ag_api \<Rightarrow> 'p pacs_api option \<Rightarrow> snapshot \<Rightarrow> issue_cfg \<Rightarrow> bool \<Rightarrow> int \<Rightarrow>
     ('a, 'p, nat) sync" where
  "phase5 refs ag pacs snap cfg dry now w =
     for_each (p5_row refs ag pacs snap cfg dry now) (failed_records MAX_RETRIES (w_rows w)) 0 w"

section \<open>What the phase sends and keeps\<close>

definition p5_call_ok ::
    "snapshot \<Rightarrow> issue_cfg \<Rightarrow> bool \<Rightarrow> int \<Rightarrow> tracked \<Rightarrow> call \<Rightarrow> bool" where
  "p5_call_ok snap cfg dry now t c \<longleftrightarrow> \<not> dry \<and>
     (\<exists>person cred. person_of snap (t_person_id t) = Some person \<and> cred_of snap t = Some cred \<and>
        cr_trigger_active cred \<and> \<not> cr_hold cred \<and> (pe_email person \<noteq> '''' \<or> pe_phone person \<noteq> '''') \<and>
        (case c of
           CProvision params \<Rightarrow> dedupe_hit cfg snap cred = None \<and>
             (\<exists>ref. issue_params cfg now (t_person_id t) person cred ref = Inr params)
         | PWriteBack p k ids \<Rightarrow> (p, k) = t_key t \<and> cr_allocate_identity cred
         | _ \<Rightarrow> False))"

lemma p5_retry_effect:
  "w_rows (snd (p5_retry ag pacs now t person cred ref params n w)) \<in>
     {record_error now (t_person_id t) (t_credential_id t) e (w_rows w) | e. True} \<union>
     {upsert now (issued_args (t_person_id t) person (t_credential_id t) crd ref) (w_rows w) | crd. True}"
  "P (CProvision params) \<Longrightarrow>
     (\<And>ids. cr_allocate_identity cred \<Longrightarrow> P (PWriteBack (t_person_id t) (t_credential_id t) ids)) \<Longrightarrow>
     sends P w (snd (p5_retry ag pacs now t person cred ref params n w))"
proof -
  let ?p = "t_person_id t" and ?c = "t_credential_id t"
  obtain q w1 where call: "ag_call (CProvision params) (api_provision ag params) w = (q, w1)" by fastforce
  have push: "w_rows (snd (push_allocated_identities a ?p ?c cards v)) = w_rows v"
    "(\<And>ids. Q (PWriteBack ?p ?c ids)) \<Longrightarrow> sends Q v (snd (push_allocated_identities a ?p ?c cards v))"
    for a :: "'b pacs_api" and cards Q and v :: "('a, 'b) world"
    using push_effect(1,6) [of a ?p ?c cards v] by (auto simp: prod_eq_iff intro: sends_mono)
  show "w_rows (snd (p5_retry ag pacs now t person cred ref params n w)) \<in>
     {record_error now ?p ?c e (w_rows w) | e. True} \<union>
     {upsert now (issued_args ?p person ?c crd ref) (w_rows w) | crd. True}"
    using call ag_call_keeps(1) [OF call] push(1)
    by (auto simp: p5_retry_def Let_def split: sum.split option.split)
  assume P: "P (CProvision params)"
    "\<And>ids. cr_allocate_identity cred \<Longrightarrow> P (PWriteBack ?p ?c ids)"
  have 1: "sends P w w1" by (rule sends_ag_call [OF call]) (rule P(1))
  have 2: "sends P w (snd (push_allocated_identities a ?p ?c cards (on_rows f w1)))"
    if "cr_allocate_identity cred" for a :: "'b pacs_api" and cards f
  proof (rule sends_trans)
    show "sends P w (on_rows f w1)" using 1 by simp
    show "sends P (on_rows f w1) (snd (push_allocated_identities a ?p ?c cards (on_rows f w1)))"
      by (rule push(2)) (rule P(2) [OF that])
  qed
  show "sends P w (snd (p5_retry ag pacs now t person cred ref params n w))"
    using call 1 2 by (auto simp: p5_retry_def Let_def split: sum.split option.split)
qed

lemma p5_retry_other:
  assumes "(p, c) \<noteq> t_key t"
  shows "same_row p c w (snd (p5_retry ag pacs now t person cred ref params n w))"
  using p5_retry_effect(1) [of ag pacs now t person cred ref params n w] assms
  by (auto simp: same_row_def t_key_def)

lemma p5_row_sends: "sends (p5_call_ok snap cfg dry now t) w (snd (p5_row refs ag pacs snap cfg dry now t n w))"
proof -
  have "sends (p5_call_ok snap cfg False now t) w
      (snd (p5_retry ag pacs now t person cred ref params n (w\<lparr>w_refs := k\<rparr>)))"
    if "person_of snap (t_person_id t) = Some person" "cred_of snap t = Some cred" "cr_trigger_active cred" "\<not> cr_hold cred"
      "pe_email person \<noteq> '''' \<or> pe_phone person \<noteq> ''''" "dedupe_hit cfg snap cred = None"
      "issue_params cfg now (t_person_id t) person cred ref = Inr params"
    for person cred ref params k
  proof -
    have "sends (p5_call_ok snap cfg False now t) (w\<lparr>w_refs := k\<rparr>)
        (snd (p5_retry ag pacs now t person cred ref params n (w\<lparr>w_refs := k\<rparr>)))"
      by (rule p5_retry_effect(2)) (use that in \<open>auto simp: p5_call_ok_def t_key_def\<close>)
    then show ?thesis by simp
  qed
  note chain = this
  show ?thesis
    by (auto simp: p5_row_def new_sync_ref_def Let_def intro!: chain split: option.split prod.split sum.split)
qed

lemma p5_row_other:
  assumes "(p, c) \<noteq> t_key t"
  shows "same_row p c w (snd (p5_row refs ag pacs snap cfg dry now t n w))"
proof -
  have pc: "(p, c) \<noteq> (t_person_id t, t_credential_id t)" using assms by (simp add: t_key_def)
  have chain: "same_row p c w (snd (p5_retry ag pacs now t person cred ref params n (w\<lparr>w_refs := k\<rparr>)))"
    for person cred ref params k
    using p5_retry_other [OF assms, of "w\<lparr>w_refs := k\<rparr>" ag pacs now person cred ref params n]
    by (simp add: same_row_def)
  have rows: "same_row p c w (on_rows (tracking_remove (t_person_id t) (t_credential_id t)) w)"
    "same_row p c w (on_rows (record_error now (t_person_id t) (t_credential_id t) e) w)"
    "same_row p c w (on_rows (mark_deduped now (t_person_id t) (t_credential_id t) i nm) w)"
    "same_row p c w (w\<lparr>w_refs := k\<rparr>)" for e i nm k
    using pc by (auto simp: same_row_def)
  show ?thesis
    using rows chain by (auto simp: p5_row_def new_sync_ref_def Let_def split: option.split prod.split sum.split)
qed

lemma p5_held:
  assumes "held_in snap (t_person_id t) (t_credential_id t)"
  shows "p5_row refs ag pacs snap cfg dry now t n w = (Inr n, w)"
  using held_in_cred [OF assms] by (auto simp: p5_row_def Let_def)

lemma phase5_effect:
  "sends (\<lambda>c. \<exists>t\<in>set (w_rows w). t_retry_count t < MAX_RETRIES \<and> t_ag_card_id t = None \<and> t_sync_error t \<noteq> None \<and>
     p5_call_ok snap cfg dry now t c) w (snd (phase5 refs ag pacs snap cfg dry now w))"
  "held_in snap p c \<Longrightarrow> same_row p c w (snd (phase5 refs ag pacs snap cfg dry now w))"
proof -
  show "sends (\<lambda>c. \<exists>t\<in>set (w_rows w). t_retry_count t < MAX_RETRIES \<and> t_ag_card_id t = None \<and> t_sync_error t \<noteq> None \<and>
     p5_call_ok snap cfg dry now t c) w (snd (phase5 refs ag pacs snap cfg dry now w))"
    unfolding phase5_def
    by (rule for_each_sends, rule sends_mono [OF p5_row_sends]) (auto simp: failed_records_set)
  assume held: "held_in snap p c"
  show "same_row p c w (snd (phase5 refs ag pacs snap cfg dry now w))"
    unfolding phase5_def
  proof (rule for_each_same_row)
    fix t n and v :: "('a, 'b) world"
    show "same_row p c v (snd (p5_row refs ag pacs snap cfg dry now t n v))"
      using held p5_held [of snap t refs ag pacs cfg dry now n v] p5_row_other [of p c t]
      by (cases "(p, c) = t_key t") (auto simp: t_key_def)
  qed
qed

end
