(* ===== verification/Phase6.thy ===== *)
theory Phase6
  imports Phase2
begin

text \<open>
  \<open>sync/phases/phase6_field_changes.py\<close>: push changed names, phones, titles and expiries. The
  e-mail address is only ever noticed.
\<close>

definition p6_expiration :: "credential option \<Rightarrow> string" where
  "p6_expiration cred_opt = (case cred_opt of None \<Rightarrow> ''''
     | Some cred \<Rightarrow> (case cr_deactivate_date cred of None \<Rightarrow> '''' | Some d \<Rightarrow> isoformat d))"

text \<open>The \<open>changes\<close> dictionary, in the order the code fills it.\<close>

definition p6_changes :: "tracked \<Rightarrow> person \<Rightarrow> string \<Rightarrow> (string \<times> string) list" where
  "p6_changes t person expiration =
     (if pe_full_name person \<noteq> '''' \<and> pe_full_name person \<noteq> t_last_synced_full_name t
      then [(''full_name'', pe_full_name person)] else []) @
     (if pe_phone person \<noteq> t_last_synced_phone t \<and> pe_phone person \<noteq> ''''
      then [(''phone_number'', pe_phone person)] else []) @
     (if pe_title person \<noteq> t_last_synced_title t then [(''title'', pe_title person)] else []) @
     (if expiration \<noteq> '''' \<and> t_last_synced_expiration t \<noteq> None \<and> t_last_synced_expiration t \<noteq> Some expiration
      then [(''expiration_date'', expiration)] else [])"

definition p6_email_changed :: "tracked \<Rightarrow> person \<Rightarrow> bool" where
  "p6_email_changed t person \<longleftrightarrow> pe_email person \<noteq> '''' \<and> pe_email person \<noteq> t_last_synced_email t"

definition p6_record :: "int \<Rightarrow> tracked \<Rightarrow> person \<Rightarrow> string \<Rightarrow> ('a, 'p) world \<Rightarrow> ('a, 'p) world" where
  "p6_record now t person expiration w =
     on_rows (update_field_tracking now (t_person_id t) (t_credential_id t) (pe_full_name person)
       (pe_email person) (pe_phone person) (pe_title person)
       (if expiration \<noteq> '''' then expiration
        else case t_last_synced_expiration t of None \<Rightarrow> '''' | Some e \<Rightarrow> e)) w"

definition p6_row :: "'a ag_api \<Rightarrow> snapshot \<Rightarrow> bool \<Rightarrow> int \<Rightarrow> tracked \<Rightarrow> nat \<Rightarrow> ('a, 'p, nat) sync" where
  "p6_row ag snap dry now t n w =
     (if t_status t \<in> {''deleted'', ''deduped''} \<or> \<not> has_card t then (Inr n, w)
      else case person_of snap (t_person_id t) of
        None \<Rightarrow> (Inr n, w)
      | Some person \<Rightarrow>
          if (case cred_of snap t of Some cred \<Rightarrow> cr_hold cred | None \<Rightarrow> False) then (Inr n, w)
          else (let expiration = p6_expiration (cred_of snap t);
                    changes = p6_changes t person expiration;
                    first_expiry = (t_last_synced_expiration t = None \<and> expiration \<noteq> '''')
                in if changes = [] \<and> \<not> p6_email_changed t person \<and> \<not> first_expiry then (Inr n, w)
                   else if changes = [] then (Inr n, p6_record now t person expiration w)
                   else if dry then (Inr n, w)
                   else ag_change (CUpdate (card_ref t) changes) (api_update ag (card_ref t) changes)
                          (p6_record now t person expiration) n w))"

definition phase6 :: "'a ag_api \<Rightarrow> snapshot \<Rightarrow> bool \<Rightarrow> int \<Rightarrow> ('a, 'p, nat) sync" where
  "phase6 ag snap dry now w = for_each (p6_row ag snap dry now) (all_tracked (w_rows w)) 0 w"

section \<open>What the phase sends and keeps\<close>

lemma p6_changes_fields: "fst ` set (p6_changes t person e) \<subseteq> {''full_name'', ''phone_number'', ''title'', ''expiration_date''}"
  by (auto simp: p6_changes_def)

definition p6_call_ok :: "snapshot \<Rightarrow> bool \<Rightarrow> tracked \<Rightarrow> call \<Rightarrow> bool" where
  "p6_call_ok snap dry t c \<longleftrightarrow> \<not> dry \<and>
     (\<exists>person. person_of snap (t_person_id t) = Some person \<and>
        c = CUpdate (card_ref t) (p6_changes t person (p6_expiration (cred_of snap t))) \<and>
        (case cred_of snap t of Some cred \<Rightarrow> \<not> cr_hold cred | None \<Rightarrow> True))"

lemma p6_record_effect:
  "sends P v (p6_record now t person e v)"
  "(p, c) \<noteq> t_key t \<Longrightarrow> same_row p c v (p6_record now t person e v)"
  by (auto simp: p6_record_def same_row_def t_key_def)

lemma p6_row_sends: "sends (p6_call_ok snap dry t) w (snd (p6_row ag snap dry now t n w))"
  by (auto simp: p6_row_def Let_def p6_call_ok_def intro!: ag_change_sends p6_record_effect split: option.split)

lemma p6_row_other:
  "(p, c) \<noteq> t_key t \<Longrightarrow> same_row p c w (snd (p6_row ag snap dry now t n w))"
  by (auto simp: p6_row_def Let_def intro!: ag_change_row p6_record_effect split: option.split)

lemma p6_held:
  assumes "held_in snap (t_person_id t) (t_credential_id t)"
  shows "p6_row ag snap dry now t n w = (Inr n, w)"
  using held_in_cred [OF assms] by (auto simp: p6_row_def Let_def split: option.split)

lemma phase6_effect:
  "sends (\<lambda>c. \<exists>t\<in>set (w_rows w). p6_call_ok snap dry t c) w (snd (phase6 ag snap dry now w))"
  "held_in snap p c \<Longrightarrow> same_row p c w (snd (phase6 ag snap dry now w))"
proof -
  show "sends (\<lambda>c. \<exists>t\<in>set (w_rows w). p6_call_ok snap dry t c) w (snd (phase6 ag snap dry now w))"
    unfolding phase6_def by (rule for_each_sends, rule sends_mono [OF p6_row_sends]) auto
  assume held: "held_in snap p c"
  show "same_row p c w (snd (phase6 ag snap dry now w))"
    unfolding phase6_def
  proof (rule for_each_same_row)
    fix t n and v :: "('a, 'b) world"
    show "same_row p c v (snd (p6_row ag snap dry now t n v))"
      using held p6_held [of snap t ag dry now n v] p6_row_other [of p c t]
      by (cases "(p, c) = t_key t") (auto simp: t_key_def)
  qed
qed

end
