(* ===== verification/Engine.thy ===== *)
theory Engine
  imports Phase3 Phase5 Phase6
begin

text \<open>
  \<open>sync/engine.py\<close>: one cycle over the six phases and the loop that schedules them. Times are
  milliseconds. What the cycle reads from outside the model (settings, the client and adapter it
  builds, the clock, the configuration generation as other threads leave it) is the record
  \<open>cycle_env\<close>; the loop is a step relation over the place the thread is at, the engine's status and
  the world, with the calls of other threads between any two of its steps.
\<close>

definition MIN_INTERVAL_MS :: int where "MIN_INTERVAL_MS = 60000"
definition MAX_INTERVAL_MS :: int where "MAX_INTERVAL_MS = 600000"
definition INTERVAL_MULTIPLIER :: int where "INTERVAL_MULTIPLIER = 3"
definition ERROR_BACKOFF_MS :: int where "ERROR_BACKOFF_MS = 30000"
definition RECONNECT_RETRY_MS :: int where "RECONNECT_RETRY_MS = 120000"
definition MAX_CONSECUTIVE_ERRORS :: nat where "MAX_CONSECUTIVE_ERRORS = 10"

lemmas engine_constants = MIN_INTERVAL_MS_def MAX_INTERVAL_MS_def INTERVAL_MULTIPLIER_def
  ERROR_BACKOFF_MS_def RECONNECT_RETRY_MS_def MAX_CONSECUTIVE_ERRORS_def

section \<open>The direction of the PACS\<close>

text \<open>\<open>derived_pacs_params\<close>: \<open>derives\<close> is the descriptor's flag, \<open>shape\<close> what \<open>template_shape\<close> read.\<close>

definition mode_of_protocol :: "string \<Rightarrow> string" where
  "mode_of_protocol protocol = (if protocol = ''seos'' then ''seos'' else ''desfire'')"

definition derived_pacs_params ::
    "bool \<Rightarrow> string \<times> bool \<Rightarrow> (string \<times> pyval) list \<Rightarrow> (string \<times> pyval) list" where
  "derived_pacs_params derives shape params =
     (if \<not> derives then params
      else AList.update ''pair'' (PBool (snd shape))
             (AList.update ''mode'' (PStr (mode_of_protocol (fst shape))) params))"

section \<open>Results and status\<close>

record cycle_result =
  cy_duration_ms :: int
  cy_provisioned :: nat
  cy_status_changes :: nat
  cy_deleted :: nat
  cy_ag_to_pacs :: nat
  cy_retried :: nat
  cy_field_updates :: nat
  cy_error :: "string option"
  cy_counts_as_failure :: bool

definition new_result :: "int \<Rightarrow> cycle_result" where
  "new_result ms = \<lparr>cy_duration_ms = ms, cy_provisioned = 0, cy_status_changes = 0, cy_deleted = 0,
     cy_ag_to_pacs = 0, cy_retried = 0, cy_field_updates = 0, cy_error = None, cy_counts_as_failure = True\<rparr>"

record engine_status =
  es_paused :: bool
  es_last_cycle :: "cycle_result option"
  es_last_error :: "string option"
  es_interval_ms :: int
  es_consecutive_errors :: nat
  es_pacs_reachable :: bool
  es_ag_reachable :: bool
  es_reconnect_required :: bool
  es_pacs_vendor :: string
  es_pacs_display_name :: string
  es_pacs_writes :: "bool option"
  es_totals :: "(string \<times> nat) list"
  es_generation :: nat
  es_trigger :: bool

text \<open>\<open>_totals\<close>: counts of the tracked rows, none of them for a deleted or deduped one.\<close>

definition live_rows :: "table \<Rightarrow> tracked list" where
  "live_rows rows = List.filter (\<lambda>t. t_status t \<notin> {''deleted'', ''deduped''}) rows"

definition count_status :: "string \<Rightarrow> table \<Rightarrow> nat" where
  "count_status s rows = length (List.filter (\<lambda>t. t_status t = s) (live_rows rows))"

definition totals_of :: "snapshot \<Rightarrow> table \<Rightarrow> (string \<times> nat) list" where
  "totals_of snap rows =
     [(''pacs_people'', length (sn_people snap) + count_status ''pacs_people'' rows),
      (''tracked_credentials'', length (live_rows rows) + count_status ''tracked_credentials'' rows),
      (''active'', count_status ''active'' rows),
      (''pending'', count_status ''pending'' rows),
      (''failed'', count_status ''failed'' rows)]"

section \<open>One cycle\<close>

record cycle_env =
  ce_in_flight :: bool
  ce_unreadable :: "exn option"
  ce_configured :: bool
  ce_ag_init :: "exn option"
  ce_pacs_init :: "exn option"
  ce_vendor :: string
  ce_display_name :: string
  ce_cfg :: issue_cfg
  ce_dry :: bool
  ce_now :: "nat \<Rightarrow> int"
  ce_duration_ms :: int
  ce_gen_at_start :: nat
  ce_generation :: nat
  ce_gen_at :: "string \<Rightarrow> nat"
  ce_gen_after_p1 :: nat
  ce_gen_after_p3 :: nat

datatype cycle_end = Done | Superseded | Raised exn

text \<open>The phases in order; an exception keeps the counts of the phases before it.\<close>

definition cycle_phases ::
    "(nat \<Rightarrow> string) \<Rightarrow> 'a ag_api \<Rightarrow> 'p pacs_api \<Rightarrow> cycle_env \<Rightarrow> snapshot \<Rightarrow> cycle_result \<Rightarrow> ('a, 'p) world \<Rightarrow>
     cycle_result \<times> cycle_end \<times> ('a, 'p) world" where
  "cycle_phases refs ag pacs env snap r0 w0 =
     (let cfg = ce_cfg env; dry = ce_dry env; gen = ce_generation env in
      case phase1 refs ag (Some pacs) (\<lambda>pid. ce_gen_at env pid \<noteq> gen) snap cfg dry MAX_PROVISIONS_PER_CYCLE (ce_now env 1) w0 of
        (Inl e, w1) \<Rightarrow> (r0, Raised e, w1)
      | (Inr n1, w1) \<Rightarrow>
       (let r1 = r0\<lparr>cy_provisioned := n1\<rparr> in
        if ce_gen_after_p1 env \<noteq> gen then (r1, Superseded, w1) else
        case phase2 ag snap dry (ce_now env 2) w1 of
          (Inl e, w2) \<Rightarrow> (r1, Raised e, w2)
        | (Inr n2, w2) \<Rightarrow>
         (let r2 = r1\<lparr>cy_status_changes := n2\<rparr> in
          case phase3 ag (Some pacs) snap dry (ce_now env 3) w2 of
            (Inl e, w3) \<Rightarrow> (r2, Raised e, w3)
          | (Inr n3, w3) \<Rightarrow>
           (let r3 = r2\<lparr>cy_deleted := n3\<rparr> in
            if ce_gen_after_p3 env \<noteq> gen then (r3, Superseded, w3) else
            case phase4 (Some ag) pacs snap (ce_now env 4) w3 of
              (Inl e, w4) \<Rightarrow> (r3, Raised e, w4)
            | (Inr n4, w4) \<Rightarrow>
             (let r4 = r3\<lparr>cy_ag_to_pacs := n4\<rparr> in
              case phase5 refs ag (Some pacs) snap cfg dry (ce_now env 5) w4 of
                (Inl e, w5) \<Rightarrow> (r4, Raised e, w5)
              | (Inr n5, w5) \<Rightarrow>
               (let r5 = r4\<lparr>cy_retried := n5\<rparr> in
                case phase6 ag snap dry (ce_now env 6) w5 of
                  (Inl e, w6) \<Rightarrow> (r5, Raised e, w6)
                | (Inr n6, w6) \<Rightarrow>
                 (let r6 = r5\<lparr>cy_field_updates := n6\<rparr> in
                  case pacs_finish_cycle pacs of
                    None \<Rightarrow> (r6, Done, w6)
                  | Some f \<Rightarrow>
                     (case pacs_call PFinish f w6 of
                        (Inl e, w7) \<Rightarrow> (r6, Raised e, w7)
                      | (Inr _, w7) \<Rightarrow> (r6, Done, w7)))))))))"

definition auth_expired_result :: "exn \<Rightarrow> cycle_result \<Rightarrow> cycle_result" where
  "auth_expired_result e r =
     r\<lparr>cy_error := Some (''pacs_auth_expired: '' @ exn_message e), cy_counts_as_failure := False\<rparr>"

definition flag_reconnect :: "engine_status \<Rightarrow> engine_status" where
  "flag_reconnect st = st\<lparr>es_reconnect_required := True, es_pacs_reachable := False\<rparr>"

definition abandoned_result :: "cycle_result \<Rightarrow> cycle_result" where
  "abandoned_result r = r\<lparr>cy_error := Some ''superseded'', cy_counts_as_failure := False\<rparr>"

definition snapshot_status :: "snapshot \<Rightarrow> table \<Rightarrow> engine_status \<Rightarrow> engine_status" where
  "snapshot_status snap rows st =
     st\<lparr>es_pacs_reachable := sn_people snap \<noteq> [], es_ag_reachable := True, es_reconnect_required := False,
        es_totals := totals_of snap rows\<rparr>"

text \<open>
  \<open>pacs.supports_credential_writeback\<close> on an adapter that does not define it; the name of its class is
  left out of the message. The adapter has been built by then, and the error is handled as if it had
  not been.
\<close>

definition no_writeback_attribute :: exn where
  "no_writeback_attribute = PyError ''AttributeError'' ''object has no attribute supports_credential_writeback''"

definition adapter_error :: "'p pacs_api \<Rightarrow> cycle_env \<Rightarrow> exn option" where
  "adapter_error pacs env =
     (case ce_pacs_init env of
        Some e \<Rightarrow> Some e
      | None \<Rightarrow> if pacs_declares_writeback pacs then None else Some no_writeback_attribute)"

definition run_one_cycle ::
    "(nat \<Rightarrow> string) \<Rightarrow> 'a ag_api \<Rightarrow> 'p pacs_api \<Rightarrow> cycle_env \<Rightarrow> engine_status \<Rightarrow> ('a, 'p) world \<Rightarrow>
     cycle_result \<times> engine_status \<times> ('a, 'p) world" where
  "run_one_cycle refs ag pacs env st w =
     (let r0 = new_result (ce_duration_ms env) in
      if \<not> ce_configured env then (r0\<lparr>cy_error := Some ''not_configured''\<rparr>, st, w)
      else case ce_ag_init env of
        Some e \<Rightarrow> (r0\<lparr>cy_error := Some (''ag_init: '' @ exn_message e)\<rparr>, st\<lparr>es_ag_reachable := False\<rparr>, w)
      | None \<Rightarrow>
        (let st1 = st\<lparr>es_pacs_vendor := ce_vendor env, es_pacs_display_name := ce_display_name env\<rparr> in
         case adapter_error pacs env of
           Some e \<Rightarrow> (r0\<lparr>cy_error := Some (''pacs_init: '' @ exn_message e)\<rparr>, st1\<lparr>es_pacs_reachable := False\<rparr>, w)
         | None \<Rightarrow>
           (let st2 = st1\<lparr>es_pacs_writes := Some (pacs_supports_credential_writeback pacs (w_pacs w))\<rparr> in
            case build_snapshot ag pacs (ic_template_id (ce_cfg env)) w of
              (Inl e, w1) \<Rightarrow>
                if is_auth_expired e then (auth_expired_result e r0, flag_reconnect st2, w1)
                else (r0\<lparr>cy_error := Some (''snapshot: '' @ exn_message e)\<rparr>, st2\<lparr>es_pacs_reachable := False\<rparr>, w1)
            | (Inr snap, w1) \<Rightarrow>
              (let st3 = snapshot_status snap (w_rows w1) st2 in
               case cycle_phases refs ag pacs env snap r0 w1 of
                 (r, Done, w2) \<Rightarrow> (r, st3, w2)
               | (r, Superseded, w2) \<Rightarrow> (abandoned_result r, st3\<lparr>es_trigger := True\<rparr>, w2)
               | (r, Raised e, w2) \<Rightarrow>
                   if is_auth_expired e then (auth_expired_result e r, flag_reconnect st3, w2)
                   else (r\<lparr>cy_error := Some (''phase: '' @ exn_message e)\<rparr>, st3, w2)))))"

section \<open>The loop\<close>

text \<open>
  \<open>_run_one_cycle\<close>: another thread may be running a cycle; and what the cycle reads before its first
  \<open>try\<close> (the dry-run switch, both configurations, the direction) may raise, which nobody catches.
\<close>

definition cycle_attempt ::
    "(nat \<Rightarrow> string) \<Rightarrow> 'a ag_api \<Rightarrow> 'p pacs_api \<Rightarrow> cycle_env \<Rightarrow> engine_status \<Rightarrow> ('a, 'p) world \<Rightarrow>
     (exn + cycle_result) \<times> engine_status \<times> ('a, 'p) world" where
  "cycle_attempt refs ag pacs env st w =
     (if ce_in_flight env then (Inr ((new_result 0)\<lparr>cy_error := Some ''cycle_in_flight''\<rparr>), st, w)
      else case ce_unreadable env of
        Some e \<Rightarrow> (Inl e, st, w)
      | None \<Rightarrow> (case run_one_cycle refs ag pacs env st w of (r, st1, w1) \<Rightarrow> (Inr r, st1, w1)))"

text \<open>The interval after a cycle: \<open>duration * 3\<close>, kept between the two bounds.\<close>

definition dynamic_interval :: "int \<Rightarrow> int" where
  "dynamic_interval duration_ms = max MIN_INTERVAL_MS (min MAX_INTERVAL_MS (duration_ms * INTERVAL_MULTIPLIER))"

text \<open>\<open>result.error and result.counts_as_failure\<close>.\<close>

definition failed :: "cycle_result \<Rightarrow> bool" where
  "failed r \<longleftrightarrow> cy_error r \<noteq> None \<and> cy_error r \<noteq> Some '''' \<and> cy_counts_as_failure r"

definition after_cycle :: "cycle_result \<Rightarrow> engine_status \<Rightarrow> engine_status" where
  "after_cycle r st =
     (let st1 = st\<lparr>es_last_cycle := Some r\<rparr> in
      if failed r
      then st1\<lparr>es_consecutive_errors := Suc (es_consecutive_errors st), es_last_error := cy_error r,
               es_interval_ms := ERROR_BACKOFF_MS\<rparr>
      else if es_reconnect_required st then st1\<lparr>es_interval_ms := RECONNECT_RETRY_MS\<rparr>
      else st1\<lparr>es_consecutive_errors := 0, es_last_error := None,
               es_interval_ms := dynamic_interval (cy_duration_ms r)\<rparr>)"

definition pause :: "engine_status \<Rightarrow> engine_status" where
  "pause st = st\<lparr>es_paused := True\<rparr>"

definition unpause :: "engine_status \<Rightarrow> engine_status" where
  "unpause st = st\<lparr>es_paused := False, es_consecutive_errors := 0, es_trigger := False\<rparr>"

definition trigger_now :: "engine_status \<Rightarrow> engine_status" where
  "trigger_now st = st\<lparr>es_trigger := True\<rparr>"

definition invalidate_pacs_adapter :: "engine_status \<Rightarrow> engine_status" where
  "invalidate_pacs_adapter st = st\<lparr>es_generation := Suc (es_generation st)\<rparr>"

text \<open>\<open>session_restored\<close>: what it does under the lock, then an invalidation, then a trigger.\<close>

definition session_reset :: "engine_status \<Rightarrow> engine_status" where
  "session_reset st = st\<lparr>es_reconnect_required := False, es_pacs_reachable := True,
     es_consecutive_errors := 0, es_paused := False\<rparr>"

definition session_restored :: "engine_status \<Rightarrow> engine_status" where
  "session_restored st = st\<lparr>es_reconnect_required := False, es_pacs_reachable := True,
     es_consecutive_errors := 0, es_paused := False, es_generation := Suc (es_generation st), es_trigger := True\<rparr>"

lemma session_restored_steps: "session_restored st = trigger_now (invalidate_pacs_adapter (session_reset st))"
  by (simp add: session_restored_def trigger_now_def invalidate_pacs_adapter_def session_reset_def)

text \<open>
  Where \<open>_run_loop\<close> is between two of its critical sections: about to read the count, about to run a
  cycle, about to book its result, asleep, about to pause, waiting in the pause; or over, by an
  exception. The count that decides on the pause and the pause are two critical sections.
\<close>

datatype loop_at = Looking | Starting | Counting cycle_result | Sleeping | Tripping | Parked | Ended exn

fun loop_step ::
    "(nat \<Rightarrow> string) \<Rightarrow> 'a ag_api \<Rightarrow> 'p pacs_api \<Rightarrow> cycle_env \<Rightarrow> loop_at \<times> engine_status \<times> ('a, 'p) world \<Rightarrow>
     loop_at \<times> engine_status \<times> ('a, 'p) world" where
  "loop_step refs ag pacs env (Looking, st, w) =
     (if MAX_CONSECUTIVE_ERRORS \<le> es_consecutive_errors st then Tripping else Starting, st, w)"
| "loop_step refs ag pacs env (Starting, st, w) =
     (case cycle_attempt refs ag pacs env st w of
        (Inl e, st1, w1) \<Rightarrow> (Ended e, st1, w1)
      | (Inr r, st1, w1) \<Rightarrow> (Counting r, st1, w1))"
| "loop_step refs ag pacs env (Counting r, st, w) = (Sleeping, after_cycle r st, w)"
| "loop_step refs ag pacs env (Sleeping, st, w) = (Looking, st\<lparr>es_trigger := False\<rparr>, w)"
| "loop_step refs ag pacs env (Tripping, st, w) = (Parked, pause st, w)"
| "loop_step refs ag pacs env (Parked, st, w) =
     (if es_trigger st then (Looking, unpause st, w) else (Parked, st, w))"
| "loop_step refs ag pacs env (Ended e, st, w) = (Ended e, st, w)"

text \<open>The steps of the engine thread and of the threads that call into it.\<close>

inductive engine_step ::
    "(nat \<Rightarrow> string) \<Rightarrow> 'a ag_api \<Rightarrow> 'p pacs_api \<Rightarrow> loop_at \<times> engine_status \<times> ('a, 'p) world \<Rightarrow>
     loop_at \<times> engine_status \<times> ('a, 'p) world \<Rightarrow> bool"
  for refs ag pacs where
  thread: "engine_step refs ag pacs c (loop_step refs ag pacs env c)"
| reset: "engine_step refs ag pacs (pos, st, w) (pos, session_reset st, w)"
| triggered: "engine_step refs ag pacs (pos, st, w) (pos, trigger_now st, w)"
| invalidated: "engine_step refs ag pacs (pos, st, w) (pos, invalidate_pacs_adapter st, w)"

inductive_cases engine_step_cases: "engine_step refs ag pacs (pos, st, w) (pos', st', w')"

definition initial_status :: engine_status where
  "initial_status = \<lparr>es_paused = False, es_last_cycle = None, es_last_error = None,
     es_interval_ms = MIN_INTERVAL_MS, es_consecutive_errors = 0, es_pacs_reachable = True,
     es_ag_reachable = True, es_reconnect_required = False, es_pacs_vendor = '''',
     es_pacs_display_name = '''', es_pacs_writes = None, es_totals = [], es_generation = 0, es_trigger = False\<rparr>"

inductive engine_reachable ::
    "(nat \<Rightarrow> string) \<Rightarrow> 'a ag_api \<Rightarrow> 'p pacs_api \<Rightarrow> ('a, 'p) world \<Rightarrow> loop_at \<times> engine_status \<times> ('a, 'p) world \<Rightarrow> bool"
  for refs ag pacs w0 where
  start: "engine_reachable refs ag pacs w0 (Looking, initial_status, w0)"
| step: "engine_reachable refs ag pacs w0 s \<Longrightarrow> engine_step refs ag pacs s s' \<Longrightarrow> engine_reachable refs ag pacs w0 s'"

text \<open>A cycle itself never moves the breaker's count or the pause.\<close>

lemma run_one_cycle_status:
  assumes "run_one_cycle refs ag pacs env st w = (r, st1, w1)"
  shows "es_consecutive_errors st1 = es_consecutive_errors st" "es_paused st1 = es_paused st"
  using assms
  by (auto simp: run_one_cycle_def Let_def flag_reconnect_def snapshot_status_def
      split: if_splits option.splits prod.splits sum.splits cycle_end.splits)

text \<open>The result of a cycle that found the session expired.\<close>

definition asks_for_sign_in :: "cycle_result \<Rightarrow> bool" where
  "asks_for_sign_in r \<longleftrightarrow> (\<exists>e. cy_error r = Some (''pacs_auth_expired: '' @ exn_message e))"

text \<open>A cycle that does not count as failed leaves the reconnect flag up only when it found that.\<close>

lemma run_one_cycle_flag:
  assumes "run_one_cycle refs ag pacs env st w = (r, st1, w1)" and "\<not> failed r" and "es_reconnect_required st1"
  shows "asks_for_sign_in r"
  using assms
  by (auto simp: run_one_cycle_def Let_def flag_reconnect_def snapshot_status_def failed_def asks_for_sign_in_def
      auth_expired_result_def abandoned_result_def new_result_def
      split: if_splits option.splits prod.splits sum.splits cycle_end.splits)

lemma run_one_cycle_interval:
  assumes "run_one_cycle refs ag pacs env st w = (r, st1, w1)"
  shows "es_interval_ms st1 = es_interval_ms st" "es_last_cycle st1 = es_last_cycle st"
  using assms
  by (auto simp: run_one_cycle_def Let_def flag_reconnect_def snapshot_status_def
      split: if_splits option.splits prod.splits sum.splits cycle_end.splits)

lemma cycle_attempt_cases:
  assumes "cycle_attempt refs ag pacs env st w = (r, st1, w1)"
  obtains (skipped) "st1 = st" "w1 = w" "\<forall>x. r = Inr x \<longrightarrow> failed x"
  | (ran) x where "run_one_cycle refs ag pacs env st w = (x, st1, w1)" "r = Inr x"
proof (cases "ce_in_flight env")
  case True
  then show thesis using assms by (intro skipped) (auto simp: cycle_attempt_def failed_def new_result_def)
next
  case False
  show thesis
  proof (cases "ce_unreadable env")
    case None
    then show thesis using assms False ran by (auto simp: cycle_attempt_def split: prod.splits)
  next
    case (Some e)
    then show thesis using assms False by (intro skipped) (auto simp: cycle_attempt_def)
  qed
qed

lemma cycle_attempt_status:
  assumes "cycle_attempt refs ag pacs env st w = (r, st1, w1)"
  shows "es_consecutive_errors st1 = es_consecutive_errors st" "es_paused st1 = es_paused st"
    "es_interval_ms st1 = es_interval_ms st" "es_last_cycle st1 = es_last_cycle st"
proof -
  have "es_consecutive_errors st1 = es_consecutive_errors st \<and> es_paused st1 = es_paused st \<and>
      es_interval_ms st1 = es_interval_ms st \<and> es_last_cycle st1 = es_last_cycle st"
    by (cases rule: cycle_attempt_cases [OF assms]) (simp_all add: run_one_cycle_status run_one_cycle_interval)
  then show "es_consecutive_errors st1 = es_consecutive_errors st" "es_paused st1 = es_paused st"
    "es_interval_ms st1 = es_interval_ms st" "es_last_cycle st1 = es_last_cycle st" by simp_all
qed

lemma cycle_attempt_flag:
  assumes "cycle_attempt refs ag pacs env st w = (Inr r, st1, w1)" and "\<not> failed r" and "es_reconnect_required st1"
  shows "asks_for_sign_in r"
  using assms(2,3) run_one_cycle_flag by (cases rule: cycle_attempt_cases [OF assms(1)]) auto

lemma cycle_attempt_raises: "cycle_attempt refs ag pacs env st w = (Inl e, st1, w1) \<Longrightarrow> st1 = st \<and> w1 = w"
  by (erule cycle_attempt_cases) auto

text \<open>The wait a status shows, by the cycle it shows; \<open>booked\<close> says that no other result is about to be booked.\<close>

definition wait_ok :: "bool \<Rightarrow> engine_status \<Rightarrow> bool" where
  "wait_ok booked st \<longleftrightarrow>
     (case es_last_cycle st of
        None \<Rightarrow> es_interval_ms st = MIN_INTERVAL_MS
      | Some r \<Rightarrow>
          (if failed r then es_interval_ms st = ERROR_BACKOFF_MS
           else (es_interval_ms st = dynamic_interval (cy_duration_ms r) \<or>
                   es_interval_ms st = RECONNECT_RETRY_MS \<and> asks_for_sign_in r) \<and>
                (booked \<and> es_reconnect_required st \<longrightarrow> es_interval_ms st = RECONNECT_RETRY_MS)))"

definition is_counting :: "loop_at \<Rightarrow> bool" where
  "is_counting pos \<longleftrightarrow> (case pos of Counting r \<Rightarrow> True | _ \<Rightarrow> False)"

definition engine_ok :: "loop_at \<times> engine_status \<Rightarrow> bool" where
  "engine_ok c \<longleftrightarrow> (case c of (pos, st) \<Rightarrow>
     es_consecutive_errors st \<le> MAX_CONSECUTIVE_ERRORS \<and>
     (pos = Starting \<or> is_counting pos \<longrightarrow> es_consecutive_errors st < MAX_CONSECUTIVE_ERRORS) \<and>
     (pos = Tripping \<or> pos = Parked \<longrightarrow> es_consecutive_errors st \<in> {0, MAX_CONSECUTIVE_ERRORS}) \<and>
     (es_paused st \<longrightarrow> pos = Parked) \<and>
     (case pos of Counting r \<Rightarrow> \<not> failed r \<and> es_reconnect_required st \<longrightarrow> asks_for_sign_in r | _ \<Rightarrow> True) \<and>
     wait_ok (\<not> is_counting pos) st)"

lemma after_cycle_status [simp]:
  "es_paused (after_cycle r st) = es_paused st" "es_trigger (after_cycle r st) = es_trigger st"
  "es_consecutive_errors (after_cycle r st) =
     (if failed r then Suc (es_consecutive_errors st) else if es_reconnect_required st then es_consecutive_errors st else 0)"
  by (simp_all add: after_cycle_def Let_def)

lemma wait_after_cycle: "(\<not> failed r \<and> es_reconnect_required st \<longrightarrow> asks_for_sign_in r) \<Longrightarrow> wait_ok b (after_cycle r st)"
  by (simp add: wait_ok_def after_cycle_def Let_def)

lemma wait_ok_unbooked: "wait_ok True st \<Longrightarrow> wait_ok False st"
  by (auto simp: wait_ok_def split: option.splits if_splits)

lemma loop_step_ok:
  assumes "loop_step refs ag pacs env (pos, st, w) = (pos', st', w')" and "engine_ok (pos, st)"
  shows "engine_ok (pos', st')"
proof (cases pos)
  case Starting
  obtain r st1 w1 where a: "cycle_attempt refs ag pacs env st w = (r, st1, w1)" by (cases "cycle_attempt refs ag pacs env st w")
  note keeps = cycle_attempt_status [OF a]
  show ?thesis
  proof (cases r)
    case (Inl e)
    then show ?thesis using assms a Starting cycle_attempt_raises [of refs ag pacs env st w e st1 w1]
      by (auto simp: engine_ok_def is_counting_def)
  next
    case (Inr x)
    have "wait_ok False st1" using assms(2) Starting keeps(3,4)
      by (auto simp: engine_ok_def is_counting_def wait_ok_def split: option.splits if_splits)
    then show ?thesis using assms a Starting Inr keeps cycle_attempt_flag [of refs ag pacs env st w x st1 w1]
      by (auto simp: engine_ok_def is_counting_def)
  qed
next
  case (Counting r)
  then have "wait_ok True (after_cycle r st)" using assms(2) by (intro wait_after_cycle) (simp add: engine_ok_def)
  then show ?thesis using assms Counting
    by (auto simp: engine_ok_def is_counting_def)
qed (use assms in \<open>auto simp: engine_ok_def is_counting_def wait_ok_def pause_def unpause_def engine_constants
    split: if_splits option.splits\<close>)

lemma engine_step_ok:
  assumes "engine_step refs ag pacs (pos, st, w) (pos', st', w')" and "engine_ok (pos, st)"
  shows "engine_ok (pos', st')"
  using assms(1)
proof (cases rule: engine_step.cases)
  case (thread env)
  then show ?thesis using loop_step_ok [of refs ag pacs env pos st w pos' st' w'] assms(2) by simp
qed (use assms(2) in \<open>auto simp: engine_ok_def wait_ok_def is_counting_def session_reset_def trigger_now_def
    invalidate_pacs_adapter_def split: option.splits loop_at.splits if_splits\<close>)

text \<open>One round of the loop left to itself: four steps, of which the second is the cycle.\<close>

lemma loop_round:
  assumes "es_consecutive_errors st < MAX_CONSECUTIVE_ERRORS" and "cycle_attempt refs ag pacs env st w = (Inr r, st1, w1)"
  shows "(loop_step refs ag pacs env ^^ 4) (Looking, st, w) = (Looking, (after_cycle r st1)\<lparr>es_trigger := False\<rparr>, w1)"
  using assms by (simp add: numeral_eq_Suc)

end
