(* ===== verification/Cycle_Laws.thy ===== *)
theory Cycle_Laws
  imports Engine
begin

text \<open>
  What the phases have in common, as facts about one phase run from any state: which calls leave
  a given pass alone, which calls a dry run still makes, and what an empty roster leads to. The
  properties of the cycle are compositions of these.
\<close>

text \<open>A call that is not about the pass \<open>(p, k)\<close>; a call by card id is about the row with that id.\<close>

definition spares :: "table \<Rightarrow> string \<Rightarrow> string \<Rightarrow> call \<Rightarrow> bool" where
  "spares rows p k c \<longleftrightarrow>
     (case c of
        CDelete i \<Rightarrow> \<exists>t\<in>set rows. t_key t \<noteq> (p, k) \<and> i = card_ref t
      | CSuspend i \<Rightarrow> \<exists>t\<in>set rows. t_key t \<noteq> (p, k) \<and> i = card_ref t
      | CResume i \<Rightarrow> \<exists>t\<in>set rows. t_key t \<noteq> (p, k) \<and> i = card_ref t
      | CUpdate i _ \<Rightarrow> \<exists>t\<in>set rows. t_key t \<noteq> (p, k) \<and> i = card_ref t
      | CProvision q \<Rightarrow> pp_employee_id q \<noteq> p \<or> map_of (pp_metadata q) ''pacs_credential_id'' \<noteq> Some k
      | PUpdateStatus a b _ \<Rightarrow> (a, b) \<noteq> (p, k)
      | PWriteBack a b _ \<Rightarrow> (a, b) \<noteq> (p, k)
      | PRetire a b _ \<Rightarrow> (a, b) \<noteq> (p, k)
      | _ \<Rightarrow> True)"

lemma held_row_cred:
  assumes "held_in snap p k" "t_key t = (p, k)"
  shows "\<exists>cred. cred_of snap t = Some cred \<and> cr_hold cred"
  using held_in_cred [of snap t] assms by (simp add: t_key_def)

lemma phase1_spares:
  assumes "held_in snap p k"
  shows "sends (spares rows p k) w (snd (phase1 refs ag pacs stop snap cfg dry cap now w))"
proof (rule sends_mono [OF phase1_sends [OF prod.collapse [symmetric]]])
  fix c
  assume "\<exists>pid creds person cred. (pid, creds) \<in> set (sn_creds snap) \<and> person_of snap pid = Some person \<and>
    pe_active person \<and> cred \<in> set creds \<and> p1_call_ok snap cfg dry now pid person cred c"
  then obtain pid creds person cred where c: "(pid, creds) \<in> set (sn_creds snap)" "cred \<in> set creds"
    "p1_call_ok snap cfg dry now pid person cred c" by blast
  have "\<not> cr_hold cred" using c(3) by (auto simp: p1_call_ok_def p1_may_issue_def split: call.splits)
  then have "(pid, cr_id cred) \<noteq> (p, k)" using held_in_mem [OF assms, of creds cred] c(1,2) by auto
  then show "spares rows p k c"
    using c(3) issue_params_fixed(2,4) issue_metadata_reserved(2)
    by (auto simp: p1_call_ok_def p1_may_issue_def spares_def split: call.splits)
qed

lemma phase2_spares:
  assumes "held_in snap p k"
  shows "sends (spares (w_rows w) p k) w (snd (phase2 ag snap dry now w))"
proof (rule sends_mono [OF phase2_sends])
  fix c
  assume "\<exists>t\<in>set (w_rows w). p2_call_ok snap dry t c"
  then obtain t where t: "t \<in> set (w_rows w)" "p2_call_ok snap dry t c" by blast
  show "spares (w_rows w) p k c"
  proof (cases "t_key t = (p, k)")
    case True
    then have "p2_decide t (cred_of snap t) s = P2Ignore" for s
      using p2_ignore_held [of snap t] assms by (simp add: t_key_def)
    then show ?thesis using t(2) by (auto simp: p2_call_ok_def spares_def split: call.splits)
  next
    case False
    then show ?thesis using t by (auto simp: p2_call_ok_def spares_def split: call.splits)
  qed
qed

lemma p3_first_pass_spares:
  assumes "held_in snap p k" "ts \<subseteq> set rows"
  shows "t \<in> ts \<Longrightarrow> p3_call_ok snap complete dry now t c \<Longrightarrow> spares rows p k c"
proof -
  assume t: "t \<in> ts" "p3_call_ok snap complete dry now t c"
  show "spares rows p k c"
  proof (cases "t_key t = (p, k)")
    case True
    then have "\<not> p3_may_delete snap complete now t"
      using p3_keep_held [of snap t complete now 0] assms(1) by (simp add: t_key_def p3_may_delete_def)
    then show ?thesis using t(2) by (auto simp: p3_call_ok_def spares_def split: call.splits)
  next
    case False
    then show ?thesis using t assms(2) by (auto simp: p3_call_ok_def spares_def split: call.splits)
  qed
qed

text \<open>The release of what AccessGrid deleted looks at no hold: phase 3 spares a held pass up to that.\<close>

lemma phase3_spares:
  assumes "held_in snap p k"
  shows "sends (\<lambda>c. spares (w_rows w) p k c \<or> (\<exists>ids. c = PRetire p k ids)) w (snd (phase3 ag pacs snap dry now w))"
proof (rule sends_mono [OF phase3_sends [OF prod.collapse [symmetric]]], elim disjE)
  fix c
  assume "\<exists>t\<in>set (w_rows w). p3_call_ok snap (read_complete (w_last_complete w) (length (sn_people snap))) dry now t c"
  then show "spares (w_rows w) p k c \<or> (\<exists>ids. c = PRetire p k ids)"
    using p3_first_pass_spares [OF assms order_refl] by blast
next
  fix c
  assume "\<exists>rows. p3_retire_ok rows c"
  then show "spares (w_rows w) p k c \<or> (\<exists>ids. c = PRetire p k ids)"
    by (auto simp: p3_retire_ok_def spares_def split: call.splits)
qed

lemma phase4_spares:
  assumes "held_in snap p k"
  shows "sends (spares (w_rows w) p k) w (snd (phase4 ag pacs snap now w))"
proof (rule sends_mono [OF phase4_effect(1)])
  fix c
  assume "\<exists>t\<in>set (w_rows w). p4_call_ok snap t c"
  then obtain t where t: "t \<in> set (w_rows w)" "p4_call_ok snap t c" by blast
  show "spares (w_rows w) p k c"
  proof (cases "t_key t = (p, k)")
    case True
    then have "\<exists>cred. cred_of snap t = Some cred \<and> cr_hold cred" by (rule held_row_cred [OF assms])
    then show ?thesis using t(2) by (auto simp: p4_call_ok_def p4_mine_def spares_def split: call.splits)
  next
    case False
    then show ?thesis using t by (auto simp: p4_call_ok_def spares_def split: call.splits)
  qed
qed

lemma phase5_spares:
  assumes "held_in snap p k"
  shows "sends (spares (w_rows w) p k) w (snd (phase5 refs ag pacs snap cfg dry now w))"
proof (rule sends_mono [OF phase5_effect(1)])
  fix c
  assume "\<exists>t\<in>set (w_rows w). t_retry_count t < MAX_RETRIES \<and> t_ag_card_id t = None \<and> t_sync_error t \<noteq> None \<and>
    p5_call_ok snap cfg dry now t c"
  then obtain t cred where t: "p5_call_ok snap cfg dry now t c" "cred_of snap t = Some cred" "\<not> cr_hold cred"
    by (auto simp: p5_call_ok_def)
  have "t_key t \<noteq> (p, k)" using held_row_cred [OF assms, of t] t by auto
  moreover have "cr_id cred = t_credential_id t" using t(2) by (auto simp: cred_of_def dest: find_cred_SomeD)
  ultimately show "spares (w_rows w) p k c"
    using t(1,2) issue_params_fixed(2,4) issue_metadata_reserved(2)
    by (auto simp: p5_call_ok_def spares_def t_key_def split: call.splits)
qed

lemma phase6_spares:
  assumes "held_in snap p k"
  shows "sends (spares (w_rows w) p k) w (snd (phase6 ag snap dry now w))"
proof (rule sends_mono [OF phase6_effect(1)])
  fix c
  assume "\<exists>t\<in>set (w_rows w). p6_call_ok snap dry t c"
  then obtain t where t: "t \<in> set (w_rows w)" "p6_call_ok snap dry t c" by blast
  have "t_key t \<noteq> (p, k)" using held_row_cred [OF assms, of t] t by (auto simp: p6_call_ok_def split: option.splits)
  then show "spares (w_rows w) p k c" using t by (auto simp: p6_call_ok_def spares_def)
qed

section \<open>Composing the phases\<close>

text \<open>
  What is reflexive and transitive and holds across each phase and the batched write holds across
  the phases of a cycle, however the cycle ends.
\<close>

lemma cycle_phases_rule:
  assumes refl: "\<And>v. R v v"
    and trans: "\<And>u v x. R u v \<Longrightarrow> R v x \<Longrightarrow> R u x"
    and phase1: "\<And>v stop now. R v (snd (phase1 refs ag (Some pacs) stop snap (ce_cfg env) (ce_dry env) MAX_PROVISIONS_PER_CYCLE now v))"
    and phase2: "\<And>v now. R v (snd (phase2 ag snap (ce_dry env) now v))"
    and phase3: "\<And>v now. R v (snd (phase3 ag (Some pacs) snap (ce_dry env) now v))"
    and phase4: "\<And>v now. R v (snd (phase4 (Some ag) pacs snap now v))"
    and phase5: "\<And>v now. R v (snd (phase5 refs ag (Some pacs) snap (ce_cfg env) (ce_dry env) now v))"
    and phase6: "\<And>v now. R v (snd (phase6 ag snap (ce_dry env) now v))"
    and finish: "\<And>v f. pacs_finish_cycle pacs = Some f \<Longrightarrow> R v (snd (pacs_call PFinish f v))"
    and run: "cycle_phases refs ag pacs env snap r0 w0 = (r, e, w')"
  shows "R w0 w'"
proof -
  define stop where "stop = (\<lambda>pid. ce_gen_at env pid \<noteq> ce_generation env)"
  obtain q1 w1 where 1: "phase1 refs ag (Some pacs) stop snap (ce_cfg env) (ce_dry env) MAX_PROVISIONS_PER_CYCLE (ce_now env 1) w0 = (q1, w1)" by fastforce
  obtain q2 w2 where 2: "phase2 ag snap (ce_dry env) (ce_now env 2) w1 = (q2, w2)" by fastforce
  obtain q3 w3 where 3: "phase3 ag (Some pacs) snap (ce_dry env) (ce_now env 3) w2 = (q3, w3)" by fastforce
  obtain q4 w4 where 4: "phase4 (Some ag) pacs snap (ce_now env 4) w3 = (q4, w4)" by fastforce
  obtain q5 w5 where 5: "phase5 refs ag (Some pacs) snap (ce_cfg env) (ce_dry env) (ce_now env 5) w4 = (q5, w5)" by fastforce
  obtain q6 w6 where 6: "phase6 ag snap (ce_dry env) (ce_now env 6) w5 = (q6, w6)" by fastforce
  have R1: "R w0 w1" using phase1 [where v = w0] 1 by (metis snd_conv)
  have R2: "R w0 w2" using trans [OF R1] phase2 [where v = w1] 2 by (metis snd_conv)
  have R3: "R w0 w3" using trans [OF R2] phase3 [where v = w2] 3 by (metis snd_conv)
  have R4: "R w0 w4" using trans [OF R3] phase4 [where v = w3] 4 by (metis snd_conv)
  have R5: "R w0 w5" using trans [OF R4] phase5 [where v = w4] 5 by (metis snd_conv)
  have R6: "R w0 w6" using trans [OF R5] phase6 [where v = w5] 6 by (metis snd_conv)
  have R7: "R w0 (snd (pacs_call PFinish f w6))" if "pacs_finish_cycle pacs = Some f" for f
    using trans [OF R6] finish [OF that] by blast
  have "w' \<in> {w1, w2, w3, w4, w5, w6} \<or> (\<exists>f. pacs_finish_cycle pacs = Some f \<and> w' = snd (pacs_call PFinish f w6))"
    using run unfolding cycle_phases_def Let_def stop_def [symmetric] 1
    by (auto simp: 2 3 4 5 6 split: sum.splits if_splits option.splits prod.splits)
  then show ?thesis using R1 R2 R3 R4 R5 R6 R7 by auto
qed

section \<open>A dry run\<close>

definition dry_ok :: "call \<Rightarrow> bool" where
  "dry_ok c \<longleftrightarrow> \<not> ag_mutation c"

lemma dry_phases:
  "sends dry_ok w (snd (phase1 refs ag pacs stop snap cfg True cap now w))"
  "sends dry_ok w (snd (phase2 ag snap True now w))"
  "sends dry_ok w (snd (phase3 ag pacs snap True now w))"
  "sends dry_ok w (snd (phase4 oag opacs snap now w))"
  "sends dry_ok w (snd (phase5 refs ag pacs snap cfg True now w))"
  "sends dry_ok w (snd (phase6 ag snap True now w))"
proof -
  show "sends dry_ok w (snd (phase1 refs ag pacs stop snap cfg True cap now w))"
    by (rule sends_mono [OF phase1_sends [OF prod.collapse [symmetric]]])
      (auto simp: p1_call_ok_def dry_ok_def elim: ag_mutation.elims)
  show "sends dry_ok w (snd (phase2 ag snap True now w))"
    by (rule sends_mono [OF phase2_sends]) (auto simp: p2_call_ok_def)
  show "sends dry_ok w (snd (phase3 ag pacs snap True now w))"
    by (rule sends_mono [OF phase3_sends [OF prod.collapse [symmetric]]])
      (auto simp: p3_call_ok_def p3_retire_ok_def dry_ok_def elim: ag_mutation.elims)
  show "sends dry_ok w (snd (phase4 oag opacs snap now w))"
    by (rule sends_mono [OF phase4_effect(1)]) (auto simp: p4_call_ok_def dry_ok_def elim: ag_mutation.elims)
  show "sends dry_ok w (snd (phase5 refs ag pacs snap cfg True now w))"
    by (rule sends_mono [OF phase5_effect(1)]) (auto simp: p5_call_ok_def)
  show "sends dry_ok w (snd (phase6 ag snap True now w))"
    by (rule sends_mono [OF phase6_effect(1)]) (auto simp: p6_call_ok_def)
qed

section \<open>Reading\<close>

definition read_only :: "call \<Rightarrow> bool" where
  "read_only c \<longleftrightarrow> \<not> ag_mutation c \<and> \<not> pacs_mutation c"

lemma build_snapshot_effect:
  assumes "build_snapshot ag pacs tpl w = (r, w')"
  shows "sends read_only w w'" "w_rows w' = w_rows w"
proof -
  have step: "sends read_only v (snd (read_credentials pacs pp sn v)) \<and> w_rows (snd (read_credentials pacs pp sn v)) = w_rows v"
    for pp sn and v :: "('a, 'b) world"
    by (auto simp: read_credentials_def sends_def pacs_call_def read_only_def split: sum.split prod.split)
  let ?w0 = "w\<lparr>w_detail := []\<rparr>"
  obtain q w1 where 1: "pacs_call PListPeople (pacs_list_people pacs) ?w0 = (q, w1)" by fastforce
  have s1: "sends read_only w w1" "w_rows w1 = w_rows w"
    using sends_pacs_call [OF 1, of read_only] pacs_call_keeps(1) [OF 1] by (simp_all add: read_only_def)
  have loop: "sends read_only v (snd (for_each (read_credentials pacs) pps sn v)) \<and>
      w_rows (snd (for_each (read_credentials pacs) pps sn v)) = w_rows v" for pps sn and v :: "('a, 'b) world"
  proof (intro conjI)
    show "sends read_only v (snd (for_each (read_credentials pacs) pps sn v))"
      by (rule for_each_sends) (simp add: step)
    show "w_rows (snd (for_each (read_credentials pacs) pps sn v)) = w_rows v"
      by (rule for_each_invariant [where P = "\<lambda>x. w_rows x = w_rows v"]) (simp_all add: step)
  qed
  have s2: "sends read_only w w2 \<and> w_rows w2 = w_rows w"
    if "for_each (read_credentials pacs) pps sn w1 = (q2, w2)" for pps sn q2 w2
    using loop [of w1 pps sn] that s1 sends_trans [OF s1(1), of w2] by simp
  have s3: "sends read_only w w3 \<and> w_rows w3 = w_rows w"
    if "for_each (read_credentials pacs) pps sn w1 = (q2, w2)" "ag_call (CList tpl) (api_list_cards ag tpl) w2 = (q3, w3)"
    for pps sn q2 w2 q3 w3
  proof -
    have "sends read_only w2 w3" by (rule sends_ag_call [OF that(2)]) (simp add: read_only_def)
    then show ?thesis using s2 [OF that(1)] ag_call_keeps(1) [OF that(2)] by (auto intro: sends_trans)
  qed
  have "w' = w1 \<or> (\<exists>pps sn q2 w2. for_each (read_credentials pacs) pps sn w1 = (q2, w2) \<and>
      (w' = w2 \<or> (\<exists>q3. ag_call (CList tpl) (api_list_cards ag tpl) w2 = (q3, w'))))"
    using assms 1 by (auto simp: build_snapshot_def Let_def split: sum.splits prod.splits)
  then have "sends read_only w w' \<and> w_rows w' = w_rows w"
    using s1 s2 s3 by blast
  then show "sends read_only w w'" "w_rows w' = w_rows w" by auto
qed

end
