(* ===== verification/Demo_Site.thy ===== *)
theory Demo_Site
  imports Cycle_Laws
begin

text \<open>
  A small site on which the witnesses of the cycle's properties are evaluated: an AccessGrid that
  answers every call, a PACS with one cardholder, and the tables the examples start from.
\<close>

definition demo_card :: "string \<Rightarrow> string \<Rightarrow> ag_card" where
  "demo_card i state = \<lparr>ae_attrs = [(''id'', PStr i), (''state'', PStr state), (''employee_id'', PStr ''7'')],
     ac_metadata = [(''pacs_credential_id'', PStr ''c1'')], ac_collections = []\<rparr>"

definition demo_ag :: "unit ag_api" where
  "demo_ag = \<lparr>api_list_cards = (\<lambda>_ s. (Inr [], s)), api_get = (\<lambda>i s. (Inr (demo_card i ''active''), s)),
     api_provision = (\<lambda>_ s. (Inr (demo_card ''A1'' ''created''), s)),
     api_suspend = (\<lambda>_ s. (Inr (), s)), api_resume = (\<lambda>_ s. (Inr (), s)),
     api_delete = (\<lambda>_ s. (Inr (), s)), api_update = (\<lambda>_ _ s. (Inr (), s))\<rparr>"

text \<open>The same service, refusing every change.\<close>

definition failing_ag :: "unit ag_api" where
  "failing_ag = demo_ag\<lparr>api_provision := (\<lambda>_ s. (Inl (AccessGridError ''rejected''), s)),
     api_update := (\<lambda>_ _ s. (Inl (AccessGridError ''rejected''), s))\<rparr>"

definition demo_person :: person where
  "demo_person = (mk_person ''7'' ''Ana'')\<lparr>pe_email := ''ana@example.com''\<rparr>"

definition demo_cred :: credential where
  "demo_cred = (mk_credential ''c1'' ''7'')\<lparr>cr_card_number := ''4711'', cr_status := ACTIVE, cr_trigger_active := True\<rparr>"

definition held_cred :: credential where
  "held_cred = demo_cred\<lparr>cr_hold := True\<rparr>"

definition seos_cred :: credential where
  "seos_cred = (mk_credential ''c1'' ''7'')\<lparr>cr_allocate_identity := True, cr_status := ACTIVE, cr_trigger_active := True\<rparr>"

definition demo_pacs :: "unit pacs_api" where
  "demo_pacs = \<lparr>pacs_declares_writeback = True, pacs_supports_status_writeback = (\<lambda>_. True), pacs_supports_credential_writeback = (\<lambda>_. False),
     pacs_supports_credential_retirement = (\<lambda>_. False),
     pacs_list_people = (\<lambda>s. (Inr [demo_person], s)), pacs_list_credentials = (\<lambda>_ s. (Inr [demo_cred], s)),
     pacs_update_credential_status = (\<lambda>_ _ _ s. (Inr True, s)),
     pacs_write_back_credentials = (\<lambda>_ _ _ s. (Inr True, s)),
     pacs_retire_credentials = (\<lambda>_ _ ids s. (Inr (length ids), s)),
     pacs_written_credentials = (\<lambda>s. (Inr [], s)), pacs_finish_cycle = None\<rparr>"

text \<open>A PACS that receives credentials and has one written for the cardholder.\<close>

definition seos_pacs :: "unit pacs_api" where
  "seos_pacs = demo_pacs\<lparr>pacs_supports_credential_writeback := (\<lambda>_. True),
     pacs_supports_credential_retirement := (\<lambda>_. True),
     pacs_written_credentials := (\<lambda>s. (Inr [((''7'', ''c1''), [''4711''])], s))\<rparr>"

definition demo_snapshot :: "credential list \<Rightarrow> ag_card list \<Rightarrow> snapshot" where
  "demo_snapshot creds cards = fold note_card cards
     (empty_snapshot\<lparr>sn_people := [(''7'', demo_person)], sn_creds := [(''7'', creds)]\<rparr>)"

definition demo_row :: tracked where
  "demo_row = (insert_row 0 (issued_args ''7'' demo_person ''c1'' (demo_card ''A1'' ''active'') ''r0''))"

definition failed_row :: "nat \<Rightarrow> tracked" where
  "failed_row n = (insert_row 0 (pending_args ''7'' demo_person demo_cred))\<lparr>t_sync_error := Some ''rejected'', t_retry_count := n\<rparr>"

definition demo_world :: "table \<Rightarrow> (unit, unit) world" where
  "demo_world rows = \<lparr>w_rows = rows, w_last_complete = None, w_ag = (), w_pacs = (), w_refs = 0,
     w_detail = [], w_calls = []\<rparr>"

definition demo_cfg :: issue_cfg where
  "demo_cfg = \<lparr>ic_template_id = ''tpl'', ic_site_code = ''12'', ic_dedupe = False, ic_extra_metadata = [],
     ic_use_file_data = False, ic_card_title = '''', ic_card_classification = ''Resident''\<rparr>"

definition demo_refs :: "nat \<Rightarrow> string" where
  "demo_refs n = ''r'' @ string_of_nat n"

definition demo_env :: "bool \<Rightarrow> cycle_env" where
  "demo_env dry = \<lparr>ce_in_flight = False, ce_unreadable = None, ce_configured = True, ce_ag_init = None, ce_pacs_init = None, ce_vendor = ''cdvi'',
     ce_display_name = ''CDVI'', ce_cfg = demo_cfg, ce_dry = dry, ce_now = (\<lambda>_. 0), ce_duration_ms = 1000,
     ce_gen_at_start = 0, ce_generation = 0, ce_gen_at = (\<lambda>_. 0), ce_gen_after_p1 = 0, ce_gen_after_p3 = 0\<rparr>"

end
