(* ===== verification/Sync_Properties.thy ===== *)
theory Sync_Properties
  imports Demo_Site
begin

text \<open>
  What the sync promises of a cycle: held passes, dry runs, the empty and the partial read,
  what is issued, suspended, deleted and written back, retries and field updates.
\<close>

section \<open>Helper facts\<close>

text \<open>A row the cap of expiries does not concern is judged the same whatever was deleted before.\<close>

definition missing :: "snapshot \<Rightarrow> tracked \<Rightarrow> bool" where
  "missing snap t \<longleftrightarrow> person_of snap (t_person_id t) = None \<or> cred_of snap t = None"

lemma verdict_present:
  assumes "p3_verdict_of snap complete now n t \<notin> {P3Keep, P3Expired}"
  shows "complete \<and> missing snap t"
  using assms by (auto simp: p3_verdict_of_def Let_def missing_def split: if_splits option.splits)

lemma verdict_expired:
  assumes "p3_verdict_of snap complete now n t = P3Expired"
  shows "n < MAX_EXPIRIES_PER_CYCLE"
  using assms by (auto simp: p3_verdict_of_def Let_def split: if_splits option.splits)

fun is_delete :: "call \<Rightarrow> bool" where
  "is_delete (CDelete _) = True"
| "is_delete _ = False"

definition deletes :: "('a, 'p) world \<Rightarrow> nat" where
  "deletes w = length (List.filter (\<lambda>c. is_delete (fst c)) (w_calls w))"

lemma deletes_sends: "sends (\<lambda>c. \<not> is_delete c) w w' \<Longrightarrow> deletes w' = deletes w"
  by (auto simp: sends_def deletes_def list_all_iff filter_empty_conv)

lemma p3_failed_calls: "w_calls (snd (p3_failed t e n w)) = w_calls w"
  by (simp add: p3_failed_def)

lemma p3_delete_count:
  "deletes (snd (p3_delete ag pacs now t cards n w)) = Suc (deletes w) \<and>
   (case fst (p3_delete ag pacs now t cards n w) of Inl _ \<Rightarrow> True | Inr m \<Rightarrow> snd m = snd n)"
proof -
  obtain r w1 where call: "ag_call (CDelete (card_ref t)) (api_delete ag (card_ref t)) w = (r, w1)" by fastforce
  have 1: "deletes w1 = Suc (deletes w)" using ag_call_keeps(2) [OF call] by (simp add: deletes_def)
  let ?w2 = "on_rows (mark_deleted now (t_person_id t) (t_credential_id t)) w1"
  obtain q w3 where ret: "p3_retire_expired pacs t cards ?w2 = (q, w3)" by fastforce
  have "sends (\<lambda>c. \<not> is_delete c) ?w2 w3" by (rule p3_retire_expired_effect(2) [OF ret]) simp
  then have 3: "deletes w3 = deletes w1" using deletes_sends by (fastforce simp: deletes_def)
  have f: "deletes (snd (p3_failed t e m v)) = deletes v" for e and m :: "nat \<times> nat" and v :: "('a, 'b) world"
    by (simp add: deletes_def p3_failed_calls)
  show ?thesis using call ret 1 3 f
    by (auto simp: p3_delete_def Let_def p3_failed_def split: sum.split)
qed

text \<open>While nobody is missing, every delete of the first pass is an expiry the counter has seen.\<close>

lemma p3_row_count:
  assumes "\<not> complete \<or> \<not> missing snap t"
    and "deletes v \<le> k + snd n" "snd n \<le> MAX_EXPIRIES_PER_CYCLE"
  shows "case p3_row ag pacs snap complete dry now t n v of
     (Inl e, v') \<Rightarrow> deletes v' \<le> k + MAX_EXPIRIES_PER_CYCLE
   | (Inr m, v') \<Rightarrow> deletes v' \<le> k + snd m \<and> snd m \<le> MAX_EXPIRIES_PER_CYCLE"
proof (cases "p3_verdict_of snap complete now (snd n) t = P3Keep")
  case True
  then show ?thesis using assms by (simp add: p3_row_def)
next
  case False
  then have ex: "p3_verdict_of snap complete now (snd n) t = P3Expired"
    using verdict_present [of snap complete now "snd n" t] assms(1) by auto
  then have lt: "snd n < MAX_EXPIRIES_PER_CYCLE" by (rule verdict_expired)
  obtain cards w1 where cards: "p3_expired_cards ag pacs snap now t v = (cards, w1)" by fastforce
  have w1: "deletes w1 = deletes v"
    by (rule deletes_sends, rule sends_mono [OF p3_expired_cards_effect(1) [OF cards]]) auto
  obtain r w2 where del: "p3_delete ag pacs now t cards (fst n, Suc (snd n)) w1 = (r, w2)" by fastforce
  show ?thesis
    using ex cards w1 del p3_delete_count [of ag pacs now t cards "(fst n, Suc (snd n))" w1] assms(2) lt
    by (auto simp: p3_row_def Let_def split: sum.splits if_splits)
qed

section \<open>Held passes\<close>

definition leaves_alone :: "string \<Rightarrow> string \<Rightarrow> ('a, 'p) world \<Rightarrow> ('a, 'p) world \<Rightarrow> bool" where
  "leaves_alone p k w w' \<longleftrightarrow> same_pass p k w w' \<and> sends (spares (w_rows w) p k) w w'"

text \<open>
  C2. A pass the adapter holds is left alone by every phase: no phase issues, suspends, resumes,
  updates or deletes it, none writes a status or an identity of it into the PACS, and its row
  keeps everything but the last AccessGrid state seen. The one exception is the release at the end
  of phase 3, which may take identities of a held pass out of the PACS.
\<close>

theorem held_pass_left_alone:
  assumes "held_in snap p k"
  shows "leaves_alone p k w (snd (phase1 refs ag opacs stop snap cfg dry cap now w)) \<and>
    leaves_alone p k w (snd (phase2 ag snap dry now w)) \<and>
    same_pass p k w (snd (phase3 ag opacs snap dry now w)) \<and>
    sends (\<lambda>c. spares (w_rows w) p k c \<or> (\<exists>ids. c = PRetire p k ids)) w (snd (phase3 ag opacs snap dry now w)) \<and>
    leaves_alone p k w (snd (phase4 oag pacs snap now w)) \<and>
    leaves_alone p k w (snd (phase5 refs ag opacs snap cfg dry now w)) \<and>
    leaves_alone p k w (snd (phase6 ag snap dry now w))"
proof (intro conjI)
  note rows = phase1_held_row [OF prod.collapse [symmetric] assms] phase2_held_row [OF assms]
    phase3_held_row [OF prod.collapse [symmetric] assms] phase5_effect(2) [OF assms] phase6_effect(2) [OF assms]
  show "leaves_alone p k w (snd (phase1 refs ag opacs stop snap cfg dry cap now w))"
    unfolding leaves_alone_def by (intro conjI same_row_pass rows phase1_spares [OF assms])
  show "leaves_alone p k w (snd (phase2 ag snap dry now w))"
    unfolding leaves_alone_def by (intro conjI same_row_pass rows phase2_spares [OF assms])
  show "same_pass p k w (snd (phase3 ag opacs snap dry now w))" by (intro same_row_pass rows)
  show "sends (\<lambda>c. spares (w_rows w) p k c \<or> (\<exists>ids. c = PRetire p k ids)) w (snd (phase3 ag opacs snap dry now w))"
    by (rule phase3_spares [OF assms])
  show "leaves_alone p k w (snd (phase4 oag pacs snap now w))"
    unfolding leaves_alone_def by (intro conjI phase4_effect(2) [OF assms] phase4_spares [OF assms])
  show "leaves_alone p k w (snd (phase5 refs ag opacs snap cfg dry now w))"
    unfolding leaves_alone_def by (intro conjI same_row_pass rows phase5_spares [OF assms])
  show "leaves_alone p k w (snd (phase6 ag snap dry now w))"
    unfolding leaves_alone_def by (intro conjI same_row_pass rows phase6_spares [OF assms])
qed

theorem held_pass_left_alone_witness:
  "held_in (demo_snapshot [held_cred] []) ''7'' ''c1'' \<and>
   leaves_alone ''7'' ''c1'' (demo_world [demo_row])
     (snd (phase2 demo_ag (demo_snapshot [held_cred] []) False 0 (demo_world [demo_row])))"
proof -
  have "held_in (demo_snapshot [held_cred] []) ''7'' ''c1''" by code_simp
  then show ?thesis using held_pass_left_alone [of "demo_snapshot [held_cred] []" "''7''" "''c1''"] by blast
qed

definition gone_card :: ag_card where
  "gone_card = \<lparr>ae_attrs = [(''id'', PStr ''A1''), (''state'', PStr ''deleted''), (''site_code'', PStr ''12''),
     (''card_number'', PStr ''4711'')], ac_metadata = [(''sync_ref'', PStr ''r0'')], ac_collections = []\<rparr>"

definition gone_ag :: "unit ag_api" where
  "gone_ag = demo_ag\<lparr>api_get := (\<lambda>_ s. (Inr gone_card, s))\<rparr>"

text \<open>
  The contract says no phase deletes a held pass's credential, yet the release at the end of
  phase 3 never looks at the hold: on a site whose one pass is held, with its card deleted in
  AccessGrid, phase 3 still asks the PACS to retire the card's identity.
\<close>

theorem held_pass_retired_anyway:
  "held_in (demo_snapshot [seos_cred\<lparr>cr_hold := True\<rparr>] [gone_card]) ''7'' ''c1'' \<and>
   (\<exists>ids. ids \<noteq> [] \<and> PRetire ''7'' ''c1'' ids \<in> set (sent (demo_world [demo_row])
      (snd (phase3 gone_ag (Some seos_pacs) (demo_snapshot [seos_cred\<lparr>cr_hold := True\<rparr>] [gone_card]) False 0
        (demo_world [demo_row])))))"
proof (intro conjI exI)
  show "held_in (demo_snapshot [seos_cred\<lparr>cr_hold := True\<rparr>] [gone_card]) ''7'' ''c1''" by code_simp
  show "deleted_identities_from_cards [gone_card] \<noteq> []" by code_simp
  show "PRetire ''7'' ''c1'' (deleted_identities_from_cards [gone_card]) \<in> set (sent (demo_world [demo_row])
      (snd (phase3 gone_ag (Some seos_pacs) (demo_snapshot [seos_cred\<lparr>cr_hold := True\<rparr>] [gone_card]) False 0
        (demo_world [demo_row]))))" by code_simp
qed

section \<open>Dry runs\<close>

text \<open>
  C3. A cycle in dry-run mode makes no call that changes anything in AccessGrid: no phase issues,
  suspends, resumes, deletes or updates a pass, whatever the two systems hold and answer.
\<close>

theorem dry_run_changes_nothing_in_accessgrid:
  assumes "ce_dry env" and "cycle_phases refs ag pacs env snap r0 w = (r, e, w')"
  shows "List.filter ag_mutation (sent w w') = []"
proof -
  have "sends dry_ok w w'"
    by (rule cycle_phases_rule [where R = "sends dry_ok", OF _ _ _ _ _ _ _ _ _ assms(2)])
      (use assms(1) dry_phases in \<open>auto intro: sends_trans sends_pacs_call [OF prod.collapse [symmetric]] simp: dry_ok_def\<close>)
  then show ?thesis unfolding dry_ok_def by (rule sends_none)
qed

theorem dry_run_changes_nothing_in_accessgrid_witness:
  "List.filter ag_mutation (sent (demo_world []) (snd (snd
     (cycle_phases demo_refs demo_ag demo_pacs (demo_env True) (demo_snapshot [demo_cred] []) (new_result 0) (demo_world []))))) = []"
proof -
  let ?run = "cycle_phases demo_refs demo_ag demo_pacs (demo_env True) (demo_snapshot [demo_cred] []) (new_result 0) (demo_world [])"
  have "ce_dry (demo_env True)" by (simp add: demo_env_def)
  moreover have "?run = (fst ?run, fst (snd ?run), snd (snd ?run))" by simp
  ultimately show ?thesis by (rule dry_run_changes_nothing_in_accessgrid)
qed

text \<open>
  The PACS is not covered. In dry-run mode phase 4 still writes a status into the PACS: here
  for a pass suspended in AccessGrid whose card has lost its trigger.
\<close>

theorem dry_run_still_writes_the_pacs:
  "PUpdateStatus ''7'' ''c1'' SUSPENDED \<in> set (sent (demo_world [demo_row]) (snd (snd
     (cycle_phases demo_refs demo_ag demo_pacs (demo_env True)
       (demo_snapshot [demo_cred\<lparr>cr_trigger_active := False\<rparr>] [demo_card ''A1'' ''suspended''])
       (new_result 0) (demo_world [demo_row])))))"
  by code_simp

section \<open>Status changes\<close>

text \<open>
  The direction check. A pass is suspended or resumed by phase 2 only for a tracked pass with a
  card whose credential is on its cardholder, trigger-active and not held; the state AccessGrid
  lists is the one last seen or unknown on one side; suspending needs a PACS credential that is
  neither active nor awaiting its install, resuming needs an active one and a suspended pass, and a
  pass is terminated exactly when its trigger is gone.
\<close>

theorem phase2_direction:
  "(p2_decide t co s = P2Terminate \<longleftrightarrow>
      (\<exists>cred. co = Some cred \<and> \<not> cr_hold cred \<and> \<not> cr_trigger_active cred \<and> has_card t \<and>
         t_status t \<notin> {''deleted'', ''pending'', ''deduped''})) \<and>
   (p2_decide t co s \<in> {P2Suspend, P2Resume} \<longrightarrow>
      (\<exists>cred. co = Some cred \<and> \<not> cr_hold cred \<and> cr_trigger_active cred \<and> has_card t \<and>
         (s = '''' \<or> t_last_known_ag_state t = '''' \<or> s = t_last_known_ag_state t) \<and>
         (p2_decide t co s = P2Suspend \<longrightarrow> cr_status cred \<in> {SUSPENDED, UNKNOWN} \<and> s \<in> {'''', ''active'', ''created''} \<and>
            \<not> (s = ''created'' \<and> cr_allocate_identity cred)) \<and>
         (p2_decide t co s = P2Resume \<longrightarrow> cr_status cred = ACTIVE \<and> s = ''suspended'')))"
proof (cases co)
  case None
  then show ?thesis by (simp add: p2_decide_def)
next
  case (Some cred)
  then show ?thesis by (cases "cr_status cred") (auto simp: p2_decide_def Let_def)
qed

theorem phase2_direction_witness:
  "p2_decide demo_row (Some (demo_cred\<lparr>cr_status := SUSPENDED\<rparr>)) ''active'' = P2Suspend \<and>
   cr_status (demo_cred\<lparr>cr_status := SUSPENDED\<rparr>) \<in> {SUSPENDED, UNKNOWN}"
proof -
  have "p2_decide demo_row (Some (demo_cred\<lparr>cr_status := SUSPENDED\<rparr>)) ''active'' = P2Suspend" by code_simp
  then show ?thesis
    using phase2_direction [of demo_row "Some (demo_cred\<lparr>cr_status := SUSPENDED\<rparr>)" "''active''"] by auto
qed

text \<open>
  Phase 4 undoes what phase 2 has just pushed. Phase 2 stores \<open>suspended\<close> as the last state
  seen, phase 4 compares it with the listing taken before the push, and so reads every suspension
  phase 2 sends for an operator's own card as a change made in AccessGrid, back to active.
\<close>

theorem phase4_reverts_phase2:
  assumes "p2_decide t (Some cred) (card_state crd) = P2Suspend" and "card_state crd \<noteq> ''''"
    and "\<not> cr_allocate_identity cred"
    and "tracking_get rows (t_person_id t) (t_credential_id t) = Some t"
  shows "\<exists>t'. tracking_get (update_status now (t_person_id t) (t_credential_id t) ''suspended'' ''suspended'' rows)
             (t_person_id t) (t_credential_id t) = Some t' \<and>
           p4_decide t' (Some cred) (Some crd) = P4Write ACTIVE (card_state crd)"
proof -
  have st: "card_state crd \<in> {''active'', ''created''}" "cr_status cred \<noteq> ACTIVE" "\<not> cr_hold cred" "has_card t"
    using assms(1,2) by (auto simp: p2_decide_def Let_def split: if_splits)
  then show ?thesis using assms
    by (auto simp: get_update_status p4_decide_def Let_def ag_to_cred_status_def has_card_def)
qed

theorem phase4_reverts_phase2_witness:
  "\<exists>t'. tracking_get (update_status 0 ''7'' ''c1'' ''suspended'' ''suspended'' [demo_row]) ''7'' ''c1'' = Some t' \<and>
     p4_decide t' (Some (demo_cred\<lparr>cr_status := SUSPENDED\<rparr>)) (Some (demo_card ''A1'' ''active'')) = P4Write ACTIVE ''active''"
proof -
  have d: "p2_decide demo_row (Some (demo_cred\<lparr>cr_status := SUSPENDED\<rparr>)) (card_state (demo_card ''A1'' ''active'')) = P2Suspend"
    and s: "card_state (demo_card ''A1'' ''active'') = ''active''"
    and a: "\<not> cr_allocate_identity (demo_cred\<lparr>cr_status := SUSPENDED\<rparr>)"
    and k: "t_person_id demo_row = ''7''" "t_credential_id demo_row = ''c1''"
    and g: "tracking_get [demo_row] (t_person_id demo_row) (t_credential_id demo_row) = Some demo_row"
    by code_simp+
  have n: "card_state (demo_card ''A1'' ''active'') \<noteq> ''''" by (simp add: s)
  from phase4_reverts_phase2 [where now = 0, OF d n a g] show ?thesis by (simp only: k s)
qed

definition one_pass :: "string \<Rightarrow> ag_card" where
  "one_pass state = demo_card ''A1'' state"

definition live_ag :: "string ag_api" where
  "live_ag = \<lparr>api_list_cards = (\<lambda>_ s. (Inr [one_pass s], s)), api_get = (\<lambda>_ s. (Inr (one_pass s), s)),
     api_provision = (\<lambda>_ s. (Inr (one_pass s), s)), api_suspend = (\<lambda>_ _. (Inr (), ''suspended'')),
     api_resume = (\<lambda>_ _. (Inr (), ''active'')), api_delete = (\<lambda>_ _. (Inr (), ''deleted'')),
     api_update = (\<lambda>_ _ s. (Inr (), s))\<rparr>"

definition live_pacs :: "cred_status pacs_api" where
  "live_pacs = \<lparr>pacs_declares_writeback = True, pacs_supports_status_writeback = (\<lambda>_. True), pacs_supports_credential_writeback = (\<lambda>_. False),
     pacs_supports_credential_retirement = (\<lambda>_. False),
     pacs_list_people = (\<lambda>s. (Inr [demo_person], s)),
     pacs_list_credentials = (\<lambda>_ s. (Inr [demo_cred\<lparr>cr_status := s\<rparr>], s)),
     pacs_update_credential_status = (\<lambda>_ _ st _. (Inr True, st)),
     pacs_write_back_credentials = (\<lambda>_ _ _ s. (Inr False, s)),
     pacs_retire_credentials = (\<lambda>_ _ _ s. (Inr 0, s)),
     pacs_written_credentials = (\<lambda>s. (Inr [], s)), pacs_finish_cycle = None\<rparr>"

definition live_world :: "string \<Rightarrow> cred_status \<Rightarrow> (string, cred_status) world" where
  "live_world a p = \<lparr>w_rows = [demo_row], w_last_complete = None, w_ag = a, w_pacs = p, w_refs = 0,
     w_detail = [], w_calls = []\<rparr>"

definition live_cycle :: "(string, cred_status) world \<Rightarrow> (string, cred_status) world" where
  "live_cycle w = snd (snd (run_one_cycle demo_refs live_ag live_pacs (demo_env False) initial_status w))"

text \<open>
  A run of it. On a site whose two services keep one status each, with the card suspended in the PACS
  and its pass active in AccessGrid, one whole cycle suspends the pass and reactivates the card, the
  next resumes the pass and suspends the card, and the third does as the first.
\<close>

theorem suspension_swaps_the_statuses:
  "let w0 = live_world ''active'' SUSPENDED; w1 = live_cycle w0; w2 = live_cycle w1; w3 = live_cycle w2 in
     (w_ag w1, w_pacs w1) = (''suspended'', ACTIVE) \<and>
     (w_ag w2, w_pacs w2) = (''active'', SUSPENDED) \<and>
     (w_ag w3, w_pacs w3) = (''suspended'', ACTIVE) \<and> w_rows w3 = w_rows w1"
  by code_simp

section \<open>Issuing\<close>

text \<open>
  C5. Every provision phase 1 sends is for a credential of an active cardholder that is
  trigger-active, not held, not expired and not deduped, the cardholder has a name and an address
  to deliver to, and the arguments are those the settings and the credential determine. A
  credential whose identity AccessGrid allocates carries none of its own, and the metadata keys the
  sync owns win over the configured ones.
\<close>

theorem phase1_issues_only_eligible:
  assumes "CProvision q \<in> set (sent w (snd (phase1 refs ag pacs stop snap cfg dry cap now w)))"
  shows "\<exists>creds person cred ref. (pp_employee_id q, creds) \<in> set (sn_creds snap) \<and> cred \<in> set creds \<and>
     person_of snap (pp_employee_id q) = Some person \<and> pe_active person \<and> pe_full_name person \<noteq> '''' \<and>
     (pe_email person \<noteq> '''' \<or> pe_phone person \<noteq> '''') \<and> \<not> dry \<and>
     cr_trigger_active cred \<and> \<not> cr_hold cred \<and> \<not> expired now cred \<and> dedupe_hit cfg snap cred = None \<and>
     issue_params cfg now (pp_employee_id q) person cred ref = Inr q \<and>
     map_of (pp_metadata q) ''sync_ref'' = Some ref \<and>
     map_of (pp_metadata q) ''pacs_credential_id'' = Some (cr_id cred) \<and>
     (cr_allocate_identity cred \<longrightarrow> pp_site_code q = None \<and> pp_card_number q = None \<and> pp_file_data q = None)"
proof -
  have "\<exists>pid creds person cred. (pid, creds) \<in> set (sn_creds snap) \<and> person_of snap pid = Some person \<and>
      pe_active person \<and> cred \<in> set creds \<and> p1_call_ok snap cfg dry now pid person cred (CProvision q)"
    by (rule sends_sent [OF phase1_sends [OF prod.collapse [symmetric]] assms])
  then obtain pid creds person cred where
    here: "(pid, creds) \<in> set (sn_creds snap)" "person_of snap pid = Some person" "pe_active person" "cred \<in> set creds"
    and ok: "p1_call_ok snap cfg dry now pid person cred (CProvision q)" by blast
  obtain ref where q: "issue_params cfg now pid person cred ref = Inr q"
    using ok by (auto simp: p1_call_ok_def p1_may_issue_def)
  note fixed = issue_params_fixed [OF q]
  have alloc: "cr_allocate_identity cred \<Longrightarrow> pp_site_code q = None \<and> pp_card_number q = None \<and> pp_file_data q = None"
    using issue_params_no_identity [of cred cfg now pid person ref] q by auto
  show ?thesis
    by (rule exI [of _ creds], rule exI [of _ person], rule exI [of _ cred], rule exI [of _ ref])
      (use here ok q fixed alloc in \<open>auto simp: p1_call_ok_def p1_may_issue_def issue_metadata_reserved\<close>)
qed

theorem phase1_issues_only_eligible_witness:
  "\<exists>q. CProvision q \<in> set (sent (demo_world []) (snd (phase1 demo_refs demo_ag (Some demo_pacs) (\<lambda>_. False)
      (demo_snapshot [demo_cred] []) demo_cfg False 25 0 (demo_world [])))) \<and>
     map_of (pp_metadata q) ''pacs_credential_id'' = Some ''c1''"
proof -
  let ?w' = "snd (phase1 demo_refs demo_ag (Some demo_pacs) (\<lambda>_. False) (demo_snapshot [demo_cred] []) demo_cfg False 25 0 (demo_world []))"
  obtain q where q: "issue_params demo_cfg 0 ''7'' demo_person demo_cred ''r0'' = Inr q"
    by (simp add: issue_params_def Let_def demo_cred_def demo_cfg_def mk_credential_def eff_site_code_def site_code_arg_def
        py_isdigit_def is_digit_def parse_nat_def)
  have "sent (demo_world []) ?w' = [CProvision (projr (issue_params demo_cfg 0 ''7'' demo_person demo_cred ''r0''))]"
    by code_simp
  then have mem: "CProvision q \<in> set (sent (demo_world []) ?w')" using q by simp
  from phase1_issues_only_eligible [OF this] obtain cred creds where
    "(pp_employee_id q, creds) \<in> set (sn_creds (demo_snapshot [demo_cred] []))" "cred \<in> set creds"
    "map_of (pp_metadata q) ''pacs_credential_id'' = Some (cr_id cred)" by blast
  moreover have "sn_creds (demo_snapshot [demo_cred] []) = [(''7'', [demo_cred])]" by code_simp
  moreover have "cr_id demo_cred = ''c1''" by code_simp
  ultimately have "map_of (pp_metadata q) ''pacs_credential_id'' = Some ''c1''" by auto
  with mem show ?thesis by blast
qed

text \<open>
  C32. The cap. However many credentials are eligible, a run of phase 1 has AccessGrid issue at most
  \<open>cap\<close> passes, also when an exception ends it, and the number it returns is the number issued.
\<close>

theorem phase1_cap:
  assumes "phase1 refs ag pacs stop snap cfg dry cap now w = (r, w')"
  shows "issued w' \<le> issued w + cap \<and> (\<forall>n. r = Inr n \<longrightarrow> issued w' = issued w + n)"
  using phase1_count [OF assms] by auto

theorem phase1_cap_witness:
  "issued (snd (phase1 demo_refs demo_ag None (\<lambda>_. False)
      (demo_snapshot [demo_cred, demo_cred\<lparr>cr_id := ''c2''\<rparr>] []) demo_cfg False 1 0 (demo_world []))) \<le> 1"
proof -
  let ?run = "phase1 demo_refs demo_ag None (\<lambda>_. False)
      (demo_snapshot [demo_cred, demo_cred\<lparr>cr_id := ''c2''\<rparr>] []) demo_cfg False 1 0 (demo_world [])"
  have "?run = (fst ?run, snd ?run)" by simp
  from phase1_cap [OF this] show ?thesis by (simp add: issued_def demo_world_def)
qed

text \<open>
  A provision that fails leaves a row to retry: the credential's row is pending, has no card
  and carries AccessGrid's message, and nothing else in the table has moved.
\<close>

theorem failed_provision_leaves_a_pending_row:
  assumes "p1_issue ag opacs now pid person cred ref params n w = (r, w')"
    and "fst (api_provision ag params (w_ag w)) = Inl (AccessGridError m)"
  shows "r = Inr n \<and> (\<exists>t. tracking_get (w_rows w') pid (cr_id cred) = Some t \<and> t_status t = ''pending'' \<and>
           t_ag_card_id t = None \<and> t_sync_error t = Some m) \<and>
         (\<forall>p c. (p, c) = (pid, cr_id cred) \<or> tracking_get (w_rows w') p c = tracking_get (w_rows w) p c)"
  using assms(1)
proof (cases rule: p1_issue_cases)
  case (failed e)
  have e: "error_text e = m" using failed(4) assms(2) by (auto simp: error_text_def)
  let ?rows = "upsert now (pending_args pid person cred) (w_rows w)"
  obtain t where t: "tracking_get ?rows pid (cr_id cred) = Some t" "t_status t = ''pending''" "t_ag_card_id t = None"
    using get_upsert [of now "pending_args pid person cred" "w_rows w"]
    by (auto simp: upsert_row_def insert_row_def pending_args_def split: option.splits)
  have other: "tracking_get (w_rows w') p c = tracking_get (w_rows w) p c" if "(p, c) \<noteq> (pid, cr_id cred)" for p c
    using that failed(3) by simp
  have "\<exists>t. tracking_get (w_rows w') pid (cr_id cred) = Some t \<and> t_status t = ''pending'' \<and>
      t_ag_card_id t = None \<and> t_sync_error t = Some m"
    using failed(3) e t by (simp add: get_record_error)
  then show ?thesis using failed(1) other by blast
next
  case (succeeded crd)
  then show ?thesis using assms(2) by simp
qed

theorem failed_provision_leaves_a_pending_row_witness:
  "\<exists>t. tracking_get (w_rows (snd (p1_issue failing_ag None 0 ''7'' demo_person demo_cred ''r0''
      (projr (issue_params demo_cfg 0 ''7'' demo_person demo_cred ''r0''))
      \<lparr>p1_provisioned = 0, p1_skipped = 0, p1_deduped = 0, p1_eligible = 1\<rparr> (demo_world [])))) ''7'' ''c1'' = Some t \<and>
     t_status t = ''pending'' \<and> t_sync_error t = Some ''rejected''"
proof -
  let ?q = "projr (issue_params demo_cfg 0 ''7'' demo_person demo_cred ''r0'')"
  have f: "fst (api_provision failing_ag ?q (w_ag (demo_world []))) = Inl (AccessGridError ''rejected'')"
    by (simp add: failing_ag_def)
  have k: "cr_id demo_cred = ''c1''" by code_simp
  from failed_provision_leaves_a_pending_row [OF prod.collapse [symmetric] f, of None 0 "''7''" demo_person demo_cred "''r0''"
      "\<lparr>p1_provisioned = 0, p1_skipped = 0, p1_deduped = 0, p1_eligible = 1\<rparr>"]
  show ?thesis by (auto simp: k)
qed

text \<open>
  The limit on retries is phase 5's alone. A credential whose row has used up its retries, with
  no card, is provisioned again by phase 1 on every cycle in which it is eligible, so the rows the
  retry phase promises to leave alone are not left alone.
\<close>

theorem exhausted_row_is_provisioned_again:
  "(let w = demo_world [failed_row 7]; snap = demo_snapshot [demo_cred] [] in
    failed_records MAX_RETRIES (w_rows w) = [] \<and>
    List.filter is_provision (sent w (snd (phase5 demo_refs failing_ag None snap demo_cfg False 0 w))) = [] \<and>
    length (List.filter is_provision (sent w (snd (phase1 demo_refs failing_ag None (\<lambda>_. False) snap demo_cfg False 25 0 w)))) = 1)"
  by code_simp

section \<open>Deletions\<close>

text \<open>
  C4. A partial read revokes nobody for being missing. When the roster has fewer than three tenths
  of the people of the last complete read, phase 3 deletes no pass of a cardholder or credential
  that is missing: a row that is missing keeps its card, and every delete it sends is for a
  credential that is present and expired. An empty roster deletes nothing at all.
\<close>

theorem partial_read_revokes_nobody_missing:
  assumes "phase3 ag opacs snap dry now w = (r, w')"
    and "sn_people snap = [] \<or> \<not> read_complete (w_last_complete w) (length (sn_people snap))"
    and "CDelete i \<in> set (sent w w')"
  shows "sn_people snap \<noteq> [] \<and> (\<exists>t\<in>set (w_rows w). i = card_ref t \<and> \<not> missing snap t \<and>
     (\<exists>cred. cred_of snap t = Some cred \<and> expired now cred \<and> \<not> cr_hold cred))"
proof -
  have ne: "sn_people snap \<noteq> []"
    using assms(1,3) by (auto simp: phase3_def sent_def)
  have "(\<exists>t\<in>set (w_rows w). p3_call_ok snap (read_complete (w_last_complete w) (length (sn_people snap))) dry now t (CDelete i))
     \<or> (\<exists>rows. p3_retire_ok rows (CDelete i))"
    by (rule sends_sent [OF phase3_sends [OF assms(1)] assms(3)])
  then obtain t where t: "t \<in> set (w_rows w)" "i = card_ref t"
      "p3_may_delete snap False now t"
    using assms(2) ne by (auto simp: p3_call_ok_def p3_retire_ok_def)
  have "\<not> missing snap t \<and> (\<exists>cred. cred_of snap t = Some cred \<and> expired now cred \<and> \<not> cr_hold cred)"
    using t(3) by (auto simp: p3_may_delete_def p3_verdict_of_def Let_def missing_def split: if_splits option.splits)
  then show ?thesis using ne t by blast
qed

definition expired_cred :: credential where
  "expired_cred = demo_cred\<lparr>cr_deactivate_date := Some (utc_at (- 1))\<rparr>"

theorem partial_read_revokes_nobody_missing_witness:
  "\<exists>t\<in>set [demo_row]. card_ref demo_row = card_ref t \<and> \<not> missing (demo_snapshot [expired_cred] []) t"
proof -
  let ?w = "(demo_world [demo_row])\<lparr>w_last_complete := Some 100\<rparr>"
  let ?run = "phase3 demo_ag None (demo_snapshot [expired_cred] []) False 0 ?w"
  have run: "?run = (fst ?run, snd ?run)" by simp
  have few: "\<not> read_complete (w_last_complete ?w) (length (sn_people (demo_snapshot [expired_cred] [])))" by code_simp
  have "sent ?w (snd ?run) = [CDelete (card_ref demo_row)]" by code_simp
  then have "CDelete (card_ref demo_row) \<in> set (sent ?w (snd ?run))" by simp
  from partial_read_revokes_nobody_missing [OF run disjI2 [OF few] this] show ?thesis
    by (auto simp: demo_world_def)
qed

text \<open>
  C14. A cardholder on the roster whose credentials could not be read is evidence of nothing: phase
  3 leaves every pass of theirs in AccessGrid, and their rows as they are, whatever the read was.
\<close>

theorem unread_cardholder_keeps_their_pass:
  assumes "person_of snap p = Some person" and "map_of (sn_creds snap) p = None"
  shows "same_row p k w (snd (phase3 ag opacs snap dry now w)) \<and>
    (\<forall>complete n t. t_person_id t = p \<longrightarrow> p3_verdict_of snap complete now n t = P3Keep) \<and>
    (\<forall>i. CDelete i \<in> set (sent w (snd (phase3 ag opacs snap dry now w))) \<longrightarrow>
       (\<exists>t\<in>set (w_rows w). i = card_ref t \<and> t_person_id t \<noteq> p))"
proof (intro conjI allI impI)
  have keep: "p3_verdict_of snap complete now n t = P3Keep" if "t_person_id t = p" for complete n t
    using assms that by (simp add: p3_verdict_of_def Let_def)
  show "t_person_id t = p \<Longrightarrow> p3_verdict_of snap complete now n t = P3Keep" for complete n t
    by (rule keep)
  show "same_row p k w (snd (phase3 ag opacs snap dry now w))"
    by (rule phase3_kept_row [OF prod.collapse [symmetric]]) (auto simp: t_key_def keep)
  fix i
  assume "CDelete i \<in> set (sent w (snd (phase3 ag opacs snap dry now w)))"
  from sends_sent [OF phase3_sends [OF prod.collapse [symmetric]] this] obtain t complete where
    t: "t \<in> set (w_rows w)" "i = card_ref t" "p3_may_delete snap complete now t"
    by (auto simp: p3_call_ok_def p3_retire_ok_def)
  then show "\<exists>t\<in>set (w_rows w). i = card_ref t \<and> t_person_id t \<noteq> p"
    using keep by (auto simp: p3_may_delete_def)
qed

definition unread_snapshot :: snapshot where
  "unread_snapshot = empty_snapshot\<lparr>sn_people := [(''7'', demo_person)]\<rparr>"

theorem unread_cardholder_keeps_their_pass_witness:
  "same_row ''7'' ''c1'' (demo_world [demo_row]) (snd (phase3 demo_ag (Some seos_pacs) unread_snapshot False 0 (demo_world [demo_row])))"
proof -
  have "person_of unread_snapshot ''7'' = Some demo_person" "map_of (sn_creds unread_snapshot) ''7'' = None"
    by (simp_all add: unread_snapshot_def empty_snapshot_def person_of_def)
  from unread_cardholder_keeps_their_pass [OF this] show ?thesis by blast
qed

text \<open>
  C33. Expiries are rationed. When no tracked pass is of a missing cardholder or credential, phase 3
  deletes at most 25 passes in a cycle, however many cards the clock has expired.
\<close>

theorem expiries_are_rationed:
  assumes "phase3 ag opacs snap dry now w = (r, w')"
    and "\<forall>t\<in>set (w_rows w). \<not> missing snap t"
  shows "deletes w' \<le> deletes w + 25"
proof (cases "sn_people snap = []")
  case True
  then show ?thesis using assms(1) by (simp add: phase3_def)
next
  case False
  define complete where "complete = read_complete (w_last_complete w) (length (sn_people snap))"
  define w1 where "w1 = (if complete then w\<lparr>w_last_complete := Some (int (length (sn_people snap)))\<rparr> else w)"
  have w1: "w_rows w1 = w_rows w" "deletes w1 = deletes w" by (simp_all add: w1_def deletes_def)
  obtain q w2 where loop: "for_each (p3_row ag opacs snap complete dry now) (all_tracked (w_rows w1)) (0, 0) w1 = (q, w2)"
    by fastforce
  have "case for_each (p3_row ag opacs snap complete dry now) (all_tracked (w_rows w1)) (0, 0) w1 of
      (Inl e, v) \<Rightarrow> deletes v \<le> deletes w + MAX_EXPIRIES_PER_CYCLE
    | (Inr n, v) \<Rightarrow> deletes v \<le> deletes w + snd n \<and> snd n \<le> MAX_EXPIRIES_PER_CYCLE"
  proof (rule for_each_rule)
    show "deletes w1 \<le> deletes w + snd (0, 0) \<and> snd (0 :: nat, 0) \<le> MAX_EXPIRIES_PER_CYCLE" by (simp add: w1)
    show "case p3_row ag opacs snap complete dry now t n v of
        (Inl e, v') \<Rightarrow> deletes v' \<le> deletes w + MAX_EXPIRIES_PER_CYCLE
      | (Inr m, v') \<Rightarrow> deletes v' \<le> deletes w + snd m \<and> snd m \<le> MAX_EXPIRIES_PER_CYCLE"
      if "t \<in> set (all_tracked (w_rows w1))" "deletes v \<le> deletes w + snd n \<and> snd n \<le> MAX_EXPIRIES_PER_CYCLE" for t n v
      by (rule p3_row_count) (use that assms(2) w1(1) in auto)
  qed
  then have 2: "deletes w2 \<le> deletes w + 25" using loop by (auto simp: MAX_EXPIRIES_PER_CYCLE_def split: sum.splits)
  have "deletes (snd (retire_deleted_credentials ag x snap w2)) = deletes w2" for x
    by (rule deletes_sends, rule sends_mono [OF retire_deleted_effect(1) [OF prod.collapse [symmetric]]])
      (auto simp: p3_retire_ok_def elim: is_delete.elims)
  then show ?thesis using 2 loop False assms(1)
    by (auto simp: phase3_def Let_def complete_def [symmetric] w1_def [symmetric] split: sum.splits option.splits)
qed

theorem expiries_are_rationed_witness:
  "deletes (snd (phase3 demo_ag None (demo_snapshot [expired_cred] []) False 0 (demo_world [demo_row]))) \<le> 25"
proof -
  let ?run = "phase3 demo_ag None (demo_snapshot [expired_cred] []) False 0 (demo_world [demo_row])"
  have "?run = (fst ?run, snd ?run)" by simp
  moreover have "list_all (\<lambda>t. \<not> missing (demo_snapshot [expired_cred] []) t) (w_rows (demo_world [demo_row]))" by code_simp
  then have "\<forall>t\<in>set (w_rows (demo_world [demo_row])). \<not> missing (demo_snapshot [expired_cred] []) t"
    by (simp add: list_all_iff)
  ultimately have "deletes (snd ?run) \<le> deletes (demo_world [demo_row]) + 25" by (rule expiries_are_rationed)
  then show ?thesis by (simp add: deletes_def demo_world_def)
qed

end
