(* ===== verification/Exchange_Properties.thy ===== *)
theory Exchange_Properties
  imports Demo_Site
begin

text \<open>
  What the sync promises of the data it exchanges: which cards an issue resolves to, which
  identities travel back into the PACS, what the install gate writes, how retries and field
  updates are bounded.
\<close>

section \<open>The snapshot\<close>

text \<open>
  Resolving an issue. Over the cards of one listing: an issue with a reference resolves to every
  card stamped with it, in listing order; failing that to the last listed card with its id; and
  only an issue without a reference falls back to the cards carrying its employee id and
  credential id, so a reference never resolves to an earlier issue of the same credential.
\<close>

theorem resolve_ag_cards_spec:
  "resolve_ag_cards (fold note_card cards empty_snapshot) i p c ref =
     (let by_ref = List.filter (has_ref ref) cards;
          by_id = (if i = None \<or> i = Some '''' then None
                   else List.find (\<lambda>d. attr_of d ''id'' = PStr (the i)) (rev cards))
      in if ref \<noteq> '''' \<and> by_ref \<noteq> [] then by_ref
         else case by_id of Some d \<Rightarrow> [d]
         | None \<Rightarrow> if ref = '''' \<and> p \<noteq> '''' \<and> c \<noteq> ''''
                   then List.filter (has_token (PStr p) (PStr c)) cards else [])"
proof -
  have r: "dict_list (sn_by_ref (fold note_card cards empty_snapshot)) ref = List.filter (has_ref ref) cards"
    and k: "dict_list (sn_by_token (fold note_card cards empty_snapshot)) (PStr p, PStr c) =
       List.filter (has_token (PStr p) (PStr c)) cards"
    by (simp_all add: index_by_ref index_by_token empty_snapshot_def)
  have n: "map_of (sn_by_id (fold note_card cards empty_snapshot)) (PStr j) =
      List.find (\<lambda>d. attr_of d ''id'' = PStr j) (rev cards)" for j
    by (simp add: index_by_id empty_snapshot_def split: option.split)
  show ?thesis
    by (cases i) (auto simp: resolve_ag_cards_def Let_def r k n split: option.split)
qed

text \<open>
  A cardholder the adapter could not read has no entry in the snapshot, not an empty one, which
  is what keeps every later phase from reading the failure as "no credentials".
\<close>

theorem unread_cardholder_has_no_entry:
  fixes w w' :: "('a, 'p) world"
  assumes "build_snapshot ag pacs tpl w = (Inr snap, w')"
    and "person_of snap pid = Some person" and "pe_active person"
    and "\<forall>s. \<exists>e s'. pacs_list_credentials pacs pid s = (Inl e, s')"
  shows "map_of (sn_creds snap) pid = None"
proof -
  obtain ps snap2 and w1 w2 :: "('a, 'p) world" where
    people: "sn_people snap = sn_people (fold note_person ps empty_snapshot)"
    and loop: "for_each (read_credentials pacs) (sn_people snap) (fold note_person ps empty_snapshot) w1 = (Inr snap2, w2)"
    and creds: "sn_creds snap = sn_creds snap2"
    by (rule build_snapshot_people [OF assms(1)])
  have d: "distinct (List.map fst (sn_people snap))"
    unfolding people by (rule fold_note_person_distinct) (simp add: empty_snapshot_def)
  have active: "pe_active (snd pp)" if "pp \<in> set (sn_people snap)" "fst pp = pid" for pp
    using map_of_is_SomeI [OF d, of "fst pp" "snd pp"] that assms(2,3) by (cases pp) (simp add: person_of_def)
  have "map_of (sn_creds snap2) pid = None"
    by (rule no_entry_if_unread [OF _ _ _ loop]) (use assms(4) active in \<open>auto simp: empty_snapshot_def\<close>)
  then show ?thesis by (simp add: creds)
qed

definition unreadable_pacs :: "unit pacs_api" where
  "unreadable_pacs = demo_pacs\<lparr>pacs_list_credentials := (\<lambda>_ s. (Inl (PacsRecordUnavailable ''page''), s))\<rparr>"

theorem unread_cardholder_has_no_entry_witness:
  "\<exists>snap w'. build_snapshot demo_ag unreadable_pacs ''tpl'' (demo_world []) = (Inr snap, w') \<and>
     person_of snap ''7'' = Some demo_person \<and> map_of (sn_creds snap) ''7'' = None"
proof -
  let ?b = "build_snapshot demo_ag unreadable_pacs ''tpl'' (demo_world [])"
  have "fst ?b = Inr (projr (fst ?b))" and p: "person_of (projr (fst ?b)) ''7'' = Some demo_person"
    and a: "pe_active demo_person" by code_simp+
  then have b: "?b = (Inr (projr (fst ?b)), snd ?b)" by (metis prod.collapse)
  have "\<forall>s. \<exists>e s'. pacs_list_credentials unreadable_pacs ''7'' s = (Inl e, s')"
    by (simp add: unreadable_pacs_def)
  from unread_cardholder_has_no_entry [OF b p a this] b p show ?thesis by blast
qed

section \<open>Identities\<close>

text \<open>
  The identities offered to a PACS for an issue are exactly those of its live cards and live,
  numbered entries, each once: nothing AccessGrid has deleted, and no number twice.
\<close>

theorem offered_identities_exact:
  "distinct (List.map identity_key (identities_from_cards cards)) \<and>
   identity_key ` set (identities_from_cards cards) = (\<Union>c\<in>set cards. live_keys c)"
  using identities_from_cards_distinct identities_from_cards_keys [of cards]
  by (simp add: identities_from_card_keys)

text \<open>
  What phase 3 may release is positive evidence only: exactly the numbered identities of dead
  entries and of every entry of a dead card. A live card whose entries are all live yields none.
\<close>

theorem released_identities_exact:
  "identity_key ` set (deleted_identities_from_cards cards) = (\<Union>c\<in>set cards. dead_keys c) \<and>
   ((\<forall>c\<in>set cards. \<not> is_dead c \<and> (\<forall>e\<in>set (device_entries c). \<not> is_dead e)) \<longrightarrow>
      deleted_identities_from_cards cards = [])"
proof (intro conjI impI)
  show keys: "identity_key ` set (deleted_identities_from_cards cards) = (\<Union>c\<in>set cards. dead_keys c)"
    by (rule deleted_identities_keys)
  assume "\<forall>c\<in>set cards. \<not> is_dead c \<and> (\<forall>e\<in>set (device_entries c). \<not> is_dead e)"
  then have "dead_keys c = {}" if "c \<in> set cards" for c
    using that by (auto simp: dead_keys_def gone_candidates_def)
  then have "identity_key ` set (deleted_identities_from_cards cards) = {}" unfolding keys by simp
  then show "deleted_identities_from_cards cards = []" by simp
qed

definition paired_card :: "string \<Rightarrow> string \<Rightarrow> ag_card" where
  "paired_card parent entry = \<lparr>ae_attrs = [(''id'', PStr ''A1''), (''state'', PStr parent)],
     ac_metadata = [(''sync_ref'', PStr ''r0'')],
     ac_collections = [(''details'', [\<lparr>ae_attrs = [(''state'', PStr entry), (''site_code'', PStr ''12''),
        (''card_number'', PStr ''4711'')]\<rparr>])]\<rparr>"

theorem released_identities_exact_witness:
  "deleted_identities_from_cards [paired_card ''active'' ''active''] = []"
proof -
  have "list_all (\<lambda>c. \<not> is_dead c \<and> list_all (\<lambda>e. \<not> is_dead e) (device_entries c)) [paired_card ''active'' ''active'']"
    by code_simp
  then have "\<forall>c\<in>set [paired_card ''active'' ''active'']. \<not> is_dead c \<and> (\<forall>e\<in>set (device_entries c). \<not> is_dead e)"
    by (auto simp: list_all_iff)
  then show ?thesis using released_identities_exact [of "[paired_card ''active'' ''active'']"] by blast
qed

text \<open>
  The two readers are not mirror images. For a card deleted whole whose entry still reads active,
  the same identity is released by one and offered again by the other, on the same cycle.
\<close>

theorem released_and_offered_again:
  "List.map identity_key (deleted_identities_from_cards [paired_card ''deleted'' ''active'']) = [(''12'', ''4711'')] \<and>
   List.map identity_key (identities_from_cards [paired_card ''deleted'' ''active'']) = [(''12'', ''4711'')]"
  by code_simp

section \<open>The install gate\<close>

text \<open>
  C36. What the gate writes. For a card we minted it reads the cards of the issue and writes nothing
  but the status they say, and only when the PACS card does not already agree: active needs a live
  card installed on a device and no live card suspended; a suspended or wholly dead issue is
  suspended; anything else awaits its install.
\<close>

theorem gate_writes_what_the_pass_says:
  assumes "p4_mine snap t" and "cred_of snap t = Some cred" and "detailed ag snap t w = (cards, w1)"
  shows "sent w (snd (p4_gate_row ag pacs snap t n w)) = sent w w1 @
      (if cards = [] \<or> already_so cred (desired_card_status cards) then []
       else [PUpdateStatus (t_person_id t) (t_credential_id t) (desired_card_status cards)]) \<and>
    (desired_card_status cards = ACTIVE \<longleftrightarrow>
       (\<forall>c\<in>set cards. is_dead c \<or> state_of c \<noteq> ''suspended'') \<and>
       is_installed (List.filter (\<lambda>c. \<not> is_dead c) cards)) \<and>
    (desired_card_status cards = SUSPENDED \<longleftrightarrow>
       (\<forall>c\<in>set cards. is_dead c) \<or> (\<exists>c\<in>set cards. \<not> is_dead c \<and> state_of c = ''suspended''))"
proof (intro conjI)
  show "desired_card_status cards = ACTIVE \<longleftrightarrow>
       (\<forall>c\<in>set cards. is_dead c \<or> state_of c \<noteq> ''suspended'') \<and>
       is_installed (List.filter (\<lambda>c. \<not> is_dead c) cards)"
    by (auto simp: desired_card_status_def Let_def filter_empty_conv list_ex_iff is_installed_def)
  show "desired_card_status cards = SUSPENDED \<longleftrightarrow>
       (\<forall>c\<in>set cards. is_dead c) \<or> (\<exists>c\<in>set cards. \<not> is_dead c \<and> state_of c = ''suspended'')"
    by (auto simp: desired_card_status_def Let_def filter_empty_conv list_ex_iff)
  obtain cs where cs: "w_calls w1 = w_calls w @ cs"
    using detailed_effect(1) [OF assms(3)] by (auto simp: sends_def)
  show "sent w (snd (p4_gate_row ag pacs snap t n w)) = sent w w1 @
      (if cards = [] \<or> already_so cred (desired_card_status cards) then []
       else [PUpdateStatus (t_person_id t) (t_credential_id t) (desired_card_status cards)])"
    using assms cs by (auto simp: p4_gate_row_def pacs_call_def sent_def split: prod.split sum.split)
qed

theorem gate_writes_what_the_pass_says_witness:
  "sent (demo_world [demo_row]) (snd (p4_gate_row demo_ag seos_pacs
      (demo_snapshot [seos_cred] [demo_card ''A1'' ''active'']) demo_row 0 (demo_world [demo_row])))
    = [CGet ''A1'', PUpdateStatus ''7'' ''c1'' AWAITING_INSTALL]"
proof -
  let ?snap = "demo_snapshot [seos_cred] [demo_card ''A1'' ''active'']"
  let ?d = "detailed demo_ag ?snap demo_row (demo_world [demo_row])"
  have m: "p4_mine ?snap demo_row" and c: "cred_of ?snap demo_row = Some seos_cred"
    and f: "fst ?d = [demo_card ''A1'' ''active'']" and s: "sent (demo_world [demo_row]) (snd ?d) = [CGet ''A1'']"
    and d: "desired_card_status [demo_card ''A1'' ''active''] = AWAITING_INSTALL" "\<not> already_so seos_cred AWAITING_INSTALL"
    and k: "t_person_id demo_row = ''7''" "t_credential_id demo_row = ''c1''"
    by code_simp+
  from gate_writes_what_the_pass_says [where ag = demo_ag and w = "demo_world [demo_row]" and pacs = seos_pacs and n = 0,
      OF m c prod.collapse [symmetric]]
  show ?thesis by (simp only: f s d k) simp
qed

section \<open>Retries and field updates\<close>

text \<open>
  Retries are bounded and earn nothing an issue would not. Every provision phase 5 sends is for
  a row with an error, no card and fewer than three retries, whose cardholder and trigger-active,
  unheld credential are still there with an address to deliver to, with the arguments phase 1
  would send; and nothing at all is provisioned in a dry run.
\<close>

theorem retries_are_bounded:
  assumes "CProvision q \<in> set (sent w (snd (phase5 refs ag opacs snap cfg dry now w)))"
  shows "\<not> dry \<and> (\<exists>t\<in>set (w_rows w). t_retry_count t < 3 \<and> t_ag_card_id t = None \<and> t_sync_error t \<noteq> None \<and>
     (\<exists>person cred ref. person_of snap (t_person_id t) = Some person \<and> cred_of snap t = Some cred \<and>
        cr_trigger_active cred \<and> \<not> cr_hold cred \<and> (pe_email person \<noteq> '''' \<or> pe_phone person \<noteq> '''') \<and>
        dedupe_hit cfg snap cred = None \<and> issue_params cfg now (t_person_id t) person cred ref = Inr q))"
  using sends_sent [OF phase5_effect(1) assms] by (auto simp: p5_call_ok_def MAX_RETRIES_def)

theorem retries_are_bounded_witness:
  "\<exists>q t. CProvision q \<in> set (sent (demo_world [failed_row 2])
      (snd (phase5 demo_refs demo_ag None (demo_snapshot [demo_cred] []) demo_cfg False 0 (demo_world [failed_row 2])))) \<and>
     t \<in> set [failed_row 2] \<and> t_retry_count t < 3"
proof -
  let ?w' = "snd (phase5 demo_refs demo_ag None (demo_snapshot [demo_cred] []) demo_cfg False 0 (demo_world [failed_row 2]))"
  have "sent (demo_world [failed_row 2]) ?w' =
      [CProvision (projr (issue_params demo_cfg 0 ''7'' demo_person demo_cred ''r0''))]" by code_simp
  then have mem: "CProvision (projr (issue_params demo_cfg 0 ''7'' demo_person demo_cred ''r0'')) \<in>
      set (sent (demo_world [failed_row 2]) ?w')" by simp
  have "w_rows (demo_world [failed_row 2]) = [failed_row 2]" by (simp add: demo_world_def)
  then show ?thesis using retries_are_bounded [OF mem] mem by auto
qed

text \<open>
  C37. Field updates. Every update phase 6 sends is for the card of a tracked row of a cardholder on
  the roster, carries only a name, a phone number, a title or an expiry that differs from the last
  one synced, never the e-mail address, and is not sent in a dry run.
\<close>

theorem field_updates_are_faithful:
  assumes "CUpdate i changes \<in> set (sent w (snd (phase6 ag snap dry now w)))"
  shows "\<not> dry \<and> fst ` set changes \<subseteq> {''full_name'', ''phone_number'', ''title'', ''expiration_date''} \<and>
     (\<exists>t\<in>set (w_rows w). \<exists>person. i = card_ref t \<and> person_of snap (t_person_id t) = Some person \<and>
        (\<forall>v. (''full_name'', v) \<in> set changes \<longrightarrow> v = pe_full_name person \<and> v \<noteq> t_last_synced_full_name t \<and> v \<noteq> '''') \<and>
        (\<forall>v. (''phone_number'', v) \<in> set changes \<longrightarrow> v = pe_phone person \<and> v \<noteq> t_last_synced_phone t \<and> v \<noteq> '''') \<and>
        (\<forall>v. (''title'', v) \<in> set changes \<longrightarrow> v = pe_title person \<and> v \<noteq> t_last_synced_title t) \<and>
        (\<forall>v. (''expiration_date'', v) \<in> set changes \<longrightarrow> t_last_synced_expiration t \<noteq> None \<and>
            t_last_synced_expiration t \<noteq> Some v))"
proof (intro conjI allI impI)
  obtain t person where t: "t \<in> set (w_rows w)" "\<not> dry" "person_of snap (t_person_id t) = Some person"
    "i = card_ref t" "changes = p6_changes t person (p6_expiration (cred_of snap t))"
    using sends_sent [OF phase6_effect(1) assms] by (auto simp: p6_call_ok_def)
  show "\<not> dry" "fst ` set changes \<subseteq> {''full_name'', ''phone_number'', ''title'', ''expiration_date''}"
    using t(2,5) p6_changes_fields by auto
  show "\<exists>t\<in>set (w_rows w). \<exists>person. i = card_ref t \<and> person_of snap (t_person_id t) = Some person \<and>
        (\<forall>v. (''full_name'', v) \<in> set changes \<longrightarrow> v = pe_full_name person \<and> v \<noteq> t_last_synced_full_name t \<and> v \<noteq> '''') \<and>
        (\<forall>v. (''phone_number'', v) \<in> set changes \<longrightarrow> v = pe_phone person \<and> v \<noteq> t_last_synced_phone t \<and> v \<noteq> '''') \<and>
        (\<forall>v. (''title'', v) \<in> set changes \<longrightarrow> v = pe_title person \<and> v \<noteq> t_last_synced_title t) \<and>
        (\<forall>v. (''expiration_date'', v) \<in> set changes \<longrightarrow> t_last_synced_expiration t \<noteq> None \<and>
            t_last_synced_expiration t \<noteq> Some v)"
    by (intro bexI [of _ t] exI [of _ person] conjI) (use t in \<open>auto simp: p6_changes_def split: if_splits\<close>)
qed

theorem field_updates_are_faithful_witness:
  "CUpdate ''A1'' [(''full_name'', ''Ana B'')] \<in> set (sent (demo_world [demo_row]) (snd (phase6 demo_ag
      (demo_snapshot [demo_cred] []\<lparr>sn_people := [(''7'', demo_person\<lparr>pe_full_name := ''Ana B''\<rparr>)]\<rparr>) False 0 (demo_world [demo_row]))))
   \<and> fst ` set [(''full_name'', ''Ana B'')] \<subseteq> {''full_name'', ''phone_number'', ''title'', ''expiration_date''}"
proof -
  let ?snap = "demo_snapshot [demo_cred] []\<lparr>sn_people := [(''7'', demo_person\<lparr>pe_full_name := ''Ana B''\<rparr>)]\<rparr>"
  have "sent (demo_world [demo_row]) (snd (phase6 demo_ag ?snap False 0 (demo_world [demo_row]))) =
      [CUpdate ''A1'' [(''full_name'', ''Ana B'')]]" by code_simp
  then have mem: "CUpdate ''A1'' [(''full_name'', ''Ana B'')] \<in>
      set (sent (demo_world [demo_row]) (snd (phase6 demo_ag ?snap False 0 (demo_world [demo_row]))))" by simp
  from field_updates_are_faithful [OF mem] mem show ?thesis by blast
qed

text \<open>
  A rejected update is not recorded as done: when AccessGrid refuses the call, the row keeps the
  values last synced, the count does not move and the phase goes on, so the next cycle offers the
  same change again.
\<close>

theorem rejected_update_stays_due:
  fixes w w' :: "('a, 'p) world"
  assumes "\<forall>i ch s. fst (api_update ag i ch s) = Inl (AccessGridError m)"
    and "person_of snap (t_person_id t) = Some person"
    and "p6_changes t person (p6_expiration (cred_of snap t)) \<noteq> []"
    and "p6_row ag snap dry now t n w = (r, w')"
  shows "r = Inr n \<and> w_rows w' = w_rows w"
  using assms
  by (auto simp: p6_row_def Let_def ag_change_def ag_call_def split: if_splits option.splits prod.splits sum.splits)
     (metis fst_conv sum.distinct(1) is_ag_error.simps(1) sum.inject(1))+

theorem rejected_update_stays_due_witness:
  "w_rows (snd (p6_row failing_ag (demo_snapshot [demo_cred] []) False 0
      (demo_row\<lparr>t_last_synced_full_name := ''Anna''\<rparr>) 0 (demo_world [demo_row]))) = [demo_row]"
proof -
  let ?t = "demo_row\<lparr>t_last_synced_full_name := ''Anna''\<rparr>"
  have u: "\<forall>i ch s. fst (api_update failing_ag i ch s) = Inl (AccessGridError ''rejected'')"
    by (simp add: failing_ag_def)
  have p: "person_of (demo_snapshot [demo_cred] []) (t_person_id ?t) = Some demo_person"
    and c: "p6_changes ?t demo_person (p6_expiration (cred_of (demo_snapshot [demo_cred] []) ?t)) \<noteq> []"
    by code_simp+
  have "w_rows (demo_world [demo_row]) = [demo_row]" by (simp add: demo_world_def)
  with rejected_update_stays_due [OF u p c prod.collapse [symmetric], of False 0 0 "demo_world [demo_row]"]
  show ?thesis by simp
qed

end
