(* ===== verification/Engine_Properties.thy ===== *)
theory Engine_Properties
  imports Demo_Site
begin

text \<open>What the loop of the engine promises: its breaker, its pauses, its intervals, and a lost session.\<close>

lemma reachable_ok: "engine_reachable refs ag pacs w0 c \<Longrightarrow> engine_ok (fst c, fst (snd c))"
proof (induction rule: engine_reachable.induct)
  case start
  show ?case by (simp add: initial_status_def engine_ok_def wait_ok_def is_counting_def engine_constants)
next
  case (step c c')
  then show ?case
    using engine_step_ok [of refs ag pacs "fst c" "fst (snd c)" "snd (snd c)" "fst c'" "fst (snd c')" "snd (snd c')"] by simp
qed

lemma dynamic_interval_ms: "dynamic_interval d = max 60000 (min 600000 (3 * d))"
  by (simp add: dynamic_interval_def engine_constants mult.commute)

text \<open>
  C29. The circuit breaker and the waits. Wherever the engine's thread is and whatever other threads
  have called in between, at most ten failures in a row are counted; a status that says paused is of
  a thread waiting in the pause, which has counted ten failures unless a restored session has
  forgiven them meanwhile; and the wait is thirty seconds after a cycle that failed, one to ten minutes
  (three times its duration) after any other, except that it is two minutes after one that found the
  session expired, for as long as that is asked for.
\<close>

theorem engine_breaker_and_intervals:
  assumes "engine_reachable refs ag pacs w0 (pos, st, w)"
  shows "es_consecutive_errors st \<le> 10 \<and>
    (es_paused st \<longrightarrow> pos = Parked \<and> es_consecutive_errors st \<in> {0, 10}) \<and>
    (case es_last_cycle st of
       None \<Rightarrow> es_interval_ms st = 60000
     | Some r \<Rightarrow>
         if failed r then es_interval_ms st = 30000
         else if asks_for_sign_in r then es_interval_ms st \<in> {120000, max 60000 (min 600000 (3 * cy_duration_ms r))}
         else es_interval_ms st = max 60000 (min 600000 (3 * cy_duration_ms r))) \<and>
    (\<forall>r. es_last_cycle st = Some r \<and> \<not> failed r \<and> es_reconnect_required st \<and> \<not> is_counting pos \<longrightarrow>
       es_interval_ms st = 120000)"
proof -
  have ok: "engine_ok (pos, st)" using reachable_ok [OF assms] by simp
  then have "wait_ok (\<not> is_counting pos) st" by (simp add: engine_ok_def)
  then have "case es_last_cycle st of
       None \<Rightarrow> es_interval_ms st = 60000
     | Some r \<Rightarrow>
         if failed r then es_interval_ms st = 30000
         else if asks_for_sign_in r then es_interval_ms st \<in> {120000, max 60000 (min 600000 (3 * cy_duration_ms r))}
         else es_interval_ms st = max 60000 (min 600000 (3 * cy_duration_ms r))"
    and "\<forall>r. es_last_cycle st = Some r \<and> \<not> failed r \<and> es_reconnect_required st \<and> \<not> is_counting pos \<longrightarrow>
       es_interval_ms st = 120000"
    by (auto simp: wait_ok_def dynamic_interval_ms engine_constants split: option.splits if_splits)
  then show ?thesis using ok by (auto simp: engine_ok_def engine_constants)
qed

text \<open>A round of the loop left to itself is a run.\<close>

lemma loop_reachable:
  "engine_reachable refs ag pacs w0 c \<Longrightarrow> engine_reachable refs ag pacs w0 ((loop_step refs ag pacs env ^^ n) c)"
  by (induction n) (auto intro: engine_reachable.step engine_step.thread)

definition failed_env :: cycle_env where
  "failed_env = (demo_env False)\<lparr>ce_ag_init := Some (PyError ''ValueError'' ''bad key'')\<rparr>"

definition failed_result :: cycle_result where
  "failed_result = (new_result (ce_duration_ms failed_env))\<lparr>cy_error := Some ''ag_init: bad key''\<rparr>"

fun fail_times :: "nat \<Rightarrow> engine_status" where
  "fail_times 0 = initial_status"
| "fail_times (Suc n) = (after_cycle failed_result ((fail_times n)\<lparr>es_ag_reachable := False\<rparr>))\<lparr>es_trigger := False\<rparr>"

lemma failed_round:
  "cycle_attempt demo_refs demo_ag demo_pacs failed_env st w = (Inr failed_result, st\<lparr>es_ag_reachable := False\<rparr>, w)"
  by (simp add: cycle_attempt_def run_one_cycle_def failed_env_def failed_result_def demo_env_def Let_def)

lemma failed_failed: "failed failed_result"
  by (simp add: failed_def failed_result_def new_result_def)

lemma fail_times_reachable:
  "n \<le> 10 \<Longrightarrow> engine_reachable demo_refs demo_ag demo_pacs (demo_world []) (Looking, fail_times n, demo_world []) \<and>
     es_consecutive_errors (fail_times n) = n"
proof (induction n)
  case 0
  have "es_consecutive_errors initial_status = 0" by (simp add: initial_status_def)
  then show ?case by (simp add: engine_reachable.start)
next
  case (Suc n)
  then have n: "es_consecutive_errors (fail_times n) < MAX_CONSECUTIVE_ERRORS" by (simp add: engine_constants)
  have "(loop_step demo_refs demo_ag demo_pacs failed_env ^^ 4) (Looking, fail_times n, demo_world [])
      = (Looking, fail_times (Suc n), demo_world [])"
    using loop_round [OF n failed_round] by simp
  then show ?case
    using Suc failed_failed loop_reachable [of demo_refs demo_ag demo_pacs "demo_world []" "(Looking, fail_times n, demo_world [])" 4 failed_env]
    by simp
qed

theorem engine_breaker_and_intervals_witness:
  "es_interval_ms (fail_times 1) = 30000 \<and> es_consecutive_errors (fail_times 10) = 10"
proof -
  have "engine_reachable demo_refs demo_ag demo_pacs (demo_world []) (Looking, fail_times 1, demo_world [])"
    using fail_times_reachable [of 1] by simp
  from engine_breaker_and_intervals [OF this] have "es_interval_ms (fail_times 1) = 30000"
    using failed_failed by (simp add: after_cycle_def Let_def)
  then show ?thesis using fail_times_reachable [of 10] by simp
qed

text \<open>
  The two critical sections of the breaker: a session restored between them is forgotten by the pause, which
  then shows no failure at all. It ends at once, since the restoring thread triggers the engine.
\<close>

lemma restored_on_the_way_to_the_pause:
  "\<exists>st. engine_reachable demo_refs demo_ag demo_pacs (demo_world []) (Parked, st, demo_world []) \<and>
     es_paused st \<and> es_consecutive_errors st = 0"
proof -
  have r: "engine_reachable demo_refs demo_ag demo_pacs (demo_world []) (Looking, fail_times 10, demo_world [])"
    and ten: "es_consecutive_errors (fail_times 10) = 10" using fail_times_reachable [of 10] by simp_all
  have "loop_step demo_refs demo_ag demo_pacs failed_env (Looking, fail_times 10, demo_world [])
      = (Tripping, fail_times 10, demo_world [])" using ten by (simp add: engine_constants)
  then have "engine_step demo_refs demo_ag demo_pacs (Looking, fail_times 10, demo_world []) (Tripping, fail_times 10, demo_world [])"
    by (metis engine_step.thread)
  then have "engine_reachable demo_refs demo_ag demo_pacs (demo_world []) (Tripping, session_reset (fail_times 10), demo_world [])"
    using r by (blast intro: engine_reachable.step engine_step.reset)
  from loop_reachable [OF this, of 1 failed_env] show ?thesis
    by (intro exI [of _ "pause (session_reset (fail_times 10))"]) (simp add: pause_def session_reset_def)
qed

text \<open>
  A paused engine stays out of both systems. From a reachable paused status no step runs a
  cycle: the tables, the two services and the calls sent stay as they are until somebody triggers
  the engine or restores its session, and either of those lets it run again.
\<close>

theorem paused_engine_is_silent:
  assumes "engine_reachable refs ag pacs w0 (pos, st, w)" and "es_paused st"
    and "engine_step refs ag pacs (pos, st, w) (pos', st', w')"
  shows "w' = w \<and> (es_paused st' \<or> es_consecutive_errors st' = 0)"
proof -
  have "pos = Parked" using reachable_ok [OF assms(1)] assms(2) by (simp add: engine_ok_def)
  then show ?thesis using assms(2,3)
    by (auto elim!: engine_step_cases simp: unpause_def session_reset_def trigger_now_def invalidate_pacs_adapter_def split: if_splits)
qed

text \<open>
  A setting that does not open ends the thread: the exception leaves the loop, and from then on
  no step of the thread changes anything, while the status is what it was.
\<close>

lemma unreadable_settings_end_the_thread:
  assumes "\<not> ce_in_flight env" and "ce_unreadable env = Some e"
  shows "loop_step refs ag pacs env (Starting, st, w) = (Ended e, st, w) \<and>
    (loop_step refs ag pacs env' ^^ n) (Ended e, st, w) = (Ended e, st, w)"
  using assms by (induction n) (simp_all add: cycle_attempt_def)

text \<open>
  A lost session parks the cycle. When reading the roster reports an expired session the cycle
  ends without a change: nothing but reads has been sent, no row has moved, the reconnect flag is
  up, and the failure does not count towards the breaker.
\<close>

theorem expired_session_parks_the_cycle:
  assumes "build_snapshot ag pacs (ic_template_id (ce_cfg env)) w = (Inl e, w1)" and "is_auth_expired e"
    and "ce_configured env" and "ce_ag_init env = None" and "adapter_error pacs env = None"
    and "run_one_cycle refs ag pacs env st w = (r, st', w')"
  shows "List.filter (\<lambda>c. ag_mutation c \<or> pacs_mutation c) (sent w w') = [] \<and> w_rows w' = w_rows w \<and>
     es_reconnect_required st' \<and> \<not> cy_counts_as_failure r \<and>
     es_consecutive_errors (after_cycle r st') = es_consecutive_errors st \<and>
     es_interval_ms (after_cycle r st') = 120000"
proof -
  have run: "r = auth_expired_result e (new_result (ce_duration_ms env))" "w' = w1"
    "st' = flag_reconnect (st\<lparr>es_pacs_vendor := ce_vendor env, es_pacs_display_name := ce_display_name env,
       es_pacs_writes := Some (pacs_supports_credential_writeback pacs (w_pacs w))\<rparr>)"
    using assms by (auto simp: run_one_cycle_def Let_def)
  have "sends (\<lambda>c. \<not> (ag_mutation c \<or> pacs_mutation c)) w w1"
    by (rule sends_mono [OF build_snapshot_effect(1) [OF assms(1)]]) (simp add: read_only_def)
  from sends_none [OF this] show ?thesis
    using build_snapshot_effect(2) [OF assms(1)] run
    by (simp add: auth_expired_result_def flag_reconnect_def after_cycle_def failed_def Let_def engine_constants)
qed

definition expired_pacs :: "unit pacs_api" where
  "expired_pacs = demo_pacs\<lparr>pacs_list_people := (\<lambda>s. (Inl (MillenniumAuthError ''session''), s))\<rparr>"

theorem expired_session_parks_the_cycle_witness:
  "es_reconnect_required (fst (snd (run_one_cycle demo_refs demo_ag expired_pacs (demo_env False) initial_status (demo_world [])))) \<and>
   is_auth_expired (MillenniumAuthError ''session'')"
proof -
  let ?run = "run_one_cycle demo_refs demo_ag expired_pacs (demo_env False) initial_status (demo_world [])"
  have b: "build_snapshot demo_ag expired_pacs (ic_template_id (ce_cfg (demo_env False))) (demo_world []) =
      (Inl (MillenniumAuthError ''session''), snd (build_snapshot demo_ag expired_pacs (ic_template_id (ce_cfg (demo_env False))) (demo_world [])))"
    by (simp add: build_snapshot_def expired_pacs_def pacs_call_def Let_def)
  have "?run = (fst ?run, fst (snd ?run), snd (snd ?run))" by simp
  from expired_session_parks_the_cycle [OF b _ _ _ _ this] show ?thesis
    by (simp add: demo_env_def adapter_error_def expired_pacs_def demo_pacs_def)
qed

text \<open>
  The generation is captured too late. A configuration change made while the snapshot is being
  read is not noticed: the cycle that started on the old configuration is not abandoned and issues
  a pass with it.
\<close>

theorem change_during_snapshot_is_missed:
  "let env = (demo_env False)\<lparr>ce_gen_at_start := 0, ce_generation := 1, ce_gen_at := (\<lambda>_. 1), ce_gen_after_p1 := 1, ce_gen_after_p3 := 1\<rparr>;
       (r, st, w) = run_one_cycle demo_refs demo_ag demo_pacs env initial_status (demo_world [])
   in ce_gen_at_start env \<noteq> ce_generation env \<and> cy_error r = None \<and> cy_provisioned r = 1"
  by code_simp

end
