(* ===== verification/Json_Data.thy ===== *)
theory Json_Data
  imports Hub_Prelude Hub_Time
begin

text \<open>
  What \<open>resp.json()\<close> and the XML readers hand the adapters: nested Python values, and the handful
  of operations the adapters apply to them. A dictionary is an association list in insertion
  order. An operation Python refuses for the type it meets (\<open>.get\<close> on a list, \<open>len(x) >= None\<close>)
  is \<open>Inl\<close> of the exception. JSON numbers are integers; no field the adapters read is a fraction.
\<close>

section \<open>Values\<close>

datatype json = JVal pyval | JArr "json list" | JObj "(string \<times> json) list"

abbreviation JNull :: json where "JNull \<equiv> JVal PNone"
abbreviation JStr :: "string \<Rightarrow> json" where "JStr s \<equiv> JVal (PStr s)"
abbreviation JInt :: "int \<Rightarrow> json" where "JInt i \<equiv> JVal (PInt i)"

type_synonym 'a res = "exn + 'a"

definition bind_res :: "'a res \<Rightarrow> ('a \<Rightarrow> 'b res) \<Rightarrow> 'b res" where
  "bind_res r k = (case r of Inl e \<Rightarrow> Inl e | Inr v \<Rightarrow> k v)"

lemma bind_res_simps [simp]: "bind_res (Inl e) k = Inl e" "bind_res (Inr v) k = k v"
  by (simp_all add: bind_res_def)

lemma bind_res_Inr_iff: "bind_res r k = Inr v \<longleftrightarrow> (\<exists>u. r = Inr u \<and> k u = Inr v)"
  by (cases r) simp_all

text \<open>A list comprehension whose element expression may raise: the first exception ends it.\<close>

fun map_res :: "('a \<Rightarrow> 'b res) \<Rightarrow> 'a list \<Rightarrow> 'b list res" where
  "map_res f [] = Inr []"
| "map_res f (x # xs) = bind_res (f x) (\<lambda>y. bind_res (map_res f xs) (\<lambda>ys. Inr (y # ys)))"

lemma map_res_Inr: "map_res f xs = Inr ys \<longleftrightarrow> list_all2 (\<lambda>x y. f x = Inr y) xs ys"
  by (induction xs arbitrary: ys) (auto simp: bind_res_Inr_iff list_all2_Cons1)

lemma map_res_total: "(\<And>x. x \<in> set xs \<Longrightarrow> f x = Inr (g x)) \<Longrightarrow> map_res f xs = Inr (List.map g xs)"
  by (induction xs) simp_all

definition type_error :: "string \<Rightarrow> exn" where
  "type_error m = PyError ''TypeError'' m"

definition attribute_error :: "string \<Rightarrow> exn" where
  "attribute_error m = PyError ''AttributeError'' m"

fun jtruthy :: "json \<Rightarrow> bool" where
  "jtruthy (JVal v) = truthy v"
| "jtruthy (JArr xs) = (xs \<noteq> [])"
| "jtruthy (JObj d) = (d \<noteq> [])"

text \<open>\<open>a or b\<close>.\<close>

definition jor :: "json \<Rightarrow> json \<Rightarrow> json" where
  "jor a b = (if jtruthy a then a else b)"

section \<open>Reading a dictionary\<close>

definition jlookup :: "(string \<times> json) list \<Rightarrow> string \<Rightarrow> json" where
  "jlookup d k = (case map_of d k of None \<Rightarrow> JNull | Some v \<Rightarrow> v)"

text \<open>\<open>v.get(k)\<close> and \<open>v.get(k, default)\<close>.\<close>

fun jget :: "string \<Rightarrow> json \<Rightarrow> json res" where
  "jget k (JObj d) = Inr (jlookup d k)"
| "jget k _ = Inl (attribute_error ''get'')"

fun jget_or :: "string \<Rightarrow> json \<Rightarrow> json \<Rightarrow> json res" where
  "jget_or k v (JObj d) = Inr (case map_of d k of None \<Rightarrow> v | Some u \<Rightarrow> u)"
| "jget_or k v _ = Inl (attribute_error ''get'')"

text \<open>\<open>v[k]\<close>.\<close>

fun jindex :: "string \<Rightarrow> json \<Rightarrow> json res" where
  "jindex k (JObj d) = (case map_of d k of None \<Rightarrow> Inl (PyError ''KeyError'' k) | Some v \<Rightarrow> Inr v)"
| "jindex k _ = Inl (type_error ''subscript'')"

text \<open>\<open>(v or {}).get(k)\<close>, the reading the adapters use on optional parts.\<close>

definition oget :: "string \<Rightarrow> json \<Rightarrow> json res" where
  "oget k v = jget k (jor v (JObj []))"

lemma oget_obj: "oget k (JObj d) = Inr (jlookup d k)"
  by (cases d) (simp_all add: oget_def jor_def jlookup_def)

lemma oget_null [simp]: "oget k JNull = Inr JNull"
  by (simp add: oget_def jor_def jlookup_def)

section \<open>Text\<close>

text \<open>\<open>repr\<close> of a string: single quotes unless only those would need escaping.\<close>

definition hex_digit :: "nat \<Rightarrow> char" where
  "hex_digit n = (if n < 10 then char_of (48 + n) else char_of (87 + n))"

definition repr_char :: "char \<Rightarrow> char \<Rightarrow> string" where
  "repr_char q c = (let n = (of_char c :: nat) in
     if c = q \<or> n = 92 then [char_of (92 :: nat), c]
     else if n = 10 then char_of (92 :: nat) # ''n''
     else if n = 13 then char_of (92 :: nat) # ''r''
     else if n = 9 then char_of (92 :: nat) # ''t''
     else if n < 32 \<or> (127 \<le> n \<and> n \<le> 160) \<or> n = 173
       then char_of (92 :: nat) # ''x'' @ [hex_digit (n div 16), hex_digit (n mod 16)]
     else [c])"

definition repr_str :: "string \<Rightarrow> string" where
  "repr_str s = (let q = (if CHR 0x27 \<in> set s \<and> CHR 0x22 \<notin> set s then CHR 0x22 else CHR 0x27)
     in q # concat (List.map (repr_char q) s) @ [q])"

fun repr_val :: "pyval \<Rightarrow> string" where
  "repr_val (PStr s) = repr_str s"
| "repr_val v = py_str v"

fun jrepr :: "json \<Rightarrow> string" where
  "jrepr (JVal v) = repr_val v"
| "jrepr (JArr xs) = ''['' @ py_join '', '' (List.map jrepr xs) @ '']''"
| "jrepr (JObj d) = ''{'' @ py_join '', '' (List.map (\<lambda>kv. repr_str (fst kv) @ '': '' @ jrepr (snd kv)) d) @ ''}''"

text \<open>\<open>str(v)\<close>.\<close>

fun jstr :: "json \<Rightarrow> string" where
  "jstr (JVal v) = py_str v"
| "jstr v = jrepr v"

text \<open>\<open>v or ""\<close> where a string is expected, read as the text it prints.\<close>

definition text_or_empty :: "json \<Rightarrow> string" where
  "text_or_empty v = (if jtruthy v then jstr v else '''')"

lemma text_or_empty_simps [simp]: "text_or_empty (JStr s) = s" "text_or_empty JNull = ''''"
  by (simp_all add: text_or_empty_def)

text \<open>\<open>(v or "").strip()\<close>, which only a string survives.\<close>

definition strip_or_empty :: "json \<Rightarrow> string res" where
  "strip_or_empty v = (if jtruthy v
     then (case v of JVal (PStr s) \<Rightarrow> Inr (py_strip s) | _ \<Rightarrow> Inl (attribute_error ''strip'')) else Inr '''')"

section \<open>Iterating and comparing\<close>

text \<open>The elements \<open>for x in v\<close> sees.\<close>

fun jiter :: "json \<Rightarrow> json list res" where
  "jiter (JArr xs) = Inr xs"
| "jiter (JObj d) = Inr (List.map (\<lambda>kv. JStr (fst kv)) d)"
| "jiter (JVal (PStr s)) = Inr (List.map (\<lambda>c. JStr [c]) s)"
| "jiter _ = Inl (type_error ''not iterable'')"

text \<open>\<open>n >= v\<close> for an integer \<open>n\<close>.\<close>

fun int_ge :: "int \<Rightarrow> json \<Rightarrow> bool res" where
  "int_ge n (JVal (PInt i)) = Inr (i \<le> n)"
| "int_ge n (JVal (PBool b)) = Inr ((if b then 1 else 0) \<le> n)"
| "int_ge n _ = Inl (type_error ''not comparable'')"

section \<open>Whole numbers in text\<close>

text \<open>
  \<open>int(text)\<close>: surrounding space, one sign, and digits with single underscores between them.
\<close>

fun digits_with_underscores :: "(char \<Rightarrow> bool) \<Rightarrow> string \<Rightarrow> bool" where
  "digits_with_underscores ok [] = False"
| "digits_with_underscores ok [c] = ok c"
| "digits_with_underscores ok (c # d # s) =
     (ok c \<and> (if d = CHR ''_'' then s \<noteq> [] \<and> digits_with_underscores ok s else digits_with_underscores ok (d # s)))"

definition take_sign :: "string \<Rightarrow> int \<times> string" where
  "take_sign s = (case s of
     [] \<Rightarrow> (1, [])
   | c # r \<Rightarrow> if c = CHR ''-'' then (- 1, r) else if c = CHR ''+'' then (1, r) else (1, s))"

definition parse_int :: "string \<Rightarrow> int option" where
  "parse_int text = (case take_sign (py_strip text) of (sg, ds) \<Rightarrow>
     if digits_with_underscores is_digit ds
     then Some (sg * int (nat_of_digits (List.filter (\<lambda>c. c \<noteq> CHR ''_'') ds))) else None)"

text \<open>\<open>int(v)\<close>.\<close>

fun jint :: "json \<Rightarrow> int res" where
  "jint (JVal (PInt i)) = Inr i"
| "jint (JVal (PBool b)) = Inr (if b then 1 else 0)"
| "jint (JVal (PStr s)) = (case parse_int s of
     Some i \<Rightarrow> Inr i | None \<Rightarrow> Inl (PyError ''ValueError'' ''invalid literal for int''))"
| "jint _ = Inl (type_error ''int() argument'')"

section \<open>Elements\<close>

text \<open>An \<open>ElementTree\<close> element: tag, attributes, text before the first child, children.\<close>

datatype xml = Elem (xml_tag: string) (xml_attrib: "(string \<times> string) list") (xml_text: "string option")
  (xml_children: "xml list")

text \<open>\<open>element.iter()\<close> without the element itself: its descendants in document order.\<close>

fun xml_below :: "xml \<Rightarrow> xml list" where
  "xml_below (Elem t a x cs) = concat (List.map (\<lambda>c. c # xml_below c) cs)"

section \<open>HTTP sessions\<close>

text \<open>
  The HTTP client the adapters hold (\<open>httpx.Client\<close>) and the server behind it, as a record of
  functions over a state \<open>'h\<close>: what a request is answered, what the cookie jar holds, what the
  clock reads. \<open>httpx\<close> and the servers are not in the repository, so the record is an argument of
  everything that talks to one. A transport error is an exception of one of httpx's classes.
\<close>

datatype body =
    NoBody
  | JsonBody json
  | FormBody "(string \<times> string) list"
  | RawBody string
  | FilesBody "(string \<times> string option \<times> string) list" "(string \<times> string) list"

record request =
  rq_method :: string
  rq_path :: string
  rq_params :: "(string \<times> string) list"
  rq_headers :: "(string \<times> string) list"
  rq_body :: body
  rq_follow :: bool

text \<open>
  A response: \<open>rs_json\<close> is what \<open>resp.json()\<close> returns, None where it raises ValueError; header
  names are in lower case, as httpx looks them up regardless of case.
\<close>

record response =
  rs_status :: nat
  rs_headers :: "(string \<times> string) list"
  rs_text :: string
  rs_json :: "json option"

record 'h http =
  http_send :: "request \<Rightarrow> ('h, response) comp"
  http_now :: "'h \<Rightarrow> int"
  http_cookie :: "'h \<Rightarrow> string \<Rightarrow> string option"
  http_forget_cookies :: "'h \<Rightarrow> 'h"

definition mk_request :: "string \<Rightarrow> string \<Rightarrow> (string \<times> string) list \<Rightarrow> (string \<times> string) list \<Rightarrow> body \<Rightarrow> request" where
  "mk_request m p q h b = \<lparr>rq_method = m, rq_path = p, rq_params = q, rq_headers = h, rq_body = b, rq_follow = False\<rparr>"

definition header_of :: "response \<Rightarrow> string \<Rightarrow> string" where
  "header_of r k = (case map_of (rs_headers r) k of None \<Rightarrow> '''' | Some v \<Rightarrow> v)"

text \<open>\<open>except httpx.HTTPError\<close>: the classes httpx documents below it.\<close>

definition http_error_classes :: "string list" where
  "http_error_classes = [''HTTPError'', ''RequestError'', ''TransportError'', ''TimeoutException'',
     ''ConnectTimeout'', ''ReadTimeout'', ''WriteTimeout'', ''PoolTimeout'', ''NetworkError'',
     ''ConnectError'', ''ReadError'', ''WriteError'', ''CloseError'', ''ProtocolError'',
     ''LocalProtocolError'', ''RemoteProtocolError'', ''ProxyError'', ''UnsupportedProtocol'',
     ''DecodingError'', ''TooManyRedirects'', ''HTTPStatusError'']"

fun is_http_error :: "exn \<Rightarrow> bool" where
  "is_http_error (PyError c _) = (c \<in> set http_error_classes)"
| "is_http_error _ = False"

text \<open>\<open>resp.json()\<close> as a statement: the ValueError of a body that is not JSON.\<close>

definition response_json :: "response \<Rightarrow> json res" where
  "response_json r = (case rs_json r of Some v \<Rightarrow> Inr v | None \<Rightarrow> Inl (PyError ''JSONDecodeError'' ''Expecting value''))"

text \<open>The outcome of a loop whose fuel ran out: an exception no code raises.\<close>

definition not_returned :: exn where
  "not_returned = PyError ''NotReturned'' ''''"

text \<open>A step whose value is computed without touching the state.\<close>

definition pure_res :: "'a res \<Rightarrow> ('s, 'a) comp" where
  "pure_res r s = (r, s)"

lemma bind_comp_pure_res [simp]:
  "bind_comp (pure_res (Inr v)) k s = k v s" "bind_comp (pure_res (Inl e)) k s = (Inl e, s)"
  by (simp_all add: bind_comp_def pure_res_def)

end
