(* ===== verification/Alta_Client.thy ===== *)
theory Alta_Client
  imports Json_Data
begin

text \<open>
  \<open>lib/pacs/avigilon_alta/client.py\<close>: the bearer-token client of Avigilon Alta. The object's
  fields and the network behind it are one record. Messages of the errors carry no number.
  \<open>list_users\<close> asks for pages until the server says it has sent everything, for as long as the
  server keeps sending, so it takes fuel: None is a read that has not ended within it, which the
  adapter's record of functions shows as the outcome \<open>not_returned\<close>, an exception no code raises.
\<close>

record alta_cfg =
  acf_email :: string
  acf_password :: string

record 'h alta =
  al_token :: string
  al_expires :: "datetime option"
  al_namespace :: json
  al_org :: json
  al_user :: json
  al_identity :: json
  al_external :: "(string \<times> string) list"
  al_net :: 'h

definition TOKEN_EXPIRY_SKEW :: int where
  "TOKEN_EXPIRY_SKEW = 300 * 1000000"

definition ALTA_PAGE_SIZE :: nat where
  "ALTA_PAGE_SIZE = 100"

definition alta_auth_error :: "string \<Rightarrow> exn" where
  "alta_auth_error m = PyError ''AltaAuthError'' m"

text \<open>\<open>AltaClient.__init__\<close> and the adapter's empty cache.\<close>

definition alta_init :: "'h \<Rightarrow> 'h alta" where
  "alta_init h = \<lparr>al_token = '''', al_expires = None, al_namespace = JNull, al_org = JNull, al_user = JNull,
     al_identity = JNull, al_external = [], al_net = h\<rparr>"

definition alta_parse_iso :: "json \<Rightarrow> datetime option res" where
  "alta_parse_iso v = (if \<not> jtruthy v then Inr None
     else case v of JVal (PStr s) \<Rightarrow> Inr (parse_iso s) | _ \<Rightarrow> Inl (attribute_error ''replace''))"

definition alta_send :: "'h http \<Rightarrow> request \<Rightarrow> ('h alta, response) comp" where
  "alta_send net rq st = (case http_send net rq (al_net st) of (r, h) \<Rightarrow> (r, st\<lparr>al_net := h\<rparr>))"

section \<open>Signing in\<close>

text \<open>What \<open>_determine_namespace\<close> reads off its response: the namespace's id and its \<open>org\<close>.\<close>

definition first_namespace :: "response \<Rightarrow> (json \<times> json) res" where
  "first_namespace r =
     (if rs_status r \<noteq> 200 then Inl (alta_auth_error ''determineLoginCandidateNamespaces'') else
      bind_res (response_json r) (\<lambda>body. bind_res (oget ''data'' body) (\<lambda>data.
        if \<not> jtruthy data then Inl (alta_auth_error ''No login namespace found'')
        else case data of
            JArr (first # _) \<Rightarrow> bind_res (jget ''id'' first) (\<lambda>i.
              bind_res (jget ''org'' first) (\<lambda>org. Inr (i, org)))
          | _ \<Rightarrow> Inl (type_error ''unexpected namespaces''))))"

definition determine_namespace :: "'h http \<Rightarrow> alta_cfg \<Rightarrow> ('h alta, unit) comp" where
  "determine_namespace net cfg =
     bind_comp (alta_send net (mk_request ''POST'' ''/auth/determineLoginCandidateNamespaces'' []
         [(''Content-Type'', ''application/json'')] (JsonBody (JObj [(''email'', JStr (acf_email cfg))]))))
       (\<lambda>resp. bind_comp (pure_res (first_namespace resp)) (\<lambda>(i, org) st.
          (let st1 = st\<lparr>al_namespace := i\<rparr> in
           case oget ''id'' org of
             Inl e \<Rightarrow> (Inl e, st1)
           | Inr oid \<Rightarrow> (Inr (), st1\<lparr>al_org := oid\<rparr>))))"

text \<open>The scope entry with an org decides the org and, when it names one, the user.\<close>

fun scope_ids :: "json list \<Rightarrow> (json \<times> json) option res" where
  "scope_ids [] = Inr None"
| "scope_ids (entry # entries) =
     bind_res (oget ''org'' entry) (\<lambda>org. bind_res (oget ''user'' entry) (\<lambda>user.
     bind_res (oget ''id'' org) (\<lambda>oid.
       if jtruthy oid then bind_res (oget ''id'' user) (\<lambda>uid. Inr (Some (oid, uid)))
       else scope_ids entries)))"

definition note_scope :: "(json \<times> json) option \<Rightarrow> 'h alta \<Rightarrow> 'h alta" where
  "note_scope ids st = (case ids of None \<Rightarrow> st
     | Some (oid, uid) \<Rightarrow> st\<lparr>al_org := oid, al_user := (if jtruthy uid then uid else al_user st)\<rparr>)"

text \<open>The part of \<open>login\<close> after its POST was answered.\<close>

definition take_login :: "response \<Rightarrow> ('h alta, bool) comp" where
  "take_login resp st =
     (if rs_status resp \<noteq> 201 then (Inr False, st) else
      case bind_res (response_json resp) (oget ''data'') of
        Inl e \<Rightarrow> (Inl e, st)
      | Inr d \<Rightarrow>
        (case oget ''token'' d of
           Inl e \<Rightarrow> (Inl e, st)
         | Inr token \<Rightarrow>
           if \<not> jtruthy token then (Inr False, st) else
           (let st1 = st\<lparr>al_token := jstr token\<rparr> in
            case bind_res (oget ''expiresAt'' d) alta_parse_iso of
              Inl e \<Rightarrow> (Inl e, st1)
            | Inr expires \<Rightarrow>
              (let st2 = st1\<lparr>al_expires := expires\<rparr> in
               case oget ''identityId'' d of
                 Inl e \<Rightarrow> (Inl e, st2)
               | Inr ident \<Rightarrow>
                 (let st3 = st2\<lparr>al_identity := ident\<rparr> in
                  case bind_res (oget ''tokenScopeList'' d) (\<lambda>l. bind_res (jiter (jor l (JArr []))) scope_ids) of
                    Inl e \<Rightarrow> (Inl e, st3)
                  | Inr ids \<Rightarrow> (Inr True, note_scope ids st3))))))"

text \<open>The body of the \<open>try\<close> in \<open>login\<close>, and the whole: only transport errors become False.\<close>

definition login_steps :: "'h http \<Rightarrow> alta_cfg \<Rightarrow> ('h alta, bool) comp" where
  "login_steps net cfg =
     bind_comp (\<lambda>st. if al_namespace st = JNull then determine_namespace net cfg st else (Inr (), st))
       (\<lambda>_ st. bind_comp
          (alta_send net (mk_request ''POST'' ''/auth/login'' [] [(''Content-Type'', ''application/json'')]
             (JsonBody (JObj [(''email'', JStr (acf_email cfg)), (''password'', JStr (acf_password cfg)),
                (''namespaceId'', al_namespace st)]))))
          take_login st)"

definition alta_login :: "'h http \<Rightarrow> alta_cfg \<Rightarrow> ('h alta, bool) comp" where
  "alta_login net cfg st =
     (case login_steps net cfg st of
        (Inl e, st') \<Rightarrow> (if is_http_error e then (Inr False, st') else (Inl e, st'))
      | (Inr b, st') \<Rightarrow> (Inr b, st'))"

text \<open>A clock with a zone is not comparable with an expiry that has none.\<close>

definition token_valid :: "'h http \<Rightarrow> 'h alta \<Rightarrow> bool res" where
  "token_valid net st =
     (if al_token st = '''' then Inr False
      else case al_expires st of
          None \<Rightarrow> Inr True
        | Some x \<Rightarrow> if dt_off x = None then Inl (type_error ''naive and aware datetimes'')
                    else Inr (http_now net (al_net st) < dt_us x - TOKEN_EXPIRY_SKEW))"

definition ensure_authenticated :: "'h http \<Rightarrow> alta_cfg \<Rightarrow> ('h alta, unit) comp" where
  "ensure_authenticated net cfg st =
     (case token_valid net st of
        Inl e \<Rightarrow> (Inl e, st)
      | Inr True \<Rightarrow> (Inr (), st)
      | Inr False \<Rightarrow> bind_comp (alta_login net cfg)
          (\<lambda>ok. pure_res (if ok then Inr () else Inl (alta_auth_error ''Cannot authenticate with Avigilon Alta Access''))) st)"

section \<open>Requests\<close>

definition set_header :: "string \<Rightarrow> string \<Rightarrow> request \<Rightarrow> request" where
  "set_header k v rq = rq\<lparr>rq_headers := AList.update k v (rq_headers rq)\<rparr>"

text \<open>Send once; on a 401 sign in again and, if that works, send once more.\<close>

definition alta_request :: "'h http \<Rightarrow> alta_cfg \<Rightarrow> ('h alta \<Rightarrow> request) \<Rightarrow> ('h alta, response) comp" where
  "alta_request net cfg mk st0 =
     (let rq = mk st0 in
      bind_comp (ensure_authenticated net cfg) (\<lambda>_ st.
        (let rq1 = (if map_of (rq_headers rq) ''authorization'' = None
                    then set_header ''authorization'' (al_token st) rq else rq) in
         bind_comp (alta_send net rq1) (\<lambda>resp st1.
           if rs_status resp \<noteq> 401 then (Inr resp, st1) else
           bind_comp (alta_login net cfg) (\<lambda>ok st2.
             if ok then alta_send net (set_header ''authorization'' (al_token st2) rq1) st2
             else (Inr resp, st2)) (st1\<lparr>al_token := ''''\<rparr>)) st)) st0)"

definition org_path :: "'h alta \<Rightarrow> string \<Rightarrow> string" where
  "org_path st rest = ''/orgs/'' @ jstr (al_org st) @ rest"

definition users_request :: "nat \<Rightarrow> 'h alta \<Rightarrow> request" where
  "users_request offset st = mk_request ''GET'' (org_path st ''/users'')
     [(''order'', ''asc''), (''limit'', string_of_nat ALTA_PAGE_SIZE), (''offset'', string_of_nat offset)] [] NoBody"

text \<open>
  One answered page: the users so far, and whether there is another page. A page that is not
  a 200 ends the list; without a \<open>totalCount\<close> the count is what has been read.
\<close>

definition take_page :: "response \<Rightarrow> json list \<Rightarrow> (json list \<times> bool) res" where
  "take_page resp users =
     (if rs_status resp \<noteq> 200 then Inr (users, False) else
      bind_res (response_json resp) (\<lambda>body. bind_res (oget ''data'' body) (\<lambda>data.
      bind_res (jiter (jor data (JArr []))) (\<lambda>page.
        (let us = users @ page in
         bind_res (jget_or ''totalCount'' (JInt (int (length us))) (jor body (JObj []))) (\<lambda>total.
           if page = [] then Inr (us, False)
           else bind_res (int_ge (int (length us)) total) (\<lambda>done. Inr (us, \<not> done))))))))"

fun alta_pages ::
    "'h http \<Rightarrow> alta_cfg \<Rightarrow> nat \<Rightarrow> nat \<Rightarrow> json list \<Rightarrow> 'h alta \<Rightarrow> ((exn + json list) \<times> 'h alta) option" where
  "alta_pages net cfg 0 offset users st = None"
| "alta_pages net cfg (Suc fuel) offset users st =
     (case alta_request net cfg (users_request offset) st of
        (Inl e, st1) \<Rightarrow> Some (Inl e, st1)
      | (Inr resp, st1) \<Rightarrow>
        (case take_page resp users of
           Inl e \<Rightarrow> Some (Inl e, st1)
         | Inr (us, again) \<Rightarrow>
             if again then alta_pages net cfg fuel (offset + ALTA_PAGE_SIZE) us st1 else Some (Inr us, st1)))"

definition list_users :: "'h http \<Rightarrow> alta_cfg \<Rightarrow> nat \<Rightarrow> ('h alta, json list) comp" where
  "list_users net cfg fuel st =
     (case alta_pages net cfg fuel 0 [] st of None \<Rightarrow> (Inl not_returned, st) | Some r \<Rightarrow> r)"

definition alta_get_user :: "'h http \<Rightarrow> alta_cfg \<Rightarrow> string \<Rightarrow> ('h alta, json) comp" where
  "alta_get_user net cfg uid =
     bind_comp (alta_request net cfg (\<lambda>st. mk_request ''GET'' (org_path st (''/users/'' @ uid)) [] [] NoBody))
       (\<lambda>resp. pure_res (if rs_status resp \<noteq> 200 then Inr JNull else bind_res (response_json resp) (oget ''data'')))"

text \<open>A cardholder's credentials; a response that is not a 200 reads as none.\<close>

definition credentials_request :: "string \<Rightarrow> 'h alta \<Rightarrow> request" where
  "credentials_request uid st = mk_request ''GET'' (org_path st (''/users/'' @ uid @ ''/credentials''))
     [(''limit'', ''1000''), (''offset'', ''0'')] [] NoBody"

definition take_credentials :: "response \<Rightarrow> json list res" where
  "take_credentials resp =
     (if rs_status resp \<noteq> 200 then Inr []
      else bind_res (response_json resp) (\<lambda>body. bind_res (oget ''data'' body) (\<lambda>d. jiter (jor d (JArr [])))))"

definition alta_client_credentials :: "'h http \<Rightarrow> alta_cfg \<Rightarrow> string \<Rightarrow> ('h alta, json list) comp" where
  "alta_client_credentials net cfg uid =
     bind_comp (alta_request net cfg (credentials_request uid)) (\<lambda>resp. pure_res (take_credentials resp))"

section \<open>The one write\<close>

definition patch_body :: "json \<Rightarrow> string \<Rightarrow> string \<Rightarrow> int \<Rightarrow> bool \<Rightarrow> json" where
  "patch_body start_date end_date number fmt out =
     JObj [(''startDate'', start_date), (''endDate'', JStr end_date), (''eventAction'', JNull),
       (''badgeConfigId'', JNull),
       (''card'', JObj [(''number'', JStr number), (''cardFormatId'', JInt fmt), (''isOutputEnabled'', JVal (PBool out))])]"

definition patch_credential_dates ::
    "'h http \<Rightarrow> alta_cfg \<Rightarrow> string \<Rightarrow> string \<Rightarrow> json \<Rightarrow> string \<Rightarrow> string \<Rightarrow> int \<Rightarrow> bool \<Rightarrow> ('h alta, bool) comp" where
  "patch_credential_dates net cfg uid cid start_date end_date number fmt out =
     bind_comp (alta_request net cfg (\<lambda>st. mk_request ''PATCH'' (org_path st (''/users/'' @ uid @ ''/credentials/'' @ cid))
         [] [(''Content-Type'', ''application/json'')] (JsonBody (patch_body start_date end_date number fmt out))))
       (\<lambda>resp. pure_res (Inr (rs_status resp \<in> {200, 204})))"

section \<open>The connection test of the wizard\<close>

text \<open>
  What is raised by signing in or by the probe is the message, if it is of one of the caught
  classes. The long dash of the first message is written as a hyphen.
\<close>

definition alta_probe_request :: "'h alta \<Rightarrow> request" where
  "alta_probe_request st = mk_request ''GET'' (org_path st ''/users'') [(''order'', ''asc''), (''limit'', ''1'')] [] NoBody"

definition alta_probe :: "'h http \<Rightarrow> alta_cfg \<Rightarrow> ('h alta, bool \<times> string) comp" where
  "alta_probe net cfg =
     bind_comp (alta_login net cfg) (\<lambda>ok.
       if \<not> ok then pure_res (Inr (False, ''Login failed - check email/password''))
       else bind_comp (alta_request net cfg alta_probe_request) (\<lambda>resp. pure_res (Inr
         (if rs_status resp = 200 then (True, '''') else (False, ''Probe returned HTTP '' @ string_of_nat (rs_status resp))))))"

fun probe_caught :: "exn \<Rightarrow> bool" where
  "probe_caught (PyError c m) = (c = ''AltaAuthError'' \<or> is_http_error (PyError c m))"
| "probe_caught _ = False"

fun named_message :: "exn \<Rightarrow> string" where
  "named_message (PyError c m) = c @ '': '' @ m"
| "named_message e = exn_message e"

definition alta_test_connection :: "'h http \<Rightarrow> alta_cfg \<Rightarrow> ('h alta, bool \<times> string) comp" where
  "alta_test_connection net cfg st =
     (case alta_probe net cfg st of
        (Inl e, st1) \<Rightarrow> (if probe_caught e then (Inr (False, named_message e), st1) else (Inl e, st1))
      | (Inr r, st1) \<Rightarrow> (Inr r, st1))"

end
