(* ===== verification/Alta_Adapter.thy ===== *)
theory Alta_Adapter
  imports Alta_Client Pacs_Contract
begin

text \<open>
  \<open>lib/pacs/avigilon_alta/adapter.py\<close>: Alta's users and credentials as the engine's people and
  credentials. The enrollment trigger is on the user, so \<open>list_people\<close> remembers every user's
  external id for \<open>list_credentials\<close>. Only Wiegand cards (credential type 2) are synced.
\<close>

definition WIEGAND_CREDENTIAL_TYPE_ID :: int where
  "WIEGAND_CREDENTIAL_TYPE_ID = 2"

definition ALTA_TRIGGER :: string where
  "ALTA_TRIGGER = ''accessgrid''"

section \<open>Reading\<close>

definition alta_person :: "string \<Rightarrow> json \<Rightarrow> json \<Rightarrow> person res" where
  "alta_person pid ident raw =
     bind_res (bind_res (jget ''fullName'' ident) strip_or_empty) (\<lambda>name.
     bind_res (jget ''firstName'' ident) (\<lambda>fn. bind_res (jget ''lastName'' ident) (\<lambda>ln.
     bind_res (jget ''email'' ident) (\<lambda>em. bind_res (jget ''mobilePhone'' ident) (\<lambda>ph.
     bind_res (jget ''title'' raw) (\<lambda>ti. bind_res (jget ''department'' raw) (\<lambda>de.
     bind_res (jget ''status'' raw) (\<lambda>st.
       Inr \<lparr>pe_id = pid, pe_full_name = name, pe_first_name = text_or_empty fn, pe_last_name = text_or_empty ln,
            pe_email = text_or_empty em, pe_phone = text_or_empty ph, pe_title = text_or_empty ti,
            pe_department = text_or_empty de, pe_active = (st = JStr ''A'')\<rparr>))))))))"

text \<open>One user of the roster: remember the external id, yield the person.\<close>

definition alta_user_step :: "json \<Rightarrow> person list \<Rightarrow> ('h alta, person list) comp" where
  "alta_user_step raw out st =
     (case bind_res (jget ''id'' raw) (\<lambda>i. bind_res (jget ''identity'' raw) (\<lambda>ident.
           bind_res (bind_res (jget ''externalId'' raw) strip_or_empty) (\<lambda>ext. Inr (jstr i, jor ident (JObj []), py_lower ext)))) of
        Inl e \<Rightarrow> (Inl e, st)
      | Inr (pid, ident, ext) \<Rightarrow>
        (let st1 = st\<lparr>al_external := AList.update pid ext (al_external st)\<rparr> in
         case alta_person pid ident raw of
           Inl e \<Rightarrow> (Inl e, st1)
         | Inr p \<Rightarrow> (Inr (out @ [p]), st1)))"

definition alta_list_people :: "'h http \<Rightarrow> alta_cfg \<Rightarrow> nat \<Rightarrow> ('h alta, person list) comp" where
  "alta_list_people net cfg fuel =
     bind_comp (list_users net cfg fuel) (\<lambda>users. for_each alta_user_step users [])"

text \<open>An end date that has passed suspends; a date without a zone cannot be compared.\<close>

definition alta_status :: "int \<Rightarrow> datetime option \<Rightarrow> cred_status res" where
  "alta_status now end_date =
     (case end_date of
        None \<Rightarrow> Inr ACTIVE
      | Some d \<Rightarrow> if dt_off d = None then Inl (type_error ''naive and aware datetimes'')
                  else Inr (if dt_us d \<le> now then SUSPENDED else ACTIVE))"

definition alta_credential :: "int \<Rightarrow> bool \<Rightarrow> string \<Rightarrow> json \<Rightarrow> credential option res" where
  "alta_credential now trigger pid raw =
     bind_res (bind_res (jget ''credentialType'' raw) (oget ''id'')) (\<lambda>ty.
       if ty \<noteq> JInt WIEGAND_CREDENTIAL_TYPE_ID then Inr None else
     bind_res (jget ''card'' raw) (\<lambda>card0. (let card = jor card0 (JObj []) in
     bind_res (jget ''fields'' card) (\<lambda>fields0. (let fields = jor fields0 (JObj []) in
     bind_res (jget ''facilityCode'' fields) (\<lambda>f1. bind_res (jget ''facilityCode'' card) (\<lambda>f2.
     bind_res (jget ''cardId'' fields) (\<lambda>c1. bind_res (jget ''cardId'' card) (\<lambda>c2.
     bind_res (bind_res (jget ''endDate'' raw) alta_parse_iso) (\<lambda>end_date.
     bind_res (alta_status now end_date) (\<lambda>status.
     bind_res (jget ''id'' raw) (\<lambda>i.
     bind_res (bind_res (jget ''startDate'' raw) alta_parse_iso) (\<lambda>start_date.
       Inr (Some ((mk_credential (jstr i) pid)\<lparr>cr_card_number := text_or_empty (jor c1 c2),
          cr_site_code := text_or_empty (jor f1 f2), cr_status := status, cr_activate_date := start_date,
          cr_deactivate_date := end_date, cr_trigger_active := trigger\<rparr>)))))))))))))))"

definition enrolled :: "'h alta \<Rightarrow> string \<Rightarrow> bool" where
  "enrolled st pid \<longleftrightarrow> (case map_of (al_external st) pid of None \<Rightarrow> '''' | Some x \<Rightarrow> x) = ALTA_TRIGGER"

definition alta_list_credentials :: "'h http \<Rightarrow> alta_cfg \<Rightarrow> string \<Rightarrow> ('h alta, credential list) comp" where
  "alta_list_credentials net cfg pid st0 =
     (let trigger = enrolled st0 pid in
      bind_comp (alta_client_credentials net cfg pid) (\<lambda>raws st.
        pure_res (bind_res (map_res (alta_credential (http_now net (al_net st)) trigger pid) raws)
          (\<lambda>cs. Inr (concat (List.map (\<lambda>c. case c of None \<Rightarrow> [] | Some k \<Rightarrow> [k]) cs)))) st) st0)"

section \<open>Writing a status\<close>

text \<open>\<open>next((c for c in xs if str(c.get("id")) == cid), None)\<close>.\<close>

fun find_by_id :: "string \<Rightarrow> json list \<Rightarrow> json option res" where
  "find_by_id cid [] = Inr None"
| "find_by_id cid (c # cs) = bind_res (jget ''id'' c) (\<lambda>i. if jstr i = cid then Inr (Some c) else find_by_id cid cs)"

text \<open>The card block as the PATCH must echo it: number, format and output flag.\<close>

definition echoed_card :: "json \<Rightarrow> (json \<times> json \<times> json \<times> bool) option res" where
  "echoed_card current =
     bind_res (jget ''card'' current) (\<lambda>card0. (let card = jor card0 (JObj []) in
     bind_res (jget ''cardFormat'' card) (\<lambda>fmt0. (let fmt = jor fmt0 (JObj []) in
     bind_res (jget ''number'' card) (\<lambda>number. bind_res (jget ''id'' fmt) (\<lambda>f1.
     bind_res (jget ''cardFormatId'' card) (\<lambda>f2. bind_res (jget ''isOutputEnabled'' card) (\<lambda>out.
     bind_res (jget ''startDate'' current) (\<lambda>start_date.
       if \<not> jtruthy number \<or> jor f1 f2 = JNull then Inr None
       else Inr (Some (start_date, number, jor f1 f2, jtruthy out)))))))))))"

text \<open>Suspending ends the window now; reactivating ends it in a year.\<close>

fun end_date_for :: "cred_status \<Rightarrow> int \<Rightarrow> string option" where
  "end_date_for SUSPENDED now = Some (isoformat (utc_at now))"
| "end_date_for ACTIVE now = Some (isoformat (dt_plus_days (utc_at now) 365))"
| "end_date_for _ now = None"

definition alta_update_credential_status ::
    "'h http \<Rightarrow> alta_cfg \<Rightarrow> string \<Rightarrow> string \<Rightarrow> cred_status \<Rightarrow> ('h alta, bool) comp" where
  "alta_update_credential_status net cfg pid cid status =
     bind_comp (alta_client_credentials net cfg pid) (\<lambda>raws st.
       case bind_res (find_by_id cid raws) (\<lambda>c. case c of None \<Rightarrow> Inr None | Some current \<Rightarrow> echoed_card current) of
         Inl e \<Rightarrow> (Inl e, st)
       | Inr None \<Rightarrow> (Inr False, st)
       | Inr (Some (start_date, number, fmt, out)) \<Rightarrow>
         (case end_date_for status (http_now net (al_net st)) of
            None \<Rightarrow> (Inr False, st)
          | Some end_date \<Rightarrow>
            (case jint fmt of
               Inl e \<Rightarrow> (Inl e, st)
             | Inr n \<Rightarrow> patch_credential_dates net cfg pid cid start_date end_date (jstr number) n out st)))"

section \<open>The adapter the engine is given\<close>

definition alta_api :: "'h http \<Rightarrow> alta_cfg \<Rightarrow> nat \<Rightarrow> 'h alta pacs_api" where
  "alta_api net cfg fuel =
     \<lparr>pacs_declares_writeback = False, pacs_supports_status_writeback = (\<lambda>_. True), pacs_supports_credential_writeback = (\<lambda>_. False),
      pacs_supports_credential_retirement = (\<lambda>_. False), pacs_list_people = alta_list_people net cfg fuel,
      pacs_list_credentials = alta_list_credentials net cfg,
      pacs_update_credential_status = alta_update_credential_status net cfg,
      pacs_write_back_credentials = (\<lambda>_ _ _. pure_res (Inl (attribute_error ''write_back_credentials''))),
      pacs_retire_credentials = (\<lambda>_ _ _. pure_res (Inl (attribute_error ''retire_credentials''))),
      pacs_written_credentials = pure_res (Inl (attribute_error ''written_credentials'')),
      pacs_finish_cycle = None\<rparr>"

end
