(* ===== verification/Unity_Client.thy ===== *)
theory Unity_Client
  imports Json_Data
begin

text \<open>
  \<open>lib/pacs/avigilon/client.py\<close>: the session client of Avigilon Unity. Every read either returns
  all of what it was asked for or raises \<open>UnityError\<close>. The environment carries the network, the
  XML parser of the standard library, the account and this machine's time zone; the state carries the fields of the client
  and of the adapter that owns it. Error messages keep the path and drop the numbers.
\<close>

record token =
  tk_id :: string
  tk_identity :: string
  tk_internal :: string
  tk_embossed :: string
  tk_status :: string
  tk_issue :: string
  tk_activate :: string
  tk_deactivate :: string
  tk_fields :: "(string \<times> json) list"

record identity_row =
  ir_id :: string
  ir_first :: string
  ir_last :: string
  ir_full :: string
  ir_email :: string
  ir_phone :: string
  ir_work_phone :: string
  ir_title :: string
  ir_department :: string
  ir_status :: string

record 'h unity_env =
  ue_net :: "'h http"
  ue_xml :: "string \<Rightarrow> xml option"
  ue_username :: string
  ue_password :: string
  ue_utcoffset :: "int \<Rightarrow> int"

record 'h unity =
  un_logged_in :: bool
  un_xml_first :: "string list"
  un_tokens :: "(string \<times> token list) list"
  un_held :: "string list"
  un_net :: 'h

definition MAX_PAGES :: nat where
  "MAX_PAGES = 10000"

definition PAGE_SIZE :: nat where
  "PAGE_SIZE = 100"

definition PREFIXES :: "string list" where
  "PREFIXES = [''plasec'', ''avigilon'']"

definition TOKEN_FORM_FIELDS :: "string list" where
  "TOKEN_FORM_FIELDS = [
    ''plasecInternalnumber'', ''plasecEmbossednumber'', ''plasecPIN'', ''plasecTokenType'',
    ''plasecTokenlevel'', ''plasecTokenMobileAppType'', ''plasecTokenOrigoMobileIdType'',
    ''plasecDownload'', ''plasecTokenEnableReValidation'', ''plasecTokenUnitofUpdatePeriod'',
    ''plasecTokenVIP'', ''plasecTrace'', ''plasectokenExtaccess'', ''plasecTokennoexpire'',
    ''plasectokenPinexempt'', ''plasectokenUseloseexempt'', ''plasecTokenOffice'',
    ''plasecTokenSetLockDown'', ''plasecTokenAuditOpenings'', ''plasecTokenOverridePrivacy'',
    ''plasecTokenOverrideLockDown'']"

definition TOKEN_FORM_DATES :: "string list" where
  "TOKEN_FORM_DATES = [''plasecIssuedate'', ''plasecActivatedate'', ''plasecDeactivatedate'']"

definition XML_IDENTITY_SEARCH :: "(string \<times> string) list" where
  "XML_IDENTITY_SEARCH = [
    (''identity_search_exec_search'', ''true''), (''adv_search_field_0'', ''''),
    (''adv_search_udf_0'', ''''), (''adv_search_val_0'', ''''), (''search_pattern_0'', ''2''),
    (''adv_search_and_or'', ''&''), (''adv_search_cnt'', ''0''), (''adv_search_exec_search'', ''true''),
    (''quick_search'', ''true''), (''qck_search_and_or'', ''&''), (''lnam'', ''''), (''fnam'', ''''), (''tkn'', ''''),
    (''search_pattern_fnam'', ''2''), (''search_pattern_lnam'', ''2''), (''group_id'', ''''), (''id'', '''')]"

section \<open>One shape for three answers\<close>

text \<open>\<open>_unwrap\<close>: the id and the fields, from the flat or the JSON:API shape.\<close>

definition unwrap :: "json \<Rightarrow> (string \<times> (string \<times> json) list) res" where
  "unwrap raw = (case raw of
     JObj d \<Rightarrow> (case jlookup d ''attributes'' of
         JObj attrs \<Rightarrow> Inr (text_or_empty (jor (jlookup d ''id'') (jlookup attrs ''cn'')), attrs)
       | _ \<Rightarrow> Inr (text_or_empty (jor (jlookup d ''cn'') (jlookup d ''id'')), d))
   | _ \<Rightarrow> Inl (attribute_error ''get''))"

text \<open>The first prefix that has a value; a value is anything but null and the empty text.\<close>

definition first_value :: "json list \<Rightarrow> string" where
  "first_value vs = (case List.find (\<lambda>v. v \<noteq> JNull \<and> v \<noteq> JStr '''') vs of None \<Rightarrow> '''' | Some v \<Rightarrow> jstr v)"

definition unity_field :: "(string \<times> json) list \<Rightarrow> string \<Rightarrow> string" where
  "unity_field attrs suffix = first_value (List.map (\<lambda>p. jlookup attrs (p @ suffix)) PREFIXES)"

definition STATUS_CODES :: "(string \<times> string) list" where
  "STATUS_CODES = [(''active'', ''1''), (''inactive'', ''2''), (''not yet active'', ''3''), (''expired'', ''4'')]"

definition status_code :: "json \<Rightarrow> string" where
  "status_code raw =
     (let t = py_strip (if raw = JNull then '''' else jstr raw) in
      if t \<in> {''1'', ''2'', ''3'', ''4''} then t
      else case map_of STATUS_CODES (py_lower t) of None \<Rightarrow> '''' | Some c \<Rightarrow> c)"

text \<open>The list carries only \<open>Last, First\<close>; the detail carries the names apart.\<close>

definition identity_names :: "(string \<times> json) list \<Rightarrow> string \<times> string \<times> string" where
  "identity_names attrs =
     (let fn = unity_field attrs ''Fname''; ln = unity_field attrs ''Lname''; listed = unity_field attrs ''Name''
      in if fn = '''' \<and> ln = '''' \<and> listed \<noteq> ''''
         then (case py_partition (CHR '','') listed of (l, f) \<Rightarrow> (py_strip f, py_strip l, listed))
         else (fn, ln, listed))"

definition identity_row_of :: "json \<Rightarrow> identity_row res" where
  "identity_row_of raw =
     bind_res (unwrap raw) (\<lambda>(i, attrs).
       case identity_names attrs of (fn, ln, listed) \<Rightarrow>
       (let idstatus = unity_field attrs ''Idstatus'';
            raw_status = (if idstatus \<noteq> '''' then idstatus else text_or_empty (jlookup attrs ''status''));
            full = py_strip (fn @ '' '' @ ln)
        in Inr \<lparr>ir_id = i, ir_first = fn, ir_last = ln, ir_full = (if full = '''' then listed else full),
          ir_email = unity_field attrs ''identityEmailaddress'', ir_phone = unity_field attrs ''identityPhone'',
          ir_work_phone = unity_field attrs ''identityWorkphone'', ir_title = unity_field attrs ''identityTitle'',
          ir_department = unity_field attrs ''identityDepartment'', ir_status = status_code (JStr raw_status)\<rparr>))"

text \<open>A date of a token: the list's \<open>extended_attributes\<close> first, then the token's own.\<close>

definition token_date :: "(string \<times> json) list \<Rightarrow> (string \<times> json) list \<Rightarrow> string \<Rightarrow> string \<Rightarrow> string" where
  "token_date ext attrs listed_name own =
     (let v = jlookup ext listed_name in if jtruthy v then jstr v else unity_field attrs own)"

definition token_row :: "string \<Rightarrow> json \<Rightarrow> token res" where
  "token_row identity_id raw =
     bind_res (unwrap raw) (\<lambda>(i, attrs).
       case jor (jlookup attrs ''extended_attributes'') (JObj []) of
         JObj ext \<Rightarrow>
           (let st = jlookup ext ''token_status'';
                raw_status = (if jtruthy st then st else JStr (unity_field attrs ''Tokenstatus''))
            in Inr \<lparr>tk_id = i, tk_identity = identity_id,
                 tk_internal = unity_field attrs ''Internalnumber'', tk_embossed = unity_field attrs ''Embossednumber'',
                 tk_status = status_code raw_status,
                 tk_issue = token_date ext attrs ''formatted_issue_date'' ''Issuedate'',
                 tk_activate = token_date ext attrs ''formatted_activate_date'' ''Activatedate'',
                 tk_deactivate = token_date ext attrs ''formatted_deactivate_date'' ''Deactivatedate'',
                 tk_fields = attrs\<rparr>)
       | _ \<Rightarrow> Inl (attribute_error ''get''))"

text \<open>The rows of an XML document, each a flat dictionary of its descendants' text; the first of a tag stands.\<close>

definition flat_row :: "xml \<Rightarrow> json" where
  "flat_row el = JObj (fold (\<lambda>c d. if map_of d (xml_tag c) = None
       then d @ [(xml_tag c, JStr (py_strip (case xml_text c of None \<Rightarrow> '''' | Some x \<Rightarrow> x)))] else d) (xml_below el) [])"

definition xml_rows :: "'h unity_env \<Rightarrow> string \<Rightarrow> string \<Rightarrow> string \<Rightarrow> json list res" where
  "xml_rows env txt root_tag row_tag =
     (case ue_xml env txt of
        None \<Rightarrow> Inl (UnityError ''not XML'')
      | Some root \<Rightarrow>
          if xml_tag root = row_tag then Inr [flat_row root]
          else if xml_tag root = ''nil-classes'' \<and> xml_children root = [] then Inr []
          else if xml_tag root = root_tag
            then Inr (List.map flat_row (List.filter (\<lambda>c. xml_tag c = row_tag) (xml_children root)))
          else Inl (UnityError (''expected <'' @ root_tag @ ''>, got <'' @ xml_tag root @ ''>'')))"

section \<open>The session\<close>

definition unity_send :: "'h unity_env \<Rightarrow> request \<Rightarrow> ('h unity, response) comp" where
  "unity_send env rq st = (case http_send (ue_net env) rq (un_net st) of (r, h) \<Rightarrow> (r, st\<lparr>un_net := h\<rparr>))"

definition is_session_expired :: "response \<Rightarrow> bool" where
  "is_session_expired r \<longleftrightarrow> rs_status r = 401 \<or>
     (rs_status r = 302 \<and> py_contains (header_of r ''location'') ''/sessions'')"

text \<open>One probe of \<open>_can_read\<close>: the verdict, or the status to report and the next probe.\<close>

fun can_read :: "'h unity_env \<Rightarrow> (string \<times> (string \<times> string) list \<times> string) list \<Rightarrow> nat list \<Rightarrow> ('h unity, bool) comp" where
  "can_read env [] answers st =
     (if 200 \<in> set answers then (Inr False, st)
      else (Inl (UnityError ''signed in, but the identity list would not answer''), st))"
| "can_read env ((path, params, kind) # probes) answers st =
     (case unity_send env (mk_request ''GET'' path params [] NoBody) st of
        (Inl e, st1) \<Rightarrow> (Inl e, st1)
      | (Inr resp, st1) \<Rightarrow>
          if is_session_expired resp then (Inr False, st1)
          else if rs_status resp = 200 \<and> py_contains (header_of resp ''content-type'') kind then (Inr True, st1)
          else can_read env probes (answers @ [rs_status resp]) st1)"

definition read_probes :: "(string \<times> (string \<times> string) list \<times> string) list" where
  "read_probes = [(''/identities.json'', [(''page'', ''1''), (''perpage'', ''1'')], ''json''),
     (''/identities.xml'', XML_IDENTITY_SEARCH, ''xml'')]"

definition login_attempts :: "'h unity_env \<Rightarrow> request list" where
  "login_attempts env =
     [(mk_request ''POST'' ''/sessions'' [] []
         (FormBody [(''login'', ue_username env), (''password'', ue_password env)]))\<lparr>rq_follow := True\<rparr>,
      (mk_request ''POST'' ''/sessions'' []
         [(''X-Requested-With'', ''XMLHttpRequest''), (''Accept'', ''application/json'')]
         (JsonBody (JObj [(''login'', JStr (ue_username env)), (''password'', JStr (ue_password env))])))\<lparr>rq_follow := True\<rparr>]"

fun try_logins :: "'h unity_env \<Rightarrow> request list \<Rightarrow> ('h unity, unit) comp" where
  "try_logins env [] st = (Inl (UnityAuthError ''Unity rejected the username or password''), st)"
| "try_logins env (rq # rqs) st =
     (case bind_comp (unity_send env rq) (\<lambda>_. can_read env read_probes [])
             (st\<lparr>un_net := http_forget_cookies (ue_net env) (un_net st)\<rparr>) of
        (Inl e, st1) \<Rightarrow> (Inl (if is_http_error e then UnityError ''Unity unreachable'' else e), st1)
      | (Inr signed_in, st1) \<Rightarrow>
          if signed_in then (Inr (), st1\<lparr>un_logged_in := True\<rparr>) else try_logins env rqs st1)"

definition unity_login :: "'h unity_env \<Rightarrow> ('h unity, unit) comp" where
  "unity_login env st = try_logins env (login_attempts env) (st\<lparr>un_logged_in := False\<rparr>)"

definition csrf_token :: "'h unity_env \<Rightarrow> 'h unity \<Rightarrow> string" where
  "csrf_token env st = (case http_cookie (ue_net env) (un_net st) ''XSRF-TOKEN'' of None \<Rightarrow> '''' | Some c \<Rightarrow> c)"

definition with_csrf :: "'h unity_env \<Rightarrow> request \<Rightarrow> 'h unity \<Rightarrow> request" where
  "with_csrf env rq st = (if rq_method rq = ''GET'' then rq
     else rq\<lparr>rq_headers := AList.update ''X-CSRF-Token'' (csrf_token env st) (rq_headers rq)\<rparr>)"

definition send_or_unity_error :: "'h unity_env \<Rightarrow> request \<Rightarrow> ('h unity, response) comp" where
  "send_or_unity_error env rq st =
     (case unity_send env (with_csrf env rq st) st of
        (Inl e, st1) \<Rightarrow> (Inl (if is_http_error e then UnityError (rq_method rq @ '' '' @ rq_path rq) else e), st1)
      | (Inr resp, st1) \<Rightarrow> (Inr resp, st1))"

text \<open>\<open>_request\<close>: send, and after a lapsed session sign in again and send once more.\<close>

definition unity_request :: "'h unity_env \<Rightarrow> request \<Rightarrow> ('h unity, response) comp" where
  "unity_request env rq =
     bind_comp (\<lambda>st. if un_logged_in st then (Inr (), st) else unity_login env st) (\<lambda>_.
     bind_comp (send_or_unity_error env rq) (\<lambda>resp st1.
       if \<not> is_session_expired resp then (Inr resp, st1) else
       bind_comp (unity_login env) (\<lambda>_.
       bind_comp (send_or_unity_error env rq) (\<lambda>resp2 st2.
         if \<not> is_session_expired resp2 then (Inr resp2, st2)
         else (Inl (UnityAuthError (rq_method rq @ '' '' @ rq_path rq @ '': session expired again'')), st2))) st1))"

definition get_json :: "'h unity_env \<Rightarrow> string \<Rightarrow> (string \<times> string) list \<Rightarrow> ('h unity, json) comp" where
  "get_json env path params =
     bind_comp (unity_request env (mk_request ''GET'' path params [(''Accept'', ''application/json'')] NoBody)) (\<lambda>resp.
       pure_res (if rs_status resp \<noteq> 200 then Inl (UnityError (''GET '' @ path @ '': HTTP error''))
         else case rs_json resp of
             None \<Rightarrow> Inl (UnityError (''GET '' @ path @ '': response is not JSON''))
           | Some v \<Rightarrow> Inr v))"

definition unity_test_connection :: "'h unity_env \<Rightarrow> ('h unity, bool \<times> string) comp" where
  "unity_test_connection env st =
     (case unity_login env st of
        (Inl e, st1) \<Rightarrow> (if is_unity_error e then (Inr (False, exn_message e), st1) else (Inl e, st1))
      | (Inr _, st1) \<Rightarrow> (Inr (True, ''''), st1))"

end
