(* ===== verification/Unity_Reads.thy ===== *)
theory Unity_Reads
  imports Unity_Client
begin

text \<open>
  The reads and the one write of \<open>lib/pacs/avigilon/client.py\<close>: paging the roster, the fallback
  between JSON and XML, tokens, and the status form. The page loop stops after \<open>MAX_PAGES\<close>, as
  the code's \<open>for .. else\<close> does.
\<close>

section \<open>JSON, or else XML\<close>

text \<open>
  \<open>_json_then_xml\<close>: one way and, when that raises an ordinary \<open>UnityError\<close>, the other; the way that
  answers is remembered. An auth error and any other exception pass through.
\<close>

definition is_plain_unity_error :: "exn \<Rightarrow> bool" where
  "is_plain_unity_error e \<longleftrightarrow> is_unity_error e \<and> (case e of UnityAuthError _ \<Rightarrow> False | _ \<Rightarrow> True)"

definition toggle :: "string \<Rightarrow> string list \<Rightarrow> string list" where
  "toggle x xs = (if x \<in> set xs then removeAll x xs else x # xs)"

definition json_then_xml :: "string \<Rightarrow> ('h unity, 'a) comp \<Rightarrow> ('h unity, 'a) comp \<Rightarrow> ('h unity, 'a) comp" where
  "json_then_xml what from_json from_xml st =
     (let xml_first = (what \<in> set (un_xml_first st));
          (one, other) = (if xml_first then (from_xml, from_json) else (from_json, from_xml))
      in case one st of
           (Inr v, st1) \<Rightarrow> (Inr v, st1)
         | (Inl e, st1) \<Rightarrow>
             if \<not> is_plain_unity_error e then (Inl e, st1) else
             (case other st1 of
                (Inr v, st2) \<Rightarrow> (Inr v, st2\<lparr>un_xml_first := toggle what (un_xml_first st2)\<rparr>)
              | (Inl e2, st2) \<Rightarrow>
                  if is_plain_unity_error e2 then (Inl (UnityError (what @ '': neither way answered'')), st2)
                  else (Inl e2, st2)))"

section \<open>The roster\<close>

text \<open>What one page of the JSON list says: its items and the total it declares.\<close>

definition page_of_body :: "json \<Rightarrow> (json list \<times> json) res" where
  "page_of_body body =
     (case (case body of JObj d \<Rightarrow> jlookup d ''data'' | _ \<Rightarrow> JNull) of
        JArr items \<Rightarrow>
          bind_res (bind_res (jget ''meta'' body) (oget ''recordsFiltered'')) (\<lambda>filtered.
          bind_res (bind_res (jget ''meta'' body) (oget ''recordsTotal'')) (\<lambda>total.
            Inr (items, jor filtered total)))
      | _ \<Rightarrow> Inl (UnityError ''identities: no data list in the response''))"

text \<open>The rows of a page that were not read before, and the roster with them.\<close>

definition new_rows :: "(string \<times> identity_row) list \<Rightarrow> identity_row list \<Rightarrow> identity_row list" where
  "new_rows rows items = List.filter (\<lambda>r. ir_id r \<noteq> '''' \<and> map_of rows (ir_id r) = None) items"

definition add_rows :: "identity_row list \<Rightarrow> (string \<times> identity_row) list \<Rightarrow> (string \<times> identity_row) list" where
  "add_rows new rows = fold (\<lambda>r. AList.update (ir_id r) r) new rows"

text \<open>The declared total, once the loop compares with it.\<close>

definition reached :: "(string \<times> identity_row) list \<Rightarrow> json \<Rightarrow> bool res" where
  "reached rows declared = (if declared = JNull then Inr False else bind_res (jint declared) (\<lambda>n. Inr (n \<le> int (length rows))))"

definition short_of :: "(string \<times> identity_row) list \<Rightarrow> json \<Rightarrow> bool res" where
  "short_of rows declared = (if declared = JNull then Inr False else bind_res (jint declared) (\<lambda>n. Inr (int (length rows) < n)))"

text \<open>One page read: the roster so far, and None to go on or the roster to return.\<close>

definition take_identities ::
    "json \<Rightarrow> (string \<times> identity_row) list \<Rightarrow> ((string \<times> identity_row) list \<times> identity_row list option) res" where
  "take_identities body rows =
     bind_res (page_of_body body) (\<lambda>(items, total).
     bind_res (map_res identity_row_of items) (\<lambda>irs.
       (let new = new_rows rows irs; rows1 = add_rows new rows in
        if items \<noteq> [] \<and> new = [] then Inl (UnityError ''identities: a page repeated earlier pages'') else
        bind_res (if items = [] then Inr True else reached rows1 total) (\<lambda>stop.
          if \<not> stop then Inr (rows1, None) else
          bind_res (short_of rows1 total) (\<lambda>short.
            if short then Inl (UnityError ''identities: fewer rows than the total'')
            else Inr (rows1, Some (List.map snd rows1)))))))"

definition identities_params :: "nat \<Rightarrow> (string \<times> string) list" where
  "identities_params page = [(''page'', string_of_nat page), (''perpage'', string_of_nat PAGE_SIZE)]"

function identities_from :: "'h unity_env \<Rightarrow> nat \<Rightarrow> (string \<times> identity_row) list \<Rightarrow> ('h unity, identity_row list) comp" where
  "identities_from env page rows st =
     (if page > MAX_PAGES then (Inl (UnityError ''identities: still paging''), st)
      else case get_json env ''/identities.json'' (identities_params page) st of
          (Inl e, st1) \<Rightarrow> (Inl e, st1)
        | (Inr body, st1) \<Rightarrow>
            (case take_identities body rows of
               Inl e \<Rightarrow> (Inl e, st1)
             | Inr (rows1, Some out) \<Rightarrow> (Inr out, st1)
             | Inr (rows1, None) \<Rightarrow> identities_from env (Suc page) rows1 st1))"
  by pat_completeness auto

termination
  by (relation "measure (\<lambda>(env, page, rows, st). Suc MAX_PAGES - page)") auto

declare identities_from.simps [simp del]

definition identities_json :: "'h unity_env \<Rightarrow> ('h unity, identity_row list) comp" where
  "identities_json env = identities_from env 1 []"

definition identities_xml :: "'h unity_env \<Rightarrow> ('h unity, identity_row list) comp" where
  "identities_xml env =
     bind_comp (unity_request env (mk_request ''GET'' ''/identities.xml'' XML_IDENTITY_SEARCH
         [(''X-Requested-With'', ''XMLHttpRequest''), (''Accept'', ''*/*'')] NoBody)) (\<lambda>resp.
       pure_res (if rs_status resp \<noteq> 200 then Inl (UnityError ''GET /identities.xml: HTTP error'')
         else bind_res (xml_rows env (rs_text resp) ''identities'' ''identity'') (\<lambda>els.
              bind_res (map_res identity_row_of els) (\<lambda>rows. Inr (List.filter (\<lambda>r. ir_id r \<noteq> '''') rows)))))"

definition list_identities :: "'h unity_env \<Rightarrow> ('h unity, identity_row list) comp" where
  "list_identities env = json_then_xml ''identities'' (identities_json env) (identities_xml env)"

definition get_identity :: "'h unity_env \<Rightarrow> string \<Rightarrow> ('h unity, identity_row) comp" where
  "get_identity env iid =
     bind_comp (get_json env (''/identities/'' @ iid @ ''.json'') []) (\<lambda>body.
       pure_res (case (case body of JObj d \<Rightarrow> (case map_of d ''data'' of None \<Rightarrow> body | Some v \<Rightarrow> v) | _ \<Rightarrow> JNull) of
           JObj d \<Rightarrow> identity_row_of (JObj d)
         | _ \<Rightarrow> Inl (UnityError (''identity '' @ iid @ '': unexpected response shape''))))"

section \<open>Tokens\<close>

fun is_dict :: "json \<Rightarrow> bool" where
  "is_dict (JObj _) = True"
| "is_dict _ = False"

text \<open>The token items of a JSON answer: \<open>tokens\<close>, or \<open>data\<close>, or the list itself; one alone counts as a list.\<close>

definition token_items :: "json \<Rightarrow> json list option" where
  "token_items body =
     (case (case body of
              JObj d \<Rightarrow> (case map_of d ''tokens'' of Some v \<Rightarrow> v | None \<Rightarrow> jlookup d ''data'')
            | _ \<Rightarrow> body) of
        JObj d \<Rightarrow> Some [JObj d]
      | JArr xs \<Rightarrow> Some xs
      | _ \<Rightarrow> None)"

definition tokens_json :: "'h unity_env \<Rightarrow> string \<Rightarrow> ('h unity, token list) comp" where
  "tokens_json env iid =
     bind_comp (get_json env (''/identities/'' @ iid @ ''/tokens.json'') []) (\<lambda>body.
       pure_res (case token_items body of
           None \<Rightarrow> Inl (UnityError (''tokens for '' @ iid @ '': unexpected response shape''))
         | Some items \<Rightarrow> map_res (token_row iid) (List.filter is_dict items)))"

definition tokens_xml :: "'h unity_env \<Rightarrow> string \<Rightarrow> ('h unity, token list) comp" where
  "tokens_xml env iid =
     bind_comp (unity_request env (mk_request ''GET'' (''/identities/'' @ iid @ ''/tokens.xml'') []
         [(''Accept'', ''*/*'')] NoBody)) (\<lambda>resp.
       pure_res (if rs_status resp \<noteq> 200 then Inl (UnityError (''GET /identities/'' @ iid @ ''/tokens.xml: HTTP error''))
         else bind_res (xml_rows env (rs_text resp) ''tokens'' ''token'') (map_res (token_row iid))))"

definition list_tokens :: "'h unity_env \<Rightarrow> string \<Rightarrow> ('h unity, token list) comp" where
  "list_tokens env iid = json_then_xml ''tokens'' (tokens_json env iid) (tokens_xml env iid)"

section \<open>Writing a status\<close>

text \<open>The text a field of Unity's answer is sent back as.\<close>

definition form_text :: "(string \<times> json) list \<Rightarrow> string \<Rightarrow> string" where
  "form_text attrs k = (let v = jlookup attrs k in if v = JNull then '''' else jstr v)"

definition missing_fields :: "(string \<times> json) list \<Rightarrow> string list" where
  "missing_fields attrs = List.filter (\<lambda>f. map_of attrs f = None) (TOKEN_FORM_FIELDS @ TOKEN_FORM_DATES)"

text \<open>The form; the tick of \<open>utf8\<close> is kept as its three UTF-8 bytes, as it travels.\<close>

definition token_form :: "string \<Rightarrow> (string \<times> json) list \<Rightarrow> string \<Rightarrow> (string \<times> string) list" where
  "token_form csrf attrs status =
     [(''utf8'', [char_of (226 :: nat), char_of (156 :: nat), char_of (147 :: nat)]),
      (''_method'', ''put''), (''authenticity_token'', csrf), (''enrollVirdiAfter'', ''false'')]
     @ List.map (\<lambda>f. (''token['' @ f @ '']'', form_text attrs f)) TOKEN_FORM_FIELDS
     @ List.map (\<lambda>f. (f, form_text attrs f)) TOKEN_FORM_DATES
     @ [(''token[plasecTokenstatus]'', status)]"

definition token_path :: "token \<Rightarrow> string" where
  "token_path t = ''/identities/'' @ tk_identity t @ ''/tokens/'' @ tk_id t"

text \<open>The token a re-read shows under an id.\<close>

definition token_by_id :: "string \<Rightarrow> token list \<Rightarrow> token option" where
  "token_by_id i ts = List.find (\<lambda>t. tk_id t = i) ts"

definition set_token_status :: "'h unity_env \<Rightarrow> token \<Rightarrow> string \<Rightarrow> ('h unity, unit) comp" where
  "set_token_status env t status st =
     (if missing_fields (tk_fields t) \<noteq> []
      then (Inl (UnityError (''token '' @ tk_id t @ '': Unity did not return '' @ py_join '', '' (missing_fields (tk_fields t)))), st)
      else bind_comp (unity_request env (mk_request ''POST'' (token_path t) [] []
             (FormBody (token_form (csrf_token env st) (tk_fields t) status)))) (\<lambda>resp.
           if rs_status resp \<noteq> 302 then pure_res (Inl (UnityError (''POST '' @ token_path t @ '': HTTP error'')))
           else bind_comp (list_tokens env (tk_identity t)) (\<lambda>ts.
             pure_res (case token_by_id (tk_id t) ts of
                 None \<Rightarrow> Inl (UnityError (''token '' @ tk_id t @ '': gone after writing''))
               | Some after \<Rightarrow> if tk_status after = status then Inr ()
                   else Inl (UnityError (''token '' @ tk_id t @ '': status reads '' @ tk_status after))))) st)"

section \<open>Card formats\<close>

definition card_format_row :: "json \<Rightarrow> (string \<times> string \<times> string \<times> string) res" where
  "card_format_row raw = bind_res (unwrap raw) (\<lambda>(i, attrs).
     Inr (i, text_or_empty (jlookup attrs ''plasecName''), text_or_empty (jlookup attrs ''plaseccfmtFacilitycode''),
          text_or_empty (jlookup attrs ''plaseccfmtMaxdigits'')))"

definition list_card_formats :: "'h unity_env \<Rightarrow> ('h unity, (string \<times> string \<times> string \<times> string) list) comp" where
  "list_card_formats env =
     bind_comp (get_json env ''/card_formats.json'' []) (\<lambda>body.
       pure_res (case (case body of JObj d \<Rightarrow> (case map_of d ''data'' of None \<Rightarrow> body | Some v \<Rightarrow> v) | _ \<Rightarrow> body) of
           JArr items \<Rightarrow> map_res card_format_row items
         | _ \<Rightarrow> Inl (UnityError ''card formats: unexpected response shape'')))"

end
