(* ===== verification/Unity_Adapter.thy ===== *)
theory Unity_Adapter
  imports Hub_Time Unity_Reads Pacs_Contract
begin

section \<open>Dates\<close>

text \<open>
  The dates of \<open>lib/pacs/avigilon/adapter.py\<close>: \<open>datetime.fromisoformat\<close> first, then the five formats
  of \<open>_DATE_FORMATS\<close> with \<open>datetime.strptime\<close>, whose directives are matched as its regular expression
  does: regardless of case, the alternatives of a directive in their order, the first match of the whole pattern, and
  an error when text is left over.
\<close>

datatype directive = DYear | DMonth | DDay | DHour | DHour12 | DMinute | DSecond | DAmPm | DLit char | DSpace

text \<open>Two digits within bounds, then one digit within bounds.\<close>

definition two_digits :: "nat \<Rightarrow> nat \<Rightarrow> string \<Rightarrow> (nat \<times> string) list" where
  "two_digits lo hi s = (case s of
     a # b # r \<Rightarrow> (let n = 10 * digit_value a + digit_value b in
        if is_digit a \<and> is_digit b \<and> lo \<le> n \<and> n \<le> hi then [(n, r)] else [])
   | _ \<Rightarrow> [])"

definition one_digit :: "nat \<Rightarrow> string \<Rightarrow> (nat \<times> string) list" where
  "one_digit lo s = (case s of
     a # r \<Rightarrow> if is_digit a \<and> lo \<le> digit_value a then [(digit_value a, r)] else []
   | _ \<Rightarrow> [])"

definition four_digits :: "string \<Rightarrow> (nat \<times> string) list" where
  "four_digits s = (if length s \<ge> 4 \<and> list_all is_digit (take 4 s) then [(nat_of_digits (take 4 s), drop 4 s)] else [])"

text \<open>\<open>\s+\<close>: all the space first, then one less at a time.\<close>

definition space_alts :: "string \<Rightarrow> (nat \<times> string) list" where
  "space_alts s = (let n = length (takeWhile is_space s) in List.map (\<lambda>k. (0, drop k s)) (rev [1..<Suc n]))"

fun alternatives :: "directive \<Rightarrow> string \<Rightarrow> (nat \<times> string) list" where
  "alternatives DYear s = four_digits s"
| "alternatives DMonth s = two_digits 1 12 s @ one_digit 1 s"
| "alternatives DDay s = two_digits 1 31 s @ one_digit 1 s @ (if take 1 s = '' '' then one_digit 1 (drop 1 s) else [])"
| "alternatives DHour s = two_digits 0 23 s @ one_digit 0 s"
| "alternatives DHour12 s = two_digits 1 12 s @ one_digit 1 s"
| "alternatives DMinute s = two_digits 0 59 s @ one_digit 0 s"
| "alternatives DSecond s = two_digits 0 61 s @ one_digit 0 s"
| "alternatives DAmPm s = (if py_lower (take 2 s) = ''am'' then [(0, drop 2 s)]
     else if py_lower (take 2 s) = ''pm'' then [(1, drop 2 s)] else [])"
| "alternatives (DLit c) s = (if py_lower (take 1 s) = [lower_char c] then [(0, drop 1 s)] else [])"
| "alternatives DSpace s = space_alts s"

text \<open>The first match of a pattern: the values of its directives and the text left.\<close>

fun first_some :: "('x \<Rightarrow> 'y option) \<Rightarrow> 'x list \<Rightarrow> 'y option" where
  "first_some f [] = None"
| "first_some f (x # xs) = (case f x of None \<Rightarrow> first_some f xs | Some y \<Rightarrow> Some y)"

fun match_pattern :: "directive list \<Rightarrow> string \<Rightarrow> ((directive \<times> nat) list \<times> string) option" where
  "match_pattern [] s = Some ([], s)"
| "match_pattern (d # ds) s =
     first_some (\<lambda>(v, r). map_option (\<lambda>(vs, left). ((d, v) # vs, left)) (match_pattern ds r)) (alternatives d s)"

definition DATE_FORMATS :: "directive list list" where
  "DATE_FORMATS =
    [[DYear, DMonth, DDay, DHour, DMinute, DSecond, DLit (CHR ''Z'')],
     [DMonth, DLit (CHR ''/''), DDay, DLit (CHR ''/''), DYear, DSpace, DHour12, DLit (CHR '':''), DMinute, DSpace, DAmPm],
     [DMonth, DLit (CHR ''/''), DDay, DLit (CHR ''/''), DYear, DSpace, DHour, DLit (CHR '':''), DMinute, DLit (CHR '':''), DSecond],
     [DMonth, DLit (CHR ''/''), DDay, DLit (CHR ''/''), DYear, DSpace, DHour, DLit (CHR '':''), DMinute],
     [DMonth, DLit (CHR ''/''), DDay, DLit (CHR ''/''), DYear]]"

definition value_of :: "(directive \<times> nat) list \<Rightarrow> directive \<Rightarrow> nat" where
  "value_of vs d = (case map_of vs d of None \<Rightarrow> 0 | Some n \<Rightarrow> n)"

definition hour_of :: "(directive \<times> nat) list \<Rightarrow> nat" where
  "hour_of vs = (case map_of vs DHour12 of
     None \<Rightarrow> value_of vs DHour
   | Some h \<Rightarrow> if value_of vs DAmPm = 0 then (if h = 12 then 0 else h) else (if h = 12 then 12 else h + 12))"

text \<open>\<open>datetime.strptime\<close> as the microseconds of its fields, None for its ValueError.\<close>

definition strptime :: "directive list \<Rightarrow> string \<Rightarrow> int option" where
  "strptime fmt s =
     (case match_pattern fmt s of
        None \<Rightarrow> None
      | Some (vs, left) \<Rightarrow>
          (let y = int (value_of vs DYear); m = int (value_of vs DMonth); d = int (value_of vs DDay);
               sec = int (value_of vs DSecond)
           in if left = [] \<and> 1 \<le> y \<and> d \<le> days_in_month y m \<and> sec < 60
              then Some (days_of_civil y m d * 86400000000
                     + ((int (hour_of vs) * 60 + int (value_of vs DMinute)) * 60 + sec) * 1000000)
              else None))"

text \<open>
  \<open>parse_date\<close>: None for a blank, an instant with a zone, or the ValueError. \<open>utcoffset\<close> is the
  machine's offset in seconds at a local time given in microseconds.
\<close>

definition to_local :: "(int \<Rightarrow> int) \<Rightarrow> int \<Rightarrow> datetime" where
  "to_local utcoffset us = \<lparr>dt_us = us - utcoffset us * 1000000, dt_off = Some (utcoffset us)\<rparr>"

definition parse_date :: "(int \<Rightarrow> int) \<Rightarrow> string \<Rightarrow> exn + datetime option" where
  "parse_date utcoffset text0 =
     (let s = py_strip text0 in
      if s = '''' then Inr None
      else case parse_iso s of
          Some d \<Rightarrow> Inr (Some (if dt_off d = None then to_local utcoffset (dt_us d) else d))
        | None \<Rightarrow>
            (case first_some (\<lambda>f. strptime f s) DATE_FORMATS of
               None \<Rightarrow> Inl (PyError ''ValueError'' (''unrecognised Unity date '' @ s))
             | Some us \<Rightarrow> Inr (Some (to_local utcoffset us))))"

text \<open>A date that is read always has a zone.\<close>

lemma parse_date_zoned: "parse_date utcoffset s = Inr (Some d) \<Longrightarrow> dt_off d \<noteq> None"
  by (auto simp: parse_date_def Let_def to_local_def split: if_splits option.splits)

section \<open>The adapter\<close>

text \<open>
  \<open>lib/pacs/avigilon/adapter.py\<close>: all of a cycle's reads happen in \<open>list_people\<close>, which keeps the
  tokens it read (\<open>un_tokens\<close>) and who is held (\<open>un_held\<close>). \<open>list_credentials\<close> answers from those and
  raises for anyone who was not read.
\<close>

definition UNITY_TRIGGER :: string where
  "UNITY_TRIGGER = ''accessgrid''"

definition is_trigger :: "token \<Rightarrow> bool" where
  "is_trigger t \<longleftrightarrow> py_lower (py_strip (tk_embossed t)) = UNITY_TRIGGER"

fun token_status :: "string \<Rightarrow> cred_status" where
  "token_status s = (if s = ''1'' then ACTIVE else if s \<in> {''2'', ''3'', ''4''} then SUSPENDED else UNKNOWN)"

fun writable_status :: "cred_status \<Rightarrow> string option" where
  "writable_status ACTIVE = Some ''1''"
| "writable_status SUSPENDED = Some ''2''"
| "writable_status _ = None"

section \<open>The roster\<close>

definition row_active :: "identity_row \<Rightarrow> bool" where
  "row_active row \<longleftrightarrow> ir_status row \<notin> {''2'', ''3'', ''4''}"

definition tokens_of :: "'h unity \<Rightarrow> string \<Rightarrow> token list" where
  "tokens_of st pid = (case map_of (un_tokens st) pid of None \<Rightarrow> [] | Some ts \<Rightarrow> ts)"

text \<open>Read an active identity's tokens; a failed read leaves no entry.\<close>

definition read_tokens :: "'h unity_env \<Rightarrow> identity_row \<Rightarrow> ('h unity, unit) comp" where
  "read_tokens env row st =
     (if \<not> row_active row then (Inr (), st)
      else case list_tokens env (ir_id row) st of
          (Inl e, st1) \<Rightarrow> (if is_unity_error e then (Inr (), st1) else (Inl e, st1))
        | (Inr ts, st1) \<Rightarrow> (Inr (), st1\<lparr>un_tokens := AList.update (ir_id row) ts (un_tokens st1)\<rparr>))"

text \<open>The detail of an identity with a trigger token; without it the identity is held.\<close>

definition read_detail :: "'h unity_env \<Rightarrow> identity_row \<Rightarrow> ('h unity, identity_row) comp" where
  "read_detail env row st =
     (if \<not> list_ex is_trigger (tokens_of st (ir_id row)) then (Inr row, st)
      else case get_identity env (ir_id row) st of
          (Inl e, st1) \<Rightarrow> (if is_unity_error e then (Inr row, st1\<lparr>un_held := ir_id row # un_held st1\<rparr>) else (Inl e, st1))
        | (Inr detail, st1) \<Rightarrow> (Inr (detail\<lparr>ir_status := ir_status row\<rparr>), st1))"

definition unity_person :: "string \<Rightarrow> bool \<Rightarrow> identity_row \<Rightarrow> person" where
  "unity_person pid active row =
     \<lparr>pe_id = pid, pe_full_name = ir_full row, pe_first_name = ir_first row, pe_last_name = ir_last row,
      pe_email = ir_email row, pe_phone = (if ir_phone row \<noteq> '''' then ir_phone row else ir_work_phone row),
      pe_title = ir_title row, pe_department = ir_department row, pe_active = active\<rparr>"

definition unity_person_step :: "'h unity_env \<Rightarrow> identity_row \<Rightarrow> person list \<Rightarrow> ('h unity, person list) comp" where
  "unity_person_step env row out =
     bind_comp (read_tokens env row) (\<lambda>_.
     bind_comp (read_detail env row) (\<lambda>row1 st. (Inr (out @ [unity_person (ir_id row) (row_active row) row1]), st)))"

definition unity_list_people :: "'h unity_env \<Rightarrow> ('h unity, person list) comp" where
  "unity_list_people env =
     bind_comp (list_identities env) (\<lambda>rows st.
       for_each (unity_person_step env) rows [] (st\<lparr>un_tokens := [], un_held := []\<rparr>))"

section \<open>Credentials\<close>

text \<open>A date that cannot be read is None and holds the credential.\<close>

definition date_or_hold :: "'h unity_env \<Rightarrow> string \<Rightarrow> datetime option \<times> bool" where
  "date_or_hold env s = (case parse_date (ue_utcoffset env) s of Inl _ \<Rightarrow> (None, True) | Inr d \<Rightarrow> (d, False))"

definition unity_credential :: "'h unity_env \<Rightarrow> string list \<Rightarrow> string \<Rightarrow> token \<Rightarrow> credential" where
  "unity_credential env held pid t =
     (let (act, h1) = date_or_hold env (tk_activate t); (deact, h2) = date_or_hold env (tk_deactivate t)
      in (mk_credential (tk_id t) pid)\<lparr>cr_card_number := tk_internal t, cr_status := token_status (tk_status t),
           cr_activate_date := act, cr_deactivate_date := deact, cr_trigger_active := is_trigger t,
           cr_hold := (pid \<in> set held \<or> h1 \<or> h2 \<or> (is_trigger t \<and> tk_internal t = ''''))\<rparr>)"

definition unity_list_credentials :: "'h unity_env \<Rightarrow> string \<Rightarrow> ('h unity, credential list) comp" where
  "unity_list_credentials env pid st =
     (case map_of (un_tokens st) pid of
        None \<Rightarrow> (Inl (PacsRecordUnavailable (''Unity tokens for '' @ pid @ '' were not read this cycle'')), st)
      | Some ts \<Rightarrow> (Inr (List.map (unity_credential env (un_held st) pid) ts), st))"

section \<open>Writing a status\<close>

definition unity_update_steps :: "'h unity_env \<Rightarrow> string \<Rightarrow> string \<Rightarrow> string \<Rightarrow> ('h unity, bool) comp" where
  "unity_update_steps env pid cid wanted =
     bind_comp (list_tokens env pid) (\<lambda>ts.
       case token_by_id cid ts of
         None \<Rightarrow> pure_res (Inr False)
       | Some t \<Rightarrow> if tk_status t = wanted then pure_res (Inr True)
           else bind_comp (set_token_status env t wanted) (\<lambda>_. pure_res (Inr True)))"

definition unity_update_credential_status ::
    "'h unity_env \<Rightarrow> string \<Rightarrow> string \<Rightarrow> cred_status \<Rightarrow> ('h unity, bool) comp" where
  "unity_update_credential_status env pid cid status st =
     (case writable_status status of
        None \<Rightarrow> (Inr False, st)
      | Some wanted \<Rightarrow>
          (case unity_update_steps env pid cid wanted st of
             (Inl e, st1) \<Rightarrow> (if is_unity_error e then (Inr False, st1) else (Inl e, st1))
           | (Inr b, st1) \<Rightarrow> (Inr b, st1)))"

definition unity_api :: "'h unity_env \<Rightarrow> 'h unity pacs_api" where
  "unity_api env =
     \<lparr>pacs_declares_writeback = False, pacs_supports_status_writeback = (\<lambda>_. True), pacs_supports_credential_writeback = (\<lambda>_. False),
      pacs_supports_credential_retirement = (\<lambda>_. False), pacs_list_people = unity_list_people env,
      pacs_list_credentials = unity_list_credentials env,
      pacs_update_credential_status = unity_update_credential_status env,
      pacs_write_back_credentials = (\<lambda>_ _ _. pure_res (Inl (attribute_error ''write_back_credentials''))),
      pacs_retire_credentials = (\<lambda>_ _ _. pure_res (Inl (attribute_error ''retire_credentials''))),
      pacs_written_credentials = pure_res (Inl (attribute_error ''written_credentials'')),
      pacs_finish_cycle = None\<rparr>"

end
