(* ===== verification/Read_Contract.thy ===== *)
theory Read_Contract
  imports Phase3
begin

text \<open>
  The reading half of the adapter contract (\<open>PacsRecordUnavailable\<close> in \<open>lib/pacs/base.py\<close>): an
  adapter knows whom it has not read, says so by raising, and reading one cardholder does not
  change what it knows of another. The locale states it for the record of functions the engine is
  given; an adapter that interprets it inherits that nobody loses a pass over a read that failed.
\<close>

lemma fold_note_person_mem:
  "pp \<in> set (sn_people (fold note_person ps s)) \<Longrightarrow>
    pp \<in> set (sn_people s) \<or> (snd pp \<in> set ps \<and> fst pp = pe_id (snd pp))"
proof (induction ps arbitrary: s)
  case (Cons q qs)
  have "set (AList.update k v d) \<subseteq> insert (k, v) (set d)" for k :: string and v :: person and d
    by (induction d) auto
  then have "set (sn_people (note_person q s)) \<subseteq> insert (pe_id q, q) (set (sn_people s))"
    by (simp add: note_person_def)
  then show ?case using Cons.IH [of "note_person q s"] Cons.prems by auto
qed simp

lemma fold_note_person_keys:
  "map_of (sn_people (fold note_person ps s)) p \<noteq> None \<longleftrightarrow> map_of (sn_people s) p \<noteq> None \<or> (\<exists>q\<in>set ps. pe_id q = p)"
  by (induction ps arbitrary: s) (auto simp: note_person_def)

text \<open>The cardholders of a built snapshot are those the adapter listed.\<close>

lemma built_roster:
  assumes "build_snapshot ag api tpl w = (Inr snap, w')" and "pacs_list_people api (w_pacs w) = (Inr ps, s1)"
  shows "map_of (sn_people snap) p \<noteq> None \<longleftrightarrow> (\<exists>q\<in>set ps. pe_id q = p)"
proof -
  obtain w1 where "pacs_call PListPeople (pacs_list_people api) (w\<lparr>w_detail := []\<rparr>) = (Inr ps, w1)"
    using assms(2) by (simp add: pacs_call_def)
  with assms(1) obtain snap2 w2 where
    loop: "for_each (read_credentials api) (sn_people (fold note_person ps empty_snapshot)) (fold note_person ps empty_snapshot) w1
      = (Inr snap2, w2)"
    and people: "sn_people snap = sn_people snap2"
    by (auto simp: build_snapshot_def Let_def split: prod.splits sum.splits)
  have "sn_people snap2 = sn_people (fold note_person ps empty_snapshot)"
    by (rule for_each_invariant_acc [where P = "\<lambda>sn _. sn_people sn = sn_people (fold note_person ps empty_snapshot)", OF refl _ loop])
      (simp add: read_credentials_keeps)
  then show ?thesis by (simp add: people fold_note_person_keys empty_snapshot_def del: not_None_eq)
qed

locale honest_reader =
  fixes api :: "'p pacs_api"
    and unread :: "'p \<Rightarrow> string \<Rightarrow> bool"
  assumes unread_raises: "unread s p \<Longrightarrow> \<exists>m s'. pacs_list_credentials api p s = (Inl (PacsRecordUnavailable m), s')"
    and unread_frame: "unread (snd (pacs_list_credentials api q s)) p = unread s p"
begin

lemma call_frame:
  assumes "pacs_call c (pacs_list_credentials api q) w = (r, w')"
  shows "unread (w_pacs w') p = unread (w_pacs w) p"
  using assms unread_frame [of q "w_pacs w" p] by (auto simp: pacs_call_def split: prod.splits)

lemma read_frame:
  assumes "read_credentials api pp snap w = (Inr snap', w')"
  shows "unread (w_pacs w') p = unread (w_pacs w) p"
proof (cases "pe_active (snd pp)")
  case True
  obtain r v where call: "pacs_call (PListCredentials (fst pp)) (pacs_list_credentials api (fst pp)) w = (r, v)"
    by fastforce
  then have "w' = v" using assms True by (auto simp: read_credentials_def split: sum.splits)
  then show ?thesis using call_frame [OF call] by simp
next
  case False
  then show ?thesis using assms by (simp add: read_credentials_def)
qed

lemma read_one:
  assumes "read_credentials api pp snap w = (Inr snap', w')"
    and "unread (w_pacs w) p" and "fst pp = p \<Longrightarrow> pe_active (snd pp)"
  shows "map_of (sn_creds snap') p = map_of (sn_creds snap) p"
proof (cases "fst pp = p")
  case True
  obtain m s' where "pacs_list_credentials api p (w_pacs w) = (Inl (PacsRecordUnavailable m), s')"
    using unread_raises [OF assms(2)] by blast
  then show ?thesis using assms(1,3) True by (auto simp: read_credentials_def pacs_call_def)
next
  case False
  then show ?thesis using read_credentials_keys [OF assms(1), of p] by simp
qed

lemma read_all:
  assumes "for_each (read_credentials api) pps snap w = (Inr snap', w')"
    and "unread (w_pacs w) p" and active: "\<And>pp. pp \<in> set pps \<Longrightarrow> fst pp = p \<Longrightarrow> pe_active (snd pp)"
  shows "map_of (sn_creds snap') p = map_of (sn_creds snap) p"
proof -
  have "unread (w_pacs w') p \<and> map_of (sn_creds snap') p = map_of (sn_creds snap) p"
  proof (rule for_each_invariant_acc [where
        P = "\<lambda>sn v. unread (w_pacs v) p \<and> map_of (sn_creds sn) p = map_of (sn_creds snap) p", OF _ _ assms(1)])
    show "unread (w_pacs w) p \<and> map_of (sn_creds snap) p = map_of (sn_creds snap) p" using assms(2) by simp
    fix x a t a' t'
    assume x: "x \<in> set pps" and P: "unread (w_pacs t) p \<and> map_of (sn_creds a) p = map_of (sn_creds snap) p"
      and body: "read_credentials api x a t = (Inr a', t')"
    show "unread (w_pacs t') p \<and> map_of (sn_creds a') p = map_of (sn_creds snap) p"
      using P read_frame [OF body, of p] read_one [OF body conjunct1 [OF P] active [OF x]] by simp
  qed
  then show ?thesis by simp
qed

text \<open>The whole snapshot: whoever was unread when the roster had been read has no entry.\<close>

lemma snapshot_unread:
  assumes built: "build_snapshot ag api tpl w = (Inr snap, w')"
    and people: "pacs_list_people api (w_pacs w) = (Inr ps, s1)"
    and "unread s1 p" and active: "\<And>q. q \<in> set ps \<Longrightarrow> pe_id q = p \<Longrightarrow> pe_active q"
  shows "map_of (sn_creds snap) p = None"
proof -
  let ?snap = "fold note_person ps empty_snapshot"
  obtain w1 where call: "pacs_call PListPeople (pacs_list_people api) (w\<lparr>w_detail := []\<rparr>) = (Inr ps, w1)"
    and w1: "w_pacs w1 = s1"
    using people by (simp add: pacs_call_def)
  have roster: "pp \<in> set (sn_people ?snap) \<Longrightarrow> fst pp = p \<Longrightarrow> pe_active (snd pp)" for pp
    using active fold_note_person_mem [of pp ps empty_snapshot] by (auto simp: empty_snapshot_def)
  obtain snap2 w2 where loop: "for_each (read_credentials api) (sn_people ?snap) ?snap w1 = (Inr snap2, w2)"
    and creds: "sn_creds snap = sn_creds snap2"
    using built call by (auto simp: build_snapshot_def Let_def split: prod.splits sum.splits)
  have "map_of (sn_creds snap2) p = map_of (sn_creds ?snap) p"
    by (rule read_all [OF loop]) (use assms(3) w1 roster in auto)
  then show ?thesis by (simp add: creds empty_snapshot_def)
qed

text \<open>So phase 3 keeps every pass of theirs, once they are on the roster.\<close>

lemma snapshot_unread_kept:
  assumes "build_snapshot ag api tpl w = (Inr snap, w')"
    and "pacs_list_people api (w_pacs w) = (Inr ps, s1)"
    and "unread s1 p" and "\<And>q. q \<in> set ps \<Longrightarrow> pe_id q = p \<Longrightarrow> pe_active q"
    and "\<exists>q\<in>set ps. pe_id q = p" and "t_person_id t = p"
  shows "p3_verdict_of snap complete now n t = P3Keep"
proof -
  have "person_of snap p \<noteq> None" using built_roster [OF assms(1,2)] assms(5) by (auto simp: person_of_def)
  then show ?thesis using snapshot_unread [OF assms(1-4)] assms(6) by (simp add: p3_verdict_of_def Let_def)
qed

end

end
