(* ===== verification/Cloud_Laws.thy ===== *)
theory Cloud_Laws
  imports Alta_Adapter Phase3 Unity_Adapter Read_Contract
begin

section \<open>Alta\<close>

text \<open>
  What the Alta model does: reading the roster ends when the server's total is bounded, a page or a
  cardholder that could not be read is taken for the end or for nothing, and the first roster is
  asked for before the organization is known.
\<close>

section \<open>The page loop ends\<close>

text \<open>The server never declares more users than a bound.\<close>

definition declares_at_most :: "'h http \<Rightarrow> nat \<Rightarrow> bool" where
  "declares_at_most net n \<longleftrightarrow>
     (\<forall>rq h resp h' d v. http_send net rq h = (Inr resp, h') \<longrightarrow> rs_json resp = Some (JObj d) \<longrightarrow>
        map_of d ''totalCount'' = Some v \<longrightarrow> (\<exists>i. v = JInt i \<and> i \<le> int n))"

lemma alta_request_sent:
  assumes "alta_request net cfg mk st = (Inr resp, st')"
  shows "\<exists>rq h h'. http_send net rq h = (Inr resp, h')"
  using assms
  by (auto simp: alta_request_def Let_def bind_comp_def alta_send_def split: prod.splits sum.splits if_splits)

text \<open>A page that asks for another one added a user, and the declared total is not reached.\<close>

lemma take_page_again:
  assumes "take_page resp users = Inr (us, True)"
  obtains d v where "rs_json resp = Some (JObj d)" "map_of d ''totalCount'' = Some v"
    "int_ge (int (length us)) v = Inr False" "length users < length us"
proof -
  obtain body page where json: "rs_json resp = Some body"
    and us: "us = users @ page" and page: "page \<noteq> []"
    and total: "bind_res (jget_or ''totalCount'' (JInt (int (length us))) (jor body (JObj []))) (\<lambda>v.
      bind_res (int_ge (int (length us)) v) (\<lambda>ok. Inr (us, \<not> ok))) = Inr (us, True)"
    using assms
    by (auto simp: take_page_def response_json_def Let_def bind_res_Inr_iff split: if_splits option.splits)
  from total obtain d where d: "jor body (JObj []) = JObj d" by (cases "jor body (JObj [])") auto
  obtain v where v: "(case map_of d ''totalCount'' of None \<Rightarrow> JInt (int (length us)) | Some u \<Rightarrow> u) = v" by blast
  have low: "int_ge (int (length us)) v = Inr False"
    using total by (auto simp: d v bind_res_Inr_iff)
  have mem: "map_of d ''totalCount'' = Some v" using v low by (auto split: option.splits)
  then have "body = JObj d" using d by (auto simp: jor_def split: if_splits)
  then show thesis using that json mem low us page by simp
qed

lemma alta_pages_end:
  assumes net: "declares_at_most net n" and "0 < fuel" and "n < fuel + length users"
  shows "alta_pages net cfg fuel offset users st \<noteq> None"
  using assms(2,3)
proof (induction fuel arbitrary: offset users st)
  case 0
  then show ?case by simp
next
  case (Suc fuel)
  show ?case
  proof (cases "\<exists>resp st1 us. alta_request net cfg (users_request offset) st = (Inr resp, st1) \<and>
      take_page resp users = Inr (us, True)")
    case True
    then obtain resp st1 us where req: "alta_request net cfg (users_request offset) st = (Inr resp, st1)"
      and again: "take_page resp users = Inr (us, True)" by blast
    from take_page_again [OF again] obtain d v where json: "rs_json resp = Some (JObj d)"
      and v: "map_of d ''totalCount'' = Some v" "int_ge (int (length us)) v = Inr False"
      and more_users: "length users < length us" by blast
    obtain i where "v = JInt i" "i \<le> int n"
      using alta_request_sent [OF req] net json v(1) unfolding declares_at_most_def by blast
    then have "length us < n" using v(2) by simp
    then have "alta_pages net cfg fuel (offset + ALTA_PAGE_SIZE) us st1 \<noteq> None"
      using Suc.prems more_users by (intro Suc.IH) linarith+
    then show ?thesis by (simp add: req again)
  next
    case False
    then show ?thesis by (auto split: prod.split sum.split bool.split)
  qed
qed

section \<open>A read that failed\<close>

text \<open>A refused read of a cardholder's credentials returns none, and says nothing of it.\<close>

lemma refused_read_is_empty:
  assumes "alta_request net cfg (credentials_request pid) st = (Inr resp, st')" and "rs_status resp \<noteq> 200"
  shows "alta_list_credentials net cfg pid st = (Inr [], st')"
  using assms by (simp add: alta_list_credentials_def alta_client_credentials_def bind_comp_def pure_res_def
      take_credentials_def Let_def)

text \<open>Deleting is the first thing phase 3 asks of AccessGrid for a row it has given up.\<close>

lemma p3_delete_calls:
  "\<exists>r cs. w_calls (snd (p3_delete ag pacs now t [] n w)) = w_calls w @ (CDelete (card_ref t), r) # cs"
  by (auto simp: p3_delete_def p3_failed_def p3_retire_expired_def ag_call_keeps Let_def
      split: prod.split sum.split option.split)

lemma p3_row_deletes:
  assumes "p3_verdict_of snap complete now (snd n) t = P3CredentialGone"
  shows "CDelete (card_ref t) \<in> set (sent w (snd (p3_row ag pacs snap complete False now t n w)))"
proof -
  have none: "cred_of snap t = None"
    using assms by (auto simp: p3_verdict_of_def Let_def split: if_splits option.splits)
  then have "p3_expired_cards ag pacs snap now t w = ([], w)"
    by (auto simp: p3_expired_cards_def split: option.split)
  then have row: "p3_row ag pacs snap complete False now t n w = p3_delete ag pacs now t [] n w"
    using assms by (simp add: p3_row_def)
  show ?thesis using p3_delete_calls [of ag pacs now t n w] by (auto simp: row sent_def)
qed

section \<open>The first roster\<close>

text \<open>The path of a request is written before \<open>_request\<close> signs in.\<close>

lemma first_users_path: "rq_path (users_request 0 (alta_init h)) = ''/orgs/None/users''"
  by (simp add: users_request_def mk_request_def org_path_def alta_init_def)

definition refuses_no_org :: "'h http \<Rightarrow> bool" where
  "refuses_no_org net \<longleftrightarrow>
     (\<forall>rq g. rq_path rq = ''/orgs/None/users'' \<longrightarrow>
        (\<exists>resp g'. http_send net rq g = (Inr resp, g') \<and> rs_status resp \<notin> {200, 401}))"

lemma first_roster_empty:
  assumes auth: "ensure_authenticated net cfg (alta_init h) = (Inr (), st1)" and "refuses_no_org net"
  shows "\<exists>st'. alta_list_people net cfg (Suc fuel) (alta_init h) = (Inr [], st')"
proof -
  let ?rq = "users_request 0 (alta_init h)"
  let ?sent = "if map_of (rq_headers ?rq) ''authorization'' = None
    then set_header ''authorization'' (al_token st1) ?rq else ?rq"
  have "rq_path ?sent = ''/orgs/None/users''" by (simp add: first_users_path set_header_def)
  then obtain resp g where resp: "http_send net ?sent (al_net st1) = (Inr resp, g)" "rs_status resp \<notin> {200, 401}"
    using assms(2) unfolding refuses_no_org_def by blast
  then have "alta_request net cfg (users_request 0) (alta_init h) = (Inr resp, st1\<lparr>al_net := g\<rparr>)"
    by (simp add: alta_request_def Let_def bind_comp_def auth alta_send_def del: if_image_distrib)
  then show ?thesis using resp(2)
    by (simp add: alta_list_people_def list_users_def take_page_def bind_comp_def)
qed

section \<open>The connection test\<close>

text \<open>
  The test asks for one user of the organization only after the sign-in, so unlike the first roster
  it does not ask for the organization \<open>None\<close>.
\<close>

lemma probe_path:
  assumes "alta_login net cfg st = (Inr True, st1)"
  shows "alta_probe net cfg st =
    bind_comp (alta_request net cfg (\<lambda>_. alta_probe_request st1)) (\<lambda>resp. pure_res (Inr
      (if rs_status resp = 200 then (True, '''') else (False, ''Probe returned HTTP '' @ string_of_nat (rs_status resp))))) st1"
  using assms by (simp add: alta_probe_def bind_comp_def alta_request_def Let_def split: prod.split sum.split)

section \<open>Unity\<close>

text \<open>
  What the Unity model promises: the roster is whole or not returned, a status reported as
  written has been read back, and the adapter is an honest reader.
\<close>

section \<open>The contract\<close>

interpretation un: honest_reader "unity_api env" "\<lambda>st p. map_of (un_tokens st) p = None" for env
  by unfold_locales (auto simp: unity_api_def unity_list_credentials_def split: option.splits)

section \<open>What an answered request was\<close>

lemma sent_get:
  assumes "send_or_unity_error env rq st = (Inr resp, st')" and "rq_method rq = ''GET''"
  shows "\<exists>h h'. http_send (ue_net env) rq h = (Inr resp, h')"
  using assms by (auto simp: send_or_unity_error_def with_csrf_def unity_send_def split: prod.splits sum.splits)

lemma request_get:
  assumes "unity_request env rq st = (Inr resp, st')" and "rq_method rq = ''GET''"
  shows "\<exists>h h'. http_send (ue_net env) rq h = (Inr resp, h')"
  using assms sent_get [of env rq _ resp]
  by (auto simp: unity_request_def bind_comp_def split: prod.splits sum.splits if_splits)

lemma get_json_sent:
  assumes "get_json env path params st = (Inr body, st')"
  shows "\<exists>h h' resp. http_send (ue_net env) (mk_request ''GET'' path params [(''Accept'', ''application/json'')] NoBody) h
      = (Inr resp, h') \<and> rs_status resp = 200 \<and> rs_json resp = Some body"
proof -
  let ?rq = "mk_request ''GET'' path params [(''Accept'', ''application/json'')] NoBody"
  obtain resp st1 where req: "unity_request env ?rq st = (Inr resp, st1)" and "rs_status resp = 200" "rs_json resp = Some body"
    using assms by (auto simp: get_json_def bind_comp_def pure_res_def split: prod.splits sum.splits if_splits option.splits)
  moreover have "\<exists>h h'. http_send (ue_net env) ?rq h = (Inr resp, h')"
    by (rule request_get [OF req]) (simp add: mk_request_def)
  ultimately show ?thesis by blast
qed

section \<open>The roster\<close>

text \<open>
  What a Unity server is documented to answer: page \<open>p\<close> of the list is the \<open>p\<close>-th slice of a
  hundred, and the total, when it is given, is the size of the roster. Any page may fail instead,
  and the XML search, when it is answered with a document, carries the whole roster.
\<close>

definition page_body :: "json list \<Rightarrow> bool \<Rightarrow> nat \<Rightarrow> json" where
  "page_body roster declared p =
     JObj [(''data'', JArr (take PAGE_SIZE (drop (PAGE_SIZE * (p - 1)) roster))),
           (''meta'', JObj (if declared then [(''recordsTotal'', JInt (int (length roster)))] else []))]"

definition serves_pages :: "'h unity_env \<Rightarrow> json list \<Rightarrow> bool" where
  "serves_pages env roster \<longleftrightarrow>
     (\<forall>p h resp h'. http_send (ue_net env) (mk_request ''GET'' ''/identities.json'' (identities_params p)
          [(''Accept'', ''application/json'')] NoBody) h = (Inr resp, h') \<longrightarrow> rs_status resp = 200 \<longrightarrow>
        rs_json resp \<in> {None, Some (page_body roster True p), Some (page_body roster False p)})"

lemma map_res_slice:
  "map_res f xs = Inr ys \<Longrightarrow> map_res f (take n (drop m xs)) = Inr (take n (drop m ys))"
  by (simp add: map_res_Inr list_all2_takeI list_all2_dropI)

lemma map_res_length: "map_res f xs = Inr ys \<Longrightarrow> length ys = length xs"
  by (auto simp: map_res_Inr dest: list_all2_lengthD)

definition keyed :: "identity_row list \<Rightarrow> (string \<times> identity_row) list" where
  "keyed rs = List.map (\<lambda>r. (ir_id r, r)) rs"

lemma keyed_simps [simp]: "List.map snd (keyed rs) = rs" "length (keyed rs) = length rs" "keyed [] = []"
  by (simp_all add: keyed_def comp_def)

lemma take_slice: "take n xs @ take m (drop n xs) = take (n + m) xs"
  by (simp add: take_add)

text \<open>The rows of the next slice are all new, and extend the roster in its order.\<close>

lemma next_slice:
  assumes "distinct (List.map ir_id irs)" and "'''' \<notin> ir_id ` set irs"
  shows "new_rows (keyed (take n irs)) (take m (drop n irs)) = take m (drop n irs)"
    and "add_rows (take m (drop n irs)) (keyed (take n irs)) = keyed (take (n + m) irs)"
proof -
  have cut: "irs = take n irs @ take m (drop n irs) @ drop m (drop n irs)"
    by (metis append_take_drop_id)
  have disj: "ir_id ` set (take n irs) \<inter> ir_id ` set (take m (drop n irs)) = {}"
    and dist: "distinct (List.map ir_id (take m (drop n irs)))"
    using assms(1) by (subst (asm) cut, auto)+
  have fresh: "r \<in> set (take m (drop n irs)) \<Longrightarrow> ir_id r \<noteq> '''' \<and> map_of (keyed (take n irs)) (ir_id r) = None" for r
    using assms(2) disj in_set_dropD [of r n irs] in_set_takeD [of r m "drop n irs"]
    by (fastforce simp: keyed_def map_of_eq_None_iff image_iff)
  show "new_rows (keyed (take n irs)) (take m (drop n irs)) = take m (drop n irs)"
    using fresh by (simp add: new_rows_def filter_id_conv)
  have "fst ` set (keyed (take n irs)) \<inter> ir_id ` set (take m (drop n irs)) = {}"
    using disj by (auto simp: keyed_def)
  from fold_update_new [OF this dist, of "\<lambda>r. r"]
  show "add_rows (take m (drop n irs)) (keyed (take n irs)) = keyed (take (n + m) irs)"
    by (simp add: add_rows_def keyed_def flip: map_append take_slice)
qed


lemma take_identities_eq:
  assumes "page_of_body body = Inr (items, n_total)" and "map_res identity_row_of items = Inr irs"
    and "new_rows rows irs = new" and "add_rows new rows = rows1" and "items \<noteq> [] \<Longrightarrow> new \<noteq> []"
  shows "take_identities body rows =
    bind_res (if items = [] then Inr True else reached rows1 n_total) (\<lambda>stop.
      if \<not> stop then Inr (rows1, None) else
      bind_res (short_of rows1 n_total) (\<lambda>short.
        if short then Inl (UnityError ''identities: fewer rows than the total'')
        else Inr (rows1, Some (List.map snd rows1))))"
  using assms by (auto simp: take_identities_def Let_def)

text \<open>One honest page extends what has been read to the next multiple of a hundred; the last one ends it.\<close>

lemma honest_page:
  assumes rows: "map_res identity_row_of roster = Inr irs" and ids: "distinct (List.map ir_id irs)" "'''' \<notin> ir_id ` set irs"
    and page: "1 \<le> p"
    and taken: "take_identities (page_body roster declared p) (keyed (take (PAGE_SIZE * (p - 1)) irs)) = Inr (rows1, res)"
  shows "rows1 = keyed (take (PAGE_SIZE * p) irs) \<and> (\<forall>out. res = Some out \<longrightarrow> out = irs)"
proof -
  let ?m = "PAGE_SIZE * (p - 1)"
  let ?items = "take PAGE_SIZE (drop ?m roster)" and ?new = "take PAGE_SIZE (drop ?m irs)"
  let ?total = "if declared then JInt (int (length roster)) else JNull"
  have size: "length irs = length roster" by (rule map_res_length [OF rows])
  have mult: "?m + PAGE_SIZE = PAGE_SIZE * p" using page by (cases p) simp_all
  have body: "page_of_body (page_body roster declared p) = Inr (?items, ?total)"
    by (simp add: page_of_body_def page_body_def jlookup_def oget_def jor_def)
  note slice = next_slice [OF ids, where n = ?m and m = PAGE_SIZE]
  have added: "add_rows ?new (keyed (take ?m irs)) = keyed (take (PAGE_SIZE * p) irs)"
    by (subst slice(2)) (simp only: mult)
  have some: "?items \<noteq> [] \<Longrightarrow> ?new \<noteq> []" using size by auto
  note run = trans [OF take_identities_eq [OF body map_res_slice [OF rows] slice(1) added some, symmetric] taken]
  have all: "take (PAGE_SIZE * p) irs = irs" if "?items = []"
    using that size mult by (auto simp: PAGE_SIZE_def)
  show ?thesis
    using run all size by (auto simp: reached_def short_of_def split: if_splits)
qed

lemma honest_pages:
  assumes rows: "map_res identity_row_of roster = Inr irs" and ids: "distinct (List.map ir_id irs)" "'''' \<notin> ir_id ` set irs"
    and serves: "serves_pages env roster"
    and "1 \<le> p" and "identities_from env p (keyed (take (PAGE_SIZE * (p - 1)) irs)) st = (Inr out, st')"
  shows "out = irs"
  using assms(5,6)
proof (induction "Suc MAX_PAGES - p" arbitrary: p st rule: less_induct)
  case less
  let ?known = "keyed (take (PAGE_SIZE * (p - 1)) irs)"
  from less.prems(2) obtain body st1 where small: "\<not> p > MAX_PAGES"
    and read: "get_json env ''/identities.json'' (identities_params p) st = (Inr body, st1)"
    by (subst (asm) identities_from.simps) (auto split: if_splits prod.splits sum.splits)
  obtain declared where body: "body = page_body roster declared p"
    using get_json_sent [OF read] serves unfolding serves_pages_def by fastforce
  from less.prems(2) obtain rows1 res where taken: "take_identities body ?known = Inr (rows1, res)"
    and rest: "case res of Some o' \<Rightarrow> o' = out | None \<Rightarrow> identities_from env (Suc p) rows1 st1 = (Inr out, st')"
    using small read by (subst (asm) identities_from.simps) (auto split: sum.splits prod.splits option.splits)
  note page = honest_page [OF rows ids less.prems(1) taken [unfolded body]]
  show ?case
  proof (cases res)
    case None
    then have "identities_from env (Suc p) (keyed (take (PAGE_SIZE * (Suc p - 1)) irs)) st1 = (Inr out, st')"
      using rest page by simp
    with less.hyps [of "Suc p" st1] small show ?thesis by simp
  next
    case (Some o')
    then show ?thesis using rest page by simp
  qed
qed

text \<open>The XML search, when it is answered.\<close>

definition serves_document :: "'h unity_env \<Rightarrow> identity_row list \<Rightarrow> bool" where
  "serves_document env irs \<longleftrightarrow>
     (\<forall>h resp h'. http_send (ue_net env) (mk_request ''GET'' ''/identities.xml'' XML_IDENTITY_SEARCH
          [(''X-Requested-With'', ''XMLHttpRequest''), (''Accept'', ''*/*'')] NoBody) h = (Inr resp, h') \<longrightarrow> rs_status resp = 200 \<longrightarrow>
        (case ue_xml env (rs_text resp) of
           None \<Rightarrow> True
         | Some doc \<Rightarrow> xml_tag doc = ''identities'' \<and>
             map_res identity_row_of (List.map flat_row (List.filter (\<lambda>c. xml_tag c = ''identity'') (xml_children doc))) = Inr irs))"

lemma honest_document:
  assumes "identities_xml env st = (Inr out, st')" and "serves_document env irs" and "'''' \<notin> ir_id ` set irs"
  shows "out = irs"
proof -
  let ?rq = "mk_request ''GET'' ''/identities.xml'' XML_IDENTITY_SEARCH
      [(''X-Requested-With'', ''XMLHttpRequest''), (''Accept'', ''*/*'')] NoBody"
  from assms(1) obtain resp st1 els rows where req: "unity_request env ?rq st = (Inr resp, st1)"
    and ok: "rs_status resp = 200" and els: "xml_rows env (rs_text resp) ''identities'' ''identity'' = Inr els"
    and rows: "map_res identity_row_of els = Inr rows" and out: "out = List.filter (\<lambda>r. ir_id r \<noteq> '''') rows"
    by (auto simp: identities_xml_def bind_comp_def pure_res_def bind_res_Inr_iff
        split: prod.splits sum.splits if_splits)
  obtain h h' where sent: "http_send (ue_net env) ?rq h = (Inr resp, h')"
    using request_get [OF req] by (auto simp: mk_request_def)
  obtain doc where doc: "ue_xml env (rs_text resp) = Some doc"
    using els by (auto simp: xml_rows_def split: option.splits)
  have whole: "xml_tag doc = ''identities''"
    "map_res identity_row_of (List.map flat_row (List.filter (\<lambda>c. xml_tag c = ''identity'') (xml_children doc))) = Inr irs"
    using assms(2) sent ok doc unfolding serves_document_def by force+
  have "els = List.map flat_row (List.filter (\<lambda>c. xml_tag c = ''identity'') (xml_children doc))"
    using els doc whole(1) by (auto simp: xml_rows_def)
  then have "rows = irs" using rows whole(2) by simp
  moreover have "r \<in> set irs \<Longrightarrow> ir_id r \<noteq> ''''" for r using assms(3) by force
  ultimately show ?thesis by (simp add: out filter_id_conv)
qed

text \<open>The fallback returns what one of the two ways returned.\<close>

lemma json_then_xml_from:
  assumes "json_then_xml what a b st = (Inr v, st')"
  shows "\<exists>s1 s2. a s1 = (Inr v, s2) \<or> b s1 = (Inr v, s2)"
  using assms by (auto simp: json_then_xml_def Let_def split: prod.splits sum.splits if_splits)

section \<open>A status reported as written has been read back\<close>

lemma token_row_identity: "token_row iid raw = Inr t \<Longrightarrow> tk_identity t = iid"
  by (cases "jor (jlookup (snd (projr (unwrap raw))) ''extended_attributes'') (JObj [])")
    (auto simp: token_row_def bind_res_Inr_iff Let_def)

lemma map_res_identity: "map_res (token_row iid) xs = Inr ts \<Longrightarrow> t \<in> set ts \<Longrightarrow> tk_identity t = iid"
  by (auto simp: map_res_Inr list_all2_conv_all_nth in_set_conv_nth dest: token_row_identity)

lemma tokens_json_rows: "tokens_json env iid st = (Inr ts, st') \<Longrightarrow> \<exists>xs. map_res (token_row iid) xs = Inr ts"
  by (auto simp: tokens_json_def bind_comp_def pure_res_def split: prod.splits sum.splits option.splits)

lemma tokens_xml_rows: "tokens_xml env iid st = (Inr ts, st') \<Longrightarrow> \<exists>xs. map_res (token_row iid) xs = Inr ts"
  by (auto simp: tokens_xml_def bind_comp_def pure_res_def bind_res_Inr_iff split: prod.splits sum.splits if_splits)

lemma list_tokens_identity:
  assumes "list_tokens env iid st = (Inr ts, st')" and "t \<in> set ts"
  shows "tk_identity t = iid"
proof -
  obtain s1 s2 where "tokens_json env iid s1 = (Inr ts, s2) \<or> tokens_xml env iid s1 = (Inr ts, s2)"
    using json_then_xml_from [OF assms(1) [unfolded list_tokens_def]] by blast
  then have "\<exists>xs. map_res (token_row iid) xs = Inr ts"
    using tokens_json_rows tokens_xml_rows by blast
  then show ?thesis using assms(2) map_res_identity by blast
qed

lemma set_status_confirmed:
  assumes "set_token_status env t status st = (Inr (), st')"
  shows "\<exists>s1 ts a. list_tokens env (tk_identity t) s1 = (Inr ts, st') \<and> token_by_id (tk_id t) ts = Some a \<and> tk_status a = status"
  using assms
  by (auto simp: set_token_status_def bind_comp_def pure_res_def
      split: prod.splits sum.splits option.splits if_splits)

lemma update_confirmed:
  assumes "unity_update_credential_status env pid cid status st = (Inr True, st')"
  obtains wanted s1 ts a where "writable_status status = Some wanted"
    "list_tokens env pid s1 = (Inr ts, st')" "token_by_id cid ts = Some a" "tk_status a = wanted"
proof -
  obtain wanted where wanted: "writable_status status = Some wanted"
    and steps: "unity_update_steps env pid cid wanted st = (Inr True, st')"
    using assms by (auto simp: unity_update_credential_status_def split: option.splits prod.splits sum.splits if_splits)
  obtain ts s1 where read: "list_tokens env pid st = (Inr ts, s1)"
    and rest: "(case token_by_id cid ts of
         None \<Rightarrow> pure_res (Inr False)
       | Some t \<Rightarrow> if tk_status t = wanted then pure_res (Inr True)
           else bind_comp (set_token_status env t wanted) (\<lambda>_. pure_res (Inr True))) s1 = (Inr True, st')"
    using steps by (auto simp: unity_update_steps_def bind_comp_def split: prod.splits sum.splits)
  obtain t where t: "token_by_id cid ts = Some t" using rest by (cases "token_by_id cid ts") (auto simp: pure_res_def)
  have "tk_id t = cid" "t \<in> set ts" using t by (auto simp: token_by_id_def dest: find_SomeD)
  moreover have "tk_identity t = pid" using list_tokens_identity [OF read \<open>t \<in> set ts\<close>] .
  ultimately have ids: "tk_id t = cid" "tk_identity t = pid" by simp_all
  show thesis
  proof (cases "tk_status t = wanted")
    case True
    then have "s1 = st'" using rest t by (simp add: pure_res_def)
    then show thesis using that [OF wanted] read t True by blast
  next
    case False
    then have "set_token_status env t wanted s1 = (Inr (), st')"
      using rest t by (auto simp: bind_comp_def pure_res_def split: prod.splits sum.splits)
    then show thesis using that [OF wanted] set_status_confirmed [of env t wanted s1 st'] ids by blast
  qed
qed

text \<open>The form sends back, under its own name, every field that Unity returned.\<close>

lemma map_of_named: "distinct (List.map g fs) \<Longrightarrow> f \<in> set fs \<Longrightarrow> map_of (List.map (\<lambda>f. (g f, h f)) fs) (g f) = Some (h f)"
  by (induction fs) (auto, metis imageI)

lemma form_echoes:
  assumes "f \<in> set TOKEN_FORM_FIELDS"
  shows "map_of (token_form csrf attrs status) (''token['' @ f @ '']'') = Some (form_text attrs f)"
proof -
  have "distinct (List.map (\<lambda>f. ''token['' @ f @ '']'') TOKEN_FORM_FIELDS)"
    by (simp add: TOKEN_FORM_FIELDS_def)
  from map_of_named [OF this assms, of "form_text attrs"] show ?thesis
    by (simp add: token_form_def map_add_def)
qed

lemma form_status: "map_of (token_form csrf attrs status) ''token[plasecTokenstatus]'' = Some status"
  by (simp add: token_form_def TOKEN_FORM_FIELDS_def TOKEN_FORM_DATES_def map_add_def)

end
