(* ===== verification/Cdvi_Wire.thy ===== *)
theory Cdvi_Wire
  imports Json_Data "HOL-Library.Word"
begin

text \<open>
  The wire format of \<open>lib/pacs/cdvi/client.py\<close>: RC4 under the session id, the 16-bit checksum, and
  the body \<open>post_enc=..&post_chk=..\<close>. Bytes are \<open>8 word\<close>, so the sums of the key schedule wrap as
  the code's \<open>% 256\<close> does. Decrypted text is a list of code points, because decoding UTF-8 leaves
  the range of \<open>char\<close>. The key is never empty: both callers return first when there is no session.
\<close>

unbundle bit_operations_syntax

type_synonym byte = "8 word"

section \<open>RC4\<close>

definition swap_at :: "byte \<Rightarrow> byte \<Rightarrow> byte list \<Rightarrow> byte list" where
  "swap_at i j s = s[unat i := s ! unat j, unat j := s ! unat i]"

definition byte_of :: "char \<Rightarrow> byte" where
  "byte_of c = of_nat (of_char c)"

text \<open>One round of the key schedule.\<close>

definition ksa_step :: "byte list \<Rightarrow> nat \<Rightarrow> byte list \<times> byte \<Rightarrow> byte list \<times> byte" where
  "ksa_step key i sj = (case sj of (s, j) \<Rightarrow>
     (let j' = j + s ! i + key ! (i mod length key) in (swap_at (of_nat i) j' s, j')))"

definition rc4_setup :: "string \<Rightarrow> byte list" where
  "rc4_setup key = fst (fold (ksa_step (List.map byte_of key)) [0..<256] (List.map of_nat [0..<256], 0))"

text \<open>One byte of the key stream, and the state after it.\<close>

definition rc4_step :: "byte list \<times> byte \<times> byte \<Rightarrow> byte \<times> (byte list \<times> byte \<times> byte)" where
  "rc4_step st = (case st of (s, i, j) \<Rightarrow>
     (let i' = i + 1; j' = j + s ! unat i'; s' = swap_at i' j' s
      in (s' ! unat (s' ! unat i' + s' ! unat j'), (s', i', j'))))"

fun rc4_stream :: "byte list \<times> byte \<times> byte \<Rightarrow> byte list \<Rightarrow> byte list" where
  "rc4_stream st [] = []"
| "rc4_stream st (b # bs) = (case rc4_step st of (k, st') \<Rightarrow> (b XOR k) # rc4_stream st' bs)"

definition rc4_bytes :: "string \<Rightarrow> byte list \<Rightarrow> byte list" where
  "rc4_bytes key bs = rc4_stream (rc4_setup key, 0, 0) bs"

section \<open>Hexadecimal\<close>

definition upper_hex :: "nat \<Rightarrow> char" where
  "upper_hex n = (if n < 10 then char_of (48 + n) else char_of (55 + n))"

definition hex2 :: "byte \<Rightarrow> string" where
  "hex2 b = [upper_hex (unat b div 16), upper_hex (unat b mod 16)]"

definition hex4 :: "16 word \<Rightarrow> string" where
  "hex4 w = (let n = unat w in
     [upper_hex (n div 4096), upper_hex (n div 256 mod 16), upper_hex (n div 16 mod 16), upper_hex (n mod 16)])"

definition hex_value :: "char \<Rightarrow> nat option" where
  "hex_value c = (let n = (of_char c :: nat) in
     if 48 \<le> n \<and> n \<le> 57 then Some (n - 48)
     else if 65 \<le> n \<and> n \<le> 70 then Some (n - 55)
     else if 97 \<le> n \<and> n \<le> 102 then Some (n - 87) else None)"

definition is_hex :: "char \<Rightarrow> bool" where
  "is_hex c \<longleftrightarrow> hex_value c \<noteq> None"

definition nat_of_hex :: "string \<Rightarrow> nat" where
  "nat_of_hex s = foldl (\<lambda>n c. 16 * n + (case hex_value c of None \<Rightarrow> 0 | Some v \<Rightarrow> v)) 0 s"

text \<open>\<open>int(s, 16)\<close>: space around, one sign, an optional \<open>0x\<close>, digits with single underscores between.\<close>

definition hex_body :: "string \<Rightarrow> string" where
  "hex_body s = (if take 2 s \<in> {''0x'', ''0X''}
     then (if take 1 (drop 2 s) = ''_'' then drop 3 s else drop 2 s) else s)"

definition parse_hex :: "string \<Rightarrow> int option" where
  "parse_hex s = (case take_sign (py_strip s) of (sg, r) \<Rightarrow>
     (let ds = hex_body r in
      if digits_with_underscores is_hex ds
      then Some (sg * int (nat_of_hex (List.filter (\<lambda>c. c \<noteq> CHR ''_'') ds))) else None))"

definition value_error :: exn where
  "value_error = PyError ''ValueError'' ''invalid literal for int() with base 16''"

text \<open>The bytes of a hex text, two characters at a time; a last odd one is not read.\<close>

fun unhex :: "string \<Rightarrow> byte list res" where
  "unhex (a # b # r) = (case parse_hex [a, b] of
     Some v \<Rightarrow> if 0 \<le> v then bind_res (unhex r) (\<lambda>bs. Inr (word_of_int v # bs)) else Inl value_error
   | None \<Rightarrow> Inl value_error)"
| "unhex _ = Inr []"

section \<open>UTF-8, decoded leniently\<close>

text \<open>A lead byte: how many bytes follow, the range of the first of them, and its own bits.\<close>

definition utf8_lead :: "nat \<Rightarrow> (nat \<times> nat \<times> nat \<times> nat) option" where
  "utf8_lead b =
     (if 194 \<le> b \<and> b \<le> 223 then Some (1, 128, 191, b - 192)
      else if b = 224 then Some (2, 160, 191, 0)
      else if b = 237 then Some (2, 128, 159, 13)
      else if 225 \<le> b \<and> b \<le> 239 then Some (2, 128, 191, b - 224)
      else if b = 240 then Some (3, 144, 191, 0)
      else if 241 \<le> b \<and> b \<le> 243 then Some (3, 128, 191, b - 240)
      else if b = 244 then Some (3, 128, 143, 4)
      else None)"

text \<open>How many of the bytes that should follow are there.\<close>

definition follow_count :: "nat \<Rightarrow> nat \<Rightarrow> nat \<Rightarrow> nat list \<Rightarrow> nat" where
  "follow_count n lo hi bs = (case bs of
     [] \<Rightarrow> 0
   | c # r \<Rightarrow> if lo \<le> c \<and> c \<le> hi then Suc (length (takeWhile (\<lambda>x. 128 \<le> x \<and> x \<le> 191) (take (n - 1) r))) else 0)"

function utf8_decode :: "nat list \<Rightarrow> nat list" where
  "utf8_decode [] = []"
| "utf8_decode (b # bs) =
     (if b < 128 then b # utf8_decode bs
      else case utf8_lead b of
          None \<Rightarrow> 65533 # utf8_decode bs
        | Some (n, lo, hi, bits) \<Rightarrow>
            (let k = follow_count n lo hi bs in
             if k = n then foldl (\<lambda>v c. 64 * v + (c - 128)) bits (take n bs) # utf8_decode (drop n bs)
             else 65533 # utf8_decode (drop k bs)))"
  by pat_completeness auto

termination
  by (relation "measure length") auto

definition rc4_decrypt :: "string \<Rightarrow> string \<Rightarrow> nat list res" where
  "rc4_decrypt key hex = bind_res (unhex hex) (\<lambda>bs. Inr (utf8_decode (List.map unat (rc4_bytes key bs))))"

definition rc4_encrypt :: "string \<Rightarrow> string \<Rightarrow> string" where
  "rc4_encrypt key txt = concat (List.map hex2 (rc4_bytes key (List.map byte_of txt)))"

section \<open>Checksum and payload\<close>

definition code_points :: "string \<Rightarrow> nat list" where
  "code_points s = List.map of_char s"

text \<open>\<open>text.encode("latin-1")\<close> refuses a code point past 255.\<close>

definition post_chk_calc :: "nat list \<Rightarrow> string res" where
  "post_chk_calc cps = (if list_all (\<lambda>c. c < 256) cps then Inr (hex4 (of_nat (sum_list cps)))
     else Inl (PyError ''UnicodeEncodeError'' ''latin-1''))"

definition POST_ENC :: string where "POST_ENC = ''post_enc=''"
definition POST_CHK :: string where "POST_CHK = ''&post_chk=''"

definition encrypt_payload :: "string option \<Rightarrow> string \<Rightarrow> string option" where
  "encrypt_payload session payload =
     (case session of
        None \<Rightarrow> None
      | Some key \<Rightarrow> if key = '''' then None
          else (case post_chk_calc (code_points payload) of
                  Inl _ \<Rightarrow> None
                | Inr chk \<Rightarrow> Some (POST_ENC @ rc4_encrypt key payload @ POST_CHK @ chk)))"

text \<open>
  \<open>decrypt_payload\<close>: plain text passes through; a wrong or unreadable checksum is None; what
  \<open>rc4_decrypt\<close> and \<open>post_chk_calc\<close> raise passes through.
\<close>

definition decrypt_payload :: "string option \<Rightarrow> string \<Rightarrow> nat list option res" where
  "decrypt_payload session body =
     (case split_once POST_ENC body of
        None \<Rightarrow> Inr (Some (code_points body))
      | Some (_, enc) \<Rightarrow>
          (case split_once POST_CHK enc of
             None \<Rightarrow> Inr None
           | Some (encrypted, chk_post) \<Rightarrow>
               (case session of
                  None \<Rightarrow> Inr None
                | Some key \<Rightarrow>
                    if key = '''' \<or> chk_post = '''' then Inr None else
                    bind_res (rc4_decrypt key encrypted) (\<lambda>decrypted.
                    bind_res (post_chk_calc decrypted) (\<lambda>chk_calc.
                      Inr (if parse_hex chk_post \<noteq> None \<and> parse_hex chk_post = parse_hex chk_calc
                           then Some decrypted else None))))))"

section \<open>What the wire format guarantees\<close>

text \<open>
  What the wire format of CDVI guarantees and what it does not: a payload of ASCII text is read back
  as it was sent, whoever sent it; a page with an accented letter, sent as UTF-8 with a checksum
  over its bytes, is refused, because the reader sums the decoded letters instead.
\<close>

section \<open>The cipher is its own inverse\<close>

lemma rc4_stream_length [simp]: "length (rc4_stream st bs) = length bs"
  by (induction bs arbitrary: st) (auto split: prod.split)

lemma rc4_stream_involutive: "rc4_stream st (rc4_stream st bs) = bs"
  by (induction bs arbitrary: st) (auto split: prod.split simp: xor.assoc)

lemma rc4_bytes_involutive [simp]: "rc4_bytes key (rc4_bytes key bs) = bs"
  by (simp add: rc4_bytes_def rc4_stream_involutive)

text \<open>The key schedule permutes the 256 bytes: each value stays in the box exactly once.\<close>

lemma swap_at_props [simp]: "length (swap_at i j s) = length s"
  by (simp add: swap_at_def)

lemma swap_at_mset:
  assumes "unat i < length s" and "unat j < length s"
  shows "set (swap_at i j s) = set s" "distinct (swap_at i j s) = distinct s"
  using set_swap [OF assms] distinct_swap [OF assms] by (simp_all add: swap_at_def)

definition sbox_ok :: "byte list \<Rightarrow> bool" where
  "sbox_ok s \<longleftrightarrow> length s = 256 \<and> distinct s"

lemma unat_byte: "unat (b :: byte) < 256"
  using unsigned_less [of b, where 'a = nat] by simp

lemma sbox_ok_swap: "sbox_ok s \<Longrightarrow> sbox_ok (swap_at i j s)"
  using swap_at_mset(2) [of i s j] unat_byte [of i] unat_byte [of j] by (simp add: sbox_ok_def)

lemma sbox_ok_initial: "sbox_ok (List.map of_nat [0..<256])"
proof -
  have "inj_on (of_nat :: nat \<Rightarrow> byte) {0..<256}"
    by (rule inj_onI) (auto simp: unsigned_of_nat word_of_nat_eq_iff take_bit_nat_eq_self)
  then show ?thesis by (simp add: sbox_ok_def distinct_map)
qed

lemma sbox_ok_setup: "sbox_ok (rc4_setup key)"
proof -
  have "sbox_ok (fst sj) \<Longrightarrow> sbox_ok (fst (fold (ksa_step k) is sj))" for k "is" sj
    by (induction "is" arbitrary: sj) (auto simp: ksa_step_def Let_def sbox_ok_swap split: prod.split)
  then show ?thesis using sbox_ok_initial by (simp add: rc4_setup_def)
qed

section \<open>Hexadecimal\<close>

lemma of_char_upper_hex: "n < 16 \<Longrightarrow> of_char (upper_hex n) = (if n < 10 then 48 + n else 55 + n)"
  by (simp add: upper_hex_def)

lemma upper_hex_facts:
  assumes "n < 16"
  shows "hex_value (upper_hex n) = Some n" "is_hex (upper_hex n)" "\<not> is_space (upper_hex n)"
    "of_char (upper_hex n) \<notin> {38, 43, 45, 88, 95, 120 :: nat}"
  using assms by (auto simp: hex_value_def is_hex_def is_space_def Let_def of_char_upper_hex)

lemma upper_hex_not:
  "n < 16 \<Longrightarrow> of_char c \<in> {38, 43, 45, 88, 95, 120 :: nat} \<Longrightarrow> upper_hex n \<noteq> c"
  using upper_hex_facts(4) by blast

text \<open>A printed number has nothing to strip, no sign, no prefix and no underscore.\<close>

lemma py_strip_id: "s \<noteq> [] \<Longrightarrow> \<not> is_space (hd s) \<Longrightarrow> \<not> is_space (last s) \<Longrightarrow> py_strip s = s"
  by (simp add: py_strip_def dropWhile_eq_self_iff [THEN iffD2] hd_rev)

lemma digits_plain: "s \<noteq> [] \<Longrightarrow> list_all ok s \<Longrightarrow> CHR ''_'' \<notin> set s \<Longrightarrow> digits_with_underscores ok s"
  by (induction ok s rule: digits_with_underscores.induct) auto

lemma nat_of_hex_digits:
  "list_all (\<lambda>n. n < 16) ns \<Longrightarrow>
    foldl (\<lambda>v c. 16 * v + (case hex_value c of None \<Rightarrow> 0 | Some n \<Rightarrow> n)) v (List.map upper_hex ns) = foldl (\<lambda>v n. 16 * v + n) v ns"
  by (induction ns arbitrary: v) (auto simp: upper_hex_facts)

lemma parse_hex_digits:
  assumes ns: "list_all (\<lambda>n. n < 16) ns" and len: "2 \<le> length ns"
  shows "parse_hex (List.map upper_hex ns) = Some (int (foldl (\<lambda>v n. 16 * v + n) 0 ns))"
proof -
  let ?s = "List.map upper_hex ns"
  obtain a b r where abr: "ns = a # b # r" using len by (cases ns; cases "tl ns") auto
  have digit: "n \<in> set ns \<Longrightarrow> n < 16" for n using ns by (auto simp: list_all_iff)
  have strip: "py_strip ?s = ?s"
    using upper_hex_facts(3) digit abr by (intro py_strip_id) (auto simp: last_map)
  have sign: "take_sign ?s = (1, ?s)" using upper_hex_not digit [of a] abr by (simp add: take_sign_def)
  have body: "hex_body ?s = ?s" using upper_hex_not digit [of b] abr by (simp add: hex_body_def)
  have clean: "CHR ''_'' \<notin> set ?s"
  proof
    assume "CHR ''_'' \<in> set ?s"
    then obtain n where "n \<in> set ns" "upper_hex n = CHR ''_''" by auto
    then show False using upper_hex_not [of n "CHR ''_''"] digit by simp
  qed
  have "digits_with_underscores is_hex ?s"
    using clean abr digit by (intro digits_plain) (auto simp: list_all_iff upper_hex_facts(2))
  moreover have "List.filter (\<lambda>c. c \<noteq> CHR ''_'') ?s = ?s"
    using clean by (simp only: filter_id_conv) blast
  ultimately show ?thesis
    by (simp add: parse_hex_def strip sign body nat_of_hex_def nat_of_hex_digits [OF ns] Let_def del: list.map)
qed

lemma parse_hex2: "parse_hex (hex2 b) = Some (uint b)"
proof -
  have "hex2 b = List.map upper_hex [unat b div 16, unat b mod 16]" by (simp add: hex2_def)
  moreover have "unat b div 16 < 16" using unat_byte [of b] by linarith
  ultimately show ?thesis by (simp add: parse_hex_digits del: list.map)
qed

lemma parse_hex4: "parse_hex (hex4 w) = Some (uint w)"
proof -
  have w: "unat w < 65536" using unsigned_less [of w, where 'a = nat] by simp
  have "hex4 w = List.map upper_hex [unat w div 4096, unat w div 256 mod 16, unat w div 16 mod 16, unat w mod 16]"
    by (simp add: hex4_def Let_def)
  moreover have "unat w div 4096 < 16" using w by linarith
  moreover have "16 * (16 * (16 * (n div 4096) + n div 256 mod 16) + n div 16 mod 16) + n mod 16 = n" for n :: nat
  proof -
    have "n div 4096 = n div 256 div 16" "n div 256 = n div 16 div 16" by (simp_all flip: div_mult2_eq)
    then show ?thesis by (simp only: mult_div_mod_eq)
  qed
  ultimately show ?thesis by (simp add: parse_hex_digits del: list.map)
qed

lemma unhex_hex: "unhex (concat (List.map hex2 bs)) = Inr bs"
proof (induction bs)
  case (Cons b bs)
  have "parse_hex [upper_hex (unat b div 16), upper_hex (unat b mod 16)] = Some (uint b)"
    using parse_hex2 [of b] by (simp add: hex2_def)
  then show ?case using Cons.IH by (simp add: hex2_def)
qed simp


section \<open>Text that goes through\<close>

lemma hex_chars: "c \<in> set (concat (List.map hex2 bs)) \<Longrightarrow> c \<noteq> CHR ''&''"
proof -
  assume "c \<in> set (concat (List.map hex2 bs))"
  then obtain b n where "c = upper_hex n" "n = unat (b :: byte) div 16 \<or> n = unat b mod 16"
    by (auto simp: hex2_def)
  moreover have "unat b div 16 < 16" using unat_byte [of b] by linarith
  ultimately show ?thesis using upper_hex_not [of n "CHR ''&''"] by auto
qed

lemma utf8_decode_ascii: "list_all (\<lambda>c. c < 128) cps \<Longrightarrow> utf8_decode cps = cps"
  by (induction cps) simp_all

lemma unat_byte_of [simp]: "unat (byte_of c) = of_char c"
  by (simp add: byte_of_def unat_of_nat of_char_mod_256)

lemma rc4_decrypt_bytes: "rc4_decrypt key (concat (List.map hex2 (rc4_bytes key bs))) = Inr (utf8_decode (List.map unat bs))"
  by (simp add: rc4_decrypt_def unhex_hex)

text \<open>A body as a controller writes it: bytes enciphered, and the checksum over those bytes.\<close>

definition wire_body :: "string \<Rightarrow> byte list \<Rightarrow> string" where
  "wire_body key bs = POST_ENC @ concat (List.map hex2 (rc4_bytes key bs)) @ POST_CHK @ hex4 (of_nat (sum_list (List.map unat bs)))"

lemma decrypt_wire_body:
  assumes "key \<noteq> ''''"
  shows "decrypt_payload (Some key) (wire_body key bs) =
    bind_res (post_chk_calc (utf8_decode (List.map unat bs))) (\<lambda>chk.
      Inr (if parse_hex chk = Some (uint (of_nat (sum_list (List.map unat bs)) :: 16 word))
           then Some (utf8_decode (List.map unat bs)) else None))"
proof -
  let ?hex = "concat (List.map hex2 (rc4_bytes key bs))" and ?chk = "hex4 (of_nat (sum_list (List.map unat bs)))"
  have enc: "split_once POST_ENC (wire_body key bs) = Some ([], ?hex @ POST_CHK @ ?chk)"
    by (simp add: wire_body_def split_once_head)
  have chk: "split_once POST_CHK (?hex @ POST_CHK @ ?chk) = Some (?hex, ?chk)"
    by (rule split_once_after [where c = "CHR ''&''" and sep' = "''post_chk=''"]) (use hex_chars in \<open>auto simp: POST_CHK_def\<close>)
  have "?chk \<noteq> ''''" by (simp add: hex4_def Let_def)
  then show ?thesis
    using assms by (simp add: decrypt_payload_def enc chk rc4_decrypt_bytes parse_hex4 eq_commute)
qed

lemma encrypt_payload_wire:
  assumes "key \<noteq> ''''"
  shows "encrypt_payload (Some key) payload = Some (wire_body key (List.map byte_of payload))"
proof -
  have "list_all (\<lambda>c. c < 256) (code_points payload)" by (simp add: code_points_def list_all_iff)
  then show ?thesis using assms
    by (simp add: encrypt_payload_def post_chk_calc_def wire_body_def rc4_encrypt_def code_points_def comp_def)
qed

lemma post_chk_calc_hex: "list_all (\<lambda>c. c < 256) cps \<Longrightarrow> post_chk_calc cps = Inr (hex4 (of_nat (sum_list cps)))"
  by (simp add: post_chk_calc_def)

section \<open>Text with letters past ASCII\<close>

text \<open>UTF-8 of a code point below 256.\<close>

definition utf8_of :: "nat \<Rightarrow> nat list" where
  "utf8_of c = (if c < 128 then [c] else [192 + c div 64, 128 + c mod 64])"

lemma utf8_decode_encode:
  "list_all (\<lambda>c. c < 256) cps \<Longrightarrow> utf8_decode (concat (List.map utf8_of cps)) = cps"
proof (induction cps)
  case (Cons c cps)
  show ?case
  proof (cases "c < 128")
    case True
    then show ?thesis using Cons by (simp add: utf8_of_def)
  next
    case False
    then have "2 \<le> c div 64" "c div 64 < 4" using Cons.prems by (simp_all add: div_less_iff_less_mult)
    then have lead: "utf8_lead (192 + c div 64) = Some (1, 128, 191, c div 64)" by (simp add: utf8_lead_def)
    have "c mod 64 < 64" by simp
    then have "follow_count 1 128 191 ((128 + c mod 64) # bs) = 1" for bs
      by (simp add: follow_count_def)
    moreover have "64 * (c div 64) + c mod 64 = c" by simp
    ultimately show ?thesis using False Cons lead by (simp add: utf8_of_def)
  qed
qed simp

text \<open>The bytes of such a text sum to more than its letters: 194 or 131 more for each accented one.\<close>

definition accented :: "nat list \<Rightarrow> nat" where
  "accented cps = length (List.filter (\<lambda>c. 128 \<le> c) cps)"

lemma utf8_sum:
  assumes "list_all (\<lambda>c. c < 256) cps"
  shows "sum_list cps + 131 * accented cps \<le> sum_list (concat (List.map utf8_of cps)) \<and>
    sum_list (concat (List.map utf8_of cps)) \<le> sum_list cps + 194 * accented cps"
  using assms
proof (induction cps)
  case (Cons c cps)
  have "c + 131 \<le> sum_list (utf8_of c) \<and> sum_list (utf8_of c) \<le> c + 194" if "128 \<le> c" "c < 256"
  proof -
    have "c div 64 = 2 \<or> c div 64 = 3" using that by auto
    moreover have "c mod 64 = c - 64 * (c div 64)" by (simp add: minus_mult_div_eq_mod)
    ultimately show ?thesis using that by (auto simp: utf8_of_def)
  qed
  moreover have "sum_list (utf8_of c) = c" if "c < 128" using that by (simp add: utf8_of_def)
  ultimately show ?case using Cons by (cases "c < 128") (auto simp: accented_def)
qed (simp add: accented_def)

text \<open>Two sums that differ by less than \<open>2 ^ 16\<close> have different checksums.\<close>

lemma checksum_differs:
  assumes "a < b" and "b < a + 65536"
  shows "(of_nat a :: 16 word) \<noteq> of_nat b"
proof
  assume "(of_nat a :: 16 word) = of_nat b"
  then have "a mod 65536 = b mod 65536" by (simp add: word_of_nat_eq_iff take_bit_eq_mod)
  then have "65536 dvd b - a" using assms(1) mod_eq_dvd_iff_nat [of a b 65536] by simp
  then have "(b - a) mod 65536 = 0" by simp
  moreover have "(b - a) mod 65536 = b - a" using assms by simp
  ultimately show False using assms(1) by simp
qed

lemma refused_page:
  assumes "key \<noteq> ''''" and latin: "list_all (\<lambda>c. c < 256) cps" and some: "0 < accented cps" "accented cps \<le> 300"
    and bytes: "List.map unat bs = concat (List.map utf8_of cps)"
  shows "decrypt_payload (Some key) (wire_body key bs) = Inr None"
proof -
  let ?sum = "sum_list (concat (List.map utf8_of cps))"
  have "(of_nat (sum_list cps) :: 16 word) \<noteq> of_nat ?sum"
    using utf8_sum [OF latin] some by (intro checksum_differs) linarith+
  then have "uint (of_nat (sum_list cps) :: 16 word) \<noteq> uint (of_nat ?sum :: 16 word)"
    using word_uint_eqI by blast
  then show ?thesis
    using assms(1) latin
    by (simp add: decrypt_wire_body bytes utf8_decode_encode post_chk_calc_hex parse_hex4)
qed

end
