(* ===== verification/Cdvi_Client.thy ===== *)
theory Cdvi_Client
  imports Cdvi_Wire Json_Data
begin

text \<open>
  \<open>lib/pacs/cdvi/client.py\<close> past its wire format: XML as nested dictionaries, signing in, paging the
  two lists, a user's email, and the one write, a card's State. The environment carries the
  network, the parser and the hash of the standard library, and the account; the state carries
  the fields of the client and of the adapter that owns it.
\<close>

record 'h cdvi_env =
  ce_net :: "'h http"
  ce_xml :: "nat list \<Rightarrow> xml option"
  ce_md5 :: "string \<Rightarrow> string"
  ce_base_url :: string
  ce_username :: string
  ce_password :: string

record 'h cdvi =
  cd_session :: "string option"
  cd_serial :: "string option"
  cd_logged_in :: bool
  cd_emails :: "(string \<times> string) list"
  cd_by_person :: "(string \<times> json list) list option"
  cd_by_identity :: "(string \<times> json) list"
  cd_net :: 'h

definition cdvi_init :: "'h \<Rightarrow> 'h cdvi" where
  "cdvi_init h = \<lparr>cd_session = None, cd_serial = None, cd_logged_in = False, cd_emails = [], cd_by_person = None,
     cd_by_identity = [], cd_net = h\<rparr>"

definition CDVI_MAX_PAGES :: nat where "CDVI_MAX_PAGES = 100"
definition PAGE_RECORDS_HINT :: nat where "PAGE_RECORDS_HINT = 50"

definition LOGIN_SEED_SID :: string where
  "LOGIN_SEED_SID = ''1013B3842BBBA23D''"

section \<open>XML as dictionaries\<close>

definition localname :: "string \<Rightarrow> string" where
  "localname tag = (if CHR ''}'' \<in> set tag then snd (py_partition (CHR ''}'') tag) else tag)"

text \<open>A second child of a name makes the entry a list; a list grows.\<close>

definition add_child :: "string \<times> json \<Rightarrow> (string \<times> json) list \<Rightarrow> (string \<times> json) list" where
  "add_child nv d = (case nv of (n, v) \<Rightarrow>
     AList.update n (case map_of d n of
         None \<Rightarrow> v
       | Some (JArr xs) \<Rightarrow> JArr (xs @ [v])
       | Some old \<Rightarrow> JArr [old, v]) d)"

fun node_to_hash :: "xml \<Rightarrow> json" where
  "node_to_hash (Elem t attrib txt children) =
     (let d = fold (\<lambda>(k, v). AList.update (localname k) (JStr v)) attrib [];
          s = py_strip (case txt of None \<Rightarrow> '''' | Some x \<Rightarrow> x)
      in if children = [] then
           (if s \<noteq> '''' \<and> d = [] then JStr s
            else if s \<noteq> '''' then JObj (AList.update ''_text'' (JStr s) d) else JObj d)
         else JObj (fold add_child (List.map (\<lambda>c. (localname (xml_tag c), node_to_hash c)) children) d))"

text \<open>The parsed document: its root's name and its hash, None for an empty text or one that is not XML.\<close>

definition parse_xml_to_hash :: "'h cdvi_env \<Rightarrow> nat list \<Rightarrow> (string \<times> json) option" where
  "parse_xml_to_hash env cps =
     (if cps = [] then None
      else map_option (\<lambda>root. (localname (xml_tag root), node_to_hash root)) (ce_xml env cps))"

definition root_entry :: "string \<Rightarrow> (string \<times> json) option \<Rightarrow> json" where
  "root_entry name parsed = (case parsed of Some (n, v) \<Rightarrow> if n = name then v else JNull | None \<Rightarrow> JNull)"

section \<open>Signing in\<close>

text \<open>\<open>re.search(r"Session=([^;]+)", raw)\<close>, then the suffix \<open>-NN\<close> taken off.\<close>

fun find_session :: "string \<Rightarrow> string option" where
  "find_session s =
     (if py_startswith s ''Session='' \<and> takeWhile (\<lambda>c. c \<noteq> CHR '';'') (drop 8 s) \<noteq> []
      then Some (takeWhile (\<lambda>c. c \<noteq> CHR '';'') (drop 8 s))
      else case s of [] \<Rightarrow> None | _ # r \<Rightarrow> find_session r)"

declare find_session.simps [simp del]

definition drop_suffix :: "string \<Rightarrow> string" where
  "drop_suffix s = (case rev s of
     b # a # h # r \<Rightarrow> if is_digit a \<and> is_digit b \<and> h = CHR ''-'' then rev r else s
   | _ \<Rightarrow> s)"

definition cookie_session :: "response \<Rightarrow> string option" where
  "cookie_session r = map_option drop_suffix (find_session (header_of r ''set-cookie''))"

definition timestamp :: "'h cdvi_env \<Rightarrow> 'h cdvi \<Rightarrow> string" where
  "timestamp env st = string_of_int (http_now (ce_net env) (cd_net st) div 1000000)"

definition session_text :: "'h cdvi \<Rightarrow> string" where
  "session_text st = (case cd_session st of None \<Rightarrow> ''None'' | Some s \<Rightarrow> s)"

definition cdvi_send :: "'h cdvi_env \<Rightarrow> request \<Rightarrow> ('h cdvi, response) comp" where
  "cdvi_send env rq st = (case http_send (ce_net env) rq (cd_net st) of (r, h) \<Rightarrow> (r, st\<lparr>cd_net := h\<rparr>))"

text \<open>\<open>except httpx.HTTPError\<close>: None instead of the response.\<close>

definition cdvi_try :: "'h cdvi_env \<Rightarrow> request \<Rightarrow> ('h cdvi, response option) comp" where
  "cdvi_try env rq st =
     (case cdvi_send env rq st of
        (Inl e, st1) \<Rightarrow> (if is_http_error e then (Inr None, st1) else (Inl e, st1))
      | (Inr r, st1) \<Rightarrow> (Inr (Some r), st1))"

definition error_node :: "json \<Rightarrow> bool" where
  "error_node login = (case login of
     JObj d \<Rightarrow> (case jlookup d ''ERROR'' of JVal (PStr s) \<Rightarrow> py_strip s \<notin> {'''', ''0''} | _ \<Rightarrow> False)
   | _ \<Rightarrow> False)"

text \<open>The LOGIN element of a response, None when the login step fails on it.\<close>

definition login_element :: "'h cdvi_env \<Rightarrow> response \<Rightarrow> (string \<times> json) list option" where
  "login_element env r =
     (if rs_status r \<noteq> 200 then None
      else case root_entry ''LOGIN'' (parse_xml_to_hash env (code_points (rs_text r))) of
          JObj d \<Rightarrow> if error_node (JObj d) then None else Some d
        | _ \<Rightarrow> None)"

definition header_entry :: "(string \<times> json) list \<Rightarrow> string \<Rightarrow> json" where
  "header_entry login k = (case jlookup login ''HEADER'' of JObj h \<Rightarrow> jlookup h k | _ \<Rightarrow> JNull)"

definition login_url :: "'h cdvi_env \<Rightarrow> string \<Rightarrow> 'h cdvi \<Rightarrow> string" where
  "login_url env sid st = ce_base_url env @ ''/login.xml?_='' @ timestamp env st @ ''&sid='' @ sid"

definition login_get :: "'h cdvi_env \<Rightarrow> ('h cdvi, bool) comp" where
  "login_get env st0 =
     (if ce_base_url env = '''' then (Inr False, st0) else
      bind_comp (cdvi_try env (mk_request ''GET'' (login_url env LOGIN_SEED_SID st0) [] [] NoBody)) (\<lambda>ro st.
        case ro of
          None \<Rightarrow> (Inr False, st)
        | Some r \<Rightarrow>
          (case login_element env r of
             None \<Rightarrow> (Inr False, st)
           | Some d \<Rightarrow>
             (let session = cookie_session r; serial = header_entry d ''sn''; st1 = st\<lparr>cd_session := session\<rparr> in
              if session \<noteq> None \<and> session \<noteq> Some '''' \<and> jtruthy serial
              then (case strip_or_empty serial of
                      Inl e \<Rightarrow> (Inl e, st1)
                    | Inr s \<Rightarrow> (Inr True, st1\<lparr>cd_serial := Some s\<rparr>))
              else (Inr False, st1)))) st0)"

definition login_post :: "'h cdvi_env \<Rightarrow> 'h cdvi \<Rightarrow> request" where
  "login_post env st = (let sid = (case cd_session st of None \<Rightarrow> '''' | Some s \<Rightarrow> s) in
     mk_request ''POST'' (login_url env (session_text st) st) []
       [(''Content-Type'', ''application/x-www-form-urlencoded''), (''Cookie'', ''Session='' @ session_text st)]
       (FormBody [(''cmd'', ''login''), (''login_user'', rc4_encrypt sid (ce_username env)),
          (''login_pass'', ce_md5 env (sid @ ce_password env))]))"

definition cdvi_login :: "'h cdvi_env \<Rightarrow> ('h cdvi, bool) comp" where
  "cdvi_login env =
     bind_comp (login_get env) (\<lambda>ok st0.
       if \<not> ok then (Inr False, st0) else
       bind_comp (\<lambda>st. cdvi_try env (login_post env st) st) (\<lambda>ro st.
         case ro of
           None \<Rightarrow> (Inr False, st)
         | Some r \<Rightarrow>
           if rs_status r \<noteq> 200 then (Inr False, st) else
           (let st1 = (case cookie_session r of None \<Rightarrow> st | Some s \<Rightarrow> if s = '''' then st else st\<lparr>cd_session := Some s\<rparr>) in
            case login_element env r of
              None \<Rightarrow> (Inr False, st1)
            | Some d \<Rightarrow>
              (let user_id = header_entry d ''user_id'' in
               if user_id \<noteq> JNull \<and> jstr user_id \<noteq> ''-1'' then (Inr True, st1\<lparr>cd_logged_in := True\<rparr>)
               else (Inr False, st1)))) st0)"

definition cdvi_ensure :: "'h cdvi_env \<Rightarrow> ('h cdvi, unit) comp" where
  "cdvi_ensure env st =
     (if cd_logged_in st then (Inr (), st)
      else bind_comp (cdvi_login env)
        (\<lambda>ok. pure_res (if ok then Inr () else Inl (PyError ''CdviAuthError'' ''Cannot authenticate with CDVI Atrium''))) st)"

definition cdvi_test_connection :: "'h cdvi_env \<Rightarrow> ('h cdvi, bool) comp" where
  "cdvi_test_connection env st =
     (case cdvi_login env st of
        (Inl e, st1) \<Rightarrow> (if is_http_error e then (Inr False, st1) else (Inl e, st1))
      | (Inr ok, st1) \<Rightarrow> (Inr ok, st1))"

section \<open>The two lists\<close>

text \<open>A list page, parsed: None for anything that went wrong, except what deciphering raises.\<close>

definition get_encrypted :: "'h cdvi_env \<Rightarrow> string \<Rightarrow> ('h cdvi, (string \<times> json) option) comp" where
  "get_encrypted env path st0 =
     bind_comp (cdvi_try env (mk_request ''GET'' (ce_base_url env @ path) []
         (case cd_session st0 of None \<Rightarrow> [] | Some s \<Rightarrow> if s = '''' then [] else [(''Cookie'', ''Session='' @ s)]) NoBody)) (\<lambda>ro st.
       case ro of
         None \<Rightarrow> (Inr None, st)
       | Some r \<Rightarrow>
         if rs_status r \<noteq> 200 then (Inr None, st) else
         (case decrypt_payload (cd_session st) (rs_text r) of
            Inl e \<Rightarrow> (Inl e, st)
          | Inr None \<Rightarrow> (Inr None, st)
          | Inr (Some cps) \<Rightarrow> (Inr (parse_xml_to_hash env cps), st))) st0"

fun dict_only :: "json list \<Rightarrow> json list" where
  "dict_only [] = []"
| "dict_only (JObj d # xs) = JObj d # dict_only xs"
| "dict_only (_ # xs) = dict_only xs"

text \<open>The records under \<open>USER\<close> or \<open>CARD\<close>, the first of the two that is a list or a dictionary.\<close>

definition records_at :: "(string \<times> json) list \<Rightarrow> string \<Rightarrow> json list option" where
  "records_at root k = (case map_of root k of
     Some (JArr xs) \<Rightarrow> Some (dict_only xs)
   | Some (JObj d) \<Rightarrow> Some [JObj d]
   | _ \<Rightarrow> None)"

definition extract_records :: "(string \<times> json) option \<Rightarrow> json list" where
  "extract_records parsed = (case parsed of
     Some (_, JObj root) \<Rightarrow>
       (case records_at root ''USER'' of
          Some xs \<Rightarrow> xs
        | None \<Rightarrow> (case records_at root ''CARD'' of Some xs \<Rightarrow> xs | None \<Rightarrow> []))
   | _ \<Rightarrow> [])"

definition path_ts :: "'h cdvi_env \<Rightarrow> string \<Rightarrow> 'h cdvi \<Rightarrow> string" where
  "path_ts env path st = path @ (if CHR ''?'' \<in> set path then ''&'' else ''?'') @ ''_='' @ timestamp env st
     @ ''&sid='' @ session_text st"

text \<open>\<open>_paginate\<close>, over the pages still allowed: an empty page or a short one is the end.\<close>

fun cdvi_pages :: "'h cdvi_env \<Rightarrow> (nat \<Rightarrow> string) \<Rightarrow> nat list \<Rightarrow> json list \<Rightarrow> ('h cdvi, json list) comp" where
  "cdvi_pages env path_for [] items st = (Inr items, st)"
| "cdvi_pages env path_for (p # ps) items st =
     (case get_encrypted env (path_ts env (path_for p) st) st of
        (Inl e, st1) \<Rightarrow> (Inl e, st1)
      | (Inr parsed, st1) \<Rightarrow>
          (let page_items = extract_records parsed in
           if page_items = [] then (Inr items, st1)
           else if length page_items < PAGE_RECORDS_HINT then (Inr (items @ page_items), st1)
           else cdvi_pages env path_for ps (items @ page_items) st1))"

definition paginate :: "'h cdvi_env \<Rightarrow> (nat \<Rightarrow> string) \<Rightarrow> ('h cdvi, json list) comp" where
  "paginate env path_for = cdvi_pages env path_for [1..<CDVI_MAX_PAGES + 1] []"

definition users_path :: "nat \<Rightarrow> string" where
  "users_path page = ''/users.xml?page_nb='' @ string_of_nat page @ ''&user_filter=''"

definition cards_path :: "nat \<Rightarrow> string" where
  "cards_path page = ''/cards.xml?page_nb='' @ string_of_nat page @ ''&card_number=''"

definition cdvi_list_users :: "'h cdvi_env \<Rightarrow> ('h cdvi, json list) comp" where
  "cdvi_list_users env = bind_comp (cdvi_ensure env) (\<lambda>_. paginate env users_path)"

definition cdvi_list_cards :: "'h cdvi_env \<Rightarrow> ('h cdvi, json list) comp" where
  "cdvi_list_cards env = bind_comp (cdvi_ensure env) (\<lambda>_. paginate env cards_path)"

end
