(* ===== verification/Cdvi_Adapter.thy ===== *)
theory Cdvi_Adapter
  imports Cdvi_Client Pacs_Contract
begin

text \<open>
  The rest of \<open>lib/pacs/cdvi/client.py\<close>: the email of one user, read from the SDK record and kept, and
  the one write, which edits an existing card's State and echoes its other fields.
\<close>

section \<open>Posting under the session\<close>

definition quote_char :: string where "quote_char = [CHR 0x27]"

definition sdk_read :: "'h cdvi \<Rightarrow> string \<Rightarrow> string" where
  "sdk_read st uid =
     ''<?xml version='' @ [CHR 0x22] @ ''1.0'' @ [CHR 0x22] @ '' encoding='' @ [CHR 0x22] @ ''utf-8'' @ [CHR 0x22] @ ''?>''
     @ ''<SDK xmlns='' @ quote_char @ ''https://www.cdvi.ca/'' @ quote_char @ ''><RECORDS>''
     @ ''<REC trans_id='' @ quote_char @ ''1'' @ quote_char @ '' cmd='' @ quote_char @ ''read'' @ quote_char
     @ '' sernum='' @ quote_char @ (case cd_serial st of None \<Rightarrow> ''None'' | Some s \<Rightarrow> s) @ quote_char @ '' ''
     @ ''type='' @ quote_char @ ''user'' @ quote_char @ '' id='' @ quote_char @ uid @ quote_char
     @ '' rec='' @ quote_char @ ''cfg2'' @ quote_char @ ''></REC>''
     @ ''</RECORDS></SDK>''"

text \<open>The shape both posts have: an enciphered body to a screen, under the session cookie.\<close>

definition session_post :: "'h cdvi_env \<Rightarrow> string \<Rightarrow> string \<Rightarrow> 'h cdvi \<Rightarrow> request" where
  "session_post env screen payload st =
     mk_request ''POST'' (ce_base_url env @ screen @ ''?_='' @ timestamp env st @ ''&sid='' @ session_text st) []
       [(''Cookie'', ''Session='' @ session_text st)] (RawBody payload)"

section \<open>A user's email\<close>

text \<open>The first of a list, a dictionary itself, or nothing.\<close>

fun first_dict :: "json \<Rightarrow> (string \<times> json) list" where
  "first_dict (JObj d) = d"
| "first_dict (JArr (JObj d # xs)) = d"
| "first_dict _ = []"

definition extract_email :: "(string \<times> json) option \<Rightarrow> string res" where
  "extract_email parsed =
     bind_res (bind_res (oget ''RECORDS'' (root_entry ''SDK'' parsed)) (oget ''REC'')) (\<lambda>rec.
       strip_or_empty (jlookup (first_dict (jlookup (first_dict rec) ''DATA'')) ''email5''))"

text \<open>Kept per user; a transport failure or a refusal is kept as no email, too.\<close>

definition get_user_email :: "'h cdvi_env \<Rightarrow> string \<Rightarrow> ('h cdvi, string) comp" where
  "get_user_email env uid st0 =
     (case map_of (cd_emails st0) uid of
        Some e \<Rightarrow> (Inr e, st0)
      | None \<Rightarrow>
        bind_comp (cdvi_ensure env) (\<lambda>_ st.
          (case encrypt_payload (cd_session st) (sdk_read st uid) of
             None \<Rightarrow> (Inr '''', st\<lparr>cd_emails := AList.update uid '''' (cd_emails st)\<rparr>)
           | Some payload \<Rightarrow>
             bind_comp (cdvi_try env (session_post env ''/sdk.xml'' payload st)) (\<lambda>ro st1.
               case (case ro of
                       None \<Rightarrow> Inr ''''
                     | Some r \<Rightarrow> if rs_status r \<noteq> 200 then Inr ''''
                         else bind_res (decrypt_payload (cd_session st1) (rs_text r)) (\<lambda>x.
                                extract_email (case x of None \<Rightarrow> None | Some cps \<Rightarrow> parse_xml_to_hash env cps))) of
                 Inl e \<Rightarrow> (Inl e, st1)
               | Inr email \<Rightarrow> (Inr email, st1\<lparr>cd_emails := AList.update uid email (cd_emails st1)\<rparr>)) st)) st0)"

section \<open>A card's State\<close>

definition CARD_ECHO_FIELDS :: "string list" where
  "CARD_ECHO_FIELDS = [''name'', ''format'', ''number'', ''program'', ''stolen'', ''lost'', ''dswipe'',
     ''act_utc'', ''exp_utc'', ''ld_act'', ''ld_deact'', ''ld_over'', ''ld_ack'']"

definition echo_fields :: "(string \<times> json) list \<Rightarrow> (string \<times> string) list" where
  "echo_fields crd = List.map_filter (\<lambda>k. case jlookup crd k of
     JVal PNone \<Rightarrow> None | v \<Rightarrow> Some (''T_card_'' @ k, jstr v)) CARD_ECHO_FIELDS"

definition card_form :: "(string \<times> json) list \<Rightarrow> bool \<Rightarrow> (string \<times> string) list" where
  "card_form crd enabled =
     [(''T_card_cmd'', ''add''), (''T_card_id'', jstr (jlookup crd ''id''))] @ echo_fields crd
     @ [(''T_card_en'', if enabled then ''1'' else ''0'')]"

text \<open>\<open>urllib.parse.urlencode\<close>: the characters left alone, a plus for a space, the UTF-8 bytes of the rest.\<close>

definition url_safe :: "char \<Rightarrow> bool" where
  "url_safe c \<longleftrightarrow> (let n = (of_char c :: nat) in
     (48 \<le> n \<and> n \<le> 57) \<or> (65 \<le> n \<and> n \<le> 90) \<or> (97 \<le> n \<and> n \<le> 122)) \<or> c \<in> set ''_.-~''"

definition percent :: "nat \<Rightarrow> string" where
  "percent n = CHR ''%'' # [upper_hex (n div 16), upper_hex (n mod 16)]"

definition quote_plus :: "string \<Rightarrow> string" where
  "quote_plus s = concat (List.map (\<lambda>c. (let n = (of_char c :: nat) in
     if url_safe c then [c] else if c = CHR '' '' then ''+''
     else if n < 128 then percent n
     else percent (192 + n div 64) @ percent (128 + n mod 64))) s)"

definition urlencode :: "(string \<times> string) list \<Rightarrow> string" where
  "urlencode kvs = py_join ''&'' (List.map (\<lambda>(k, v). quote_plus k @ ''='' @ quote_plus v) kvs)"

text \<open>
  What the answer says: no document is a failure; a card echoed with a real id, or no card at all in
  a document, is a success.
\<close>

definition card_accepted :: "(string \<times> json) option \<Rightarrow> bool" where
  "card_accepted parsed =
     (case parsed of
        None \<Rightarrow> False
      | Some (_, root) \<Rightarrow>
          (case (case root of
                   JObj d \<Rightarrow> (case jlookup d ''CARD'' of JArr [] \<Rightarrow> JNull | JArr (x # _) \<Rightarrow> x | v \<Rightarrow> v)
                 | _ \<Rightarrow> JNull) of
             JObj c \<Rightarrow> (case map_of c ''id'' of None \<Rightarrow> False | Some i \<Rightarrow> jstr i \<noteq> ''-1'')
           | _ \<Rightarrow> True))"

definition card_command :: "'h cdvi_env \<Rightarrow> (string \<times> string) list \<Rightarrow> ('h cdvi, bool) comp" where
  "card_command env form =
     bind_comp (cdvi_ensure env) (\<lambda>_ st.
       (case encrypt_payload (cd_session st) (urlencode form) of
          None \<Rightarrow> (Inr False, st)
        | Some payload \<Rightarrow>
          bind_comp (cdvi_try env (session_post env ''/cards_T_card.xml'' payload st)) (\<lambda>ro st1.
            case ro of
              None \<Rightarrow> (Inr False, st1)
            | Some r \<Rightarrow>
              if rs_status r \<noteq> 200 then (Inr False, st1) else
              (case decrypt_payload (cd_session st1) (rs_text r) of
                 Inl e \<Rightarrow> (Inl e, st1)
               | Inr x \<Rightarrow> (Inr (card_accepted (case x of None \<Rightarrow> None | Some cps \<Rightarrow> parse_xml_to_hash env cps)), st1))) st))"

definition set_card_enabled :: "'h cdvi_env \<Rightarrow> (string \<times> json) list \<Rightarrow> bool \<Rightarrow> ('h cdvi, bool) comp" where
  "set_card_enabled env crd enabled = card_command env (card_form crd enabled)"

section \<open>The adapter\<close>

text \<open>
  \<open>lib/pacs/cdvi/adapter.py\<close>: Atrium's users and cards as people and credentials. The trigger is a
  marker in a card's display name, a credential is named after the physical card, and a status is
  written to the card that holds that identity now.
\<close>

section \<open>The marker\<close>

text \<open>The platform part of a marker at the head of a text: nothing, or a hint, then the bracket.\<close>

definition marker_rest :: "string \<Rightarrow> string option option" where
  "marker_rest s = (if py_startswith s '']'' then Some None
     else if py_startswith s ''-apple]'' then Some (Some ''apple'')
     else if py_startswith s ''-android]'' then Some (Some ''android'') else None)"

text \<open>\<open>TRIGGER_PATTERN.search\<close> on a text in lower case: the leftmost match and its group.\<close>

fun find_marker :: "string \<Rightarrow> string option option" where
  "find_marker s =
     (case (if py_startswith s ''[accessgrid'' then marker_rest (drop 11 s) else None) of
        Some g \<Rightarrow> Some g
      | None \<Rightarrow> (case s of [] \<Rightarrow> None | _ # r \<Rightarrow> find_marker r))"

declare find_marker.simps [simp del]

definition has_marker :: "string \<Rightarrow> bool" where
  "has_marker s \<longleftrightarrow> find_marker (py_lower s) \<noteq> None"

definition trigger_platform :: "string \<Rightarrow> string option" where
  "trigger_platform s = (case find_marker (py_lower s) of Some (Some g) \<Rightarrow> Some g | _ \<Rightarrow> None)"

definition CARD_NAME_KEYS :: "string list" where
  "CARD_NAME_KEYS = [''name'', ''_name'', ''label'']"

definition card_display_name :: "(string \<times> json) list \<Rightarrow> string" where
  "card_display_name crd =
     (case List.find (\<lambda>k. jlookup crd k \<noteq> JNull) CARD_NAME_KEYS of None \<Rightarrow> '''' | Some k \<Rightarrow> jstr (jlookup crd k))"

section \<open>The physical card\<close>

definition credential_identity :: "string \<Rightarrow> string \<Rightarrow> string \<Rightarrow> string \<Rightarrow> string" where
  "credential_identity site_code card_number number slot_id =
     (if site_code \<noteq> '''' \<and> card_number \<noteq> '''' then site_code @ '':'' @ card_number
      else if number \<noteq> '''' then number else slot_id)"

definition pad_file_data :: "string \<Rightarrow> string" where
  "pad_file_data encoded = (let e = py_strip encoded in if e \<noteq> '''' then pad_left 16 (CHR ''0'') e else '''')"

text \<open>The low 24 bits: eight of site code, sixteen of card number.\<close>

definition decode_card_number :: "string \<Rightarrow> string \<times> string" where
  "decode_card_number encoded =
     (if encoded = '''' then ('''', '''')
      else case parse_hex encoded of
          None \<Rightarrow> ('''', '''')
        | Some v \<Rightarrow> (string_of_int (take_bit 8 (drop_bit 16 v)), string_of_int (take_bit 16 v)))"

definition card_number_text :: "(string \<times> json) list \<Rightarrow> string" where
  "card_number_text crd = text_or_empty (jlookup crd ''number'')"

definition card_identity :: "(string \<times> json) list \<Rightarrow> string" where
  "card_identity crd =
     (case decode_card_number (card_number_text crd) of (site, num) \<Rightarrow>
        credential_identity site num (card_number_text crd) (jstr (jlookup crd ''id'')))"

text \<open>The user a card is assigned to, empty for none.\<close>

definition card_user :: "(string \<times> json) list \<Rightarrow> string" where
  "card_user crd = (case jlookup crd ''USER'' of JObj u \<Rightarrow> jstr (jlookup u ''id'') | _ \<Rightarrow> '''')"

section \<open>The card table\<close>

fun fields_of :: "json \<Rightarrow> (string \<times> json) list" where
  "fields_of (JObj d) = d"
| "fields_of _ = []"

definition index_card ::
    "json \<Rightarrow> (string \<times> json list) list \<times> (string \<times> json) list \<Rightarrow> (string \<times> json list) list \<times> (string \<times> json) list" where
  "index_card c gi = (case gi of (grouped, by_identity) \<Rightarrow>
     (let uid = card_user (fields_of c) in
      (if uid \<noteq> '''' \<and> uid \<noteq> ''-1'' then dict_append uid c grouped else grouped,
       AList.update (card_identity (fields_of c)) c by_identity)))"

text \<open>\<open>_ensure_cards_loaded\<close>: the cards by user and by identity; the last of an identity stands.\<close>

definition ensure_cards_loaded :: "'h cdvi_env \<Rightarrow> ('h cdvi, (string \<times> json list) list) comp" where
  "ensure_cards_loaded env st0 =
     (case cd_by_person st0 of
        Some grouped \<Rightarrow> (Inr grouped, st0)
      | None \<Rightarrow> bind_comp (cdvi_list_cards env) (\<lambda>cards st.
          (case fold index_card cards ([], []) of (grouped, by_identity) \<Rightarrow>
             (Inr grouped, st\<lparr>cd_by_person := Some grouped, cd_by_identity := by_identity\<rparr>))) st0)"

section \<open>Reading\<close>

definition cdvi_person_step :: "'h cdvi_env \<Rightarrow> string list \<Rightarrow> json \<Rightarrow> person list \<Rightarrow> ('h cdvi, person list) comp" where
  "cdvi_person_step env triggered raw out st0 =
     (let d = fields_of raw; pid = jstr (jlookup d ''id'') in
      case strip_or_empty (jlookup d ''fn'') of
        Inl e \<Rightarrow> (Inl e, st0)
      | Inr fn \<Rightarrow>
        (case strip_or_empty (jlookup d ''ln'') of
           Inl e \<Rightarrow> (Inl e, st0)
         | Inr ln \<Rightarrow>
           bind_comp (if pid \<in> set triggered then get_user_email env pid else pure_res (Inr '''')) (\<lambda>email st.
             (Inr (out @ [(mk_person pid (py_join '' '' (List.filter (\<lambda>p. p \<noteq> '''') [fn, ln])))
                \<lparr>pe_first_name := fn, pe_last_name := ln, pe_email := email,
                 pe_active := (jstr (case map_of d ''state'' of None \<Rightarrow> JStr ''1'' | Some v \<Rightarrow> v) = ''1'')\<rparr>]), st)) st0))"

definition triggered_uids :: "(string \<times> json list) list \<Rightarrow> string list" where
  "triggered_uids grouped = List.map fst (List.filter (\<lambda>(u, cs). list_ex (\<lambda>c. has_marker (card_display_name (fields_of c))) cs) grouped)"

definition cdvi_list_people :: "'h cdvi_env \<Rightarrow> ('h cdvi, person list) comp" where
  "cdvi_list_people env st0 =
     bind_comp (ensure_cards_loaded env) (\<lambda>grouped.
     bind_comp (cdvi_list_users env) (\<lambda>users. for_each (cdvi_person_step env (triggered_uids grouped)) users []))
       (st0\<lparr>cd_by_person := None\<rparr>)"

definition flag_or :: "string \<Rightarrow> string \<Rightarrow> (string \<times> json) list \<Rightarrow> bool" where
  "flag_or k absent d \<longleftrightarrow> jstr (case map_of d k of None \<Rightarrow> JStr absent | Some v \<Rightarrow> v) = ''1''"

text \<open>Active only when enabled and neither lost nor stolen.\<close>

definition card_status :: "(string \<times> json) list \<Rightarrow> cred_status" where
  "card_status d = (if flag_or ''en'' ''1'' d \<and> \<not> flag_or ''lost'' ''0'' d \<and> \<not> flag_or ''stolen'' ''0'' d
     then ACTIVE else SUSPENDED)"

definition cdvi_credential :: "string \<Rightarrow> json \<Rightarrow> credential" where
  "cdvi_credential pid raw =
     (let d = fields_of raw; number = card_number_text d; (site, num) = decode_card_number number
      in (mk_credential (card_identity d) pid)\<lparr>cr_card_number := num, cr_site_code := site,
           cr_file_data := pad_file_data number, cr_status := card_status d,
           cr_trigger_active := has_marker (card_display_name d)\<rparr>)"

definition cdvi_list_credentials :: "'h cdvi_env \<Rightarrow> string \<Rightarrow> ('h cdvi, credential list) comp" where
  "cdvi_list_credentials env pid =
     bind_comp (ensure_cards_loaded env) (\<lambda>grouped. pure_res (Inr (List.map (cdvi_credential pid) (dict_list grouped pid))))"

section \<open>Writing\<close>

definition cdvi_update_credential_status ::
    "'h cdvi_env \<Rightarrow> string \<Rightarrow> string \<Rightarrow> cred_status \<Rightarrow> ('h cdvi, bool) comp" where
  "cdvi_update_credential_status env pid cid status st0 =
     (if status \<notin> {ACTIVE, SUSPENDED} then (Inr False, st0)
      else bind_comp (ensure_cards_loaded env) (\<lambda>_ st.
        (case map_of (cd_by_identity st) cid of
           None \<Rightarrow> (Inr False, st)
         | Some c \<Rightarrow> set_card_enabled env (fields_of c) (status = ACTIVE) st)) st0)"

definition cdvi_api :: "'h cdvi_env \<Rightarrow> 'h cdvi pacs_api" where
  "cdvi_api env =
     \<lparr>pacs_declares_writeback = False, pacs_supports_status_writeback = (\<lambda>_. True), pacs_supports_credential_writeback = (\<lambda>_. False),
      pacs_supports_credential_retirement = (\<lambda>_. False), pacs_list_people = cdvi_list_people env,
      pacs_list_credentials = cdvi_list_credentials env,
      pacs_update_credential_status = cdvi_update_credential_status env,
      pacs_write_back_credentials = (\<lambda>_ _ _. pure_res (Inl (attribute_error ''write_back_credentials''))),
      pacs_retire_credentials = (\<lambda>_ _ _. pure_res (Inl (attribute_error ''retire_credentials''))),
      pacs_written_credentials = pure_res (Inl (attribute_error ''written_credentials'')),
      pacs_finish_cycle = None\<rparr>"

end
