(* ===== verification/Cdvi_Laws.thy ===== *)
theory Cdvi_Laws
  imports Cdvi_Adapter Cdvi_Wire
begin

text \<open>
  What the CDVI model does: the index of the card table, the form that edits a card, and how a page
  that could not be read ends the list.
\<close>

section \<open>The card table\<close>

text \<open>An identity names the last card of the table that has it.\<close>

lemma index_by_identity:
  "map_of (snd (fold index_card cs (g, d))) i =
     (case List.find (\<lambda>c. card_identity (fields_of c) = i) (rev cs) of None \<Rightarrow> map_of d i | Some c \<Rightarrow> Some c)"
proof (induction cs arbitrary: g d)
  case (Cons c cs)
  have "List.find P (xs @ [c]) = (case List.find P xs of None \<Rightarrow> if P c then Some c else None | Some x \<Rightarrow> Some x)" for P xs
    by (induction xs) auto
  then show ?case using Cons.IH by (auto simp: index_card_def Let_def split: option.split)
qed simp

lemma index_by_identity_last:
  assumes "card_identity (fields_of c) = i" and "\<forall>x\<in>set zs. card_identity (fields_of x) \<noteq> i"
  shows "map_of (snd (fold index_card (xs @ c # zs) ([], []))) i = Some c"
proof -
  have "List.find (\<lambda>c. card_identity (fields_of c) = i) (rev zs @ c # rev xs) = Some c"
    using assms by (induction zs rule: rev_induct) auto
  then show ?thesis unfolding index_by_identity by simp
qed

text \<open>An identity is the low 24 bits of the number, and nothing else of the card.\<close>

lemma decode_low_bits:
  assumes "parse_hex n = Some v" and "parse_hex m = Some u" and "n \<noteq> ''''" "m \<noteq> ''''"
    and "take_bit 24 v = take_bit 24 (u :: int)"
  shows "decode_card_number n = decode_card_number m"
proof -
  have low: "take_bit 16 v = take_bit 16 u" using arg_cong [OF assms(5), of "take_bit 16"] by simp
  have high: "take_bit 8 (drop_bit 16 v) = take_bit 8 (drop_bit 16 u)"
    using arg_cong [OF assms(5), of "drop_bit 16"] by (simp add: drop_bit_take_bit)
  show ?thesis by (simp add: decode_card_number_def assms(1-4) low high)
qed

lemma decode_some: "parse_hex n = Some v \<Longrightarrow> n \<noteq> '''' \<Longrightarrow>
    fst (decode_card_number n) \<noteq> '''' \<and> snd (decode_card_number n) \<noteq> ''''"
proof -
  have "string_of_nat k \<noteq> ''''" for k by (simp add: string_of_nat.simps [of k])
  then show "parse_hex n = Some v \<Longrightarrow> n \<noteq> '''' \<Longrightarrow> ?thesis"
    by (simp add: decode_card_number_def string_of_int_def)
qed

lemma same_identity:
  assumes "parse_hex (card_number_text c) = Some v" and "parse_hex (card_number_text d) = Some u"
    and "card_number_text c \<noteq> ''''" and "card_number_text d \<noteq> ''''" and "take_bit 24 v = take_bit 24 u"
  shows "card_identity c = card_identity d"
  using decode_low_bits [OF assms(1-5)] decode_some [OF assms(1,3)] decode_some [OF assms(2,4)]
  by (auto simp: card_identity_def credential_identity_def split: prod.split)

lemma identity_of_credential: "cr_id (cdvi_credential pid c) = card_identity (fields_of c)"
  by (simp add: cdvi_credential_def Let_def mk_credential_def split: prod.split)

section \<open>The edit of a card\<close>

lemma echo_fields_lookup:
  assumes "k \<in> set CARD_ECHO_FIELDS" and "jlookup crd k = v" and "v \<noteq> JNull"
  shows "map_of (echo_fields crd) (''T_card_'' @ k) = Some (jstr v)"
proof -
  have "map_of (List.map_filter (\<lambda>k. case jlookup crd k of JVal PNone \<Rightarrow> None | v \<Rightarrow> Some (''T_card_'' @ k, jstr v)) ks)
      (''T_card_'' @ k) = Some (jstr v)" if "k \<in> set ks" for ks
    using that assms(2,3)
    by (induction ks) (auto simp: map_filter_simps split: option.split json.splits pyval.splits)
  then show ?thesis using assms(1) by (simp add: echo_fields_def)
qed

section \<open>A page that could not be read\<close>

lemma failed_page_ends:
  assumes "get_encrypted env (path_ts env (path_for p) st) st = (Inr None, st1)"
  shows "cdvi_pages env path_for (p # ps) items st = (Inr items, st1)"
  using assms by (simp add: extract_records_def)

lemma refused_page_read:
  assumes "cd_session st = Some key" and "key \<noteq> ''''"
    and "cdvi_try env (mk_request ''GET'' (ce_base_url env @ path) [] [(''Cookie'', ''Session='' @ key)] NoBody) st = (Inr (Some r), st1)"
    and "cd_session st1 = cd_session st"
    and "rs_status r \<noteq> 200 \<or> decrypt_payload (Some key) (rs_text r) = Inr None"
  shows "get_encrypted env path st = (Inr None, st1)"
  using assms by (auto simp: get_encrypted_def bind_comp_def)

lemma cdvi_try_session:
  assumes "cdvi_try env rq st = (Inr ro, st1)"
  shows "cd_session st1 = cd_session st" "cd_logged_in st1 = cd_logged_in st"
  using assms by (auto simp: cdvi_try_def cdvi_send_def split: prod.splits sum.splits if_splits)

text \<open>A server that refuses every list, as it does once the session has lapsed.\<close>

definition refuses_lists :: "'h cdvi_env \<Rightarrow> bool" where
  "refuses_lists env \<longleftrightarrow> (\<forall>rq h. \<exists>r h'. http_send (ce_net env) rq h = (Inr r, h') \<and> rs_status r \<noteq> 200)"

lemma refused_pages:
  assumes "refuses_lists env" and "cd_session st = Some key" and "key \<noteq> ''''" and "cd_logged_in st" and "ps \<noteq> []"
  shows "\<exists>st1. cdvi_pages env path_for ps [] st = (Inr [], st1) \<and> cd_session st1 = cd_session st \<and> cd_logged_in st1"
proof -
  obtain p qs where ps: "ps = p # qs" using assms(5) by (cases ps) auto
  let ?rq = "mk_request ''GET'' (ce_base_url env @ path_ts env (path_for p) st) [] [(''Cookie'', ''Session='' @ key)] NoBody"
  obtain r h where sent: "http_send (ce_net env) ?rq (cd_net st) = (Inr r, h)" "rs_status r \<noteq> 200"
    using assms(1) unfolding refuses_lists_def by blast
  then have "cdvi_try env ?rq st = (Inr (Some r), st\<lparr>cd_net := h\<rparr>)" by (simp add: cdvi_try_def cdvi_send_def)
  then have "get_encrypted env (path_ts env (path_for p) st) st = (Inr None, st\<lparr>cd_net := h\<rparr>)"
    by (rule refused_page_read [OF assms(2,3)]) (use sent in simp_all)
  then have "cdvi_pages env path_for ps [] st = (Inr [], st\<lparr>cd_net := h\<rparr>)"
    unfolding ps by (rule failed_page_ends)
  then show ?thesis using assms(4) by simp
qed

lemma lapsed_session_empty:
  assumes "refuses_lists env" and "cd_session st = Some key" and "key \<noteq> ''''" and "cd_logged_in st"
  shows "\<exists>st1. cdvi_list_people env st = (Inr [], st1) \<and> cd_logged_in st1"
proof -
  let ?st = "st\<lparr>cd_by_person := None\<rparr>"
  have pages: "[1..<CDVI_MAX_PAGES + 1] \<noteq> []" by (simp add: CDVI_MAX_PAGES_def)
  obtain st1 where cards: "cdvi_list_cards env ?st = (Inr [], st1)" "cd_session st1 = Some key" "cd_logged_in st1"
    using refused_pages [OF assms(1) _ assms(3) _ pages, of ?st cards_path] assms(2,4)
    by (auto simp: cdvi_list_cards_def paginate_def cdvi_ensure_def bind_comp_def)
  let ?st1 = "st1\<lparr>cd_by_person := Some [], cd_by_identity := []\<rparr>"
  obtain st2 where users: "cdvi_list_users env ?st1 = (Inr [], st2)" "cd_logged_in st2"
    using refused_pages [OF assms(1) _ assms(3) _ pages, of ?st1 users_path] cards(2,3)
    by (auto simp: cdvi_list_users_def paginate_def cdvi_ensure_def bind_comp_def)
  have "ensure_cards_loaded env ?st = (Inr [], ?st1)"
    by (simp add: ensure_cards_loaded_def bind_comp_def cards(1))
  then show ?thesis using users by (simp add: cdvi_list_people_def bind_comp_def)
qed

lemma echo_fields_none:
  assumes "jlookup crd k = JNull"
  shows "map_of (echo_fields crd) (''T_card_'' @ k) = None"
proof -
  have "map_of (List.map_filter (\<lambda>k. case jlookup crd k of JVal PNone \<Rightarrow> None | v \<Rightarrow> Some (''T_card_'' @ k, jstr v)) ks)
      (''T_card_'' @ k) = None" for ks
    using assms by (induction ks) (auto simp: map_filter_simps split: option.split json.splits pyval.splits)
  then show ?thesis by (simp add: echo_fields_def)
qed

lemma echo_fields_other:
  assumes "k \<notin> set CARD_ECHO_FIELDS"
  shows "map_of (echo_fields crd) (''T_card_'' @ k) = None"
proof -
  have "map_of (List.map_filter (\<lambda>k. case jlookup crd k of JVal PNone \<Rightarrow> None | v \<Rightarrow> Some (''T_card_'' @ k, jstr v)) ks)
      (''T_card_'' @ k) = None" if "k \<notin> set ks" for ks
    using that by (induction ks) (auto simp: map_filter_simps split: option.split json.splits pyval.splits)
  then show ?thesis using assms by (simp add: echo_fields_def)
qed

lemma form_of_card:
  "map_of (card_form d enabled) ''T_card_id'' = Some (jstr (jlookup d ''id'')) \<and>
   map_of (card_form d enabled) ''T_card_en'' = Some (if enabled then ''1'' else ''0'') \<and>
   (\<forall>k\<in>set CARD_ECHO_FIELDS. map_of (card_form d enabled) (''T_card_'' @ k) =
      (if jlookup d k = JNull then None else Some (jstr (jlookup d k))))"
proof (intro conjI ballI)
  have "map_of (echo_fields d) (''T_card_'' @ ''en'') = None"
    by (rule echo_fields_other) (simp add: CARD_ECHO_FIELDS_def)
  then show "map_of (card_form d enabled) ''T_card_en'' = Some (if enabled then ''1'' else ''0'')"
    by (simp add: card_form_def map_add_def)
  show "map_of (card_form d enabled) ''T_card_id'' = Some (jstr (jlookup d ''id''))"
    by (simp add: card_form_def)
  fix k
  assume k: "k \<in> set CARD_ECHO_FIELDS"
  have "k \<noteq> ''cmd''" "k \<noteq> ''id''" "k \<noteq> ''en''" using k by (auto simp: CARD_ECHO_FIELDS_def)
  then have "map_of (card_form d enabled) (''T_card_'' @ k) = map_of (echo_fields d) (''T_card_'' @ k)"
    by (simp add: card_form_def map_add_def split: option.split)
  then show "map_of (card_form d enabled) (''T_card_'' @ k) = (if jlookup d k = JNull then None else Some (jstr (jlookup d k)))"
    using echo_fields_lookup [OF k refl] echo_fields_none [of d k] by simp
qed

end
