(* ===== verification/Pacs_Cards.thy ===== *)
theory Pacs_Cards
  imports Hub_Prelude
begin

text \<open>
  \<open>lib/pacs/millennium_ultra/pacs_cards.py\<close>: the ledger of the Millennium cards each pass rests
  on, the table \<open>pacs_cards\<close>, one row per card. The two encrypted columns are modelled by their
  plain text (the cipher is Fernet's, and what it encrypts it decrypts); log lines are left out.
  Credentials are keyed by the string \<open>person:credential\<close> when the whole table is read, exactly
  as the code joins and splits it.
\<close>

section \<open>Entries and rows\<close>

text \<open>
  An entry as it is handed around: \<open>active\<close>, \<open>pending\<close> and \<open>status\<close> are keys that may be
  missing from the dictionary.
\<close>

record entry =
  en_slot :: nat
  en_facility_code :: string
  en_card_number :: string
  en_active :: "bool option"
  en_pending :: "string option"
  en_status :: "string option"

record card_row =
  cw_person :: string
  cw_credential :: string
  cw_slot :: nat
  cw_facility_code :: string
  cw_card_number :: string
  cw_active :: "bool option"
  cw_pending :: "string option"
  cw_status :: string

type_synonym ledger = "card_row list"
type_synonym card_id = "string \<times> string"

definition entry_card :: "entry \<Rightarrow> card_id" where
  "entry_card e = (en_facility_code e, en_card_number e)"

definition dormant :: "entry \<Rightarrow> bool" where
  "dormant e \<longleftrightarrow> en_status e = Some ''dormant''"

definition row_key :: "card_row \<Rightarrow> string \<times> string" where
  "row_key r = (cw_person r, cw_credential r)"

definition row_order :: "card_row \<Rightarrow> string \<times> string \<times> nat" where
  "row_order r = (cw_person r, cw_credential r, cw_slot r)"

text \<open>\<open>f"{person}:{credential}"\<close>.\<close>

definition joined_key :: "string \<Rightarrow> string \<Rightarrow> string" where
  "joined_key p c = p @ '':'' @ c"

section \<open>Reads\<close>

definition entry_of :: "card_row \<Rightarrow> entry" where
  "entry_of r =
     \<lparr>en_slot = cw_slot r, en_facility_code = cw_facility_code r, en_card_number = cw_card_number r,
      en_active = cw_active r,
      en_pending = (if cw_pending r = Some '''' then None else cw_pending r),
      en_status = (if cw_status r = ''dormant'' then Some ''dormant'' else None)\<rparr>"

definition entries_where :: "(card_row \<Rightarrow> bool) \<Rightarrow> ledger \<Rightarrow> (string \<times> entry list) list" where
  "entries_where chosen rows =
     fold (\<lambda>r. dict_append (joined_key (cw_person r) (cw_credential r)) (entry_of r))
       (sort_key row_order (List.filter chosen rows)) []"

definition cards_all :: "ledger \<Rightarrow> (string \<times> entry list) list" where
  "cards_all rows = entries_where (\<lambda>_. True) rows"

definition cards_get :: "ledger \<Rightarrow> string \<Rightarrow> string \<Rightarrow> entry list" where
  "cards_get rows p c = dict_list (entries_where (\<lambda>r. row_key r = (p, c)) rows) (joined_key p c)"

text \<open>\<open>{key.partition(":")[2]: entries for ..}\<close>.\<close>

definition entries_for_person :: "ledger \<Rightarrow> string \<Rightarrow> (string \<times> entry list) list" where
  "entries_for_person rows p =
     fold (\<lambda>(k, es) d. AList.update (snd (py_partition (CHR '':'') k)) es d)
       (entries_where (\<lambda>r. cw_person r = p) rows) []"

definition cards_for_person :: "ledger \<Rightarrow> string \<Rightarrow> card_id list" where
  "cards_for_person rows p = concat (List.map (List.map entry_card \<circ> snd) (entries_for_person rows p))"

section \<open>Writes\<close>

text \<open>The last entry offered for a card is the live one; the first keeps the place.\<close>

definition dedupe :: "entry list \<Rightarrow> (card_id \<times> entry) list" where
  "dedupe es = fold (\<lambda>e d. AList.update (entry_card e) e d) es []"

text \<open>The Active box last known of each card, from the entries recorded before.\<close>

definition known_active :: "entry list \<Rightarrow> (card_id \<times> bool) list" where
  "known_active before =
     fold (\<lambda>e d. case en_active e of None \<Rightarrow> d | Some b \<Rightarrow> AList.update (entry_card e) b d) before []"

definition row_of :: "string \<Rightarrow> string \<Rightarrow> (card_id \<times> bool) list \<Rightarrow> card_id \<times> entry \<Rightarrow> card_row" where
  "row_of p c known ce =
     (let e = snd ce in
      \<lparr>cw_person = p, cw_credential = c, cw_slot = en_slot e,
       cw_facility_code = fst (fst ce), cw_card_number = snd (fst ce),
       cw_active = (case en_active e of Some b \<Rightarrow> Some b | None \<Rightarrow> map_of known (fst ce)),
       cw_pending = en_pending e,
       cw_status = (case en_status e of None \<Rightarrow> ''live'' | Some st \<Rightarrow> if st = '''' then ''live'' else st)\<rparr>)"

definition cards_forget :: "string \<Rightarrow> string \<Rightarrow> ledger \<Rightarrow> ledger" where
  "cards_forget p c rows = List.filter (\<lambda>r. row_key r \<noteq> (p, c)) rows"

definition cards_record :: "string \<Rightarrow> string \<Rightarrow> entry list \<Rightarrow> ledger \<Rightarrow> ledger" where
  "cards_record p c es rows =
     cards_forget p c rows @ List.map (row_of p c (known_active (cards_get rows p c))) (dedupe es)"

section \<open>The text key\<close>

lemma partition_joined: "CHR '':'' \<notin> set p \<Longrightarrow> py_partition (CHR '':'') (joined_key p c) = (p, c)"
  by (induction p) (auto simp: py_partition_def joined_key_def)

lemma joined_key_inject_person [simp]: "joined_key p c = joined_key p c' \<longleftrightarrow> c = c'"
  by (simp add: joined_key_def)

text \<open>
  Grouping the sorted rows under their text key: the group of a key is the rows with that key.
\<close>

lemma fold_append_groups:
  "dict_list (fold (\<lambda>r. dict_append (k r) (f r)) rows d) key =
     dict_list d key @ List.map f (List.filter (\<lambda>r. k r = key) rows)"
  by (induction rows arbitrary: d) auto

lemma fold_append_distinct:
  "distinct (List.map fst d) \<Longrightarrow> distinct (List.map fst (fold (\<lambda>r. dict_append (k r) (f r)) rows d))"
  by (induction rows arbitrary: d) (auto simp: distinct_dict_append)

lemma fold_append_keys:
  "fst ` set (fold (\<lambda>r. dict_append (k r) (f r)) rows d) = fst ` set d \<union> k ` set rows"
  by (induction rows arbitrary: d) (auto simp: dict_append_def dom_update)

text \<open>What \<open>get\<close> answers: the entries of the credential's rows, in slot order.\<close>

lemma filter_idem_all: "(\<And>x. x \<in> set xs \<Longrightarrow> P x) \<Longrightarrow> List.filter P xs = xs"
  by (simp add: filter_id_conv)

lemma cards_get_rows:
  "cards_get rows p c = List.map entry_of (sort_key row_order (List.filter (\<lambda>r. row_key r = (p, c)) rows))"
  by (simp add: cards_get_def entries_where_def fold_append_groups filter_id_conv row_key_def)


lemma cards_get_set: "set (cards_get rows p c) = entry_of ` {r \<in> set rows. row_key r = (p, c)}"
  by (simp add: cards_get_rows)

lemma row_key_row_of [simp]: "row_key (row_of p c known ce) = (p, c)"
  by (simp add: row_of_def row_key_def Let_def)

lemma entry_card_entry_of [simp]: "entry_card (entry_of r) = (cw_facility_code r, cw_card_number r)"
  by (simp add: entry_of_def entry_card_def)

section \<open>Deduplication\<close>

lemma fold_update_keys_distinct:
  "distinct (List.map fst d) \<Longrightarrow> distinct (List.map fst (fold (\<lambda>e. AList.update (k e) (v e)) es d))"
  by (induction es arbitrary: d) (auto simp: distinct_update)

lemma dedupe_distinct: "distinct (List.map fst (dedupe es))"
  using fold_update_keys_distinct [of "[]" entry_card "\<lambda>e. e" es] by (simp add: dedupe_def)

text \<open>Entries with different cards are recorded as they are, in their order.\<close>

lemma dedupe_distinct_cards:
  "distinct (List.map entry_card es) \<Longrightarrow> dedupe es = List.map (\<lambda>e. (entry_card e, e)) es"
  using fold_update_new [of "[]" entry_card es "\<lambda>e. e"] by (simp add: dedupe_def)

lemma dedupe_keys: "fst ` set (dedupe es) = entry_card ` set es"
proof -
  have "fst ` set (fold (\<lambda>e. AList.update (entry_card e) e) es d) = fst ` set d \<union> entry_card ` set es" for d
    by (induction es arbitrary: d) (auto simp: dom_update)
  then show ?thesis by (simp add: dedupe_def)
qed

section \<open>Reading back what was recorded\<close>

definition stored :: "entry list \<Rightarrow> entry \<Rightarrow> entry" where
  "stored before e =
     e\<lparr>en_active := (case en_active e of Some b \<Rightarrow> Some b | None \<Rightarrow> map_of (known_active before) (entry_card e)),
       en_pending := (if en_pending e = Some '''' then None else en_pending e),
       en_status := (if en_status e = Some ''dormant'' then Some ''dormant'' else None)\<rparr>"

lemma stored_card [simp]: "entry_card (stored before e) = entry_card e"
  by (simp add: stored_def entry_card_def)

lemma stored_fields:
  "en_slot (stored before e) = en_slot e"
  "en_pending e \<noteq> Some '''' \<Longrightarrow> en_pending (stored before e) = en_pending e"
  "dormant (stored before e) = dormant e"
  by (auto simp: stored_def dormant_def)

lemma entry_of_row_of: "entry_of (row_of p c (known_active before) (entry_card e, e)) = stored before e"
  by (cases e) (auto simp: entry_of_def row_of_def stored_def entry_card_def Let_def split: option.split)

lemma cards_get_record_cards:
  "entry_card ` set (cards_get (cards_record p c es rows) p c) = entry_card ` set es"
proof -
  have "set (cards_get (cards_record p c es rows) p c) =
      entry_of ` row_of p c (known_active (cards_get rows p c)) ` set (dedupe es)"
    by (auto simp: cards_get_set cards_record_def cards_forget_def)
  moreover have "entry_card (entry_of (row_of p c k ce)) = fst ce" for k ce
    by (simp add: row_of_def Let_def)
  ultimately show ?thesis by (simp add: image_image dedupe_keys)
qed

lemma cards_get_record:
  assumes "distinct (List.map entry_card es)"
  shows "set (cards_get (cards_record p c es rows) p c) = stored (cards_get rows p c) ` set es"
proof -
  have "set (cards_get (cards_record p c es rows) p c) =
      entry_of ` row_of p c (known_active (cards_get rows p c)) ` set (dedupe es)"
    by (auto simp: cards_get_set cards_record_def cards_forget_def)
  then show ?thesis using assms by (simp add: dedupe_distinct_cards image_image entry_of_row_of)
qed

lemma cards_get_forget: "cards_get (cards_forget p c rows) p' c' = (if p' = p \<and> c' = c then [] else cards_get rows p' c')"
proof -
  have "List.filter (\<lambda>r. row_key r = (p', c')) (cards_forget p c rows) =
      (if p' = p \<and> c' = c then [] else List.filter (\<lambda>r. row_key r = (p', c')) rows)"
    by (induction rows) (auto simp: cards_forget_def)
  then show ?thesis by (simp add: cards_get_rows)
qed

lemma cards_get_record_other:
  assumes "(p', c') \<noteq> (p, c)"
  shows "cards_get (cards_record p c es rows) p' c' = cards_get rows p' c'"
proof -
  have "List.filter (\<lambda>r. row_key r = (p', c')) (List.map (row_of p c k) xs) = []" for k xs
    using assms by (auto simp: filter_empty_conv)
  then show ?thesis using assms cards_get_forget [of p c rows p' c']
    by (auto simp: cards_get_rows cards_record_def)
qed

text \<open>No credential ever holds one card twice, once it has been recorded.\<close>

definition ledger_ok :: "ledger \<Rightarrow> bool" where
  "ledger_ok rows \<longleftrightarrow> distinct (List.map (\<lambda>r. (row_key r, cw_facility_code r, cw_card_number r)) rows)"

lemma ledger_ok_forget: "ledger_ok rows \<Longrightarrow> ledger_ok (cards_forget p c rows)"
  by (simp add: ledger_ok_def cards_forget_def distinct_map_filter)

lemma ledger_ok_record:
  assumes "ledger_ok rows"
  shows "ledger_ok (cards_record p c es rows)"
proof -
  let ?k = "\<lambda>r. (row_key r, cw_facility_code r, cw_card_number r)"
  have "List.map ?k (List.map (row_of p c known) xs) = List.map (Pair (p, c)) (List.map fst xs)" for known xs
    by (auto simp: row_of_def row_key_def Let_def)
  moreover have "distinct (List.map (Pair (p, c)) (List.map fst (dedupe es)))"
    using dedupe_distinct [of es] by (simp only: distinct_map inj_on_def) auto
  ultimately have "distinct (List.map ?k (List.map (row_of p c known) (dedupe es)))" for known
    by (simp only:)
  then show ?thesis using ledger_ok_forget [OF assms, of p c]
    by (auto simp: ledger_ok_def cards_record_def cards_forget_def)
qed

lemma cards_get_distinct:
  assumes "ledger_ok rows"
  shows "distinct (List.map entry_card (cards_get rows p c))"
proof -
  let ?rs = "List.filter (\<lambda>r. row_key r = (p, c)) rows"
  have "distinct (List.map (\<lambda>r. (row_key r, cw_facility_code r, cw_card_number r)) ?rs)"
    using assms by (simp add: ledger_ok_def distinct_map_filter)
  then have "distinct (List.map (\<lambda>r. (cw_facility_code r, cw_card_number r)) ?rs)"
    by (auto simp: distinct_map inj_on_def)
  then have "distinct (List.map (\<lambda>r. (cw_facility_code r, cw_card_number r)) (sort_key row_order ?rs))"
    by (simp add: distinct_map)
  then show ?thesis by (simp add: cards_get_rows comp_def)
qed


text \<open>The Active box last known survives a re-record of the same card.\<close>

lemma known_active_other:
  "x \<notin> entry_card ` set es \<Longrightarrow>
    map_of (fold (\<lambda>e d. case en_active e of None \<Rightarrow> d | Some b \<Rightarrow> AList.update (entry_card e) b d) es d) x = map_of d x"
  by (induction es arbitrary: d) (auto split: option.split)

lemma known_active_lookup:
  assumes "distinct (List.map entry_card before)" and "e \<in> set before"
  shows "map_of (known_active before) (entry_card e) = en_active e"
proof -
  have "map_of d (entry_card e) = None \<Longrightarrow>
    map_of (fold (\<lambda>e d. case en_active e of None \<Rightarrow> d | Some b \<Rightarrow> AList.update (entry_card e) b d) before d) (entry_card e)
      = en_active e" for d
    using assms
  proof (induction before arbitrary: d)
    case Nil
    then show ?case by simp
  next
    case (Cons b bs)
    show ?case
    proof (cases "b = e")
      case True
      then have "entry_card e \<notin> entry_card ` set bs" using Cons.prems(2) by auto
      then show ?thesis using True Cons.prems(1) by (auto simp: known_active_other split: option.split)
    next
      case False
      then have "e \<in> set bs" "entry_card b \<noteq> entry_card e" using Cons.prems(2,3) by auto
      then show ?thesis using Cons.prems by (auto intro!: Cons.IH split: option.split)
    qed
  qed
  then show ?thesis by (simp add: known_active_def)
qed

lemma stored_same:
  assumes "distinct (List.map entry_card before)" and "e \<in> set before" and "en_active e' = None"
    and "entry_card e' = entry_card e"
  shows "en_active (stored before e') = en_active e"
  using known_active_lookup [OF assms(1,2)] assms(3,4) by (simp add: stored_def)

section \<open>What the adapter relies on\<close>

text \<open>
  A ledger of cards: what is recorded for a pass is what is read back for it, each card once, and
  no other pass is touched.
\<close>

locale card_ledger =
  fixes get :: "'s \<Rightarrow> string \<Rightarrow> string \<Rightarrow> entry list"
    and put :: "string \<Rightarrow> string \<Rightarrow> entry list \<Rightarrow> 's \<Rightarrow> 's"
    and erase :: "string \<Rightarrow> string \<Rightarrow> 's \<Rightarrow> 's"
    and sound :: "'s \<Rightarrow> bool"
  assumes get_put: "distinct (List.map entry_card es) \<Longrightarrow>
      set (get (put p c es s) p c) = stored (get s p c) ` set es"
    and get_put_other: "(p', c') \<noteq> (p, c) \<Longrightarrow> get (put p c es s) p' c' = get s p' c'"
    and get_erase: "get (erase p c s) p c = []"
    and get_erase_other: "(p', c') \<noteq> (p, c) \<Longrightarrow> get (erase p c s) p' c' = get s p' c'"
    and get_distinct: "sound s \<Longrightarrow> distinct (List.map entry_card (get s p c))"
    and sound_put: "sound s \<Longrightarrow> sound (put p c es s)"
    and sound_erase: "sound s \<Longrightarrow> sound (erase p c s)"
begin

text \<open>Rewriting the entries of a pass in place: the cards stay, each with its new entry.\<close>

lemma rewrite_set:
  assumes "sound s" and "\<And>e. entry_card (f e) = entry_card e"
  shows "set (get (put p c (List.map f (get s p c)) s) p c) = (\<lambda>e. stored (get s p c) (f e)) ` set (get s p c)"
proof -
  have "distinct (List.map entry_card (List.map f (get s p c)))"
    using get_distinct [OF assms(1), of p c] assms(2) by (simp add: comp_def)
  then show ?thesis by (simp add: get_put image_image)
qed

lemma rewrite_cards:
  assumes "sound s" and "\<And>e. entry_card (f e) = entry_card e"
  shows "entry_card ` set (get (put p c (List.map f (get s p c)) s) p c) = entry_card ` set (get s p c)"
  using assms by (simp add: rewrite_set image_image)

text \<open>Adding entries for cards the pass does not have yet.\<close>

lemma extend_set:
  assumes "sound s" and "distinct (List.map entry_card new)"
    and "entry_card ` set new \<inter> entry_card ` set (get s p c) = {}"
  shows "set (get (put p c (get s p c @ new) s) p c) = stored (get s p c) ` (set (get s p c) \<union> set new)"
  using assms get_distinct [OF assms(1), of p c] by (subst get_put) auto

end

interpretation pc: card_ledger cards_get cards_record cards_forget ledger_ok
  by unfold_locales
    (auto simp: cards_get_record cards_get_record_other cards_get_forget cards_get_distinct
      ledger_ok_record ledger_ok_forget)

end
