(* ===== verification/Csv_Text.thy ===== *)
theory Csv_Text
  imports Hub_Prelude
begin

text \<open>
  Python's \<open>csv\<close> module with the default dialect, which the Millennium adapter reads its export
  with (\<open>csv.DictReader\<close>) and writes its import with (\<open>csv.writer\<close>, lines ended by CR LF). The
  reader is the library's character machine: it is fed one token per character and one after
  each line, raises on a bare carriage return inside a line, and keeps what an unfinished quote
  had collected. The library's limit on the length of a field is left out.
\<close>

section \<open>Reading\<close>

datatype csv_state = START_RECORD | START_FIELD | IN_FIELD | IN_QUOTED | QUOTE_IN_QUOTED | EAT_CRNL

text \<open>A token: a character of the text, or None where a line ends.\<close>

type_synonym csv_token = "char option"

fun csv_tokens :: "string \<Rightarrow> csv_token list" where
  "csv_tokens [] = []"
| "csv_tokens [c] = [Some c, None]"
| "csv_tokens (c # d # s) =
     (if c = CHR 0x0A then Some c # None # csv_tokens (d # s) else Some c # csv_tokens (d # s))"

definition newline_char :: "char \<Rightarrow> bool" where
  "newline_char c \<longleftrightarrow> c = CHR 0x0A \<or> c = CHR 0x0D"

text \<open>
  The machine: its state, the field being read, the fields of the record read so far and the
  records before it. The field and the lists are in the order they were read.
\<close>

record csv_machine =
  cm_state :: csv_state
  cm_field :: string
  cm_fields :: "string list"
  cm_records :: "string list list"

definition csv_start :: csv_machine where
  "csv_start = \<lparr>cm_state = START_RECORD, cm_field = [], cm_fields = [], cm_records = []\<rparr>"

definition add_char :: "char \<Rightarrow> csv_state \<Rightarrow> csv_machine \<Rightarrow> csv_machine" where
  "add_char c st m = m\<lparr>cm_state := st, cm_field := cm_field m @ [c]\<rparr>"

definition save_field :: "csv_state \<Rightarrow> csv_machine \<Rightarrow> csv_machine" where
  "save_field st m = m\<lparr>cm_state := st, cm_field := [], cm_fields := cm_fields m @ [cm_field m]\<rparr>"

definition end_record :: "csv_machine \<Rightarrow> csv_machine" where
  "end_record m = m\<lparr>cm_state := START_RECORD, cm_fields := [], cm_records := cm_records m @ [cm_fields m]\<rparr>"

definition csv_field_step :: "char \<Rightarrow> csv_machine \<Rightarrow> csv_machine" where
  "csv_field_step c m =
     (if newline_char c then save_field EAT_CRNL m
      else if c = CHR 0x22 then m\<lparr>cm_state := IN_QUOTED\<rparr>
      else if c = CHR '','' then save_field START_FIELD m
      else add_char c IN_FIELD m)"

fun csv_step :: "csv_token \<Rightarrow> csv_machine \<Rightarrow> csv_machine option" where
  "csv_step None m =
     (case cm_state m of
        START_RECORD \<Rightarrow> Some (end_record m)
      | START_FIELD \<Rightarrow> Some (end_record (save_field START_RECORD m))
      | IN_FIELD \<Rightarrow> Some (end_record (save_field START_RECORD m))
      | IN_QUOTED \<Rightarrow> Some m
      | QUOTE_IN_QUOTED \<Rightarrow> Some (end_record (save_field START_RECORD m))
      | EAT_CRNL \<Rightarrow> Some (end_record m))"
| "csv_step (Some c) m =
     (case cm_state m of
        START_RECORD \<Rightarrow> Some (if newline_char c then m\<lparr>cm_state := EAT_CRNL\<rparr> else csv_field_step c m)
      | START_FIELD \<Rightarrow> Some (csv_field_step c m)
      | IN_FIELD \<Rightarrow> Some (if newline_char c then save_field EAT_CRNL m
          else if c = CHR '','' then save_field START_FIELD m else add_char c IN_FIELD m)
      | IN_QUOTED \<Rightarrow> Some (if c = CHR 0x22 then m\<lparr>cm_state := QUOTE_IN_QUOTED\<rparr> else add_char c IN_QUOTED m)
      | QUOTE_IN_QUOTED \<Rightarrow> Some (if c = CHR 0x22 then add_char c IN_QUOTED m
          else if c = CHR '','' then save_field START_FIELD m
          else if newline_char c then save_field EAT_CRNL m else add_char c IN_FIELD m)
      | EAT_CRNL \<Rightarrow> (if newline_char c then Some m else None))"

fun csv_run :: "csv_token list \<Rightarrow> csv_machine \<Rightarrow> csv_machine option" where
  "csv_run [] m = Some m"
| "csv_run (t # ts) m = (case csv_step t m of None \<Rightarrow> None | Some m' \<Rightarrow> csv_run ts m')"

definition csv_records :: "string \<Rightarrow> exn + string list list" where
  "csv_records text =
     (case csv_run (csv_tokens text) csv_start of
        None \<Rightarrow> Inl (PyError ''Error'' ''new-line character seen in unquoted field'')
      | Some m \<Rightarrow> Inr (cm_records m @
          (if cm_field m \<noteq> [] \<or> cm_state m = IN_QUOTED then [cm_fields m @ [cm_field m]] else [])))"

text \<open>
  \<open>csv.DictReader\<close>: the first record names the columns, empty records are passed over, and a
  column named twice keeps its first place and its last value. A cell the record is too short
  for reads as None, like a column that is not there, and the surplus of a long record sits
  under a key no column has.
\<close>

definition dict_row :: "string list \<Rightarrow> string list \<Rightarrow> (string \<times> string) list" where
  "dict_row header cells = fold (\<lambda>(k, v) d. AList.update k v d) (zip header cells) []"

definition dict_reader :: "string \<Rightarrow> exn + (string \<times> string) list list" where
  "dict_reader text =
     (case csv_records text of
        Inl e \<Rightarrow> Inl e
      | Inr [] \<Rightarrow> Inr []
      | Inr (header # rows) \<Rightarrow> Inr (List.map (dict_row header) (List.filter (\<lambda>r. r \<noteq> []) rows)))"

section \<open>Writing\<close>

definition quote_needed :: "string \<Rightarrow> bool" where
  "quote_needed f \<longleftrightarrow> list_ex (\<lambda>c. c = CHR '','' \<or> c = CHR 0x22 \<or> newline_char c) f"

definition double_quotes :: "string \<Rightarrow> string" where
  "double_quotes f = concat (List.map (\<lambda>c. if c = CHR 0x22 then [c, c] else [c]) f)"

definition csv_field :: "string \<Rightarrow> string" where
  "csv_field f = (if quote_needed f then [CHR 0x22] @ double_quotes f @ [CHR 0x22] else f)"

text \<open>A record of one empty field is written as a pair of quotes, so that it is not an empty line.\<close>

definition csv_row :: "string list \<Rightarrow> string" where
  "csv_row cells = (if cells = [''''] then [CHR 0x22, CHR 0x22] else py_join '','' (List.map csv_field cells))
     @ [CHR 0x0D, CHR 0x0A]"

definition csv_write :: "string list list \<Rightarrow> string" where
  "csv_write rows = concat (List.map csv_row rows)"

section \<open>What is written reads back\<close>

lemma csv_run_append:
  "csv_run (xs @ ys) m = (case csv_run xs m of None \<Rightarrow> None | Some m' \<Rightarrow> csv_run ys m')"
  by (induction xs arbitrary: m) (auto split: option.splits)

text \<open>The tokens of a text: each line feed is followed by the end of its line.\<close>

definition line_token :: "char \<Rightarrow> csv_token list" where
  "line_token c = (if c = CHR 0x0A then [Some c, None] else [Some c])"

lemma csv_tokens_lines:
  "csv_tokens (s @ [CHR 0x0A]) = concat (List.map line_token (s @ [CHR 0x0A]))"
proof (induction s)
  case Nil
  then show ?case by (simp add: line_token_def)
next
  case (Cons c s)
  then show ?case
    by (cases "s @ [CHR 0x0A]") (auto simp: line_token_def)
qed

text \<open>Reading a quoted body appends it to the field, with its doubled quotes made single.\<close>

lemma run_quoted_body:
  "csv_run (concat (List.map line_token (double_quotes f))) m = Some (m\<lparr>cm_field := cm_field m @ f\<rparr>)"
  if "cm_state m = IN_QUOTED" for m :: csv_machine
  using that
proof (induction f arbitrary: m)
  case Nil
  then show ?case by (simp add: double_quotes_def)
next
  case (Cons c f)
  have step: "csv_run (concat (List.map line_token (if c = CHR 0x22 then [c, c] else [c]))) m
      = Some (m\<lparr>cm_field := cm_field m @ [c]\<rparr>)"
    using Cons.prems by (auto simp: line_token_def add_char_def)
  have "double_quotes (c # f) = (if c = CHR 0x22 then [c, c] else [c]) @ double_quotes f"
    by (simp add: double_quotes_def)
  then have "csv_run (concat (List.map line_token (double_quotes (c # f)))) m =
      csv_run (concat (List.map line_token (double_quotes f))) (m\<lparr>cm_field := cm_field m @ [c]\<rparr>)"
    using step by (simp only: map_append concat_append csv_run_append option.case)
  also have "\<dots> = Some (m\<lparr>cm_field := cm_field m @ (c # f)\<rparr>)"
    using Cons.prems by (simp add: Cons.IH)
  finally show ?case .
qed

lemma run_plain_body:
  "csv_run (concat (List.map line_token f)) m = Some (m\<lparr>cm_field := cm_field m @ f\<rparr>)"
  if "\<not> quote_needed f" "cm_state m = IN_FIELD" for m :: csv_machine
  using that
proof (induction f arbitrary: m)
  case Nil
  then show ?case by simp
next
  case (Cons c f)
  then show ?case
    by (simp add: quote_needed_def line_token_def newline_char_def add_char_def)
qed

text \<open>A field as written, read from the start of a field, leaves the field in hand.\<close>

definition field_done :: "string \<Rightarrow> csv_machine \<Rightarrow> csv_state \<Rightarrow> csv_machine" where
  "field_done f m st = m\<lparr>cm_state := st, cm_field := f\<rparr>"

lemma run_field:
  assumes "cm_state m = START_FIELD \<or> cm_state m = START_RECORD \<and> csv_field f \<noteq> []" and "cm_field m = []"
  shows "\<exists>st. csv_run (concat (List.map line_token (csv_field f))) m = Some (field_done f m st)
    \<and> st \<in> {START_FIELD, IN_FIELD, QUOTE_IN_QUOTED} \<and> (st = START_FIELD \<longrightarrow> f = [])"
proof (cases "quote_needed f")
  case True
  have "csv_run (concat (List.map line_token (csv_field f))) m =
      csv_run (concat (List.map line_token (double_quotes f @ [CHR 0x22]))) (m\<lparr>cm_state := IN_QUOTED\<rparr>)"
    using True assms
    by (auto simp: csv_field_def line_token_def csv_field_step_def newline_char_def)
  also have "\<dots> = Some (field_done f m QUOTE_IN_QUOTED)"
    using assms(2) by (simp add: csv_run_append run_quoted_body line_token_def field_done_def)
  finally show ?thesis by auto
next
  case False
  then have plain: "csv_field f = f" by (simp add: csv_field_def)
  show ?thesis
  proof (cases f)
    case Nil
    then have "cm_state m = START_FIELD" using assms(1) plain by auto
    then show ?thesis using Nil plain assms(2)
      by (intro exI [of _ START_FIELD]) (simp add: field_done_def)
  next
    case (Cons c g)
    have c: "c \<noteq> CHR 0x22" "c \<noteq> CHR '',''" "\<not> newline_char c" "\<not> quote_needed g"
      using False Cons by (auto simp: quote_needed_def)
    have "csv_run (concat (List.map line_token f)) m =
        csv_run (concat (List.map line_token g)) (m\<lparr>cm_state := IN_FIELD, cm_field := [c]\<rparr>)"
      using Cons c assms by (auto simp: line_token_def csv_field_step_def add_char_def newline_char_def)
    also have "\<dots> = Some (field_done f m IN_FIELD)"
      using c(4) Cons by (simp add: run_plain_body field_done_def)
    finally show ?thesis using plain by auto
  qed
qed

lemma run_field_end:
  assumes "st \<in> {START_FIELD, IN_FIELD, QUOTE_IN_QUOTED}"
  shows "csv_run [Some (CHR 0x0D), Some (CHR 0x0A), None] (field_done f m st) =
      Some (m\<lparr>cm_state := START_RECORD, cm_field := [], cm_fields := [],
              cm_records := cm_records m @ [cm_fields m @ [f]]\<rparr>)"
    and "csv_run [Some (CHR '','')] (field_done f m st) =
      Some (m\<lparr>cm_state := START_FIELD, cm_field := [], cm_fields := cm_fields m @ [f]\<rparr>)"
  using assms
  by (auto simp: field_done_def save_field_def end_record_def csv_field_step_def newline_char_def)

definition after_record :: "string list \<Rightarrow> csv_machine \<Rightarrow> csv_machine" where
  "after_record cells m = m\<lparr>cm_state := START_RECORD, cm_field := [], cm_fields := [],
     cm_records := cm_records m @ [cm_fields m @ cells]\<rparr>"

lemma line_tokens_end: "concat [line_token (CHR 0x0D), line_token (CHR 0x0A)] = [Some (CHR 0x0D), Some (CHR 0x0A), None]"
  by (simp add: line_token_def)

lemma run_fields:
  assumes "cells \<noteq> []"
    and "cm_state m = START_FIELD \<or> cm_state m = START_RECORD \<and> csv_field (hd cells) \<noteq> []" and "cm_field m = []"
  shows "csv_run (concat (List.map line_token (py_join '','' (List.map csv_field cells) @ [CHR 0x0D, CHR 0x0A]))) m
    = Some (after_record cells m)"
  using assms
proof (induction cells arbitrary: m)
  case Nil
  then show ?case by simp
next
  case (Cons f gs)
  obtain st where st: "csv_run (concat (List.map line_token (csv_field f))) m = Some (field_done f m st)"
    "st \<in> {START_FIELD, IN_FIELD, QUOTE_IN_QUOTED}"
    using run_field [of m f] Cons.prems by auto
  show ?case
  proof (cases gs)
    case Nil
    then show ?thesis using st run_field_end(1) [OF st(2)]
      by (simp only: list.map py_join.simps map_append concat_append csv_run_append option.case
          line_tokens_end after_record_def)
  next
    case (Cons g hs)
    let ?m = "m\<lparr>cm_state := START_FIELD, cm_field := [], cm_fields := cm_fields m @ [f]\<rparr>"
    have "csv_run (concat (List.map line_token (py_join '','' (List.map csv_field gs) @ [CHR 0x0D, CHR 0x0A]))) ?m
        = Some (after_record gs ?m)"
      using Cons by (intro Cons.IH) simp_all
    moreover have "concat (List.map line_token [CHR '','']) = [Some (CHR '','')]"
      by (simp add: line_token_def)
    moreover have "py_join '','' (List.map csv_field (f # gs)) =
        csv_field f @ [CHR '',''] @ py_join '','' (List.map csv_field gs)"
      using Cons by simp
    moreover have "after_record gs ?m = after_record (f # gs) m"
      by (simp add: after_record_def)
    ultimately show ?thesis using st(1) run_field_end(2) [OF st(2)]
      by (simp only: map_append concat_append csv_run_append append_assoc option.case)
  qed
qed

lemma run_row:
  assumes "cells \<noteq> []" and "cm_state m = START_RECORD" and "cm_field m = []" and "cm_fields m = []"
  shows "csv_run (concat (List.map line_token (csv_row cells))) m = Some (after_record cells m)"
proof (cases "cells = ['''']")
  case True
  then show ?thesis using assms
    by (simp add: csv_row_def line_token_def csv_field_step_def newline_char_def save_field_def
        end_record_def after_record_def)
next
  case False
  show ?thesis
  proof (cases "csv_field (hd cells) = []")
    case empty: True
    then have "hd cells = []" by (simp add: csv_field_def split: if_splits)
    then obtain g hs where c: "cells = [] # g # hs"
      using False assms(1) by (cases cells; cases "tl cells") auto
    let ?m = "m\<lparr>cm_state := START_FIELD, cm_field := [], cm_fields := [[]]\<rparr>"
    have "csv_run (concat (List.map line_token (py_join '','' (List.map csv_field (g # hs)) @ [CHR 0x0D, CHR 0x0A]))) ?m
        = Some (after_record (g # hs) ?m)"
      by (rule run_fields) simp_all
    moreover have "csv_row cells = CHR '','' # (py_join '','' (List.map csv_field (g # hs)) @ [CHR 0x0D, CHR 0x0A])"
      using c by (simp add: csv_row_def csv_field_def quote_needed_def)
    moreover have "csv_step (Some (CHR '','')) m = Some ?m"
      using assms by (simp add: csv_field_step_def newline_char_def save_field_def)
    moreover have "line_token (CHR '','') = [Some (CHR '','')]" by (simp add: line_token_def)
    moreover have "after_record (g # hs) ?m = after_record cells m"
      using c assms(4) by (simp add: after_record_def)
    ultimately show ?thesis
      by (simp only: list.map concat.simps append.simps csv_run.simps option.case)
  next
    case full: False
    then show ?thesis using False assms run_fields [of cells m] by (simp add: csv_row_def)
  qed
qed

lemma run_rows:
  assumes "\<forall>r\<in>set rows. r \<noteq> []" and "cm_state m = START_RECORD" and "cm_field m = []" and "cm_fields m = []"
  shows "csv_run (concat (List.map line_token (csv_write rows))) m = Some (m\<lparr>cm_records := cm_records m @ rows\<rparr>)"
  using assms
proof (induction rows arbitrary: m)
  case Nil
  then show ?case by (simp add: csv_write_def)
next
  case (Cons r rs)
  have r: "csv_run (concat (List.map line_token (csv_row r))) m = Some (after_record r m)"
    using Cons.prems by (intro run_row) simp_all
  have "csv_run (concat (List.map line_token (csv_write rs))) (after_record r m)
      = Some ((after_record r m)\<lparr>cm_records := cm_records (after_record r m) @ rs\<rparr>)"
    using Cons.prems by (intro Cons.IH) (simp_all add: after_record_def)
  moreover have "csv_write (r # rs) = csv_row r @ csv_write rs" by (simp add: csv_write_def)
  moreover have "(after_record r m)\<lparr>cm_records := cm_records (after_record r m) @ rs\<rparr>
      = m\<lparr>cm_records := cm_records m @ r # rs\<rparr>"
    using Cons.prems by (simp add: after_record_def)
  ultimately show ?case using r
    by (simp only: map_append concat_append csv_run_append option.case)
qed

lemma csv_write_snoc: "rows \<noteq> [] \<Longrightarrow> \<exists>s. csv_write rows = s @ [CHR 0x0A]"
proof (induction rows rule: rev_induct)
  case Nil
  then show ?case by simp
next
  case (snoc r rs)
  have "csv_write (rs @ [r]) = (csv_write rs @ (if r = [''''] then [CHR 0x22, CHR 0x22]
      else py_join '','' (List.map csv_field r)) @ [CHR 0x0D]) @ [CHR 0x0A]"
    by (simp add: csv_write_def csv_row_def)
  then show ?case by blast
qed

text \<open>What the writer writes, the reader reads back cell for cell, whatever the cells contain.\<close>

lemma csv_records_write:
  assumes "\<forall>r\<in>set rows. r \<noteq> []"
  shows "csv_records (csv_write rows) = Inr rows"
proof (cases "rows = []")
  case True
  then show ?thesis by (simp add: csv_write_def csv_records_def csv_start_def)
next
  case False
  then obtain s where "csv_write rows = s @ [CHR 0x0A]" using csv_write_snoc by blast
  then have "csv_tokens (csv_write rows) = concat (List.map line_token (csv_write rows))"
    using csv_tokens_lines [of s] by simp
  then show ?thesis using run_rows [OF assms, of csv_start]
    by (simp add: csv_records_def csv_start_def)
qed

end
