(* ===== verification/Mill_Export.thy ===== *)
theory Mill_Export
  imports Hub_Time Csv_Text
begin

text \<open>
  \<open>lib/pacs/millennium_ultra/export.py\<close>: the cardholder export, a CSV with one row per
  cardholder and the card columns repeated per slot, read into cardholders of three slots each.
  Unpacking the zip is left to the parameter that delivers the text.
\<close>

definition SLOTS :: "nat list" where
  "SLOTS = [1, 2, 3]"

record access_level =
  al_position :: nat
  al_name :: string
  al_activation :: string
  al_expiration :: string

record slot =
  sl_index :: nat
  sl_card_number :: string
  sl_facility_code :: string
  sl_card_format :: string
  sl_active :: bool
  sl_activation :: "datetime option"
  sl_expiration :: "datetime option"
  sl_access_levels :: "access_level list"

definition slot_empty :: "slot \<Rightarrow> bool" where
  "slot_empty s \<longleftrightarrow> sl_card_number s = ''''"

text \<open>\<open>(s.facility_code, s.card_number)\<close>, what the adapter knows a card by.\<close>

definition slot_card :: "slot \<Rightarrow> string \<times> string" where
  "slot_card s = (sl_facility_code s, sl_card_number s)"

record cardholder =
  ch_employee_id :: string
  ch_first_name :: string
  ch_last_name :: string
  ch_email :: string
  ch_phone :: string
  ch_slots :: "slot list"

section \<open>Dates\<close>

text \<open>
  One field of a \<open>strptime\<close> shape: one or two digits within bounds, then the rest. A day may
  be printed with a blank for its first digit.
\<close>

definition read_number :: "nat \<Rightarrow> nat \<Rightarrow> string \<Rightarrow> (int \<times> string) option" where
  "read_number lo hi s =
     (let two = take 2 s; ds = (if length two = 2 \<and> list_all is_digit two then two
                                else if s \<noteq> [] \<and> is_digit (hd s) then take 1 s else []);
          n = nat_of_digits ds
      in if ds \<noteq> [] \<and> lo \<le> n \<and> n \<le> hi then Some (int n, drop (length ds) s) else None)"

definition read_day :: "string \<Rightarrow> (int \<times> string) option" where
  "read_day s =
     (if take 1 s = '' '' then
        (if length s \<ge> 2 \<and> is_digit (s ! 1) \<and> s ! 1 \<noteq> CHR ''0'' then Some (int (digit_value (s ! 1)), drop 2 s) else None)
      else read_number 1 31 s)"

definition read_sep :: "char \<Rightarrow> string \<Rightarrow> string option" where
  "read_sep c s = (if take 1 s = [c] then Some (drop 1 s) else None)"

text \<open>The blank of a shape matches one or more whitespace characters.\<close>

definition read_blank :: "string \<Rightarrow> string option" where
  "read_blank s = (if s \<noteq> [] \<and> is_space (hd s) then Some (dropWhile is_space s) else None)"

definition read_us_date :: "string \<Rightarrow> (int \<times> string) option" where
  "read_us_date s =
     (case read_number 1 12 s of None \<Rightarrow> None | Some (m, s1) \<Rightarrow>
     (case read_sep (CHR ''/'') s1 of None \<Rightarrow> None | Some s2 \<Rightarrow>
     (case read_day s2 of None \<Rightarrow> None | Some (d, s3) \<Rightarrow>
     (case read_sep (CHR ''/'') s3 of None \<Rightarrow> None | Some s4 \<Rightarrow>
     (case take_digits 4 s4 of None \<Rightarrow> None | Some (y, s5) \<Rightarrow>
      if 1 \<le> y \<and> d \<le> days_in_month y m then Some (days_of_civil y m d, s5) else None)))))"

definition read_us_clock :: "nat \<Rightarrow> nat \<Rightarrow> string \<Rightarrow> (int \<times> int \<times> int \<times> string) option" where
  "read_us_clock lo hi s =
     (case read_number lo hi s of None \<Rightarrow> None | Some (h, s1) \<Rightarrow>
     (case read_sep (CHR '':'') s1 of None \<Rightarrow> None | Some s2 \<Rightarrow>
     (case read_number 0 59 s2 of None \<Rightarrow> None | Some (m, s3) \<Rightarrow>
     (case read_sep (CHR '':'') s3 of None \<Rightarrow> None | Some s4 \<Rightarrow>
     (case read_number 0 59 s4 of None \<Rightarrow> None | Some (sec, s5) \<Rightarrow> Some (h, m, sec, s5))))))"

text \<open>The two shapes of \<open>DATE_FORMATS\<close>, as seconds since 1970 of the fields read.\<close>

definition read_24h :: "string \<Rightarrow> int option" where
  "read_24h s =
     (case read_us_date s of None \<Rightarrow> None | Some (days, s1) \<Rightarrow>
     (case read_blank s1 of None \<Rightarrow> None | Some s2 \<Rightarrow>
     (case read_us_clock 0 23 s2 of
        Some (h, m, sec, []) \<Rightarrow> Some (days * 86400 + h * 3600 + m * 60 + sec)
      | _ \<Rightarrow> None)))"

definition read_12h :: "string \<Rightarrow> int option" where
  "read_12h s =
     (case read_us_date s of None \<Rightarrow> None | Some (days, s1) \<Rightarrow>
     (case read_blank s1 of None \<Rightarrow> None | Some s2 \<Rightarrow>
     (case read_us_clock 1 12 s2 of None \<Rightarrow> None | Some (h, m, sec, s3) \<Rightarrow>
     (case read_blank s3 of None \<Rightarrow> None | Some s4 \<Rightarrow>
        let half = (if py_lower s4 = ''am'' then Some 0 else if py_lower s4 = ''pm'' then Some 12 else None)
        in map_option (\<lambda>p. days * 86400 + (h mod 12 + p) * 3600 + m * 60 + sec) half))))"

text \<open>\<open>parse_datetime\<close>: an instant from text local to the install; None for anything unreadable.\<close>

definition parse_datetime :: "string \<Rightarrow> int \<Rightarrow> datetime option" where
  "parse_datetime value offset =
     (let v = py_strip value in
      if v = '''' then None else
      let secs = (case read_24h v of Some t \<Rightarrow> Some t | None \<Rightarrow> read_12h v)
      in map_option (\<lambda>t. utc_at ((t - offset) * 1000000)) secs)"

section \<open>Access levels\<close>

text \<open>Cutting a fixed text off the front.\<close>

definition cut_prefix :: "string \<Rightarrow> string \<Rightarrow> string option" where
  "cut_prefix p s = (if py_startswith s p then Some (drop (length p) s) else None)"

text \<open>The bracket that ends a level column: \<open> \[.*\]$\<close>, on one line.\<close>

definition level_bracket :: "string \<Rightarrow> bool" where
  "level_bracket s =
     (let t = (if s \<noteq> [] \<and> last s = CHR 0x0A then butlast s else s)
      in py_startswith t '' ['' \<and> length t \<ge> 3 \<and> last t = CHR '']'' \<and> list_all (\<lambda>c. c \<noteq> CHR 0x0A) t)"

text \<open>\<open>_LEVEL_COLUMN.match\<close>: the card, the position, and which of the three texts it holds.\<close>

definition level_column :: "string \<Rightarrow> (nat \<times> nat \<times> string) option" where
  "level_column column =
     (case cut_prefix ''Card '' column of None \<Rightarrow> None | Some s1 \<Rightarrow>
      if s1 = [] \<or> \<not> is_digit (hd s1) then None else
     (case cut_prefix '' Access Level '' (tl s1) of None \<Rightarrow> None | Some s2 \<Rightarrow>
      let ds = takeWhile is_digit s2; s3 = dropWhile is_digit s2;
          found = (\<lambda>which. (digit_value (hd s1), nat_of_digits ds, which)) in
      if ds = [] then None else
      if level_bracket s3 then Some (found ''name'') else
     (case cut_prefix '' Activation Date'' s3 of
        Some s4 \<Rightarrow> if level_bracket s4 then Some (found ''Activation'') else None
      | None \<Rightarrow>
     (case cut_prefix '' Expiration Date'' s3 of
        Some s4 \<Rightarrow> if level_bracket s4 then Some (found ''Expiration'') else None
      | None \<Rightarrow> None))))"

type_synonym level_texts = "((nat \<times> nat) \<times> (string \<times> string) list) list"

definition note_level :: "string \<times> string \<Rightarrow> level_texts \<Rightarrow> level_texts" where
  "note_level cell levels =
     (case level_column (fst cell) of
        None \<Rightarrow> levels
      | Some (c, position, which) \<Rightarrow>
          if py_strip (snd cell) = '''' then levels else
          let old = (case map_of levels (c, position) of None \<Rightarrow> [] | Some d \<Rightarrow> d)
          in AList.update (c, position) (AList.update which (py_strip (snd cell)) old) levels)"

definition read_levels :: "(string \<times> string) list \<Rightarrow> level_texts" where
  "read_levels row = fold note_level row []"

definition level_text :: "(string \<times> string) list \<Rightarrow> string \<Rightarrow> string" where
  "level_text d k = (case map_of d k of None \<Rightarrow> '''' | Some t \<Rightarrow> t)"

definition slot_levels :: "level_texts \<Rightarrow> nat \<Rightarrow> access_level list" where
  "slot_levels levels n =
     List.map (\<lambda>((c, position), d). \<lparr>al_position = position, al_name = level_text d ''name'',
         al_activation = level_text d ''Activation'', al_expiration = level_text d ''Expiration''\<rparr>)
       (List.filter (\<lambda>((c, position), d). c = n \<and> level_text d ''name'' \<noteq> '''') (sort_key fst levels))"

section \<open>Rows\<close>

definition cell :: "(string \<times> string) list \<Rightarrow> string \<Rightarrow> string" where
  "cell row name = (case map_of row name of None \<Rightarrow> '''' | Some v \<Rightarrow> py_strip v)"

definition card_cell :: "(string \<times> string) list \<Rightarrow> nat \<Rightarrow> string \<Rightarrow> string" where
  "card_cell row n label = cell row (''Card '' @ string_of_nat n @ '' '' @ label)"

definition read_slot :: "int \<Rightarrow> (string \<times> string) list \<Rightarrow> nat \<Rightarrow> slot" where
  "read_slot offset row n =
     \<lparr>sl_index = n,
      sl_card_number = card_cell row n ''Encoded Card No.'',
      sl_facility_code = card_cell row n ''Facility Code'',
      sl_card_format = card_cell row n ''Card Format'',
      sl_active = (py_lower (card_cell row n ''Active'') = ''true''),
      sl_activation = parse_datetime (card_cell row n ''Activation Date'') offset,
      sl_expiration = parse_datetime (card_cell row n ''Expiration Date'') offset,
      sl_access_levels = slot_levels (read_levels row) n\<rparr>"

definition read_cardholder :: "int \<Rightarrow> (string \<times> string) list \<Rightarrow> cardholder" where
  "read_cardholder offset row =
     \<lparr>ch_employee_id = cell row ''Employee ID'',
      ch_first_name = cell row ''First Name'',
      ch_last_name = cell row ''Last Name'',
      ch_email = cell row ''E-Mail'',
      ch_phone = cell row ''Phone'',
      ch_slots = List.map (read_slot offset row) SLOTS\<rparr>"

definition parse :: "string \<Rightarrow> int \<Rightarrow> exn + cardholder list" where
  "parse csv_text offset =
     (case dict_reader csv_text of
        Inl e \<Rightarrow> Inl e
      | Inr rows \<Rightarrow> Inr (List.map (read_cardholder offset) rows))"

section \<open>What the reading guarantees\<close>

lemma read_slot_index [simp]: "sl_index (read_slot offset row n) = n"
  by (simp add: read_slot_def)

lemma read_cardholder_slots: "List.map sl_index (ch_slots (read_cardholder offset row)) = SLOTS"
  by (simp add: read_cardholder_def SLOTS_def)

lemma parse_slots:
  "parse csv_text offset = Inr holders \<Longrightarrow> h \<in> set holders \<Longrightarrow> List.map sl_index (ch_slots h) = SLOTS"
  by (auto simp: parse_def read_cardholder_slots split: sum.splits)

text \<open>Every level has a name, belongs to the slot asked for and keeps the position it had.\<close>

lemma slot_levels_named: "l \<in> set (slot_levels levels n) \<Longrightarrow> al_name l \<noteq> ''''"
  by (auto simp: slot_levels_def)

text \<open>The two date shapes of the export, on the examples the code names.\<close>

lemma parse_datetime_examples:
  "parse_datetime ''04/30/2024 00:00:00'' 0 = Some (utc_at (days_of_civil 2024 4 30 * 86400000000))"
  "parse_datetime '' 9/11/2026 12:00:00 AM'' 0 = Some (utc_at (days_of_civil 2026 9 11 * 86400000000))"
  "parse_datetime ''9/11/2026 01:30:00 pm'' (- 3600) =
     Some (utc_at ((days_of_civil 2026 9 11 * 86400 + 14 * 3600 + 30 * 60) * 1000000))"
  "parse_datetime ''2/30/2026 00:00:00'' 0 = None"
  "parse_datetime '''' 0 = None"
  by code_simp+

lemma level_column_examples:
  "level_column ''Card 1 Access Level 3 Activation Date [Global]'' = Some (1, 3, ''Activation'')"
  "level_column ''Card 2 Access Level 10 [Any Tenant]'' = Some (2, 10, ''name'')"
  "level_column ''Card 1 Access Level 3 Date [Global]'' = None"
  by code_simp+

end
