(* ===== verification/Mill_Import.thy ===== *)
theory Mill_Import
  imports Mill_Export
begin

text \<open>
  \<open>lib/pacs/millennium_ultra/import_file.py\<close>: building the cardholder import and reading the
  log Millennium answers with. A row carries the cells to set on one cardholder, keyed by card
  (0 for the cardholder) and field label; rows that set different cells never share a file.
\<close>

type_synonym column = "nat \<times> string"

text \<open>Millennium's field ids; None is the \<open>KeyError\<close> of an unknown label.\<close>

definition level_label :: "nat \<Rightarrow> string" where
  "level_label position = ''Access Level '' @ string_of_nat position"

definition FIELD_IDS :: "(string \<times> nat) list" where
  "FIELD_IDS =
     [(''First Name'', 1), (''Last Name'', 2), (''Employee ID'', 4), (''Encoded Card No.'', 16),
      (''Activation Date'', 17), (''Expiration Date'', 18), (''Active'', 19), (''Card Format'', 20),
      (''Facility Code'', 21)]
     @ concat (List.map (\<lambda>p. [(level_label p, 200 + p - 1),
         (level_label p @ '' Activation Date'', 456 + p - 1),
         (level_label p @ '' Expiration Date'', 712 + p - 1)]) [1..<11])"

definition CARD_IDENTITY :: "string list" where
  "CARD_IDENTITY = [''Encoded Card No.'', ''Facility Code'']"

definition KEY_COLUMNS :: "column list" where
  "KEY_COLUMNS = [(0, ''Employee ID''), (0, ''First Name''), (0, ''Last Name'')]"

record row =
  ro_employee_id :: string
  ro_first_name :: string
  ro_last_name :: string
  ro_cells :: "(column \<times> string) list"

definition columns :: "row \<Rightarrow> column list" where
  "columns r = KEY_COLUMNS @ sort (List.map fst (ro_cells r))"

text \<open>\<open>values()[column]\<close>: a cell of the row's own overrides the three key cells.\<close>

definition row_value :: "row \<Rightarrow> column \<Rightarrow> string option" where
  "row_value r c =
     (case map_of (ro_cells r) c of
        Some v \<Rightarrow> Some v
      | None \<Rightarrow> map_of [((0, ''Employee ID''), ro_employee_id r), ((0, ''First Name''), ro_first_name r),
                        ((0, ''Last Name''), ro_last_name r)] c)"

definition access_level_cells :: "nat \<Rightarrow> access_level list \<Rightarrow> (column \<times> string) list" where
  "access_level_cells crd levels =
     fold (\<lambda>l cells.
       let c1 = AList.update (crd, level_label (al_position l)) (al_name l) cells;
           c2 = (if al_activation l \<noteq> '''' then AList.update (crd, level_label (al_position l) @ '' Activation Date'') (al_activation l) c1 else c1)
       in (if al_expiration l \<noteq> '''' then AList.update (crd, level_label (al_position l) @ '' Expiration Date'') (al_expiration l) c2 else c2))
       levels []"

section \<open>The file\<close>

record import_field =
  if_card :: nat
  if_id :: nat
  if_name :: string
  if_tenant :: nat
  if_index :: nat
  if_header :: string

record import_file =
  im_csv :: string
  im_fields :: "import_field list"

definition column_name :: "column \<Rightarrow> string" where
  "column_name c = (if fst c = 0 then snd c else ''Card '' @ string_of_nat (fst c) @ '' '' @ snd c)"

text \<open>\<open>name.replace(" ", "")\<close>.\<close>

definition drop_blanks :: "string \<Rightarrow> string" where
  "drop_blanks s = List.filter (\<lambda>c. c \<noteq> CHR '' '') s"

definition import_cells :: "column list \<Rightarrow> row list \<Rightarrow> string list list" where
  "import_cells cols rows = List.map (drop_blanks \<circ> column_name) cols
     # List.map (\<lambda>r. List.map (\<lambda>c. case row_value r c of None \<Rightarrow> '''' | Some v \<Rightarrow> v) cols) rows"

definition import_field_of :: "nat \<times> column \<Rightarrow> exn + import_field" where
  "import_field_of ic =
     (case map_of FIELD_IDS (snd (snd ic)) of
        None \<Rightarrow> Inl (PyError ''KeyError'' (snd (snd ic)))
      | Some i \<Rightarrow> Inr \<lparr>if_card = fst (snd ic), if_id = i, if_name = column_name (snd ic), if_tenant = 0,
                       if_index = fst ic, if_header = drop_blanks (column_name (snd ic))\<rparr>)"

text \<open>A list of outcomes, or the first exception.\<close>

fun all_or_error :: "('x \<Rightarrow> exn + 'y) \<Rightarrow> 'x list \<Rightarrow> exn + 'y list" where
  "all_or_error f [] = Inr []"
| "all_or_error f (x # xs) =
     (case f x of Inl e \<Rightarrow> Inl e | Inr y \<Rightarrow>
      (case all_or_error f xs of Inl e \<Rightarrow> Inl e | Inr ys \<Rightarrow> Inr (y # ys)))"

definition make_file :: "column list \<times> row list \<Rightarrow> exn + import_file" where
  "make_file g =
     (case all_or_error import_field_of (enumerate 0 (fst g)) of
        Inl e \<Rightarrow> Inl e
      | Inr fs \<Rightarrow> Inr \<lparr>im_csv = csv_write (import_cells (fst g) (snd g)), im_fields = fs\<rparr>)"

text \<open>Every card a row names must carry its number and facility code, or the build raises.\<close>

definition row_cards :: "row \<Rightarrow> nat list" where
  "row_cards r = remdups (List.filter (\<lambda>c. c \<noteq> 0) (List.map (fst \<circ> fst) (ro_cells r)))"

definition missing_identity :: "row \<Rightarrow> nat \<Rightarrow> string list" where
  "missing_identity r crd =
     List.filter (\<lambda>l. map_of (ro_cells r) (crd, l) = None \<or> map_of (ro_cells r) (crd, l) = Some '''') CARD_IDENTITY"

definition check_row :: "row \<Rightarrow> exn option" where
  "check_row r =
     (case List.find (\<lambda>c. missing_identity r c \<noteq> []) (row_cards r) of
        None \<Rightarrow> None
      | Some c \<Rightarrow> Some (PyError ''ValueError'' (''Employee ID '' @ ro_employee_id r @ '', card '' @ string_of_nat c
          @ '': no '' @ py_join '', '' (missing_identity r c))))"

fun group_rows :: "row list \<Rightarrow> (column list \<times> row list) list \<Rightarrow> exn + (column list \<times> row list) list" where
  "group_rows [] groups = Inr groups"
| "group_rows (r # rs) groups =
     (case check_row r of Some e \<Rightarrow> Inl e | None \<Rightarrow> group_rows rs (dict_append (columns r) r groups))"

definition build :: "row list \<Rightarrow> exn + import_file list" where
  "build rows = (case group_rows rows [] of Inl e \<Rightarrow> Inl e | Inr groups \<Rightarrow> all_or_error make_file groups)"

section \<open>The log\<close>

record import_log =
  lg_counts :: "(string \<times> nat) list"
  lg_warnings :: "string list"
  lg_errors :: "string list"
  lg_skips :: "string list"

text \<open>\<open>_LINE\<close>: after the first bar with text before it that a level and a second bar follow.\<close>

definition level_after :: "string \<Rightarrow> (string \<times> string) option" where
  "level_after s =
     (let t = dropWhile is_space s;
          level = List.find (\<lambda>l. py_startswith t l) [''Information'', ''Warning'', ''Error''] in
      case level of None \<Rightarrow> None | Some l \<Rightarrow>
        let u = dropWhile is_space (drop (length l) t) in
        if take 1 u = ''|'' then Some (l, dropWhile is_space (drop 1 u)) else None)"

fun line_match_from :: "string \<Rightarrow> (string \<times> string) option" where
  "line_match_from [] = None"
| "line_match_from (c # s) =
     (case (if c = CHR ''|'' then level_after s else None) of
        Some m \<Rightarrow> Some m
      | None \<Rightarrow> line_match_from s)"

definition line_match :: "string \<Rightarrow> (string \<times> string) option" where
  "line_match s = line_match_from (tl s)"

text \<open>\<open>_COUNT\<close>: an indented number and what it counts, without a trailing remark.\<close>

definition count_remark :: string where
  "count_remark = '' (see reasons above)''"

definition count_match :: "string \<Rightarrow> (nat \<times> string) option" where
  "count_match s =
     (let t = dropWhile is_space s; ds = takeWhile is_digit t; u = dropWhile is_digit t in
      if length t = length s \<or> ds = [] \<or> take 1 u \<noteq> '' '' \<or> length u < 2 then None
      else let label = drop 1 u; n = length label - length count_remark in
        Some (nat_of_digits ds,
              if length label > length count_remark \<and> drop n label = count_remark then take n label else label))"

definition log_line :: "string \<Rightarrow> import_log \<Rightarrow> import_log" where
  "log_line line lg =
     (case line_match line of
        Some (level, message) \<Rightarrow>
          let m = py_strip message;
              l1 = (if py_contains message ''has been skipped'' then lg\<lparr>lg_skips := lg_skips lg @ [m]\<rparr> else lg)
          in if level = ''Warning'' then l1\<lparr>lg_warnings := lg_warnings l1 @ [m]\<rparr>
             else if level = ''Error'' then l1\<lparr>lg_errors := lg_errors l1 @ [m]\<rparr> else l1
      | None \<Rightarrow>
          (case count_match line of
             None \<Rightarrow> lg
           | Some (n, label) \<Rightarrow> lg\<lparr>lg_counts := AList.update label n (lg_counts lg)\<rparr>))"

definition parse_log :: "string \<Rightarrow> import_log" where
  "parse_log text = fold log_line (splitlines text) \<lparr>lg_counts = [], lg_warnings = [], lg_errors = [], lg_skips = []\<rparr>"

text \<open>\<open>re.search\<close> for \<open>'Employee ID:([^']*)'\<close>.\<close>

fun search_employee :: "string \<Rightarrow> string option" where
  "search_employee [] = None"
| "search_employee (c # s) =
     (case cut_prefix (CHR 0x27 # ''Employee ID:'') (c # s) of
        Some t \<Rightarrow> if CHR 0x27 \<in> set t then Some (takeWhile (\<lambda>d. d \<noteq> CHR 0x27) t) else search_employee s
      | None \<Rightarrow> search_employee s)"

definition skipped :: "import_log \<Rightarrow> string list" where
  "skipped lg = List.map_filter search_employee (lg_skips lg @ lg_warnings lg)"

text \<open>
  \<open>re.search\<close> for \<open>Card '([^,']+),\s*([^']+)' has been skipped\<close>: facility code, then number.
\<close>

definition card_at :: "string \<Rightarrow> (string \<times> string) option" where
  "card_at s =
     (case cut_prefix (''Card '' @ [CHR 0x27]) s of None \<Rightarrow> None | Some t \<Rightarrow>
      let number = takeWhile (\<lambda>c. c \<noteq> CHR '','' \<and> c \<noteq> CHR 0x27) t;
          u = dropWhile (\<lambda>c. c \<noteq> CHR '','' \<and> c \<noteq> CHR 0x27) t in
      if number = [] \<or> take 1 u \<noteq> '','' then None else
      let facility = takeWhile (\<lambda>c. c \<noteq> CHR 0x27) (drop 1 u);
          v = dropWhile (\<lambda>c. c \<noteq> CHR 0x27) (drop 1 u) in
      if facility \<noteq> [] \<and> py_startswith v (CHR 0x27 # '' has been skipped'')
      then Some (py_strip facility, py_strip number) else None)"

fun search_card :: "string \<Rightarrow> (string \<times> string) option" where
  "search_card [] = None"
| "search_card (c # s) = (case card_at (c # s) of Some k \<Rightarrow> Some k | None \<Rightarrow> search_card s)"

definition skipped_cards :: "import_log \<Rightarrow> (string \<times> string) list" where
  "skipped_cards lg = List.map_filter search_card (lg_skips lg)"

section \<open>What the build guarantees\<close>

lemma all_or_error_Inr:
  "all_or_error f xs = Inr ys \<Longrightarrow> List.map f xs = List.map Inr ys"
  by (induction xs arbitrary: ys) (auto split: sum.splits)

lemma all_or_error_member:
  assumes "all_or_error f xs = Inr ys" and "y \<in> set ys"
  obtains x where "x \<in> set xs" "f x = Inr y"
proof -
  have "Inr y \<in> set (List.map f xs)" using assms all_or_error_Inr [of f xs ys] by simp
  then show ?thesis using that by auto
qed

text \<open>A column of a row's file is a column the row has a value for: nothing is sent empty by accident.\<close>

lemma row_value_columns:
  "c \<in> set (columns r) \<Longrightarrow> \<exists>v. row_value r c = Some v \<and> (c \<in> fst ` set (ro_cells r) \<longrightarrow> map_of (ro_cells r) c = Some v)"
proof (cases "map_of (ro_cells r) c")
  case None
  then have "c \<notin> fst ` set (ro_cells r)" by (simp add: map_of_eq_None_iff)
  moreover assume "c \<in> set (columns r)"
  ultimately show ?thesis using None by (auto simp: columns_def row_value_def KEY_COLUMNS_def)
qed (simp add: row_value_def)

text \<open>Each group is exactly the rows with its columns, in their order.\<close>

lemma group_rows_spec:
  assumes "group_rows rows groups = Inr out" and "distinct (List.map fst groups)"
  shows "dict_list out cols = dict_list groups cols @ List.filter (\<lambda>r. columns r = cols) rows
    \<and> distinct (List.map fst out) \<and> (\<forall>r\<in>set rows. check_row r = None)"
  using assms
proof (induction rows arbitrary: groups)
  case Nil
  then show ?case by simp
next
  case (Cons r rows)
  have "check_row r = None" and rest: "group_rows rows (dict_append (columns r) r groups) = Inr out"
    using Cons.prems(1) by (auto split: option.splits)
  then show ?case using Cons.IH [OF rest] Cons.prems(2) by (simp add: distinct_dict_append)
qed

lemma dict_list_member: "distinct (List.map fst d) \<Longrightarrow> (k, xs) \<in> set d \<Longrightarrow> dict_list d k = xs"
  by (simp add: dict_list_def)

lemma group_rows_member:
  assumes "group_rows rows [] = Inr groups" and "(cols, rs) \<in> set groups"
  shows "rs = List.filter (\<lambda>r. columns r = cols) rows"
  using group_rows_spec [OF assms(1), of cols] dict_list_member [OF _ assms(2)] by simp

text \<open>A row with an unidentified card stops the whole build.\<close>

lemma group_rows_error:
  "r \<in> set rows \<Longrightarrow> check_row r \<noteq> None \<Longrightarrow> \<exists>e. group_rows rows groups = Inl e"
  by (induction rows arbitrary: groups) (auto split: option.splits)

lemma make_file_csv: "make_file g = Inr f \<Longrightarrow> im_csv f = csv_write (import_cells (fst g) (snd g))"
  by (auto simp: make_file_def split: sum.splits)

lemma columns_nonempty [simp]: "columns r \<noteq> []"
  by (simp add: columns_def KEY_COLUMNS_def)

lemma import_cells_nonempty: "cols \<noteq> [] \<Longrightarrow> r \<in> set (import_cells cols rows) \<Longrightarrow> r \<noteq> []"
  by (auto simp: import_cells_def)

text \<open>The cells of a file, read back from its text.\<close>

lemma make_file_reads_back:
  assumes "make_file (cols, rs) = Inr f" and "cols \<noteq> []"
  shows "csv_records (im_csv f) = Inr (import_cells cols rs)"
  using assms make_file_csv [OF assms(1)] by (simp add: csv_records_write import_cells_nonempty)

lemma group_rows_keys:
  "group_rows rows groups = Inr out \<Longrightarrow> fst ` set out = fst ` set groups \<union> columns ` set rows"
proof (induction rows arbitrary: groups)
  case Nil
  then show ?case by simp
next
  case (Cons r rows)
  then have "group_rows rows (dict_append (columns r) r groups) = Inr out"
    by (auto split: option.splits)
  then show ?case using Cons.IH by (auto simp: dict_append_def dom_update)
qed

text \<open>One import file per distinct set of columns, each the cells of exactly the rows that set them.\<close>

lemma build_spec:
  assumes "build rows = Inr files" and "f \<in> set files"
  obtains cols rs where "rs = List.filter (\<lambda>r. columns r = cols) rows" "rs \<noteq> []"
    "make_file (cols, rs) = Inr f"
proof -
  obtain groups where g: "group_rows rows [] = Inr groups" and fs: "all_or_error make_file groups = Inr files"
    using assms(1) by (auto simp: build_def split: sum.splits)
  obtain cols rs where m: "(cols, rs) \<in> set groups" "make_file (cols, rs) = Inr f"
    using all_or_error_member [OF fs assms(2)] by (metis surj_pair)
  then have "cols \<in> columns ` set rows" using group_rows_keys [OF g] by force
  then have "List.filter (\<lambda>r. columns r = cols) rows \<noteq> []" by (auto simp: filter_empty_conv)
  then show ?thesis using that group_rows_member [OF g m(1)] m(2) by blast
qed

lemma build_checks: "build rows = Inr files \<Longrightarrow> r \<in> set rows \<Longrightarrow> check_row r = None"
  using group_rows_error [of r rows "[]"] by (cases "check_row r") (auto simp: build_def split: sum.splits)

end
