(* ===== verification/Mill_State.thy ===== *)
theory Mill_State
  imports Pacs_Contract Tracking Pacs_Cards Mill_Import
begin

text \<open>
  The Millennium Ultra adapter (\<open>lib/pacs/millennium_ultra/adapter.py\<close>): its state, its settings,
  the client it drives the install with, and the roster. The client is a parameter, a record of
  functions over a state \<open>'c\<close> that stands for the Millennium install; the tables of the hub's
  own database that the adapter reads or writes are part of the adapter's state.
\<close>

record 'c mill_client =
  mc_card_formats :: "('c, (string \<times> string) list) comp"
  mc_get_cardholder_form :: "string \<Rightarrow> ('c, string \<Rightarrow> string) comp"
  mc_export_cardholders :: "('c, string) comp"
  mc_import_cardholders :: "import_file \<Rightarrow> ('c, import_log) comp"
  mc_delete_card_by_number :: "string \<Rightarrow> string \<Rightarrow> string \<Rightarrow> ('c, bool) comp"

record mill_cfg =
  mf_seos :: bool
  mf_pair :: bool
  mf_format_id :: string
  mf_email_domain :: string
  mf_offset :: int
  mf_now :: int
  mf_dry :: bool

record 'c mill =
  ms_holders :: "(string \<times> cardholder) list"
  ms_ours :: "string list"
  ms_label :: string
  ms_config_label :: string
  ms_migrated :: bool
  ms_cards :: ledger
  ms_rows :: table
  ms_problems :: "string list"
  ms_site :: 'c

text \<open>A call on the client: only the install changes.\<close>

definition on_site :: "('c, 'a) comp \<Rightarrow> ('c mill, 'a) comp" where
  "on_site m s = (let (r, c) = m (ms_site s) in (r, s\<lparr>ms_site := c\<rparr>))"

definition record_cards :: "string \<Rightarrow> string \<Rightarrow> entry list \<Rightarrow> 'c mill \<Rightarrow> 'c mill" where
  "record_cards p c es s = s\<lparr>ms_cards := cards_record p c es (ms_cards s)\<rparr>"

definition forget_cards :: "string \<Rightarrow> string \<Rightarrow> 'c mill \<Rightarrow> 'c mill" where
  "forget_cards p c s = s\<lparr>ms_cards := cards_forget p c (ms_cards s)\<rparr>"

definition UNWRITTEN :: "string list" where
  "UNWRITTEN = [''write'', ''insert'']"

definition pending_in :: "entry \<Rightarrow> string list \<Rightarrow> bool" where
  "pending_in e ps \<longleftrightarrow> (case en_pending e of None \<Rightarrow> False | Some p \<Rightarrow> p \<in> set ps)"

text \<open>\<open>{(s.facility_code, s.card_number): s for s in slots if not s.empty}\<close>: the last slot with a card wins.\<close>

definition slot_with :: "slot list \<Rightarrow> card_id \<Rightarrow> slot option" where
  "slot_with slots k = List.find (\<lambda>s. \<not> slot_empty s \<and> slot_card s = k) (rev slots)"

definition is_trigger :: "string \<Rightarrow> slot \<Rightarrow> bool" where
  "is_trigger lbl s \<longleftrightarrow> lbl \<noteq> '''' \<and> sl_card_format s = lbl \<and> \<not> slot_empty s"

text \<open>\<open>_card_problem\<close>: the key of the notice mailed to the operator.\<close>

definition card_problem :: "string \<Rightarrow> card_id \<Rightarrow> 'c mill \<Rightarrow> 'c mill" where
  "card_problem pid k s = s\<lparr>ms_problems := ms_problems s @ [pid @ '':'' @ fst k @ ''/'' @ snd k]\<rparr>"

definition tracked_pass :: "'c mill \<Rightarrow> string \<Rightarrow> string option \<Rightarrow> bool" where
  "tracked_pass s pid cid \<longleftrightarrow> (\<exists>r\<in>set (ms_rows s). t_person_id r = pid \<and> t_status r \<noteq> ''deleted'' \<and> has_card r
     \<and> (case cid of None \<Rightarrow> True | Some c \<Rightarrow> t_credential_id r = c))"

lemma slot_with_SomeD: "slot_with slots k = Some s \<Longrightarrow> s \<in> set slots \<and> \<not> slot_empty s \<and> slot_card s = k"
  by (auto simp: slot_with_def dest: find_SomeD)

lemma slot_with_None: "slot_with slots k = None \<longleftrightarrow> (\<forall>s\<in>set slots. \<not> slot_empty s \<longrightarrow> slot_card s \<noteq> k)"
  by (auto simp: slot_with_def find_None_iff_all)

section \<open>The roster\<close>

definition first_valid_email :: "string \<Rightarrow> string" where
  "first_valid_email candidate =
     (let v = py_strip candidate in
      if v = '''' \<or> CHR '' '' \<in> set v then '''' else
      let (local, domain) = py_partition (CHR ''@'') v in
      if local \<noteq> '''' \<and> CHR ''.'' \<in> set domain then v else '''')"

text \<open>\<open>re.sub(r"[^a-z0-9]", "", p.lower())\<close>.\<close>

definition plain_part :: "string \<Rightarrow> string" where
  "plain_part p = List.filter (\<lambda>c. is_digit c \<or> (let n = (of_char c :: nat) in 97 \<le> n \<and> n \<le> 122)) (py_lower p)"

definition synthesize_email :: "string \<Rightarrow> string \<Rightarrow> string \<Rightarrow> string \<Rightarrow> string" where
  "synthesize_email first_name last_name employee_id domain =
     (if employee_id = '''' then '''' else
      let d = dropWhile (\<lambda>c. c = CHR ''@'') (py_strip domain) in
      if d = '''' then '''' else
      py_join ''.'' (List.filter (\<lambda>p. p \<noteq> '''') [plain_part first_name, plain_part last_name] @ [employee_id]) @ ''@'' @ d)"

definition holder_email :: "mill_cfg \<Rightarrow> cardholder \<Rightarrow> string" where
  "holder_email cfg h =
     (let e = first_valid_email (ch_email h) in
      if e \<noteq> '''' then e
      else synthesize_email (ch_first_name h) (ch_last_name h) (ch_employee_id h) (mf_email_domain cfg))"

definition holder_name :: "cardholder \<Rightarrow> string" where
  "holder_name h = py_join '' '' (List.filter (\<lambda>p. p \<noteq> '''') [ch_first_name h, ch_last_name h])"

definition holder_person :: "mill_cfg \<Rightarrow> string \<Rightarrow> cardholder \<Rightarrow> person" where
  "holder_person cfg eid h = (mk_person eid (holder_name h))
     \<lparr>pe_first_name := ch_first_name h, pe_last_name := ch_last_name h, pe_email := holder_email cfg h,
      pe_phone := ch_phone h\<rparr>"

text \<open>Cardholders by Employee ID; one without an id, and an id that names two, are left out.\<close>

definition by_employee_id :: "cardholder list \<Rightarrow> (string \<times> cardholder list) list" where
  "by_employee_id holders =
     fold (\<lambda>h. dict_append (ch_employee_id h) h) (List.filter (\<lambda>h. ch_employee_id h \<noteq> '''') holders) []"

definition unique_holders :: "cardholder list \<Rightarrow> (string \<times> cardholder) list" where
  "unique_holders holders =
     List.map (\<lambda>(eid, hs). (eid, hd hs)) (List.filter (\<lambda>(eid, hs). length hs \<le> 1) (by_employee_id holders))"

definition no_rows :: string where
  "no_rows = ''Millennium'' @ [CHR 0x27] @ ''s export came back empty''"

definition read_roster :: "mill_cfg \<Rightarrow> 'c mill_client \<Rightarrow> ('c mill, person list) comp" where
  "read_roster cfg cl s =
     (if ms_label s = '''' then
        (Inl (MillenniumError ''the trigger card format has no stored name -- pick it again in Settings''), s)
      else
       (case on_site (mc_export_cardholders cl) s of
          (Inl e, s1) \<Rightarrow> (Inl e, s1)
        | (Inr text, s1) \<Rightarrow>
            (case parse text (mf_offset cfg) of
               Inl e \<Rightarrow> (Inl e, s1)
             | Inr [] \<Rightarrow> (Inl (MillenniumError no_rows), s1)
             | Inr (h # hs) \<Rightarrow>
                 let holders = unique_holders (h # hs);
                     ours = remdups (List.map (fst \<circ> py_partition (CHR '':'') \<circ> fst) (cards_all (ms_cards s1)))
                 in (Inr (List.map (\<lambda>(eid, h). holder_person cfg eid h) holders),
                     s1\<lparr>ms_holders := holders, ms_ours := ours\<rparr>))))"

section \<open>What the roster guarantees\<close>

lemma by_employee_id_list:
  "dict_list (by_employee_id holders) eid = List.filter (\<lambda>h. ch_employee_id h = eid \<and> ch_employee_id h \<noteq> '''') holders"
  by (simp add: by_employee_id_def fold_append_groups conj_commute)

lemma by_employee_id_distinct: "distinct (List.map fst (by_employee_id holders))"
  by (simp add: by_employee_id_def fold_append_distinct)

lemma by_employee_id_keys: "fst ` set (by_employee_id holders) = {ch_employee_id h | h. h \<in> set holders \<and> ch_employee_id h \<noteq> ''''}"
  by (auto simp: by_employee_id_def fold_append_keys)

text \<open>An Employee ID is kept when exactly one row of the export carries it, with that row.\<close>

lemma unique_holders_iff:
  "(eid, h) \<in> set (unique_holders holders) \<longleftrightarrow> eid \<noteq> '''' \<and> List.filter (\<lambda>h. ch_employee_id h = eid) holders = [h]"
proof -
  let ?hs = "List.filter (\<lambda>h. ch_employee_id h = eid \<and> ch_employee_id h \<noteq> '''') holders"
  have member: "(eid, hs) \<in> set (by_employee_id holders) \<longleftrightarrow> hs = ?hs \<and> hs \<noteq> []" for hs
  proof
    assume m: "(eid, hs) \<in> set (by_employee_id holders)"
    then have "hs = ?hs"
      using dict_list_member [OF by_employee_id_distinct m] by (simp add: by_employee_id_list)
    moreover have "eid \<in> fst ` set (by_employee_id holders)" using m by force
    ultimately show "hs = ?hs \<and> hs \<noteq> []"
      by (auto simp: by_employee_id_keys filter_empty_conv)
  next
    assume hs: "hs = ?hs \<and> hs \<noteq> []"
    then have "eid \<in> fst ` set (by_employee_id holders)"
      by (force simp: by_employee_id_keys filter_empty_conv)
    then obtain hs' where m: "(eid, hs') \<in> set (by_employee_id holders)" by auto
    then show "(eid, hs) \<in> set (by_employee_id holders)"
      using hs dict_list_member [OF by_employee_id_distinct m] by (simp add: by_employee_id_list)
  qed
  have "(eid, h) \<in> set (unique_holders holders) \<longleftrightarrow> (\<exists>hs. (eid, hs) \<in> set (by_employee_id holders) \<and> length hs \<le> 1 \<and> h = hd hs)"
    by (force simp: unique_holders_def)
  also have "\<dots> \<longleftrightarrow> ?hs \<noteq> [] \<and> length ?hs \<le> 1 \<and> h = hd ?hs"
    by (simp add: member)
  also have "\<dots> \<longleftrightarrow> ?hs = [h]"
    by (cases ?hs) auto
  also have "?hs = (if eid = '''' then [] else List.filter (\<lambda>h. ch_employee_id h = eid) holders)"
    by (auto intro: filter_cong)
  finally show ?thesis by auto
qed

lemma unique_holders_distinct: "distinct (List.map fst (unique_holders holders))"
proof -
  have "List.map fst (unique_holders holders) = List.map fst (List.filter (\<lambda>(eid, hs). length hs \<le> 1) (by_employee_id holders))"
    by (auto simp: unique_holders_def)
  then show ?thesis using by_employee_id_distinct [of holders] by (simp add: distinct_map_filter)
qed

end
