(* ===== verification/Mill_Cards.thy ===== *)
theory Mill_Cards
  imports Mill_State
begin

text \<open>
  Reading a cardholder's credentials (\<open>adapter.py\<close>: \<open>list_credentials\<close> and what it calls). Each
  trigger-format slot is matched against the ledger; a new one is recorded there and then. The
  ledger entries of the cardholder are worked on in memory, as the code works on the
  dictionary \<open>mine\<close>, and written back entry by entry.
\<close>

type_synonym mine = "(string \<times> entry list) list"

section \<open>Housekeeping before the read\<close>

definition card_gone :: "slot list \<Rightarrow> entry \<Rightarrow> bool" where
  "card_gone slots e \<longleftrightarrow> slot_with slots (entry_card e) = None"

definition forget_if_nothing_remains :: "string \<Rightarrow> slot list \<Rightarrow> 'c mill \<Rightarrow> 'c mill" where
  "forget_if_nothing_remains pid slots s =
     fold (\<lambda>(cid, es) t. if list_all (card_gone slots) es then forget_cards pid cid t else t)
       (entries_for_person (ms_cards s) pid) s"

definition slot_id :: "slot \<Rightarrow> string" where
  "slot_id sl = ''slot'' @ string_of_nat (sl_index sl)"

definition slot_entry :: "slot \<Rightarrow> string option \<Rightarrow> entry" where
  "slot_entry sl pending = \<lparr>en_slot = sl_index sl, en_facility_code = sl_facility_code sl,
     en_card_number = sl_card_number sl, en_active = None, en_pending = pending, en_status = None\<rparr>"

text \<open>\<open>_adopt_slot_ids\<close>, on the tracked rows whose id is like \<open>slot%\<close> (SQL's LIKE ignores case).\<close>

definition adopt_slot_ids :: "string \<Rightarrow> slot list \<Rightarrow> 'c mill \<Rightarrow> 'c mill" where
  "adopt_slot_ids pid slots s =
     (if entries_for_person (ms_cards s) pid \<noteq> [] then s else
      fold (\<lambda>r t.
          case List.find (\<lambda>sl. slot_id sl = t_credential_id r \<and> is_trigger (ms_label t) sl) slots of
            None \<Rightarrow> t
          | Some sl \<Rightarrow> record_cards pid (t_credential_id r) [slot_entry sl None] t)
        (List.filter (\<lambda>r. t_person_id r = pid \<and> t_status r \<noteq> ''deleted''
           \<and> py_startswith (py_lower (t_credential_id r)) ''slot'') (ms_rows s)) s)"

section \<open>Matching the slots against the ledger\<close>

text \<open>A card of ours on the cardholder in another format is dormant, and holds its pass.\<close>

definition is_dormant :: "string \<Rightarrow> slot list \<Rightarrow> entry \<Rightarrow> bool" where
  "is_dormant lbl slots e \<longleftrightarrow>
     (case slot_with slots (entry_card e) of None \<Rightarrow> False | Some sl \<Rightarrow> \<not> is_trigger lbl sl)"

definition note_dormant :: "string \<Rightarrow> slot list \<Rightarrow> entry \<Rightarrow> entry" where
  "note_dormant lbl slots e =
     (if is_dormant lbl slots e \<noteq> dormant e
      then e\<lparr>en_status := Some (if is_dormant lbl slots e then ''dormant'' else ''live'')\<rparr> else e)"

record matching =
  mt_mine :: mine
  mt_held :: "string list"

definition dormant_step :: "string \<Rightarrow> slot list \<Rightarrow> string \<times> entry list \<Rightarrow> matching \<times> 'c mill \<Rightarrow> matching \<times> 'c mill" where
  "dormant_step pid slots ce ms =
     (let (cid, es) = ce; (m, s) = ms; es' = List.map (note_dormant (ms_label s) slots) es;
          m' = \<lparr>mt_mine = AList.update cid es' (mt_mine m),
                mt_held = (if list_ex (is_dormant (ms_label s) slots) es then mt_held m @ [cid] else mt_held m)\<rparr>
      in (m', if list_ex (\<lambda>e. is_dormant (ms_label s) slots e \<noteq> dormant e) es
              then record_cards pid cid es' s else s))"

definition owner_of :: "mine \<Rightarrow> card_id \<Rightarrow> string option" where
  "owner_of mine k = map_option fst (List.find (\<lambda>(cid, es). list_ex (\<lambda>e. entry_card e = k) es) mine)"

text \<open>The card moved to this slot: every entry of it follows.\<close>

definition follow_slot :: "slot \<Rightarrow> entry \<Rightarrow> entry" where
  "follow_slot sl e = (if entry_card e = slot_card sl then e\<lparr>en_slot := sl_index sl\<rparr> else e)"

definition recorded_in :: "mine \<Rightarrow> nat \<Rightarrow> entry option" where
  "recorded_in mine i =
     List.find (\<lambda>e. en_slot e = i \<and> en_pending e \<noteq> Some ''insert'') (concat (List.map snd mine))"

definition card_recorded_elsewhere :: "'c mill \<Rightarrow> string \<Rightarrow> card_id \<Rightarrow> bool" where
  "card_recorded_elsewhere s pid k \<longleftrightarrow>
     list_ex (\<lambda>(key, es). fst (py_partition (CHR '':'') key) \<noteq> pid \<and> list_ex (\<lambda>e. entry_card e = k) es)
       (cards_all (ms_cards s))"

definition has_room :: "mill_cfg \<Rightarrow> slot list \<Rightarrow> bool" where
  "has_room cfg slots \<longleftrightarrow> (if mf_seos cfg \<and> mf_pair cfg then 1 else 0) \<le> length (List.filter slot_empty slots)"

text \<open>\<open>card\<close>, then \<open>card-2\<close>, \<open>card-3\<close>, up to the first the cardholder has no pass under.\<close>

definition nth_card_id :: "nat \<Rightarrow> string" where
  "nth_card_id n = (if n = 1 then ''card'' else ''card-'' @ string_of_nat n)"

definition fresh_card_id :: "mine \<Rightarrow> string" where
  "fresh_card_id mine =
     (case List.find (\<lambda>i. i \<notin> fst ` set mine) (List.map nth_card_id [1..<length mine + 2]) of
        Some i \<Rightarrow> i | None \<Rightarrow> '''')"

definition new_pass :: "mill_cfg \<Rightarrow> string \<Rightarrow> slot \<Rightarrow> matching \<times> 'c mill \<Rightarrow> matching \<times> 'c mill" where
  "new_pass cfg pid sl ms =
     (let (m, s) = ms; cid = fresh_card_id (mt_mine m);
          es = [slot_entry sl (if mf_seos cfg then Some ''write'' else None)]
      in (m\<lparr>mt_mine := mt_mine m @ [(cid, es)]\<rparr>, record_cards pid cid es s))"

definition slot_step :: "mill_cfg \<Rightarrow> string \<Rightarrow> slot list \<Rightarrow> slot \<Rightarrow> matching \<times> 'c mill \<Rightarrow> matching \<times> 'c mill" where
  "slot_step cfg pid slots sl ms =
     (let (m, s) = ms; mine = mt_mine m; k = slot_card sl in
      if \<not> is_trigger (ms_label s) sl then ms else
      (case owner_of mine k of
         Some cid \<Rightarrow>
           let es = dict_list mine cid; es' = List.map (follow_slot sl) es in
           if list_ex (\<lambda>e. entry_card e = k \<and> en_slot e \<noteq> sl_index sl) es
           then (m\<lparr>mt_mine := AList.update cid es' mine\<rparr>, record_cards pid cid es' s) else ms
       | None \<Rightarrow>
           (case recorded_in mine (sl_index sl) of
              Some e \<Rightarrow>
                (m\<lparr>mt_held := mt_held m @ List.map fst (List.filter (\<lambda>(cid, es). e \<in> set es) mine)\<rparr>,
                 card_problem pid k s)
            | None \<Rightarrow>
                if mine = [] \<and> (card_recorded_elsewhere s pid k \<or> tracked_pass s pid None)
                then (m, card_problem pid k s)
                else if \<not> has_room cfg slots then ms
                else new_pass cfg pid sl ms)))"

section \<open>The credential of a pass\<close>

definition desfire_credential :: "string \<Rightarrow> string \<Rightarrow> entry list \<Rightarrow> slot list \<Rightarrow> credential option" where
  "desfire_credential pid cid es slots =
     (case List.find (\<lambda>sl. slot_card sl \<in> entry_card ` set es) slots of
        None \<Rightarrow> None
      | Some sl \<Rightarrow> Some ((mk_credential cid pid)
          \<lparr>cr_card_number := sl_card_number sl, cr_site_code := sl_facility_code sl,
           cr_status := (if sl_active sl then ACTIVE else SUSPENDED),
           cr_activate_date := sl_activation sl, cr_deactivate_date := sl_expiration sl,
           cr_trigger_active := True\<rparr>))"

text \<open>\<open>min(dates)\<close> and \<open>max(dates)\<close>, None for no dates.\<close>

fun earliest :: "datetime list \<Rightarrow> datetime option" where
  "earliest [] = None"
| "earliest (d # ds) = Some (fold (\<lambda>x m. if dt_before x m then x else m) ds d)"

fun latest :: "datetime list \<Rightarrow> datetime option" where
  "latest [] = None"
| "latest (d # ds) = Some (fold (\<lambda>x m. if dt_before m x then x else m) ds d)"

definition written_entries :: "entry list \<Rightarrow> entry list" where
  "written_entries es = List.filter (\<lambda>e. \<not> pending_in e UNWRITTEN) es"

text \<open>The loop over the written cards: SUSPENDED ends it, our own hold does not.\<close>

fun cards_status :: "slot list \<Rightarrow> entry list \<Rightarrow> bool \<Rightarrow> cred_status" where
  "cards_status slots [] waiting = (if waiting then AWAITING_INSTALL else ACTIVE)"
| "cards_status slots (e # es) waiting =
     (case slot_with slots (entry_card e) of
        None \<Rightarrow> SUSPENDED
      | Some sl \<Rightarrow>
          if sl_active sl then cards_status slots es waiting
          else if en_active e = Some False then cards_status slots es True
          else SUSPENDED)"

definition seos_credential :: "int \<Rightarrow> string \<Rightarrow> string \<Rightarrow> entry list \<Rightarrow> slot list \<Rightarrow> credential option" where
  "seos_credential now pid cid es slots =
     (let written = written_entries es;
          recorded = List.map_filter (\<lambda>e. slot_with slots (entry_card e)) written;
          ends = earliest (List.map_filter sl_expiration recorded);
          starts = latest (List.map_filter sl_activation recorded);
          st = cards_status slots written False;
          not_yet = (case starts of None \<Rightarrow> False | Some d \<Rightarrow> now < dt_us d)
      in Some ((mk_credential cid pid)
          \<lparr>cr_status := (if st = ACTIVE \<and> not_yet then SUSPENDED else st),
           cr_activate_date := starts, cr_deactivate_date := ends,
           cr_trigger_active := True, cr_allocate_identity := True\<rparr>))"

definition build_credential :: "mill_cfg \<Rightarrow> string \<Rightarrow> string \<Rightarrow> entry list \<Rightarrow> slot list \<Rightarrow> credential option" where
  "build_credential cfg pid cid es slots =
     (if mf_seos cfg then seos_credential (mf_now cfg) pid cid es slots else desfire_credential pid cid es slots)"

definition held_credential :: "string \<Rightarrow> string \<Rightarrow> entry list \<Rightarrow> credential" where
  "held_credential pid cid es = (mk_credential cid pid)
     \<lparr>cr_trigger_active := True, cr_card_number := en_card_number (hd es), cr_site_code := en_facility_code (hd es)\<rparr>"

definition report_pass :: "mill_cfg \<Rightarrow> string \<Rightarrow> slot list \<Rightarrow> string list \<Rightarrow> string \<times> entry list
    \<Rightarrow> credential list \<times> 'c mill \<Rightarrow> credential list \<times> 'c mill" where
  "report_pass cfg pid slots held ce os =
     (let (cid, es) = ce; (out, s) = os in
      if list_all (\<lambda>e. en_pending e = Some ''write'') es \<and> \<not> tracked_pass s pid (Some cid) \<and> \<not> has_room cfg slots
      then os else
      (case build_credential cfg pid cid es slots of
         Some c \<Rightarrow> (out @ [c\<lparr>cr_hold := cid \<in> set held\<rparr>], s)
       | None \<Rightarrow>
           if cid \<in> set held then (out @ [(held_credential pid cid es)\<lparr>cr_hold := True\<rparr>], s)
           else (out, forget_cards pid cid s)))"

definition match_slots :: "mill_cfg \<Rightarrow> string \<Rightarrow> slot list \<Rightarrow> 'c mill \<Rightarrow> matching \<times> 'c mill" where
  "match_slots cfg pid slots s =
     (let mine = entries_for_person (ms_cards s) pid
      in fold (slot_step cfg pid slots) slots
           (fold (dormant_step pid slots) mine (\<lparr>mt_mine = mine, mt_held = []\<rparr>, s)))"

definition credentials_of :: "mill_cfg \<Rightarrow> string \<Rightarrow> slot list \<Rightarrow> 'c mill \<Rightarrow> credential list \<times> 'c mill" where
  "credentials_of cfg pid slots s =
     (let (m, s1) = match_slots cfg pid slots s
      in fold (report_pass cfg pid slots (mt_held m)) (sort_key fst (mt_mine m)) ([], s1))"

definition list_credentials :: "mill_cfg \<Rightarrow> string \<Rightarrow> ('c mill, credential list) comp" where
  "list_credentials cfg pid s =
     (case map_of (ms_holders s) pid of
        None \<Rightarrow> (Inl (PacsRecordUnavailable (''cardholder '' @ pid @ '' is not in this cycle'' @ [CHR 0x27] @ ''s export'')), s)
      | Some h \<Rightarrow>
          let slots = ch_slots h;
              s1 = (if mf_seos cfg then s else adopt_slot_ids pid slots s);
              s2 = (if mf_seos cfg \<and> pid \<in> set (ms_ours s1) \<and> \<not> list_ex (is_trigger (ms_label s1)) slots
                    then forget_if_nothing_remains pid slots s1 else s1);
              (out, s3) = credentials_of cfg pid slots s2
          in (Inr out, s3))"

end
