(* ===== verification/Mill_Migrate.thy ===== *)
theory Mill_Migrate
  imports Mill_State
begin

text \<open>
  \<open>lib/pacs/millennium_ultra/migrate.py\<close>: the one-time move of the tracking table and the card
  ledger from Millennium's record ids to Employee IDs, run before the first roster is read. Until
  it succeeds every cycle fails; the move itself is one database transaction.
\<close>

definition is_auth_error :: "exn \<Rightarrow> bool" where
  "is_auth_error e \<longleftrightarrow> (case e of MillenniumAuthError _ \<Rightarrow> True | _ \<Rightarrow> False)"

text \<open>The trigger format's display name, for an install that never stored it.\<close>

definition fill_label :: "mill_cfg \<Rightarrow> 'c mill_client \<Rightarrow> ('c mill, unit) comp" where
  "fill_label cfg cl s =
     (if ms_label s \<noteq> '''' then (Inr (), s) else
      (case on_site (mc_card_formats cl) s of
         (Inl e, s1) \<Rightarrow> (Inl e, s1)
       | (Inr formats, s1) \<Rightarrow>
           (case map_of (rev formats) (mf_format_id cfg) of
              None \<Rightarrow> (Inr (), s1)
            | Some lbl \<Rightarrow> (Inr (), if lbl = '''' then s1 else s1\<lparr>ms_config_label := lbl, ms_label := lbl\<rparr>))))"

definition record_ids :: "'c mill \<Rightarrow> string list" where
  "record_ids s = sort (remdups (List.map t_person_id (ms_rows s) @ List.map cw_person (ms_cards s)))"

record findings =
  mg_employee_ids :: "(string \<times> string) list"
  mg_gone :: "string list"
  mg_problems :: nat

text \<open>One record's page: its Employee ID, a record that is gone, or a problem that stops the move.\<close>

definition read_record :: "'c mill_client \<Rightarrow> string \<Rightarrow> findings \<Rightarrow> ('c mill, findings) comp" where
  "read_record cl rid m s =
     (case on_site (mc_get_cardholder_form cl rid) s of
        (Inl e, s1) \<Rightarrow> if is_auth_error e then (Inl e, s1) else (Inr (m\<lparr>mg_problems := mg_problems m + 1\<rparr>), s1)
      | (Inr form, s1) \<Rightarrow>
          if py_strip (form ''ID'') \<noteq> rid then (Inr (m\<lparr>mg_gone := mg_gone m @ [rid]\<rparr>), s1)
          else if py_strip (form ''EmployeeID'') = '''' then (Inr (m\<lparr>mg_problems := mg_problems m + 1\<rparr>), s1)
          else (Inr (m\<lparr>mg_employee_ids := AList.update rid (py_strip (form ''EmployeeID'')) (mg_employee_ids m)\<rparr>), s1))"

definition shared_ids :: "(string \<times> string) list \<Rightarrow> (string \<times> string list) list" where
  "shared_ids eids = List.filter (\<lambda>(eid, rids). length rids > 1)
     (fold (\<lambda>(rid, eid). dict_append eid rid) eids [])"

section \<open>The move\<close>

definition migrating :: "string \<Rightarrow> string" where
  "migrating rid = ''migrating:'' @ rid"

definition gone_key :: "string \<Rightarrow> string" where
  "gone_key rid = ''gone:'' @ rid"

text \<open>\<open>UPDATE ag_credentials SET .. WHERE ..\<close>; None is the primary key violated.\<close>

definition sql_rows :: "(tracked \<Rightarrow> bool) \<Rightarrow> (tracked \<Rightarrow> tracked) \<Rightarrow> table \<Rightarrow> table option" where
  "sql_rows chosen f rows =
     (let rows' = List.map (\<lambda>r. if chosen r then f r else r) rows in if table_ok t_key rows' then Some rows' else None)"

definition move_rows :: "string \<Rightarrow> (tracked \<Rightarrow> tracked) \<Rightarrow> table \<Rightarrow> table option" where
  "move_rows from f rows = sql_rows (\<lambda>r. t_person_id r = from) f rows"

definition to_employee :: "string \<Rightarrow> tracked \<Rightarrow> tracked" where
  "to_employee eid r = r\<lparr>t_person_id := eid, t_employee_id := eid\<rparr>"

definition to_person :: "string \<Rightarrow> tracked \<Rightarrow> tracked" where
  "to_person p r = r\<lparr>t_person_id := p\<rparr>"

definition move_cards :: "string \<Rightarrow> string \<Rightarrow> ledger \<Rightarrow> ledger" where
  "move_cards from p cards = List.map (\<lambda>w. if cw_person w = from then w\<lparr>cw_person := p\<rparr> else w) cards"

fun move_employees :: "(string \<times> string) list \<Rightarrow> table \<times> ledger \<Rightarrow> (table \<times> ledger) option" where
  "move_employees [] d = Some d"
| "move_employees ((rid, eid) # ms) d =
     (case move_rows (migrating rid) (to_employee eid) (fst d) of
        None \<Rightarrow> None
      | Some rows \<Rightarrow> move_employees ms (rows, move_cards (migrating rid) eid (snd d)))"

fun move_gone :: "string list \<Rightarrow> table \<times> ledger \<Rightarrow> (table \<times> ledger) option" where
  "move_gone [] d = Some d"
| "move_gone (rid # rids) d =
     (case move_rows (migrating rid) (to_person (gone_key rid)) (fst d) of
        None \<Rightarrow> None
      | Some rows \<Rightarrow> move_gone rids (rows, move_cards (migrating rid) (gone_key rid) (snd d)))"

definition move_all :: "(string \<times> string) list \<Rightarrow> string list \<Rightarrow> table \<times> ledger \<Rightarrow> (table \<times> ledger) option" where
  "move_all eids gone d =
     (case sql_rows (\<lambda>_. True) (\<lambda>r. to_person (migrating (t_person_id r)) r) (fst d) of
        None \<Rightarrow> None
      | Some rows \<Rightarrow>
          (case move_employees eids (rows, List.map (\<lambda>w. w\<lparr>cw_person := migrating (cw_person w)\<rparr>) (snd d)) of
             None \<Rightarrow> None
           | Some d' \<Rightarrow> move_gone gone d'))"

text \<open>The transaction: either the tables as moved and the flag set, or everything as it was.\<close>

definition commit_move :: "findings \<Rightarrow> ('c mill, unit) comp" where
  "commit_move m s =
     (case move_all (mg_employee_ids m) (mg_gone m) (ms_rows s, ms_cards s) of
        None \<Rightarrow> (Inl (PyError ''IntegrityError'' ''UNIQUE constraint failed''), s)
      | Some (rows, cards) \<Rightarrow> (Inr (), s\<lparr>ms_rows := rows, ms_cards := cards, ms_migrated := True\<rparr>))"

definition migrate_ensure :: "mill_cfg \<Rightarrow> 'c mill_client \<Rightarrow> ('c mill, unit) comp" where
  "migrate_ensure cfg cl s =
     (if ms_migrated s then (Inr (), s) else
      (case fill_label cfg cl s of
         (Inl e, s1) \<Rightarrow> (Inl e, s1)
       | (Inr _, s1) \<Rightarrow>
           (case for_each (read_record cl) (record_ids s1)
                   \<lparr>mg_employee_ids = [], mg_gone = [], mg_problems = 0\<rparr> s1 of
              (Inl e, s2) \<Rightarrow> (Inl e, s2)
            | (Inr m, s2) \<Rightarrow>
                if mg_problems m + length (shared_ids (mg_employee_ids m)) > 0
                then (Inl (MillenniumError (string_of_nat (mg_problems m + length (shared_ids (mg_employee_ids m)))
                       @ '' cardholder(s) cannot move to Employee IDs yet -- fix them in Millennium; nothing syncs until they are'')), s2)
                else commit_move m s2)))"

definition list_people :: "mill_cfg \<Rightarrow> 'c mill_client \<Rightarrow> ('c mill, person list) comp" where
  "list_people cfg cl s =
     (case migrate_ensure cfg cl s of
        (Inl e, s1) \<Rightarrow> (Inl e, s1)
      | (Inr _, s1) \<Rightarrow> read_roster cfg cl s1)"

section \<open>What the pages establish\<close>

text \<open>The tables are only read while the pages are.\<close>

definition same_tables :: "'c mill \<Rightarrow> 'c mill \<Rightarrow> bool" where
  "same_tables s t \<longleftrightarrow> ms_rows t = ms_rows s \<and> ms_cards t = ms_cards s \<and> ms_migrated t = ms_migrated s"

lemma on_site_frame:
  "on_site m s = (r, t) \<Longrightarrow> t = s\<lparr>ms_site := snd (m (ms_site s))\<rparr> \<and> r = fst (m (ms_site s))"
  by (auto simp: on_site_def split: prod.splits)

lemma fill_label_tables: "fill_label cfg cl s = (r, t) \<Longrightarrow> same_tables s t"
  by (auto simp: fill_label_def same_tables_def split: if_splits prod.splits sum.splits option.splits dest: on_site_frame)

lemma read_record_tables: "read_record cl rid m s = (r, t) \<Longrightarrow> same_tables s t"
  by (auto simp: read_record_def same_tables_def split: if_splits prod.splits sum.splits dest: on_site_frame)

lemma read_records_tables:
  assumes "for_each (read_record cl) rids m s = (r, t)"
  shows "same_tables s t"
proof -
  have "same_tables s (snd (for_each (read_record cl) rids m s))"
  proof (rule for_each_invariant)
    show "same_tables s s" by (simp add: same_tables_def)
  next
    fix rid m' t'
    assume "same_tables s t'"
    moreover have "same_tables t' (snd (read_record cl rid m' t'))"
      by (rule read_record_tables) (rule surjective_pairing)
    ultimately show "same_tables s (snd (read_record cl rid m' t'))" by (simp add: same_tables_def)
  qed
  then show ?thesis using assms by simp
qed

text \<open>
  What the pages said, when none was a problem: each record is either matched with a non-empty
  Employee ID or gone, never both, in the order of the ids.
\<close>

definition findings_cover :: "string list \<Rightarrow> findings \<Rightarrow> bool" where
  "findings_cover rids m \<longleftrightarrow>
     (mg_problems m = 0 \<longrightarrow>
        distinct (List.map fst (mg_employee_ids m)) \<and> distinct (mg_gone m)
      \<and> fst ` set (mg_employee_ids m) \<inter> set (mg_gone m) = {}
      \<and> fst ` set (mg_employee_ids m) \<union> set (mg_gone m) = set rids
      \<and> (\<forall>(rid, eid)\<in>set (mg_employee_ids m). eid \<noteq> ''''))"

lemma AList_update_new: "k \<notin> fst ` set d \<Longrightarrow> AList.update k v d = d @ [(k, v)]"
  by (induction d) auto

lemma read_record_cover:
  assumes "findings_cover done m" and "rid \<notin> set done" and "read_record cl rid m s = (Inr m', t)"
  shows "findings_cover (done @ [rid]) m'"
proof (cases "mg_problems m' = 0")
  case False
  then show ?thesis by (simp add: findings_cover_def)
next
  case True
  then have "mg_problems m = 0"
    using assms(3) by (auto simp: read_record_def split: if_splits prod.splits sum.splits)
  moreover have new: "rid \<notin> fst ` set (mg_employee_ids m)" "rid \<notin> set (mg_gone m)"
    using assms(1,2) calculation by (auto simp: findings_cover_def)
  moreover have "m' = m\<lparr>mg_gone := mg_gone m @ [rid]\<rparr>
      \<or> (\<exists>eid. eid \<noteq> '''' \<and> m' = m\<lparr>mg_employee_ids := mg_employee_ids m @ [(rid, eid)]\<rparr>)"
    using assms(3) True new(1)
    by (auto simp: read_record_def AList_update_new split: if_splits prod.splits sum.splits)
  ultimately show ?thesis
    using assms(1,2) unfolding findings_cover_def by (elim disjE exE conjE) simp_all
qed

lemma read_records_cover:
  assumes "findings_cover done m" and "set done \<inter> set rids = {}" and "distinct rids"
    and "for_each (read_record cl) rids m s = (Inr m', t)"
  shows "findings_cover (done @ rids) m'"
  using assms
proof (induction rids arbitrary: m s "done")
  case Nil
  then show ?case by simp
next
  case (Cons rid rids)
  from Cons.prems(4) obtain m1 s1 where one: "read_record cl rid m s = (Inr m1, s1)"
    and rest: "for_each (read_record cl) rids m1 s1 = (Inr m', t)"
    by (auto split: prod.splits sum.splits)
  have "findings_cover ((done @ [rid]) @ rids) m'"
    using Cons.prems read_record_cover [OF Cons.prems(1) _ one]
    by (intro Cons.IH [OF _ _ _ rest]) auto
  then show ?case by simp
qed


section \<open>What the move does to each row\<close>

text \<open>
  A sequence of updates by key whose targets are never a later source: each row takes the one
  update of the key it started with.
\<close>

definition apply_moves :: "('r \<Rightarrow> string) \<Rightarrow> (string \<times> ('r \<Rightarrow> 'r)) list \<Rightarrow> 'r \<Rightarrow> 'r" where
  "apply_moves key steps r = fold (\<lambda>(from, f) r. if key r = from then f r else r) steps r"

lemma apply_moves_none: "key r \<notin> fst ` set steps \<Longrightarrow> apply_moves key steps r = r"
  by (induction steps) (auto simp: apply_moves_def)

lemma apply_moves_spec:
  assumes "distinct (List.map fst steps)"
    and "\<And>from f r. (from, f) \<in> set steps \<Longrightarrow> key (f r) \<notin> fst ` set steps"
  shows "apply_moves key steps r = (case map_of steps (key r) of None \<Rightarrow> r | Some f \<Rightarrow> f r)"
proof (cases "map_of steps (key r)")
  case None
  then show ?thesis by (simp add: apply_moves_none flip: map_of_eq_None_iff)
next
  case (Some f)
  then obtain us vs where steps: "steps = us @ (key r, f) # vs"
    by (meson map_of_SomeD split_list)
  have "key r \<notin> fst ` set us" using assms(1) steps by auto
  moreover have "key (f r) \<notin> fst ` set vs" using assms(2) [of "key r" f r] steps by auto
  ultimately show ?thesis using Some steps apply_moves_none [of key r us] apply_moves_none [of key "f r" vs]
    by (simp add: apply_moves_def)
qed

definition row_moves :: "(string \<times> string) list \<Rightarrow> string list \<Rightarrow> (string \<times> (tracked \<Rightarrow> tracked)) list" where
  "row_moves eids gone = List.map (\<lambda>(rid, eid). (migrating rid, to_employee eid)) eids
     @ List.map (\<lambda>rid. (migrating rid, to_person (gone_key rid))) gone"

definition card_to :: "string \<Rightarrow> card_row \<Rightarrow> card_row" where
  "card_to p w = w\<lparr>cw_person := p\<rparr>"

definition card_moves :: "(string \<times> string) list \<Rightarrow> string list \<Rightarrow> (string \<times> (card_row \<Rightarrow> card_row)) list" where
  "card_moves eids gone = List.map (\<lambda>(rid, eid). (migrating rid, card_to eid)) eids
     @ List.map (\<lambda>rid. (migrating rid, card_to (gone_key rid))) gone"

lemma move_rows_Some: "move_rows from f rows = Some rows' \<Longrightarrow> rows' = List.map (\<lambda>r. if t_person_id r = from then f r else r) rows"
  by (auto simp: move_rows_def sql_rows_def Let_def split: if_splits)

lemma move_employees_map:
  "move_employees eids (rows, cards) = Some d \<Longrightarrow>
    d = (List.map (apply_moves t_person_id (row_moves eids [])) rows, List.map (apply_moves cw_person (card_moves eids [])) cards)"
proof (induction eids arbitrary: rows cards)
  case Nil
  then show ?case by (simp add: apply_moves_def row_moves_def card_moves_def)
next
  case (Cons m ms)
  obtain rid eid where m: "m = (rid, eid)" by fastforce
  from Cons.prems obtain rows' where one: "move_rows (migrating rid) (to_employee eid) rows = Some rows'"
    and rest: "move_employees ms (rows', move_cards (migrating rid) eid cards) = Some d"
    by (auto simp: m split: option.splits)
  show ?case using Cons.IH [OF rest] move_rows_Some [OF one]
    by (simp add: m apply_moves_def row_moves_def card_moves_def move_cards_def card_to_def)
qed

lemma move_gone_map:
  "move_gone gone (rows, cards) = Some d \<Longrightarrow>
    d = (List.map (apply_moves t_person_id (row_moves [] gone)) rows, List.map (apply_moves cw_person (card_moves [] gone)) cards)"
proof (induction gone arbitrary: rows cards)
  case Nil
  then show ?case by (simp add: apply_moves_def row_moves_def card_moves_def)
next
  case (Cons rid rids)
  from Cons.prems obtain rows' where one: "move_rows (migrating rid) (to_person (gone_key rid)) rows = Some rows'"
    and rest: "move_gone rids (rows', move_cards (migrating rid) (gone_key rid) cards) = Some d"
    by (auto split: option.splits)
  show ?case using Cons.IH [OF rest] move_rows_Some [OF one]
    by (simp add: apply_moves_def row_moves_def card_moves_def move_cards_def card_to_def)
qed

text \<open>Where the pages put a record.\<close>

definition moved_row :: "findings \<Rightarrow> tracked \<Rightarrow> tracked" where
  "moved_row m r = (case map_of (mg_employee_ids m) (t_person_id r) of
      Some eid \<Rightarrow> to_employee eid r
    | None \<Rightarrow> to_person (gone_key (t_person_id r)) r)"

definition moved_card :: "findings \<Rightarrow> card_row \<Rightarrow> card_row" where
  "moved_card m w = (case map_of (mg_employee_ids m) (cw_person w) of
      Some eid \<Rightarrow> card_to eid w
    | None \<Rightarrow> card_to (gone_key (cw_person w)) w)"

lemma migrating_inject [simp]: "migrating a = migrating b \<longleftrightarrow> a = b"
  by (simp add: migrating_def)

lemma gone_not_migrating [simp]: "gone_key a \<noteq> migrating b"
  by (simp add: migrating_def gone_key_def)

lemma map_of_keyed:
  assumes "inj k"
  shows "map_of (List.map (\<lambda>(x, y). (k x, f y)) xs) (k a) = map_option f (map_of xs a)"
    and "map_of (List.map (\<lambda>x. (k x, g x)) ys) (k a) = (if a \<in> set ys then Some (g a) else None)"
proof -
  show "map_of (List.map (\<lambda>(x, y). (k x, f y)) xs) (k a) = map_option f (map_of xs a)"
    using assms by (induction xs) (auto simp: inj_eq)
  show "map_of (List.map (\<lambda>x. (k x, g x)) ys) (k a) = (if a \<in> set ys then Some (g a) else None)"
    using assms by (induction ys) (auto simp: inj_eq)
qed

lemma inj_migrating: "inj migrating"
  by (simp add: inj_on_def)

lemma moves_sources:
  "fst ` set (row_moves eids gone) = migrating ` (fst ` set eids \<union> set gone)"
  "fst ` set (card_moves eids gone) = migrating ` (fst ` set eids \<union> set gone)"
  by (force simp: row_moves_def card_moves_def image_iff)+

lemma moves_distinct:
  assumes "distinct (List.map fst eids)" "distinct gone" "fst ` set eids \<inter> set gone = {}"
  shows "distinct (List.map fst (row_moves eids gone))" "distinct (List.map fst (card_moves eids gone))"
proof -
  have "distinct (List.map fst eids @ gone)" using assms by simp
  then have "distinct (List.map migrating (List.map fst eids @ gone))"
    using distinct_map [of migrating "List.map fst eids @ gone"] inj_on_subset [OF inj_migrating] by blast
  moreover have "List.map fst (row_moves eids gone) = List.map migrating (List.map fst eids @ gone)"
    "List.map fst (card_moves eids gone) = List.map migrating (List.map fst eids @ gone)"
    by (simp_all add: row_moves_def card_moves_def comp_def case_prod_beta)
  ultimately show "distinct (List.map fst (row_moves eids gone))" "distinct (List.map fst (card_moves eids gone))"
    by simp_all
qed

text \<open>No Employee ID looks like a key in mid-move.\<close>

definition plain_id :: "string \<Rightarrow> bool" where
  "plain_id p \<longleftrightarrow> \<not> py_startswith p ''migrating:''"

lemma plain_id_source [simp]: "\<not> plain_id (migrating q)"
  by (auto simp: plain_id_def migrating_def py_startswith_def)

lemma moves_leave:
  assumes "\<forall>m\<in>set eids. plain_id (snd m)"
  shows "(from, f) \<in> set (row_moves eids gone) \<Longrightarrow> t_person_id (f r) \<notin> range migrating"
    and "(from, g) \<in> set (card_moves eids gone) \<Longrightarrow> cw_person (g w) \<notin> range migrating"
  using assms
  by (auto simp: row_moves_def card_moves_def to_employee_def to_person_def card_to_def)

lemma move_all_map:
  assumes "move_all eids gone (rows, cards) = Some (rows', cards')"
    and "distinct (List.map fst eids)" and "distinct gone" and "fst ` set eids \<inter> set gone = {}"
    and "\<forall>m\<in>set eids. plain_id (snd m)"
  shows "rows' = List.map (\<lambda>r. case map_of (row_moves eids gone) (migrating (t_person_id r)) of None \<Rightarrow> to_person (migrating (t_person_id r)) r
      | Some f \<Rightarrow> f (to_person (migrating (t_person_id r)) r)) rows"
    and "cards' = List.map (\<lambda>w. case map_of (card_moves eids gone) (migrating (cw_person w)) of None \<Rightarrow> card_to (migrating (cw_person w)) w
      | Some f \<Rightarrow> f (card_to (migrating (cw_person w)) w)) cards"
proof -
  let ?r = "List.map (\<lambda>r. to_person (migrating (t_person_id r)) r) rows"
  let ?c = "List.map (\<lambda>w. card_to (migrating (cw_person w)) w) cards"
  obtain d where d: "move_employees eids (?r, ?c) = Some d" and g: "move_gone gone d = Some (rows', cards')"
    using assms(1) by (auto simp: move_all_def sql_rows_def Let_def card_to_def split: if_splits option.splits)
  have "d = (List.map (apply_moves t_person_id (row_moves eids [])) ?r, List.map (apply_moves cw_person (card_moves eids [])) ?c)"
    by (rule move_employees_map [OF d])
  from move_gone_map [OF g [unfolded this]]
  have two: "rows' = List.map (apply_moves t_person_id (row_moves [] gone)) (List.map (apply_moves t_person_id (row_moves eids [])) ?r)"
    "cards' = List.map (apply_moves cw_person (card_moves [] gone)) (List.map (apply_moves cw_person (card_moves eids [])) ?c)"
    by simp_all
  have join: "apply_moves t_person_id (row_moves [] gone) (apply_moves t_person_id (row_moves eids []) r) = apply_moves t_person_id (row_moves eids gone) r"
    "apply_moves cw_person (card_moves [] gone) (apply_moves cw_person (card_moves eids []) w) = apply_moves cw_person (card_moves eids gone) w" for r w
    by (simp_all add: apply_moves_def row_moves_def card_moves_def)
  have rows: "apply_moves t_person_id (row_moves eids gone) r = (case map_of (row_moves eids gone) (t_person_id r) of None \<Rightarrow> r | Some f \<Rightarrow> f r)" for r
    by (intro apply_moves_spec moves_distinct assms(2-4))
      (use moves_leave(1) [OF assms(5)] moves_sources(1) in blast)
  have cards: "apply_moves cw_person (card_moves eids gone) w = (case map_of (card_moves eids gone) (cw_person w) of None \<Rightarrow> w | Some f \<Rightarrow> f w)" for w
    by (intro apply_moves_spec moves_distinct assms(2-4))
      (use moves_leave(2) [OF assms(5)] moves_sources(2) in blast)
  show "rows' = List.map (\<lambda>r. case map_of (row_moves eids gone) (migrating (t_person_id r)) of None \<Rightarrow> to_person (migrating (t_person_id r)) r
      | Some f \<Rightarrow> f (to_person (migrating (t_person_id r)) r)) rows"
    unfolding two(1) by (simp add: join rows) (simp add: to_person_def)
  show "cards' = List.map (\<lambda>w. case map_of (card_moves eids gone) (migrating (cw_person w)) of None \<Rightarrow> card_to (migrating (cw_person w)) w
      | Some f \<Rightarrow> f (card_to (migrating (cw_person w)) w)) cards"
    unfolding two(2) by (simp add: join cards) (simp add: card_to_def)
qed


lemma row_moves_lookup:
  "map_of (row_moves eids gone) (migrating p) =
     (case map_of eids p of Some eid \<Rightarrow> Some (to_employee eid)
      | None \<Rightarrow> if p \<in> set gone then Some (to_person (gone_key p)) else None)"
  by (simp add: row_moves_def map_add_def map_of_keyed [OF inj_migrating] split: option.split)

lemma card_moves_lookup:
  "map_of (card_moves eids gone) (migrating p) =
     (case map_of eids p of Some eid \<Rightarrow> Some (card_to eid)
      | None \<Rightarrow> if p \<in> set gone then Some (card_to (gone_key p)) else None)"
  by (simp add: card_moves_def map_add_def map_of_keyed [OF inj_migrating] split: option.split)

lemma commit_move_rows:
  assumes "commit_move m s = (Inr (), t)" and "findings_cover (record_ids s) m" and "mg_problems m = 0"
    and "\<forall>e\<in>set (mg_employee_ids m). plain_id (snd e)"
  shows "ms_rows t = List.map (moved_row m) (ms_rows s)" and "ms_cards t = List.map (moved_card m) (ms_cards s)"
    and "ms_migrated t"
proof -
  let ?eids = "mg_employee_ids m" and ?gone = "mg_gone m"
  obtain rows cards where mv: "move_all ?eids ?gone (ms_rows s, ms_cards s) = Some (rows, cards)"
    and t: "t = s\<lparr>ms_rows := rows, ms_cards := cards, ms_migrated := True\<rparr>"
    using assms(1) by (auto simp: commit_move_def split: option.splits prod.splits)
  have ok: "distinct (List.map fst ?eids)" "distinct ?gone" "fst ` set ?eids \<inter> set ?gone = {}"
    and cover: "fst ` set ?eids \<union> set ?gone = set (record_ids s)"
    using assms(2,3) by (simp_all add: findings_cover_def)
  have gone: "p \<in> set (record_ids s) \<Longrightarrow> map_of ?eids p = None \<Longrightarrow> p \<in> set ?gone" for p
    using cover by (auto simp: map_of_eq_None_iff)
  have person: "r \<in> set (ms_rows s) \<Longrightarrow> t_person_id r \<in> set (record_ids s)"
    "w \<in> set (ms_cards s) \<Longrightarrow> cw_person w \<in> set (record_ids s)" for r w
    by (simp_all add: record_ids_def)
  show "ms_rows t = List.map (moved_row m) (ms_rows s)"
    using move_all_map(1) [OF mv ok assms(4)] person(1) gone
    by (auto simp: t row_moves_lookup moved_row_def to_employee_def to_person_def split: option.split)
  show "ms_cards t = List.map (moved_card m) (ms_cards s)"
    using move_all_map(2) [OF mv ok assms(4)] person(2) gone
    by (auto simp: t card_moves_lookup moved_card_def card_to_def split: option.split)
  show "ms_migrated t" by (simp add: t)
qed

text \<open>No two records were matched with one Employee ID.\<close>

lemma shared_ids_none:
  assumes "shared_ids eids = []"
  shows "distinct (List.map snd eids)"
proof -
  let ?d = "fold (\<lambda>(rid, eid). dict_append eid rid) eids []"
  have groups: "dict_list (fold (\<lambda>(rid, eid). dict_append eid rid) xs d) k
      = dict_list d k @ List.map fst (List.filter (\<lambda>e. snd e = k) xs)" for k xs d
    by (induction xs arbitrary: d) auto
  have keys: "distinct (List.map fst d) \<Longrightarrow> distinct (List.map fst (fold (\<lambda>(rid, eid). dict_append eid rid) xs d))" for xs :: "(string \<times> string) list" and d
    by (induction xs arbitrary: d) (auto simp: distinct_dict_append)
  have one: "length (List.filter (\<lambda>e. snd e = k) eids) \<le> 1" for k
  proof (cases "map_of ?d k")
    case None
    then show ?thesis using groups [of eids "[]" k] by (simp add: dict_list_def)
  next
    case (Some rids)
    then have "(k, rids) \<in> set ?d" by (rule map_of_SomeD)
    then have "length rids \<le> 1" using assms(1) by (force simp: shared_ids_def filter_empty_conv)
    then show ?thesis using Some groups [of eids "[]" k] arg_cong [where f = length] by (force simp: dict_list_def)
  qed
  show ?thesis
    using one
  proof (induction eids)
    case Nil
    then show ?case by simp
  next
    case (Cons e eids)
    have "List.filter (\<lambda>x. snd x = snd e) eids = []" using Cons.prems [of "snd e"] by simp
    then have "snd e \<notin> set (List.map snd eids)" by (auto simp: filter_empty_conv)
    moreover have "length (List.filter (\<lambda>x. snd x = k) eids) \<le> 1" for k
      using Cons.prems [of k] by (auto split: if_splits)
    ultimately show ?case using Cons.IH by simp
  qed
qed

end
