(* ===== verification/Mill_Writes.thy ===== *)
theory Mill_Writes
  imports Mill_Cards Mill_Migrate
begin

text \<open>
  The adapter's writes (\<open>adapter.py\<close>): a status, AccessGrid's new cards and its deletions are
  recorded in the ledger as pending; \<open>finish_cycle\<close> deletes the doomed cards one by one and sends
  the rest as one import per set of columns.
\<close>

section \<open>Switching a pass's cards on or off\<close>

definition not_switchable :: "string list" where
  "not_switchable = UNWRITTEN @ [''delete'']"

definition switchable :: "slot list \<Rightarrow> entry \<Rightarrow> bool" where
  "switchable slots e \<longleftrightarrow> slot_with slots (entry_card e) \<noteq> None \<and> \<not> pending_in e not_switchable"

definition box_of :: "slot list \<Rightarrow> entry \<Rightarrow> bool option" where
  "box_of slots e = map_option sl_active (slot_with slots (entry_card e))"

definition switch_entry :: "slot list \<Rightarrow> bool \<Rightarrow> entry \<Rightarrow> entry" where
  "switch_entry slots want e =
     (if \<not> switchable slots e then e
      else if box_of slots e = Some want then e\<lparr>en_active := Some want, en_pending := None\<rparr>
      else e\<lparr>en_pending := Some (if want then ''activate'' else ''deactivate'')\<rparr>)"

text \<open>Recorded as on, found off: an operator switched it off.\<close>

definition switched_off_by_hand :: "slot list \<Rightarrow> entry \<Rightarrow> bool" where
  "switched_off_by_hand slots e \<longleftrightarrow> switchable slots e \<and> en_active e = Some True \<and> box_of slots e = Some False"

definition update_credential_status :: "string \<Rightarrow> string \<Rightarrow> cred_status \<Rightarrow> ('c mill, bool) comp" where
  "update_credential_status pid cid status s =
     (let es = cards_get (ms_cards s) pid cid; want = (status = ACTIVE) in
      case map_of (ms_holders s) pid of
        None \<Rightarrow> (Inr False, s)
      | Some h \<Rightarrow>
          if es = [] then (Inr False, s)
          else if \<not> list_ex (switchable (ch_slots h)) es then (Inr False, s)
          else if want \<and> list_ex (switched_off_by_hand (ch_slots h)) es then (Inr False, s)
          else (Inr True, record_cards pid cid (List.map (switch_entry (ch_slots h) want) es) s))"

section \<open>Recording AccessGrid's cards\<close>

definition card_of_identity :: "identity \<Rightarrow> card_id" where
  "card_of_identity i = (id_site_code i, id_card_number i)"

definition is_watch :: "identity \<Rightarrow> bool" where
  "is_watch i \<longleftrightarrow> py_contains (py_lower (id_device_type i)) ''watch''"

definition on_any_cardholder :: "'c mill \<Rightarrow> card_id \<Rightarrow> bool" where
  "on_any_cardholder s k \<longleftrightarrow>
     list_ex (\<lambda>(_, h). list_ex (\<lambda>sl. \<not> slot_empty sl \<and> slot_card sl = k) (ch_slots h)) (ms_holders s)"

text \<open>
  Which of the new identities are written: with a trigger card waiting the first of them, and
  then, for a pair, all the others, otherwise the watches.
\<close>

definition to_write :: "bool \<Rightarrow> bool \<Rightarrow> identity list \<Rightarrow> identity list" where
  "to_write waiting pair new =
     (let first = (if waiting then take 1 new else []); others = (if waiting then drop 1 new else new)
      in first @ (if waiting \<and> pair then others else List.filter is_watch others))"

definition free_slots :: "'c mill \<Rightarrow> string \<Rightarrow> slot list \<Rightarrow> nat list" where
  "free_slots s pid slots =
     (let taken = List.map en_slot (concat (List.map snd (entries_for_person (ms_cards s) pid)))
      in List.map sl_index (List.filter (\<lambda>sl. slot_empty sl \<and> sl_index sl \<notin> set taken) slots))"

definition insert_entry :: "identity \<times> nat \<Rightarrow> entry" where
  "insert_entry inn = \<lparr>en_slot = snd inn, en_facility_code = id_site_code (fst inn),
     en_card_number = id_card_number (fst inn), en_active = None, en_pending = Some ''insert'', en_status = None\<rparr>"

definition write_back_credentials :: "mill_cfg \<Rightarrow> string \<Rightarrow> string \<Rightarrow> identity list \<Rightarrow> ('c mill, bool) comp" where
  "write_back_credentials cfg pid cid identities s =
     (let es = cards_get (ms_cards s) pid cid;
          trigger = List.find (\<lambda>e. en_pending e = Some ''write'') es in
      case map_of (ms_holders s) pid of
        None \<Rightarrow> (Inr False, s)
      | Some h \<Rightarrow>
          if es = [] then (Inr False, s)
          else if trigger = None \<and> set (List.map entry_card es) \<inter> set (List.map card_of_identity identities) = {}
          then (Inr False, s)
          else
            let new = List.filter (\<lambda>i. card_of_identity i \<notin> entry_card ` set es) identities in
            if new = [] then (Inr True, s)
            else
              (case List.find (\<lambda>i. on_any_cardholder s (card_of_identity i)) new of
                 Some i \<Rightarrow> (Inr False, card_problem pid (card_of_identity i) s)
               | None \<Rightarrow>
                   let ws = to_write (trigger \<noteq> None) (mf_pair cfg) new;
                       slots = (case trigger of None \<Rightarrow> [] | Some e \<Rightarrow> [en_slot e]) @ free_slots s pid (ch_slots h)
                   in if ws = [] then (Inr True, s)
                      else if list_ex (\<lambda>e. en_pending e = Some ''insert'') es \<or> length ws > length slots
                      then (Inr False, s)
                      else (Inr True, record_cards pid cid (es @ List.map insert_entry (zip ws slots)) s)))"

section \<open>Recording AccessGrid's deletions\<close>

definition retirable :: "card_id set \<Rightarrow> entry \<Rightarrow> bool" where
  "retirable gone e \<longleftrightarrow> entry_card e \<in> gone \<and> \<not> pending_in e not_switchable \<and> \<not> dormant e"

definition retire_entry :: "card_id set \<Rightarrow> entry \<Rightarrow> entry" where
  "retire_entry gone e = (if retirable gone e then e\<lparr>en_pending := Some ''delete''\<rparr> else e)"

definition retire_credentials :: "string \<Rightarrow> string \<Rightarrow> identity list \<Rightarrow> ('c mill, nat) comp" where
  "retire_credentials pid cid identities s =
     (let es = cards_get (ms_cards s) pid cid; gone = set (List.map card_of_identity identities);
          marked = length (List.filter (retirable gone) es)
      in (Inr marked, if marked = 0 then s else record_cards pid cid (List.map (retire_entry gone) es) s))"

definition written_credentials :: "('c mill, ((string \<times> string) \<times> string list) list) comp" where
  "written_credentials s =
     (Inr (fold (\<lambda>(key, es) out.
         let numbers = List.filter (\<lambda>n. n \<noteq> '''') (List.map en_card_number es)
         in if numbers = [] then out else AList.update (py_partition (CHR '':'') key) numbers out)
       (cards_all (ms_cards s)) []), s)"

section \<open>The end of the cycle\<close>

text \<open>One doomed card: forgotten when it is gone or deleted, kept to try again otherwise.\<close>

definition delete_card :: "mill_cfg \<Rightarrow> 'c mill_client \<Rightarrow> string \<Rightarrow> slot list \<Rightarrow> entry \<Rightarrow> entry list
    \<Rightarrow> ('c mill, entry list) comp" where
  "delete_card cfg cl pid slots e es s =
     (if slot_with slots (entry_card e) = None then (Inr (remove1 e es), s)
      else if mf_dry cfg then (Inr es, s)
      else
       (case on_site (mc_delete_card_by_number cl pid (en_facility_code e) (en_card_number e)) s of
          (Inl err, s1) \<Rightarrow> if is_millennium_error err then (Inr es, s1) else (Inl err, s1)
        | (Inr True, s1) \<Rightarrow> (Inr (remove1 e es), s1)
        | (Inr False, s1) \<Rightarrow> (Inr es, s1)))"

definition delete_pass :: "mill_cfg \<Rightarrow> 'c mill_client \<Rightarrow> string \<times> entry list \<Rightarrow> unit \<Rightarrow> ('c mill, unit) comp" where
  "delete_pass cfg cl ke u s =
     (let (pid, cid) = py_partition (CHR '':'') (fst ke);
          doomed = List.filter (\<lambda>e. en_pending e = Some ''delete'') (snd ke) in
      case map_of (ms_holders s) pid of
        None \<Rightarrow> (Inr (), s)
      | Some h \<Rightarrow>
          if doomed = [] then (Inr (), s) else
          (case for_each (delete_card cfg cl pid (ch_slots h)) doomed (snd ke) s of
             (Inl err, s1) \<Rightarrow> (Inl err, s1)
           | (Inr es, s1) \<Rightarrow> (Inr (), if es = [] then forget_cards pid cid s1 else record_cards pid cid es s1)))"

definition delete_cards :: "mill_cfg \<Rightarrow> 'c mill_client \<Rightarrow> ('c mill, unit) comp" where
  "delete_cards cfg cl s = for_each (delete_pass cfg cl) (cards_all (ms_cards s)) () s"

definition clock_text :: "int \<Rightarrow> string" where
  "clock_text local_us =
     (let secs = local_us div 1000000; (y, m, d) = civil_of_days (secs div 86400);
          h24 = secs mod 86400 div 3600; h = (if h24 mod 12 = 0 then 12 else h24 mod 12)
      in string_of_int m @ ''/'' @ string_of_int d @ ''/'' @ string_of_int y @ '' '' @ string_of_int h @ '':''
         @ pad2 (secs mod 3600 div 60) @ '' '' @ (if h24 < 12 then ''AM'' else ''PM''))"

text \<open>The access levels come from the trigger card while it is there, then from a card of the pass.\<close>

definition level_source :: "entry list \<Rightarrow> slot list \<Rightarrow> access_level list" where
  "level_source es slots =
     (let ordered = sort_key (\<lambda>e. if en_pending e = Some ''write'' then 0 else (1::nat)) es;
          ours = List.map_filter (\<lambda>e. if en_pending e = Some ''insert'' then None else slot_with slots (entry_card e)) ordered
      in case List.find (\<lambda>sl. sl_access_levels sl \<noteq> []) ours of None \<Rightarrow> [] | Some sl \<Rightarrow> sl_access_levels sl)"

definition new_card_cells :: "mill_cfg \<Rightarrow> string \<Rightarrow> nat \<Rightarrow> entry list \<Rightarrow> slot list \<Rightarrow> (column \<times> string) list" where
  "new_card_cells cfg lbl i es slots =
     fold (\<lambda>(k, v). AList.update k v) (access_level_cells i (level_source es slots))
       [((i, ''Card Format''), lbl),
        ((i, ''Activation Date''), clock_text (mf_now cfg + mf_offset cfg * 1000000)),
        ((i, ''Active''), ''False'')]"

definition sendable :: "entry \<Rightarrow> bool" where
  "sendable e \<longleftrightarrow> pending_in e [''activate'', ''deactivate'', ''insert'']"

text \<open>The cells one pending change adds to its cardholder's row.\<close>

definition change_cells :: "mill_cfg \<Rightarrow> string \<Rightarrow> entry list \<Rightarrow> slot list \<Rightarrow> entry \<Rightarrow> (column \<times> string) list \<Rightarrow> (column \<times> string) list" where
  "change_cells cfg lbl es slots e cells =
     (let i = en_slot e;
          c1 = AList.update (i, ''Encoded Card No.'') (en_card_number e) cells;
          c2 = AList.update (i, ''Facility Code'') (en_facility_code e) c1
      in if en_pending e = Some ''insert''
         then fold (\<lambda>(k, v). AList.update k v) (new_card_cells cfg lbl i es slots) c2
         else AList.update (i, ''Active'') (if en_pending e = Some ''activate'' then ''True'' else ''False'') c2)"

record send_plan =
  sp_rows :: "(string \<times> row) list"
  sp_pending :: "((string \<times> string) \<times> entry list) list"

definition plan_pass :: "mill_cfg \<Rightarrow> 'c mill \<Rightarrow> string \<times> entry list \<Rightarrow> send_plan \<Rightarrow> send_plan" where
  "plan_pass cfg s ke p =
     (let (pid, cid) = py_partition (CHR '':'') (fst ke);
          changes = List.filter sendable (snd ke) in
      case map_of (ms_holders s) pid of
        None \<Rightarrow> p
      | Some h \<Rightarrow>
          if changes = [] then p else
          let r = (case map_of (sp_rows p) pid of
                     Some r \<Rightarrow> r
                   | None \<Rightarrow> \<lparr>ro_employee_id = pid, ro_first_name = ch_first_name h, ro_last_name = ch_last_name h, ro_cells = []\<rparr>);
              cells = fold (change_cells cfg (ms_label s) (snd ke) (ch_slots h)) changes (ro_cells r)
          in \<lparr>sp_rows = AList.update pid (r\<lparr>ro_cells := cells\<rparr>) (sp_rows p),
              sp_pending = sp_pending p @ [((pid, cid), snd ke)]\<rparr>)"

definition plan_changes :: "mill_cfg \<Rightarrow> 'c mill \<Rightarrow> send_plan" where
  "plan_changes cfg s = fold (plan_pass cfg s) (cards_all (ms_cards s)) \<lparr>sp_rows = [], sp_pending = []\<rparr>"

record refusals =
  rf_people :: "string list"
  rf_cards :: "card_id list"

definition send_file :: "'c mill_client \<Rightarrow> import_file \<Rightarrow> refusals \<Rightarrow> ('c mill, refusals) comp" where
  "send_file cl f rf s =
     (case on_site (mc_import_cardholders cl f) s of
        (Inl e, s1) \<Rightarrow> (Inl e, s1)
      | (Inr lg, s1) \<Rightarrow> (Inr \<lparr>rf_people = rf_people rf @ skipped lg, rf_cards = rf_cards rf @ skipped_cards lg\<rparr>, s1))"

definition taken_in :: "refusals \<Rightarrow> entry \<Rightarrow> bool" where
  "taken_in rf e \<longleftrightarrow> sendable e \<and> entry_card e \<notin> set (rf_cards rf)"

definition settle_entry :: "refusals \<Rightarrow> entry \<Rightarrow> entry" where
  "settle_entry rf e =
     (if taken_in rf e then e\<lparr>en_active := Some (en_pending e = Some ''activate''), en_pending := None\<rparr> else e)"

text \<open>Once one of AccessGrid's cards is in, the trigger card it replaced is no longer on the cardholder.\<close>

definition settle_entries :: "refusals \<Rightarrow> entry list \<Rightarrow> entry list" where
  "settle_entries rf es =
     (let settled = List.map (settle_entry rf) es in
      if list_ex (\<lambda>e. taken_in rf e \<and> en_pending e = Some ''insert'') es
      then List.filter (\<lambda>e. en_pending e \<noteq> Some ''write'') settled else settled)"

definition settle_pass :: "refusals \<Rightarrow> (string \<times> string) \<times> entry list \<Rightarrow> 'c mill \<Rightarrow> 'c mill" where
  "settle_pass rf pe s =
     (let ((pid, cid), es) = pe in
      if pid \<in> set (rf_people rf) then s else record_cards pid cid (settle_entries rf es) s)"

definition send_changes :: "mill_cfg \<Rightarrow> 'c mill_client \<Rightarrow> ('c mill, unit) comp" where
  "send_changes cfg cl s =
     (let plan = plan_changes cfg s in
      if sp_rows plan = [] then (Inr (), s)
      else if mf_dry cfg then (Inr (), s)
      else
       (case build (List.map snd (sp_rows plan)) of
          Inl e \<Rightarrow> (Inl e, s)
        | Inr files \<Rightarrow>
            (case for_each (send_file cl) files \<lparr>rf_people = [], rf_cards = []\<rparr> s of
               (Inl e, s1) \<Rightarrow> (Inl e, s1)
             | (Inr rf, s1) \<Rightarrow> (Inr (), fold (settle_pass rf) (sp_pending plan) s1))))"

definition finish_cycle :: "mill_cfg \<Rightarrow> 'c mill_client \<Rightarrow> ('c mill, unit) comp" where
  "finish_cycle cfg cl s =
     (case delete_cards cfg cl s of
        (Inl e, s1) \<Rightarrow> (Inl e, s1)
      | (Inr _, s1) \<Rightarrow> send_changes cfg cl s1)"

section \<open>The adapter as the engine sees it\<close>

definition mill_api :: "mill_cfg \<Rightarrow> 'c mill_client \<Rightarrow> 'c mill pacs_api" where
  "mill_api cfg cl =
     \<lparr>pacs_declares_writeback = True, pacs_supports_status_writeback = (\<lambda>_. True),
      pacs_supports_credential_writeback = (\<lambda>_. mf_seos cfg),
      pacs_supports_credential_retirement = (\<lambda>_. mf_seos cfg),
      pacs_list_people = list_people cfg cl,
      pacs_list_credentials = list_credentials cfg,
      pacs_update_credential_status = update_credential_status,
      pacs_write_back_credentials = write_back_credentials cfg,
      pacs_retire_credentials = retire_credentials,
      pacs_written_credentials = written_credentials,
      pacs_finish_cycle = Some (finish_cycle cfg cl)\<rparr>"

end
