(* ===== verification/Mill_Laws.thy ===== *)
theory Mill_Laws
  imports Mill_Writes Read_Contract
begin

text \<open>
  What the adapter's operations have in common. A write the phases ask for is only recorded: the
  locale \<open>recorded_write\<close> states that contract, and the three writes interpret it. The rest are the
  facts about slots, ids and pending changes that the properties rest on.
\<close>

section \<open>Writes that are only recorded\<close>

locale recorded_write =
  fixes ask :: "string \<Rightarrow> string \<Rightarrow> 'x \<Rightarrow> ('c mill, 'r) comp"
  assumes returns: "\<exists>r t. ask p c x s = (Inr r, t)"
    and site_kept: "ms_site (snd (ask p c x s)) = ms_site s"
    and rows_kept: "ms_rows (snd (ask p c x s)) = ms_rows s"
    and holders_kept: "ms_holders (snd (ask p c x s)) = ms_holders s"
    and other_passes: "(p', c') \<noteq> (p, c) \<Longrightarrow>
      cards_get (ms_cards (snd (ask p c x s))) p' c' = cards_get (ms_cards s) p' c'"
    and ledger_kept: "ledger_ok (ms_cards s) \<Longrightarrow> ledger_ok (ms_cards (snd (ask p c x s)))"
begin

text \<open>Any number of them, on any passes: nothing is sent, and a pass none of them names is untouched.\<close>

definition write_all :: "(string \<times> string \<times> 'x) list \<Rightarrow> 'c mill \<Rightarrow> 'c mill" where
  "write_all calls s = fold (\<lambda>(p, c, x) t. snd (ask p c x t)) calls s"

lemma write_all_site: "ms_site (write_all calls s) = ms_site s"
  by (induction calls arbitrary: s) (auto simp: write_all_def site_kept)

lemma write_all_rows: "ms_rows (write_all calls s) = ms_rows s"
  by (induction calls arbitrary: s) (auto simp: write_all_def rows_kept)

lemma write_all_ledger: "ledger_ok (ms_cards s) \<Longrightarrow> ledger_ok (ms_cards (write_all calls s))"
  by (induction calls arbitrary: s) (auto simp: write_all_def ledger_kept)

lemma write_all_other:
  "\<forall>(p, c, x)\<in>set calls. (p', c') \<noteq> (p, c) \<Longrightarrow>
    cards_get (ms_cards (write_all calls s)) p' c' = cards_get (ms_cards s) p' c'"
proof (induction calls arbitrary: s)
  case Nil
  then show ?case by (simp add: write_all_def)
next
  case (Cons call calls)
  obtain p c x where call: "call = (p, c, x)" by (cases call)
  have "cards_get (ms_cards (write_all calls (snd (ask p c x s)))) p' c' =
      cards_get (ms_cards (snd (ask p c x s))) p' c'"
    using Cons.prems by (intro Cons.IH) simp
  then show ?case using Cons.prems other_passes [of p' c' p c x s] by (simp add: call write_all_def)
qed

end

lemma record_cards_fields [simp]:
  "ms_site (record_cards p c es s) = ms_site s" "ms_rows (record_cards p c es s) = ms_rows s"
  "ms_holders (record_cards p c es s) = ms_holders s" "ms_label (record_cards p c es s) = ms_label s"
  "ms_ours (record_cards p c es s) = ms_ours s" "ms_problems (record_cards p c es s) = ms_problems s"
  "ms_cards (record_cards p c es s) = cards_record p c es (ms_cards s)"
  by (simp_all add: record_cards_def)

lemma forget_cards_fields [simp]:
  "ms_site (forget_cards p c s) = ms_site s" "ms_rows (forget_cards p c s) = ms_rows s"
  "ms_holders (forget_cards p c s) = ms_holders s" "ms_label (forget_cards p c s) = ms_label s"
  "ms_cards (forget_cards p c s) = cards_forget p c (ms_cards s)"
  by (simp_all add: forget_cards_def)

lemma card_problem_fields [simp]:
  "ms_site (card_problem p k s) = ms_site s" "ms_rows (card_problem p k s) = ms_rows s"
  "ms_holders (card_problem p k s) = ms_holders s" "ms_label (card_problem p k s) = ms_label s"
  "ms_cards (card_problem p k s) = ms_cards s"
  by (simp_all add: card_problem_def)

text \<open>Every write leaves the ledger as it is or records one pass's entries.\<close>

definition only_records :: "string \<Rightarrow> string \<Rightarrow> 'c mill \<Rightarrow> 'c mill \<Rightarrow> bool" where
  "only_records p c s t \<longleftrightarrow> ms_site t = ms_site s \<and> ms_rows t = ms_rows s \<and> ms_holders t = ms_holders s
     \<and> (ms_cards t = ms_cards s \<or> (\<exists>es. ms_cards t = cards_record p c es (ms_cards s)))"

lemma update_only_records: "only_records p c s (snd (update_credential_status p c st s))"
  by (auto simp: update_credential_status_def only_records_def Let_def split: option.split)

lemma write_back_only_records: "only_records p c s (snd (write_back_credentials cfg p c ids s))"
  by (auto simp: write_back_credentials_def only_records_def Let_def split: option.split)

lemma retire_only_records: "only_records p c s (snd (retire_credentials p c ids s))"
  by (auto simp: retire_credentials_def only_records_def Let_def)

lemma only_records_contract:
  assumes "only_records p c s t"
  shows "ms_site t = ms_site s" "ms_rows t = ms_rows s" "ms_holders t = ms_holders s"
    and "(p', c') \<noteq> (p, c) \<Longrightarrow> cards_get (ms_cards t) p' c' = cards_get (ms_cards s) p' c'"
    and "ledger_ok (ms_cards s) \<Longrightarrow> ledger_ok (ms_cards t)"
  using assms by (auto simp: only_records_def cards_get_record_other ledger_ok_record)

lemma writes_return:
  "\<exists>r t. update_credential_status p c st s = (Inr r, t)"
  "\<exists>r t. write_back_credentials cfg p c ids s = (Inr r, t)"
  "\<exists>r t. retire_credentials p c ids s = (Inr r, t)"
  by (auto simp: update_credential_status_def write_back_credentials_def retire_credentials_def Let_def split: option.split)

interpretation status_write: recorded_write update_credential_status
  by (rule recorded_write.intro, rule writes_return(1), rule only_records_contract(1) [OF update_only_records],
      rule only_records_contract(2) [OF update_only_records], rule only_records_contract(3) [OF update_only_records],
      erule only_records_contract(4) [OF update_only_records], erule only_records_contract(5) [OF update_only_records])

interpretation card_write: recorded_write "write_back_credentials cfg" for cfg
  by (rule recorded_write.intro, rule writes_return(2), rule only_records_contract(1) [OF write_back_only_records],
      rule only_records_contract(2) [OF write_back_only_records], rule only_records_contract(3) [OF write_back_only_records],
      erule only_records_contract(4) [OF write_back_only_records], erule only_records_contract(5) [OF write_back_only_records])

interpretation retire_write: recorded_write retire_credentials
  by (rule recorded_write.intro, rule writes_return(3), rule only_records_contract(1) [OF retire_only_records],
      rule only_records_contract(2) [OF retire_only_records], rule only_records_contract(3) [OF retire_only_records],
      erule only_records_contract(4) [OF retire_only_records], erule only_records_contract(5) [OF retire_only_records])

section \<open>Ids for new passes\<close>

lemma nth_card_id_inject: "1 \<le> m \<Longrightarrow> 1 \<le> n \<Longrightarrow> nth_card_id m = nth_card_id n \<longleftrightarrow> m = n"
  by (auto simp: nth_card_id_def)

text \<open>The search always ends: among the first ids, one more than there are passes, one is free.\<close>

lemma fresh_card_id_free: "fresh_card_id mine \<notin> fst ` set mine \<and> fresh_card_id mine \<in> nth_card_id ` {1..}"
proof -
  let ?ids = "List.map nth_card_id [1..<length mine + 2]"
  have "inj_on nth_card_id (set [1..<length mine + 2])"
    by (auto simp: inj_on_def nth_card_id_inject)
  then have "distinct ?ids" by (simp only: distinct_map distinct_upt)
  then have "card (set ?ids) = length ?ids" by (rule distinct_card)
  moreover have "length ?ids = length mine + 1" by (simp del: upt_Suc)
  moreover have "card (fst ` set mine) \<le> length mine"
    using card_image_le [of "set mine" fst] card_length [of mine] by simp
  ultimately have "\<not> set ?ids \<subseteq> fst ` set mine"
    using card_mono [of "fst ` set mine" "set ?ids"] by auto
  then have "List.find (\<lambda>i. i \<notin> fst ` set mine) ?ids \<noteq> None" by (auto simp: find_None_iff_all)
  then obtain i where "List.find (\<lambda>i. i \<notin> fst ` set mine) ?ids = Some i" by blast
  then show ?thesis using find_SomeD by (force simp: fresh_card_id_def)
qed

section \<open>The state of a Seos pass\<close>

definition card_live :: "slot list \<Rightarrow> entry \<Rightarrow> bool" where
  "card_live slots e \<longleftrightarrow> (\<exists>sl. slot_with slots (entry_card e) = Some sl \<and> sl_active sl)"

definition held_off :: "slot list \<Rightarrow> entry \<Rightarrow> bool" where
  "held_off slots e \<longleftrightarrow> en_active e = Some False
     \<and> (\<exists>sl. slot_with slots (entry_card e) = Some sl \<and> \<not> sl_active sl)"

lemma cards_status_spec:
  "cards_status slots es waiting =
     (if list_all (\<lambda>e. card_live slots e \<or> held_off slots e) es
      then (if waiting \<or> list_ex (held_off slots) es then AWAITING_INSTALL else ACTIVE)
      else SUSPENDED)"
proof (induction es arbitrary: waiting)
  case Nil
  then show ?case by simp
next
  case (Cons e es)
  have "cards_status slots (e # es) waiting =
      (if card_live slots e then cards_status slots es waiting
       else if held_off slots e then cards_status slots es True else SUSPENDED)"
    by (auto simp: card_live_def held_off_def split: option.split)
  moreover have "card_live slots e \<Longrightarrow> \<not> held_off slots e"
    by (auto simp: card_live_def held_off_def)
  ultimately show ?case using Cons.IH by auto
qed

lemma fold_max_bound:
  "dt_us m \<le> dt_us (fold (\<lambda>x m. if dt_before m x then x else m) ds m)
   \<and> (\<forall>d\<in>set ds. dt_us d \<le> dt_us (fold (\<lambda>x m. if dt_before m x then x else m) ds m))
   \<and> fold (\<lambda>x m. if dt_before m x then x else m) ds m \<in> insert m (set ds)"
proof (induction ds arbitrary: m)
  case Nil
  then show ?case by simp
next
  case (Cons x ds)
  show ?case using Cons.IH [of "if dt_before m x then x else m"]
    by (auto simp: dt_before_def split: if_splits)
qed

lemma latest_spec: "latest ds = Some d \<Longrightarrow> d \<in> set ds \<and> (\<forall>x\<in>set ds. dt_us x \<le> dt_us d)"
  using fold_max_bound by (cases ds) auto

lemma latest_None [simp]: "latest ds = None \<longleftrightarrow> ds = []"
  by (cases ds) simp_all

section \<open>What a dry run leaves alone\<close>

lemma delete_card_dry:
  "mf_dry cfg \<Longrightarrow> ms_site (snd (delete_card cfg cl pid slots e es s)) = ms_site s"
  by (simp add: delete_card_def)

lemma delete_pass_dry:
  assumes "mf_dry cfg"
  shows "ms_site (snd (delete_pass cfg cl ke u s)) = ms_site s"
proof -
  have "ms_site (snd (for_each (delete_card cfg cl pid slots) doomed es s)) = ms_site s" for pid slots doomed es
    by (rule for_each_invariant) (simp_all add: delete_card_dry [OF assms])
  then show ?thesis
    by (auto simp: delete_pass_def Let_def split: prod.splits option.splits sum.splits) (metis snd_conv)+
qed

lemma delete_cards_dry: "mf_dry cfg \<Longrightarrow> ms_site (snd (delete_cards cfg cl s)) = ms_site s"
  unfolding delete_cards_def by (rule for_each_invariant) (simp_all add: delete_pass_dry)

section \<open>All the cards of a cardholder\<close>

lemma fold_update_pairs:
  assumes "distinct (List.map f xs)"
  shows "fold (\<lambda>x. AList.update (f x) (g x)) xs [] = List.map (\<lambda>x. (f x, g x)) xs"
  using fold_update_new [of "[]" f xs g] assms by simp

text \<open>The part of a joined key after its first colon.\<close>

definition key_rest :: "string \<Rightarrow> string" where
  "key_rest k = snd (py_partition (CHR '':'') k)"

lemma key_rest_joined:
  "key_rest (joined_key p c) = (if CHR '':'' \<in> set p then key_rest p @ '':'' @ c else c)"
  by (induction p) (auto simp: key_rest_def py_partition_def joined_key_def)

lemma key_rest_inject: "key_rest (joined_key p c) = key_rest (joined_key p c') \<longleftrightarrow> c = c'"
  by (simp add: key_rest_joined)

lemma entries_where_keys:
  "fst ` set (entries_where P rows) = (\<lambda>r. joined_key (cw_person r) (cw_credential r)) ` {r \<in> set rows. P r}"
  by (simp add: entries_where_def fold_append_keys)

lemma entries_where_distinct: "distinct (List.map fst (entries_where P rows))"
  by (simp add: entries_where_def fold_append_distinct)

lemma entries_for_person_eq:
  "entries_for_person rows p = List.map (\<lambda>ke. (key_rest (fst ke), snd ke)) (entries_where (\<lambda>r. cw_person r = p) rows)"
proof -
  let ?d = "entries_where (\<lambda>r. cw_person r = p) rows"
  have "inj_on key_rest (fst ` set ?d)"
    by (auto simp: entries_where_keys inj_on_def key_rest_inject)
  then have "distinct (List.map key_rest (List.map fst ?d))"
    using entries_where_distinct by (simp only: distinct_map set_map)
  then have "distinct (List.map (\<lambda>ke. key_rest (fst ke)) ?d)" by (simp add: comp_def)
  from fold_update_pairs [OF this, of snd]
  show ?thesis by (simp add: entries_for_person_def key_rest_def case_prod_beta')
qed

lemma entries_for_person_member:
  assumes "e \<in> set (cards_get rows p c)"
  shows "e \<in> set (concat (List.map snd (entries_for_person rows p)))"
proof -
  let ?d = "entries_where (\<lambda>r. cw_person r = p) rows"
  obtain r where r: "r \<in> set rows" "row_key r = (p, c)" "e = entry_of r"
    using assms by (auto simp: cards_get_set)
  have "e \<in> set (dict_list ?d (joined_key p c))"
    using r by (auto simp: entries_where_def fold_append_groups row_key_def)
  then obtain es where "map_of ?d (joined_key p c) = Some es" "e \<in> set es"
    by (cases "map_of ?d (joined_key p c)") (auto simp: dict_list_def)
  then have "(joined_key p c, es) \<in> set ?d" "e \<in> set es" by (auto dest: map_of_SomeD)
  then show ?thesis by (force simp: entries_for_person_eq)
qed


text \<open>Whatever is recorded, only what was offered is read back.\<close>

lemma dedupe_member: "(k, e) \<in> set (dedupe es) \<Longrightarrow> e \<in> set es \<and> k = entry_card e"
proof -
  have "(k, e) \<in> set (fold (\<lambda>e. AList.update (entry_card e) e) es d) \<Longrightarrow> (k, e) \<in> set d \<or> e \<in> set es \<and> k = entry_card e" for d
  proof (induction es arbitrary: d)
    case Nil
    then show ?case by simp
  next
    case (Cons x es)
    have "(k, e) \<in> set (AList.update (entry_card x) x d) \<Longrightarrow> (k, e) \<in> set d \<or> e = x \<and> k = entry_card x" for d
      by (induction d) (auto split: if_splits)
    then show ?case using Cons.IH [of "AList.update (entry_card x) x d"] Cons.prems by auto
  qed
  then show "(k, e) \<in> set (dedupe es) \<Longrightarrow> e \<in> set es \<and> k = entry_card e"
    by (force simp: dedupe_def)
qed

lemma cards_get_record_member:
  assumes "e \<in> set (cards_get (cards_record p c es rows) p c)"
  obtains e0 where "e0 \<in> set es" "e = stored (cards_get rows p c) e0"
proof -
  obtain k e0 where k: "(k, e0) \<in> set (dedupe es)"
    "e = entry_of (row_of p c (known_active (cards_get rows p c)) (k, e0))"
    using assms by (auto simp: cards_get_set cards_record_def cards_forget_def)
  with dedupe_member [OF k(1)] show ?thesis using that [of e0] by (simp add: entry_of_row_of)
qed

section \<open>Where AccessGrid's cards go\<close>

lemma free_slots_spec:
  "n \<in> set (free_slots s pid slots) \<Longrightarrow>
    (\<exists>sl\<in>set slots. sl_index sl = n \<and> slot_empty sl)
    \<and> (\<forall>c. \<forall>e\<in>set (cards_get (ms_cards s) pid c). en_slot e \<noteq> n)"
proof
  let ?taken = "List.map en_slot (concat (List.map snd (entries_for_person (ms_cards s) pid)))"
  assume n: "n \<in> set (free_slots s pid slots)"
  then show "\<exists>sl\<in>set slots. sl_index sl = n \<and> slot_empty sl"
    by (auto simp: free_slots_def Let_def)
  have "set (free_slots s pid slots) \<inter> set ?taken = {}"
    unfolding free_slots_def Let_def set_map set_filter by blast
  then have taken: "n \<notin> set ?taken" using n by blast
  show "\<forall>c. \<forall>e\<in>set (cards_get (ms_cards s) pid c). en_slot e \<noteq> n"
  proof (intro allI ballI)
    fix c e
    assume "e \<in> set (cards_get (ms_cards s) pid c)"
    then have "en_slot e \<in> set ?taken"
      using entries_for_person_member [of e "ms_cards s" pid c] by (simp only: set_map image_eqI)
    then show "en_slot e \<noteq> n" using taken by metis
  qed
qed

lemma free_slots_distinct: "distinct (List.map sl_index slots) \<Longrightarrow> distinct (free_slots s pid slots)"
  by (simp add: free_slots_def Let_def distinct_map_filter)

lemma zip_second_unique:
  "distinct ys \<Longrightarrow> (x, y) \<in> set (zip xs ys) \<Longrightarrow> (x', y) \<in> set (zip xs ys) \<Longrightarrow> x = x'"
  by (metis distinct_conv_nth in_set_zip fst_conv snd_conv)

lemma to_write_subset: "set (to_write waiting pair new) \<subseteq> set new"
  by (auto simp: to_write_def Let_def dest: in_set_takeD in_set_dropD)

text \<open>A write back that changes the ledger: what was recorded, and where it may go.\<close>

lemma write_back_records:
  assumes "write_back_credentials cfg pid cid ids s = (Inr True, t)" and "map_of (ms_holders s) pid = Some h"
    and "ms_cards t \<noteq> ms_cards s"
  obtains ws slots where
    "ms_cards t = cards_record pid cid (cards_get (ms_cards s) pid cid @ List.map insert_entry (zip ws slots)) (ms_cards s)"
    "\<forall>i\<in>set ws. i \<in> set ids \<and> card_of_identity i \<notin> entry_card ` set (cards_get (ms_cards s) pid cid)
       \<and> \<not> on_any_cardholder s (card_of_identity i)"
    "\<forall>n\<in>set slots. (\<exists>tr\<in>set (cards_get (ms_cards s) pid cid). en_pending tr = Some ''write'' \<and> en_slot tr = n)
       \<or> n \<in> set (free_slots s pid (ch_slots h))"
    "distinct (List.map sl_index (ch_slots h)) \<Longrightarrow> distinct slots"
    "length ws \<le> length slots"
proof -
  let ?es = "cards_get (ms_cards s) pid cid"
  let ?trigger = "List.find (\<lambda>e. en_pending e = Some ''write'') ?es"
  let ?new = "List.filter (\<lambda>i. card_of_identity i \<notin> entry_card ` set ?es) ids"
  let ?ws = "to_write (?trigger \<noteq> None) (mf_pair cfg) ?new"
  let ?slots = "(case ?trigger of None \<Rightarrow> [] | Some e \<Rightarrow> [en_slot e]) @ free_slots s pid (ch_slots h)"
  have rec: "ms_cards t = cards_record pid cid (?es @ List.map insert_entry (zip ?ws ?slots)) (ms_cards s)"
    and free: "List.find (\<lambda>i. on_any_cardholder s (card_of_identity i)) ?new = None"
    and len: "length ?ws \<le> length ?slots"
    using assms by (auto simp: write_back_credentials_def Let_def split: if_splits option.splits)
  have trig: "?trigger = Some e \<Longrightarrow> e \<in> set ?es \<and> en_pending e = Some ''write''" for e
    using find_SomeD by fastforce
  have dist: "distinct (List.map sl_index (ch_slots h)) \<Longrightarrow> distinct ?slots"
    using free_slots_distinct [of "ch_slots h" s pid] free_slots_spec [of _ s pid "ch_slots h"] trig
    by (cases ?trigger) auto
  have ws: "\<forall>i\<in>set ?ws. i \<in> set ids \<and> card_of_identity i \<notin> entry_card ` set ?es \<and> \<not> on_any_cardholder s (card_of_identity i)"
    using free to_write_subset [of "?trigger \<noteq> None" "mf_pair cfg" ?new] by (auto simp: find_None_iff_all)
  have sl: "\<forall>n\<in>set ?slots. (\<exists>tr\<in>set ?es. en_pending tr = Some ''write'' \<and> en_slot tr = n) \<or> n \<in> set (free_slots s pid (ch_slots h))"
    using trig by (cases ?trigger) auto
  show ?thesis by (rule that [OF rec ws sl dist len])
qed


section \<open>Sending the changes\<close>

lemma all_or_error_length: "all_or_error f xs = Inr ys \<Longrightarrow> length ys = length xs"
  by (induction xs arbitrary: ys) (auto split: sum.splits)

lemma build_nonempty:
  assumes "build rows = Inr files" and "rows \<noteq> []"
  shows "files \<noteq> []"
proof -
  obtain groups where g: "group_rows rows [] = Inr groups" "all_or_error make_file groups = Inr files"
    using assms(1) by (auto simp: build_def split: sum.splits)
  then have "groups \<noteq> []" using group_rows_keys [OF g(1)] assms(2) by auto
  then show ?thesis using all_or_error_length [OF g(2)] by auto
qed

lemma send_files:
  assumes "for_each (send_file cl) files rf s = (Inr rf', t)"
    and "\<And>f c lg c'. mc_import_cardholders cl f c = (Inr lg, c') \<Longrightarrow> pid \<in> set (skipped lg)"
  shows "ms_cards t = ms_cards s \<and> (files \<noteq> [] \<or> pid \<in> set (rf_people rf) \<longrightarrow> pid \<in> set (rf_people rf'))"
  using assms(1)
proof (induction files arbitrary: rf s)
  case Nil
  then show ?case by simp
next
  case (Cons f files)
  from Cons.prems obtain rf1 s1 where one: "send_file cl f rf s = (Inr rf1, s1)"
    and rest: "for_each (send_file cl) files rf1 s1 = (Inr rf', t)"
    by (auto split: prod.splits sum.splits)
  have "ms_cards s1 = ms_cards s" "pid \<in> set (rf_people rf1)"
    using one assms(2) by (auto simp: send_file_def on_site_def Let_def split: prod.splits sum.splits)
  then show ?case using Cons.IH [OF rest] by simp
qed

lemma settle_refused:
  "pid \<in> set (rf_people rf) \<Longrightarrow> cards_get (ms_cards (fold (settle_pass rf) pend s)) pid cid = cards_get (ms_cards s) pid cid"
proof (induction pend arbitrary: s)
  case Nil
  then show ?case by simp
next
  case (Cons pe pend)
  obtain p c es where pe: "pe = ((p, c), es)" by (metis surj_pair)
  have "cards_get (ms_cards (settle_pass rf pe s)) pid cid = cards_get (ms_cards s) pid cid"
  proof (cases "p = pid")
    case True
    then show ?thesis using Cons.prems by (simp add: pe settle_pass_def)
  next
    case False
    then show ?thesis by (simp add: pe settle_pass_def cards_get_record_other)
  qed
  then show ?case using Cons.IH [OF Cons.prems] by simp
qed


text \<open>The field list of an import file names its columns in order.\<close>

definition field_summary :: "import_field \<Rightarrow> nat \<times> nat option \<times> string" where
  "field_summary x = (if_card x, Some (if_id x), if_header x)"

definition column_summary :: "column \<Rightarrow> nat \<times> nat option \<times> string" where
  "column_summary c = (fst c, map_of FIELD_IDS (snd c), drop_blanks (column_name c))"

lemma import_fields_summary:
  "all_or_error import_field_of (enumerate n cols) = Inr fs \<Longrightarrow> List.map field_summary fs = List.map column_summary cols"
proof (induction cols arbitrary: n fs)
  case Nil
  then show ?case by simp
next
  case (Cons c cols)
  then obtain x xs where one: "import_field_of (n, c) = Inr x"
    and rest: "all_or_error import_field_of (enumerate (Suc n) cols) = Inr xs" and fs: "fs = x # xs"
    by (auto split: sum.splits)
  have "field_summary x = column_summary c"
    using one by (auto simp: import_field_of_def field_summary_def column_summary_def split: option.splits)
  then show ?case using Cons.IH [OF rest] by (simp add: fs)
qed

lemma make_file_fields: "make_file (cols, rs) = Inr f \<Longrightarrow> List.map field_summary (im_fields f) = List.map column_summary cols"
  by (auto simp: make_file_def split: sum.splits dest: import_fields_summary)


lemma set_map_filter_iff: "y \<in> set (List.map_filter f xs) \<longleftrightarrow> (\<exists>x\<in>set xs. f x = Some y)"
  by (induction xs) (auto simp: List.map_filter_simps split: option.splits)


lemma check_row_None: "check_row r = None \<longleftrightarrow> (\<forall>c\<in>set (row_cards r). missing_identity r c = [])"
proof -
  have "check_row r = None \<longleftrightarrow> List.find (\<lambda>c. missing_identity r c \<noteq> []) (row_cards r) = None"
    unfolding check_row_def by (simp only: option.case_eq_if split: if_split) simp
  then show ?thesis by (simp only: find_None_iff_all not_not)
qed


section \<open>The move to Employee IDs\<close>

text \<open>
  The pages of a list of records as the client serves them one after the other, and whom a page shows: a
  record's own page carries the record's id and its Employee ID, any other page is of a record that is gone.
\<close>

fun read_pages :: "'c mill_client \<Rightarrow> string list \<Rightarrow> 'c \<Rightarrow> (string \<times> (exn + (string \<Rightarrow> string))) list" where
  "read_pages cl [] c = []"
| "read_pages cl (rid # rids) c =
     (rid, fst (mc_get_cardholder_form cl rid c)) # read_pages cl rids (snd (mc_get_cardholder_form cl rid c))"

definition employee_on :: "(string \<times> (exn + (string \<Rightarrow> string))) list \<Rightarrow> string \<Rightarrow> string option" where
  "employee_on pages rid =
     (case map_of pages rid of
        Some (Inr form) \<Rightarrow> if py_strip (form ''ID'') = rid then Some (py_strip (form ''EmployeeID'')) else None
      | _ \<Rightarrow> None)"

lemma employee_on_Cons:
  "employee_on ((k, page) # pages) rid =
     (if rid = k then employee_on [(k, page)] rid else employee_on pages rid)"
  by (cases "rid = k") (simp_all add: employee_on_def)

lemma read_record_page:
  assumes "read_record cl rid m s = (Inr m', t)" and "mg_problems m' = 0"
  shows "ms_site t = snd (mc_get_cardholder_form cl rid (ms_site s))" and "mg_problems m = 0"
    and "\<exists>form. fst (mc_get_cardholder_form cl rid (ms_site s)) = Inr form \<and>
      (if py_strip (form ''ID'') = rid
       then py_strip (form ''EmployeeID'') \<noteq> '''' \<and>
         mg_employee_ids m' = AList.update rid (py_strip (form ''EmployeeID'')) (mg_employee_ids m)
       else mg_employee_ids m' = mg_employee_ids m)"
proof -
  let ?page = "mc_get_cardholder_form cl rid (ms_site s)"
  have site: "on_site (mc_get_cardholder_form cl rid) s = (fst ?page, s\<lparr>ms_site := snd ?page\<rparr>)"
    by (simp add: on_site_def split: prod.split)
  obtain form where form: "fst ?page = Inr form"
    using assms by (cases "fst ?page") (auto simp: read_record_def site split: if_splits)
  have read: "m' = (if py_strip (form ''ID'') \<noteq> rid then m\<lparr>mg_gone := mg_gone m @ [rid]\<rparr>
      else m\<lparr>mg_employee_ids := AList.update rid (py_strip (form ''EmployeeID'')) (mg_employee_ids m)\<rparr>)"
    and own: "py_strip (form ''ID'') = rid \<Longrightarrow> py_strip (form ''EmployeeID'') \<noteq> ''''"
    and t: "t = s\<lparr>ms_site := snd ?page\<rparr>"
    using assms by (auto simp: read_record_def site form split: if_splits)
  show "ms_site t = snd ?page" by (simp add: t)
  show "mg_problems m = 0" using assms(2) read by (simp split: if_splits)
  show "\<exists>form. fst ?page = Inr form \<and>
      (if py_strip (form ''ID'') = rid
       then py_strip (form ''EmployeeID'') \<noteq> '''' \<and>
         mg_employee_ids m' = AList.update rid (py_strip (form ''EmployeeID'')) (mg_employee_ids m)
       else mg_employee_ids m' = mg_employee_ids m)"
    using form read own by auto
qed

lemma read_records_pages:
  assumes "for_each (read_record cl) rids m s = (Inr m', t)" and "mg_problems m' = 0" and "distinct rids"
  shows "mg_problems m = 0 \<and>
    (\<forall>rid\<in>set rids. (\<exists>form. (rid, Inr form) \<in> set (read_pages cl rids (ms_site s))) \<and>
       employee_on (read_pages cl rids (ms_site s)) rid \<noteq> Some '''' \<and>
       (map_of (mg_employee_ids m) rid = None \<longrightarrow>
          map_of (mg_employee_ids m') rid = employee_on (read_pages cl rids (ms_site s)) rid)) \<and>
    (\<forall>k. k \<notin> set rids \<longrightarrow> map_of (mg_employee_ids m') k = map_of (mg_employee_ids m) k)"
  using assms
proof (induction rids arbitrary: m s)
  case (Cons rid rids)
  then obtain m1 s1 where one: "read_record cl rid m s = (Inr m1, s1)"
    and rest: "for_each (read_record cl) rids m1 s1 = (Inr m', t)"
    by (auto split: prod.splits sum.splits)
  note ih = Cons.IH [OF rest Cons.prems(2)]
  then have m1: "mg_problems m1 = 0" using Cons.prems(3) by simp
  note page = read_record_page [OF one m1]
  obtain form where form: "fst (mc_get_cardholder_form cl rid (ms_site s)) = Inr form"
    and ids: "if py_strip (form ''ID'') = rid
       then py_strip (form ''EmployeeID'') \<noteq> '''' \<and>
         mg_employee_ids m1 = AList.update rid (py_strip (form ''EmployeeID'')) (mg_employee_ids m)
       else mg_employee_ids m1 = mg_employee_ids m" using page(3) by blast
  have other: "k \<noteq> rid \<Longrightarrow> map_of (mg_employee_ids m1) k = map_of (mg_employee_ids m) k" for k
    using ids by (auto simp: update_conv split: if_splits)
  have own: "map_of (mg_employee_ids m) rid = None \<Longrightarrow> map_of (mg_employee_ids m1) rid = employee_on [(rid, Inr form)] rid"
    "employee_on [(rid, Inr form)] rid \<noteq> Some ''''"
    using ids by (auto simp: employee_on_def update_conv split: if_splits)
  have pages: "read_pages cl (rid # rids) (ms_site s) = (rid, Inr form) # read_pages cl rids (ms_site s1)"
    by (simp add: form page(1))
  have step: "employee_on (read_pages cl (rid # rids) (ms_site s)) k =
      (if k = rid then employee_on [(rid, Inr form)] rid else employee_on (read_pages cl rids (ms_site s1)) k)" for k
    unfolding pages by (subst employee_on_Cons) simp
  show ?case
    using ih Cons.prems(3) page(2) own other step by (auto simp: pages simp del: read_pages.simps)
qed simp

text \<open>A successful move, from the pages to the tables.\<close>

lemma migrate_moves:
  assumes "migrate_ensure cfg cl s = (Inr (), t)" and "\<not> ms_migrated s"
    and "pages = read_pages cl (record_ids s) (ms_site (snd (fill_label cfg cl s)))"
    and "\<And>rid eid. employee_on pages rid = Some eid \<Longrightarrow> plain_id eid"
  obtains m where "findings_cover (record_ids s) m" "mg_problems m = 0" "distinct (List.map snd (mg_employee_ids m))"
    "ms_rows t = List.map (moved_row m) (ms_rows s)" "ms_cards t = List.map (moved_card m) (ms_cards s)" "ms_migrated t"
    "\<forall>rid\<in>set (record_ids s). map_of (mg_employee_ids m) rid = employee_on pages rid"
    "\<forall>rid\<in>set (record_ids s). \<exists>form. (rid, Inr form) \<in> set pages"
proof -
  let ?m0 = "\<lparr>mg_employee_ids = [], mg_gone = [], mg_problems = 0\<rparr>"
  obtain s1 u where s1: "fill_label cfg cl s = (Inr u, s1)"
    using assms(1,2) by (auto simp: migrate_ensure_def split: prod.splits sum.splits)
  then obtain m s2 where reads: "for_each (read_record cl) (record_ids s1) ?m0 s1 = (Inr m, s2)"
    and none: "mg_problems m = 0" "shared_ids (mg_employee_ids m) = []"
    and commit: "commit_move m s2 = (Inr (), t)"
    using assms(1,2) by (auto simp: migrate_ensure_def split: prod.splits sum.splits if_splits)
  have same: "same_tables s s2"
    using fill_label_tables [OF s1] read_records_tables [OF reads] by (simp add: same_tables_def)
  have ids: "record_ids s1 = record_ids s" "record_ids s2 = record_ids s"
    using fill_label_tables [OF s1] same by (simp_all add: record_ids_def same_tables_def)
  have "findings_cover ([] @ record_ids s1) m"
    by (rule read_records_cover [OF _ _ _ reads]) (simp_all add: findings_cover_def record_ids_def)
  then have cover: "findings_cover (record_ids s) m" by (simp add: ids)
  have pages: "pages = read_pages cl (record_ids s1) (ms_site s1)" using assms(3) s1 by (simp add: ids)
  have "distinct (record_ids s1)" by (simp add: record_ids_def)
  from read_records_pages [OF reads none(1) this]
  have said: "\<forall>rid\<in>set (record_ids s). map_of (mg_employee_ids m) rid = employee_on pages rid"
    "\<forall>rid\<in>set (record_ids s). \<exists>form. (rid, Inr form) \<in> set pages"
    by (auto simp: pages ids)
  have plain: "\<forall>e\<in>set (mg_employee_ids m). plain_id (snd e)"
  proof
    fix e assume e: "e \<in> set (mg_employee_ids m)"
    then have "fst e \<in> set (record_ids s)" "map_of (mg_employee_ids m) (fst e) = Some (snd e)"
      using cover none(1) by (auto simp: findings_cover_def)
    then show "plain_id (snd e)" using said(1) assms(4) by metis
  qed
  have "findings_cover (record_ids s2) m" using cover by (simp add: ids)
  note moved = commit_move_rows [OF commit this none(1) plain]
  show ?thesis
    by (rule that [OF cover none(1) shared_ids_none [OF none(2)] _ _ _ said]) (use moved same in \<open>simp_all add: same_tables_def\<close>)
qed


section \<open>Recording a new pass\<close>

text \<open>What a step over one slot does to the passes held in memory, and when it makes a new one.\<close>

lemma slot_step_new:
  assumes "slot_step cfg pid slots sl (m, s) = (m', t)" and "fst ` set (mt_mine m') \<noteq> fst ` set (mt_mine m)"
  shows "is_trigger (ms_label s) sl \<and> owner_of (mt_mine m) (slot_card sl) = None
    \<and> recorded_in (mt_mine m) (sl_index sl) = None \<and> has_room cfg slots
    \<and> (mt_mine m = [] \<longrightarrow> \<not> card_recorded_elsewhere s pid (slot_card sl) \<and> \<not> tracked_pass s pid None)
    \<and> (m', t) = new_pass cfg pid sl (m, s)"
proof -
  have keep: "fst ` set (AList.update cid es (mt_mine m)) = fst ` set (mt_mine m)"
    if "owner_of (mt_mine m) k = Some cid" for k cid es
  proof -
    have "cid \<in> fst ` set (mt_mine m)" using that by (force simp: owner_of_def dest: find_SomeD)
    then show ?thesis by (auto simp: dom_update)
  qed
  have trig: "is_trigger (ms_label s) sl"
    using assms by (cases "is_trigger (ms_label s) sl") (auto simp: slot_step_def)
  have owner: "owner_of (mt_mine m) (slot_card sl) = None"
  proof (rule ccontr)
    assume "owner_of (mt_mine m) (slot_card sl) \<noteq> None"
    then obtain cid where cid: "owner_of (mt_mine m) (slot_card sl) = Some cid" by blast
    then have "m' = m \<or> (\<exists>es. m' = m\<lparr>mt_mine := AList.update cid es (mt_mine m)\<rparr>)"
      using assms(1) trig by (auto simp: slot_step_def Let_def split: if_splits)
    then have "fst ` set (mt_mine m') = fst ` set (mt_mine m)"
    proof (elim disjE exE)
      fix es
      assume "m' = m\<lparr>mt_mine := AList.update cid es (mt_mine m)\<rparr>"
      then have "mt_mine m' = AList.update cid es (mt_mine m)" by simp
      then show ?thesis by (simp only: keep [OF cid])
    qed simp
    then show False using assms(2) by blast
  qed
  have rec: "recorded_in (mt_mine m) (sl_index sl) = None"
  proof (rule ccontr)
    assume "recorded_in (mt_mine m) (sl_index sl) \<noteq> None"
    then have "mt_mine m' = mt_mine m"
      using assms(1) trig owner by (auto simp: slot_step_def Let_def)
    then show False using assms(2) by simp
  qed
  have "\<not> (mt_mine m = [] \<and> (card_recorded_elsewhere s pid (slot_card sl) \<or> tracked_pass s pid None))" "has_room cfg slots"
    using assms trig owner rec by (auto simp: slot_step_def Let_def split: if_splits)
  then show ?thesis using assms(1) trig owner rec by (auto simp: slot_step_def Let_def split: if_splits)
qed

section \<open>Reading\<close>

text \<open>
  Reading a cardholder's credentials from Millennium writes to the ledger as it goes. What it may
  touch is that cardholder's own passes: the relation \<open>own_passes_only\<close> is kept by every step of the
  read, and with it the adapter keeps the reading contract of the engine.
\<close>

definition own_passes_only :: "string \<Rightarrow> 'c mill \<Rightarrow> 'c mill \<Rightarrow> bool" where
  "own_passes_only pid s t \<longleftrightarrow> ms_site t = ms_site s \<and> ms_rows t = ms_rows s \<and> ms_holders t = ms_holders s
     \<and> ms_ours t = ms_ours s \<and> ms_label t = ms_label s
     \<and> (\<forall>p c. p \<noteq> pid \<longrightarrow> cards_get (ms_cards t) p c = cards_get (ms_cards s) p c)
     \<and> (ledger_ok (ms_cards s) \<longrightarrow> ledger_ok (ms_cards t))"

lemma own_refl: "own_passes_only pid s s"
  by (simp add: own_passes_only_def)

lemma own_trans: "own_passes_only pid s t \<Longrightarrow> own_passes_only pid t u \<Longrightarrow> own_passes_only pid s u"
  by (simp add: own_passes_only_def)

lemma own_record: "own_passes_only pid s (record_cards pid c es s)"
  by (simp add: own_passes_only_def cards_get_record_other ledger_ok_record)

lemma own_forget: "own_passes_only pid s (forget_cards pid c s)"
  by (simp add: own_passes_only_def forget_cards_def cards_get_forget ledger_ok_forget)

lemma own_problem: "own_passes_only pid s (card_problem pid k s)"
  by (simp add: own_passes_only_def card_problem_def)

lemmas own_intros = own_refl own_record own_forget own_problem

lemma own_fold:
  assumes "\<And>x acc. own_passes_only pid (st acc) (st (f x acc))"
  shows "own_passes_only pid (st acc) (st (fold f xs acc))"
proof (induction xs arbitrary: acc)
  case (Cons x xs)
  then show ?case using own_trans [OF assms [of acc x]] by simp
qed (simp add: own_refl)

lemma own_adopt: "own_passes_only pid s (adopt_slot_ids pid slots s)"
  unfolding adopt_slot_ids_def
  by (auto intro!: own_refl own_fold [where st = "\<lambda>s. s"] own_record split: option.split)

lemma own_gone: "own_passes_only pid s (forget_if_nothing_remains pid slots s)"
  unfolding forget_if_nothing_remains_def
  by (rule own_fold [where st = "\<lambda>s. s"]) (simp add: own_refl own_forget split: prod.split)

lemma own_dormant: "own_passes_only pid (snd ms) (snd (dormant_step pid slots ce ms))"
  by (simp add: dormant_step_def Let_def own_intros split: prod.split)

lemma own_slot: "own_passes_only pid (snd ms) (snd (slot_step cfg pid slots sl ms))"
  by (simp add: slot_step_def new_pass_def Let_def own_intros split: prod.split option.split)

lemma own_report: "own_passes_only pid (snd os) (snd (report_pass cfg pid slots held ce os))"
  by (simp add: report_pass_def Let_def own_intros split: prod.split option.split)

lemma own_credentials: "own_passes_only pid s (snd (credentials_of cfg pid slots s))"
proof -
  obtain m s1 where match: "match_slots cfg pid slots s = (m, s1)" by fastforce
  have "own_passes_only pid s (snd (match_slots cfg pid slots s))"
    unfolding match_slots_def Let_def
    using own_trans [OF own_fold [where st = snd, OF own_dormant] own_fold [where st = snd, OF own_slot]] by force
  moreover have "own_passes_only pid s1 (snd (fold (report_pass cfg pid slots (mt_held m)) (sort_key fst (mt_mine m)) ([], s1)))"
    using own_fold [where st = snd, OF own_report, of pid "([], s1)"] by simp
  ultimately show ?thesis using own_trans by (simp add: credentials_of_def match) blast
qed

lemma own_read: "own_passes_only pid s (snd (list_credentials cfg pid s))"
proof (cases "map_of (ms_holders s) pid")
  case None
  then show ?thesis by (simp add: list_credentials_def own_refl)
next
  case (Some h)
  let ?slots = "ch_slots h"
  let ?s1 = "if mf_seos cfg then s else adopt_slot_ids pid ?slots s"
  let ?s2 = "if mf_seos cfg \<and> pid \<in> set (ms_ours ?s1) \<and> \<not> list_ex (is_trigger (ms_label ?s1)) ?slots
    then forget_if_nothing_remains pid ?slots ?s1 else ?s1"
  have "own_passes_only pid s ?s1" by (simp add: own_refl own_adopt)
  moreover have "own_passes_only pid ?s1 ?s2" by (simp add: own_refl own_gone)
  ultimately have "own_passes_only pid s (snd (credentials_of cfg pid ?slots ?s2))"
    using own_trans own_credentials by blast
  moreover have "snd (list_credentials cfg pid s) = snd (credentials_of cfg pid ?slots ?s2)"
    using Some by (simp add: list_credentials_def Let_def split: prod.split)
  ultimately show ?thesis by simp
qed

text \<open>The reading contract: whoever is not in the cycle's export is refused, and a read changes the export for nobody.\<close>

lemma read_keeps_holders: "ms_holders (snd (list_credentials cfg pid s)) = ms_holders s"
  using own_read [of pid s cfg] by (simp add: own_passes_only_def)

interpretation mill_reader: honest_reader "mill_api cfg cl" "\<lambda>s p. map_of (ms_holders s) p = None" for cfg cl
proof
  show "\<exists>m s'. pacs_list_credentials (mill_api cfg cl) p s = (Inl (PacsRecordUnavailable m), s')"
    if "map_of (ms_holders s) p = None" for s p
    using that by (simp add: mill_api_def list_credentials_def)
  show "(map_of (ms_holders (snd (pacs_list_credentials (mill_api cfg cl) q s))) p = None) = (map_of (ms_holders s) p = None)"
    for q s p
    by (simp add: mill_api_def read_keeps_holders)
qed

end
