(* ===== verification/Adapter_Demo.thy ===== *)
theory Adapter_Demo
  imports Demo_Site Cloud_Laws Cdvi_Laws Mill_Laws
begin

section \<open>Small servers\<close>

text \<open>
  Small servers on which the witnesses of the adapters' properties are evaluated: an Alta
  organization with one user whose credentials cannot be read, a Unity box with two identities, a
  CDVI controller with two cards.
\<close>

definition answer_with :: "(request \<Rightarrow> response) \<Rightarrow> unit http" where
  "answer_with f = \<lparr>http_send = (\<lambda>rq h. (Inr (f rq), h)), http_now = (\<lambda>_. 0), http_cookie = (\<lambda>_ _. None),
     http_forget_cookies = (\<lambda>h. h)\<rparr>"

definition json_answer :: "nat \<Rightarrow> json \<Rightarrow> response" where
  "json_answer status v = \<lparr>rs_status = status, rs_headers = [(''content-type'', ''application/json'')], rs_text = '''',
     rs_json = Some v\<rparr>"

definition text_answer :: "nat \<Rightarrow> string \<Rightarrow> response" where
  "text_answer status s = \<lparr>rs_status = status, rs_headers = [], rs_text = s, rs_json = None\<rparr>"

text \<open>The engine's world around an adapter in state \<open>p\<close>.\<close>

definition world_on :: "'p \<Rightarrow> table \<Rightarrow> (unit, 'p) world" where
  "world_on p rows = \<lparr>w_rows = rows, w_last_complete = None, w_ag = (), w_pacs = p, w_refs = 0, w_detail = [], w_calls = []\<rparr>"

section \<open>Alta\<close>

definition alta_user :: json where
  "alta_user = JObj [(''id'', JInt 7), (''status'', JStr ''A''), (''externalId'', JStr ''AccessGrid ''),
     (''identity'', JObj [(''fullName'', JStr ''Ana Silva'')])]"

definition alta_answer :: "request \<Rightarrow> response" where
  "alta_answer rq =
     (if rq_path rq = ''/auth/determineLoginCandidateNamespaces''
        then json_answer 200 (JObj [(''data'', JArr [JObj [(''id'', JInt 3), (''org'', JObj [(''id'', JInt 9)])]])])
      else if rq_path rq = ''/auth/login'' then json_answer 201 (JObj [(''data'', JObj [(''token'', JStr ''jwt'')])])
      else if rq_path rq = ''/orgs/9/users'' then json_answer 200 (JObj [(''data'', JArr [alta_user]), (''totalCount'', JInt 1)])
      else if rq_path rq = ''/orgs/9/users/7/credentials'' then text_answer 500 ''''
      else text_answer 404 '''')"

definition alta_net :: "unit http" where
  "alta_net = answer_with alta_answer"

definition alta_account :: alta_cfg where
  "alta_account = \<lparr>acf_email = ''it@example.com'', acf_password = ''secret''\<rparr>"

text \<open>The client once it has signed in.\<close>

definition alta_signed_in :: "unit alta" where
  "alta_signed_in = (alta_init ())\<lparr>al_token := ''jwt'', al_namespace := JInt 3, al_org := JInt 9\<rparr>"

section \<open>Unity\<close>

definition unity_identity :: "string \<Rightarrow> string \<Rightarrow> json" where
  "unity_identity i name = JObj [(''cn'', JStr i), (''plasecName'', JStr name), (''plasecIdstatus'', JStr ''Active'')]"

definition unity_roster :: "json list" where
  "unity_roster = [unity_identity ''a'' ''Silva, Ana'', unity_identity ''b'' ''Boe, Bo'']"

definition unity_token :: "string \<Rightarrow> json" where
  "unity_token st = JObj ([(''cn'', JStr ''t1''), (''plasecTokenstatus'', JStr st)]
     @ List.map (\<lambda>f. (f, JStr '''')) (TOKEN_FORM_FIELDS @ TOKEN_FORM_DATES))"

text \<open>The page of a list request, the second parameter of a full one being the page size.\<close>

definition asked_page :: "request \<Rightarrow> nat option" where
  "asked_page rq = (case rq_params rq of
     [(k, v), (k', v')] \<Rightarrow> if v' = string_of_nat PAGE_SIZE then parse_nat v else None | _ \<Rightarrow> None)"

definition unity_answer :: "request \<Rightarrow> response" where
  "unity_answer rq =
     (if rq_method rq = ''POST'' then text_answer 302 ''''
      else if rq_path rq = ''/identities.json''
        then (case asked_page rq of None \<Rightarrow> json_answer 200 JNull | Some p \<Rightarrow> json_answer 200 (page_body unity_roster True p))
      else if rq_path rq = ''/identities/a/tokens.json'' then json_answer 200 (JObj [(''tokens'', JArr [unity_token ''2''])])
      else text_answer 404 '''')"

definition unity_demo :: "unit unity_env" where
  "unity_demo = \<lparr>ue_net = answer_with unity_answer, ue_xml = (\<lambda>_. None), ue_username = ''it'', ue_password = ''secret'',
     ue_utcoffset = (\<lambda>_. - 18000)\<rparr>"

definition unity_start :: "unit unity" where
  "unity_start = \<lparr>un_logged_in = True, un_xml_first = [], un_tokens = [], un_held = [], un_net = ()\<rparr>"

section \<open>CDVI\<close>

definition cdvi_card :: "string \<Rightarrow> string \<Rightarrow> json" where
  "cdvi_card i number = JObj [(''id'', JStr i), (''number'', JStr number), (''name'', JStr ''Ana [accessgrid]''),
     (''USER'', JObj [(''id'', JStr ''7'')])]"

definition cdvi_demo :: "(request \<Rightarrow> response) \<Rightarrow> unit cdvi_env" where
  "cdvi_demo f = \<lparr>ce_net = answer_with f, ce_xml = (\<lambda>_. None), ce_md5 = (\<lambda>s. s), ce_base_url = ''https://atrium'',
     ce_username = ''it'', ce_password = ''secret''\<rparr>"

definition cdvi_signed_in :: "unit cdvi" where
  "cdvi_signed_in = (cdvi_init ())\<lparr>cd_session := Some ''AB12'', cd_serial := Some ''AA0089FE'', cd_logged_in := True\<rparr>"

section \<open>A small Millennium install\<close>

text \<open>
  A small Millennium install the witnesses run on: one cardholder, \<open>E1\<close>, whose first slot holds
  a card in the trigger format \<open>T\<close>, and a client that answers with fixed pages and logs and counts
  the imports it is sent.
\<close>

definition demo_slot :: "nat \<Rightarrow> string \<Rightarrow> string \<Rightarrow> bool \<Rightarrow> slot" where
  "demo_slot i fc num act = \<lparr>sl_index = i, sl_card_number = num, sl_facility_code = fc,
     sl_card_format = (if num = '''' then '''' else ''T''), sl_active = act, sl_activation = None,
     sl_expiration = None, sl_access_levels = []\<rparr>"

definition demo_holder :: "slot list \<Rightarrow> cardholder" where
  "demo_holder slots = \<lparr>ch_employee_id = ''E1'', ch_first_name = ''Ann'', ch_last_name = ''Lee'',
     ch_email = ''ann@x.org'', ch_phone = '''', ch_slots = slots\<rparr>"

definition demo_slots :: "bool \<Rightarrow> slot list" where
  "demo_slots act = [demo_slot 1 ''10'' ''500'' act, demo_slot 2 '''' '''' False, demo_slot 3 '''' '''' False]"

definition demo_entry :: "string \<Rightarrow> bool option \<Rightarrow> string option \<Rightarrow> entry" where
  "demo_entry num act pend = \<lparr>en_slot = 1, en_facility_code = ''10'', en_card_number = num, en_active = act,
     en_pending = pend, en_status = None\<rparr>"

definition demo_mill_row :: "string \<Rightarrow> bool option \<Rightarrow> string option \<Rightarrow> card_row" where
  "demo_mill_row num act pend = \<lparr>cw_person = ''E1'', cw_credential = ''card'', cw_slot = 1, cw_facility_code = ''10'',
     cw_card_number = num, cw_active = act, cw_pending = pend, cw_status = ''live''\<rparr>"

definition demo_mill :: "bool \<Rightarrow> ledger \<Rightarrow> nat mill" where
  "demo_mill act cards = \<lparr>ms_holders = [(''E1'', demo_holder (demo_slots act))], ms_ours = [''E1''], ms_label = ''T'',
     ms_config_label = ''T'', ms_migrated = False, ms_cards = cards, ms_rows = [], ms_problems = [], ms_site = 0\<rparr>"

definition demo_mill_cfg :: "bool \<Rightarrow> mill_cfg" where
  "demo_mill_cfg dry = \<lparr>mf_seos = True, mf_pair = True, mf_format_id = ''7'', mf_email_domain = ''x.org'',
     mf_offset = 0, mf_now = 0, mf_dry = dry\<rparr>"

definition demo_form :: "string \<Rightarrow> string \<Rightarrow> string" where
  "demo_form rid field = (if field = ''ID'' then rid else if field = ''EmployeeID'' then ''E'' @ rid else '''')"

definition demo_log :: "string list \<Rightarrow> import_log" where
  "demo_log skips = \<lparr>lg_counts = [], lg_warnings = [], lg_errors = [], lg_skips = skips\<rparr>"

definition demo_client :: "string list \<Rightarrow> nat mill_client" where
  "demo_client skips = \<lparr>mc_card_formats = (\<lambda>n. (Inr [(''7'', ''T'')], n)),
     mc_get_cardholder_form = (\<lambda>rid n. (Inr (demo_form rid), n)),
     mc_export_cardholders = (\<lambda>n. (Inr (''Employee ID,First Name'' @ [CHR 0x0A] @ ''E1,Ann'' @ [CHR 0x0A]), n)),
     mc_import_cardholders = (\<lambda>f n. (Inr (demo_log skips), n + 1)),
     mc_delete_card_by_number = (\<lambda>p fc num n. (Inr True, n + 1))\<rparr>"

definition demo_identity :: "string \<Rightarrow> identity" where
  "demo_identity num = \<lparr>id_site_code = ''10'', id_card_number = num, id_activate_date = None,
     id_deactivate_date = None, id_device_type = ''watch''\<rparr>"

text \<open>The line in which Millennium says it skipped cardholder E1.\<close>

definition skip_E1 :: string where
  "skip_E1 = [CHR 0x27] @ ''Employee ID:E1'' @ [CHR 0x27] @ '' has been skipped''"

lemma skipped_demo: "skipped (demo_log [skip_E1]) = [''E1'']"
  by code_simp

end
