(* ===== verification/Millennium_Properties.thy ===== *)
theory Millennium_Properties
  imports Adapter_Demo Mill_Laws
begin

text \<open>
  The properties of the Millennium Ultra adapter: what it may switch on, what it may write and
  where, what it sends and when, what its import files carry, who its roster names, and the move
  from record ids to Employee IDs. Each property stands over the adapter's own definitions; the
  contracts of the ledger (\<open>pc\<close>) and of the recorded writes are used through their interpretations.
\<close>

section \<open>Status writes\<close>

lemma switch_entry_card [simp]: "entry_card (switch_entry slots want e) = entry_card e"
  by (simp add: switch_entry_def entry_card_def)

text \<open>
  One call marks a card to be switched on only when it is off in Millennium, the status asked for
  is active, and the card is not recorded as on: a card we switched on that is now off was
  switched off by an operator. (A card whose change was already pending and that
  is not on the cardholder, or is being written or deleted, keeps what it had.)
\<close>

theorem operator_switch_off_stands:
  assumes "update_credential_status pid cid status s = (Inr True, t)" and "ledger_ok (ms_cards s)"
    and "map_of (ms_holders s) pid = Some h"
    and "e \<in> set (cards_get (ms_cards t) pid cid)" and "en_pending e = Some ''activate''"
  shows "\<exists>e0\<in>set (cards_get (ms_cards s) pid cid). entry_card e0 = entry_card e \<and>
     (if switchable (ch_slots h) e0
      then status = ACTIVE \<and> box_of (ch_slots h) e0 = Some False \<and> en_active e0 \<noteq> Some True
      else en_pending e0 = Some ''activate'')"
proof -
  let ?es = "cards_get (ms_cards s) pid cid" and ?slots = "ch_slots h" and ?want = "status = ACTIVE"
  have t: "ms_cards t = cards_record pid cid (List.map (switch_entry ?slots ?want) ?es) (ms_cards s)"
    and hand: "\<not> (?want \<and> list_ex (switched_off_by_hand ?slots) ?es)"
    using assms(1,3) by (auto simp: update_credential_status_def Let_def split: if_splits)
  obtain e0 where e0: "e0 \<in> set ?es" "e = stored ?es (switch_entry ?slots ?want e0)"
    using pc.rewrite_set [of "ms_cards s" "switch_entry ?slots ?want" pid cid] assms(2,4) by (auto simp: t)
  have pend: "en_pending (switch_entry ?slots ?want e0) = Some ''activate''"
    using assms(5) e0(2) by (auto simp: stored_def split: if_splits)
  have "entry_card e0 = entry_card e" using e0(2) by simp
  moreover have "if switchable ?slots e0
      then ?want \<and> box_of ?slots e0 = Some False \<and> en_active e0 \<noteq> Some True
      else en_pending e0 = Some ''activate''"
  proof (cases "switchable ?slots e0")
    case True
    then obtain b where b: "box_of ?slots e0 = Some b"
      by (auto simp: switchable_def box_of_def)
    have want: "?want" "b = False" using pend True b by (auto simp: switch_entry_def split: if_splits)
    then have "\<not> switched_off_by_hand ?slots e0" using hand e0(1) by (auto simp: list_ex_iff)
    then show ?thesis using True want b by (simp add: switched_off_by_hand_def)
  next
    case False
    then show ?thesis using pend by (simp add: switch_entry_def)
  qed
  ultimately show ?thesis using e0(1) by blast
qed

theorem operator_switch_off_stands_witness:
  "\<exists>t. update_credential_status ''E1'' ''card'' ACTIVE (demo_mill False [demo_mill_row ''500'' (Some False) None]) = (Inr True, t)
    \<and> (\<exists>e0\<in>set (cards_get [demo_mill_row ''500'' (Some False) None] ''E1'' ''card'').
         box_of (demo_slots False) e0 = Some False \<and> en_active e0 \<noteq> Some True)"
proof -
  let ?s = "demo_mill False [demo_mill_row ''500'' (Some False) None]"
  let ?t = "snd (update_credential_status ''E1'' ''card'' ACTIVE ?s)"
  have u: "update_credential_status ''E1'' ''card'' ACTIVE ?s = (Inr True, ?t)" by code_simp
  have ok: "ledger_ok (ms_cards ?s)" by code_simp
  have h: "map_of (ms_holders ?s) ''E1'' = Some (demo_holder (demo_slots False))" by code_simp
  have e: "(demo_entry ''500'' (Some False) (Some ''activate'')) \<in> set (cards_get (ms_cards ?t) ''E1'' ''card'')"
    by code_simp
  have p: "en_pending (demo_entry ''500'' (Some False) (Some ''activate'')) = Some ''activate''"
    by (simp add: demo_entry_def)
  have sw: "list_all (switchable (demo_slots False)) (cards_get (ms_cards ?s) ''E1'' ''card'')" by code_simp
  show ?thesis
    using operator_switch_off_stands [OF u ok h e p] u sw
    by (auto simp: list_all_iff demo_holder_def demo_mill_def)
qed

text \<open>What a status other than active leaves of a card: nothing it can take for an operator's doing.\<close>

lemma switched_off_entry:
  assumes "e = stored es (switch_entry slots False e1)"
  shows "\<not> switched_off_by_hand slots e"
proof
  assume hand: "switched_off_by_hand slots e"
  have card: "entry_card e = entry_card e1" by (simp add: assms)
  have pend: "pending_in e not_switchable = pending_in (switch_entry slots False e1) not_switchable"
    by (auto simp: assms stored_def pending_in_def not_switchable_def UNWRITTEN_def)
  show False
  proof (cases "switchable slots e1")
    case True
    then obtain b where b: "box_of slots e1 = Some b" by (auto simp: switchable_def box_of_def)
    show False
    proof (cases b)
      case True
      then show False using hand b by (auto simp: switched_off_by_hand_def box_of_def card)
    next
      case False
      then have "en_active e = Some False" using b \<open>switchable slots e1\<close> by (simp add: assms switch_entry_def stored_def)
      then show False using hand by (simp add: switched_off_by_hand_def)
    qed
  next
    case False
    then have "switch_entry slots False e1 = e1" by (simp add: switch_entry_def)
    then show False using False hand pend by (simp add: switched_off_by_hand_def switchable_def card)
  qed
qed

text \<open>
  C16. An operator's choice is forgotten at the next suspension (a defect). While a card that was
  recorded as on is found off, the pass is not activated: the call changes nothing. But any call for
  another status records that card as off, and the activation after it, with the same cards on the
  cardholder, marks the card to be switched on again, which the docstring rules out.
\<close>

theorem operator_switch_off_is_forgotten:
  assumes "ledger_ok (ms_cards s)" and "map_of (ms_holders s) pid = Some h"
    and "e0 \<in> set (cards_get (ms_cards s) pid cid)" and "switched_off_by_hand (ch_slots h) e0"
    and "status \<noteq> ACTIVE" and "update_credential_status pid cid status s = (r, t)"
    and "ms_cards u = ms_cards t" and "map_of (ms_holders u) pid = Some h'" and "ch_slots h' = ch_slots h"
  shows "update_credential_status pid cid ACTIVE s = (Inr False, s) \<and> r = Inr True \<and>
    (\<exists>v. update_credential_status pid cid ACTIVE u = (Inr True, v) \<and>
       (\<exists>e\<in>set (cards_get (ms_cards v) pid cid). entry_card e = entry_card e0 \<and> en_pending e = Some ''activate''))"
proof -
  let ?es = "cards_get (ms_cards s) pid cid" and ?slots = "ch_slots h"
  have sw: "switchable ?slots e0" "box_of ?slots e0 = Some False" using assms(4) by (simp_all add: switched_off_by_hand_def)
  have some: "?es \<noteq> []" "list_ex (switchable ?slots) ?es" "list_ex (switched_off_by_hand ?slots) ?es"
    using assms(3,4) sw(1) by (auto simp: list_ex_iff)
  have first: "update_credential_status pid cid ACTIVE s = (Inr False, s)"
    using assms(2) some by (simp add: update_credential_status_def)
  have r: "r = Inr True" and t: "ms_cards t = cards_record pid cid (List.map (switch_entry ?slots False) ?es) (ms_cards s)"
    using assms(2,5,6) some(1,2) by (auto simp: update_credential_status_def Let_def)
  let ?es' = "cards_get (ms_cards u) pid cid"
  have es': "set ?es' = (\<lambda>e. stored ?es (switch_entry ?slots False e)) ` set ?es"
    using pc.rewrite_set [of "ms_cards s" "switch_entry ?slots False" pid cid] assms(1) by (simp add: assms(7) t)
  have ok': "ledger_ok (ms_cards u)" by (simp add: assms(7) t ledger_ok_record [OF assms(1)])
  let ?e1 = "stored ?es (switch_entry ?slots False e0)"
  have e1: "?e1 \<in> set ?es'" using es' assms(3) by blast
  have sw1: "switchable ?slots ?e1" "box_of ?slots ?e1 = Some False"
    using sw by (auto simp: switchable_def box_of_def switch_entry_def stored_def pending_in_def entry_card_def)
  have none: "\<not> list_ex (switched_off_by_hand ?slots) ?es'"
    using es' switched_off_entry by (auto simp: list_ex_iff)
  have some': "?es' \<noteq> []" "list_ex (switchable ?slots) ?es'" using e1 sw1(1) by (auto simp: list_ex_iff)
  obtain v where v: "update_credential_status pid cid ACTIVE u = (Inr True, v)"
    and cards: "ms_cards v = cards_record pid cid (List.map (switch_entry ?slots True) ?es') (ms_cards u)"
    using assms(8,9) none some' by (simp add: update_credential_status_def Let_def)
  let ?e2 = "stored ?es' (switch_entry ?slots True ?e1)"
  have "?e2 \<in> set (cards_get (ms_cards v) pid cid)"
    using pc.rewrite_set [of "ms_cards u" "switch_entry ?slots True" pid cid] ok' e1 by (auto simp: cards)
  moreover have "en_pending ?e2 = Some ''activate''" using sw1 by (simp add: switch_entry_def stored_def)
  moreover have "entry_card ?e2 = entry_card e0" by simp
  ultimately show ?thesis using first r v by blast
qed

theorem operator_switch_off_is_forgotten_witness:
  "\<exists>v. update_credential_status ''E1'' ''card'' ACTIVE
       (snd (update_credential_status ''E1'' ''card'' SUSPENDED (demo_mill False [demo_mill_row ''500'' (Some True) None]))) = (Inr True, v)
    \<and> (\<exists>e\<in>set (cards_get (ms_cards v) ''E1'' ''card''). en_pending e = Some ''activate'')"
proof -
  let ?s = "demo_mill False [demo_mill_row ''500'' (Some True) None]"
  let ?t = "snd (update_credential_status ''E1'' ''card'' SUSPENDED ?s)"
  have ok: "ledger_ok (ms_cards ?s)" by code_simp
  have h: "map_of (ms_holders ?s) ''E1'' = Some (demo_holder (demo_slots False))" by code_simp
  have e: "demo_entry ''500'' (Some True) None \<in> set (cards_get (ms_cards ?s) ''E1'' ''card'')" by code_simp
  have hand: "switched_off_by_hand (ch_slots (demo_holder (demo_slots False))) (demo_entry ''500'' (Some True) None)" by code_simp
  have u: "update_credential_status ''E1'' ''card'' SUSPENDED ?s = (fst (update_credential_status ''E1'' ''card'' SUSPENDED ?s), ?t)" by simp
  have h': "map_of (ms_holders ?t) ''E1'' = Some (demo_holder (demo_slots False))" by code_simp
  show ?thesis
    using operator_switch_off_is_forgotten [OF ok h e hand _ u refl h' refl] by auto
qed

section \<open>Writing AccessGrid's cards\<close>

text \<open>
  C6. What a write back adds to a pass is one of the identities AccessGrid offered, on no
  cardholder in the export, pending insertion; it goes over the waiting trigger card or into an
  empty slot no recorded card of the cardholder claims; and no two added cards share a slot.
\<close>

theorem written_cards_are_new_and_fit:
  assumes "write_back_credentials cfg pid cid ids s = (Inr True, t)" and "ledger_ok (ms_cards s)"
    and "map_of (ms_holders s) pid = Some h" and "distinct (List.map sl_index (ch_slots h))"
    and "e \<in> set (cards_get (ms_cards t) pid cid)"
    and "entry_card e \<notin> entry_card ` set (cards_get (ms_cards s) pid cid)"
  shows "entry_card e \<in> card_of_identity ` set ids \<and> \<not> on_any_cardholder s (entry_card e)
    \<and> en_pending e = Some ''insert''
    \<and> ((\<exists>tr\<in>set (cards_get (ms_cards s) pid cid). en_pending tr = Some ''write'' \<and> en_slot tr = en_slot e)
       \<or> (\<exists>sl\<in>set (ch_slots h). sl_index sl = en_slot e \<and> slot_empty sl)
         \<and> (\<forall>c. \<forall>e'\<in>set (cards_get (ms_cards s) pid c). en_slot e' \<noteq> en_slot e))
    \<and> (\<forall>e'\<in>set (cards_get (ms_cards t) pid cid).
         entry_card e' \<notin> entry_card ` set (cards_get (ms_cards s) pid cid) \<and> en_slot e' = en_slot e
         \<longrightarrow> entry_card e' = entry_card e)"
proof -
  let ?es = "cards_get (ms_cards s) pid cid"
  have "ms_cards t \<noteq> ms_cards s" using assms(5,6) by auto
  then obtain ws slots where rec: "ms_cards t = cards_record pid cid (?es @ List.map insert_entry (zip ws slots)) (ms_cards s)"
    and ws: "\<forall>i\<in>set ws. i \<in> set ids \<and> card_of_identity i \<notin> entry_card ` set ?es \<and> \<not> on_any_cardholder s (card_of_identity i)"
    and sl: "\<forall>n\<in>set slots. (\<exists>tr\<in>set ?es. en_pending tr = Some ''write'' \<and> en_slot tr = n) \<or> n \<in> set (free_slots s pid (ch_slots h))"
    and dist: "distinct slots"
    by (rule write_back_records [OF assms(1,3)]) (use assms(4) in blast)
  have added: "\<exists>i n. (i, n) \<in> set (zip ws slots) \<and> x = stored ?es (insert_entry (i, n))"
    if "x \<in> set (cards_get (ms_cards t) pid cid)" "entry_card x \<notin> entry_card ` set ?es" for x
  proof -
    have "x \<in> set (cards_get (cards_record pid cid (?es @ List.map insert_entry (zip ws slots)) (ms_cards s)) pid cid)"
      using that(1) by (simp only: rec)
    then obtain e0 where "e0 \<in> set (?es @ List.map insert_entry (zip ws slots))" "x = stored ?es e0"
      by (rule cards_get_record_member)
    then show ?thesis using that(2) by auto
  qed
  have fields: "entry_card (insert_entry (i, n)) = card_of_identity i" "en_slot (stored ?es (insert_entry (i, n))) = n"
    "en_pending (stored ?es (insert_entry (i, n))) = Some ''insert''" for i n
    by (simp_all add: insert_entry_def entry_card_def card_of_identity_def stored_def)
  obtain i n where e: "(i, n) \<in> set (zip ws slots)" "e = stored ?es (insert_entry (i, n))"
    using added [OF assms(5,6)] by blast
  then have i: "i \<in> set ws" "n \<in> set slots" by (auto dest: set_zip_leftD set_zip_rightD)
  have "entry_card e' = entry_card e"
    if "e' \<in> set (cards_get (ms_cards t) pid cid)" "entry_card e' \<notin> entry_card ` set ?es" "en_slot e' = en_slot e" for e'
  proof -
    have "en_slot e' = en_slot e" by (rule that(3))
    moreover from added [OF that(1,2)]
    obtain i' n' where e': "(i', n') \<in> set (zip ws slots)" "e' = stored ?es (insert_entry (i', n'))"
      by blast
    ultimately have n: "n' = n" using e(2) by (simp add: fields)
    have "i' = i" by (rule zip_second_unique [OF dist e'(1) [unfolded n] e(1)])
    then show ?thesis using e(2) e'(2) by (simp add: fields)
  qed
  moreover have "entry_card e = card_of_identity i" "en_slot e = n" "en_pending e = Some ''insert''"
    by (simp_all add: e(2) fields)
  moreover have "i \<in> set ids" "\<not> on_any_cardholder s (card_of_identity i)" using i(1) ws by blast+
  moreover have "(\<exists>tr\<in>set ?es. en_pending tr = Some ''write'' \<and> en_slot tr = n)
      \<or> (\<exists>sl\<in>set (ch_slots h). sl_index sl = n \<and> slot_empty sl)
        \<and> (\<forall>c. \<forall>e'\<in>set (cards_get (ms_cards s) pid c). en_slot e' \<noteq> n)"
    using i(2) sl free_slots_spec [of n s pid "ch_slots h"] by blast
  ultimately show ?thesis by simp
qed

theorem written_cards_are_new_and_fit_witness:
  "\<exists>t. write_back_credentials (demo_mill_cfg False) ''E1'' ''card'' [demo_identity ''900'', demo_identity ''901'']
       (demo_mill True [demo_mill_row ''500'' None (Some ''write'')]) = (Inr True, t)
     \<and> (\<exists>sl\<in>set (demo_slots True). sl_index sl = 2 \<and> slot_empty sl)"
proof -
  let ?s = "demo_mill True [demo_mill_row ''500'' None (Some ''write'')]"
  let ?ids = "[demo_identity ''900'', demo_identity ''901'']"
  let ?t = "snd (write_back_credentials (demo_mill_cfg False) ''E1'' ''card'' ?ids ?s)"
  let ?e = "(demo_entry ''901'' None (Some ''insert''))\<lparr>en_slot := 2\<rparr>"
  have w: "write_back_credentials (demo_mill_cfg False) ''E1'' ''card'' ?ids ?s = (Inr True, ?t)" by code_simp
  have ok: "ledger_ok (ms_cards ?s)" by code_simp
  have h: "map_of (ms_holders ?s) ''E1'' = Some (demo_holder (demo_slots True))" by code_simp
  have d: "distinct (List.map sl_index (ch_slots (demo_holder (demo_slots True))))" by code_simp
  have e: "?e \<in> set (cards_get (ms_cards ?t) ''E1'' ''card'')" by code_simp
  have n: "entry_card ?e \<notin> entry_card ` set (cards_get (ms_cards ?s) ''E1'' ''card'')" by code_simp
  have tr: "list_all (\<lambda>tr. en_slot tr \<noteq> 2) (cards_get (ms_cards ?s) ''E1'' ''card'')" by code_simp
  have "en_slot ?e = 2" by simp
  then show ?thesis
    using written_cards_are_new_and_fit [OF w ok h d e n] w tr by (auto simp: list_all_iff demo_holder_def)
qed

section \<open>What is sent, and what is kept\<close>

text \<open>
  In a dry run the end of the cycle sends Millennium nothing: no card is deleted and no
  import is uploaded, whatever the ledger has pending.
\<close>

theorem dry_finish_sends_nothing:
  assumes "mf_dry cfg"
  shows "ms_site (snd (finish_cycle cfg cl s)) = ms_site s"
  using delete_cards_dry [OF assms, of cl s] assms
  by (auto simp: finish_cycle_def send_changes_def Let_def split: prod.splits sum.splits)

theorem dry_finish_sends_nothing_witness:
  "ms_site (snd (finish_cycle (demo_mill_cfg True) (demo_client [])
      (demo_mill True [demo_mill_row ''500'' None (Some ''delete'')]))) = 0
   \<and> ms_site (snd (finish_cycle (demo_mill_cfg False) (demo_client [])
      (demo_mill True [demo_mill_row ''500'' None (Some ''delete'')]))) = 1"
proof -
  have "ms_site (snd (finish_cycle (demo_mill_cfg False) (demo_client [])
      (demo_mill True [demo_mill_row ''500'' None (Some ''delete'')]))) = 1" by code_simp
  then show ?thesis
    using dry_finish_sends_nothing [of "demo_mill_cfg True" "demo_client []"
        "demo_mill True [demo_mill_row ''500'' None (Some ''delete'')]"]
    by (simp add: demo_mill_cfg_def demo_mill_def)
qed

text \<open>
  What the phases ask of the adapter during a cycle is only recorded: however many statuses,
  new cards and deletions they hand over, nothing reaches Millennium, the tracking table is not
  touched, and the record of a pass none of the calls names reads as before.
\<close>

theorem phase_writes_are_only_recorded:
  "ms_site (retire_write.write_all rs (card_write.write_all cfg ws (status_write.write_all us s))) = ms_site s
   \<and> ms_rows (retire_write.write_all rs (card_write.write_all cfg ws (status_write.write_all us s))) = ms_rows s
   \<and> ((\<forall>(p', c', x)\<in>set us. (p, c) \<noteq> (p', c')) \<and> (\<forall>(p', c', x)\<in>set ws. (p, c) \<noteq> (p', c'))
        \<and> (\<forall>(p', c', x)\<in>set rs. (p, c) \<noteq> (p', c')) \<longrightarrow>
      cards_get (ms_cards (retire_write.write_all rs (card_write.write_all cfg ws (status_write.write_all us s)))) p c
        = cards_get (ms_cards s) p c)"
  by (simp add: status_write.write_all_site card_write.write_all_site retire_write.write_all_site
      status_write.write_all_rows card_write.write_all_rows retire_write.write_all_rows
      status_write.write_all_other card_write.write_all_other retire_write.write_all_other)

theorem phase_writes_are_only_recorded_witness:
  "cards_get (ms_cards (status_write.write_all [(''E1'', ''card'', SUSPENDED)]
      (demo_mill True [demo_mill_row ''500'' (Some True) None]))) ''E1'' ''card-2''
    = cards_get [demo_mill_row ''500'' (Some True) None] ''E1'' ''card-2''"
proof -
  have "retire_write.write_all [] t = t" "card_write.write_all cfg [] t = t" for cfg and t :: "nat mill"
    by (simp_all add: retire_write.write_all_def card_write.write_all_def)
  then show ?thesis
    using phase_writes_are_only_recorded [of "[]" "demo_mill_cfg True" "[]" "[(''E1'', ''card'', SUSPENDED)]"
        "demo_mill True [demo_mill_row ''500'' (Some True) None]" "''E1''" "''card-2''"]
    by (simp add: demo_mill_def)
qed


text \<open>
  A cardholder every import log names as skipped keeps all its changes pending: the record of
  each of its passes reads as before the import, so the next cycle sends them again.
\<close>

theorem refused_cardholder_keeps_its_changes:
  assumes "send_changes cfg cl s = (Inr (), t)"
    and "\<And>f c lg c'. mc_import_cardholders cl f c = (Inr lg, c') \<Longrightarrow> pid \<in> set (skipped lg)"
  shows "cards_get (ms_cards t) pid cid = cards_get (ms_cards s) pid cid"
proof (cases "sp_rows (plan_changes cfg s) = [] \<or> mf_dry cfg")
  case True
  then show ?thesis using assms(1) by (auto simp: send_changes_def Let_def split: if_splits)
next
  case False
  then obtain files rf s1 where b: "build (List.map snd (sp_rows (plan_changes cfg s))) = Inr files"
    and f: "for_each (send_file cl) files \<lparr>rf_people = [], rf_cards = []\<rparr> s = (Inr rf, s1)"
    and t: "t = fold (settle_pass rf) (sp_pending (plan_changes cfg s)) s1"
    using assms(1) by (auto simp: send_changes_def Let_def split: sum.splits prod.splits)
  have "files \<noteq> []" using build_nonempty [OF b] False by simp
  then have "ms_cards s1 = ms_cards s" "pid \<in> set (rf_people rf)" using send_files [OF f assms(2)] by auto
  then show ?thesis by (simp add: t settle_refused)
qed

theorem refused_cardholder_keeps_its_changes_witness:
  "\<exists>t. send_changes (demo_mill_cfg False) (demo_client [skip_E1])
       (demo_mill True [demo_mill_row ''500'' (Some True) (Some ''deactivate'')]) = (Inr (), t)
     \<and> ms_site t = 1
     \<and> cards_get (ms_cards t) ''E1'' ''card'' = [demo_entry ''500'' (Some True) (Some ''deactivate'')]"
proof -
  let ?s = "demo_mill True [demo_mill_row ''500'' (Some True) (Some ''deactivate'')]"
  let ?t = "snd (send_changes (demo_mill_cfg False) (demo_client [skip_E1]) ?s)"
  have s: "send_changes (demo_mill_cfg False) (demo_client [skip_E1]) ?s = (Inr (), ?t)" "ms_site ?t = 1" by code_simp+
  have "mc_import_cardholders (demo_client [skip_E1]) f c = (Inr lg, c') \<Longrightarrow> ''E1'' \<in> set (skipped lg)" for f c lg c'
    using skipped_demo by (auto simp: demo_client_def)
  from refused_cardholder_keeps_its_changes [OF s(1) this]
  have "cards_get (ms_cards ?t) ''E1'' ''card'' = cards_get (ms_cards ?s) ''E1'' ''card''" .
  moreover have "cards_get (ms_cards ?s) ''E1'' ''card'' = [demo_entry ''500'' (Some True) (Some ''deactivate'')]" by code_simp
  ultimately show ?thesis using s by auto
qed

text \<open>
  C21. Every file of an import reads back as its header and exactly the values its rows set: each
  file holds the rows that set one and the same set of columns, every cell of it is a value the
  row gives (no cell is sent blank because another row of the file needed the column), its field
  list names its columns in order, and each card it names carries number and facility code.
\<close>

theorem import_files_carry_exactly_the_changes:
  assumes "build rows = Inr files" and "f \<in> set files"
  shows "\<exists>cols rs. rs = List.filter (\<lambda>r. columns r = cols) rows \<and> rs \<noteq> []
     \<and> csv_records (im_csv f) = Inr (List.map (drop_blanks \<circ> column_name) cols
          # List.map (\<lambda>r. List.map (\<lambda>c. the (row_value r c)) cols) rs)
     \<and> (\<forall>r\<in>set rs. \<forall>c\<in>set cols. row_value r c \<noteq> None)
     \<and> List.map field_summary (im_fields f) = List.map column_summary cols
     \<and> (\<forall>r\<in>set rs. \<forall>c\<in>set (row_cards r). missing_identity r c = [])"
proof -
  obtain cols rs where rs: "rs = List.filter (\<lambda>r. columns r = cols) rows" "rs \<noteq> []"
    and mk: "make_file (cols, rs) = Inr f"
    by (rule build_spec [OF assms])
  have cols: "columns r = cols" if "r \<in> set rs" for r using that rs(1) by simp
  then have "cols \<noteq> []" using rs(2) by (metis columns_nonempty list.set_intros(1) neq_Nil_conv)
  have some: "\<forall>r\<in>set rs. \<forall>c\<in>set cols. row_value r c \<noteq> None"
  proof (intro ballI)
    fix r c
    assume "r \<in> set rs" "c \<in> set cols"
    then have "c \<in> set (columns r)" by (simp only: cols)
    then show "row_value r c \<noteq> None" using row_value_columns [of c r] by auto
  qed
  then have "List.map (\<lambda>c. case row_value r c of None \<Rightarrow> '''' | Some v \<Rightarrow> v) cols = List.map (\<lambda>c. the (row_value r c)) cols"
    if "r \<in> set rs" for r using that by (fastforce split: option.splits)
  then have "import_cells cols rs = List.map (drop_blanks \<circ> column_name) cols
      # List.map (\<lambda>r. List.map (\<lambda>c. the (row_value r c)) cols) rs"
    by (simp add: import_cells_def)
  then have read: "csv_records (im_csv f) = Inr (List.map (drop_blanks \<circ> column_name) cols
      # List.map (\<lambda>r. List.map (\<lambda>c. the (row_value r c)) cols) rs)"
    using make_file_reads_back [OF mk \<open>cols \<noteq> []\<close>] by simp
  have "\<forall>r\<in>set rs. \<forall>c\<in>set (row_cards r). missing_identity r c = []"
    using build_checks [OF assms(1)] rs(1) by (simp add: check_row_None)
  then show ?thesis using rs read some make_file_fields [OF mk] by blast
qed


definition demo_row :: "string \<Rightarrow> string \<Rightarrow> row" where
  "demo_row eid name = \<lparr>ro_employee_id = eid, ro_first_name = name, ro_last_name = ''Lee, Jr'',
     ro_cells = [((1, ''Encoded Card No.''), ''500''), ((1, ''Facility Code''), ''10''), ((1, ''Active''), ''True'')]\<rparr>"

theorem import_files_carry_exactly_the_changes_witness:
  "\<exists>f. build [demo_row ''E1'' ''Ann'', demo_row ''E2'' ''Bo''] = Inr [f]
    \<and> (\<exists>hdr vals. csv_records (im_csv f) = Inr (hdr # vals) \<and> length vals > 0)"
proof -
  have "case build [demo_row ''E1'' ''Ann'', demo_row ''E2'' ''Bo''] of Inr fs \<Rightarrow> length fs = 1 | _ \<Rightarrow> False"
    by code_simp
  then obtain f where f: "build [demo_row ''E1'' ''Ann'', demo_row ''E2'' ''Bo''] = Inr [f]"
    by (auto simp: length_Suc_conv split: sum.splits)
  have "f \<in> set [f]" by simp
  from import_files_carry_exactly_the_changes [OF f this] show ?thesis using f by fastforce
qed

section \<open>The state a Seos pass reports\<close>

text \<open>
  C15. A Seos pass is reported active only when every card written for it is on the cardholder and
  switched on and none of them starts later; it waits for its install when all are there and the
  ones that are off are off because we wrote them off; anything else is suspended. AccessGrid
  allocates its number, so it carries none.
\<close>

theorem seos_status_fails_closed:
  assumes "seos_credential now pid cid es slots = Some c"
  shows "(cr_status c = ACTIVE \<longleftrightarrow> (\<forall>e\<in>set (written_entries es). \<exists>sl. slot_with slots (entry_card e) = Some sl
            \<and> sl_active sl \<and> (\<forall>d. sl_activation sl = Some d \<longrightarrow> dt_us d \<le> now)))
     \<and> (cr_status c = AWAITING_INSTALL \<longleftrightarrow>
          (\<forall>e\<in>set (written_entries es). card_live slots e \<or> held_off slots e)
          \<and> (\<exists>e\<in>set (written_entries es). held_off slots e))
     \<and> cr_status c \<noteq> UNKNOWN \<and> cr_card_number c = '''' \<and> cr_site_code c = '''' \<and> cr_allocate_identity c"
proof -
  let ?w = "written_entries es"
  let ?rec = "List.map_filter (\<lambda>e. slot_with slots (entry_card e)) ?w"
  let ?starts = "List.map_filter sl_activation ?rec"
  let ?st = "cards_status slots ?w False"
  let ?late = "case latest ?starts of None \<Rightarrow> False | Some d \<Rightarrow> now < dt_us d"
  have c: "c = (mk_credential cid pid)\<lparr>cr_status := (if ?st = ACTIVE \<and> ?late then SUSPENDED else ?st),
      cr_activate_date := latest ?starts, cr_deactivate_date := earliest (List.map_filter sl_expiration ?rec),
      cr_trigger_active := True, cr_allocate_identity := True\<rparr>"
    using assms by (simp add: seos_credential_def Let_def)
  have late: "?late \<longleftrightarrow> (\<exists>d\<in>set ?starts. now < dt_us d)"
    using latest_spec [of ?starts] by (cases "latest ?starts") (auto intro: less_le_trans)
  have starts: "d \<in> set ?starts \<longleftrightarrow> (\<exists>e\<in>set ?w. \<exists>sl. slot_with slots (entry_card e) = Some sl \<and> sl_activation sl = Some d)" for d
    by (fastforce simp: set_map_filter_iff)
  have status: "?st = (if \<forall>e\<in>set ?w. card_live slots e \<or> held_off slots e
      then (if \<exists>e\<in>set ?w. held_off slots e then AWAITING_INSTALL else ACTIVE) else SUSPENDED)"
    by (simp add: cards_status_spec list_all_iff list_ex_iff)
  have excl: "card_live slots e \<Longrightarrow> \<not> held_off slots e" for e by (auto simp: card_live_def held_off_def)
  have live: "?st = ACTIVE \<longleftrightarrow> (\<forall>e\<in>set ?w. card_live slots e)"
    using excl by (auto simp: status)
  have "cr_status c = (if ?st = ACTIVE \<and> ?late then SUSPENDED else ?st)" by (simp add: c)
  then have "cr_status c = ACTIVE \<longleftrightarrow> ?st = ACTIVE \<and> \<not> ?late" by (cases ?late) simp_all
  also have "\<dots> \<longleftrightarrow> (\<forall>e\<in>set ?w. \<exists>sl. slot_with slots (entry_card e) = Some sl
            \<and> sl_active sl \<and> (\<forall>d. sl_activation sl = Some d \<longrightarrow> dt_us d \<le> now))"
  proof -
    have "\<not> ?late \<longleftrightarrow> (\<forall>e\<in>set ?w. \<forall>sl. slot_with slots (entry_card e) = Some sl
        \<longrightarrow> (\<forall>d. sl_activation sl = Some d \<longrightarrow> dt_us d \<le> now))"
      unfolding late by (simp add: starts Bex_def not_less) blast
    then show ?thesis unfolding live card_live_def by fastforce
  qed
  finally have "cr_status c = ACTIVE \<longleftrightarrow> \<dots>" .
  moreover have "cr_status c = AWAITING_INSTALL \<longleftrightarrow> (\<forall>e\<in>set ?w. card_live slots e \<or> held_off slots e) \<and> (\<exists>e\<in>set ?w. held_off slots e)"
    by (simp add: c mk_credential_def status)
  moreover have "cr_status c \<noteq> UNKNOWN" by (simp add: c mk_credential_def status)
  ultimately show ?thesis by (simp add: c mk_credential_def)
qed

theorem seos_status_fails_closed_witness:
  "\<exists>c. seos_credential 0 ''E1'' ''card'' [demo_entry ''500'' (Some True) None] (demo_slots True) = Some c \<and> cr_status c = ACTIVE"
proof -
  obtain c where c: "seos_credential 0 ''E1'' ''card'' [demo_entry ''500'' (Some True) None] (demo_slots True) = Some c"
    by (simp add: seos_credential_def Let_def)
  have "list_all (\<lambda>e. case slot_with (demo_slots True) (entry_card e) of None \<Rightarrow> False
      | Some sl \<Rightarrow> sl_active sl \<and> sl_activation sl = None) (written_entries [demo_entry ''500'' (Some True) None])"
    by code_simp
  then show ?thesis using c seos_status_fails_closed [OF c]
    by (fastforce simp: list_all_iff split: option.splits)
qed


section \<open>The move to Employee IDs, and the roster\<close>

text \<open>
  C17. A successful move takes every row of both tables with it, to where the pages said, and changes
  nothing else in it. Every record of either table had a page that could be read; a record whose page
  carries its own id goes to the Employee ID on that page, which is not empty and no other record's, in both
  tables; every other record is keyed as gone. (No Employee ID on the pages starts with the prefix the
  move uses on its way.)
\<close>

theorem migration_moves_every_row:
  assumes "migrate_ensure cfg cl s = (Inr (), t)" and "\<not> ms_migrated s"
    and "pages = read_pages cl (record_ids s) (ms_site (snd (fill_label cfg cl s)))"
    and "\<forall>rid eid. employee_on pages rid = Some eid \<longrightarrow> plain_id eid"
  shows "(\<forall>rid\<in>set (record_ids s). (\<exists>form. (rid, Inr form) \<in> set pages) \<and> employee_on pages rid \<noteq> Some '''')
     \<and> (\<forall>a\<in>set (record_ids s). \<forall>b\<in>set (record_ids s). employee_on pages a = employee_on pages b \<and> employee_on pages a \<noteq> None \<longrightarrow> a = b)
     \<and> ms_rows t = List.map (\<lambda>r. case employee_on pages (t_person_id r) of
           Some eid \<Rightarrow> r\<lparr>t_person_id := eid, t_employee_id := eid\<rparr>
         | None \<Rightarrow> r\<lparr>t_person_id := ''gone:'' @ t_person_id r\<rparr>) (ms_rows s)
     \<and> ms_cards t = List.map (\<lambda>w. w\<lparr>cw_person := (case employee_on pages (cw_person w) of
           Some eid \<Rightarrow> eid | None \<Rightarrow> ''gone:'' @ cw_person w)\<rparr>) (ms_cards s)
     \<and> ms_migrated t"
proof -
  obtain m where m: "findings_cover (record_ids s) m" "mg_problems m = 0" "distinct (List.map snd (mg_employee_ids m))"
    "ms_rows t = List.map (moved_row m) (ms_rows s)" "ms_cards t = List.map (moved_card m) (ms_cards s)" "ms_migrated t"
    and said: "\<forall>rid\<in>set (record_ids s). map_of (mg_employee_ids m) rid = employee_on pages rid"
    and read: "\<forall>rid\<in>set (record_ids s). \<exists>form. (rid, Inr form) \<in> set pages"
    by (rule migrate_moves [OF assms(1-3) assms(4) [rule_format]])
  have ids: "r \<in> set (ms_rows s) \<Longrightarrow> t_person_id r \<in> set (record_ids s)"
    "w \<in> set (ms_cards s) \<Longrightarrow> cw_person w \<in> set (record_ids s)" for r w by (simp_all add: record_ids_def)
  have rows: "ms_rows t = List.map (\<lambda>r. case employee_on pages (t_person_id r) of
      Some eid \<Rightarrow> r\<lparr>t_person_id := eid, t_employee_id := eid\<rparr>
    | None \<Rightarrow> r\<lparr>t_person_id := ''gone:'' @ t_person_id r\<rparr>) (ms_rows s)"
    using ids(1) by (simp add: m(4) moved_row_def to_employee_def to_person_def gone_key_def said cong: option.case_cong)
  have cards: "ms_cards t = List.map (\<lambda>w. w\<lparr>cw_person := (case employee_on pages (cw_person w) of
      Some eid \<Rightarrow> eid | None \<Rightarrow> ''gone:'' @ cw_person w)\<rparr>) (ms_cards s)"
    using ids(2) by (auto simp: m(5) moved_card_def card_to_def gone_key_def said split: option.split)
  have listed: "(rid, eid) \<in> set (mg_employee_ids m)"
    if "rid \<in> set (record_ids s)" "employee_on pages rid = Some eid" for rid eid
    using said that by (metis map_of_SomeD)
  have filled: "employee_on pages rid \<noteq> Some ''''" if "rid \<in> set (record_ids s)" for rid
    using listed [OF that] m(1,2) by (auto simp: findings_cover_def)
  have own: "a = b" if "a \<in> set (record_ids s)" "b \<in> set (record_ids s)" "employee_on pages a = employee_on pages b"
    "employee_on pages a \<noteq> None" for a b
  proof -
    note ab = that
    obtain eid where eid: "employee_on pages a = Some eid" using ab(4) by blast
    have "(a, eid) \<in> set (mg_employee_ids m)" by (rule listed [OF ab(1) eid])
    moreover have "(b, eid) \<in> set (mg_employee_ids m)" by (rule listed [OF ab(2)]) (simp add: ab(3) [symmetric] eid)
    moreover have "inj_on snd (set (mg_employee_ids m))" using m(3) by (simp add: distinct_map)
    ultimately have "(a, eid) = (b, eid)" by (metis inj_onD snd_conv)
    then show ?thesis by simp
  qed
  show ?thesis
  proof (intro conjI)
    show "\<forall>rid\<in>set (record_ids s). (\<exists>form. (rid, Inr form) \<in> set pages) \<and> employee_on pages rid \<noteq> Some ''''"
      using filled read by blast
    show "\<forall>a\<in>set (record_ids s). \<forall>b\<in>set (record_ids s).
        employee_on pages a = employee_on pages b \<and> employee_on pages a \<noteq> None \<longrightarrow> a = b"
      using own by blast
  qed (rule rows cards m(6))+
qed

theorem migration_moves_every_row_witness:
  "\<exists>t. migrate_ensure (demo_mill_cfg False) (demo_client []) (demo_mill True [demo_mill_row ''500'' None None]) = (Inr (), t)
     \<and> List.map cw_person (ms_cards t) = [''EE1''] \<and> ms_migrated t"
proof -
  let ?s = "demo_mill True [demo_mill_row ''500'' None None]"
  let ?t = "snd (migrate_ensure (demo_mill_cfg False) (demo_client []) ?s)"
  let ?pages = "read_pages (demo_client []) (record_ids ?s) (ms_site (snd (fill_label (demo_mill_cfg False) (demo_client []) ?s)))"
  have t: "migrate_ensure (demo_mill_cfg False) (demo_client []) ?s = (Inr (), ?t)" by code_simp
  have n: "\<not> ms_migrated ?s" by (simp add: demo_mill_def)
  have "record_ids ?s = [''E1'']" by code_simp
  then have pages: "?pages = [(''E1'', Inr (demo_form ''E1''))]" by (simp add: demo_client_def)
  have on: "employee_on [(''E1'', Inr (demo_form ''E1''))] rid = (if rid = ''E1'' then Some ''EE1'' else None)" for rid
  proof -
    have "py_strip (demo_form ''E1'' ''ID'') = ''E1''" "py_strip (demo_form ''E1'' ''EmployeeID'') = ''EE1''" by code_simp+
    then show ?thesis by (simp add: employee_on_def)
  qed
  have plain: "plain_id ''EE1''" by code_simp
  have ids: "\<forall>rid eid. employee_on ?pages rid = Some eid \<longrightarrow> plain_id eid"
    using plain by (simp only: pages on) simp
  have rows: "ms_cards ?s = [demo_mill_row ''500'' None None]" "cw_person (demo_mill_row ''500'' None None) = ''E1''"
    by (simp_all add: demo_mill_def demo_mill_row_def)
  note moved = migration_moves_every_row [OF t n refl ids, THEN conjunct2, THEN conjunct2, THEN conjunct2]
  have cards: "ms_cards ?t = List.map (\<lambda>w. w\<lparr>cw_person := (case employee_on ?pages (cw_person w) of
      Some eid \<Rightarrow> eid | None \<Rightarrow> ''gone:'' @ cw_person w)\<rparr>) (ms_cards ?s)" and moved_flag: "ms_migrated ?t"
    by (rule moved [THEN conjunct1], rule moved [THEN conjunct2])
  have "List.map cw_person (ms_cards ?t) = [''EE1'']"
    unfolding cards pages on by (simp add: rows)
  with moved_flag t show ?thesis by (intro exI conjI)
qed

text \<open>
  A move that does not succeed changes nothing: whatever stops it, an unreadable page, a
  cardholder without an Employee ID, two sharing one, a lost session or a key conflict, both
  tables are as they were and it will be tried again.
\<close>

theorem migration_is_all_or_nothing:
  assumes "migrate_ensure cfg cl s = (Inl e, t)"
  shows "ms_rows t = ms_rows s \<and> ms_cards t = ms_cards s \<and> \<not> ms_migrated t"
proof -
  have commit: "commit_move m u = (Inl e, v) \<Longrightarrow> same_tables u v" for m and u v :: "'a mill"
    by (auto simp: commit_move_def same_tables_def split: option.splits prod.splits)
  have "\<not> ms_migrated s" using assms by (auto simp: migrate_ensure_def split: if_splits)
  moreover have "same_tables s t"
    using assms
    by (auto simp: migrate_ensure_def split: if_splits prod.splits sum.splits
        dest!: fill_label_tables read_records_tables commit) (auto simp: same_tables_def)
  ultimately show ?thesis by (simp add: same_tables_def)
qed

theorem migration_is_all_or_nothing_witness:
  "\<exists>e t. migrate_ensure (demo_mill_cfg False)
       ((demo_client [])\<lparr>mc_get_cardholder_form := \<lambda>rid n. (Inl (MillenniumAuthError ''expired''), n + 1)\<rparr>)
       (demo_mill True [demo_mill_row ''500'' None None]) = (Inl e, t)
     \<and> ms_cards t = [demo_mill_row ''500'' None None]"
proof -
  let ?cl = "(demo_client [])\<lparr>mc_get_cardholder_form := \<lambda>rid n. (Inl (MillenniumAuthError ''expired''), n + 1)\<rparr>"
  let ?s = "demo_mill True [demo_mill_row ''500'' None None]"
  let ?t = "snd (migrate_ensure (demo_mill_cfg False) ?cl ?s)"
  have t: "migrate_ensure (demo_mill_cfg False) ?cl ?s = (Inl (MillenniumAuthError ''expired''), ?t)" by code_simp
  from migration_is_all_or_nothing [OF t] have "ms_cards ?t = [demo_mill_row ''500'' None None]"
    by (simp add: demo_mill_def)
  then show ?thesis using t by blast
qed


text \<open>
  The roster is exactly the cardholders whose Employee ID one row of the export carries and
  no other row does, each once, and the export row kept for an id is that row.
\<close>

theorem roster_is_the_unambiguous_holders:
  assumes "read_roster cfg cl s = (Inr people, t)"
  shows "\<exists>csv holders. fst (mc_export_cardholders cl (ms_site s)) = Inr csv \<and> parse csv (mf_offset cfg) = Inr holders
     \<and> distinct (List.map pe_id people)
     \<and> (\<forall>eid. eid \<in> pe_id ` set people \<longleftrightarrow> eid \<noteq> '''' \<and> length (List.filter (\<lambda>h. ch_employee_id h = eid) holders) = 1)
     \<and> (\<forall>eid h. map_of (ms_holders t) eid = Some h \<longleftrightarrow> eid \<noteq> '''' \<and> List.filter (\<lambda>h. ch_employee_id h = eid) holders = [h])"
proof -
  obtain csv holders where csv: "fst (mc_export_cardholders cl (ms_site s)) = Inr csv"
    and parsed: "parse csv (mf_offset cfg) = Inr holders"
    and people: "people = List.map (\<lambda>(eid, h). holder_person cfg eid h) (unique_holders holders)"
    and t: "ms_holders t = unique_holders holders"
    using assms
    by (auto simp: read_roster_def on_site_def Let_def split: if_splits prod.splits sum.splits list.splits)
  have ids: "List.map pe_id people = List.map fst (unique_holders holders)"
    by (simp add: people holder_person_def mk_person_def case_prod_beta')
  have "eid \<in> pe_id ` set people \<longleftrightarrow> eid \<noteq> '''' \<and> length (List.filter (\<lambda>h. ch_employee_id h = eid) holders) = 1" for eid
  proof -
    have "eid \<in> pe_id ` set people \<longleftrightarrow> (\<exists>h. (eid, h) \<in> set (unique_holders holders))"
    proof -
      have "pe_id ` set people = fst ` set (unique_holders holders)"
        using ids by (metis set_map)
      then show ?thesis by (simp add: image_iff) (metis fst_conv prod.collapse)
    qed
    also have "\<dots> \<longleftrightarrow> eid \<noteq> '''' \<and> (\<exists>h. List.filter (\<lambda>h. ch_employee_id h = eid) holders = [h])"
      by (simp only: unique_holders_iff) blast
    finally show ?thesis by (simp only: One_nat_def length_Suc_conv length_0_conv) blast
  qed
  moreover have "map_of (ms_holders t) eid = Some h \<longleftrightarrow> eid \<noteq> '''' \<and> List.filter (\<lambda>h. ch_employee_id h = eid) holders = [h]" for eid h
    using unique_holders_distinct [of holders] by (simp add: t flip: unique_holders_iff)
  moreover have "distinct (List.map pe_id people)" by (simp add: ids unique_holders_distinct)
  ultimately show ?thesis using csv parsed by blast
qed

theorem roster_is_the_unambiguous_holders_witness:
  "\<exists>people t. read_roster (demo_mill_cfg False) (demo_client []) (demo_mill True []) = (Inr people, t)
     \<and> distinct (List.map pe_id people) \<and> length people = 1"
proof -
  let ?r = "read_roster (demo_mill_cfg False) (demo_client []) (demo_mill True [])"
  have "case fst ?r of Inr ps \<Rightarrow> length ps = 1 | Inl _ \<Rightarrow> False" by code_simp
  then obtain people where "fst ?r = Inr people" "length people = 1" by (auto split: sum.splits)
  then have r: "?r = (Inr people, snd ?r)" by (metis prod.collapse)
  from roster_is_the_unambiguous_holders [OF r] r \<open>length people = 1\<close> show ?thesis by blast
qed

section \<open>New passes\<close>

text \<open>
  C28. A slot starts a new pass only when its card is in the trigger format, is in no pass of the
  cardholder, and its place is claimed by none; for a first pass, only when the card is recorded
  for nobody else and no pass is tracked for the cardholder; and only when there is room. The
  pass gets an id the cardholder has no pass under, is recorded with that card (waiting to be
  overwritten in Seos mode, and nothing else), and no other pass's record changes.
\<close>

theorem new_pass_only_for_a_new_trigger_card:
  assumes "slot_step cfg pid slots sl (m, s) = (m', t)" and "fst ` set (mt_mine m') \<noteq> fst ` set (mt_mine m)"
  shows "is_trigger (ms_label s) sl
    \<and> (\<forall>(cid, es)\<in>set (mt_mine m). \<forall>e\<in>set es. entry_card e \<noteq> slot_card sl
         \<and> (en_slot e = sl_index sl \<longrightarrow> en_pending e = Some ''insert''))
    \<and> (mt_mine m = [] \<longrightarrow> \<not> card_recorded_elsewhere s pid (slot_card sl) \<and> \<not> tracked_pass s pid None)
    \<and> has_room cfg slots
    \<and> (\<exists>cid e. cid \<notin> fst ` set (mt_mine m) \<and> mt_mine m' = mt_mine m @ [(cid, [e])]
         \<and> entry_card e = slot_card sl \<and> en_slot e = sl_index sl
         \<and> en_pending e = (if mf_seos cfg then Some ''write'' else None)
         \<and> entry_card ` set (cards_get (ms_cards t) pid cid) = {slot_card sl}
         \<and> (\<forall>p c. (p, c) \<noteq> (pid, cid) \<longrightarrow> cards_get (ms_cards t) p c = cards_get (ms_cards s) p c))"
proof -
  note new = slot_step_new [OF assms]
  let ?cid = "fresh_card_id (mt_mine m)"
  let ?e = "slot_entry sl (if mf_seos cfg then Some ''write'' else None)"
  have made: "m' = m\<lparr>mt_mine := mt_mine m @ [(?cid, [?e])]\<rparr>" "t = record_cards pid ?cid [?e] s"
    using new by (simp_all add: new_pass_def Let_def)
  have card: "entry_card ?e = slot_card sl" by (simp add: slot_entry_def entry_card_def slot_card_def)
  have unowned: "\<forall>(cid, es)\<in>set (mt_mine m). \<forall>e\<in>set es. entry_card e \<noteq> slot_card sl"
    using new by (auto simp: owner_of_def find_None_iff_all list_ex_iff)
  have unclaimed: "\<forall>(cid, es)\<in>set (mt_mine m). \<forall>e\<in>set es. en_slot e = sl_index sl \<longrightarrow> en_pending e = Some ''insert''"
    using new by (fastforce simp: recorded_in_def find_None_iff_all)
  have "entry_card ` set (cards_get (ms_cards t) pid ?cid) = {slot_card sl}"
    by (simp add: made cards_get_record_cards card)
  moreover have "\<forall>p c. (p, c) \<noteq> (pid, ?cid) \<longrightarrow> cards_get (ms_cards t) p c = cards_get (ms_cards s) p c"
    by (simp add: made pc.get_put_other)
  moreover have "en_slot ?e = sl_index sl" "en_pending ?e = (if mf_seos cfg then Some ''write'' else None)"
    by (simp_all add: slot_entry_def)
  ultimately show ?thesis
    using new unowned unclaimed fresh_card_id_free [of "mt_mine m"] card made(1) by fastforce
qed

theorem new_pass_only_for_a_new_trigger_card_witness:
  "\<exists>m' t. slot_step (demo_mill_cfg False) ''E1'' (demo_slots True) (demo_slot 1 ''10'' ''500'' True)
       (\<lparr>mt_mine = [], mt_held = []\<rparr>, demo_mill True []) = (m', t) \<and> (\<exists>cid e. mt_mine m' = [(cid, [e])])"
proof -
  let ?m = "\<lparr>mt_mine = [], mt_held = []\<rparr>"
  let ?r = "slot_step (demo_mill_cfg False) ''E1'' (demo_slots True) (demo_slot 1 ''10'' ''500'' True) (?m, demo_mill True [])"
  have r: "?r = (fst ?r, snd ?r)" by simp
  have keys: "fst ` set (mt_mine (fst ?r)) \<noteq> fst ` set (mt_mine ?m)" by code_simp
  from new_pass_only_for_a_new_trigger_card [OF r keys]
  have "\<exists>cid e. mt_mine (fst ?r) = [(cid, [e])]" by auto
  then show ?thesis by (intro exI [of _ "fst ?r"] exI [of _ "snd ?r"]) simp
qed

text \<open>
  An Employee ID that holds a colon reads its passes back under other ids: the ledger is read
  as \<open>person:credential\<close> and split at the first colon, so what was recorded as \<open>card\<close> for \<open>12:3\<close> is
  read as \<open>3:card\<close>. The next cycle then reports a pass nobody issued, and the issued one is missing.
\<close>

theorem colon_in_employee_id_renames_its_passes:
  assumes "CHR '':'' \<notin> set a"
  shows "fst ` set (entries_for_person rows (a @ '':'' @ b)) =
      (\<lambda>r. b @ '':'' @ cw_credential r) ` {r \<in> set rows. cw_person r = a @ '':'' @ b}"
proof -
  let ?p = "a @ '':'' @ b"
  have rest: "key_rest ?p = b"
    using assms by (induction a) (auto simp: key_rest_def py_partition_def)
  have "fst ` set (entries_for_person rows ?p) =
      key_rest ` fst ` set (entries_where (\<lambda>r. cw_person r = ?p) rows)"
    by (simp add: entries_for_person_eq image_image)
  also have "\<dots> = (\<lambda>r. key_rest (joined_key ?p (cw_credential r))) ` {r \<in> set rows. cw_person r = ?p}"
    by (auto simp: entries_where_keys image_image)
  finally show ?thesis using rest by (simp add: key_rest_joined)
qed

theorem colon_in_employee_id_renames_its_passes_witness:
  "fst ` set (entries_for_person [(demo_mill_row ''500'' None None)\<lparr>cw_person := ''12:3''\<rparr>] ''12:3'') = {''3:card''}"
proof -
  let ?r = "(demo_mill_row ''500'' None None)\<lparr>cw_person := ''12:3''\<rparr>"
  have "{r \<in> set [?r]. cw_person r = ''12'' @ '':'' @ ''3''} = {?r}" by (auto simp: demo_mill_row_def)
  moreover have "cw_credential ?r = ''card''" by (simp add: demo_mill_row_def)
  moreover have "CHR '':'' \<notin> set ''12''" by simp
  from colon_in_employee_id_renames_its_passes [OF this, of "[?r]" "''3''"]
  have "fst ` set (entries_for_person [?r] ''12:3'') =
      (\<lambda>r. ''3:'' @ cw_credential r) ` {r \<in> set [?r]. cw_person r = ''12'' @ '':'' @ ''3''}" by simp
  ultimately show ?thesis by simp
qed

section \<open>Reads\<close>

text \<open>
  Reading one Millennium cardholder changes nobody else's passes. Whatever the read records,
  follows, forgets or puts aside in the ledger is under the cardholder asked for; nothing is sent
  to Millennium, the ledger stays in order, and a cardholder missing from the cycle's export is
  refused rather than read as having no cards.
\<close>

theorem millennium_read_touches_its_own_passes:
  assumes "p \<noteq> pid" and "ledger_ok (ms_cards s)" and "list_credentials cfg pid s = (r, t)"
  shows "cards_get (ms_cards t) p c = cards_get (ms_cards s) p c \<and> ms_site t = ms_site s \<and> ledger_ok (ms_cards t) \<and>
    (map_of (ms_holders s) pid = None \<longrightarrow> (\<exists>m. r = Inl (PacsRecordUnavailable m)) \<and> t = s)"
proof -
  have own: "own_passes_only pid s t" using own_read [of pid s cfg] assms(3) by simp
  have "r = Inl (PacsRecordUnavailable m) \<and> t = s"
    if "map_of (ms_holders s) pid = None"
      and "m = ''cardholder '' @ pid @ '' is not in this cycle'' @ [CHR 0x27] @ ''s export''" for m
    using assms(3) that by (simp add: list_credentials_def)
  with own assms(1,2) show ?thesis by (auto simp: own_passes_only_def)
qed

definition two_holders :: "nat mill" where
  "two_holders = demo_mill True [(demo_mill_row ''2'' None None)\<lparr>cw_person := ''E2''\<rparr>]"

theorem millennium_read_touches_its_own_passes_witness:
  "\<exists>r t. list_credentials (demo_mill_cfg True) ''E1'' two_holders = (r, t) \<and>
    cards_get (ms_cards t) ''E2'' ''card'' = cards_get (ms_cards two_holders) ''E2'' ''card'' \<and>
    cards_get (ms_cards t) ''E1'' ''card'' \<noteq> []"
proof -
  obtain r t where run: "list_credentials (demo_mill_cfg True) ''E1'' two_holders = (r, t)" by fastforce
  have ok: "ledger_ok (ms_cards two_holders)" by code_simp
  have "cards_get (ms_cards (snd (list_credentials (demo_mill_cfg True) ''E1'' two_holders))) ''E1'' ''card'' \<noteq> []"
    by code_simp
  then show ?thesis
    using millennium_read_touches_its_own_passes [OF _ ok run, of "''E2''" "''card''"] run by auto
qed

end
