(* ===== verification/Adapter_Properties.thy ===== *)
theory Adapter_Properties
  imports Adapter_Demo
begin

text \<open>The properties of the Alta, Unity and CDVI adapters, each with a run on the small servers.\<close>

section \<open>Alta\<close>

text \<open>
  An Alta read that failed looks like a cardholder without credentials. When the request for a
  cardholder's credentials is answered with anything but a 200, the adapter hands the engine an empty
  list instead of raising as the contract asks, and the snapshot holds it as a complete answer. A phase 3
  that met a row of theirs with such a snapshot would ask AccessGrid to delete the pass. (The engine as it
  stands ends a cycle over Alta before it reads the roster.)
\<close>

theorem alta_failed_read_revokes_the_pass:
  assumes "alta_request net cfg (credentials_request pid) (w_pacs w) = (Inr resp, s1)" and "rs_status resp \<noteq> 200"
    and "pe_active p" and "read_credentials (alta_api net cfg fuel) (pid, p) snap w = (Inr snap', w1)"
    and "person_of snap pid \<noteq> None"
    and "t_person_id t = pid" and "has_card t" and "t_status t \<notin> {''deleted'', ''deduped''}"
  shows "map_of (sn_creds snap') pid = Some [] \<and>
    CDelete (card_ref t) \<in> set (sent v (snd (p3_row ag opacs snap' True False now t n v)))"
proof
  have read: "pacs_list_credentials (alta_api net cfg fuel) pid (w_pacs w) = (Inr [], s1)"
    using refused_read_is_empty [OF assms(1,2)] by (simp add: alta_api_def)
  show entry: "map_of (sn_creds snap') pid = Some []"
    using assms(3,4) read by (auto simp: read_credentials_def pacs_call_def)
  have "person_of snap' pid \<noteq> None"
    using assms(5) read_credentials_keeps [OF assms(4)] by (simp add: person_of_def)
  moreover have "cred_of snap' t = None"
    using entry assms(6) by (simp add: cred_of_def creds_of_def find_cred_def)
  ultimately have "p3_verdict_of snap' True now (snd n) t = P3CredentialGone"
    using assms(6-8) entry by (auto simp: p3_verdict_of_def Let_def)
  then show "CDelete (card_ref t) \<in> set (sent v (snd (p3_row ag opacs snap' True False now t n v)))"
    by (rule p3_row_deletes)
qed

theorem alta_failed_read_revokes_the_pass_witness:
  "CDelete (card_ref demo_row) \<in> set (sent (world_on alta_signed_in [demo_row])
     (snd (p3_row demo_ag None (empty_snapshot\<lparr>sn_people := [(''7'', demo_person)], sn_creds := [(''7'', [])]\<rparr>)
        True False 0 demo_row (0, 0) (world_on alta_signed_in [demo_row]))))"
proof -
  let ?snap = "empty_snapshot\<lparr>sn_people := [(''7'', demo_person)]\<rparr>"
  let ?w = "world_on alta_signed_in []"
  have req: "alta_request alta_net alta_account (credentials_request ''7'') (w_pacs ?w) = (Inr (text_answer 500 ''''), alta_signed_in)"
    by code_simp
  have status: "rs_status (text_answer 500 '''') \<noteq> 200" by code_simp
  have active: "pe_active demo_person" by code_simp
  have read: "read_credentials (alta_api alta_net alta_account 5) (''7'', demo_person) ?snap ?w
      = (Inr (?snap\<lparr>sn_creds := [(''7'', [])]\<rparr>), ?w\<lparr>w_calls := [(PListCredentials ''7'', True)]\<rparr>)"
    by code_simp
  have on_roster: "person_of ?snap ''7'' \<noteq> None" by (simp add: person_of_def)
  have row: "t_person_id demo_row = ''7''" "has_card demo_row" "t_status demo_row \<notin> {''deleted'', ''deduped''}"
    by code_simp+
  show ?thesis
    using alta_failed_read_revokes_the_pass [OF req status active read on_roster row] by blast
qed

text \<open>
  Reading the Alta roster returns. When the server never declares more than \<open>n\<close> users, the page
  loop ends within \<open>n + 1\<close> requests, whatever the pages hold and whether or not they fail: any more
  fuel than \<open>n\<close> gives a result, and it is the one \<open>list_users\<close> returns.
\<close>

theorem alta_roster_read_ends:
  assumes "declares_at_most net n" and "n < fuel"
  shows "\<exists>r. alta_pages net cfg fuel 0 [] st = Some r \<and> list_users net cfg fuel st = r"
  using alta_pages_end [OF assms(1), of fuel "[]" cfg 0 st] assms(2) by (auto simp: list_users_def)

theorem alta_roster_read_ends_witness:
  "\<exists>r. alta_pages alta_net alta_account 2 0 [] alta_signed_in = Some r \<and> list_users alta_net alta_account 2 alta_signed_in = r"
proof -
  have "declares_at_most alta_net 1"
    by (auto simp: declares_at_most_def alta_net_def answer_with_def alta_answer_def json_answer_def text_answer_def
        split: if_splits)
  from alta_roster_read_ends [OF this, of 2] show ?thesis by simp
qed

text \<open>
  The first Alta roster of an adapter is empty. The path of a request is written before the client
  signs in, so the first request for the users is for the organization \<open>None\<close>; a server that
  refuses that path is read as a site without users, though the sign-in worked.
\<close>

theorem alta_first_roster_is_empty:
  assumes "ensure_authenticated net cfg (alta_init h) = (Inr (), st1)" and "refuses_no_org net"
  shows "\<exists>st'. alta_list_people net cfg (Suc fuel) (alta_init h) = (Inr [], st')"
  using assms by (rule first_roster_empty)

theorem alta_first_roster_is_empty_witness:
  "(\<exists>st'. alta_list_people alta_net alta_account 2 (alta_init ()) = (Inr [], st')) \<and>
    (\<exists>p st'. alta_list_people alta_net alta_account 2 alta_signed_in = (Inr [p], st'))"
proof
  have auth: "ensure_authenticated alta_net alta_account (alta_init ()) = (Inr (), alta_signed_in)" by code_simp
  have "refuses_no_org alta_net"
    by (auto simp: refuses_no_org_def alta_net_def answer_with_def alta_answer_def text_answer_def)
  from alta_first_roster_is_empty [OF auth this, of 1]
  show "\<exists>st'. alta_list_people alta_net alta_account 2 (alta_init ()) = (Inr [], st')" by (simp add: numeral_2_eq_2)
  have "\<exists>p st'. r = (Inr [p], st')" if "case r of (Inr [p], st') \<Rightarrow> True | _ \<Rightarrow> False" for r :: "(exn + person list) \<times> unit alta"
    using that by (auto split: prod.splits sum.splits list.splits)
  moreover have "case alta_list_people alta_net alta_account 2 alta_signed_in of (Inr [p], st') \<Rightarrow> True | _ \<Rightarrow> False"
    by code_simp
  ultimately show "\<exists>p st'. alta_list_people alta_net alta_account 2 alta_signed_in = (Inr [p], st')" by blast
qed

section \<open>Unity\<close>

text \<open>
  C27. The Unity roster is whole or not returned. Against a server whose list pages are slices of one
  roster of different identities, each page answered or failing, with the total declared or not,
  and whose XML search, when answered, carries that roster, \<open>list_identities\<close> returns exactly the
  roster, in its order, or raises; it never returns a part of it.
\<close>

theorem unity_roster_is_whole:
  assumes "serves_pages env roster" and "serves_document env irs"
    and "map_res identity_row_of roster = Inr irs" and "distinct (List.map ir_id irs)" and "'''' \<notin> ir_id ` set irs"
    and "list_identities env st = (Inr out, st')"
  shows "out = irs"
proof -
  obtain s1 s2 where "identities_json env s1 = (Inr out, s2) \<or> identities_xml env s1 = (Inr out, s2)"
    using json_then_xml_from [OF assms(6) [unfolded list_identities_def]] by blast
  then show ?thesis
  proof
    assume "identities_json env s1 = (Inr out, s2)"
    then have "identities_from env 1 (keyed (take (PAGE_SIZE * (1 - 1)) irs)) s1 = (Inr out, s2)"
      by (simp add: identities_json_def)
    then show ?thesis by (rule honest_pages [OF assms(3-5,1) le_refl])
  next
    assume "identities_xml env s1 = (Inr out, s2)"
    then show ?thesis by (rule honest_document) (rule assms(2,5))+
  qed
qed

definition unity_rows :: "identity_row list" where
  "unity_rows = (case map_res identity_row_of unity_roster of Inr rs \<Rightarrow> rs | Inl _ \<Rightarrow> [])"

theorem unity_roster_is_whole_witness:
  "list_identities unity_demo unity_start = (Inr unity_rows, unity_start) \<and> length unity_rows = 2"
proof -
  have pages: "serves_pages unity_demo unity_roster"
    by (auto simp: serves_pages_def unity_demo_def answer_with_def unity_answer_def mk_request_def asked_page_def
        identities_params_def json_answer_def)
  have doc: "serves_document unity_demo unity_rows"
    by (auto simp: serves_document_def unity_demo_def answer_with_def unity_answer_def mk_request_def text_answer_def)
  have rows: "map_res identity_row_of unity_roster = Inr unity_rows" "distinct (List.map ir_id unity_rows)"
    "'''' \<notin> ir_id ` set unity_rows" "length unity_rows = 2"
    by code_simp+
  have "isl (fst (list_identities unity_demo unity_start)) = False" "snd (list_identities unity_demo unity_start) = unity_start"
    by code_simp+
  then obtain out where run: "list_identities unity_demo unity_start = (Inr out, unity_start)"
    by (cases "list_identities unity_demo unity_start"; cases "fst (list_identities unity_demo unity_start)") auto
  from unity_roster_is_whole [OF pages doc rows(1-3) run] run rows(4) show ?thesis by simp
qed

text \<open>
  A Unity read that failed costs nobody a pass. When the tokens of an active identity on the roster
  were not read, whatever the reason, the snapshot built on that read has no entry for them and
  phase 3 keeps every pass they have, however the clock and the other rows stand.
\<close>

theorem unity_unread_person_keeps_their_pass:
  assumes "build_snapshot ag (unity_api env) tpl w = (Inr snap, w')"
    and "unity_list_people env (w_pacs w) = (Inr ps, s1)"
    and "map_of (un_tokens s1) pid = None" and "\<forall>q\<in>set ps. pe_id q = pid \<longrightarrow> pe_active q" and "\<exists>q\<in>set ps. pe_id q = pid"
    and "t_person_id t = pid"
  shows "map_of (sn_creds snap) pid = None \<and> p3_verdict_of snap complete now n t = P3Keep"
proof -
  have people: "pacs_list_people (unity_api env) (w_pacs w) = (Inr ps, s1)" using assms(2) by (simp add: unity_api_def)
  show ?thesis
    using un.snapshot_unread [OF assms(1) people assms(3)] un.snapshot_unread_kept [OF assms(1) people assms(3) _ assms(5,6)]
      assms(4) by blast
qed

definition unity_world :: "tracked list \<Rightarrow> (unit, unit unity) world" where
  "unity_world = world_on unity_start"

theorem unity_unread_person_keeps_their_pass_witness:
  "\<exists>snap w'. build_snapshot demo_ag (unity_api unity_demo) ''tpl'' (unity_world [demo_row\<lparr>t_person_id := ''b''\<rparr>]) = (Inr snap, w') \<and>
    map_of (sn_creds snap) ''a'' \<noteq> None \<and>
    p3_verdict_of snap True 0 0 (demo_row\<lparr>t_person_id := ''b''\<rparr>) = P3Keep"
proof -
  let ?w = "unity_world [demo_row\<lparr>t_person_id := ''b''\<rparr>]"
  obtain r w' where run: "build_snapshot demo_ag (unity_api unity_demo) ''tpl'' ?w = (r, w')" by fastforce
  obtain q s1 where people: "unity_list_people unity_demo (w_pacs ?w) = (q, s1)" by fastforce
  have ok: "\<not> isl (fst (build_snapshot demo_ag (unity_api unity_demo) ''tpl'' ?w))" by code_simp
  have entry: "map_of (sn_creds (projr (fst (build_snapshot demo_ag (unity_api unity_demo) ''tpl'' ?w)))) ''a'' \<noteq> None"
    by code_simp
  have listed: "\<not> isl (fst (unity_list_people unity_demo (w_pacs ?w)))"
    "map_of (un_tokens (snd (unity_list_people unity_demo (w_pacs ?w)))) ''b'' = None"
    "\<forall>q\<in>set (projr (fst (unity_list_people unity_demo (w_pacs ?w)))). pe_id q = ''b'' \<longrightarrow> pe_active q"
    "\<exists>q\<in>set (projr (fst (unity_list_people unity_demo (w_pacs ?w)))). pe_id q = ''b''"
    by code_simp+
  obtain snap where snap: "r = Inr snap" using ok run by (cases r) auto
  obtain ps where ps: "q = Inr ps" using listed(1) people by (cases q) auto
  have "p3_verdict_of snap True 0 0 (demo_row\<lparr>t_person_id := ''b''\<rparr>) = P3Keep"
    using unity_unread_person_keeps_their_pass [OF run [unfolded snap] people [unfolded ps], of "''b''" "demo_row\<lparr>t_person_id := ''b''\<rparr>"]
      listed people ps by simp
  then show ?thesis using run snap entry by simp
qed

text \<open>
  A Unity status reported as written has been read back. When \<open>update_credential_status\<close> answers
  True, the last thing it did was to read the cardholder's tokens, and the first token of that id
  shows the status asked for; and the form it writes with sends every other field of the token
  form back as Unity returned it.
\<close>

theorem unity_status_write_confirmed:
  assumes "unity_update_credential_status env pid cid status st = (Inr True, st')"
  shows "\<exists>wanted s1 ts a. writable_status status = Some wanted \<and> list_tokens env pid s1 = (Inr ts, st') \<and>
      token_by_id cid ts = Some a \<and> tk_status a = wanted \<and>
      (\<forall>csrf t. \<forall>f\<in>set TOKEN_FORM_FIELDS. map_of (token_form csrf (tk_fields t) wanted) (''token['' @ f @ '']'')
         = Some (form_text (tk_fields t) f)) \<and>
      (\<forall>csrf t. map_of (token_form csrf (tk_fields t) wanted) ''token[plasecTokenstatus]'' = Some wanted)"
  by (rule update_confirmed [OF assms]) (use form_echoes form_status in blast)

theorem unity_status_write_confirmed_witness:
  "\<exists>s1 ts a. list_tokens unity_demo ''a'' s1 = (Inr ts, unity_start) \<and> token_by_id ''t1'' ts = Some a \<and> tk_status a = ''2''"
proof -
  have "unity_update_credential_status unity_demo ''a'' ''t1'' SUSPENDED unity_start = (Inr True, unity_start)" by code_simp
  from unity_status_write_confirmed [OF this] show ?thesis by auto
qed

text \<open>
  A divergence: a date in LDAP generalized time says it is UTC, and is read as local time. The same
  instant in the ISO form is read as UTC, so the two differ by the machine's offset.
\<close>

theorem ldap_time_read_as_local:
  "parse_date utcoffset ''20260310120000Z'' = Inr (Some (to_local utcoffset 1773144000000000)) \<and>
   parse_date utcoffset ''2026-03-10T12:00:00Z'' = Inr (Some (utc_at 1773144000000000))"
proof
  have "first_some (\<lambda>f. strptime f ''20260310120000Z'') DATE_FORMATS = Some 1773144000000000"
    "parse_iso ''20260310120000Z'' = None" "py_strip ''20260310120000Z'' = ''20260310120000Z''"
    by code_simp+
  then show "parse_date utcoffset ''20260310120000Z'' = Inr (Some (to_local utcoffset 1773144000000000))"
    by (simp add: parse_date_def)
  have "parse_iso ''2026-03-10T12:00:00Z'' = Some (utc_at 1773144000000000)"
    "py_strip ''2026-03-10T12:00:00Z'' = ''2026-03-10T12:00:00Z''"
    by code_simp+
  then show "parse_date utcoffset ''2026-03-10T12:00:00Z'' = Inr (Some (utc_at 1773144000000000))"
    by (simp add: parse_date_def utc_at_def)
qed

section \<open>CDVI\<close>



text \<open>
  A page of CDVI with an accented letter is lost, and the list ends there. A controller writes the
  page as UTF-8 and sums its bytes; the client decodes first and sums the letters, so with one to
  three hundred letters past ASCII the sums differ, the page reads as nothing, and the records of
  this page and of every page after it are missing from a list that is returned as complete.
\<close>

theorem cdvi_accented_page_is_lost:
  assumes "cd_session st = Some key" and "key \<noteq> ''''"
    and "cdvi_try env (mk_request ''GET'' (ce_base_url env @ path_ts env (path_for p) st) [] [(''Cookie'', ''Session='' @ key)] NoBody) st
      = (Inr (Some r), st1)"
    and "rs_text r = wire_body key bs" and "List.map unat bs = concat (List.map utf8_of cps)"
    and "list_all (\<lambda>c. c < 256) cps" and "0 < accented cps" and "accented cps \<le> 300"
  shows "cdvi_pages env path_for (p # ps) items st = (Inr items, st1)"
proof -
  have "decrypt_payload (Some key) (rs_text r) = Inr None"
    using refused_page [OF assms(2,6-8,5)] by (simp add: assms(4))
  then have "get_encrypted env (path_ts env (path_for p) st) st = (Inr None, st1)"
    by (intro refused_page_read [OF assms(1,2,3)] cdvi_try_session(1) [OF assms(3)]) simp
  then show ?thesis by (rule failed_page_ends)
qed

definition accented_page :: "nat list" where
  "accented_page = [60, 233, 47, 62]"

definition accented_body :: string where
  "accented_body = wire_body ''AB12'' (List.map of_nat (concat (List.map utf8_of accented_page)))"

theorem cdvi_accented_page_is_lost_witness:
  "cdvi_pages (cdvi_demo (\<lambda>_. text_answer 200 accented_body)) users_path [3, 4] [JStr ''read before''] cdvi_signed_in
     = (Inr [JStr ''read before''], cdvi_signed_in)"
proof -
  let ?env = "cdvi_demo (\<lambda>_. text_answer 200 accented_body)"
  have session: "cd_session cdvi_signed_in = Some ''AB12''" by (simp add: cdvi_signed_in_def)
  have sent: "cdvi_try ?env rq cdvi_signed_in = (Inr (Some (text_answer 200 accented_body)), cdvi_signed_in)" for rq
    by (simp add: cdvi_try_def cdvi_send_def cdvi_demo_def answer_with_def)
  have body: "rs_text (text_answer 200 accented_body) = wire_body ''AB12'' (List.map of_nat (concat (List.map utf8_of accented_page)))"
    by (simp add: text_answer_def accented_body_def)
  have bytes: "List.map unat (List.map of_nat (concat (List.map utf8_of accented_page)) :: byte list)
      = concat (List.map utf8_of accented_page)"
    by code_simp
  have page: "list_all (\<lambda>c. c < 256) accented_page" "0 < accented accented_page" "accented accented_page \<le> 300"
    by code_simp+
  show ?thesis by (rule cdvi_accented_page_is_lost [OF session _ sent body bytes page]) simp
qed

text \<open>
  Two CDVI cards whose encoded numbers agree in the low 24 bits are one credential. Their
  credentials carry the same id, and a status written for the one edits the card that comes later
  in the table: suspending the first card's pass turns off the second card.
\<close>

theorem cdvi_long_numbers_share_a_credential:
  assumes "parse_hex (card_number_text c) = Some v" and "parse_hex (card_number_text d) = Some u"
    and "card_number_text c \<noteq> ''''" and "card_number_text d \<noteq> ''''" and "take_bit 24 v = take_bit 24 u"
    and "cd_by_person st \<noteq> None"
    and "cd_by_identity st = snd (fold index_card (xs @ JObj d # zs) ([], []))"
    and "\<forall>x\<in>set zs. card_identity (fields_of x) \<noteq> card_identity d"
    and "status \<in> {ACTIVE, SUSPENDED}"
  shows "cr_id (cdvi_credential p (JObj c)) = cr_id (cdvi_credential q (JObj d)) \<and>
    cdvi_update_credential_status env p (cr_id (cdvi_credential p (JObj c))) status st
      = set_card_enabled env d (status = ACTIVE) st"
proof -
  have same: "card_identity c = card_identity d" by (rule same_identity [OF assms(1-5)])
  have "map_of (cd_by_identity st) (card_identity d) = Some (JObj d)"
    using index_by_identity_last [of "JObj d" "card_identity d" zs xs] assms(7,8) by simp
  moreover obtain g where "cd_by_person st = Some g" using assms(6) by blast
  ultimately show ?thesis
    using same assms(9)
    by (simp add: identity_of_credential cdvi_update_credential_status_def ensure_cards_loaded_def bind_comp_def)
qed

definition long_cards :: "json list" where
  "long_cards = [cdvi_card ''1'' ''1000001'', cdvi_card ''2'' ''2000001'']"

theorem cdvi_long_numbers_share_a_credential_witness:
  "let st = cdvi_signed_in\<lparr>cd_by_person := Some [], cd_by_identity := snd (fold index_card long_cards ([], []))\<rparr> in
   cdvi_update_credential_status (cdvi_demo (\<lambda>_. text_answer 500 '''')) ''7'' (cr_id (cdvi_credential ''7'' (cdvi_card ''1'' ''1000001''))) SUSPENDED st
     = set_card_enabled (cdvi_demo (\<lambda>_. text_answer 500 '''')) (fields_of (cdvi_card ''2'' ''2000001'')) False st"
proof -
  let ?c = "fields_of (cdvi_card ''1'' ''1000001'')" and ?d = "fields_of (cdvi_card ''2'' ''2000001'')"
  let ?st = "cdvi_signed_in\<lparr>cd_by_person := Some [], cd_by_identity := snd (fold index_card long_cards ([], []))\<rparr>"
  have "''1000001'' = List.map upper_hex [1, 0, 0, 0, 0, 0, 1]" "''2000001'' = List.map upper_hex [2, 0, 0, 0, 0, 0, 1]"
    by code_simp+
  then have parsed: "parse_hex ''1000001'' = Some 16777217" "parse_hex ''2000001'' = Some 33554433"
    by (simp_all add: parse_hex_digits del: list.map)
  have texts: "card_number_text ?c = ''1000001''" "card_number_text ?d = ''2000001''" by code_simp+
  have nums: "parse_hex (card_number_text ?c) = Some 16777217" "parse_hex (card_number_text ?d) = Some 33554433"
    "card_number_text ?c \<noteq> ''''" "card_number_text ?d \<noteq> ''''" "take_bit 24 16777217 = take_bit 24 (33554433 :: int)"
    using parsed by (simp_all only: texts) (simp_all add: take_bit_eq_mod)
  have "cd_by_identity ?st = snd (fold index_card ([JObj ?c] @ JObj ?d # []) ([], []))" "cd_by_person ?st \<noteq> None"
    by (simp_all add: long_cards_def cdvi_card_def)
  from cdvi_long_numbers_share_a_credential [OF nums this(2,1), of SUSPENDED "''7''" _ "cdvi_demo (\<lambda>_. text_answer 500 [])"]
  show ?thesis by (simp add: Let_def cdvi_card_def)
qed

text \<open>
  A lapsed CDVI session reads as an empty site. Once the client has signed in it never signs in
  again: when the controller refuses its requests, the roster is an empty list rather than an
  error, the client still believes it is signed in, and so the next cycle reads the same.
\<close>

theorem cdvi_lapsed_session_reads_as_empty:
  assumes "refuses_lists env" and "cd_session st = Some key" and "key \<noteq> ''''" and "cd_logged_in st"
  shows "\<exists>st1. pacs_list_people (cdvi_api env) st = (Inr [], st1) \<and> cd_logged_in st1"
  using lapsed_session_empty [OF assms] by (simp add: cdvi_api_def)

theorem cdvi_lapsed_session_reads_as_empty_witness:
  "\<exists>st1. pacs_list_people (cdvi_api (cdvi_demo (\<lambda>_. text_answer 302 ''''))) cdvi_signed_in = (Inr [], st1) \<and> cd_logged_in st1"
proof -
  have "refuses_lists (cdvi_demo (\<lambda>_. text_answer 302 ''''))"
    by (simp add: refuses_lists_def cdvi_demo_def answer_with_def text_answer_def)
  from cdvi_lapsed_session_reads_as_empty [OF this, of cdvi_signed_in "''AB12''"] show ?thesis
    by (simp add: cdvi_signed_in_def)
qed

text \<open>
  The edit of a CDVI card changes its State and nothing else. The form names the card by its id,
  carries the State asked for, and sends back every other field the card has of those an edit
  would clear.
\<close>

theorem cdvi_edit_echoes_the_card:
  "map_of (card_form d enabled) ''T_card_id'' = Some (jstr (jlookup d ''id'')) \<and>
   map_of (card_form d enabled) ''T_card_en'' = Some (if enabled then ''1'' else ''0'') \<and>
   (\<forall>k\<in>set CARD_ECHO_FIELDS. map_of (card_form d enabled) (''T_card_'' @ k) =
      (if jlookup d k = JNull then None else Some (jstr (jlookup d k))))"
  by (rule form_of_card)

theorem cdvi_edit_echoes_the_card_witness:
  "map_of (card_form [(''id'', JStr ''9''), (''lost'', JStr ''1'')] False) ''T_card_lost'' = Some ''1'' \<and>
   map_of (card_form [(''id'', JStr ''9''), (''lost'', JStr ''1'')] False) ''T_card_stolen'' = None"
proof -
  let ?d = "[(''id'', JStr ''9''), (''lost'', JStr ''1'')]"
  have "jlookup ?d ''lost'' = JStr ''1''" "jlookup ?d ''stolen'' = JNull" "jstr (JStr ''1'') = ''1''"
    "''lost'' \<in> set CARD_ECHO_FIELDS" "''stolen'' \<in> set CARD_ECHO_FIELDS"
    by code_simp+
  with cdvi_edit_echoes_the_card [of ?d False] show ?thesis by auto
qed

end
