(* ===== verification/Sign_In.thy ===== *)
theory Sign_In
  imports Keyed_Table
begin

text \<open>
  The operator's sign-in: \<open>auth/store.py\<close> and the login form of \<open>routes/auth.py\<close> with its lockout.
  Instants are microseconds; the password hasher (argon2) is a parameter. The two clock readings of
  a request are arguments, the second not before the first. Requests are taken one at a time.
\<close>

section \<open>The one administrator\<close>

record hasher =
  hh_hash :: "string \<Rightarrow> string"
  hh_verify :: "string \<Rightarrow> string \<Rightarrow> exn + unit"
  hh_needs_rehash :: "string \<Rightarrow> bool"

record admin =
  ad_username :: string
  ad_hash :: string

record attempt =
  la_key :: string
  la_fail_count :: int
  la_first_fail_at :: "int option"
  la_locked_until :: "int option"
  la_lock_level :: nat

record site =
  si_admin :: "admin option"
  si_attempts :: "attempt list"

definition create_admin :: "hasher \<Rightarrow> string \<Rightarrow> string \<Rightarrow> site \<Rightarrow> site" where
  "create_admin h user pw s = s\<lparr>si_admin := Some \<lparr>ad_username = user, ad_hash = hh_hash h pw\<rparr>\<rparr>"

definition delete_admin :: "site \<Rightarrow> site" where
  "delete_admin s = s\<lparr>si_admin := None\<rparr>"

fun is_mismatch :: "exn \<Rightarrow> bool" where
  "is_mismatch (PyError c _) = (c = ''VerifyMismatchError'')"
| "is_mismatch _ = False"

definition verify_admin_password :: "hasher \<Rightarrow> string \<Rightarrow> string \<Rightarrow> (site, bool) comp" where
  "verify_admin_password h user pw s =
     (case si_admin s of
        None \<Rightarrow> (Inr False, s)
      | Some a \<Rightarrow>
          if ad_username a \<noteq> user then (Inr False, s)
          else (case hh_verify h (ad_hash a) pw of
                  Inl e \<Rightarrow> (if is_mismatch e then (Inr False, s) else (Inl e, s))
                | Inr _ \<Rightarrow> (Inr True, if hh_needs_rehash h (ad_hash a)
                    then s\<lparr>si_admin := Some (a\<lparr>ad_hash := hh_hash h pw\<rparr>)\<rparr> else s)))"

section \<open>The lockout\<close>

definition FAIL_WINDOW :: int where "FAIL_WINDOW = 15 * 60 * 1000000"
definition MAX_FAILS :: int where "MAX_FAILS = 8"
definition LOCKOUT_BASE :: int where "LOCKOUT_BASE = 60 * 1000000"
definition LOCKOUT_MAX :: int where "LOCKOUT_MAX = 24 * 60 * 60 * 1000000"

interpretation login: keyed_store la_key "table_get la_key" "table_update la_key" "table_upsert la_key"
    "table_delete la_key" "table_ok la_key"
  by unfold_locales
    (auto simp: table_get_update table_get_upsert table_get_delete table_ok_update table_ok_upsert table_ok_delete)

definition login_key :: "string \<Rightarrow> string \<Rightarrow> string" where
  "login_key ip user = (if ip = '''' then ''unknown'' else ip) @ ''|'' @ py_lower (py_strip user)"

text \<open>A null or zero column reads as zero.\<close>

definition or_zero :: "int option \<Rightarrow> int" where
  "or_zero x = (case x of None \<Rightarrow> 0 | Some v \<Rightarrow> v)"

definition locked_until :: "string \<Rightarrow> attempt list \<Rightarrow> int" where
  "locked_until k rows = (case table_get la_key rows k of None \<Rightarrow> 0 | Some r \<Rightarrow> or_zero (la_locked_until r))"

definition is_locked :: "int \<Rightarrow> string \<Rightarrow> attempt list \<Rightarrow> bool \<times> attempt list" where
  "is_locked now k rows =
     (if locked_until k rows \<le> now then (False, table_update la_key k (\<lambda>r. r\<lparr>la_locked_until := None\<rparr>) rows)
      else (True, rows))"

text \<open>Seconds, rounded up, and not below zero.\<close>

definition ceil_div :: "int \<Rightarrow> int \<Rightarrow> int" where
  "ceil_div a b = - ((- a) div b)"

definition lockout_remaining_s :: "int \<Rightarrow> string \<Rightarrow> attempt list \<Rightarrow> int" where
  "lockout_remaining_s now k rows = max 0 (ceil_div (locked_until k rows - now) 1000000)"

definition lockout :: "nat \<Rightarrow> int" where
  "lockout level = min (LOCKOUT_BASE * 2 ^ (level - 1)) LOCKOUT_MAX"

text \<open>The row as a failure at \<open>now\<close> leaves it, from the row before (None for none).\<close>

definition after_failure :: "int \<Rightarrow> string \<Rightarrow> attempt option \<Rightarrow> attempt" where
  "after_failure now k row =
     (let count0 = (case row of None \<Rightarrow> 0 | Some r \<Rightarrow> la_fail_count r);
          first0 = (case row of None \<Rightarrow> 0 | Some r \<Rightarrow> or_zero (la_first_fail_at r));
          level0 = (case row of None \<Rightarrow> 0 | Some r \<Rightarrow> la_lock_level r);
          (count, since) = (if first0 < now - FAIL_WINDOW then (1, now) else (count0 + 1, first0))
      in if MAX_FAILS \<le> count
         then \<lparr>la_key = k, la_fail_count = 0, la_first_fail_at = Some now,
               la_locked_until = Some (now + lockout (Suc level0)), la_lock_level = Suc level0\<rparr>
         else \<lparr>la_key = k, la_fail_count = count, la_first_fail_at = Some since,
               la_locked_until = None, la_lock_level = level0\<rparr>)"

definition record_failure :: "int \<Rightarrow> string \<Rightarrow> attempt list \<Rightarrow> attempt list" where
  "record_failure now k rows =
     (let new = after_failure now k (table_get la_key rows k) in table_upsert la_key k new (\<lambda>_. new) rows)"

definition record_success :: "string \<Rightarrow> attempt list \<Rightarrow> attempt list" where
  "record_success k rows = table_delete la_key k rows"

section \<open>The login form\<close>

datatype login_outcome = Rate_limited int | Invalid_login | Signed_in

definition login_submit :: "hasher \<Rightarrow> int \<Rightarrow> int \<Rightarrow> string \<Rightarrow> string \<Rightarrow> string \<Rightarrow> (site, login_outcome) comp" where
  "login_submit h t1 t2 ip user pw s =
     (let k = login_key ip user; (locked, rows) = is_locked t1 k (si_attempts s); s1 = s\<lparr>si_attempts := rows\<rparr> in
      if locked then (Inr (Rate_limited (max 1 (ceil_div (lockout_remaining_s t2 k rows) 60))), s1)
      else (case verify_admin_password h user pw s1 of
              (Inl e, s2) \<Rightarrow> (Inl e, s2)
            | (Inr False, s2) \<Rightarrow> (Inr Invalid_login, s2\<lparr>si_attempts := record_failure t2 k (si_attempts s2)\<rparr>)
            | (Inr True, s2) \<Rightarrow> (Inr Signed_in, s2\<lparr>si_attempts := record_success k (si_attempts s2)\<rparr>)))"

section \<open>One row through the operations\<close>

lemma after_failure_key [simp]: "la_key (after_failure now k row) = k"
  by (auto simp: after_failure_def Let_def split: prod.split)

lemma get_record_failure:
  "table_get la_key (record_failure now k rows) k' =
     (if k' = k then Some (after_failure now k (table_get la_key rows k)) else table_get la_key rows k')"
  by (auto simp: record_failure_def Let_def login.get_put split: option.split)

lemma get_is_locked:
  "table_get la_key (snd (is_locked now k rows)) k' =
     (if k' = k \<and> locked_until k rows \<le> now
      then map_option (\<lambda>r. r\<lparr>la_locked_until := None\<rparr>) (table_get la_key rows k) else table_get la_key rows k')"
  by (simp add: is_locked_def login.get_change)

lemma verify_keeps_attempts:
  "si_attempts (snd (verify_admin_password h user pw s)) = si_attempts s"
  by (auto simp: verify_admin_password_def split: option.split sum.split)

text \<open>A refused request changes nothing, and reads no password.\<close>

lemma login_locked:
  assumes "t1 < locked_until (login_key ip user) (si_attempts s)"
  shows "\<exists>m. login_submit h t1 t2 ip user pw s = (Inr (Rate_limited m), s)"
  using assms by (simp add: login_submit_def is_locked_def Let_def)

lemma login_invalid:
  assumes "login_submit h t1 t2 ip user pw s = (Inr Invalid_login, s')"
  shows "locked_until (login_key ip user) (si_attempts s) \<le> t1"
    and "si_attempts s' = record_failure t2 (login_key ip user) (snd (is_locked t1 (login_key ip user) (si_attempts s)))"
proof -
  have "\<not> t1 < locked_until (login_key ip user) (si_attempts s)"
    using login_locked [of t1 ip user s h t2 pw] assms by auto
  then show le: "locked_until (login_key ip user) (si_attempts s) \<le> t1" by simp
  show "si_attempts s' = record_failure t2 (login_key ip user) (snd (is_locked t1 (login_key ip user) (si_attempts s)))"
    using assms le verify_keeps_attempts [of h user pw "s\<lparr>si_attempts := snd (is_locked t1 (login_key ip user) (si_attempts s))\<rparr>"]
    by (auto simp: login_submit_def is_locked_def Let_def split: prod.splits sum.splits bool.splits)
qed

lemma login_rate_limited:
  assumes "login_submit h t1 t2 ip user pw s = (Inr (Rate_limited m), s')"
  shows "s' = s"
  using assms by (auto simp: login_submit_def is_locked_def Let_def split: prod.splits sum.splits bool.splits if_splits)

section \<open>Guessing\<close>

text \<open>
  Guessing against the login form: the runs an outsider can produce under one key (one address and
  one user name), whatever happens under other keys in between, and how many passwords they get to
  try in a given time.
\<close>

text \<open>\<open>attacked h k t0 s t n\<close>: by the time \<open>t\<close> the site is in \<open>s\<close>, and \<open>n\<close> passwords were tried under \<open>k\<close> since \<open>t0\<close>.\<close>

inductive attacked :: "hasher \<Rightarrow> string \<Rightarrow> int \<Rightarrow> site \<Rightarrow> int \<Rightarrow> nat \<Rightarrow> bool" for h k t0 where
  start: "table_get la_key (si_attempts s) k = None \<Longrightarrow> attacked h k t0 s t0 0"
| idle: "attacked h k t0 s t n \<Longrightarrow> t \<le> t' \<Longrightarrow> table_get la_key (si_attempts s') k = table_get la_key (si_attempts s) k \<Longrightarrow>
    attacked h k t0 s' t' n"
| refused: "attacked h k t0 s t n \<Longrightarrow> t \<le> t1 \<Longrightarrow> t1 \<le> t2 \<Longrightarrow> login_key ip user = k \<Longrightarrow>
    login_submit h t1 t2 ip user pw s = (Inr (Rate_limited m), s') \<Longrightarrow> attacked h k t0 s' t2 n"
| guess: "attacked h k t0 s t n \<Longrightarrow> t \<le> t1 \<Longrightarrow> t1 \<le> t2 \<Longrightarrow> login_key ip user = k \<Longrightarrow>
    login_submit h t1 t2 ip user pw s = (Inr Invalid_login, s') \<Longrightarrow> attacked h k t0 s' t2 (Suc n)"

text \<open>The time the first \<open>n\<close> lockouts take together.\<close>

fun lockout_total :: "nat \<Rightarrow> int" where
  "lockout_total 0 = 0"
| "lockout_total (Suc n) = lockout_total n + lockout (Suc n)"

lemma lockout_pos: "0 \<le> lockout n"
  by (simp add: lockout_def LOCKOUT_BASE_def LOCKOUT_MAX_def)

text \<open>
  The invariant of the key's row: fewer than eight counted failures, every earlier one paid for by
  a lockout or by a window that has passed, and the lockouts so far served or still running.
\<close>

definition row_bound :: "int \<Rightarrow> int \<Rightarrow> nat \<Rightarrow> attempt \<Rightarrow> bool" where
  "row_bound t0 t n r \<longleftrightarrow>
     (\<exists>f. la_first_fail_at r = Some f \<and> t0 \<le> f \<and> f \<le> t \<and>
        int n \<le> 8 * int (la_lock_level r) + 7 * ((f - t0) div FAIL_WINDOW) + la_fail_count r) \<and>
     0 \<le> la_fail_count r \<and> la_fail_count r < MAX_FAILS \<and>
     (case la_locked_until r of
        None \<Rightarrow> t0 + lockout_total (la_lock_level r) \<le> t
      | Some u \<Rightarrow> t0 + lockout_total (la_lock_level r) \<le> u \<and> u \<le> t + lockout (la_lock_level r))"

definition key_bound :: "int \<Rightarrow> int \<Rightarrow> nat \<Rightarrow> attempt option \<Rightarrow> bool" where
  "key_bound t0 t n row = (case row of None \<Rightarrow> n = 0 | Some r \<Rightarrow> row_bound t0 t n r)"

lemma row_bound_later: "row_bound t0 t n r \<Longrightarrow> t \<le> t' \<Longrightarrow> row_bound t0 t' n r"
  by (auto simp: row_bound_def split: option.splits)

lemma row_bound_unlock:
  assumes "row_bound t0 t n r" and "t \<le> t1" and "or_zero (la_locked_until r) \<le> t1"
  shows "row_bound t0 t1 n (r\<lparr>la_locked_until := None\<rparr>)"
  using assms by (auto simp: row_bound_def or_zero_def split: option.splits)

text \<open>One more failure on a row that is not locked.\<close>

lemma window_passed: "FAIL_WINDOW < b - a \<Longrightarrow> t0 \<le> a \<Longrightarrow> (a - t0) div FAIL_WINDOW + 1 \<le> (b - t0) div FAIL_WINDOW"
proof -
  assume "FAIL_WINDOW < b - a" "t0 \<le> a"
  then have "(a - t0 + FAIL_WINDOW) div FAIL_WINDOW \<le> (b - t0) div FAIL_WINDOW"
    by (intro zdiv_mono1) (simp_all add: FAIL_WINDOW_def)
  then show ?thesis by (simp add: FAIL_WINDOW_def)
qed

lemma row_bound_fail:
  assumes row: "row_bound t0 t1 n r" and free: "la_locked_until r = None" and le: "t1 \<le> t2"
  shows "row_bound t0 t2 (Suc n) (after_failure t2 k (Some r))"
proof -
  obtain f where f: "la_first_fail_at r = Some f" "t0 \<le> f" "f \<le> t1"
    and n: "int n \<le> 8 * int (la_lock_level r) + 7 * ((f - t0) div FAIL_WINDOW) + la_fail_count r"
    and c: "0 \<le> la_fail_count r" "la_fail_count r < MAX_FAILS"
    and paid: "t0 + lockout_total (la_lock_level r) \<le> t1"
    using row free by (auto simp: row_bound_def)
  show ?thesis
  proof (cases "f < t2 - FAIL_WINDOW")
    case True
    then have "(f - t0) div FAIL_WINDOW + 1 \<le> (t2 - t0) div FAIL_WINDOW" using f by (intro window_passed) auto
    then show ?thesis using True f n c paid le
      by (auto simp: after_failure_def row_bound_def or_zero_def MAX_FAILS_def Let_def)
  next
    case False
    have "(f - t0) div FAIL_WINDOW \<le> (t2 - t0) div FAIL_WINDOW"
      using f le by (intro zdiv_mono1) (simp_all add: FAIL_WINDOW_def)
    then show ?thesis using False f n c paid le lockout_pos
      by (auto simp: after_failure_def row_bound_def or_zero_def MAX_FAILS_def Let_def)
  qed
qed

lemma first_failure:
  assumes "t0 \<le> t2" and "FAIL_WINDOW < t2"
  shows "row_bound t0 t2 1 (after_failure t2 k None)"
proof -
  have "0 \<le> (t2 - t0) div FAIL_WINDOW" using assms(1) by (simp add: FAIL_WINDOW_def pos_imp_zdiv_nonneg_iff)
  then show ?thesis using assms by (simp add: after_failure_def row_bound_def MAX_FAILS_def Let_def)
qed

lemma attacked_bound:
  assumes "attacked h k t0 s t n" and "FAIL_WINDOW < t0"
  shows "t0 \<le> t \<and> key_bound t0 t n (table_get la_key (si_attempts s) k)"
  using assms(1)
proof induction
  case (start s)
  then show ?case by (simp add: key_bound_def)
next
  case (idle s t n t' s')
  then show ?case by (auto simp: key_bound_def intro: row_bound_later split: option.splits)
next
  case (refused s t n t1 t2 ip user pw m s')
  then show ?case using login_rate_limited [of h t1 t2 ip user pw s m s']
    by (auto simp: key_bound_def intro: row_bound_later split: option.splits)
next
  case (guess s t n t1 t2 ip user pw s')
  note inv = login_invalid [OF guess(5)]
  let ?rows = "snd (is_locked t1 k (si_attempts s))"
  have after: "table_get la_key (si_attempts s') k = Some (after_failure t2 k (table_get la_key ?rows k))"
    using inv(2) guess(4) by (simp add: get_record_failure)
  show ?case
  proof (cases "table_get la_key (si_attempts s) k")
    case None
    then have "table_get la_key ?rows k = None" "n = 0" using guess(6) by (simp_all add: get_is_locked key_bound_def)
    then show ?thesis using after guess first_failure [of t0 t2 k] assms(2) by (simp add: key_bound_def)
  next
    case (Some r)
    then have free: "table_get la_key ?rows k = Some (r\<lparr>la_locked_until := None\<rparr>)"
      and until: "or_zero (la_locked_until r) \<le> t1"
      using inv(1) guess(4) by (simp_all add: get_is_locked locked_until_def)
    have "row_bound t0 t n r" using guess(6) Some by (simp add: key_bound_def)
    then have "row_bound t0 t1 n (r\<lparr>la_locked_until := None\<rparr>)" by (rule row_bound_unlock) (use guess(2) until in auto)
    from row_bound_fail [OF this _ guess(3)] show ?thesis using after free guess(2,3,6) by (simp add: key_bound_def)
  qed
qed

text \<open>So the guesses are bounded by the lockouts begun and the windows passed.\<close>

lemma guesses_bounded:
  assumes "attacked h k t0 s t n" and "FAIL_WINDOW < t0"
  shows "\<exists>level. int n \<le> 8 * int level + 7 * ((t - t0) div FAIL_WINDOW) + 7 \<and> lockout_total (level - 1) \<le> t - t0"
proof (cases "table_get la_key (si_attempts s) k")
  case None
  have "t0 \<le> t" "n = 0" using attacked_bound [OF assms] None by (simp_all add: key_bound_def)
  then show ?thesis by (intro exI [of _ 0]) (simp add: FAIL_WINDOW_def pos_imp_zdiv_nonneg_iff)
next
  case (Some r)
  then have row: "row_bound t0 t n r" using attacked_bound [OF assms] by (simp add: key_bound_def)
  then obtain f where f: "f \<le> t" and n: "int n \<le> 8 * int (la_lock_level r) + 7 * ((f - t0) div FAIL_WINDOW) + la_fail_count r"
    and c: "la_fail_count r < MAX_FAILS" by (auto simp: row_bound_def)
  have "(f - t0) div FAIL_WINDOW \<le> (t - t0) div FAIL_WINDOW"
    using f by (intro zdiv_mono1) (simp_all add: FAIL_WINDOW_def)
  then have "int n \<le> 8 * int (la_lock_level r) + 7 * ((t - t0) div FAIL_WINDOW) + 7"
    using n c by (simp add: MAX_FAILS_def)
  moreover have "lockout_total (la_lock_level r - 1) \<le> t - t0"
    using row lockout_pos [of "la_lock_level r"]
    by (cases "la_lock_level r") (auto simp: row_bound_def split: option.splits)
  ultimately show ?thesis by blast
qed

lemma lockout_total_mono: "m \<le> n \<Longrightarrow> lockout_total m \<le> lockout_total n"
proof (induction n)
  case (Suc n)
  then show ?case using lockout_pos [of "Suc n"] by (cases "m = Suc n") auto
qed simp

text \<open>Eleven lockouts take more than a day.\<close>

lemma lockout_total_day: "24 * 60 * 60 * 1000000 < lockout_total 11"
  by (simp add: numeral_eq_Suc lockout_def LOCKOUT_BASE_def LOCKOUT_MAX_def)

lemma day_of_guessing:
  assumes "attacked h k t0 s t n" and "FAIL_WINDOW < t0" and "t \<le> t0 + 24 * 60 * 60 * 1000000"
  shows "n \<le> 767"
proof -
  obtain level where n: "int n \<le> 8 * int level + 7 * ((t - t0) div FAIL_WINDOW) + 7"
    and total: "lockout_total (level - 1) \<le> t - t0"
    using guesses_bounded [OF assms(1,2)] by blast
  have "level - 1 < 11"
  proof (rule ccontr)
    assume "\<not> level - 1 < 11"
    then have "lockout_total 11 \<le> lockout_total (level - 1)" by (intro lockout_total_mono) simp
    then show False using total assms(3) lockout_total_day by linarith
  qed
  moreover have "(t - t0) div FAIL_WINDOW \<le> (24 * 60 * 60 * 1000000) div FAIL_WINDOW"
    using assms(3) by (intro zdiv_mono1) (simp_all add: FAIL_WINDOW_def)
  then have "(t - t0) div FAIL_WINDOW \<le> 96" by (simp add: FAIL_WINDOW_def)
  ultimately show ?thesis using n by linarith
qed

end
