(* ===== verification/Pacs_Vendors.thy ===== *)
theory Pacs_Vendors
  imports Hub_Prelude
begin

text \<open>
  The descriptors of the vendors (\<open>lib/pacs/*/__init__.py\<close>) and their registry
  (\<open>lib/pacs/registry.py\<close>), as far as the web pages ask about them: the connection fields, the two
  flags and the sign-in through a browser. Labels, help texts and placeholders are left out.
\<close>

datatype field_kind = Text_field | Password_field | Url_field

record connection_field =
  cf_id :: string
  cf_kind :: field_kind

record browser_sign_in =
  bs_required :: string
  bs_extra :: "string list"
  bs_login_path :: string

record descriptor =
  de_fields :: "connection_field list"
  de_file_data :: bool
  de_requires_connect :: bool
  de_browser :: "browser_sign_in option"

definition plain_field :: "string \<Rightarrow> connection_field" where
  "plain_field i = \<lparr>cf_id = i, cf_kind = Text_field\<rparr>"

definition password_field :: "string \<Rightarrow> connection_field" where
  "password_field i = \<lparr>cf_id = i, cf_kind = Password_field\<rparr>"

definition url_field :: "string \<Rightarrow> connection_field" where
  "url_field i = \<lparr>cf_id = i, cf_kind = Url_field\<rparr>"

definition simple_descriptor :: "connection_field list \<Rightarrow> descriptor" where
  "simple_descriptor fs = \<lparr>de_fields = fs, de_file_data = False, de_requires_connect = False, de_browser = None\<rparr>"

section \<open>The vendors\<close>

definition unity_descriptor :: descriptor where
  "unity_descriptor = simple_descriptor [plain_field ''host'', plain_field ''username'', password_field ''password'']"

definition alta_descriptor :: descriptor where
  "alta_descriptor = simple_descriptor [plain_field ''email'', password_field ''password'']"

definition cdvi_descriptor :: descriptor where
  "cdvi_descriptor = (simple_descriptor [url_field ''base_url'', plain_field ''username'', password_field ''password''])
     \<lparr>de_file_data := True\<rparr>"

definition lenel_descriptor :: descriptor where
  "lenel_descriptor = simple_descriptor [plain_field ''server'', plain_field ''database'', plain_field ''username'',
     password_field ''password'']"

definition millennium_sign_in :: browser_sign_in where
  "millennium_sign_in = \<lparr>bs_required = ''Ultra'',
     bs_extra = [''UltraCoreCompanyName'', ''timeoffset'', ''DisableAlarmSound'', ''.AspNetCore.Antiforgery.*''],
     bs_login_path = ''/Account''\<rparr>"

definition millennium_descriptor :: descriptor where
  "millennium_descriptor = \<lparr>de_fields = [url_field ''base_url'', plain_field ''email_domain'', plain_field ''notify_email''],
     de_file_data = False, de_requires_connect = True, de_browser = Some millennium_sign_in\<rparr>"

definition get_descriptor :: "string \<Rightarrow> descriptor option" where
  "get_descriptor = map_of [(''avigilon'', unity_descriptor), (''avigilon_alta'', alta_descriptor),
     (''cdvi'', cdvi_descriptor), (''lenel'', lenel_descriptor), (''millennium_ultra'', millennium_descriptor)]"

lemmas descriptor_defs = get_descriptor_def unity_descriptor_def alta_descriptor_def cdvi_descriptor_def
  lenel_descriptor_def millennium_descriptor_def millennium_sign_in_def simple_descriptor_def plain_field_def
  password_field_def url_field_def

section \<open>What is asked of them\<close>

definition requires_connect :: "string \<Rightarrow> bool" where
  "requires_connect vendor \<longleftrightarrow> (case get_descriptor vendor of None \<Rightarrow> False | Some d \<Rightarrow> de_requires_connect d)"

definition browser_login :: "string \<Rightarrow> browser_sign_in option" where
  "browser_login vendor = Option.bind (get_descriptor vendor) de_browser"

text \<open>\<open>_address_fields\<close>: the fields that say where the PACS is.\<close>

definition address_fields :: "descriptor option \<Rightarrow> string list" where
  "address_fields d = (case d of None \<Rightarrow> []
     | Some e \<Rightarrow> List.map cf_id (List.filter (\<lambda>f. cf_kind f = Url_field) (de_fields e)))"

lemma sign_in_needs_connect: "browser_login vendor \<noteq> None \<longleftrightarrow> requires_connect vendor"
  by (simp add: browser_login_def requires_connect_def descriptor_defs)

text \<open>Every vendor has at most one address, and it is never one of the secrets.\<close>

lemma address_fields_cases:
  "address_fields (get_descriptor vendor) = [] \<or>
   (vendor = ''cdvi'' \<or> vendor = ''millennium_ultra'') \<and> address_fields (get_descriptor vendor) = [''base_url'']"
  by (simp add: address_fields_def descriptor_defs)

end
