(* ===== verification/Settings_Store.thy ===== *)
theory Settings_Store
  imports Keyed_Table Json_Data Pacs_Vendors
begin

text \<open>
  \<open>settings_store.py\<close> : the \<open>settings\<close>
  table, its encrypted JSON blobs, and the configurations kept in them. Encryption (Fernet, with
  \<open>json.dumps\<close> before it and \<open>json.loads\<close> after) is the parameter \<open>vault\<close>; opening may raise.
\<close>

section \<open>The table\<close>

record setting =
  se_key :: string
  se_value :: string

type_synonym settings = "setting list"

interpretation settings: keyed_store se_key "table_get se_key" "table_update se_key" "table_upsert se_key"
    "table_delete se_key" "table_ok se_key"
  by unfold_locales
    (auto simp: table_get_update table_get_upsert table_get_delete table_ok_update table_ok_upsert table_ok_delete)

definition setting_get :: "settings \<Rightarrow> string \<Rightarrow> string option" where
  "setting_get rows k = map_option se_value (table_get se_key rows k)"

definition setting_set :: "string \<Rightarrow> string \<Rightarrow> settings \<Rightarrow> settings" where
  "setting_set k v rows = table_upsert se_key k \<lparr>se_key = k, se_value = v\<rparr> (\<lambda>r. r\<lparr>se_value := v\<rparr>) rows"

definition setting_delete :: "string \<Rightarrow> settings \<Rightarrow> settings" where
  "setting_delete k rows = table_delete se_key k rows"

lemma setting_get_set [simp]: "setting_get (setting_set k v rows) k' = (if k' = k then Some v else setting_get rows k')"
  by (auto simp: setting_get_def setting_set_def settings.get_put split: option.split)

lemma setting_get_delete [simp]: "setting_get (setting_delete k rows) k' = (if k' = k then None else setting_get rows k')"
  by (simp add: setting_get_def setting_delete_def table_get_delete)

section \<open>Encrypted JSON\<close>

record vault =
  va_seal :: "json \<Rightarrow> string"
  va_open :: "string \<Rightarrow> json res"

definition set_json :: "vault \<Rightarrow> string \<Rightarrow> json \<Rightarrow> settings \<Rightarrow> settings" where
  "set_json v k payload = setting_set k (va_seal v payload)"

text \<open>A missing row and an empty one are both None.\<close>

definition get_json :: "vault \<Rightarrow> string \<Rightarrow> settings \<Rightarrow> json option res" where
  "get_json v k rows =
     (case setting_get rows k of
        None \<Rightarrow> Inr None
      | Some raw \<Rightarrow> if raw = '''' then Inr None else bind_res (va_open v raw) (\<lambda>j. Inr (Some j)))"

text \<open>What the code relies on: what was sealed opens to itself, and a sealed text is never empty.\<close>

definition sound_vault :: "vault \<Rightarrow> bool" where
  "sound_vault v \<longleftrightarrow> (\<forall>j. va_open v (va_seal v j) = Inr j \<and> va_seal v j \<noteq> '''')"

lemma get_json_set_json:
  assumes "sound_vault v"
  shows "get_json v k' (set_json v k j rows) = (if k' = k then Inr (Some j) else get_json v k' rows)"
  using assms by (simp add: get_json_def set_json_def sound_vault_def)

lemma get_json_after_delete: "get_json v k' (setting_delete k rows) = (if k' = k then Inr None else get_json v k' rows)"
  by (simp add: get_json_def setting_get_delete)

text \<open>\<open>existing[k] = v\<close>: only a dictionary takes it.\<close>

fun json_put :: "string \<Rightarrow> json \<Rightarrow> json \<Rightarrow> json res" where
  "json_put k v (JObj d) = Inr (JObj (AList.update k v d))"
| "json_put k v _ = Inl (type_error ''item assignment'')"

text \<open>
  The shape of every \<open>update_\<close> method: read the blob, give up (False) when there is none or it is
  empty, change it, store it.
\<close>

definition change_blob :: "vault \<Rightarrow> string \<Rightarrow> (json \<Rightarrow> json res) \<Rightarrow> (settings, bool) comp" where
  "change_blob v k f rows =
     (case get_json v k rows of
        Inl e \<Rightarrow> (Inl e, rows)
      | Inr None \<Rightarrow> (Inr False, rows)
      | Inr (Some j) \<Rightarrow>
          if \<not> jtruthy j then (Inr False, rows) else
          (case f j of Inl e \<Rightarrow> (Inl e, rows) | Inr j' \<Rightarrow> (Inr True, set_json v k j' rows)))"

section \<open>AccessGrid\<close>

definition AG_KEY :: string where "AG_KEY = ''accessgrid''"

definition RESERVED_METADATA_KEYS :: "string list" where
  "RESERVED_METADATA_KEYS = [''pacs_credential_id'', ''site_code'', ''card_number'', ''sync_ref'']"

definition DEFAULT_CARD_CLASSIFICATION :: string where "DEFAULT_CARD_CLASSIFICATION = ''Resident''"

abbreviation JBool :: "bool \<Rightarrow> json" where "JBool b \<equiv> JVal (PBool b)"

definition str_dict :: "(string \<times> string) list \<Rightarrow> json" where
  "str_dict d = JObj (List.map (\<lambda>(k, v). (k, JStr v)) d)"

record ag_config =
  gc_account_id :: string
  gc_api_secret :: string
  gc_template_id :: string
  gc_site_code :: string
  gc_dedupe :: bool
  gc_extra_metadata :: "(string \<times> string) list"
  gc_card_title :: string
  gc_card_classification :: string

definition ag_blob :: "ag_config \<Rightarrow> json" where
  "ag_blob c = JObj [(''account_id'', JStr (gc_account_id c)), (''api_secret'', JStr (gc_api_secret c)),
     (''template_id'', JStr (gc_template_id c)), (''site_code'', JStr (gc_site_code c)),
     (''dedupe_by_site_card'', JBool (gc_dedupe c)), (''extra_metadata'', str_dict (gc_extra_metadata c)),
     (''card_title'', JStr (gc_card_title c)), (''card_classification'', JStr (gc_card_classification c))]"

definition ag_save :: "vault \<Rightarrow> ag_config \<Rightarrow> settings \<Rightarrow> settings" where
  "ag_save v c = set_json v AG_KEY (ag_blob c)"

definition ag_load :: "vault \<Rightarrow> settings \<Rightarrow> json option res" where
  "ag_load v = get_json v AG_KEY"

definition update_credentials :: "vault \<Rightarrow> string \<Rightarrow> string \<Rightarrow> string \<Rightarrow> (settings, bool) comp" where
  "update_credentials v account secret template = change_blob v AG_KEY (\<lambda>j.
     bind_res (json_put ''account_id'' (JStr account) j) (\<lambda>j1.
     bind_res (json_put ''template_id'' (JStr template) j1) (\<lambda>j2.
       if secret = '''' then Inr j2 else json_put ''api_secret'' (JStr secret) j2)))"

definition update_site_code :: "vault \<Rightarrow> string \<Rightarrow> (settings, bool) comp" where
  "update_site_code v code = change_blob v AG_KEY (json_put ''site_code'' (JStr code))"

definition update_dedupe :: "vault \<Rightarrow> bool \<Rightarrow> (settings, bool) comp" where
  "update_dedupe v enabled = change_blob v AG_KEY (json_put ''dedupe_by_site_card'' (JBool enabled))"

definition update_card_fields :: "vault \<Rightarrow> string \<Rightarrow> string \<Rightarrow> (settings, bool) comp" where
  "update_card_fields v title classification = change_blob v AG_KEY (\<lambda>j.
     bind_res (json_put ''card_title'' (JStr title) j) (json_put ''card_classification'' (JStr classification)))"

definition update_extra_metadata :: "vault \<Rightarrow> (string \<times> string) list \<Rightarrow> (settings, bool) comp" where
  "update_extra_metadata v pairs = change_blob v AG_KEY (json_put ''extra_metadata'' (str_dict pairs))"

section \<open>The PACS\<close>

definition PACS_KEY :: string where "PACS_KEY = ''pacs''"

definition pacs_save :: "vault \<Rightarrow> string \<Rightarrow> (string \<times> json) list \<Rightarrow> (string \<times> json) list \<Rightarrow> settings \<Rightarrow> settings" where
  "pacs_save v vendor params options = set_json v PACS_KEY
     (JObj [(''vendor'', JStr vendor), (''params'', JObj params), (''options'', JObj options)])"

definition pacs_load :: "vault \<Rightarrow> settings \<Rightarrow> json option res" where
  "pacs_load v = get_json v PACS_KEY"

text \<open>\<open>dict(x)\<close> of what \<open>x or {}\<close> left: a dictionary copies, anything else is not handled here.\<close>

fun as_dict :: "json \<Rightarrow> (string \<times> json) list res" where
  "as_dict (JObj d) = Inr d"
| "as_dict _ = Inl (type_error ''dict'')"

definition update_params :: "vault \<Rightarrow> (string \<times> json) list \<Rightarrow> (settings, bool) comp" where
  "update_params v changes = change_blob v PACS_KEY (\<lambda>j.
     bind_res (jget ''params'' j) (\<lambda>p.
     bind_res (as_dict (jor p (JObj []))) (\<lambda>d.
       json_put ''params'' (JObj (fold (\<lambda>(k, x). AList.update k x) changes d)) j)))"

definition credential_encoding :: "vault \<Rightarrow> settings \<Rightarrow> string res" where
  "credential_encoding v rows =
     bind_res (get_json v PACS_KEY rows) (\<lambda>c.
     bind_res (jget ''options'' (case c of None \<Rightarrow> JObj [] | Some j \<Rightarrow> jor j (JObj []))) (\<lambda>opts.
     bind_res (oget ''credential_encoding'' opts) (\<lambda>enc.
       Inr (if enc = JStr ''file_data'' then ''file_data'' else ''site_card''))))"

section \<open>Mail, and the captured browser session\<close>

record mail_config =
  ml_host :: string
  ml_port :: int
  ml_username :: string
  ml_password :: string
  ml_from :: string
  ml_starttls :: bool
  ml_ssl :: bool

definition NOTIFY_KEY :: string where "NOTIFY_KEY = ''notifications''"

definition mail_save :: "vault \<Rightarrow> mail_config \<Rightarrow> settings \<Rightarrow> settings" where
  "mail_save v c = set_json v NOTIFY_KEY
     (JObj [(''smtp_host'', JStr (ml_host c)), (''smtp_port'', JInt (if ml_port c = 0 then 587 else ml_port c)),
        (''smtp_username'', JStr (ml_username c)), (''smtp_password'', JStr (ml_password c)),
        (''from_address'', JStr (ml_from c)), (''use_starttls'', JBool (ml_starttls c)), (''use_ssl'', JBool (ml_ssl c))])"

definition mail_load :: "vault \<Rightarrow> settings \<Rightarrow> json option res" where
  "mail_load v = get_json v NOTIFY_KEY"

definition session_key :: "string \<Rightarrow> string" where
  "session_key vendor = ''pacs_session:'' @ vendor"

definition session_save :: "vault \<Rightarrow> string \<Rightarrow> (string \<times> json) list \<Rightarrow> settings \<Rightarrow> settings" where
  "session_save v vendor session = set_json v (session_key vendor) (JObj session)"

definition session_load :: "vault \<Rightarrow> string \<Rightarrow> settings \<Rightarrow> json option res" where
  "session_load v vendor = get_json v (session_key vendor)"

definition session_clear :: "string \<Rightarrow> settings \<Rightarrow> settings" where
  "session_clear vendor = setting_delete (session_key vendor)"

definition session_connected :: "vault \<Rightarrow> string \<Rightarrow> settings \<Rightarrow> bool res" where
  "session_connected v vendor rows =
     bind_res (get_json v (session_key vendor) rows) (\<lambda>s.
     bind_res (jget ''auth_cookie'' (case s of None \<Rightarrow> JObj [] | Some j \<Rightarrow> jor j (JObj []))) (\<lambda>c. Inr (jtruthy c)))"

section \<open>Is the install configured\<close>

definition is_configured :: "vault \<Rightarrow> settings \<Rightarrow> bool res" where
  "is_configured v rows =
     bind_res (ag_load v rows) (\<lambda>a. case a of None \<Rightarrow> Inr False | Some _ \<Rightarrow>
     bind_res (pacs_load v rows) (\<lambda>p. case p of None \<Rightarrow> Inr False | Some pacs \<Rightarrow>
     bind_res (jget_or ''vendor'' (JStr '''') pacs) (\<lambda>vendor.
       if requires_connect (jstr vendor)
       then bind_res (jget ''params'' pacs) (\<lambda>ps. bind_res (oget ''trigger_card_format'' ps) (\<lambda>t. Inr (jtruthy t)))
       else Inr True)))"

section \<open>What an update changes\<close>

lemma change_blob_stored:
  assumes "sound_vault v" and "get_json v k rows = Inr (Some (JObj d))" and "d \<noteq> []" and "f (JObj d) = Inr j"
  shows "change_blob v k f rows = (Inr True, set_json v k j rows)"
  using assms by (simp add: change_blob_def)

text \<open>
  The abstract view: the configuration the blob stands for. An update of the blob is the record
  update of the configuration, and touches no other setting.
\<close>

definition holds_config :: "vault \<Rightarrow> settings \<Rightarrow> ag_config \<Rightarrow> bool" where
  "holds_config v rows c \<longleftrightarrow> ag_load v rows = Inr (Some (ag_blob c))"

definition config_step :: "vault \<Rightarrow> settings \<Rightarrow> ag_config \<Rightarrow> (exn + bool) \<times> settings \<Rightarrow> bool" where
  "config_step v rows c out \<longleftrightarrow>
     fst out = Inr True \<and> holds_config v (snd out) c \<and> (\<forall>k. k \<noteq> AG_KEY \<longrightarrow> setting_get (snd out) k = setting_get rows k)"

lemma change_config:
  assumes "sound_vault v" and "holds_config v rows c" and "f (ag_blob c) = Inr (ag_blob c')"
  shows "config_step v rows c' (change_blob v AG_KEY f rows)"
proof -
  have "change_blob v AG_KEY f rows = (Inr True, set_json v AG_KEY (ag_blob c') rows)"
    using change_blob_stored [OF assms(1), of AG_KEY rows _ f] assms(2,3) by (simp add: holds_config_def ag_load_def ag_blob_def)
  then show ?thesis using get_json_set_json [OF assms(1)]
    by (simp add: config_step_def holds_config_def ag_load_def set_json_def)
qed

lemma holds_save: "sound_vault v \<Longrightarrow> holds_config v (ag_save v c rows) c"
  by (simp add: holds_config_def ag_load_def ag_save_def get_json_set_json)

lemma update_site_code_config:
  "sound_vault v \<Longrightarrow> holds_config v rows c \<Longrightarrow> config_step v rows (c\<lparr>gc_site_code := code\<rparr>) (update_site_code v code rows)"
  unfolding update_site_code_def by (rule change_config [where c = c]) (simp_all add: ag_blob_def)

lemma update_dedupe_config:
  "sound_vault v \<Longrightarrow> holds_config v rows c \<Longrightarrow> config_step v rows (c\<lparr>gc_dedupe := b\<rparr>) (update_dedupe v b rows)"
  unfolding update_dedupe_def by (rule change_config [where c = c]) (simp_all add: ag_blob_def)

lemma update_card_fields_config:
  "sound_vault v \<Longrightarrow> holds_config v rows c \<Longrightarrow>
    config_step v rows (c\<lparr>gc_card_title := t, gc_card_classification := cl\<rparr>) (update_card_fields v t cl rows)"
  unfolding update_card_fields_def by (rule change_config [where c = c]) (simp_all add: ag_blob_def)

lemma update_extra_metadata_config:
  "sound_vault v \<Longrightarrow> holds_config v rows c \<Longrightarrow>
    config_step v rows (c\<lparr>gc_extra_metadata := ps\<rparr>) (update_extra_metadata v ps rows)"
  unfolding update_extra_metadata_def by (rule change_config [where c = c]) (simp_all add: ag_blob_def)

text \<open>An empty secret keeps the stored one.\<close>

lemma update_credentials_config:
  "sound_vault v \<Longrightarrow> holds_config v rows c \<Longrightarrow>
    config_step v rows (c\<lparr>gc_account_id := a, gc_template_id := t,
      gc_api_secret := (if secret = '''' then gc_api_secret c else secret)\<rparr>) (update_credentials v a secret t rows)"
  unfolding update_credentials_def by (rule change_config [where c = c]) (simp_all add: ag_blob_def)

text \<open>Merging parameters keeps those the form does not know about.\<close>

lemma update_params_merges:
  assumes "sound_vault v" and "pacs_load v rows = Inr (Some (JObj d))" and "map_of d ''params'' = Some (JObj ps)"
  shows "\<exists>rows' d' ps'. update_params v changes rows = (Inr True, rows') \<and> pacs_load v rows' = Inr (Some (JObj d')) \<and>
    map_of d' ''params'' = Some (JObj ps') \<and> (\<forall>k. k \<noteq> ''params'' \<longrightarrow> map_of d' k = map_of d k) \<and>
    (\<forall>k. k \<notin> fst ` set changes \<longrightarrow> map_of ps' k = map_of ps k)"
proof -
  let ?ps = "fold (\<lambda>(k, x). AList.update k x) changes ps"
  let ?d = "AList.update ''params'' (JObj ?ps) d"
  have kept: "map_of (fold (\<lambda>(k, x). AList.update k x) cs q) k = map_of q k" if "k \<notin> fst ` set cs"
    for cs :: "(string \<times> json) list" and q k
    using that by (induction cs arbitrary: q) auto
  have d: "d \<noteq> []" using assms(3) by auto
  have step: "bind_res (jget ''params'' (JObj d)) (\<lambda>p. bind_res (as_dict (jor p (JObj []))) (\<lambda>q.
      json_put ''params'' (JObj (fold (\<lambda>(k, x). AList.update k x) changes q)) (JObj d))) = Inr (JObj ?d)"
    using assms(3) by (cases ps) (simp_all add: jlookup_def jor_def)
  have "update_params v changes rows = (Inr True, set_json v PACS_KEY (JObj ?d) rows)"
    unfolding update_params_def by (rule change_blob_stored [OF assms(1) _ d])
      (use assms(2) step in \<open>simp_all add: pacs_load_def\<close>)
  then show ?thesis using get_json_set_json [OF assms(1)] kept by (auto simp: pacs_load_def)
qed

end
