(* ===== verification/Hub_Services.thy ===== *)
theory Hub_Services
  imports Settings_Store
begin

text \<open>
  Three small services around the sync: the rolling log of \<open>logs/store.py\<close>, the cached dry-run switch
  of \<open>dryrun.py\<close>, and the throttled operator mail of \<open>notifications.py\<close>. Clocks are microseconds;
  delivering a message is a parameter.
\<close>

section \<open>The log\<close>

definition MAX_ROWS :: nat where "MAX_ROWS = 100000"
definition EVICT_BATCH :: nat where "EVICT_BATCH = 1000"

record log_row =
  lr_id :: nat
  lr_ts :: string
  lr_level :: string
  lr_phase :: "string option"
  lr_message :: string

text \<open>The rows in the order of their ids, the next id, and the cached count (None before it is read).\<close>

record log_store =
  lg_rows :: "log_row list"
  lg_next :: nat
  lg_count :: "int option"

definition upper_char :: "char \<Rightarrow> char" where
  "upper_char c = (let n = (of_char c :: nat) in
     if (97 \<le> n \<and> n \<le> 122) \<or> (224 \<le> n \<and> n \<le> 254 \<and> n \<noteq> 247) then char_of (n - 32) else c)"

definition py_upper :: "string \<Rightarrow> string" where
  "py_upper s = List.map upper_char s"

definition evict :: "log_store \<Rightarrow> int \<Rightarrow> log_store" where
  "evict st n = (if int MAX_ROWS < n
     then st\<lparr>lg_rows := drop EVICT_BATCH (lg_rows st), lg_count := Some (n - int EVICT_BATCH)\<rparr>
     else st\<lparr>lg_count := Some n\<rparr>)"

definition log_entry :: "string \<Rightarrow> string \<Rightarrow> string \<Rightarrow> string option \<Rightarrow> log_store \<Rightarrow> log_store" where
  "log_entry ts level msg phase st =
     (let row = \<lparr>lr_id = lg_next st, lr_ts = ts, lr_level = py_upper level, lr_phase = phase, lr_message = msg\<rparr>;
          st1 = st\<lparr>lg_rows := lg_rows st @ [row], lg_next := Suc (lg_next st)\<rparr>
      in evict st1 (case lg_count st of None \<Rightarrow> int (length (lg_rows st1)) | Some n \<Rightarrow> n + 1))"

text \<open>SQL's \<open>LIKE\<close>: \<open>%\<close> any text, \<open>_\<close> any character, ASCII letters in either case.\<close>

definition ascii_fold :: "char \<Rightarrow> char" where
  "ascii_fold c = (let n = (of_char c :: nat) in if 65 \<le> n \<and> n \<le> 90 then char_of (n + 32) else c)"

fun sql_like :: "string \<Rightarrow> string \<Rightarrow> bool" where
  "sql_like [] t = (t = [])"
| "sql_like (p # ps) [] = (p = CHR ''%'' \<and> sql_like ps [])"
| "sql_like (p # ps) (c # t) =
     (if p = CHR ''%'' then sql_like ps (c # t) \<or> sql_like (p # ps) t
      else (p = CHR ''_'' \<or> ascii_fold p = ascii_fold c) \<and> sql_like ps t)"

text \<open>An absent or empty filter selects everything; the newest rows come first.\<close>

definition log_matches :: "string \<Rightarrow> string \<Rightarrow> string \<Rightarrow> log_row \<Rightarrow> bool" where
  "log_matches level phase search r \<longleftrightarrow>
     (level \<noteq> '''' \<and> py_upper level \<noteq> ''ALL'' \<longrightarrow> lr_level r = py_upper level) \<and>
     (phase \<noteq> '''' \<longrightarrow> lr_phase r = Some phase) \<and>
     (search \<noteq> '''' \<longrightarrow> sql_like (''%'' @ search @ ''%'') (lr_message r))"

definition query_logs :: "string \<Rightarrow> string \<Rightarrow> string \<Rightarrow> nat \<Rightarrow> log_store \<Rightarrow> log_row list" where
  "query_logs level phase search limit st = take limit (rev (List.filter (log_matches level phase search) (lg_rows st)))"

text \<open>The pages' level filter: anything they do not know is \<open>ALL\<close>.\<close>

definition page_logs :: "string \<Rightarrow> string \<Rightarrow> string \<Rightarrow> log_store \<Rightarrow> log_row list" where
  "page_logs level phase q = query_logs
     (if py_upper level \<in> {''ALL'', ''DEBUG'', ''INFO'', ''WARNING'', ''ERROR''} then py_upper level else ''ALL'') phase q 500"

definition log_all :: "(string \<times> string \<times> string \<times> string option) list \<Rightarrow> log_store \<Rightarrow> log_store" where
  "log_all es st = fold (\<lambda>(ts, level, msg, phase). log_entry ts level msg phase) es st"

text \<open>What the rows would be if nothing were ever evicted.\<close>

definition rows_from :: "nat \<Rightarrow> (string \<times> string \<times> string \<times> string option) list \<Rightarrow> log_row list" where
  "rows_from n es = List.map (\<lambda>(i, ts, level, msg, phase).
     \<lparr>lr_id = i, lr_ts = ts, lr_level = py_upper level, lr_phase = phase, lr_message = msg\<rparr>) (zip [n..<n + length es] es)"

definition log_ok :: "log_store \<Rightarrow> bool" where
  "log_ok st \<longleftrightarrow> length (lg_rows st) \<le> MAX_ROWS \<and> (lg_count st = None \<or> lg_count st = Some (int (length (lg_rows st))))"

lemma log_entry_rows:
  assumes "log_ok st"
  shows "lg_rows (log_entry ts level msg phase st) =
      (let rows = lg_rows st @ [\<lparr>lr_id = lg_next st, lr_ts = ts, lr_level = py_upper level, lr_phase = phase, lr_message = msg\<rparr>]
       in if MAX_ROWS < length rows then drop EVICT_BATCH rows else rows)"
    and "lg_next (log_entry ts level msg phase st) = Suc (lg_next st)"
    and "log_ok (log_entry ts level msg phase st)"
  using assms by (auto simp: log_entry_def evict_def log_ok_def Let_def MAX_ROWS_def EVICT_BATCH_def)

text \<open>The rolling log is always the end of what was logged, and only ever cut when it is full.\<close>

lemma rows_from_snoc:
  "rows_from n (es @ [(ts, level, msg, phase)]) = rows_from n es @
     [\<lparr>lr_id = n + length es, lr_ts = ts, lr_level = py_upper level, lr_phase = phase, lr_message = msg\<rparr>]"
  by (simp add: rows_from_def)

lemma length_rows_from [simp]: "length (rows_from n es) = length es"
  by (simp add: rows_from_def)

lemma log_all_rows:
  assumes "lg_rows st = []" and "lg_count st = None \<or> lg_count st = Some 0"
  shows "log_ok (log_all es st) \<and> lg_next (log_all es st) = lg_next st + length es \<and>
    (\<exists>d. lg_rows (log_all es st) = drop d (rows_from (lg_next st) es) \<and> d \<le> length es \<and>
       (d = 0 \<or> MAX_ROWS < length es - d + EVICT_BATCH))"
proof (induction es rule: rev_induct)
  case Nil
  then show ?case using assms by (auto simp: log_all_def log_ok_def rows_from_def)
next
  case (snoc e es)
  obtain ts level msg phase where e: "e = (ts, level, msg, phase)" by (cases e)
  let ?st = "log_all es st"
  from snoc obtain d where ok: "log_ok ?st" and nxt: "lg_next ?st = lg_next st + length es"
    and rows: "lg_rows ?st = drop d (rows_from (lg_next st) es)" and d: "d \<le> length es"
      "d = 0 \<or> MAX_ROWS < length es - d + EVICT_BATCH"
    by blast
  have step: "log_all (es @ [e]) st = log_entry ts level msg phase ?st" by (simp add: log_all_def e)
  have all: "lg_rows ?st @ [\<lparr>lr_id = lg_next ?st, lr_ts = ts, lr_level = py_upper level, lr_phase = phase, lr_message = msg\<rparr>]
      = drop d (rows_from (lg_next st) (es @ [e]))"
    using d(1) by (simp add: rows nxt e rows_from_snoc)
  show ?case
  proof (cases "MAX_ROWS < length es + 1 - d")
    case True
    then have "lg_rows (log_all (es @ [e]) st) = drop (d + EVICT_BATCH) (rows_from (lg_next st) (es @ [e]))"
      using log_entry_rows(1) [OF ok, of ts level msg phase] d(1)
      by (simp add: step all Let_def del: drop_append) (simp add: add.commute)
    moreover have "d + EVICT_BATCH \<le> length (es @ [e])"
      "MAX_ROWS < length (es @ [e]) - (d + EVICT_BATCH) + EVICT_BATCH"
      using True d(1) by (simp_all add: MAX_ROWS_def EVICT_BATCH_def)
    ultimately show ?thesis using log_entry_rows(2,3) [OF ok, of ts level msg phase] step nxt by auto
  next
    case False
    then have "lg_rows (log_all (es @ [e]) st) = drop d (rows_from (lg_next st) (es @ [e]))"
      using log_entry_rows(1) [OF ok, of ts level msg phase] d(1) by (simp add: step all Let_def)
    then show ?thesis using log_entry_rows(2,3) [OF ok, of ts level msg phase] step nxt d
      by (auto intro!: exI [of _ d])
  qed
qed

section \<open>The dry-run switch\<close>

definition DRY_RUN_KEY :: string where "DRY_RUN_KEY = ''sync_dry_run''"

definition CACHE_TTL :: int where "CACHE_TTL = 5 * 1000000"

definition set_dry_run :: "bool \<Rightarrow> settings \<Rightarrow> settings" where
  "set_dry_run dry = setting_set DRY_RUN_KEY (if dry then ''true'' else ''false'')"

definition stored_dry_run :: "settings \<Rightarrow> bool" where
  "stored_dry_run rows = (case setting_get rows DRY_RUN_KEY of None \<Rightarrow> True | Some raw \<Rightarrow> py_lower (py_strip raw) \<noteq> ''false'')"

type_synonym dry_cache = "(int \<times> bool) option"

text \<open>
  \<open>active\<close> at \<open>now\<close>, with the settings as they can be read (\<open>Inl\<close> when reading them raises): the
  answer and the cache afterwards. A failed read answers True and is not remembered.
\<close>

definition dry_active :: "int \<Rightarrow> settings res \<Rightarrow> dry_cache \<Rightarrow> bool \<times> dry_cache" where
  "dry_active now rows cache =
     (let fetch = (case rows of Inl _ \<Rightarrow> (True, cache) | Inr r \<Rightarrow> (stored_dry_run r, Some (now, stored_dry_run r)))
      in case cache of
           Some (t, v) \<Rightarrow> if now - t < CACHE_TTL then (v, cache) else fetch
         | None \<Rightarrow> fetch)"

text \<open>\<open>set_active\<close>: stored, and the cache dropped.\<close>

definition dry_set_active :: "bool \<Rightarrow> settings \<times> dry_cache \<Rightarrow> settings \<times> dry_cache" where
  "dry_set_active v st = (set_dry_run v (fst st), None)"

text \<open>
  The switch in use: \<open>switched h now rows cache\<close> for the settings as they stood over time, \<open>h\<close>
  holding every value the stored switch had and the time from which it had it, the newest first.
  A write behind the application's back does not drop the cache.
\<close>

inductive switched :: "(int \<times> bool) list \<Rightarrow> int \<Rightarrow> settings \<Rightarrow> dry_cache \<Rightarrow> bool" where
  fresh: "switched [(now, stored_dry_run rows)] now rows None"
| wait: "switched h now rows cache \<Longrightarrow> now \<le> now' \<Longrightarrow> switched h now' rows cache"
| asked: "switched h now rows cache \<Longrightarrow> r \<in> {Inr rows, Inl e} \<Longrightarrow> dry_active now r cache = (v, cache') \<Longrightarrow>
    switched h now rows cache'"
| chosen: "switched h now rows cache \<Longrightarrow> dry_set_active v (rows, cache) = (rows', cache') \<Longrightarrow>
    switched ((now, stored_dry_run rows') # h) now rows' cache'"
| behind: "switched h now rows cache \<Longrightarrow> switched ((now, stored_dry_run rows') # h) now rows' cache"

text \<open>Some moment at which the switch had this value, less than the cache's life ago.\<close>

definition held_lately :: "(int \<times> bool) list \<Rightarrow> int \<Rightarrow> int \<Rightarrow> bool \<Rightarrow> bool" where
  "held_lately h now t v \<longleftrightarrow> t \<le> now \<and> (\<exists>older newer since. h = newer @ (since, v) # older \<and> since \<le> t \<and> (\<forall>(u, _)\<in>set newer. t \<le> u))"

lemma stored_set_dry_run [simp]: "stored_dry_run (set_dry_run v rows) = v"
proof -
  have "py_lower (py_strip ''true'') \<noteq> ''false''" "py_lower (py_strip ''false'') = ''false''" by code_simp+
  then show ?thesis by (simp add: stored_dry_run_def set_dry_run_def)
qed

lemma held_push: "held_lately h now t v \<Longrightarrow> held_lately ((now, x) # h) now t v"
proof -
  assume "held_lately h now t v"
  then obtain older newer since where "t \<le> now" "h = newer @ (since, v) # older" "since \<le> t" "\<forall>(u, _)\<in>set newer. t \<le> u"
    by (auto simp: held_lately_def)
  then have "(now, x) # h = ((now, x) # newer) @ (since, v) # older \<and> since \<le> t \<and> (\<forall>(u, _)\<in>set ((now, x) # newer). t \<le> u)"
    by simp
  then show ?thesis using \<open>t \<le> now\<close> unfolding held_lately_def by blast
qed

lemma held_now: "since \<le> now \<Longrightarrow> held_lately ((since, v) # older) now now v"
  unfolding held_lately_def by (rule conjI [OF order_refl], rule exI [of _ older], rule exI [of _ "[]"]) simp

lemma held_wait: "held_lately h now t v \<Longrightarrow> now \<le> now' \<Longrightarrow> held_lately h now' t v"
  by (auto simp: held_lately_def)

lemma switched_cache:
  assumes "switched h now rows cache"
  shows "held_lately h now now (stored_dry_run rows) \<and> (case cache of None \<Rightarrow> True | Some (t, v) \<Rightarrow> held_lately h now t v) \<and>
    (\<exists>since older. h = (since, stored_dry_run rows) # older \<and> since \<le> now)"
  using assms
proof induction
  case (fresh now rows)
  then show ?case by (simp add: held_now)
next
  case (wait h now rows cache now')
  then obtain since older where "h = (since, stored_dry_run rows) # older" "since \<le> now'" by auto
  then have "held_lately h now' now' (stored_dry_run rows)" by (simp add: held_now)
  then show ?case using wait held_wait by (auto split: option.splits)
next
  case (asked h now rows cache r e v cache')
  then show ?case by (auto simp: dry_active_def Let_def split: option.splits sum.splits if_splits)
next
  case (chosen h now rows cache v rows' cache')
  then show ?case by (auto simp: dry_set_active_def held_now)
next
  case (behind h now rows cache rows')
  then have "case cache of None \<Rightarrow> True | Some (t, v) \<Rightarrow> held_lately ((now, stored_dry_run rows') # h) now t v"
    using held_push by (auto split: option.splits)
  then show ?case by (simp add: held_now)
qed

text \<open>So an answer is at most five seconds old, and acting is never the answer of a failed read.\<close>

lemma dry_active_recent:
  assumes "switched h now rows cache" and "r \<in> {Inr rows, Inl e}" and "dry_active now r cache = (v, cache')"
  shows "(\<exists>t. now - CACHE_TTL < t \<and> held_lately h now t v) \<or> (v \<and> r = Inl e)"
proof -
  have now: "held_lately h now now (stored_dry_run rows)"
    and old: "case cache of None \<Rightarrow> True | Some (t, v) \<Rightarrow> held_lately h now t v"
    using switched_cache [OF assms(1)] by auto
  have "(case cache of Some (t, u) \<Rightarrow> now - t < CACHE_TTL \<and> v = u | None \<Rightarrow> False) \<or>
      (r = Inr rows \<and> v = stored_dry_run rows) \<or> (v \<and> r = Inl e)"
    using assms(2,3) by (auto simp: dry_active_def Let_def split: option.splits sum.splits if_splits)
  moreover have "now - CACHE_TTL < now" by (simp add: CACHE_TTL_def)
  ultimately show ?thesis using now old by (fastforce split: option.splits)
qed

section \<open>Mail to the operator\<close>

definition RESEND_INTERVAL :: int where "RESEND_INTERVAL = 6 * 60 * 60 * 1000000"

type_synonym sent_log = "(string \<times> int) list"

definition should_send :: "int \<Rightarrow> string \<Rightarrow> sent_log \<Rightarrow> bool \<times> sent_log" where
  "should_send now k memo =
     (case map_of memo k of
        Some t \<Rightarrow> if now - t < RESEND_INTERVAL then (False, memo) else (True, AList.update k now memo)
      | None \<Rightarrow> (True, AList.update k now memo))"

definition reset_throttle :: "string \<Rightarrow> sent_log \<Rightarrow> sent_log" where
  "reset_throttle k memo = (if k = '''' then [] else AList.delete k memo)"

text \<open>The recipient: \<open>((PacsConfig.load() or {}).get("params") or {}).get("notify_email", "")\<close>.\<close>

definition recipient :: "vault \<Rightarrow> settings \<Rightarrow> string res" where
  "recipient v rows =
     bind_res (pacs_load v rows) (\<lambda>c.
     bind_res (jget ''params'' (case c of None \<Rightarrow> JObj [] | Some j \<Rightarrow> jor j (JObj []))) (\<lambda>p.
     bind_res (jget_or ''notify_email'' (JStr '''') (jor p (JObj []))) (\<lambda>e. Inr (text_or_empty e))))"

record mail =
  em_from :: string
  em_to :: string
  em_subject :: string
  em_text :: string

record relay =
  ry_host :: string
  ry_port :: int
  ry_ssl :: bool
  ry_starttls :: bool
  ry_username :: string
  ry_password :: string

text \<open>The relay of the stored settings; None without a host. A port that is no number raises.\<close>

definition relay_of :: "json \<Rightarrow> relay option res" where
  "relay_of c =
     bind_res (jget ''smtp_host'' c) (\<lambda>h. let host = py_strip (text_or_empty h) in
     if host = '''' then Inr None else
     bind_res (jget ''smtp_port'' c) (\<lambda>p. bind_res (jint (jor p (JInt 587))) (\<lambda>port.
     bind_res (jget ''smtp_username'' c) (\<lambda>u. bind_res (jget ''smtp_password'' c) (\<lambda>pw.
     bind_res (jget ''use_ssl'' c) (\<lambda>ssl. bind_res (jget_or ''use_starttls'' (JVal (PBool True)) c) (\<lambda>tls.
       Inr (Some \<lparr>ry_host = host, ry_port = port, ry_ssl = jtruthy ssl, ry_starttls = \<not> jtruthy ssl \<and> jtruthy tls,
         ry_username = text_or_empty u, ry_password = text_or_empty pw\<rparr>))))))))"

text \<open>\<open>send_mail\<close>: True when the relay took it. \<open>deliver\<close> is the SMTP exchange; what it raises is False.\<close>

definition send_mail :: "vault \<Rightarrow> (relay \<Rightarrow> mail \<Rightarrow> bool) \<Rightarrow> string \<Rightarrow> string \<Rightarrow> string \<Rightarrow> settings \<Rightarrow> bool res" where
  "send_mail v deliver to subject body rows =
     bind_res (mail_load v rows) (\<lambda>c. let cfg = (case c of None \<Rightarrow> JObj [] | Some j \<Rightarrow> jor j (JObj [])) in
     bind_res (relay_of cfg) (\<lambda>ry. case ry of
         None \<Rightarrow> Inr False
       | Some r \<Rightarrow> bind_res (jget ''from_address'' cfg) (\<lambda>f.
           Inr (deliver r \<lparr>em_from = (if jtruthy f then jstr f else ''agsync@'' @ ry_host r), em_to = to,
             em_subject = subject, em_text = body\<rparr>))))"

definition notify_reconnect_required ::
    "vault \<Rightarrow> (relay \<Rightarrow> mail \<Rightarrow> bool) \<Rightarrow> int \<Rightarrow> string \<Rightarrow> string \<Rightarrow> settings \<Rightarrow> (sent_log, bool) comp" where
  "notify_reconnect_required v deliver now vendor_name body rows memo =
     (case recipient v rows of
        Inl e \<Rightarrow> (Inl e, memo)
      | Inr to \<Rightarrow>
          (case should_send now ''reconnect'' memo of
             (False, memo') \<Rightarrow> (Inr False, memo')
           | (True, memo') \<Rightarrow>
               (if to = '''' then Inr False
                else send_mail v deliver to (''AccessGrid Sync: sign in to '' @ vendor_name @ '' again'') body rows, memo')))"

definition notify_card_problem ::
    "vault \<Rightarrow> (relay \<Rightarrow> mail \<Rightarrow> bool) \<Rightarrow> int \<Rightarrow> string \<Rightarrow> string \<Rightarrow> settings \<Rightarrow> (sent_log, bool) comp" where
  "notify_card_problem v deliver now k problem rows memo =
     (case recipient v rows of
        Inl e \<Rightarrow> (Inl e, memo)
      | Inr to \<Rightarrow>
          if to = '''' then (Inr False, memo) else
          (case should_send now (''card:'' @ k) memo of
             (False, memo') \<Rightarrow> (Inr False, memo')
           | (True, memo') \<Rightarrow>
               (send_mail v deliver to ''AccessGrid Sync: a card needs attention''
                  (problem @ [CHR 0x0A, CHR 0x0A] @ ''The pass is left as it is until this is resolved in the PACS.'' @ [CHR 0x0A])
                  rows, memo')))"

text \<open>Within the interval the answer is no, for that key only.\<close>

lemma should_send_window:
  assumes "should_send t k memo = (True, memo')" and "t \<le> now" and "now - t < RESEND_INTERVAL"
  shows "should_send now k memo' = (False, memo')"
  using assms by (auto simp: should_send_def split: option.splits if_splits)

lemma should_send_other:
  "k' \<noteq> k \<Longrightarrow> fst (should_send now k (snd (should_send t k' memo))) = fst (should_send now k memo)"
  by (auto simp: should_send_def split: option.split)

text \<open>A mail the relay did not take uses up the window all the same.\<close>

lemma failed_mail_counts_as_sent:
  assumes "recipient v rows = Inr to" and "should_send t ''reconnect'' memo = (True, memo')"
    and "t \<le> now" and "now - t < RESEND_INTERVAL"
  shows "snd (notify_reconnect_required v deliver t name body rows memo) = memo' \<and>
    notify_reconnect_required v deliver' now name body rows memo' = (Inr False, memo')"
  using assms should_send_window [OF assms(2-4)] by (simp add: notify_reconnect_required_def)

end
