(* ===== verification/Url_Text.thy ===== *)
theory Url_Text
  imports Json_Data
begin

text \<open>
  \<open>urllib.parse.urlparse\<close> as the source uses it, for texts of Latin-1 characters, and the reading of
  an address typed by the operator (\<open>_normalise_url\<close> of \<open>routes/settings.py\<close>). What the library
  accepts between brackets changes with its patch releases and is a parameter; the other rules are
  written out.
\<close>

section \<open>urlparse\<close>

definition is_letter :: "char \<Rightarrow> bool" where
  "is_letter c \<longleftrightarrow> (let n = (of_char c :: nat) in (97 \<le> n \<and> n \<le> 122) \<or> (65 \<le> n \<and> n \<le> 90))"

definition scheme_char :: "char \<Rightarrow> bool" where
  "scheme_char c \<longleftrightarrow> is_letter c \<or> is_digit c \<or> c \<in> set ''+-.''"

text \<open>Leading control characters and spaces go, and every tab and line end.\<close>

definition line_char :: "char \<Rightarrow> bool" where
  "line_char c \<longleftrightarrow> (of_char c :: nat) \<in> {9, 10, 13}"

definition url_clean :: "string \<Rightarrow> string" where
  "url_clean url = List.filter (\<lambda>c. \<not> line_char c) (dropWhile (\<lambda>c. (of_char c :: nat) \<le> 32) url)"

definition url_scheme :: "string \<Rightarrow> string \<times> string" where
  "url_scheme url =
     (let (before, after) = py_partition (CHR '':'') url in
      if CHR '':'' \<in> set url \<and> before \<noteq> '''' \<and> is_letter (hd before) \<and> list_all scheme_char before
      then (py_lower before, after) else ('''', url))"

definition ends_netloc :: "char \<Rightarrow> bool" where
  "ends_netloc c \<longleftrightarrow> c \<in> set ''/?#''"

definition url_netloc :: "string \<Rightarrow> string \<times> string" where
  "url_netloc rest =
     (if py_startswith rest ''//'' then (takeWhile (\<lambda>c. \<not> ends_netloc c) (drop 2 rest), dropWhile (\<lambda>c. \<not> ends_netloc c) (drop 2 rest))
      else ('''', rest))"

definition USES_PARAMS :: "string list" where
  "USES_PARAMS = ['''', ''ftp'', ''hdl'', ''prospero'', ''http'', ''https'', ''shttp'', ''rtsp'', ''rtsps'', ''rtspu'', ''sip'',
     ''sips'', ''mms'', ''sftp'', ''tel'']"

text \<open>Parameters are split off the last segment of the path only.\<close>

definition drop_params :: "string \<Rightarrow> string \<Rightarrow> string" where
  "drop_params scheme path =
     (if scheme \<in> set USES_PARAMS then
        (let last_segment = rev (takeWhile (\<lambda>c. c \<noteq> CHR ''/'') (rev path));
             before = rev (dropWhile (\<lambda>c. c \<noteq> CHR ''/'') (rev path)) in
         before @ takeWhile (\<lambda>c. c \<noteq> CHR '';'') last_segment)
      else path)"

record url =
  ur_scheme :: string
  ur_netloc :: string
  ur_path :: string

definition invalid_url :: exn where
  "invalid_url = PyError ''ValueError'' ''Invalid IPv6 URL''"

definition url_parse :: "(string \<Rightarrow> bool) \<Rightarrow> string \<Rightarrow> url res" where
  "url_parse accepted text =
     (let (scheme, rest) = url_scheme (url_clean text); (loc, tail) = url_netloc rest;
          path = takeWhile (\<lambda>c. c \<noteq> CHR ''?'') (takeWhile (\<lambda>c. c \<noteq> CHR ''#'') tail) in
      if (CHR ''['' \<in> set loc) \<noteq> (CHR '']'' \<in> set loc) \<or> CHR ''['' \<in> set loc \<and> \<not> accepted loc
      then Inl invalid_url
      else Inr \<lparr>ur_scheme = scheme, ur_netloc = loc, ur_path = drop_params scheme path\<rparr>)"

section \<open>The host and the port\<close>

definition host_info :: "string \<Rightarrow> string \<times> string" where
  "host_info loc =
     (let info = rev (takeWhile (\<lambda>c. c \<noteq> CHR ''@'') (rev loc)) in
      if CHR ''['' \<in> set info
      then (let (host, rest) = py_partition (CHR '']'') (snd (py_partition (CHR ''['') info)) in
            (host, snd (py_partition (CHR '':'') rest)))
      else py_partition (CHR '':'') info)"

text \<open>\<open>parsed.port\<close>: whether reading it raises.\<close>

definition port_readable :: "string \<Rightarrow> bool" where
  "port_readable loc \<longleftrightarrow> (let port = snd (host_info loc) in
     port = '''' \<or> list_all is_digit port \<and> nat_of_digits port \<le> 65535)"

definition url_hostname :: "string \<Rightarrow> string" where
  "url_hostname loc = (let (host, zone) = py_partition (CHR ''%'') (fst (host_info loc)) in
     py_lower host @ (if CHR ''%'' \<in> set (fst (host_info loc)) then CHR ''%'' # zone else ''''))"

section \<open>An address the operator typed\<close>

definition hostish_char :: "char \<Rightarrow> bool" where
  "hostish_char c \<longleftrightarrow> is_letter c \<or> is_digit c \<or> c \<in> set ''._:-''"

definition rstrip_slashes :: "string \<Rightarrow> string" where
  "rstrip_slashes s = rev (dropWhile (\<lambda>c. c = CHR ''/'') (rev s))"

definition url_origin :: "url \<Rightarrow> string" where
  "url_origin u = ur_scheme u @ ''://'' @ ur_netloc u @ rstrip_slashes (ur_path u)"

definition acceptable :: "url \<Rightarrow> bool" where
  "acceptable u \<longleftrightarrow> ur_scheme u \<in> {''http'', ''https''} \<and> ur_netloc u \<noteq> '''' \<and> port_readable (ur_netloc u)
     \<and> url_hostname (ur_netloc u) \<noteq> '''' \<and> list_all hostish_char (url_hostname (ur_netloc u))"

definition with_scheme :: "string \<Rightarrow> string" where
  "with_scheme raw = (if py_contains raw ''://'' then raw else ''https://'' @ raw)"

definition normalise_url :: "(string \<Rightarrow> bool) \<Rightarrow> string \<Rightarrow> string option res" where
  "normalise_url accepted raw =
     (if raw = '''' \<or> CHR '' '' \<in> set raw then Inr None
      else bind_res (url_parse accepted (with_scheme raw)) (\<lambda>u. Inr (if acceptable u then Some (url_origin u) else None)))"

section \<open>An accepted address is read back as it is\<close>

definition plain_char :: "char \<Rightarrow> bool" where
  "plain_char c \<longleftrightarrow> \<not> line_char c \<and> c \<noteq> CHR '' ''"

definition url_shape :: "url \<Rightarrow> bool" where
  "url_shape u \<longleftrightarrow> (\<forall>c\<in>set (ur_netloc u). plain_char c \<and> \<not> ends_netloc c)
     \<and> (\<forall>c\<in>set (ur_path u). plain_char c \<and> c \<noteq> CHR ''?'' \<and> c \<noteq> CHR ''#'')
     \<and> (ur_netloc u \<noteq> [] \<longrightarrow> ur_path u = [] \<or> hd (ur_path u) = CHR ''/'')"

lemma drop_params_subset: "set (drop_params scheme path) \<subseteq> set path"
  unfolding drop_params_def Let_def
  by (auto dest!: set_takeWhileD set_dropWhileD)

lemma drop_params_hd:
  assumes "path = [] \<or> hd path = CHR ''/''"
  shows "drop_params scheme path = [] \<or> hd (drop_params scheme path) = CHR ''/''"
proof (cases path)
  case (Cons c r)
  define before where "before = rev (dropWhile (\<lambda>c. c \<noteq> CHR ''/'') (rev path))"
  have c: "c = CHR ''/''" using Cons assms by simp
  have ex: "\<exists>x\<in>set (rev path). \<not> x \<noteq> CHR ''/''" using Cons c by auto
  then have "before \<noteq> []" by (simp add: before_def dropWhile_eq_Nil_conv)
  moreover have "path = before @ rev (takeWhile (\<lambda>c. c \<noteq> CHR ''/'') (rev path))"
    unfolding before_def by (metis rev_append rev_rev_ident takeWhile_dropWhile_id)
  ultimately have "hd before = CHR ''/''" using Cons c by (metis hd_append2 list.sel(1))
  with \<open>before \<noteq> []\<close> show ?thesis using Cons c by (simp add: drop_params_def Let_def before_def)
qed (simp add: drop_params_def)

lemma drop_params_id: "CHR '';'' \<notin> set path \<Longrightarrow> drop_params scheme path = path"
proof -
  assume n: "CHR '';'' \<notin> set path"
  have "takeWhile (\<lambda>c. c \<noteq> CHR '';'') (rev (takeWhile (\<lambda>c. c \<noteq> CHR ''/'') (rev path))) = rev (takeWhile (\<lambda>c. c \<noteq> CHR ''/'') (rev path))"
    using n by (auto simp: takeWhile_eq_all_conv dest: set_takeWhileD)
  then show ?thesis unfolding drop_params_def Let_def
    by (metis rev_append rev_rev_ident takeWhile_dropWhile_id)
qed

lemma url_scheme_rest: "set (snd (url_scheme url)) \<subseteq> set url"
proof -
  have "set (tl (dropWhile (\<lambda>d. d \<noteq> CHR '':'') url)) \<subseteq> set url"
    by (metis set_dropWhileD list.set_sel(2) tl_Nil subsetI)
  then show ?thesis by (auto simp: url_scheme_def py_partition_def)
qed

lemma url_clean_chars: "set (url_clean text) \<subseteq> {c \<in> set text. \<not> line_char c}"
  by (auto simp: url_clean_def dest: set_dropWhileD)

lemma hd_dropWhile_ends: "dropWhile (\<lambda>c. \<not> ends_netloc c) s = [] \<or> ends_netloc (hd (dropWhile (\<lambda>c. \<not> ends_netloc c) s))"
  using hd_dropWhile [of "\<lambda>c. \<not> ends_netloc c" s] by auto

lemma path_hd:
  assumes "t = [] \<or> ends_netloc (hd t)"
  shows "takeWhile (\<lambda>c. c \<noteq> CHR ''?'') (takeWhile (\<lambda>c. c \<noteq> CHR ''#'') t) = [] \<or>
    hd (takeWhile (\<lambda>c. c \<noteq> CHR ''?'') (takeWhile (\<lambda>c. c \<noteq> CHR ''#'') t)) = CHR ''/''"
  using assms by (cases t) (auto simp: ends_netloc_def)

lemma url_parse_shape:
  assumes "url_parse accepted t = Inr u" and "CHR '' '' \<notin> set t"
  shows "url_shape u"
proof -
  obtain scheme rest where a: "url_scheme (url_clean t) = (scheme, rest)" by (cases "url_scheme (url_clean t)")
  obtain loc tail where b: "url_netloc rest = (loc, tail)" by (cases "url_netloc rest")
  let ?path = "takeWhile (\<lambda>c. c \<noteq> CHR ''?'') (takeWhile (\<lambda>c. c \<noteq> CHR ''#'') tail)"
  have u: "u = \<lparr>ur_scheme = scheme, ur_netloc = loc, ur_path = drop_params scheme ?path\<rparr>"
    using assms(1) a b by (simp add: url_parse_def split: if_splits)
  have rest: "\<forall>c\<in>set rest. plain_char c"
    using url_scheme_rest [of "url_clean t"] url_clean_chars [of t] assms(2) a by (auto simp: plain_char_def)
  have two: "set (drop 2 rest) \<subseteq> set rest" by (rule set_drop_subset)
  have loc: "\<forall>c\<in>set loc. plain_char c \<and> \<not> ends_netloc c"
    using b rest two by (auto simp: url_netloc_def split: if_splits dest: set_takeWhileD)
  have tail: "\<forall>c\<in>set tail. plain_char c"
    using b rest two by (auto simp: url_netloc_def split: if_splits dest: set_dropWhileD)
  have path: "\<forall>c\<in>set ?path. plain_char c \<and> c \<noteq> CHR ''?'' \<and> c \<noteq> CHR ''#''"
    using tail by (auto dest!: set_takeWhileD)
  have "loc \<noteq> [] \<Longrightarrow> tail = [] \<or> ends_netloc (hd tail)"
    using b hd_dropWhile_ends [of "drop 2 rest"] by (auto simp: url_netloc_def split: if_splits)
  then have "loc \<noteq> [] \<Longrightarrow> drop_params scheme ?path = [] \<or> hd (drop_params scheme ?path) = CHR ''/''"
    by (intro drop_params_hd path_hd)
  moreover have "\<forall>c\<in>set (drop_params scheme ?path). plain_char c \<and> c \<noteq> CHR ''?'' \<and> c \<noteq> CHR ''#''"
    using path drop_params_subset [of scheme ?path] by blast
  ultimately have "(\<forall>c\<in>set loc. plain_char c \<and> \<not> ends_netloc c) \<and>
      (\<forall>c\<in>set (drop_params scheme ?path). plain_char c \<and> c \<noteq> CHR ''?'' \<and> c \<noteq> CHR ''#'') \<and>
      (loc \<noteq> [] \<longrightarrow> drop_params scheme ?path = [] \<or> hd (drop_params scheme ?path) = CHR ''/'')"
    using loc by (intro conjI impI)
  then show ?thesis unfolding u url_shape_def url.select_convs .
qed

text \<open>Parsing a text that was put together from a scheme, a location and a path.\<close>

lemma url_parse_origin:
  assumes "url_shape u" and "ur_scheme u \<in> {''http'', ''https''}" and "ur_netloc u \<noteq> []" and "CHR '';'' \<notin> set (ur_path u)"
    and "(CHR ''['' \<in> set (ur_netloc u)) = (CHR '']'' \<in> set (ur_netloc u))" and "CHR ''['' \<in> set (ur_netloc u) \<longrightarrow> accepted (ur_netloc u)"
  shows "url_parse accepted (ur_scheme u @ ''://'' @ ur_netloc u @ ur_path u) = Inr u"
proof -
  let ?t = "ur_scheme u @ ''://'' @ ur_netloc u @ ur_path u"
  have letters: "list_all (\<lambda>c. \<not> line_char c) ''http''" "list_all (\<lambda>c. \<not> line_char c) ''https''"
    "list_all (\<lambda>c. \<not> line_char c) ''://''"
    by (simp_all add: line_char_def)
  then have "list_all (\<lambda>c. \<not> line_char c) (ur_scheme u)" using assms(2) by (auto simp only: insert_iff empty_iff)
  moreover have "list_all (\<lambda>c. \<not> line_char c) (ur_netloc u @ ur_path u)"
    using assms(1) by (simp add: url_shape_def plain_char_def list_all_iff ball_Un)
  ultimately have plain: "list_all (\<lambda>c. \<not> line_char c) ?t" using letters(3) by simp
  have clean: "url_clean ?t = ?t"
    using plain assms(2) by (auto simp: url_clean_def filter_id_conv list_all_iff)
  have scheme: "url_scheme ?t = (ur_scheme u, ''//'' @ ur_netloc u @ ur_path u)"
    using assms(2) by (auto simp: url_scheme_def py_partition_def is_letter_def scheme_char_def py_lower_def lower_char_def)
  have ends: "ur_path u \<noteq> [] \<Longrightarrow> ends_netloc (hd (ur_path u))"
    using assms(1,3) by (auto simp: url_shape_def ends_netloc_def)
  have loc: "url_netloc (''//'' @ ur_netloc u @ ur_path u) = (ur_netloc u, ur_path u)"
    using assms(1) ends by (cases "ur_path u")
      (auto simp: url_netloc_def py_startswith_def url_shape_def takeWhile_append2 dropWhile_append2 takeWhile_eq_all_conv dropWhile_eq_Nil_conv)
  have "takeWhile (\<lambda>c. c \<noteq> CHR ''#'') (ur_path u) = ur_path u" "takeWhile (\<lambda>c. c \<noteq> CHR ''?'') (ur_path u) = ur_path u"
    using assms(1) unfolding url_shape_def takeWhile_eq_all_conv by blast+
  then have path: "takeWhile (\<lambda>c. c \<noteq> CHR ''?'') (takeWhile (\<lambda>c. c \<noteq> CHR ''#'') (ur_path u)) = ur_path u" by (simp only:)
  show ?thesis
    using assms(5,6) drop_params_id [OF assms(4), of "ur_scheme u"] by (simp only: url_parse_def clean scheme loc path Let_def prod.case) auto
qed

lemma rstrip_slashes_idem [simp]: "rstrip_slashes (rstrip_slashes s) = rstrip_slashes s"
  by (simp add: rstrip_slashes_def dropWhile_idem)

lemma rstrip_slashes_shape:
  assumes "url_shape u"
  shows "url_shape (u\<lparr>ur_path := rstrip_slashes (ur_path u)\<rparr>)"
proof -
  have "ur_path u = rstrip_slashes (ur_path u) @ rev (takeWhile (\<lambda>c. c = CHR ''/'') (rev (ur_path u)))"
    unfolding rstrip_slashes_def by (metis rev_append rev_rev_ident takeWhile_dropWhile_id)
  then have "set (rstrip_slashes (ur_path u)) \<subseteq> set (ur_path u)"
    "rstrip_slashes (ur_path u) = [] \<or> hd (rstrip_slashes (ur_path u)) = hd (ur_path u)"
    by (metis set_append Un_upper1, metis hd_append2)
  then show ?thesis using assms by (auto simp: url_shape_def rstrip_slashes_def)
qed

lemma contains_append: "py_contains s p \<Longrightarrow> py_contains (r @ s) p"
  by (induction r) (simp_all add: py_contains.simps [of "_ # _"])

lemma normalise_again:
  assumes "normalise_url accepted raw = Inr (Some a)" and "CHR '';'' \<notin> set a"
  shows "normalise_url accepted a = Inr (Some a)"
proof -
  obtain u where raw: "CHR '' '' \<notin> set raw" and u: "url_parse accepted (with_scheme raw) = Inr u" "acceptable u" "a = url_origin u"
    using assms(1) by (cases "url_parse accepted (with_scheme raw)") (auto simp: normalise_url_def split: if_splits)
  let ?w = "u\<lparr>ur_path := rstrip_slashes (ur_path u)\<rparr>"
  have "CHR '' '' \<notin> set (with_scheme raw)" using raw by (simp add: with_scheme_def)
  from url_parse_shape [OF u(1) this] have shape: "url_shape ?w" by (rule rstrip_slashes_shape)
  have a: "a = ur_scheme ?w @ ''://'' @ ur_netloc ?w @ ur_path ?w" by (simp add: u(3) url_origin_def)
  have brackets: "(CHR ''['' \<in> set (ur_netloc u)) = (CHR '']'' \<in> set (ur_netloc u))" "CHR ''['' \<in> set (ur_netloc u) \<longrightarrow> accepted (ur_netloc u)"
    using u(1) by (auto simp: url_parse_def Let_def split: if_splits prod.splits)
  have parse: "url_parse accepted a = Inr ?w"
    unfolding a by (rule url_parse_origin [OF shape]) (use u(2) brackets assms(2) in \<open>auto simp: acceptable_def a\<close>)
  have "py_contains a ''://''"
    unfolding a by (rule contains_append) (simp add: py_contains.simps [of "_ # _"] py_startswith_def)
  then have "with_scheme a = a" by (simp add: with_scheme_def)
  moreover have plain_chars: "CHR '' '' \<notin> set (ur_netloc ?w)" "CHR '' '' \<notin> set (ur_path ?w)"
    using shape unfolding url_shape_def plain_char_def by blast+
  have "CHR '' '' \<notin> set a" "a \<noteq> []"
    using plain_chars u(2) by (auto simp: a acceptable_def)
  ultimately show ?thesis using parse u(2,3) by (simp add: normalise_url_def acceptable_def url_origin_def)
qed

end
