(* ===== verification/Operator_Pages.thy ===== *)
theory Operator_Pages
  imports Sign_In Hub_Services Engine Url_Text
begin

text \<open>
  The forms of the setup wizard (\<open>routes/wizard.py\<close>) and of the settings page (\<open>routes/settings.py\<close>):
  who may submit them, what they check, and what they store. Pages are named, not rendered. The
  PACS (its card formats) and AccessGrid (its credential test) are parameters; whether the
  request carries a valid session cookie is the argument \<open>signed\<close>.
\<close>

section \<open>The hub\<close>

record hub =
  hb_site :: site
  hb_settings :: settings
  hb_engine :: engine_status
  hb_running :: bool

type_synonym params = "(string \<times> json) list"

record page_env =
  pg_vault :: vault
  pg_hasher :: hasher
  pg_card_formats :: "string \<Rightarrow> params \<Rightarrow> (string \<times> string) list res"
  pg_ag_test :: "string \<Rightarrow> string \<Rightarrow> string \<Rightarrow> bool"
  pg_bracketed :: "string \<Rightarrow> bool"

datatype reply = Redirect string | Page string | Refused nat

definition on_settings :: "(settings, 'a) comp \<Rightarrow> (hub, 'a) comp" where
  "on_settings m h = (let (r, rows) = m (hb_settings h) in (r, h\<lparr>hb_settings := rows\<rparr>))"

definition read_setting :: "(settings \<Rightarrow> 'a res) \<Rightarrow> (hub, 'a) comp" where
  "read_setting f h = (f (hb_settings h), h)"

definition give :: "reply \<Rightarrow> (hub, reply) comp" where
  "give r h = (Inr r, h)"

definition start_engine :: "hub \<Rightarrow> hub" where
  "start_engine h = h\<lparr>hb_running := True\<rparr>"

definition on_engine :: "(engine_status \<Rightarrow> engine_status) \<Rightarrow> hub \<Rightarrow> hub" where
  "on_engine f h = h\<lparr>hb_engine := f (hb_engine h)\<rparr>"

definition do_then :: "(hub \<Rightarrow> hub) \<Rightarrow> (hub, 'a) comp \<Rightarrow> (hub, 'a) comp" where
  "do_then f m h = m (f h)"

definition admin_exists :: "hub \<Rightarrow> bool" where
  "admin_exists h \<longleftrightarrow> si_admin (hb_site h) \<noteq> None"

text \<open>\<open>cfg or {}\<close> of a configuration that may be missing.\<close>

definition or_empty :: "json option \<Rightarrow> json" where
  "or_empty c = (case c of None \<Rightarrow> JObj [] | Some j \<Rightarrow> jor j (JObj []))"

section \<open>The wizard\<close>

definition BOOTSTRAP_LICENSE_KEY :: string where
  "BOOTSTRAP_LICENSE_KEY = ''AGSYNC-REPLACE-WITH-PER-DEPLOYMENT-LICENSE-KEY''"

definition license_key_valid :: "string \<Rightarrow> bool" where
  "license_key_valid supplied \<longleftrightarrow> py_strip supplied = BOOTSTRAP_LICENSE_KEY"

text \<open>\<open>_require_admin_if_bootstrapped\<close>: without an administrator everyone may go on.\<close>

definition if_bootstrapped :: "bool \<Rightarrow> (hub, reply) comp \<Rightarrow> (hub, reply) comp" where
  "if_bootstrapped signed m h = (if admin_exists h \<and> \<not> signed then (Inr (Refused 401), h) else m h)"

text \<open>\<open>require_admin\<close>.\<close>

definition if_signed :: "bool \<Rightarrow> (hub, reply) comp \<Rightarrow> (hub, reply) comp" where
  "if_signed signed m h = (if signed then m h else (Inr (Refused 401), h))"

definition needs_connect_step :: "json option \<Rightarrow> bool res" where
  "needs_connect_step c =
     (if \<not> jtruthy (or_empty c) then Inr False else
      bind_res (jget_or ''vendor'' (JStr '''') (or_empty c)) (\<lambda>vendor.
        if \<not> requires_connect (jstr vendor) then Inr False
        else bind_res (jget ''params'' (or_empty c)) (\<lambda>ps.
             bind_res (oget ''trigger_card_format'' ps) (\<lambda>t. Inr (\<not> jtruthy t)))))"

definition wizard_step :: "page_env \<Rightarrow> hub \<Rightarrow> nat res" where
  "wizard_step env h =
     (if \<not> admin_exists h then Inr 1 else
      bind_res (ag_load (pg_vault env) (hb_settings h)) (\<lambda>a. if a = None then Inr 2 else
      bind_res (pacs_load (pg_vault env) (hb_settings h)) (\<lambda>p. if p = None then Inr 3 else
      bind_res (needs_connect_step p) (\<lambda>c. Inr (if c then 4 else 5)))))"

definition wizard_admin :: "page_env \<Rightarrow> string \<Rightarrow> string \<Rightarrow> string \<Rightarrow> string \<Rightarrow> (hub, reply) comp" where
  "wizard_admin env license user pw confirm h =
     (if admin_exists h then (Inr (Refused 403), h)
      else if \<not> license_key_valid license then (Inr (Page ''Invalid license key.''), h)
      else if pw \<noteq> confirm \<or> py_strip user = '''' \<or> length pw < 8
      then (Inr (Page ''Passwords must match and be at least 8 characters.''), h)
      else (Inr (Redirect ''/wizard''), h\<lparr>hb_site := create_admin (pg_hasher env) (py_strip user) pw (hb_site h)\<rparr>))"

definition new_config :: "string \<Rightarrow> string \<Rightarrow> string \<Rightarrow> string \<Rightarrow> ag_config" where
  "new_config account secret template code = \<lparr>gc_account_id = py_strip account, gc_api_secret = py_strip secret,
     gc_template_id = py_strip template, gc_site_code = py_strip code, gc_dedupe = False, gc_extra_metadata = [],
     gc_card_title = '''', gc_card_classification = DEFAULT_CARD_CLASSIFICATION\<rparr>"

definition wizard_ag :: "page_env \<Rightarrow> bool \<Rightarrow> string \<Rightarrow> string \<Rightarrow> string \<Rightarrow> string \<Rightarrow> (hub, reply) comp" where
  "wizard_ag env signed account secret template code = if_bootstrapped signed (\<lambda>h.
     if \<not> py_isdigit (py_strip code) then (Inr (Page ''Site code must be a non-negative integer.''), h)
     else (Inr (Redirect ''/wizard''),
       h\<lparr>hb_settings := ag_save (pg_vault env) (new_config account secret template code) (hb_settings h)\<rparr>))"

definition form_get :: "(string \<times> string) list \<Rightarrow> string \<Rightarrow> string \<Rightarrow> string" where
  "form_get form k d = (case map_of form k of None \<Rightarrow> d | Some v \<Rightarrow> v)"

definition form_params :: "(string \<times> string) list \<Rightarrow> descriptor \<Rightarrow> params" where
  "form_params form d = List.map (\<lambda>f. (cf_id f, JStr (form_get form (cf_id f) ''''))) (de_fields d)"

definition form_options :: "(string \<times> string) list \<Rightarrow> descriptor \<Rightarrow> params" where
  "form_options form d =
     (if de_file_data d
      then [(''credential_encoding'',
        JStr (if form_get form ''credential_encoding'' ''site_card'' = ''file_data'' then ''file_data'' else ''site_card''))]
      else [])"

text \<open>\<open>if is_configured(): engine.start()\<close>.\<close>

definition start_if_configured :: "page_env \<Rightarrow> reply \<Rightarrow> (hub, reply) comp" where
  "start_if_configured env r h =
     (case is_configured (pg_vault env) (hb_settings h) of
        Inl e \<Rightarrow> (Inl e, h)
      | Inr b \<Rightarrow> (Inr r, if b then start_engine h else h))"

definition wizard_pacs :: "page_env \<Rightarrow> bool \<Rightarrow> (string \<times> string) list \<Rightarrow> (hub, reply) comp" where
  "wizard_pacs env signed form = if_bootstrapped signed (\<lambda>h.
     let vendor = form_get form ''vendor'' '''' in
     (case get_descriptor vendor of
        None \<Rightarrow> (Inr (Redirect ''/wizard''), h)
      | Some d \<Rightarrow>
          let h1 = h\<lparr>hb_settings :=
            pacs_save (pg_vault env) vendor (form_params form d) (form_options form d) (hb_settings h)\<rparr> in
          if de_requires_connect d then (Inr (Redirect ''/wizard/connect''), h1)
          else start_if_configured env (Redirect ''/wizard'') h1))"

text \<open>\<open>routes/connect.py\<close>: the trigger by id and by name; a format the PACS does not define raises.\<close>

definition trigger_params :: "page_env \<Rightarrow> string \<Rightarrow> params \<Rightarrow> string \<Rightarrow> params res" where
  "trigger_params env vendor ps fmt =
     bind_res (pg_card_formats env vendor ps) (\<lambda>labels.
       case map_of (rev labels) (py_strip fmt) of
         None \<Rightarrow> Inl (PyError ''ValueError'' ''card format is not defined in the PACS'')
       | Some l \<Rightarrow> Inr (AList.update ''trigger_card_format_label'' (JStr l)
           (AList.update ''trigger_card_format'' (JStr (py_strip fmt)) ps)))"

text \<open>
  What both trigger forms do once the configuration is loaded: None when the format is not
  accepted (any exception), else the configuration stored with the new parameters.
\<close>

definition store_trigger :: "page_env \<Rightarrow> string \<Rightarrow> json \<Rightarrow> (hub, bool) comp" where
  "store_trigger env fmt pacs h =
     (case bind_res (jget_or ''vendor'' (JStr '''') pacs) (\<lambda>v. bind_res (jget ''params'' pacs) (\<lambda>p.
           bind_res (as_dict (jor p (JObj []))) (\<lambda>ps. trigger_params env (jstr v) ps fmt))) of
        Inl e \<Rightarrow> (Inr False, h)
      | Inr ps \<Rightarrow>
          (case bind_res (jget ''vendor'' pacs) (\<lambda>v. bind_res (jget ''options'' pacs) (\<lambda>opts.
                bind_res (as_dict (jor opts (JObj []))) (\<lambda>os. Inr (jstr v, os)))) of
             Inl e \<Rightarrow> (Inl e, h)
           | Inr (v, os) \<Rightarrow>
               (Inr True, on_engine invalidate_pacs_adapter (h\<lparr>hb_settings := pacs_save (pg_vault env) v ps os (hb_settings h)\<rparr>))))"

definition wizard_pacs_trigger :: "page_env \<Rightarrow> bool \<Rightarrow> string \<Rightarrow> (hub, reply) comp" where
  "wizard_pacs_trigger env signed fmt = if_bootstrapped signed
     (bind_comp (read_setting (pacs_load (pg_vault env))) (\<lambda>p.
        if \<not> jtruthy (or_empty p) then give (Redirect ''/wizard'')
        else bind_comp (store_trigger env fmt (or_empty p)) (\<lambda>stored.
          if stored then start_if_configured env (Redirect ''/wizard'') else give (Redirect ''/wizard''))))"

section \<open>The settings page\<close>

definition not_configured :: reply where
  "not_configured = Redirect ''/settings?err=not_configured''"

text \<open>An update of a configuration blob, and what follows when there was one.\<close>

definition update_then :: "(settings, bool) comp \<Rightarrow> (hub \<Rightarrow> hub) \<Rightarrow> reply \<Rightarrow> (hub, reply) comp" where
  "update_then m f r = bind_comp (on_settings m) (\<lambda>ok. if ok then do_then f (give r) else give not_configured)"

definition reload_and_sync :: "hub \<Rightarrow> hub" where
  "reload_and_sync h = on_engine trigger_now (on_engine invalidate_pacs_adapter h)"

definition post_accessgrid :: "page_env \<Rightarrow> bool \<Rightarrow> string \<Rightarrow> string \<Rightarrow> string \<Rightarrow> (hub, reply) comp" where
  "post_accessgrid env signed account template secret = if_signed signed
     (let a = py_strip account; t = py_strip template; s = py_strip secret in
      if a = '''' \<or> t = '''' then give (Redirect ''/settings?err=accessgrid'') else
      bind_comp (read_setting (ag_load (pg_vault env))) (\<lambda>c.
        if \<not> jtruthy (or_empty c) then give not_configured else
        bind_comp (\<lambda>h. (jget_or ''api_secret'' (JStr '''') (or_empty c), h)) (\<lambda>stored.
          if \<not> pg_ag_test env a (if s = '''' then jstr stored else s) t
          then give (Redirect ''/settings?err=accessgrid_rejected'')
          else update_then (update_credentials (pg_vault env) a s t) reload_and_sync (Redirect ''/settings?ok=accessgrid''))))"

definition post_site_code :: "page_env \<Rightarrow> bool \<Rightarrow> string \<Rightarrow> (hub, reply) comp" where
  "post_site_code env signed code = if_signed signed
     (if \<not> py_isdigit (py_strip code) then give (Redirect ''/settings?err=site_code'')
      else update_then (update_site_code (pg_vault env) (py_strip code)) (\<lambda>h. h) (Redirect ''/settings?ok=site_code''))"

definition is_yes :: "string \<Rightarrow> bool" where
  "is_yes s \<longleftrightarrow> py_lower (py_strip s) \<in> {''1'', ''on'', ''true'', ''yes''}"

definition post_dedupe :: "page_env \<Rightarrow> bool \<Rightarrow> string \<Rightarrow> (hub, reply) comp" where
  "post_dedupe env signed enabled = if_signed signed
     (update_then (update_dedupe (pg_vault env) (is_yes enabled)) (\<lambda>h. h) (Redirect ''/settings?ok=dedupe''))"

definition post_email_domain :: "page_env \<Rightarrow> bool \<Rightarrow> string \<Rightarrow> (hub, reply) comp" where
  "post_email_domain env signed text = if_signed signed
     (let d = dropWhile (\<lambda>c. c = CHR ''@'') (py_strip text) in
      if d = '''' \<or> CHR '' '' \<in> set d \<or> CHR ''.'' \<notin> set d then give (Redirect ''/settings?err=email_domain'')
      else update_then (update_params (pg_vault env) [(''email_domain'', JStr d)]) reload_and_sync
             (Redirect ''/settings?ok=email_domain''))"



definition post_dry_run :: "page_env \<Rightarrow> bool \<Rightarrow> string \<Rightarrow> (hub, reply) comp" where
  "post_dry_run env signed text = if_signed signed
     (do_then (\<lambda>h. on_engine trigger_now (h\<lparr>hb_settings := set_dry_run (\<not> is_yes text) (hb_settings h)\<rparr>))
        (give (Redirect ''/settings?ok=dry_run'')))"

text \<open>
  The address of the PACS: each field of that kind is read, the first unreadable one ends it; the
  same address costs nothing; a new one is stored, the captured session of the old host dropped and
  the adapter rebuilt.
\<close>

definition read_address :: "page_env \<Rightarrow> (string \<times> string) list \<Rightarrow> string \<Rightarrow> (string \<times> json) option res" where
  "read_address env form f = bind_res (normalise_url (pg_bracketed env) (py_strip (form_get form f '''')))
     (\<lambda>a. Inr (map_option (\<lambda>u. (f, JStr u)) a))"

fun read_addresses :: "page_env \<Rightarrow> (string \<times> string) list \<Rightarrow> string list \<Rightarrow> params option res" where
  "read_addresses env form [] = Inr (Some [])"
| "read_addresses env form (f # fs) = bind_res (read_address env form f) (\<lambda>a.
     case a of None \<Rightarrow> Inr None
     | Some c \<Rightarrow> bind_res (read_addresses env form fs) (\<lambda>cs. Inr (map_option (\<lambda>l. c # l) cs)))"

fun same_address :: "json \<Rightarrow> params \<Rightarrow> bool res" where
  "same_address current [] = Inr True"
| "same_address current ((k, v) # changes) = bind_res (jget_or k (JStr '''') current) (\<lambda>x.
     if x = v then same_address current changes else Inr False)"

definition address_ok :: reply where
  "address_ok = Redirect ''/settings?ok=pacs_address''"

definition store_address :: "page_env \<Rightarrow> string \<Rightarrow> params \<Rightarrow> (hub, reply) comp" where
  "store_address env vendor changes = update_then (update_params (pg_vault env) changes)
     (\<lambda>h. on_engine invalidate_pacs_adapter (h\<lparr>hb_settings := session_clear vendor (hb_settings h)\<rparr>)) address_ok"

definition post_pacs_address :: "page_env \<Rightarrow> bool \<Rightarrow> (string \<times> string) list \<Rightarrow> (hub, reply) comp" where
  "post_pacs_address env signed form = if_signed signed
     (bind_comp (read_setting (pacs_load (pg_vault env))) (\<lambda>p.
      bind_comp (read_setting (\<lambda>_. jget_or ''vendor'' (JStr '''') (or_empty p))) (\<lambda>vendor.
      let fs = address_fields (if jtruthy vendor then get_descriptor (jstr vendor) else None) in
      if fs = [] then give not_configured else
      bind_comp (read_setting (\<lambda>_. read_addresses env form fs)) (\<lambda>read. case read of
        None \<Rightarrow> give (Redirect ''/settings?err=pacs_address'')
      | Some changes \<Rightarrow>
          bind_comp (read_setting (\<lambda>_. bind_res (jget ''params'' (or_empty p)) (\<lambda>c. same_address (jor c (JObj [])) changes))) (\<lambda>same.
          if same then give address_ok
          else store_address env (jstr vendor) changes)))))"

definition post_card_fields :: "page_env \<Rightarrow> bool \<Rightarrow> string \<Rightarrow> string \<Rightarrow> (hub, reply) comp" where
  "post_card_fields env signed title classification = if_signed signed
     (update_then (update_card_fields (pg_vault env) (py_strip title) (py_strip classification)) (\<lambda>h. h)
        (Redirect ''/settings?ok=card_fields''))"

definition post_trigger_format :: "page_env \<Rightarrow> bool \<Rightarrow> string \<Rightarrow> (hub, reply) comp" where
  "post_trigger_format env signed fmt = if_signed signed
     (bind_comp (read_setting (pacs_load (pg_vault env))) (\<lambda>p.
        if \<not> jtruthy (or_empty p) then give not_configured
        else bind_comp (store_trigger env fmt (or_empty p)) (\<lambda>stored.
          if stored then do_then (on_engine trigger_now) (give (Redirect ''/settings?ok=trigger''))
          else give (Redirect ''/settings?err=trigger''))))"

text \<open>\<open>int(smtp_port or 587)\<close>: None for what \<open>int\<close> refuses.\<close>

definition form_port :: "string \<Rightarrow> int option" where
  "form_port s = (if s = '''' then Some 587 else parse_int s)"

definition post_notifications ::
    "page_env \<Rightarrow> bool \<Rightarrow> string \<Rightarrow> string \<Rightarrow> string \<Rightarrow> string \<Rightarrow> string \<Rightarrow> string \<Rightarrow> (hub, reply) comp" where
  "post_notifications env signed host port sender user pw ssl = if_signed signed
     (bind_comp (read_setting (mail_load (pg_vault env))) (\<lambda>c.
        case form_port port of
          None \<Rightarrow> give (Redirect ''/settings?err=smtp_port'')
        | Some p \<Rightarrow> bind_comp (\<lambda>h. (jget_or ''smtp_password'' (JStr '''') (or_empty c), h)) (\<lambda>old.
            do_then (\<lambda>h. h\<lparr>hb_settings := mail_save (pg_vault env)
                \<lparr>ml_host = py_strip host, ml_port = p, ml_username = py_strip user,
                 ml_password = (if pw = '''' then jstr old else pw), ml_from = py_strip sender,
                 ml_starttls = \<not> is_yes ssl, ml_ssl = is_yes ssl\<rparr> (hb_settings h)\<rparr>)
              (give (Redirect ''/settings?ok=notifications'')))))"

definition valid_key_char :: "char \<Rightarrow> bool" where
  "valid_key_char c \<longleftrightarrow> (let n = (of_char c :: nat) in
     (97 \<le> n \<and> n \<le> 122) \<or> (65 \<le> n \<and> n \<le> 90) \<or> (48 \<le> n \<and> n \<le> 57) \<or> n = 95 \<or> n = 45)"

definition validate_meta_key :: "string \<Rightarrow> string" where
  "validate_meta_key k =
     (if k = '''' then ''meta_empty_key''
      else if k \<in> set RESERVED_METADATA_KEYS then ''meta_reserved''
      else if \<not> list_all valid_key_char k then ''meta_bad_chars''
      else if 64 < length k then ''meta_too_long'' else '''')"

text \<open>The loop over the submitted rows: an invalid key ends it with its error code.\<close>

fun collect_pairs :: "(string \<times> string) list \<Rightarrow> (string \<times> string) list \<Rightarrow> (string \<times> string) + (string \<times> string) list" where
  "collect_pairs [] acc = Inr acc"
| "collect_pairs ((k, v) # rest) acc =
     (let key = py_strip k; val = py_strip v; err = validate_meta_key key in
      if key = '''' \<and> val = '''' then collect_pairs rest acc
      else if err \<noteq> '''' then Inl (err, key)
      else collect_pairs rest (AList.update key val acc))"

definition post_extra_metadata :: "page_env \<Rightarrow> bool \<Rightarrow> string list \<Rightarrow> string list \<Rightarrow> (hub, reply) comp" where
  "post_extra_metadata env signed ks vs = if_signed signed
     (case collect_pairs (zip ks vs) [] of
        Inl (err, key) \<Rightarrow> give (Redirect (''/settings?err='' @ err @ ''&err_key='' @ key))
      | Inr pairs \<Rightarrow> update_then (update_extra_metadata (pg_vault env) pairs) (\<lambda>h. h)
          (Redirect ''/settings?ok=extra_metadata''))"

section \<open>Every form\<close>

datatype form =
    WizardAdmin string string string string
  | WizardAccessGrid string string string string
  | WizardPacs "(string \<times> string) list"
  | WizardTrigger string
  | SetAccessGrid string string string
  | SetSiteCode string
  | SetDedupe string
  | SetEmailDomain string
  | SetDryRun string
  | SetAddress "(string \<times> string) list"
  | SetCardFields string string
  | SetTrigger string
  | SetNotifications string string string string string string
  | SetExtraMetadata "string list" "string list"

fun submit :: "page_env \<Rightarrow> bool \<Rightarrow> form \<Rightarrow> (hub, reply) comp" where
  "submit env signed (WizardAdmin l u p c) = wizard_admin env l u p c"
| "submit env signed (WizardAccessGrid a s t c) = wizard_ag env signed a s t c"
| "submit env signed (WizardPacs f) = wizard_pacs env signed f"
| "submit env signed (WizardTrigger f) = wizard_pacs_trigger env signed f"
| "submit env signed (SetAccessGrid a t s) = post_accessgrid env signed a t s"
| "submit env signed (SetSiteCode c) = post_site_code env signed c"
| "submit env signed (SetDedupe e) = post_dedupe env signed e"
| "submit env signed (SetEmailDomain d) = post_email_domain env signed d"
| "submit env signed (SetDryRun d) = post_dry_run env signed d"
| "submit env signed (SetAddress f) = post_pacs_address env signed f"
| "submit env signed (SetCardFields t c) = post_card_fields env signed t c"
| "submit env signed (SetTrigger f) = post_trigger_format env signed f"
| "submit env signed (SetNotifications h p f u w x) = post_notifications env signed h p f u w x"
| "submit env signed (SetExtraMetadata ks vs) = post_extra_metadata env signed ks vs"

text \<open>With an administrator in place, a form without a session is refused and changes nothing.\<close>

lemma if_signed_False [simp]: "if_signed False m h = (Inr (Refused 401), h)"
  by (simp add: if_signed_def)

lemma if_bootstrapped_refuses [simp]: "admin_exists h \<Longrightarrow> if_bootstrapped False m h = (Inr (Refused 401), h)"
  by (simp add: if_bootstrapped_def)

lemmas signed_forms = post_accessgrid_def post_site_code_def post_dedupe_def post_email_domain_def post_dry_run_def
  post_pacs_address_def
  post_card_fields_def post_trigger_format_def post_notifications_def post_extra_metadata_def

lemmas wizard_forms = wizard_ag_def wizard_pacs_def wizard_pacs_trigger_def

lemma unsigned_refused:
  assumes "admin_exists h"
  shows "submit env False f h = (Inr (Refused (case f of WizardAdmin _ _ _ _ \<Rightarrow> 403 | _ \<Rightarrow> 401)), h)"
  using assms by (cases f) (simp_all only: submit.simps form.case signed_forms wizard_forms if_signed_False
      if_bootstrapped_refuses, simp add: wizard_admin_def)

text \<open>Until then the wizard's own forms go through without one.\<close>

lemma open_until_bootstrapped:
  assumes "\<not> admin_exists h" and "py_isdigit (py_strip code)"
  shows "submit env False (WizardAccessGrid a s t code) h =
    (Inr (Redirect ''/wizard''), h\<lparr>hb_settings := ag_save (pg_vault env) (new_config a s t code) (hb_settings h)\<rparr>)"
  using assms by (simp add: wizard_ag_def if_bootstrapped_def)

text \<open>The address of a stored configuration, for a vendor that has one.\<close>

definition stored_pacs :: "page_env \<Rightarrow> hub \<Rightarrow> string \<Rightarrow> params \<Rightarrow> params \<Rightarrow> bool" where
  "stored_pacs env h vendor ps opts \<longleftrightarrow> pacs_load (pg_vault env) (hb_settings h) =
     Inr (Some (JObj [(''vendor'', JStr vendor), (''params'', JObj ps), (''options'', JObj opts)]))"

definition moved_hub :: "page_env \<Rightarrow> string \<Rightarrow> params \<Rightarrow> params \<Rightarrow> hub \<Rightarrow> hub" where
  "moved_hub env vendor ps opts h = h\<lparr>hb_settings := session_clear vendor (pacs_save (pg_vault env) vendor ps opts (hb_settings h)),
     hb_engine := invalidate_pacs_adapter (hb_engine h)\<rparr>"

lemma pacs_of_moved:
  assumes "sound_vault (pg_vault env)"
  shows "stored_pacs env (moved_hub env vendor ps opts h) vendor ps opts"
  using get_json_set_json [OF assms]
  by (simp add: stored_pacs_def moved_hub_def pacs_load_def pacs_save_def session_clear_def get_json_after_delete session_key_def PACS_KEY_def)

lemma no_session_after_move: "session_connected v vendor (hb_settings (moved_hub env vendor ps opts h)) = Inr False"
  by (simp add: moved_hub_def session_connected_def session_clear_def get_json_after_delete jlookup_def)

lemma post_address:
  assumes "sound_vault (pg_vault env)" and "stored_pacs env h vendor ps opts" and "address_fields (get_descriptor vendor) = [f]"
    and "read_address env form f = Inr (Some (f, JStr a))"
  shows "post_pacs_address env True form h = (Inr address_ok,
    if jget_or f (JStr '''') (JObj ps) = Inr (JStr a) then h else moved_hub env vendor (AList.update f (JStr a) ps) opts h)"
proof -
  have vendor: "vendor \<noteq> ''''" using assms(3) address_fields_cases [of vendor] by auto
  have up: "update_params (pg_vault env) [(f, JStr a)] (hb_settings h) =
      (Inr True, pacs_save (pg_vault env) vendor (AList.update f (JStr a) ps) opts (hb_settings h))"
    using assms(1,2) by (simp add: update_params_def stored_pacs_def pacs_load_def change_blob_stored jlookup_def jor_def pacs_save_def)
  show ?thesis
    using assms(2,3,4) vendor
    by (simp add: post_pacs_address_def if_signed_def bind_comp_def read_setting_def stored_pacs_def or_empty_def jor_def
      jlookup_def Let_def give_def store_address_def update_then_def on_settings_def up do_then_def on_engine_def moved_hub_def
      split: option.split)
qed

text \<open>What is stored as extra metadata never carries a key the sync writes itself.\<close>

lemma keys_of_update: "fst ` set (AList.update k v d) = insert k (fst ` set d)"
  by (induction d) auto

lemma collect_pairs_valid:
  assumes "collect_pairs rows acc = Inr out" and "\<forall>k\<in>fst ` set acc. validate_meta_key k = ''''"
  shows "\<forall>k\<in>fst ` set out. validate_meta_key k = ''''"
  using assms
proof (induction rows acc rule: collect_pairs.induct)
  case (2 k v rest acc)
  show ?case
  proof (cases "py_strip k = '''' \<and> py_strip v = ''''")
    case True
    then have "collect_pairs rest acc = Inr out" using 2(3) by simp
    then show ?thesis using 2(1) [OF refl refl refl True] 2(4) by blast
  next
    case False
    then have valid: "validate_meta_key (py_strip k) = ''''"
      and rest: "collect_pairs rest (AList.update (py_strip k) (py_strip v) acc) = Inr out"
      using 2(3) by (simp_all only: collect_pairs.simps Let_def split: if_splits) simp_all
    have "\<forall>x\<in>fst ` set (AList.update (py_strip k) (py_strip v) acc). validate_meta_key x = ''''"
      using 2(4) valid by (simp add: keys_of_update)
    then show ?thesis using 2(2) [OF refl refl refl False _ rest] valid by simp
  qed
qed simp

lemma valid_not_reserved: "validate_meta_key k = '''' \<Longrightarrow> k \<notin> set RESERVED_METADATA_KEYS"
  by (auto simp: validate_meta_key_def split: if_splits)

end
