(* ===== verification/Connect_Launch.thy ===== *)
theory Connect_Launch
  imports Operator_Pages
begin

text \<open>
  AG Connect (\<open>routes/connect.py\<close>): the registry of launches and the five requests on it. Instants
  are microseconds of the monotonic clock; the launch id and key a launch is minted with are
  arguments. Unsealing (AES-GCM, base64 and \<open>json.loads\<close>), the vendor's reading of the cookies and
  its check of the session are parameters. Requests are taken one at a time, as the handlers that
  change a launch run on one event loop without giving way in between.
\<close>

section \<open>The registry\<close>

definition LAUNCH_TTL :: int where "LAUNCH_TTL = 900 * 1000000"

record launch =
  ln_key :: "nat list"
  ln_login_url :: string
  ln_created_at :: int
  ln_claimed :: bool
  ln_state :: string
  ln_message :: string

type_synonym launches = "(string \<times> launch) list"

definition expired_at :: "int \<Rightarrow> launch \<Rightarrow> bool" where
  "expired_at now l \<longleftrightarrow> LAUNCH_TTL < now - ln_created_at l"

definition prune :: "int \<Rightarrow> launches \<Rightarrow> launches" where
  "prune now ls = List.filter (\<lambda>(_, l). \<not> expired_at now l) ls"

definition create_launch :: "int \<Rightarrow> string \<Rightarrow> nat list \<Rightarrow> string \<Rightarrow> launches \<Rightarrow> launches" where
  "create_launch now i key url ls = AList.update i
     \<lparr>ln_key = key, ln_login_url = url, ln_created_at = now, ln_claimed = False, ln_state = ''waiting'', ln_message = ''''\<rparr>
     (prune now ls)"

definition get_launch :: "int \<Rightarrow> string \<Rightarrow> launches \<Rightarrow> launch option \<times> launches" where
  "get_launch now i ls =
     (case map_of ls i of
        None \<Rightarrow> (None, ls)
      | Some l \<Rightarrow> if expired_at now l then (None, AList.delete i ls) else (Some l, ls))"

text \<open>The key is handed out once.\<close>

definition claim_launch :: "int \<Rightarrow> string \<Rightarrow> launches \<Rightarrow> launch option \<times> launches" where
  "claim_launch now i ls =
     (case map_of ls i of
        None \<Rightarrow> (None, ls)
      | Some l \<Rightarrow> if expired_at now l \<or> ln_claimed l then (None, ls)
                  else (Some (l\<lparr>ln_claimed := True\<rparr>), AList.update i (l\<lparr>ln_claimed := True\<rparr>) ls))"

section \<open>The requests\<close>

record connect =
  cn_launches :: launches
  cn_hub :: hub
  cn_throttled :: "string list"

record connect_env =
  cx_pages :: page_env
  cx_unseal :: "nat list \<Rightarrow> string \<Rightarrow> json res"
  cx_session_from :: "string \<Rightarrow> params \<Rightarrow> (string \<times> json) list \<Rightarrow> (string \<times> json) list res"
  cx_validate :: "string \<Rightarrow> params \<Rightarrow> (string \<times> json) list \<Rightarrow> (bool \<times> string) res"

datatype answer =
    Began string
  | Handed "nat list" string string "string list"
  | Taken
  | Closed
  | Rejected nat string

definition on_launches :: "(launches \<Rightarrow> launches) \<Rightarrow> connect \<Rightarrow> connect" where
  "on_launches f s = s\<lparr>cn_launches := f (cn_launches s)\<rparr>"

definition set_launch :: "string \<Rightarrow> launch \<Rightarrow> connect \<Rightarrow> connect" where
  "set_launch i l = on_launches (AList.update i l)"

definition fail_launch :: "string \<Rightarrow> launch \<Rightarrow> string \<Rightarrow> connect \<Rightarrow> connect" where
  "fail_launch i l m = set_launch i (l\<lparr>ln_state := ''error'', ln_message := m\<rparr>)"

definition configured_vendor :: "connect_env \<Rightarrow> connect \<Rightarrow> string res" where
  "configured_vendor env s =
     bind_res (pacs_load (pg_vault (cx_pages env)) (hb_settings (cn_hub s))) (\<lambda>c.
     bind_res (jget_or ''vendor'' (JStr '''') (or_empty c)) (\<lambda>v. Inr (jstr v)))"

definition pacs_params :: "connect_env \<Rightarrow> connect \<Rightarrow> params res" where
  "pacs_params env s =
     bind_res (pacs_load (pg_vault (cx_pages env)) (hb_settings (cn_hub s))) (\<lambda>c.
     bind_res (jget ''params'' (or_empty c)) (\<lambda>p. as_dict (jor p (JObj []))))"

text \<open>\<open>spec.login_url(base)\<close>.\<close>

definition login_path_url :: "connect_env \<Rightarrow> browser_sign_in \<Rightarrow> string \<Rightarrow> string res" where
  "login_path_url env spec base =
     (let url = py_strip base in
      if url = '''' then Inr '''' else
      bind_res (url_parse (pg_bracketed (cx_pages env)) (with_scheme url)) (\<lambda>u.
        Inr (if ur_netloc u = '''' then ''''
             else ur_scheme u @ ''://'' @ ur_netloc u @ ''/'' @ dropWhile (\<lambda>c. c = CHR ''/'') (bs_login_path spec))))"

definition configured_login_url :: "connect_env \<Rightarrow> connect \<Rightarrow> string res" where
  "configured_login_url env s =
     bind_res (configured_vendor env s) (\<lambda>vendor.
     case browser_login vendor of None \<Rightarrow> Inr '''' | Some spec \<Rightarrow>
     bind_res (pacs_params env s) (\<lambda>ps.
     let base = jlookup ps ''base_url'' in
     if jtruthy base then login_path_url env spec (jstr base) else
     bind_res (session_load (pg_vault (cx_pages env)) vendor (hb_settings (cn_hub s))) (\<lambda>c.
     bind_res (jget ''base_url'' (or_empty c)) (\<lambda>b. login_path_url env spec (text_or_empty b)))))"

definition connect_begin :: "connect_env \<Rightarrow> bool \<Rightarrow> int \<Rightarrow> string \<Rightarrow> nat list \<Rightarrow> (connect, answer) comp" where
  "connect_begin env signed now i key s =
     (if \<not> signed then (Inr (Rejected 401 ''''), s) else
      case configured_login_url env s of
        Inl e \<Rightarrow> (Inl e, s)
      | Inr url \<Rightarrow>
          if url = '''' then (Inr (Rejected 400 ''Save the PACS URL first.''), s)
          else (Inr (Began i), on_launches (create_launch now i key url) s))"

definition connect_claim :: "connect_env \<Rightarrow> int \<Rightarrow> string \<Rightarrow> (connect, answer) comp" where
  "connect_claim env now i s =
     (case claim_launch now i (cn_launches s) of
        (None, _) \<Rightarrow> (Inr (Rejected 404 ''''), s)
      | (Some l, ls) \<Rightarrow>
          (case configured_vendor env s of
             Inl e \<Rightarrow> (Inl e, s\<lparr>cn_launches := ls\<rparr>)
           | Inr vendor \<Rightarrow>
               (Inr (Handed (ln_key l) (ln_login_url l)
                  (case browser_login vendor of None \<Rightarrow> '''' | Some spec \<Rightarrow> bs_required spec)
                  (case browser_login vendor of None \<Rightarrow> [] | Some spec \<Rightarrow> bs_extra spec)), s\<lparr>cn_launches := ls\<rparr>)))"

definition connect_cancel :: "int \<Rightarrow> string \<Rightarrow> (connect, answer) comp" where
  "connect_cancel now i s =
     (case get_launch now i (cn_launches s) of
        (None, ls) \<Rightarrow> (Inr Closed, s\<lparr>cn_launches := ls\<rparr>)
      | (Some l, ls) \<Rightarrow>
          (Inr Closed, set_launch i (l\<lparr>ln_state := ''cancelled'',
             ln_message := ''The sign-in window was closed before finishing.''\<rparr>) s))"

section \<open>The callback\<close>

text \<open>\<open>{c["name"]: c["value"] for c in payload.get("cookies", [])}\<close>.\<close>

definition cookie_jar :: "json \<Rightarrow> (string \<times> json) list res" where
  "cookie_jar payload =
     bind_res (jget_or ''cookies'' (JArr []) payload) (\<lambda>cs. bind_res (jiter cs) (\<lambda>xs.
     bind_res (map_res (\<lambda>c. bind_res (jindex ''name'' c) (\<lambda>n. bind_res (jindex ''value'' c) (\<lambda>v. Inr (jstr n, v)))) xs) (\<lambda>kvs.
       Inr (fold (\<lambda>(k, v). AList.update k v) kvs []))))"

text \<open>A session proven to read: stored, the key dropped, the notifier and the engine told.\<close>

definition keep_session ::
    "connect_env \<Rightarrow> string \<Rightarrow> string \<Rightarrow> string \<Rightarrow> (string \<times> json) list \<Rightarrow> launch \<Rightarrow> connect \<Rightarrow> connect" where
  "keep_session env vendor captured i session l s =
     (let h = cn_hub s;
          h1 = h\<lparr>hb_settings := session_save (pg_vault (cx_pages env)) vendor
                  (AList.update ''captured_at'' (JStr captured) session) (hb_settings h)\<rparr>
      in (set_launch i (l\<lparr>ln_key := [], ln_state := ''connected''\<rparr>) s)
           \<lparr>cn_hub := on_engine session_restored h1,
            cn_throttled := List.filter (\<lambda>k. k \<noteq> ''reconnect'') (cn_throttled s)\<rparr>)"

definition check_session ::
    "connect_env \<Rightarrow> string \<Rightarrow> string \<Rightarrow> params \<Rightarrow> (string \<times> json) list \<Rightarrow> string \<Rightarrow> launch \<Rightarrow> (connect, answer) comp" where
  "check_session env captured vendor ps jar i l s =
     (case bind_res (cx_session_from env vendor ps jar) (\<lambda>session.
          bind_res (cx_validate env vendor ps session) (\<lambda>v. Inr (session, v))) of
        Inl e \<Rightarrow> (Inl e, s)
      | Inr (session, ok, detail) \<Rightarrow>
          if ok then (Inr Taken, keep_session env vendor captured i session l s)
          else (let m = ''That sign-in did not produce a working session. Please try again and complete the login fully. (''
                  @ detail @ '')''
                in (Inr (Rejected 400 m), fail_launch i l m s)))"

definition take_payload :: "connect_env \<Rightarrow> string \<Rightarrow> json \<Rightarrow> string \<Rightarrow> launch \<Rightarrow> (connect, answer) comp" where
  "take_payload env captured payload i l s =
     (case bind_res (cookie_jar payload) (\<lambda>jar. bind_res (configured_vendor env s) (\<lambda>vendor. Inr (jar, vendor))) of
        Inl e \<Rightarrow> (Inl e, s)
      | Inr (jar, vendor) \<Rightarrow>
        (case browser_login vendor of
           None \<Rightarrow> (Inr (Rejected 400 ''''), fail_launch i l ''This PACS does not sign in through a browser.'' s)
         | Some spec \<Rightarrow>
             if \<not> jtruthy (jlookup jar (bs_required spec))
             then (Inr (Rejected 400 ''''), fail_launch i l ''Sign-in did not produce a session cookie.'' s)
             else (case pacs_params env s of
                 Inl e \<Rightarrow> (Inl e, s)
               | Inr ps \<Rightarrow> check_session env captured vendor ps jar i l s)))"

definition connect_callback ::
    "connect_env \<Rightarrow> int \<Rightarrow> string \<Rightarrow> string \<Rightarrow> string \<Rightarrow> (connect, answer) comp" where
  "connect_callback env now captured i sealed s0 =
     (case get_launch now i (cn_launches s0) of
        (None, ls) \<Rightarrow> (Inr (Rejected 404 ''Unknown launch''), s0\<lparr>cn_launches := ls\<rparr>)
      | (Some l, ls) \<Rightarrow>
          if \<not> ln_claimed l then (Inr (Rejected 404 ''Unknown launch''), s0)
          else (case cx_unseal env (ln_key l) sealed of
              Inl e \<Rightarrow> (Inr (Rejected 400 ''''),
                fail_launch i l ''The session could not be decrypted. Please try again.'' s0)
            | Inr payload \<Rightarrow> take_payload env captured payload i l s0))"

section \<open>The two pages\<close>

text \<open>\<open>GET /connect\<close> mints a launch too, when there is an address; so does the wizard's step 4b.\<close>

definition connect_page :: "connect_env \<Rightarrow> bool \<Rightarrow> int \<Rightarrow> string \<Rightarrow> nat list \<Rightarrow> (connect, answer) comp" where
  "connect_page env signed now i key s =
     (if \<not> signed then (Inr (Rejected 401 ''''), s) else
      case configured_login_url env s of
        Inl e \<Rightarrow> (Inl e, s)
      | Inr url \<Rightarrow> if url = '''' then (Inr Closed, s) else (Inr (Began i), on_launches (create_launch now i key url) s))"

definition wizard_connect :: "connect_env \<Rightarrow> bool \<Rightarrow> int \<Rightarrow> string \<Rightarrow> nat list \<Rightarrow> (connect, answer) comp" where
  "wizard_connect env signed now i key s =
     (if admin_exists (cn_hub s) \<and> \<not> signed then (Inr (Rejected 401 ''''), s) else
      case configured_vendor env s of
        Inl e \<Rightarrow> (Inl e, s)
      | Inr vendor \<Rightarrow>
          if \<not> requires_connect vendor then (Inr Closed, s)
          else connect_page env True now i key s)"

text \<open>What the wizard's poll shows: the session is there, or the state of the launch and its message.\<close>

datatype view = Connected bool | Pick_format | Pending string string

definition connect_status :: "connect_env \<Rightarrow> bool \<Rightarrow> int \<Rightarrow> string \<Rightarrow> bool \<Rightarrow> (connect, view option) comp" where
  "connect_status env signed now i pick s0 =
     (if \<not> signed then (Inr None, s0) else
      let (found, ls) = (if i = '''' then (None, cn_launches s0) else get_launch now i (cn_launches s0));
          s = s0\<lparr>cn_launches := ls\<rparr>;
          fresh = (case found of None \<Rightarrow> False | Some l \<Rightarrow> ln_state l = ''connected'')
      in (case bind_res (configured_vendor env s) (\<lambda>v.
              session_connected (pg_vault (cx_pages env)) v (hb_settings (cn_hub s))) of
            Inl e \<Rightarrow> (Inl e, s)
          | Inr connected \<Rightarrow>
              if connected \<and> (found = None \<or> fresh)
              then (Inr (Some (if pick then Pick_format else Connected fresh)), s)
              else (Inr (Some (case found of
                       Some l \<Rightarrow> Pending (ln_state l) (ln_message l)
                     | None \<Rightarrow> Pending (if i = '''' then ''waiting'' else ''expired'') '''')), s)))"

end
