(* ===== verification/Connect_Laws.thy ===== *)
theory Connect_Laws
  imports Connect_Launch
begin

text \<open>
  Any sequence of AG Connect requests, in any order and at any times, with the settings and the
  session store changing in between: how often a launch's key can be handed out and how often a
  session can be stored under it.
\<close>

section \<open>What a request may do to a launch\<close>

text \<open>No launch appears, none is unclaimed again, and a key stays or is dropped.\<close>

definition calmer :: "launch option \<Rightarrow> launch option \<Rightarrow> bool" where
  "calmer old new \<longleftrightarrow> new = None \<or> (\<exists>l l'. old = Some l \<and> new = Some l' \<and>
     (ln_claimed l \<longrightarrow> ln_claimed l') \<and> (ln_key l' = ln_key l \<or> ln_key l' = []))"

definition unclaimed :: "launch option \<Rightarrow> nat" where
  "unclaimed old = (case old of None \<Rightarrow> 0 | Some l \<Rightarrow> if ln_claimed l then 0 else 1)"

definition armed :: "launch option \<Rightarrow> nat" where
  "armed old = (case old of None \<Rightarrow> 0 | Some l \<Rightarrow> if ln_key l = [] then 0 else 1)"

lemma calmer_refl: "calmer old old"
  by (cases old) (auto simp: calmer_def)

lemma calmer_None [simp]: "calmer old None"
  by (simp add: calmer_def)

lemma calmer_weights: "calmer old new \<Longrightarrow> unclaimed new \<le> unclaimed old \<and> armed new \<le> armed old"
  by (auto simp: calmer_def unclaimed_def armed_def)

lemma map_of_prune:
  assumes "distinct (List.map fst ls)"
  shows "map_of (prune now ls) i = (case map_of ls i of None \<Rightarrow> None | Some l \<Rightarrow> if expired_at now l then None else Some l)"
  using assms
proof (induction ls)
  case (Cons x ls)
  obtain j l where x: "x = (j, l)" by (cases x)
  have "map_of ls j = None" using Cons.prems x by (simp add: map_of_eq_None_iff)
  then show ?case using Cons x by (auto simp: prune_def)
qed (simp add: prune_def)

lemma calmer_prune: "distinct (List.map fst ls) \<Longrightarrow> calmer (map_of ls i) (map_of (prune now ls) i)"
  by (auto simp: map_of_prune calmer_def split: option.split)

lemma distinct_prune: "distinct (List.map fst ls) \<Longrightarrow> distinct (List.map fst (prune now ls))"
  by (simp add: prune_def distinct_map_filter)

lemma get_launch_found: "get_launch now i ls = (Some l, ls') \<Longrightarrow> ls' = ls \<and> map_of ls i = Some l \<and> \<not> expired_at now l"
  by (auto simp: get_launch_def split: option.splits if_splits)

lemma get_launch_missing:
  assumes "get_launch now i ls = (None, ls')"
  shows "ls' = ls \<or> ls' = AList.delete i ls"
  using assms by (auto simp: get_launch_def split: option.splits if_splits)

section \<open>The registry kept in order\<close>

definition tame :: "launches \<Rightarrow> launches \<Rightarrow> bool" where
  "tame ls ls' \<longleftrightarrow> (distinct (List.map fst ls) \<longrightarrow> distinct (List.map fst ls') \<and> (\<forall>j. calmer (map_of ls j) (map_of ls' j)))"

lemma tame_refl: "tame ls ls"
  by (simp add: tame_def calmer_refl)

lemma tame_delete: "tame ls (AList.delete i ls)"
  by (auto simp: tame_def calmer_refl distinct_delete delete_conv')

lemma tame_get: "get_launch now i ls = (r, ls') \<Longrightarrow> tame ls ls'"
  by (cases r) (auto dest: get_launch_found get_launch_missing intro: tame_refl tame_delete)

lemma tame_update:
  assumes "map_of ls i = Some l" and "ln_claimed l \<longrightarrow> ln_claimed l'" and "ln_key l' = ln_key l \<or> ln_key l' = []"
  shows "tame ls (AList.update i l' ls)"
proof -
  have "calmer (Some l) (Some l')" using assms(2,3) by (simp add: calmer_def)
  then show ?thesis using assms(1) by (simp add: tame_def calmer_refl distinct_update)
qed

lemma tame_relabel: "map_of ls i = Some l \<Longrightarrow> tame ls (AList.update i (l\<lparr>ln_state := a, ln_message := b\<rparr>) ls)"
  by (rule tame_update [where l = l]) simp_all

lemma tame_claim:
  "claim_launch now i ls = (r, ls') \<Longrightarrow> tame ls ls'"
  by (auto simp: claim_launch_def intro: tame_refl tame_update split: option.splits if_splits)

lemma cn_launches_simps [simp]:
  "cn_launches (on_launches f s) = f (cn_launches s)"
  "cn_launches (set_launch i l s) = AList.update i l (cn_launches s)"
  by (simp_all add: on_launches_def set_launch_def)

lemma fail_launch_tame: "map_of (cn_launches s) i = Some l \<Longrightarrow> tame (cn_launches s) (cn_launches (fail_launch i l m s))"
  by (auto simp: fail_launch_def intro: tame_update)

lemma keep_session_launches:
  "cn_launches (keep_session env vendor captured i session l s)
     = AList.update i (l\<lparr>ln_key := [], ln_state := ''connected''\<rparr>) (cn_launches s)"
  by (simp add: keep_session_def Let_def)

lemma check_session_tame:
  assumes "map_of (cn_launches s) i = Some l" and "check_session env captured vendor ps jar i l s = (r, s')"
  shows "tame (cn_launches s) (cn_launches s')"
proof -
  have "tame (cn_launches s) (AList.update i (l\<lparr>ln_key := [], ln_state := ''connected''\<rparr>) (cn_launches s))"
    by (rule tame_update [OF assms(1)]) simp_all
  then show ?thesis using assms(2) fail_launch_tame [OF assms(1)]
    by (auto simp: check_session_def Let_def keep_session_launches intro: tame_refl
        split: sum.splits prod.splits if_splits)
qed

lemma take_payload_tame:
  assumes "map_of (cn_launches s) i = Some l" and "take_payload env captured payload i l s = (r, s')"
  shows "tame (cn_launches s) (cn_launches s')"
  using assms fail_launch_tame [OF assms(1)] check_session_tame [OF assms(1)]
  by (auto simp: take_payload_def intro: tame_refl split: sum.splits prod.splits option.splits if_splits)

lemma callback_tame:
  assumes "connect_callback env now captured i sealed s = (r, s')"
  shows "tame (cn_launches s) (cn_launches s')"
proof -
  obtain found ls where get: "get_launch now i (cn_launches s) = (found, ls)" by fastforce
  show ?thesis
  proof (cases found)
    case None
    then show ?thesis using assms get tame_get [OF get] by (auto simp: connect_callback_def)
  next
    case (Some l)
    then have l: "map_of (cn_launches s) i = Some l" using get get_launch_found by blast
    show ?thesis using assms get Some fail_launch_tame [OF l] take_payload_tame [OF l]
      by (auto simp: connect_callback_def intro: tame_refl split: sum.splits if_splits)
  qed
qed

lemma claim_tame: "connect_claim env now i s = (r, s') \<Longrightarrow> tame (cn_launches s) (cn_launches s')"
  by (auto simp: connect_claim_def intro: tame_refl tame_claim split: prod.splits option.splits sum.splits)

lemma cancel_tame:
  assumes "connect_cancel now i s = (r, s')"
  shows "tame (cn_launches s) (cn_launches s')"
proof -
  obtain found ls where get: "get_launch now i (cn_launches s) = (found, ls)" by fastforce
  show ?thesis
  proof (cases found)
    case None
    then show ?thesis using assms get tame_get [OF get] by (auto simp: connect_cancel_def)
  next
    case (Some l)
    then have "map_of (cn_launches s) i = Some l" using get get_launch_found by blast
    then show ?thesis using assms get Some by (auto simp: connect_cancel_def intro: tame_relabel)
  qed
qed

lemma status_tame: "connect_status env signed now i pick s = (r, s') \<Longrightarrow> tame (cn_launches s) (cn_launches s')"
  by (auto simp: connect_status_def Let_def intro: tame_refl tame_get split: prod.splits sum.splits if_splits)

section \<open>Runs\<close>

datatype mark = Minted string | Handed_out string | Stored string

text \<open>
  \<open>connect_run env s log\<close>: the registry started empty and the requests so far have left it in \<open>s\<close>;
  the log has the launches minted, the keys handed out and the sessions stored, the newest first.
  Between requests the settings, the administrator and the engine may change in any way.
\<close>

inductive connect_run :: "connect_env \<Rightarrow> connect \<Rightarrow> mark list \<Rightarrow> bool" for env where
  empty: "cn_launches s = [] \<Longrightarrow> connect_run env s []"
| elsewhere: "connect_run env s log \<Longrightarrow> cn_launches s' = cn_launches s \<Longrightarrow> connect_run env s' log"
| begun: "connect_run env s log \<Longrightarrow> connect_begin env signed now i key s = (Inr (Began j), s') \<Longrightarrow>
    connect_run env s' (Minted i # log)"
| paged: "connect_run env s log \<Longrightarrow> connect_page env signed now i key s = (Inr (Began j), s') \<Longrightarrow>
    connect_run env s' (Minted i # log)"
| wizard: "connect_run env s log \<Longrightarrow> wizard_connect env signed now i key s = (Inr (Began j), s') \<Longrightarrow>
    connect_run env s' (Minted i # log)"
| claimed: "connect_run env s log \<Longrightarrow> connect_claim env now i s = (r, s') \<Longrightarrow>
    connect_run env s' (case r of Inr (Handed _ _ _ _) \<Rightarrow> Handed_out i # log | _ \<Rightarrow> log)"
| called_back: "connect_run env s log \<Longrightarrow> connect_callback env now captured i sealed s = (r, s') \<Longrightarrow>
    connect_run env s' (if r = Inr Taken then Stored i # log else log)"
| cancelled: "connect_run env s log \<Longrightarrow> connect_cancel now i s = (r, s') \<Longrightarrow> connect_run env s' log"
| polled: "connect_run env s log \<Longrightarrow> connect_status env signed now i pick s = (r, s') \<Longrightarrow> connect_run env s' log"

definition accounted :: "mark list \<Rightarrow> launches \<Rightarrow> bool" where
  "accounted log ls \<longleftrightarrow> distinct (List.map fst ls) \<and> (\<forall>i.
     count_list log (Handed_out i) + unclaimed (map_of ls i) \<le> count_list log (Minted i) \<and>
     count_list log (Stored i) + armed (map_of ls i) \<le> count_list log (Minted i))"

lemma accounted_tame:
  assumes "accounted log ls" and "tame ls ls'"
  shows "accounted log ls'"
proof -
  have "unclaimed (map_of ls' i) \<le> unclaimed (map_of ls i)" "armed (map_of ls' i) \<le> armed (map_of ls i)" for i
    using assms calmer_weights by (auto simp: accounted_def tame_def)
  with assms show ?thesis unfolding accounted_def tame_def by (meson add_left_mono order_trans)
qed

lemma accounted_create:
  assumes "accounted log ls"
  shows "accounted (Minted i # log) (create_launch now i key url ls)"
proof -
  have d: "distinct (List.map fst ls)" using assms by (simp add: accounted_def)
  have "tame ls (prune now ls)" using calmer_prune distinct_prune by (auto simp: tame_def)
  then have "accounted log (prune now ls)" by (rule accounted_tame [OF assms])
  then show ?thesis
    by (auto simp: accounted_def create_launch_def distinct_update unclaimed_def armed_def
        intro: le_trans [OF _ le_SucI] dest: add_leD1)
qed

text \<open>Handing a key out uses up the claim, storing a session uses up the key.\<close>

lemma accounted_hand:
  assumes "accounted log ls" and "map_of ls i = Some l" and "\<not> ln_claimed l"
  shows "accounted (Handed_out i # log) (AList.update i (l\<lparr>ln_claimed := True\<rparr>) ls)"
proof -
  have "count_list (Handed_out i # log) (Handed_out j) + unclaimed (map_of (AList.update i (l\<lparr>ln_claimed := True\<rparr>) ls) j)
      \<le> count_list (Handed_out i # log) (Minted j) \<and>
    count_list (Handed_out i # log) (Stored j) + armed (map_of (AList.update i (l\<lparr>ln_claimed := True\<rparr>) ls) j)
      \<le> count_list (Handed_out i # log) (Minted j)" for j
    using assms by (cases "j = i") (auto simp: accounted_def unclaimed_def armed_def dest!: spec [of _ j])
  then show ?thesis using assms(1) by (simp add: accounted_def distinct_update)
qed

lemma accounted_store:
  assumes "accounted log ls" and "map_of ls i = Some l" and "ln_claimed l" and "ln_key l \<noteq> []"
  shows "accounted (Stored i # log) (AList.update i (l\<lparr>ln_key := [], ln_state := st\<rparr>) ls)"
proof -
  have "count_list (Stored i # log) (Handed_out j) + unclaimed (map_of (AList.update i (l\<lparr>ln_key := [], ln_state := st\<rparr>) ls) j)
      \<le> count_list (Stored i # log) (Minted j) \<and>
    count_list (Stored i # log) (Stored j) + armed (map_of (AList.update i (l\<lparr>ln_key := [], ln_state := st\<rparr>) ls) j)
      \<le> count_list (Stored i # log) (Minted j)" for j
    using assms by (cases "j = i") (auto simp: accounted_def unclaimed_def armed_def dest!: spec [of _ j])
  then show ?thesis using assms(1) by (simp add: accounted_def distinct_update)
qed

lemma handed_uses_claim:
  assumes "connect_claim env now i s = (Inr (Handed k u c cs), s')"
  obtains l where "map_of (cn_launches s) i = Some l" "\<not> ln_claimed l"
    "cn_launches s' = AList.update i (l\<lparr>ln_claimed := True\<rparr>) (cn_launches s)"
  using assms by (auto simp: connect_claim_def claim_launch_def split: option.splits if_splits sum.splits)

lemma stored_uses_key:
  assumes "connect_callback env now captured i sealed s = (Inr Taken, s')" and "\<forall>x. isl (cx_unseal env [] x)"
  obtains l where "map_of (cn_launches s) i = Some l" "ln_claimed l" "ln_key l \<noteq> []" "\<not> expired_at now l"
    "cn_launches s' = AList.update i (l\<lparr>ln_key := [], ln_state := ''connected''\<rparr>) (cn_launches s)"
proof -
  obtain l ls where get: "get_launch now i (cn_launches s) = (Some l, ls)"
    using assms(1) by (auto simp: connect_callback_def split: prod.splits option.splits)
  obtain payload where l: "ln_claimed l" and open_: "cx_unseal env (ln_key l) sealed = Inr payload"
    and taken: "take_payload env captured payload i l s = (Inr Taken, s')"
    using assms(1) get by (auto simp: connect_callback_def split: if_splits sum.splits)
  have "cn_launches s' = AList.update i (l\<lparr>ln_key := [], ln_state := ''connected''\<rparr>) (cn_launches s)"
    using taken by (auto simp: take_payload_def check_session_def Let_def keep_session_launches
        split: sum.splits prod.splits option.splits if_splits)
  moreover have "ln_key l \<noteq> []" using open_ assms(2) by (metis sum.disc(2))
  ultimately show thesis using that get_launch_found [OF get] l by blast
qed

lemma began_creates:
  "connect_page env signed now i key s = (Inr (Began j), s') \<Longrightarrow> \<exists>url. cn_launches s' = create_launch now i key url (cn_launches s)"
  "connect_begin env signed now i key s = (Inr (Began j), s') \<Longrightarrow> \<exists>url. cn_launches s' = create_launch now i key url (cn_launches s)"
  "wizard_connect env signed now i key s = (Inr (Began j), s') \<Longrightarrow> \<exists>url. cn_launches s' = create_launch now i key url (cn_launches s)"
  by (auto simp: connect_page_def connect_begin_def wizard_connect_def split: if_splits sum.splits)

lemma run_accounted:
  assumes "connect_run env s log" and unseal: "\<forall>x. isl (cx_unseal env [] x)"
  shows "accounted log (cn_launches s)"
  using assms(1)
proof induction
  case (empty s)
  then show ?case by (simp add: accounted_def unclaimed_def armed_def)
next
  case (elsewhere s log s')
  then show ?case by simp
next
  case (begun s log signed now i key j s')
  then show ?case using began_creates(2) [OF begun(2)] accounted_create by force
next
  case (paged s log signed now i key j s')
  then show ?case using began_creates(1) [OF paged(2)] accounted_create by force
next
  case (wizard s log signed now i key j s')
  then show ?case using began_creates(3) [OF wizard(2)] accounted_create by force
next
  case (claimed s log now i r s')
  show ?case
  proof (cases "\<exists>k u c cs. r = Inr (Handed k u c cs)")
    case True
    then obtain k u c cs where r: "r = Inr (Handed k u c cs)" by blast
    obtain l where "map_of (cn_launches s) i = Some l" "\<not> ln_claimed l"
      "cn_launches s' = AList.update i (l\<lparr>ln_claimed := True\<rparr>) (cn_launches s)"
      using handed_uses_claim [OF claimed(2) [unfolded r]] by blast
    then show ?thesis using accounted_hand [OF claimed(3)] r by simp
  next
    case False
    then have "(case r of Inr (Handed _ _ _ _) \<Rightarrow> Handed_out i # log | _ \<Rightarrow> log) = log"
      by (auto split: sum.split answer.split)
    then show ?thesis using accounted_tame [OF claimed(3) claim_tame [OF claimed(2)]] by simp
  qed
next
  case (called_back s log now captured i sealed r s')
  show ?case
  proof (cases "r = Inr Taken")
    case True
    obtain l where "map_of (cn_launches s) i = Some l" "ln_claimed l" "ln_key l \<noteq> []"
      "cn_launches s' = AList.update i (l\<lparr>ln_key := [], ln_state := ''connected''\<rparr>) (cn_launches s)"
      using stored_uses_key [OF called_back(2) [unfolded True] unseal] by blast
    then show ?thesis using accounted_store [OF called_back(3)] True by simp
  next
    case False
    then show ?thesis using accounted_tame [OF called_back(3) callback_tame [OF called_back(2)]] by simp
  qed
next
  case (cancelled s log now i r s')
  then show ?case using accounted_tame cancel_tame by blast
next
  case (polled s log signed now i pick r s')
  then show ?case using accounted_tame status_tame by blast
qed

end
