(* ===== verification/Schema_Migrations.thy ===== *)
theory Schema_Migrations
  imports Tracking Hub_Services
begin

text \<open>
  \<open>db/schema.py\<close>: the migrations, run once each and in order at startup. The steps that only create
  or drop tables, columns and indexes leave the rows of the model as they are (a new column reads
  NULL); the six that move data are functions on the tables. Each statement commits on its own, so
  a step that raises leaves what it had done, and its name unrecorded.
\<close>

section \<open>The database\<close>

text \<open>A row of \<open>pacs_cards\<close> as it is inserted: the two encrypted columns by their plain text.\<close>

record stored_card =
  sc_person :: string
  sc_credential :: string
  sc_slot :: json
  sc_facility_code :: string
  sc_card_number :: string
  sc_active :: "bool option"

record database =
  db_rows :: table
  db_settings :: settings
  db_cards :: "stored_card list"
  db_applied :: "string list"

definition integrity_error :: exn where
  "integrity_error = PyError ''IntegrityError'' ''UNIQUE constraint failed''"

definition SEOS_KEY :: string where "SEOS_KEY = ''millennium_seos_slots''"

section \<open>The steps that move data\<close>

text \<open>005: the credential ids, and the ledger of what was written.\<close>

definition slot_keyed :: "tracked \<Rightarrow> bool" where
  "slot_keyed t \<longleftrightarrow> sql_like ''seos-slot%'' (t_credential_id t)"

definition drop_slot :: "tracked \<Rightarrow> tracked" where
  "drop_slot t = (if slot_keyed t then t\<lparr>t_credential_id := ''seos''\<rparr> else t)"

text \<open>The update keeps the primary key or fails as a whole.\<close>

definition drop_slots :: "(database, unit) comp" where
  "drop_slots db =
     (let rows = List.map drop_slot (db_rows db) in
      if table_ok t_key rows then (Inr (), db\<lparr>db_rows := rows\<rparr>) else (Inl integrity_error, db))"

definition merge_key :: "string \<Rightarrow> string" where
  "merge_key k = (let (person, credential) = py_partition (CHR '':'') k in
     if py_startswith credential ''seos-slot'' then person @ '':seos'' else k)"

text \<open>\<open>migrated.setdefault(key, []).extend(entries)\<close> for every item.\<close>

definition merge_ledger :: "(string \<times> json) list \<Rightarrow> (string \<times> json list) list res" where
  "merge_ledger items = bind_res (map_res (\<lambda>(k, v). bind_res (jiter v) (\<lambda>es. Inr (merge_key k, es))) items)
     (\<lambda>kes. Inr (fold (\<lambda>(k, es) d. AList.update k (dict_list d k @ es) d) kes []))"

fun items_of :: "json \<Rightarrow> (string \<times> json) list res" where
  "items_of (JObj d) = Inr d"
| "items_of _ = Inl (attribute_error ''items'')"

definition stored_ledger :: "vault \<Rightarrow> settings \<Rightarrow> (string \<times> json) list option res" where
  "stored_ledger v rows =
     (case setting_get rows SEOS_KEY of
        None \<Rightarrow> Inr None
      | Some raw \<Rightarrow> bind_res (va_open v raw) (\<lambda>j. bind_res (items_of j) (\<lambda>d. Inr (Some d))))"

definition m005 :: "vault \<Rightarrow> (database, unit) comp" where
  "m005 v = bind_comp drop_slots (\<lambda>_ db.
     (case bind_res (stored_ledger v (db_settings db)) (\<lambda>items. case items of None \<Rightarrow> Inr None
          | Some d \<Rightarrow> bind_res (merge_ledger d) (\<lambda>m. Inr (Some m))) of
        Inl e \<Rightarrow> (Inl e, db)
      | Inr None \<Rightarrow> (Inr (), db)
      | Inr (Some m) \<Rightarrow> (Inr (), db\<lparr>db_settings :=
          setting_set SEOS_KEY (va_seal v (JObj (List.map (\<lambda>(k, es). (k, JArr es)) m))) (db_settings db)\<rparr>)))"

text \<open>006: \<open>UPDATE OR REPLACE .. SET key\<close>.\<close>

definition m006 :: "(database, unit) comp" where
  "m006 db = (Inr (), db\<lparr>db_settings :=
     (case setting_get (db_settings db) ''millennium_session'' of
        None \<Rightarrow> db_settings db
      | Some value \<Rightarrow> List.map (\<lambda>r. if se_key r = ''millennium_session'' then r\<lparr>se_key := session_key ''millennium_ultra''\<rparr> else r)
          (setting_delete (session_key ''millennium_ultra'') (db_settings db)))\<rparr>)"

definition m007 :: "(database, unit) comp" where
  "m007 db = (Inr (), db\<lparr>db_rows := List.map (\<lambda>t. if t_status t = ''deleted'' then t\<lparr>t_ag_card_id := None\<rparr> else t) (db_rows db)\<rparr>)"

text \<open>008: \<open>GLOB 'slot[0-9]*'\<close>, pending, without a card.\<close>

definition abandoned :: "tracked \<Rightarrow> bool" where
  "abandoned t \<longleftrightarrow> py_startswith (t_credential_id t) ''slot'' \<and> 4 < length (t_credential_id t) \<and>
     is_digit (t_credential_id t ! 4) \<and> t_status t = ''pending'' \<and> t_ag_card_id t = None"

definition m008 :: "(database, unit) comp" where
  "m008 db = (Inr (), db\<lparr>db_rows := List.filter (\<lambda>t. \<not> abandoned t) (db_rows db)\<rparr>)"

text \<open>011: one row per card of the ledger, and the blob deleted.\<close>

definition bool_of :: "json \<Rightarrow> bool option" where
  "bool_of v = (case v of JVal (PBool b) \<Rightarrow> Some b | _ \<Rightarrow> None)"

definition card_of_entry :: "string \<Rightarrow> json \<Rightarrow> stored_card res" where
  "card_of_entry k entry =
     bind_res (jget ''active'' entry) (\<lambda>active. bind_res (jget ''slot'' entry) (\<lambda>slot.
     bind_res (jget ''facility_code'' entry) (\<lambda>fc. bind_res (jget ''card_number'' entry) (\<lambda>num.
       Inr \<lparr>sc_person = fst (py_partition (CHR '':'') k), sc_credential = snd (py_partition (CHR '':'') k), sc_slot = slot,
         sc_facility_code = jstr fc, sc_card_number = jstr num, sc_active = bool_of active\<rparr>))))"

definition insert_card :: "string \<Rightarrow> json \<Rightarrow> unit \<Rightarrow> (database, unit) comp" where
  "insert_card k entry _ db =
     (case card_of_entry k entry of
        Inl e \<Rightarrow> (Inl e, db) | Inr c \<Rightarrow> (Inr (), db\<lparr>db_cards := db_cards db @ [c]\<rparr>))"

definition insert_cards :: "string \<times> json \<Rightarrow> unit \<Rightarrow> (database, unit) comp" where
  "insert_cards kv _ db =
     (case jiter (snd kv) of Inl e \<Rightarrow> (Inl e, db) | Inr es \<Rightarrow> for_each (insert_card (fst kv)) es () db)"

definition m011 :: "vault \<Rightarrow> (database, unit) comp" where
  "m011 v db =
     (case stored_ledger v (db_settings db) of
        Inl e \<Rightarrow> (Inl e, db)
      | Inr None \<Rightarrow> (Inr (), db)
      | Inr (Some items) \<Rightarrow> bind_comp (for_each insert_cards items ())
          (\<lambda>_ db'. (Inr (), db'\<lparr>db_settings := setting_delete SEOS_KEY (db_settings db')\<rparr>)) db)"

text \<open>013: a card without a known Active box, on a pass that was never installed, was put off by us.\<close>

definition waits_for_install :: "table \<Rightarrow> stored_card \<Rightarrow> bool" where
  "waits_for_install rows c \<longleftrightarrow> sc_active c = None \<and>
     (\<exists>t\<in>set rows. t_key t = (sc_person c, sc_credential c) \<and> t_ag_card_id t \<noteq> None \<and> t_last_known_ag_state t = ''created'')"

definition m013 :: "(database, unit) comp" where
  "m013 db = (Inr (), db\<lparr>db_cards := List.map (\<lambda>c. if waits_for_install (db_rows db) c then c\<lparr>sc_active := Some False\<rparr> else c) (db_cards db)\<rparr>)"

section \<open>Running them\<close>

definition schema_only :: "(database, unit) comp" where
  "schema_only db = (Inr (), db)"

definition MIGRATIONS :: "vault \<Rightarrow> (string \<times> (database, unit) comp) list" where
  "MIGRATIONS v =
     [(''001_init'', schema_only), (''002_login_rate_limit'', schema_only), (''003_login_rate_limit_lock_level'', schema_only),
      (''004_ag_credentials_sync_ref'', schema_only), (''005_seos_credential_id_drops_the_slot'', m005 v),
      (''006_pacs_session_is_keyed_by_vendor'', m006), (''007_release_card_ids_on_deleted_rows'', m007),
      (''008_drop_abandoned_desfire_rows'', m008), (''009_failed_saves'', schema_only), (''010_drop_failed_saves'', schema_only),
      (''011_seos_ledger_becomes_pacs_cards'', m011 v), (''012_last_synced_expiration'', schema_only),
      (''013_legacy_cards_wait_for_install'', m013)]"

definition migrate_step :: "string list \<Rightarrow> string \<times> (database, unit) comp \<Rightarrow> unit \<Rightarrow> (database, unit) comp" where
  "migrate_step applied nm _ db =
     (if fst nm \<in> set applied then (Inr (), db)
      else (case snd nm db of
          (Inl e, db') \<Rightarrow> (Inl e, db')
        | (Inr _, db') \<Rightarrow> (Inr (), db'\<lparr>db_applied := db_applied db' @ [fst nm]\<rparr>)))"

definition apply_migrations :: "vault \<Rightarrow> (database, unit) comp" where
  "apply_migrations v db = for_each (migrate_step (db_applied db)) (MIGRATIONS v) () db"

section \<open>What they guarantee\<close>

text \<open>A step keeps the record of what was applied, so a successful run records every name.\<close>

definition keeps_applied :: "(database, unit) comp \<Rightarrow> bool" where
  "keeps_applied m \<longleftrightarrow> (\<forall>db. db_applied (snd (m db)) = db_applied db)"

lemma insert_cards_keeps: "db_applied (snd (insert_cards kv u db)) = db_applied db"
proof -
  have "db_applied (snd (for_each (insert_card k) es () db)) = db_applied db" for k es
    by (rule for_each_invariant) (auto simp: insert_card_def split: sum.split)
  then show ?thesis by (auto simp: insert_cards_def split: sum.split)
qed

lemma m011_keeps: "keeps_applied (m011 v)"
proof -
  have "db_applied (snd (for_each insert_cards items () db)) = db_applied db" for items db
    by (rule for_each_invariant) (auto simp: insert_cards_keeps)
  then show ?thesis
    by (auto simp: keeps_applied_def m011_def bind_comp_def split: sum.split option.split prod.split)
      (metis snd_conv)+
qed

lemma m005_keeps: "keeps_applied (m005 v)"
  by (auto simp: keeps_applied_def m005_def drop_slots_def Let_def bind_comp_def split: sum.split option.split)

lemma MIGRATIONS_keep: "nm \<in> set (MIGRATIONS v) \<Longrightarrow> keeps_applied (snd nm)"
  by (auto simp: MIGRATIONS_def m005_keeps m011_keeps) (simp_all add: keeps_applied_def schema_only_def m006_def m007_def m008_def m013_def)

lemma migrations_recorded:
  assumes "for_each (migrate_step applied) ms () db = (Inr u, db')" and "set applied \<subseteq> set (db_applied db)"
    and "\<And>nm. nm \<in> set ms \<Longrightarrow> keeps_applied (snd nm)"
  shows "set applied \<union> fst ` set ms \<subseteq> set (db_applied db') \<and> set (db_applied db) \<subseteq> set (db_applied db')"
  using assms
proof (induction ms arbitrary: db)
  case (Cons nm ms)
  obtain db1 where step: "migrate_step applied nm () db = (Inr (), db1)"
    and rest: "for_each (migrate_step applied) ms () db1 = (Inr u, db')"
    using Cons.prems(1) by (auto split: prod.splits sum.splits)
  have keep: "keeps_applied (snd nm)" using Cons.prems(3) by simp
  have "insert (fst nm) (set (db_applied db)) \<subseteq> insert (fst nm) (set (db_applied db1))" "fst nm \<in> set (db_applied db1)"
    "set (db_applied db) \<subseteq> set (db_applied db1)"
    using step Cons.prems(2) keep
    by (auto simp: migrate_step_def keeps_applied_def split: if_splits prod.splits sum.splits) (metis snd_conv)+
  moreover have "set applied \<union> fst ` set ms \<subseteq> set (db_applied db') \<and> set (db_applied db1) \<subseteq> set (db_applied db')"
    using Cons.prems(2,3) calculation by (intro Cons.IH [OF rest]) auto
  ultimately show ?case by auto
qed simp

lemma all_applied_skipped:
  assumes "fst ` set ms \<subseteq> set applied"
  shows "for_each (migrate_step applied) ms () db = (Inr (), db)"
  using assms by (induction ms) (auto simp: migrate_step_def)

lemma migrations_settle:
  assumes "apply_migrations v db = (Inr u, db')"
  shows "apply_migrations v db' = (Inr (), db')"
proof -
  have "fst ` set (MIGRATIONS v) \<subseteq> set (db_applied db')"
    using migrations_recorded [of "db_applied db" "MIGRATIONS v" db u db'] assms MIGRATIONS_keep
    by (simp add: apply_migrations_def)
  then show ?thesis by (simp add: apply_migrations_def all_applied_skipped)
qed

text \<open>
  Migration 005 on the very rows it was written for: a cardholder tracked under two slot ids. The
  update would give both the id \<open>seos\<close>, so it fails, and so does every later start.
\<close>

lemma drop_slots_conflict:
  assumes "t \<in> set (db_rows db)" and "u \<in> set (db_rows db)" and "t_key t \<noteq> t_key u"
    and "slot_keyed t" and "slot_keyed u" and "t_person_id t = t_person_id u"
  shows "drop_slots db = (Inl integrity_error, db)"
proof -
  have "t_key (drop_slot t) = t_key (drop_slot u)" using assms(4-6) by (simp add: drop_slot_def t_key_def)
  moreover obtain i j where "i < length (db_rows db)" "j < length (db_rows db)" "db_rows db ! i = t" "db_rows db ! j = u"
    using assms(1,2) by (auto simp: in_set_conv_nth)
  moreover have "i \<noteq> j" using calculation assms(3) by auto
  ultimately have "\<not> distinct (List.map t_key (List.map drop_slot (db_rows db)))"
    using nth_eq_iff_index_eq [of "List.map t_key (List.map drop_slot (db_rows db))" i j] by auto
  then show ?thesis by (simp add: drop_slots_def table_ok_def)
qed

lemma migrations_stuck:
  assumes "drop_slots db = (Inl e, db)" and "db_applied db = List.map fst (take 4 (MIGRATIONS v))"
  shows "apply_migrations v db = (Inl e, db)"
  using assms by (simp add: apply_migrations_def MIGRATIONS_def migrate_step_def m005_def bind_comp_def)

text \<open>Migration 011: the cards of the ledger, in its order, after what the table held.\<close>

lemma insert_card_loop:
  assumes "map_res (card_of_entry k) es = Inr cs"
  shows "for_each (insert_card k) es () db = (Inr (), db\<lparr>db_cards := db_cards db @ cs\<rparr>)"
  using assms
proof (induction es arbitrary: cs db)
  case (Cons e es)
  then obtain c cs' where "card_of_entry k e = Inr c" "map_res (card_of_entry k) es = Inr cs'" "cs = c # cs'"
    by (auto simp: bind_res_Inr_iff)
  then show ?case using Cons.IH [of cs' "db\<lparr>db_cards := db_cards db @ [c]\<rparr>"] by (simp add: insert_card_def)
qed simp

definition cards_of_items :: "(string \<times> json) list \<Rightarrow> stored_card list res" where
  "cards_of_items items = bind_res (map_res (\<lambda>(k, v). bind_res (jiter v) (map_res (card_of_entry k))) items) (\<lambda>xs. Inr (concat xs))"

lemma insert_cards_loop:
  assumes "cards_of_items items = Inr cs"
  shows "for_each insert_cards items () db = (Inr (), db\<lparr>db_cards := db_cards db @ cs\<rparr>)"
  using assms
proof (induction items arbitrary: cs db)
  case (Cons kv items)
  obtain k v where kv: "kv = (k, v)" by (cases kv)
  from Cons.prems obtain es c cs' where "jiter v = Inr es" "map_res (card_of_entry k) es = Inr c"
    "cards_of_items items = Inr cs'" "cs = c @ cs'"
    by (auto simp: cards_of_items_def kv bind_res_Inr_iff)
  then show ?case using Cons.IH [of cs' "db\<lparr>db_cards := db_cards db @ c\<rparr>"] insert_card_loop [of k es c db]
    by (simp add: insert_cards_def kv)
qed (simp add: cards_of_items_def)

lemma m011_moves:
  assumes "stored_ledger v (db_settings db) = Inr (Some items)" and "cards_of_items items = Inr cs"
  shows "m011 v db = (Inr (), db\<lparr>db_cards := db_cards db @ cs, db_settings := setting_delete SEOS_KEY (db_settings db)\<rparr>)"
  using assms insert_cards_loop [OF assms(2), of db] by (simp add: m011_def bind_comp_def)

text \<open>Merging loses no entry: what a merged key holds is what its old keys held, in their order.\<close>

lemma merged_fold:
  "dict_list (fold (\<lambda>(k, es) d. AList.update k (dict_list d k @ es) d) kes d) k
     = dict_list d k @ concat (List.map snd (List.filter (\<lambda>(k', _). k' = k) kes))"
proof (induction kes arbitrary: d)
  case (Cons ke kes)
  obtain k' es where "ke = (k', es)" by (cases ke)
  then show ?case using Cons.IH by (auto simp: dict_list_def)
qed simp

end
