(* ===== verification/Status_Report.thy ===== *)
theory Status_Report
  imports Json_Data Hub_Time Complex_Main
begin

text \<open>
  The status report (\<open>status/payload.py\<close>) and the thread that sends it (\<open>status/reporter.py\<close>,
  \<open>status/transport.py\<close>): the body as a pure function of the engine's status dictionary, and how long
  the thread waits after each beat. Posting is a parameter; numbers that arrive as text or as a
  float are read by Python's \<open>float\<close>, a parameter too, whose value may be infinite or not a number.
\<close>

section \<open>Scrubbing free text\<close>

text \<open>\<open>\w\<close> below code point 256.\<close>

definition is_word_char :: "char \<Rightarrow> bool" where
  "is_word_char c \<longleftrightarrow> (let n = (of_char c :: nat) in
     (97 \<le> n \<and> n \<le> 122) \<or> (65 \<le> n \<and> n \<le> 90) \<or> (48 \<le> n \<and> n \<le> 57) \<or> n = 95
     \<or> n \<in> {170, 178, 179, 181, 185, 186, 188, 189, 190} \<or> (192 \<le> n \<and> n \<noteq> 215 \<and> n \<noteq> 247))"

definition is_alpha :: "char \<Rightarrow> bool" where
  "is_alpha c \<longleftrightarrow> (let n = (of_char c :: nat) in (97 \<le> n \<and> n \<le> 122) \<or> (65 \<le> n \<and> n \<le> 90))"

text \<open>
  A pattern at a position: the character before it (None at the start) and the text from it on; the
  result is what the match leaves. The greedy classes of the three patterns never contain the
  character that has to follow them, so nothing is given back.
\<close>

type_synonym pattern = "char option \<Rightarrow> string \<Rightarrow> string option"

definition at_boundary :: "char option \<Rightarrow> bool" where
  "at_boundary before = (case before of None \<Rightarrow> True | Some c \<Rightarrow> \<not> is_word_char c)"

text \<open>\<open>\S+\<close>.\<close>

definition some_nonspace :: "string \<Rightarrow> string option" where
  "some_nonspace s = (let rest = dropWhile (\<lambda>c. \<not> is_space c) s in if rest = s then None else Some rest)"

definition urlish :: pattern where
  "urlish before s =
     (case s of
        [] \<Rightarrow> None
      | c # r \<Rightarrow>
          let after = dropWhile (\<lambda>d. is_alpha d \<or> is_digit d \<or> d \<in> set ''+.-'') r in
          if at_boundary before \<and> is_alpha c \<and> py_startswith after ''://'' then some_nonspace (drop 3 after) else None)"

definition windows_path :: pattern where
  "windows_path before s =
     (case s of
        c # d # e # r \<Rightarrow>
          if at_boundary before \<and> is_alpha c \<and> d = CHR '':'' \<and> (of_char e :: nat) = 92 then some_nonspace r else None
      | _ \<Rightarrow> None)"

definition path_char :: "char \<Rightarrow> bool" where
  "path_char c \<longleftrightarrow> is_word_char c \<or> c = CHR ''.'' \<or> c = CHR ''-''"

text \<open>The directories of a path, each with its slash: how many there are and what follows.\<close>

function directories :: "string \<Rightarrow> nat \<times> string" where
  "directories s =
     (let rest = dropWhile path_char s in
      if rest \<noteq> s \<and> rest \<noteq> [] \<and> hd rest = CHR ''/''
      then (let (n, after) = directories (tl rest) in (Suc n, after)) else (0, s))"
  by auto

termination
proof (relation "measure length")
  fix s rest :: string
  assume "rest = dropWhile path_char s" "rest \<noteq> s \<and> rest \<noteq> [] \<and> hd rest = CHR ''/''"
  then have "length (tl rest) < length rest" "length rest \<le> length s" by (auto simp: length_dropWhile_le)
  then show "(tl rest, s) \<in> measure length" by simp
qed simp

definition posix_path :: pattern where
  "posix_path before s =
     (case s of
        [] \<Rightarrow> None
      | c # r \<Rightarrow>
          if c = CHR ''/'' \<and> (case before of None \<Rightarrow> True | Some b \<Rightarrow> \<not> is_word_char b \<and> b \<noteq> CHR ''.'')
          then (let (n, rest) = directories r in if 2 \<le> n then Some (dropWhile path_char rest) else None)
          else None)"

text \<open>\<open>pattern.sub(by, text)\<close>: the leftmost match, and on from its end. The fuel is the length of the text.\<close>

definition last_of :: "string \<Rightarrow> string \<Rightarrow> char option" where
  "last_of s rest = (let taken = take (length s - length rest) s in if taken = [] then None else Some (last taken))"

fun sub_from :: "nat \<Rightarrow> pattern \<Rightarrow> string \<Rightarrow> char option \<Rightarrow> string \<Rightarrow> string" where
  "sub_from 0 p repl before s = s"
| "sub_from (Suc n) p repl before [] = []"
| "sub_from (Suc n) p repl before (c # s) =
     (case p before (c # s) of
        Some rest \<Rightarrow> repl @ sub_from n p repl (last_of (c # s) rest) rest
      | None \<Rightarrow> c # sub_from n p repl (Some c) s)"

definition sub_all :: "pattern \<Rightarrow> string \<Rightarrow> string \<Rightarrow> string" where
  "sub_all p repl s = sub_from (length s) p repl None s"

definition rstrip :: "string \<Rightarrow> string" where
  "rstrip s = rev (dropWhile is_space (rev s))"

definition MAX_FREE_TEXT :: nat where "MAX_FREE_TEXT = 200"

text \<open>The ellipsis a cut text ends with is one character past 255; a full stop stands for it here.\<close>

definition scrub :: "string \<Rightarrow> string" where
  "scrub s =
     (if s = '''' then '''' else
      let cleaned = py_join '' '' (split_space
            (sub_all posix_path ''[path]'' (sub_all windows_path ''[path]'' (sub_all urlish ''[url]'' s))))
      in if MAX_FREE_TEXT < length cleaned then rstrip (take (MAX_FREE_TEXT - 1) cleaned) @ ''.'' else cleaned)"

lemma scrub_capped: "length (scrub s) \<le> MAX_FREE_TEXT"
proof -
  have "length (rstrip u) \<le> length u" for u by (simp add: rstrip_def) (metis length_dropWhile_le length_rev)
  then have "length (rstrip (take (MAX_FREE_TEXT - 1) u)) \<le> MAX_FREE_TEXT - 1" for u
    by (metis length_take min.cobounded2 order_trans)
  then show ?thesis
    using Suc_le_mono [of _ "MAX_FREE_TEXT - 1"] by (auto simp: scrub_def Let_def MAX_FREE_TEXT_def)
qed

section \<open>The body\<close>

type_synonym dict = "(string \<times> json) list"

text \<open>\<open>_z\<close>: UTC to the second with a Z; nothing for an empty value, the text itself when it is no timestamp.\<close>

definition zulu :: "json \<Rightarrow> json" where
  "zulu v =
     (if \<not> jtruthy v then JNull else
      (case parse_iso (jstr v) of
         None \<Rightarrow> v
       | Some d \<Rightarrow> let us = dt_us d div 1000000 in
           JStr (iso_date (us div 86400) @ ''T'' @ iso_clock (us mod 86400) @ ''Z'')))"

definition dget_or :: "dict \<Rightarrow> string \<Rightarrow> json \<Rightarrow> json" where
  "dget_or d k v = (case map_of d k of None \<Rightarrow> v | Some u \<Rightarrow> u)"

abbreviation JBool :: "bool \<Rightarrow> json" where "JBool b \<equiv> JVal (PBool b)"

definition direction :: "bool option \<Rightarrow> json" where
  "direction writes = (case writes of None \<Rightarrow> JNull | Some w \<Rightarrow> JStr (if w then ''ag_to_pacs'' else ''pacs_to_ag''))"

definition connection_status :: "dict \<Rightarrow> bool \<Rightarrow> string" where
  "connection_status status configured =
     (if \<not> configured then ''not_configured''
      else if jtruthy (jlookup status ''reconnect_required'') then ''session_expired''
      else if \<not> jtruthy (dget_or status ''pacs_reachable'' (JBool True)) then ''unreachable''
      else ''connected'')"

definition sync_state :: "dict \<Rightarrow> string" where
  "sync_state status =
     (if \<not> jtruthy (jlookup status ''running'') then ''stopped''
      else if jtruthy (jlookup status ''paused'') then ''paused'' else ''running'')"

definition last_cycle :: "dict \<Rightarrow> json res" where
  "last_cycle status =
     (let c = jlookup status ''last_cycle'' in
      if \<not> jtruthy c then Inr JNull else
      (case c of
         JObj d \<Rightarrow>
           (let err = jlookup d ''error''; n = (\<lambda>k. dget_or d k (JInt 0)) in
            Inr (JObj [(''started_at'', zulu (jlookup d ''started_at'')), (''duration_ms'', jlookup d ''duration_ms''),
              (''ok'', JBool (\<not> jtruthy err)),
              (''error'', if scrub (text_or_empty err) = '''' then JNull else JStr (scrub (text_or_empty err))),
              (''provisioned'', n ''provisioned''), (''status_changes'', n ''status_changes''), (''deleted'', n ''deleted''),
              (''credentials_written'', n ''ag_to_pacs''), (''field_updates'', n ''field_updates''),
              (''retried'', n ''retried'')]))
       | _ \<Rightarrow> Inl (attribute_error ''get'')))"

text \<open>\<open>_conditions\<close>; the totals are counts.\<close>

definition conditions :: "dict \<Rightarrow> string \<Rightarrow> string \<Rightarrow> (string \<times> int) list \<Rightarrow> string list" where
  "conditions status connection state totals =
     (if connection = ''session_expired'' then [''pacs_session_expired''] else [])
     @ (if connection = ''unreachable'' then [''pacs_unreachable''] else [])
     @ (if jtruthy (dget_or status ''ag_reachable'' (JBool True)) then [] else [''ag_unreachable''])
     @ (if state = ''paused'' then [''engine_paused''] else [])
     @ (if jtruthy (jlookup status ''last_cycle'') then [] else [''never_synced''])
     @ (if 0 < (case map_of totals ''failed'' of None \<Rightarrow> 0 | Some n \<Rightarrow> n) then [''provision_failures''] else [])"

definition pacs_block :: "dict \<Rightarrow> string \<Rightarrow> string \<Rightarrow> bool option \<Rightarrow> json list" where
  "pacs_block status vendor display writes =
     (if vendor = '''' then [] else
      [JObj [(''vendor'', JStr vendor), (''display_name'', JStr (if display = '''' then vendor else display)),
         (''direction'', direction writes), (''connection_status'', JStr (connection_status status True)),
         (''last_successful_read_at'', zulu (jlookup status ''last_pacs_read_iso''))]])"

definition build_report ::
    "string \<Rightarrow> dict \<Rightarrow> (string \<times> string) list \<Rightarrow> int \<Rightarrow> string \<Rightarrow> string \<Rightarrow> bool option \<Rightarrow> (string \<times> int) list \<Rightarrow> json res" where
  "build_report now status who uptime vendor display writes totals =
     (let connection = connection_status status (vendor \<noteq> ''''); state = sync_state status in
      bind_res (jint (jor (jlookup status ''cached_interval_s'') (JInt 0))) (\<lambda>interval.
      bind_res (last_cycle status) (\<lambda>cycle.
        Inr (JObj [(''schema'', JInt 1), (''sent_at'', JStr now),
          (''instance'', JObj (AList.update ''uptime_s'' (JInt uptime) (List.map (\<lambda>(k, v). (k, JStr v)) who))),
          (''pacs'', JArr (pacs_block status vendor display writes)),
          (''sync'', JObj [(''state'', JStr state), (''pause_reason'', JStr (scrub (text_or_empty (jlookup status ''pause_reason'')))),
             (''interval_s'', JInt interval), (''next_run_at'', zulu (jlookup status ''next_run_iso'')),
             (''consecutive_errors'', dget_or status ''consecutive_errors'' (JInt 0)), (''last_cycle'', cycle)]),
          (''totals'', JObj (List.map (\<lambda>(k, n). (k, JInt n)) totals)),
          (''conditions'', JArr (List.map JStr (conditions status connection state totals)))]))))"

text \<open>When nothing is reported wrong.\<close>

lemma no_conditions:
  "conditions status (connection_status status configured) (sync_state status) totals = [] \<longleftrightarrow>
     (configured \<longrightarrow> \<not> jtruthy (jlookup status ''reconnect_required'') \<and> jtruthy (dget_or status ''pacs_reachable'' (JBool True))) \<and>
     jtruthy (dget_or status ''ag_reachable'' (JBool True)) \<and>
     \<not> (jtruthy (jlookup status ''running'') \<and> jtruthy (jlookup status ''paused'')) \<and>
     jtruthy (jlookup status ''last_cycle'') \<and>
     (case map_of totals ''failed'' of None \<Rightarrow> True | Some n \<Rightarrow> n \<le> 0)"
  by (auto simp: conditions_def connection_status_def sync_state_def split: option.splits)

section \<open>The reporting thread\<close>

text \<open>What Python's \<open>float\<close> may give: a finite number, an infinity, or not a number.\<close>

datatype pyfloat = Fin rat | PosInf | NegInf | NaN

fun flt_less :: "pyfloat \<Rightarrow> pyfloat \<Rightarrow> bool" where
  "flt_less (Fin a) (Fin b) = (a < b)"
| "flt_less (Fin a) PosInf = True"
| "flt_less NegInf (Fin b) = True"
| "flt_less NegInf PosInf = True"
| "flt_less _ _ = False"

text \<open>\<open>min(a, b)\<close> and \<open>max(a, b)\<close>: the first unless the second is smaller, or greater.\<close>

definition py_min :: "pyfloat \<Rightarrow> pyfloat \<Rightarrow> pyfloat" where
  "py_min a b = (if flt_less b a then b else a)"

definition py_max :: "pyfloat \<Rightarrow> pyfloat \<Rightarrow> pyfloat" where
  "py_max a b = (if flt_less a b then b else a)"

definition MIN_INTERVAL_S :: rat where "MIN_INTERVAL_S = 15"
definition MAX_INTERVAL_S :: rat where "MAX_INTERVAL_S = 300"
definition DEFAULT_INTERVAL_S :: rat where "DEFAULT_INTERVAL_S = 15"
definition BACKOFF_S :: "rat list" where "BACKOFF_S = [15, 30, 60, 120, 300]"
definition HARD_BACKOFF_S :: rat where "HARD_BACKOFF_S = 300"
definition MAX_WAIT_S :: rat where "MAX_WAIT_S = 900"
definition HARD_FAILURES :: "nat list" where "HARD_FAILURES = [401, 403, 404]"
definition CONFIG_TTL :: int where "CONFIG_TTL = 60 * 1000000"

definition clamp :: "rat \<Rightarrow> rat \<Rightarrow> pyfloat \<Rightarrow> pyfloat" where
  "clamp lo hi x = py_max (Fin lo) (py_min (Fin hi) x)"

definition sane_wait :: "pyfloat \<Rightarrow> pyfloat" where
  "sane_wait w = (if w = NaN then Fin DEFAULT_INTERVAL_S else clamp MIN_INTERVAL_S MAX_WAIT_S w)"

text \<open>
  The state a beat reads and writes: failures in a row, the cached account (None for none usable)
  and when it was read (None before the first time), and the interval of this reporter.
\<close>

record reporter =
  rp_failures :: nat
  rp_account :: "(string \<times> string) option"
  rp_read_at :: "int option"
  rp_interval :: rat

definition new_reporter :: "rat \<Rightarrow> reporter" where
  "new_reporter interval = \<lparr>rp_failures = 0, rp_account = None, rp_read_at = None,
     rp_interval = max MIN_INTERVAL_S (min MAX_INTERVAL_S interval)\<rparr>"

text \<open>How posting a report ended: a decoded body, a refusal with its \<open>Retry-After\<close>, or an exception.\<close>

datatype post_end = Answered dict | Status_rejected nat "pyfloat option" | Failed exn

text \<open>\<open>send\<close> once the response is there: what is not 2xx raises, no body or none that is a dictionary is empty.\<close>

definition retry_after :: "(string \<Rightarrow> pyfloat option) \<Rightarrow> string option \<Rightarrow> pyfloat option" where
  "retry_after read_float header =
     (let raw = py_strip (case header of None \<Rightarrow> '''' | Some h \<Rightarrow> h) in if raw = '''' then None else read_float raw)"

definition take_response ::
    "(string \<Rightarrow> pyfloat option) \<Rightarrow> nat \<Rightarrow> string option \<Rightarrow> bool \<Rightarrow> json option \<Rightarrow> post_end" where
  "take_response read_float status header has_body body =
     (if \<not> (200 \<le> status \<and> status < 300) then Status_rejected status (retry_after read_float header)
      else if status = 204 \<or> \<not> has_body then Answered []
      else (case body of Some (JObj d) \<Rightarrow> Answered d | _ \<Rightarrow> Answered []))"

definition read_account :: "int \<Rightarrow> (string \<times> string) option res \<Rightarrow> reporter \<Rightarrow> (exn + (string \<times> string) option) \<times> reporter" where
  "read_account now stored rp =
     (case rp_read_at rp of
        Some t \<Rightarrow> if now - t < CONFIG_TTL then (Inr (rp_account rp), rp) else
           (case stored of Inl e \<Rightarrow> (Inl e, rp)
            | Inr c \<Rightarrow> (Inr c, rp\<lparr>rp_read_at := Some now, rp_account := c\<rparr>))
      | None \<Rightarrow> (case stored of Inl e \<Rightarrow> (Inl e, rp)
            | Inr c \<Rightarrow> (Inr c, rp\<lparr>rp_read_at := Some now, rp_account := c\<rparr>)))"

definition interval_from :: "(json \<Rightarrow> pyfloat option) \<Rightarrow> reporter \<Rightarrow> dict \<Rightarrow> pyfloat" where
  "interval_from to_float rp body =
     (let advised = jlookup body ''report_interval_s'' in
      if advised = JNull then Fin (rp_interval rp)
      else (case to_float advised of None \<Rightarrow> Fin (rp_interval rp) | Some w \<Rightarrow> clamp MIN_INTERVAL_S MAX_INTERVAL_S w))"

definition backoff :: "nat \<Rightarrow> pyfloat" where
  "backoff failures = Fin (BACKOFF_S ! (min failures (length BACKOFF_S) - 1))"

definition after_post :: "(json \<Rightarrow> pyfloat option) \<Rightarrow> post_end \<Rightarrow> reporter \<Rightarrow> pyfloat \<times> reporter" where
  "after_post to_float e rp =
     (let rp' = rp\<lparr>rp_failures := Suc (rp_failures rp)\<rparr> in
      case e of
        Answered body \<Rightarrow> (interval_from to_float rp body, rp\<lparr>rp_failures := 0\<rparr>)
      | Status_rejected status (Some r) \<Rightarrow> (clamp MIN_INTERVAL_S MAX_WAIT_S r, rp')
      | Status_rejected status None \<Rightarrow>
          (if status \<in> set HARD_FAILURES then Fin HARD_BACKOFF_S else backoff (rp_failures rp'), rp')
      | Failed _ \<Rightarrow> (backoff (rp_failures rp'), rp'))"

text \<open>
  One beat: nothing to report to without an account; \<open>post\<close> builds and sends the report. Every
  exception ends in a wait, so the beat itself never raises.
\<close>

definition beat ::
    "(json \<Rightarrow> pyfloat option) \<Rightarrow> (string \<times> string \<Rightarrow> post_end) \<Rightarrow> int \<Rightarrow> (string \<times> string) option res \<Rightarrow> reporter
      \<Rightarrow> pyfloat \<times> reporter" where
  "beat to_float post now stored rp =
     (case read_account now stored rp of
        (Inl e, rp1) \<Rightarrow> after_post to_float (Failed e) rp1
      | (Inr None, rp1) \<Rightarrow> (Fin (rp_interval rp1), rp1)
      | (Inr (Some account), rp1) \<Rightarrow> after_post to_float (post account) rp1)"

definition run_once ::
    "(json \<Rightarrow> pyfloat option) \<Rightarrow> (string \<times> string \<Rightarrow> post_end) \<Rightarrow> int \<Rightarrow> (string \<times> string) option res \<Rightarrow> reporter
      \<Rightarrow> pyfloat \<times> reporter" where
  "run_once to_float post now stored rp = (let (w, rp') = beat to_float post now stored rp in (sane_wait w, rp'))"

section \<open>Waits are bounded\<close>

lemma clamp_bounds:
  assumes "lo \<le> hi"
  shows "\<exists>w. clamp lo hi x = Fin w \<and> lo \<le> w \<and> w \<le> hi"
  using assms by (cases x) (auto simp: clamp_def py_max_def py_min_def)

lemma sane_wait_bounds: "\<exists>w. sane_wait x = Fin w \<and> MIN_INTERVAL_S \<le> w \<and> w \<le> MAX_WAIT_S"
  using clamp_bounds [of MIN_INTERVAL_S MAX_WAIT_S x]
  by (auto simp: sane_wait_def DEFAULT_INTERVAL_S_def MIN_INTERVAL_S_def MAX_WAIT_S_def)

text \<open>A wait already inside the bounds is kept.\<close>

lemma sane_wait_id: "MIN_INTERVAL_S \<le> w \<Longrightarrow> w \<le> MAX_WAIT_S \<Longrightarrow> sane_wait (Fin w) = Fin w"
  by (auto simp: sane_wait_def clamp_def py_max_def py_min_def)

text \<open>\<open>n\<close> refused beats in a row without a \<open>Retry-After\<close>.\<close>

lemma backoff_schedule:
  "backoff 1 = Fin 15" "backoff 2 = Fin 30" "backoff 3 = Fin 60" "backoff 4 = Fin 120" "5 \<le> n \<Longrightarrow> backoff n = Fin 300"
  by (simp_all add: backoff_def BACKOFF_S_def min_def nth_Cons')

lemma failed_beat_backs_off:
  assumes "read_account now stored rp = (Inr (Some account), rp1)" and "post account = Failed e"
  shows "beat to_float post now stored rp = (backoff (Suc (rp_failures rp1)), rp1\<lparr>rp_failures := Suc (rp_failures rp1)\<rparr>)"
  using assms by (simp add: beat_def after_post_def)

end
