(* ===== verification/Vault_Demo.thy ===== *)
theory Vault_Demo
  imports Settings_Store
begin

text \<open>
  A vault the witnesses can evaluate: JSON values written as text and read back. It stands in for
  Fernet over \<open>json.dumps\<close>, of which the properties use only that what was sealed opens to itself.
  Characters and digits are written one by one, each with a mark, so reading needs no look-ahead.
\<close>

fun enc_str :: "string \<Rightarrow> string" where
  "enc_str [] = ''.''"
| "enc_str (c # s) = CHR ''c'' # c # enc_str s"

fun dec_str :: "string \<Rightarrow> (string \<times> string) option" where
  "dec_str (m # s) =
     (if m = CHR ''.'' then Some ([], s)
      else (case s of [] \<Rightarrow> None | c # r \<Rightarrow> map_option (\<lambda>(t, r'). (c # t, r')) (dec_str r)))"
| "dec_str [] = None"

lemma dec_enc_str: "dec_str (enc_str s @ r) = Some (s, r)"
  by (induction s) auto

definition enc_int :: "int \<Rightarrow> string" where
  "enc_int i = (if i < 0 then ''-'' else ''+'') @ enc_str (replicate (nat \<bar>i\<bar>) (CHR ''1''))"

definition dec_int :: "string \<Rightarrow> (int \<times> string) option" where
  "dec_int s = (case s of [] \<Rightarrow> None | c # r \<Rightarrow>
     map_option (\<lambda>(t, r'). ((if c = CHR ''-'' then - 1 else 1) * int (length t), r')) (dec_str r))"

lemma dec_enc_int: "dec_int (enc_int i @ r) = Some (i, r)"
  by (simp add: enc_int_def dec_int_def dec_enc_str)

fun enc_val :: "pyval \<Rightarrow> string" where
  "enc_val PNone = ''n''"
| "enc_val (PStr s) = ''s'' @ enc_str s"
| "enc_val (PInt i) = ''i'' @ enc_int i"
| "enc_val (PBool b) = (if b then ''t'' else ''f'')"

fun enc_json :: "json \<Rightarrow> string" and enc_list :: "json list \<Rightarrow> string" and enc_items :: "(string \<times> json) list \<Rightarrow> string" where
  "enc_json (JVal v) = enc_val v"
| "enc_json (JArr xs) = ''a'' @ enc_list xs"
| "enc_json (JObj d) = ''o'' @ enc_items d"
| "enc_list [] = '']''"
| "enc_list (x # xs) = '','' @ enc_json x @ enc_list xs"
| "enc_items [] = '']''"
| "enc_items ((k, v) # d) = '','' @ enc_str k @ enc_json v @ enc_items d"

text \<open>Every call reads at least one character, so the length of the text is fuel enough.\<close>

fun dec_json :: "nat \<Rightarrow> string \<Rightarrow> (json \<times> string) option"
  and dec_list :: "nat \<Rightarrow> string \<Rightarrow> (json list \<times> string) option"
  and dec_items :: "nat \<Rightarrow> string \<Rightarrow> ((string \<times> json) list \<times> string) option" where
  "dec_json 0 s = None"
| "dec_json (Suc n) s = (case s of [] \<Rightarrow> None | c # r \<Rightarrow>
     if c = CHR ''n'' then Some (JNull, r)
     else if c = CHR ''t'' then Some (JVal (PBool True), r)
     else if c = CHR ''f'' then Some (JVal (PBool False), r)
     else if c = CHR ''s'' then map_option (\<lambda>(t, r'). (JStr t, r')) (dec_str r)
     else if c = CHR ''i'' then map_option (\<lambda>(i, r'). (JInt i, r')) (dec_int r)
     else if c = CHR ''a'' then map_option (\<lambda>(xs, r'). (JArr xs, r')) (dec_list n r)
     else if c = CHR ''o'' then map_option (\<lambda>(d, r'). (JObj d, r')) (dec_items n r)
     else None)"
| "dec_list 0 s = None"
| "dec_list (Suc n) s = (case s of [] \<Rightarrow> None | c # r \<Rightarrow>
     if c = CHR '']'' then Some ([], r)
     else (case dec_json n r of None \<Rightarrow> None
       | Some (x, r') \<Rightarrow> map_option (\<lambda>(xs, r''). (x # xs, r'')) (dec_list n r')))"
| "dec_items 0 s = None"
| "dec_items (Suc n) s = (case s of [] \<Rightarrow> None | c # r \<Rightarrow>
     if c = CHR '']'' then Some ([], r)
     else (case dec_str r of None \<Rightarrow> None | Some (k, r1) \<Rightarrow>
       (case dec_json n r1 of None \<Rightarrow> None
        | Some (v, r2) \<Rightarrow> map_option (\<lambda>(d, r3). ((k, v) # d, r3)) (dec_items n r2))))"

lemma dec_enc:
  "length (enc_json j) \<le> n \<Longrightarrow> dec_json n (enc_json j @ r) = Some (j, r)"
  "length (enc_list xs) \<le> n \<Longrightarrow> dec_list n (enc_list xs @ r) = Some (xs, r)"
  "length (enc_items d) \<le> n \<Longrightarrow> dec_items n (enc_items d @ r) = Some (d, r)"
proof (induction j and xs and d arbitrary: n r and n r and n r rule: enc_json_enc_list_enc_items.induct)
  case (1 v)
  then show ?case by (cases n; cases v) (auto simp: dec_enc_str dec_enc_int split: if_splits)
next
  case (2 xs)
  then show ?case by (cases n) simp_all
next
  case (3 d)
  then show ?case by (cases n) simp_all
next
  case 4
  then show ?case by (cases n) simp_all
next
  case (5 x xs)
  then show ?case by (cases n) simp_all
next
  case 6
  then show ?case by (cases n) simp_all
next
  case (7 k v d)
  then show ?case by (cases n) (simp_all add: dec_enc_str)
qed

definition demo_vault :: vault where
  "demo_vault = \<lparr>va_seal = enc_json,
     va_open = (\<lambda>s. case dec_json (length s) s of Some (j, []) \<Rightarrow> Inr j | _ \<Rightarrow> Inl (PyError ''CryptoError'' ''''))\<rparr>"

lemma enc_nonempty: "enc_json j \<noteq> []"
proof (cases j)
  case (JVal v)
  then show ?thesis by (cases v) auto
qed simp_all

lemma demo_vault_sound: "sound_vault demo_vault"
proof -
  have "dec_json (length (enc_json j)) (enc_json j) = Some (j, [])" for j
    using dec_enc(1) [of j "length (enc_json j)" "[]"] by simp
  then show ?thesis by (simp add: sound_vault_def demo_vault_def enc_nonempty)
qed

end
