(* ===== verification/Hub_Properties.thy ===== *)
theory Hub_Properties
  imports Sign_In Connect_Laws Schema_Migrations Status_Report Vault_Demo
begin

text \<open>The properties of the hub around the sync, each with a run on a small site.\<close>

section \<open>Signing in\<close>

definition plain_hasher :: hasher where
  "plain_hasher = \<lparr>hh_hash = (\<lambda>pw. pw),
     hh_verify = (\<lambda>stored pw. if stored = pw then Inr () else Inl (PyError ''VerifyMismatchError'' '''')),
     hh_needs_rehash = (\<lambda>_. False)\<rparr>"

definition guarded_site :: site where
  "guarded_site = \<lparr>si_admin = Some \<lparr>ad_username = ''admin'', ad_hash = ''secret''\<rparr>, si_attempts = []\<rparr>"



section \<open>The forms\<close>

definition demo_pages :: page_env where
  "demo_pages = \<lparr>pg_vault = demo_vault, pg_hasher = plain_hasher, pg_card_formats = (\<lambda>_ _. Inr [(''7'', ''AG'')]),
     pg_ag_test = (\<lambda>_ _ _. True), pg_bracketed = (\<lambda>_. True)\<rparr>"

definition demo_hub :: "admin option \<Rightarrow> hub" where
  "demo_hub a = \<lparr>hb_site = \<lparr>si_admin = a, si_attempts = []\<rparr>, hb_settings = [], hb_engine = initial_status, hb_running = False\<rparr>"

text \<open>
  Once there is an administrator, no form of the wizard or of the settings page does anything
  without a session: each is refused and the hub is as it was. Without one (on a fresh install,
  and again after \<open>agsync reset-admin\<close>) the wizard takes anyone's AccessGrid account: the passes
  of the site are issued in it from then on.
\<close>

theorem forms_need_a_session:
  assumes "admin_exists h" and "\<not> admin_exists g" and "py_isdigit (py_strip code)"
  shows "(\<exists>c. submit env False f h = (Inr (Refused c), h)) \<and>
    (\<exists>g'. submit env False (WizardAccessGrid account secret template code) g = (Inr (Redirect ''/wizard''), g') \<and>
       hb_settings g' = ag_save (pg_vault env) (new_config account secret template code) (hb_settings g))"
  using unsigned_refused [OF assms(1), of env f] open_until_bootstrapped [OF assms(2,3), of env account secret template]
  by auto

theorem forms_need_a_session_witness:
  "\<exists>c. submit demo_pages False (SetDryRun ''on'') (demo_hub (si_admin guarded_site)) =
      (Inr (Refused c), demo_hub (si_admin guarded_site))"
proof -
  have a: "admin_exists (demo_hub (si_admin guarded_site))" by (simp add: admin_exists_def demo_hub_def guarded_site_def)
  have b: "\<not> admin_exists (demo_hub None)" by (simp add: admin_exists_def demo_hub_def)
  have c: "py_isdigit (py_strip ''42 '')" by code_simp
  from forms_need_a_session [OF a b c] show ?thesis by blast
qed

text \<open>
  A change to the AccessGrid configuration changes what it names and nothing else. Over any
  stored configuration, each of the five updates succeeds, the blob it leaves is the
  configuration with just those fields replaced (an empty key keeping the stored one), and every
  other setting is as it was; so the updates refine the record updates of the configuration.
\<close>

theorem config_updates_are_record_updates:
  assumes "sound_vault v" and "holds_config v rows c"
  shows "config_step v rows (c\<lparr>gc_site_code := code\<rparr>) (update_site_code v code rows) \<and>
    config_step v rows (c\<lparr>gc_dedupe := b\<rparr>) (update_dedupe v b rows) \<and>
    config_step v rows (c\<lparr>gc_card_title := t, gc_card_classification := cl\<rparr>) (update_card_fields v t cl rows) \<and>
    config_step v rows (c\<lparr>gc_extra_metadata := ps\<rparr>) (update_extra_metadata v ps rows) \<and>
    config_step v rows (c\<lparr>gc_account_id := a, gc_template_id := tp,
      gc_api_secret := (if secret = '''' then gc_api_secret c else secret)\<rparr>) (update_credentials v a secret tp rows)"
  using update_site_code_config [OF assms] update_dedupe_config [OF assms] update_card_fields_config [OF assms]
    update_extra_metadata_config [OF assms] update_credentials_config [OF assms]
  by blast

definition demo_config :: ag_config where
  "demo_config = new_config ''acct'' ''key'' ''tpl'' ''42''"

theorem config_updates_are_record_updates_witness:
  "config_step demo_vault (ag_save demo_vault demo_config []) (demo_config\<lparr>gc_account_id := ''b'', gc_template_id := ''t2''\<rparr>)
     (update_credentials demo_vault ''b'' '''' ''t2'' (ag_save demo_vault demo_config [])) \<and>
   fst (update_credentials demo_vault ''b'' '''' ''t2'' (ag_save demo_vault demo_config [])) = Inr True"
proof -
  let ?rows = "ag_save demo_vault demo_config []"
  have "holds_config demo_vault ?rows demo_config" by (rule holds_save [OF demo_vault_sound])
  note all = config_updates_are_record_updates [OF demo_vault_sound this, where a = "''b''" and tp = "''t2''" and secret = "[]"]
  have "demo_config\<lparr>gc_account_id := ''b'', gc_template_id := ''t2'', gc_api_secret := gc_api_secret demo_config\<rparr>
      = demo_config\<lparr>gc_account_id := ''b'', gc_template_id := ''t2''\<rparr>"
    by (simp add: demo_config_def new_config_def)
  with all have "config_step demo_vault ?rows (demo_config\<lparr>gc_account_id := ''b'', gc_template_id := ''t2''\<rparr>)
      (update_credentials demo_vault ''b'' '''' ''t2'' ?rows)"
    by simp
  then show ?thesis by (simp add: config_step_def)
qed

text \<open>
  The address form. Over a stored configuration of a vendor that has an address, a text that
  reads as the address a is accepted; if a is the stored one nothing changes, and otherwise just
  that parameter of the configuration changes, the captured session of the old host is gone and
  the adapter is rebuilt. Either way the form settles: posting the address the page now shows
  changes nothing (unless it carries a semicolon, which reading it may drop).
\<close>

theorem address_form_settles:
  assumes "sound_vault (pg_vault env)" and "stored_pacs env h vendor ps opts" and "address_fields (get_descriptor vendor) = [f]"
    and "normalise_url (pg_bracketed env) (py_strip (form_get form f '''')) = Inr (Some a)" and "py_strip a = a" and "CHR '';'' \<notin> set a"
  shows "\<exists>h'. submit env True (SetAddress form) h = (Inr address_ok, h') \<and>
    (if jget_or f (JStr '''') (JObj ps) = Inr (JStr a) then h' = h
     else stored_pacs env h' vendor (AList.update f (JStr a) ps) opts \<and>
       session_connected (pg_vault env) vendor (hb_settings h') = Inr False \<and>
       es_generation (hb_engine h') = Suc (es_generation (hb_engine h))) \<and>
    submit env True (SetAddress [(f, a)]) h' = (Inr address_ok, h')"
proof -
  let ?h' = "if jget_or f (JStr '''') (JObj ps) = Inr (JStr a) then h else moved_hub env vendor (AList.update f (JStr a) ps) opts h"
  let ?ps = "if jget_or f (JStr '''') (JObj ps) = Inr (JStr a) then ps else AList.update f (JStr a) ps"
  have first: "read_address env form f = Inr (Some (f, JStr a))" using assms(4) by (simp add: read_address_def)
  have again: "read_address env [(f, a)] f = Inr (Some (f, JStr a))"
    using normalise_again [OF assms(4,6)] assms(5) by (simp add: read_address_def form_get_def)
  have stored: "stored_pacs env ?h' vendor ?ps opts" using assms(2) pacs_of_moved [OF assms(1)] by simp
  have "jget_or f (JStr '''') (JObj ?ps) = Inr (JStr a)" by (auto simp: update_conv')
  with post_address [OF assms(1) stored assms(3) again] have "submit env True (SetAddress [(f, a)]) ?h' = (Inr address_ok, ?h')"
    by simp
  with post_address [OF assms(1,2,3) first] show ?thesis
    using pacs_of_moved [OF assms(1)] by (intro exI [of _ ?h']) (simp add: no_session_after_move, simp add: moved_hub_def invalidate_pacs_adapter_def)
qed

definition cdvi_hub :: hub where
  "cdvi_hub = (demo_hub None)\<lparr>hb_settings := pacs_save demo_vault ''cdvi'' [(''base_url'', JStr ''https://10.0.0.1'')] []
     (session_save demo_vault ''cdvi'' [(''auth_cookie'', JStr ''x'')] [])\<rparr>"

theorem address_form_settles_witness:
  "\<exists>h'. submit demo_pages True (SetAddress [(''base_url'', '' HTTP://h:80/a/ '')]) cdvi_hub = (Inr address_ok, h') \<and>
     session_connected demo_vault ''cdvi'' (hb_settings h') = Inr False \<and>
     submit demo_pages True (SetAddress [(''base_url'', ''http://h:80/a'')]) h' = (Inr address_ok, h')"
proof -
  let ?ps = "[(''base_url'', JStr ''https://10.0.0.1'')]"
  have a: "sound_vault (pg_vault demo_pages)" by (simp add: demo_pages_def demo_vault_sound)
  have b: "stored_pacs demo_pages cdvi_hub ''cdvi'' ?ps []"
    by (simp add: stored_pacs_def cdvi_hub_def demo_pages_def pacs_load_def pacs_save_def get_json_set_json [OF demo_vault_sound])
  have c: "address_fields (get_descriptor ''cdvi'') = [''base_url'']" by code_simp
  have d: "normalise_url (pg_bracketed demo_pages) (py_strip (form_get [(''base_url'', '' HTTP://h:80/a/ '')] ''base_url'' '''')) =
      Inr (Some ''http://h:80/a'')"
    unfolding demo_pages_def page_env.select_convs by code_simp
  have e: "py_strip ''http://h:80/a'' = ''http://h:80/a''" by code_simp
  show ?thesis using address_form_settles [OF a b c d e] by (auto simp: demo_pages_def)
qed

section \<open>AG Connect\<close>

text \<open>
  C7. A launch serves once. Over any requests to AG Connect, in any order, at any times and with
  any ids and payloads, and whatever happens to the settings in between, a launch's key is handed
  out at most as often as a launch was minted under its id, and so is a session stored under it:
  with ids that are never minted twice, at most once each, so a replayed link or callback gets
  nothing.
\<close>

theorem launch_serves_once:
  assumes "connect_run env s marks" and "\<forall>x. isl (cx_unseal env [] x)"
  shows "count_list marks (Handed_out i) \<le> count_list marks (Minted i) \<and>
    count_list marks (Stored i) \<le> count_list marks (Minted i)"
  using run_accounted [OF assms] by (simp add: accounted_def) (meson add_leD1)

definition demo_connect_env :: connect_env where
  "demo_connect_env = \<lparr>cx_pages = demo_pages,
     cx_unseal = (\<lambda>k x. if k = [] then Inl (PyError ''ValueError'' ''key size'') else Inr (JObj
       [(''cookies'', JArr [JObj [(''name'', JStr ''Ultra''), (''value'', JStr x)]])])),
     cx_session_from = (\<lambda>_ _ jar. Inr [(''auth_cookie'', jlookup jar ''Ultra'')]),
     cx_validate = (\<lambda>_ _ _. Inr (True, ''''))\<rparr>"

definition demo_connect :: connect where
  "demo_connect = \<lparr>cn_launches = [], cn_hub = (demo_hub (si_admin guarded_site))
     \<lparr>hb_settings := pacs_save demo_vault ''millennium_ultra'' [(''base_url'', JStr ''https://u.example'')] [] []\<rparr>,
     cn_throttled = [''reconnect'']\<rparr>"

theorem launch_serves_once_witness:
  "\<exists>s. connect_run demo_connect_env s [Stored ''L'', Handed_out ''L'', Minted ''L''] \<and>
     count_list [Stored ''L'', Handed_out ''L'', Minted ''L''] (Stored ''L'') \<le>
     count_list [Stored ''L'', Handed_out ''L'', Minted ''L''] (Minted ''L'')"
proof -
  let ?s1 = "snd (connect_begin demo_connect_env True 0 ''L'' [1] demo_connect)"
  let ?s2 = "snd (connect_claim demo_connect_env 1 ''L'' ?s1)"
  let ?s3 = "snd (connect_callback demo_connect_env 2 ''now'' ''L'' ''c'' ?s2)"
  have start: "connect_run demo_connect_env demo_connect []" by (rule connect_run.empty) (simp add: demo_connect_def)
  have "fst (connect_begin demo_connect_env True 0 ''L'' [1] demo_connect) = Inr (Began ''L'')" by code_simp
  then have "connect_begin demo_connect_env True 0 ''L'' [1] demo_connect = (Inr (Began ''L''), ?s1)" by (simp only: prod_eq_iff fst_conv snd_conv)
  note minted = connect_run.begun [OF start this]
  have "fst (connect_claim demo_connect_env 1 ''L'' ?s1) = Inr (Handed [1] ''https://u.example/Account'' ''Ultra''
      [''UltraCoreCompanyName'', ''timeoffset'', ''DisableAlarmSound'', ''.AspNetCore.Antiforgery.*''])" by code_simp
  then have "connect_claim demo_connect_env 1 ''L'' ?s1 = (Inr (Handed [1] ''https://u.example/Account'' ''Ultra''
      [''UltraCoreCompanyName'', ''timeoffset'', ''DisableAlarmSound'', ''.AspNetCore.Antiforgery.*'']), ?s2)"
    by (simp only: prod_eq_iff fst_conv snd_conv)
  note handed = connect_run.claimed [OF minted this, unfolded sum.case answer.case]
  have "fst (connect_callback demo_connect_env 2 ''now'' ''L'' ''c'' ?s2) = Inr Taken" by code_simp
  then have "connect_callback demo_connect_env 2 ''now'' ''L'' ''c'' ?s2 = (Inr Taken, ?s3)" by (simp only: prod_eq_iff fst_conv snd_conv)
  note run = connect_run.called_back [OF handed this, unfolded if_P [OF refl]]
  have "\<forall>x. isl (cx_unseal demo_connect_env [] x)" by (simp add: demo_connect_env_def)
  from launch_serves_once [OF run this] run show ?thesis by blast
qed

section \<open>The services\<close>

text \<open>
  The dry-run switch is never more than five seconds stale, and never off by accident. Through
  any waits, reads, failed reads, saves and writes behind the application's back, what \<open>active\<close>
  answers is a value the stored switch had less than five seconds ago, or True for a read that
  failed; in particular the install acts only on a switch that was explicitly stored as \<open>false\<close>.
\<close>

theorem dry_run_answer_is_recent:
  assumes "switched h now rows cache" and "r \<in> {Inr rows, Inl e}" and "dry_active now r cache = (v, cache')"
  shows "(\<exists>t. now - CACHE_TTL < t \<and> held_lately h now t v) \<or> (v \<and> r = Inl e)"
  using assms by (rule dry_active_recent)

theorem dry_run_answer_is_recent_witness:
  "\<exists>h cache. switched h 9 (set_dry_run True []) cache \<and> dry_active 9 (Inr (set_dry_run True [])) cache = (False, cache) \<and>
     (\<exists>t. 9 - CACHE_TTL < t \<and> held_lately h 9 t False)"
proof -
  let ?off = "set_dry_run False []"
  have s0: "switched [(0, stored_dry_run ?off)] 0 ?off None" by (rule switched.fresh)
  have s1: "switched [(0, stored_dry_run ?off)] 0 ?off (Some (0, False))"
    by (rule switched.asked [OF s0, of "Inr ?off" _ False]) (simp_all add: dry_active_def Let_def)
  have s2: "switched [(0, stored_dry_run ?off)] 9 ?off (Some (0, False))" by (rule switched.wait [OF s1]) simp
  have s3: "switched [(9, stored_dry_run (set_dry_run True [])), (0, stored_dry_run ?off)] 9 (set_dry_run True []) (Some (0, False))"
    by (rule switched.behind [OF s2])
  have answer: "dry_active 9 (Inr (set_dry_run True [])) (Some (0, False)) = (False, Some (0, False))"
    by (simp add: dry_active_def CACHE_TTL_def)
  have "Inr (set_dry_run True []) \<in> {Inr (set_dry_run True []), Inl undefined}" by simp
  from dry_run_answer_is_recent [OF s3 this answer] s3 answer show ?thesis by auto
qed

text \<open>
  The log keeps the newest entries. Whatever is logged on an empty table, the table holds at most
  100,000 rows, and they are exactly the last entries logged, numbered in order and none missing in
  between; nothing is dropped before the table is full, and then at least the last 99,001 remain.
\<close>

theorem log_keeps_the_newest:
  "\<exists>d. lg_rows (log_all es \<lparr>lg_rows = [], lg_next = 1, lg_count = None\<rparr>) = drop d (rows_from 1 es) \<and>
     length es - d \<le> MAX_ROWS \<and> (d = 0 \<or> 99001 \<le> length es - d)"
proof -
  let ?st = "log_all es \<lparr>lg_rows = [], lg_next = 1, lg_count = None\<rparr>"
  obtain d where ok: "log_ok ?st" and rows: "lg_rows ?st = drop d (rows_from 1 es)"
    and d: "d = 0 \<or> MAX_ROWS < length es - d + EVICT_BATCH"
    using log_all_rows [of "\<lparr>lg_rows = [], lg_next = 1, lg_count = None\<rparr>" es] by auto
  have "length es - d \<le> MAX_ROWS" using ok rows by (simp add: log_ok_def)
  moreover have "d = 0 \<or> 99001 \<le> length es - d" using d by (auto simp: MAX_ROWS_def EVICT_BATCH_def)
  ultimately show ?thesis using rows by blast
qed

text \<open>
  The reporting thread neither hammers the endpoint nor falls silent. Whatever a beat meets (no
  account, a settings table that cannot be read, a refusal with any \<open>Retry-After\<close> up to an infinite
  or undefined one, a body advising any cadence, any exception), the wait that follows is between
  15 and 900 seconds, exactly what the beat asked for; and a failure without advice waits by the
  schedule, at most five minutes.
\<close>

theorem reporter_wait_bounded:
  assumes "MIN_INTERVAL_S \<le> rp_interval rp" and "rp_interval rp \<le> MAX_INTERVAL_S"
    and "beat to_float post now stored rp = (w, rp')"
  shows "\<exists>r. w = Fin r \<and> MIN_INTERVAL_S \<le> r \<and> r \<le> MAX_WAIT_S \<and> sane_wait w = w \<and> rp_interval rp' = rp_interval rp"
proof -
  have schedule: "\<exists>r. backoff n = Fin r \<and> MIN_INTERVAL_S \<le> r \<and> r \<le> MAX_WAIT_S" for n
  proof -
    have "(BACKOFF_S ! (min n (length BACKOFF_S) - 1)) \<in> set BACKOFF_S" by (rule nth_mem) (simp add: BACKOFF_S_def)
    then show ?thesis by (auto simp: backoff_def BACKOFF_S_def MIN_INTERVAL_S_def MAX_WAIT_S_def)
  qed
  have bounds: "MIN_INTERVAL_S \<le> MAX_INTERVAL_S" "MAX_INTERVAL_S \<le> MAX_WAIT_S" "MIN_INTERVAL_S \<le> HARD_BACKOFF_S"
    "HARD_BACKOFF_S \<le> MAX_WAIT_S"
    by (simp_all add: MIN_INTERVAL_S_def MAX_INTERVAL_S_def MAX_WAIT_S_def HARD_BACKOFF_S_def)
  obtain acc rp1 where acc: "read_account now stored rp = (acc, rp1)" by fastforce
  then have rp1: "rp_interval rp1 = rp_interval rp"
    by (auto simp: read_account_def split: option.splits sum.splits if_splits)
  have interval: "\<exists>r. interval_from to_float rp1 body = Fin r \<and> MIN_INTERVAL_S \<le> r \<and> r \<le> MAX_WAIT_S" for body
    using assms(1,2) rp1 bounds clamp_bounds [OF bounds(1)]
    by (auto simp: interval_from_def Let_def split: option.split) (meson order_trans)
  have after: "\<exists>r. fst (after_post to_float e rp1) = Fin r \<and> MIN_INTERVAL_S \<le> r \<and> r \<le> MAX_WAIT_S"
    "rp_interval (snd (after_post to_float e rp1)) = rp_interval rp1" for e
    using interval schedule bounds clamp_bounds [OF order_trans [OF bounds(1,2)]]
    by (auto simp: after_post_def Let_def split: post_end.split option.split)
  have "\<exists>r. w = Fin r \<and> MIN_INTERVAL_S \<le> r \<and> r \<le> MAX_WAIT_S \<and> rp_interval rp' = rp_interval rp"
  proof (cases acc)
    case (Inl e)
    then show ?thesis using assms(3) acc rp1 after [of "Failed e"] by (simp add: beat_def)
  next
    case (Inr a)
    show ?thesis
    proof (cases a)
      case None
      then show ?thesis using assms acc Inr rp1 bounds by (auto simp: beat_def intro: order_trans)
    next
      case (Some account)
      then show ?thesis using assms(3) acc Inr rp1 after [of "post account"] by (simp add: beat_def)
    qed
  qed
  then show ?thesis using sane_wait_id by auto
qed

theorem reporter_wait_bounded_witness:
  "sane_wait (Fin 900) = Fin 900 \<and>
   beat (\<lambda>_. None) (\<lambda>_. Status_rejected 503 (Some PosInf)) 0 (Inr (Some (''a'', ''s''))) (new_reporter 1)
     = (Fin 900, (new_reporter 1)\<lparr>rp_failures := 1, rp_account := Some (''a'', ''s''), rp_read_at := Some 0\<rparr>)"
proof -
  have beat: "beat (\<lambda>_. None) (\<lambda>_. Status_rejected 503 (Some PosInf)) 0 (Inr (Some (''a'', ''s''))) (new_reporter 1)
     = (Fin 900, (new_reporter 1)\<lparr>rp_failures := 1, rp_account := Some (''a'', ''s''), rp_read_at := Some 0\<rparr>)"
    by (simp add: beat_def read_account_def new_reporter_def after_post_def clamp_def py_min_def py_max_def Let_def
        MIN_INTERVAL_S_def MAX_WAIT_S_def)
  have "MIN_INTERVAL_S \<le> rp_interval (new_reporter 1)" "rp_interval (new_reporter 1) \<le> MAX_INTERVAL_S"
    by (simp_all add: new_reporter_def MIN_INTERVAL_S_def MAX_INTERVAL_S_def)
  from reporter_wait_bounded [OF this beat] beat show ?thesis by auto
qed

text \<open>
  A divergence: an empty list of conditions is documented as healthy, and a hub whose engine is
  stopped reports one. Once it has synced, with both sides last seen reachable, nothing in the
  list says that it no longer runs.
\<close>

theorem stopped_engine_reads_as_healthy:
  "conditions [(''running'', JVal (PBool False)), (''last_cycle'', JObj [(''error'', JNull)])]
     (connection_status [(''running'', JVal (PBool False)), (''last_cycle'', JObj [(''error'', JNull)])] True)
     (sync_state [(''running'', JVal (PBool False)), (''last_cycle'', JObj [(''error'', JNull)])]) [] = [] \<and>
   sync_state [(''running'', JVal (PBool False)), (''last_cycle'', JObj [(''error'', JNull)])] = ''stopped''"
  by code_simp

text \<open>
  A reconnect notice that could not be delivered counts as sent: for six hours no other is tried,
  whatever became of the relay in the meantime.
\<close>

theorem undelivered_notice_is_not_retried:
  assumes "recipient v rows = Inr to" and "should_send t ''reconnect'' memo = (True, memo')"
    and "t \<le> now" and "now - t < RESEND_INTERVAL"
  shows "snd (notify_reconnect_required v (\<lambda>_ _. False) t name body rows memo) = memo' \<and>
    notify_reconnect_required v (\<lambda>_ _. True) now name body rows memo' = (Inr False, memo')"
  using assms by (rule failed_mail_counts_as_sent)

theorem undelivered_notice_is_not_retried_witness:
  "notify_reconnect_required demo_vault (\<lambda>_ _. True) 7 ''Ultra'' '''' [] [(''reconnect'', 0)] = (Inr False, [(''reconnect'', 0)])"
proof -
  have a: "recipient demo_vault [] = Inr ''''" by code_simp
  have b: "should_send 0 ''reconnect'' [] = (True, [(''reconnect'', 0)])" by (simp add: should_send_def)
  from undelivered_notice_is_not_retried [OF a b, of 7] show ?thesis by (simp add: RESEND_INTERVAL_def)
qed

section \<open>The migrations\<close>

text \<open>
  Migration 005 cannot run where it is needed. It exists because a cardholder could come to be
  tracked under two slot ids; on such a table the update gives two rows one primary key, so
  applying the migrations raises, nothing has changed, and neither this migration nor any later
  one ever runs: the hub does not start again.
\<close>

theorem duplicate_slots_block_the_migrations:
  assumes "t \<in> set (db_rows db)" and "u \<in> set (db_rows db)" and "t_key t \<noteq> t_key u"
    and "slot_keyed t" and "slot_keyed u" and "t_person_id t = t_person_id u"
    and "db_applied db = List.map fst (take 4 (MIGRATIONS v))"
  shows "apply_migrations v db = (Inl integrity_error, db)"
  using drop_slots_conflict [OF assms(1-6)] migrations_stuck assms(7) by blast

definition slot_row :: "string \<Rightarrow> tracked" where
  "slot_row c = \<lparr>t_person_id = ''12'', t_credential_id = c, t_ag_card_id = Some ''c1'', t_full_name = '''', t_employee_id = '''',
     t_status = ''active'', t_last_synced_email = '''', t_last_synced_phone = '''', t_last_synced_full_name = '''',
     t_last_synced_title = '''', t_last_known_ag_state = '''', t_sync_error = None, t_retry_count = 0, t_sync_ref = '''',
     t_last_synced_expiration = None, t_created_at = 0, t_updated_at = 0\<rparr>"

definition slot_database :: database where
  "slot_database = \<lparr>db_rows = [slot_row ''seos-slot1'', slot_row ''seos-slot2''], db_settings = [], db_cards = [],
     db_applied = List.map fst (take 4 (MIGRATIONS demo_vault))\<rparr>"

theorem duplicate_slots_block_the_migrations_witness:
  "apply_migrations demo_vault slot_database = (Inl integrity_error, slot_database)"
proof -
  have rows: "slot_row ''seos-slot1'' \<in> set (db_rows slot_database)" "slot_row ''seos-slot2'' \<in> set (db_rows slot_database)"
    by (simp_all add: slot_database_def)
  have keys: "t_key (slot_row ''seos-slot1'') \<noteq> t_key (slot_row ''seos-slot2'')" by (simp add: t_key_def slot_row_def)
  have like: "slot_keyed (slot_row ''seos-slot1'')" "slot_keyed (slot_row ''seos-slot2'')" by code_simp+
  show ?thesis
    by (rule duplicate_slots_block_the_migrations [OF rows keys like]) (simp_all add: slot_row_def slot_database_def)
qed

text \<open>
  Once the migrations have all run, running them again does nothing; and the ledger's move into its
  table (011) adds, after the rows already there, one row per entry in the ledger's order.
\<close>

theorem migrations_run_once:
  assumes "apply_migrations v db = (Inr u, db')" and "stored_ledger v (db_settings db0) = Inr (Some items)"
    and "cards_of_items items = Inr cs"
  shows "apply_migrations v db' = (Inr (), db') \<and>
    m011 v db0 = (Inr (), db0\<lparr>db_cards := db_cards db0 @ cs, db_settings := setting_delete SEOS_KEY (db_settings db0)\<rparr>)"
  using migrations_settle [OF assms(1)] m011_moves [OF assms(2,3)] by blast

definition old_entry :: json where
  "old_entry = JObj [(''slot'', JInt 2), (''facility_code'', JStr ''10''), (''card_number'', JInt 500)]"

definition old_ledger :: "(string \<times> json) list" where
  "old_ledger = [(''12:seos-slot1'', JArr [old_entry])]"

definition old_database :: database where
  "old_database = \<lparr>db_rows = [slot_row ''seos-slot1''], db_settings = set_json demo_vault SEOS_KEY (JObj old_ledger) [],
     db_cards = [], db_applied = List.map fst (take 4 (MIGRATIONS demo_vault))\<rparr>"

theorem migrations_run_once_witness:
  "\<exists>db'. apply_migrations demo_vault (old_database\<lparr>db_settings := []\<rparr>) = (Inr (), db') \<and>
    apply_migrations demo_vault db' = (Inr (), db') \<and> List.map t_credential_id (db_rows db') = [''seos''] \<and>
    List.map sc_card_number (db_cards (snd (m011 demo_vault old_database))) = [''500'']"
proof -
  let ?run = "apply_migrations demo_vault (old_database\<lparr>db_settings := []\<rparr>)"
  have ok: "fst ?run = Inr ()" "List.map t_credential_id (db_rows (snd ?run)) = [''seos'']"
    by code_simp+
  then have run: "?run = (Inr (), snd ?run)" by (simp only: prod_eq_iff fst_conv snd_conv)
  have stored: "setting_get (db_settings old_database) SEOS_KEY = Some (va_seal demo_vault (JObj old_ledger))"
    by (simp add: old_database_def set_json_def)
  have ledger: "stored_ledger demo_vault (db_settings old_database) = Inr (Some old_ledger)"
    using demo_vault_sound by (simp add: stored_ledger_def stored sound_vault_def)
  have cards: "cards_of_items old_ledger = Inr [\<lparr>sc_person = ''12'', sc_credential = ''seos-slot1'',
      sc_slot = JInt 2, sc_facility_code = ''10'', sc_card_number = ''500'', sc_active = None\<rparr>]"
    by code_simp
  have moved: "db_cards old_database = []" by (simp add: old_database_def)
  from migrations_run_once [OF run ledger cards] run ok moved show ?thesis by auto
qed

end
