(* ===== verification/Html_Form.thy ===== *)
theory Html_Form
  imports Json_Data
begin

text \<open>
  \<open>lib/pacs/millennium_ultra/html_form.py\<close>: the cardholder screen as a form that is read, changed and
  posted back whole, and the complaints of a save that was refused. The tokenizer (\<open>html.parser\<close> of
  the standard library) is left to its caller: a page is the list of the events it reports, with
  tags and attribute names in lower case and a self-closing tag as a start and an end. Where the
  parser holds on to a control or an option it goes on changing, the model holds its position.
\<close>

section \<open>Events\<close>

datatype html_event =
    Start_tag string "(string \<times> string option) list"
  | End_tag string
  | Text_data string

text \<open>A bare attribute has its own name as its value; a later duplicate wins.\<close>

definition attrs_of :: "(string \<times> string option) list \<Rightarrow> (string \<times> string) list" where
  "attrs_of pairs = rev (List.map (\<lambda>(k, v). (py_lower k, case v of None \<Rightarrow> k | Some x \<Rightarrow> x)) pairs)"

definition attr_or :: "(string \<times> string) list \<Rightarrow> string \<Rightarrow> string \<Rightarrow> string" where
  "attr_or attrs k d = (case map_of attrs k of None \<Rightarrow> d | Some v \<Rightarrow> v)"

definition has_attr :: "(string \<times> string) list \<Rightarrow> string \<Rightarrow> bool" where
  "has_attr attrs k \<longleftrightarrow> map_of attrs k \<noteq> None"

section \<open>Controls\<close>

record html_option =
  ho_value :: string
  ho_selected :: bool
  ho_label :: string

record control =
  ct_name :: string
  ct_kind :: string
  ct_value :: string
  ct_checked :: bool
  ct_options :: "html_option list"

definition NON_SUBMITTING :: "string list" where
  "NON_SUBMITTING = [''submit'', ''button'', ''reset'', ''image'']"

definition submits :: "control \<Rightarrow> bool" where
  "submits c \<longleftrightarrow> ct_kind c \<notin> set NON_SUBMITTING \<and> (ct_kind c \<in> {''checkbox'', ''radio''} \<longrightarrow> ct_checked c)"

text \<open>Browsers fall back to the first option.\<close>

definition submitted_value :: "control \<Rightarrow> string" where
  "submitted_value c =
     (if ct_kind c = ''select'' then
        (case List.find ho_selected (ct_options c) of
           Some opt \<Rightarrow> ho_value opt
         | None \<Rightarrow> (case ct_options c of [] \<Rightarrow> '''' | opt # _ \<Rightarrow> ho_value opt))
      else ct_value c)"

section \<open>The parser\<close>

record form_parser =
  fp_in_form :: bool
  fp_done :: bool
  fp_action :: string
  fp_controls :: "control list"
  fp_select :: "nat option"
  fp_textarea :: "nat option"
  fp_option :: "(nat \<times> nat) option"

definition form_start :: form_parser where
  "form_start = \<lparr>fp_in_form = False, fp_done = False, fp_action = '''', fp_controls = [], fp_select = None,
     fp_textarea = None, fp_option = None\<rparr>"

definition FORM_ID :: string where "FORM_ID = ''myForm''"
definition FORM_ACTION :: string where "FORM_ACTION = ''/Cardholders/Cardholders/Index/''"

text \<open>\<open>_wanted\<close>, with the two criteria the screen is looked for by.\<close>

definition wanted_form :: "(string \<times> string) list \<Rightarrow> bool" where
  "wanted_form attrs \<longleftrightarrow> map_of attrs ''id'' = Some FORM_ID \<or> py_contains (attr_or attrs ''action'' '''') FORM_ACTION"

definition change_control :: "nat \<Rightarrow> (control \<Rightarrow> control) \<Rightarrow> form_parser \<Rightarrow> form_parser" where
  "change_control i f p = p\<lparr>fp_controls := (fp_controls p)[i := f (fp_controls p ! i)]\<rparr>"

definition add_control :: "control \<Rightarrow> form_parser \<Rightarrow> form_parser" where
  "add_control c p = p\<lparr>fp_controls := fp_controls p @ [c]\<rparr>"

definition input_control :: "string \<Rightarrow> (string \<times> string) list \<Rightarrow> control" where
  "input_control name attrs =
     (let kind = attr_or attrs ''type'' '''' in
      \<lparr>ct_name = name, ct_kind = py_lower (if kind = '''' then ''text'' else kind), ct_value = attr_or attrs ''value'' '''',
       ct_checked = has_attr attrs ''checked'', ct_options = []\<rparr>)"

definition empty_control :: "string \<Rightarrow> string \<Rightarrow> control" where
  "empty_control name kind = \<lparr>ct_name = name, ct_kind = kind, ct_value = '''', ct_checked = False, ct_options = []\<rparr>"

definition start_select :: "string \<Rightarrow> form_parser \<Rightarrow> form_parser" where
  "start_select name p = (if name = '''' then p\<lparr>fp_select := None\<rparr>
     else (add_control (empty_control name ''select'') p)\<lparr>fp_select := Some (length (fp_controls p))\<rparr>)"

definition start_option :: "(string \<times> string) list \<Rightarrow> nat \<Rightarrow> form_parser \<Rightarrow> form_parser" where
  "start_option attrs i p =
     (let opt = \<lparr>ho_value = attr_or attrs ''value'' '''', ho_selected = has_attr attrs ''selected'', ho_label = ''''\<rparr> in
      (change_control i (\<lambda>c. c\<lparr>ct_options := ct_options c @ [opt]\<rparr>) p)
        \<lparr>fp_option := Some (i, length (ct_options (fp_controls p ! i)))\<rparr>)"

definition start_textarea :: "string \<Rightarrow> form_parser \<Rightarrow> form_parser" where
  "start_textarea name p = (if name = '''' then p\<lparr>fp_textarea := None\<rparr>
     else (add_control (empty_control name ''textarea'') p)\<lparr>fp_textarea := Some (length (fp_controls p))\<rparr>)"

definition form_starttag :: "string \<Rightarrow> (string \<times> string option) list \<Rightarrow> form_parser \<Rightarrow> form_parser" where
  "form_starttag tag0 attrlist p =
     (if fp_done p then p else
      let attrs = attrs_of attrlist; tag = py_lower tag0; name = attr_or attrs ''name'' '''' in
      if tag = ''form'' then
        (if \<not> fp_in_form p \<and> wanted_form attrs
         then p\<lparr>fp_in_form := True, fp_action := attr_or attrs ''action'' ''''\<rparr> else p)
      else if \<not> fp_in_form p then p
      else if tag = ''input'' then (if name = '''' then p else add_control (input_control name attrs) p)
      else if tag = ''select'' then start_select name p
      else if tag = ''option'' \<and> fp_select p \<noteq> None then start_option attrs (the (fp_select p)) p
      else if tag = ''textarea'' then start_textarea name p
      else p)"

definition form_endtag :: "string \<Rightarrow> form_parser \<Rightarrow> form_parser" where
  "form_endtag tag0 p =
     (if fp_done p then p else
      let tag = py_lower tag0 in
      if tag = ''form'' \<and> fp_in_form p then p\<lparr>fp_done := True\<rparr>
      else if tag = ''select'' then p\<lparr>fp_select := None, fp_option := None\<rparr>
      else if tag = ''option'' then p\<lparr>fp_option := None\<rparr>
      else if tag = ''textarea'' then p\<lparr>fp_textarea := None\<rparr>
      else p)"

definition add_label :: "nat \<Rightarrow> string \<Rightarrow> control \<Rightarrow> control" where
  "add_label j data c = c\<lparr>ct_options := (ct_options c)[j := (ct_options c ! j)\<lparr>ho_label := ho_label (ct_options c ! j) @ data\<rparr>]\<rparr>"

definition form_data :: "string \<Rightarrow> form_parser \<Rightarrow> form_parser" where
  "form_data data p =
     (if fp_done p \<or> \<not> fp_in_form p then p else
      case fp_option p of
        Some (i, j) \<Rightarrow> change_control i (add_label j data) p
      | None \<Rightarrow>
          (case fp_textarea p of
             Some i \<Rightarrow> change_control i (\<lambda>c. c\<lparr>ct_value := ct_value c @ data\<rparr>) p
           | None \<Rightarrow> p))"

fun form_event :: "html_event \<Rightarrow> form_parser \<Rightarrow> form_parser" where
  "form_event (Start_tag t attrs) = form_starttag t attrs"
| "form_event (End_tag t) = form_endtag t"
| "form_event (Text_data d) = form_data d"

section \<open>The form\<close>

record form =
  fm_action :: string
  fm_controls :: "control list"

definition no_controls :: exn where
  "no_controls = PyError ''ValueError'' ''No form controls found -- not a cardholder page?''"

definition form_parse :: "html_event list \<Rightarrow> form res" where
  "form_parse page =
     (let p = fold form_event page form_start in
      if fp_controls p = [] then Inl no_controls
      else Inr \<lparr>fm_action = fp_action p, fm_controls = fp_controls p\<rparr>)"

definition form_find :: "form \<Rightarrow> string \<Rightarrow> control option" where
  "form_find f name = List.find (\<lambda>c. ct_name c = name) (fm_controls f)"

definition form_value :: "form \<Rightarrow> string \<Rightarrow> string" where
  "form_value f name = (case form_find f name of None \<Rightarrow> '''' | Some c \<Rightarrow> submitted_value c)"

definition form_checked :: "form \<Rightarrow> string \<Rightarrow> bool" where
  "form_checked f name = (case form_find f name of None \<Rightarrow> False | Some c \<Rightarrow> ct_checked c)"

definition form_options :: "form \<Rightarrow> string \<Rightarrow> html_option list" where
  "form_options f name = (case form_find f name of None \<Rightarrow> [] | Some c \<Rightarrow> ct_options c)"

definition form_token :: "form \<Rightarrow> string" where
  "form_token f = form_value f ''__RequestVerificationToken''"

section \<open>Changing it\<close>

definition key_error :: "string \<Rightarrow> exn" where
  "key_error k = PyError ''KeyError'' k"

text \<open>The first control of a name is the one that is changed.\<close>

fun change_first :: "string \<Rightarrow> (control \<Rightarrow> control res) \<Rightarrow> control list \<Rightarrow> control list res" where
  "change_first name f [] = Inl (key_error name)"
| "change_first name f (c # cs) =
     (if ct_name c = name then bind_res (f c) (\<lambda>d. Inr (d # cs))
      else bind_res (change_first name f cs) (\<lambda>ds. Inr (c # ds)))"

definition change_form :: "string \<Rightarrow> (control \<Rightarrow> control res) \<Rightarrow> form \<Rightarrow> form res" where
  "change_form name f fm = bind_res (change_first name f (fm_controls fm)) (\<lambda>cs. Inr (fm\<lparr>fm_controls := cs\<rparr>))"

text \<open>\<open>opt.selected = opt is match\<close>: the first option of the value, and no other.\<close>

fun pick_option :: "string \<Rightarrow> html_option list \<Rightarrow> html_option list option" where
  "pick_option v [] = None"
| "pick_option v (opt # opts) =
     (if ho_value opt = v then Some (opt\<lparr>ho_selected := True\<rparr> # List.map (\<lambda>x. x\<lparr>ho_selected := False\<rparr>) opts)
      else map_option (\<lambda>l. opt\<lparr>ho_selected := False\<rparr> # l) (pick_option v opts))"

definition give_value :: "string \<Rightarrow> control \<Rightarrow> control res" where
  "give_value v c =
     (if ct_kind c = ''select'' then
        (case pick_option v (ct_options c) of
           None \<Rightarrow> Inl (key_error (ct_name c @ '' has no option '' @ v))
         | Some opts \<Rightarrow> Inr (c\<lparr>ct_options := opts\<rparr>))
      else Inr (c\<lparr>ct_value := v\<rparr>))"

definition set_value :: "string \<Rightarrow> string \<Rightarrow> form \<Rightarrow> form res" where
  "set_value name v = change_form name (give_value v)"

definition set_checked :: "string \<Rightarrow> bool \<Rightarrow> form \<Rightarrow> form res" where
  "set_checked name b = change_form name (\<lambda>c. Inr (c\<lparr>ct_checked := b\<rparr>))"

section \<open>Posting it\<close>

definition submitted_pairs :: "form \<Rightarrow> (string \<times> string) list" where
  "submitted_pairs f = List.map (\<lambda>c. (ct_name c, if ct_kind c = ''file'' then ''<file>'' else submitted_value c))
     (List.filter submits (fm_controls f))"

definition crlf :: string where
  "crlf = [CHR 0x0D, CHR 0x0A]"

definition quote_char :: char where
  "quote_char = CHR 0x22"

definition DISPOSITION :: string where
  "DISPOSITION = ''Content-Disposition: form-data; name='' @ [quote_char]"

definition part_of :: "control \<Rightarrow> string" where
  "part_of c =
     (if ct_kind c = ''file''
      then DISPOSITION @ ct_name c @ [quote_char] @ ''; filename='' @ [quote_char, quote_char] @ crlf
        @ ''Content-Type: application/octet-stream'' @ crlf @ crlf @ crlf
      else DISPOSITION @ ct_name c @ [quote_char] @ crlf @ crlf @ submitted_value c @ crlf)"

text \<open>The text the body encodes (as UTF-8), and its content type; the boundary is drawn by the caller.\<close>

definition multipart_body :: "string \<Rightarrow> form \<Rightarrow> string" where
  "multipart_body boundary f =
     concat (List.map (\<lambda>c. ''--'' @ boundary @ crlf @ part_of c) (List.filter submits (fm_controls f)))
       @ ''--'' @ boundary @ ''--'' @ crlf"

definition multipart_type :: "string \<Rightarrow> string" where
  "multipart_type boundary = ''multipart/form-data; boundary='' @ boundary"

section \<open>The complaints of a refused save\<close>

record complaints =
  cp_messages :: "string list"
  cp_capture :: nat
  cp_summary :: nat
  cp_field :: "string option"
  cp_buffer :: string

definition complaints_start :: complaints where
  "complaints_start = \<lparr>cp_messages = [], cp_capture = 0, cp_summary = 0, cp_field = None, cp_buffer = ''''\<rparr>"

definition SUMMARY_CLASS :: string where "SUMMARY_CLASS = ''validation-summary-errors''"
definition FIELD_CLASS :: string where "FIELD_CLASS = ''field-validation-error''"

definition begin_capture :: "string option \<Rightarrow> complaints \<Rightarrow> complaints" where
  "begin_capture fld s = s\<lparr>cp_capture := 1, cp_field := fld, cp_buffer := ''''\<rparr>"

definition emit :: "complaints \<Rightarrow> complaints" where
  "emit s =
     (let txt = py_join '' '' (split_space (cp_buffer s));
          m = (case cp_field s of None \<Rightarrow> txt | Some f \<Rightarrow> if f = '''' then txt else f @ '': '' @ txt)
      in s\<lparr>cp_messages := (if txt = '''' then cp_messages s else cp_messages s @ [m]), cp_field := None, cp_buffer := ''''\<rparr>)"

text \<open>\<open>dict(attrs).get(k)\<close>: None for a bare attribute.\<close>

definition raw_attr :: "(string \<times> string option) list \<Rightarrow> string \<Rightarrow> string option" where
  "raw_attr pairs k = Option.bind (map_of (rev pairs) k) (\<lambda>v. v)"

definition complaints_starttag :: "string \<Rightarrow> (string \<times> string option) list \<Rightarrow> complaints \<Rightarrow> complaints" where
  "complaints_starttag tag attrs s =
     (if cp_capture s \<noteq> 0 then s\<lparr>cp_capture := Suc (cp_capture s)\<rparr>
      else if cp_summary s \<noteq> 0 then
        (if tag = ''li'' then begin_capture None s else s\<lparr>cp_summary := Suc (cp_summary s)\<rparr>)
      else
        let classes = split_space (case raw_attr attrs ''class'' of None \<Rightarrow> '''' | Some v \<Rightarrow> v) in
        if SUMMARY_CLASS \<in> set classes then s\<lparr>cp_summary := 1\<rparr>
        else if FIELD_CLASS \<in> set classes then begin_capture (raw_attr attrs ''data-valmsg-for'') s
        else s)"

definition complaints_endtag :: "complaints \<Rightarrow> complaints" where
  "complaints_endtag s =
     (if cp_capture s \<noteq> 0 then
        (let t = s\<lparr>cp_capture := cp_capture s - 1\<rparr> in if cp_capture t = 0 then emit t else t)
      else if cp_summary s \<noteq> 0 then s\<lparr>cp_summary := cp_summary s - 1\<rparr>
      else s)"

fun complaints_event :: "html_event \<Rightarrow> complaints \<Rightarrow> complaints" where
  "complaints_event (Start_tag t attrs) s = complaints_starttag t attrs s"
| "complaints_event (End_tag t) s = complaints_endtag s"
| "complaints_event (Text_data d) s = (if cp_capture s \<noteq> 0 then s\<lparr>cp_buffer := cp_buffer s @ d\<rparr> else s)"

definition flush_complaints :: "complaints \<Rightarrow> complaints" where
  "flush_complaints s = (if cp_capture s \<noteq> 0 then emit s else s)"

text \<open>Each message once, at its first place.\<close>

definition first_of_each :: "'a list \<Rightarrow> 'a list" where
  "first_of_each xs = fold (\<lambda>x seen. if x \<in> set seen then seen else seen @ [x]) xs []"

definition validation_errors :: "html_event list \<Rightarrow> string list" where
  "validation_errors page = first_of_each (cp_messages (flush_complaints (fold complaints_event page complaints_start)))"

end
