(* ===== verification/Mill_Web.thy ===== *)
theory Mill_Web
  imports Mill_State Html_Form Json_Data Url_Text
begin

text \<open>
  \<open>lib/pacs/millennium_ultra/client.py\<close>: the HTTP client that drives a Millennium install through
  its operators' screens. Its state is what stands behind the network and the instant of the last
  request, which is shared by every client of the process. Log lines are left out. What comes from
  outside the repository is a parameter: the install, the clocks and the HTTP library, the HTML
  tokenizer, \<open>json.loads\<close>, \<open>zipfile\<close> and the boundary that is drawn at random. Instants are
  microseconds.
\<close>

record 'h web_env =
  we_open :: "(string \<times> string) list \<Rightarrow> 'h http"
  we_sleep :: "int \<Rightarrow> 'h \<Rightarrow> 'h"
  we_monotonic :: "'h \<Rightarrow> int"
  we_boundary :: "'h \<Rightarrow> string"
  we_events :: "string \<Rightarrow> html_event list"
  we_loads :: "string \<Rightarrow> json option"
  we_archive :: "response \<Rightarrow> (string \<times> string res) list res"
  we_brackets :: "string \<Rightarrow> bool"

record 'h web =
  wb_net :: 'h
  wb_last :: int

record web_client =
  wc_base :: string
  wc_cookies :: "(string \<times> string) list"

section \<open>Constants\<close>

definition EXPORT_TIMEOUT :: int where "EXPORT_TIMEOUT = 90 * 1000000"
definition EXPORT_POLL_INTERVAL :: int where "EXPORT_POLL_INTERVAL = 1000000"
definition EXPORT_OPERATION :: string where "EXPORT_OPERATION = ''CardholdersExport''"
definition IMPORT_OPERATION :: string where "IMPORT_OPERATION = ''CardholdersImport''"
definition IMPORT_FILENAME :: string where "IMPORT_FILENAME = ''agsync-import.csv''"
definition IMPORT_RULE_UPDATE_ONLY :: int where "IMPORT_RULE_UPDATE_ONLY = 2"
definition IMPORT_RULE_UPDATE_AND_ADD :: int where "IMPORT_RULE_UPDATE_AND_ADD = 3"
definition MIN_REQUEST_INTERVAL :: int where "MIN_REQUEST_INTERVAL = 100000"
definition MAX_VALIDATION_ERRORS :: nat where "MAX_VALIDATION_ERRORS = 10"
definition CARD_SLOTS :: "nat list" where "CARD_SLOTS = [1, 2, 3]"
definition LETTER_CODES :: "nat list" where "LETTER_CODES = [65..<91]"
definition AUTH_COOKIE :: string where "AUTH_COOKIE = ''Ultra''"
definition COMPANY_COOKIE :: string where "COMPANY_COOKIE = ''UltraCoreCompanyName''"
definition TIMEOFFSET_COOKIE :: string where "TIMEOFFSET_COOKIE = ''timeoffset''"
definition ANTIFORGERY_COOKIE_PREFIX :: string where "ANTIFORGERY_COOKIE_PREFIX = ''.AspNetCore.Antiforgery.''"

definition SEARCH_BLANK :: "string list" where
  "SEARCH_BLANK =
     [''FirstName'', ''LastName'', ''MiddleName'', ''Sex'', ''Address1'', ''Address2'', ''City'', ''State'', ''Zip'', ''Phone'',
      ''BirthDay'', ''EMail'', ''CardholderTypeSearch'', ''Card_1_PrintedCardNumber'',
      ''Card_1_ActivationDate'', ''Card_1_ActiveSearch'', ''Card_1_EncodedCardNumber'',
      ''Card_1_ExpirationDate'', ''Card_1_FacilityCode'', ''Card_1_PinCode'', ''Card_1_IssueCode'',
      ''IssueDate'', ''ReIssueDate'', ''CompanyEMail'', ''MasterArea'', ''InternalPhone'', ''Supervisor'',
      ''Comment1'', ''AdaShuntSearch'', ''VehicleModel'', ''BadgeDate'', ''VehicleColor'', ''EmploymentDate'',
      ''VehicleYear'', ''LicensePlateNo'', ''Comment2'', ''UserField3'', ''UserField2'', ''UserField1'']"

definition SEARCH_DEFAULTS :: "(string \<times> string) list" where
  "SEARCH_DEFAULTS =
     [(''MaxRecord'', ''500''), (''CardholderType'', ''Cardholder''), (''OwnersAsJson'', ''[]''),
      (''Card_1_CardID'', ''2147483647''), (''Card_1_CardFormat'', ''-2147483648''), (''Card_1_BadgeType'', ''0''),
      (''Card_1_CardClass'', ''0''), (''Card_1_Tenant_0'', ''0''), (''Card_1_AccessLevels'', ''{}''),
      (''PrimaryLocation'', ''0''), (''Department'', ''0''), (''EmployeeClass'', ''0''), (''ParkingDesignation'', ''0''),
      (''ParkingAssignment'', ''0''), (''ID'', ''0''), (''TenantsAsJson'', ''[0]''), (''CarsAsJson'', ''[]''),
      (''SplitterWidth'', ''200''), (''ViewMode'', ''CardholderSearch'')]"

definition EXPORT_FIELDS :: "(nat \<times> string) list" where
  "EXPORT_FIELDS =
     [(1, ''First Name''), (2, ''Last Name''), (3, ''Card Type''), (4, ''Employee ID''), (11, ''Phone''), (13, ''E-Mail''),
      (14, ''Current Status''), (16, ''Encoded Card No.''), (17, ''Activation Date''), (18, ''Expiration Date''),
      (19, ''Active''), (20, ''Card Format''), (21, ''Facility Code'')]
     @ concat (List.map (\<lambda>n. let level = ''Access Level '' @ string_of_nat (n + 1) in
         [(200 + n, level), (456 + n, level @ '' Activation Date''), (712 + n, level @ '' Expiration Date'')]) [0..<10])"

definition EXPORT_REQUEST :: json where
  "EXPORT_REQUEST = JObj
     [(''format'', JInt 1), (''IncudeImages'', JVal (PBool False)), (''tenants'', JArr [JInt 0]),
      (''cards'', JArr (List.map (\<lambda>n. JInt (int n)) CARD_SLOTS)),
      (''fields'', JArr (List.map (\<lambda>(fid, name). JObj [(''ID'', JInt (int fid)), (''Name'', JStr name)]) EXPORT_FIELDS))]"

section \<open>The client and its requests\<close>

definition normalize_base_url :: "(string \<Rightarrow> bool) \<Rightarrow> string \<Rightarrow> string res" where
  "normalize_base_url brackets url =
     (let u = py_strip url in
      if u = '''' then Inr ''''
      else bind_res (url_parse brackets (if py_contains u ''://'' then u else ''https://'' @ u)) (\<lambda>p.
        Inr (if ur_netloc p = '''' then '''' else ur_scheme p @ ''://'' @ ur_netloc p)))"

text \<open>What \<open>__init__\<close> is given, in its order.\<close>

record web_session =
  ws_base_url :: string
  ws_auth_cookie :: string
  ws_company_name :: string
  ws_time_offset :: string
  ws_request_token :: string
  ws_request_token_cookie :: string

definition session_cookies :: "web_session \<Rightarrow> (string \<times> string) list" where
  "session_cookies ws =
     (let c1 = [(AUTH_COOKIE, ws_auth_cookie ws)];
          c2 = (if ws_request_token ws \<noteq> '''' \<and> ws_request_token_cookie ws \<noteq> ''''
                then AList.update (ws_request_token_cookie ws) (ws_request_token ws) c1 else c1);
          c3 = (if ws_company_name ws \<noteq> '''' then AList.update COMPANY_COOKIE (ws_company_name ws) c2 else c2)
      in (if ws_time_offset ws \<noteq> '''' then AList.update TIMEOFFSET_COOKIE (ws_time_offset ws) c3 else c3))"

definition new_client :: "(string \<Rightarrow> bool) \<Rightarrow> web_session \<Rightarrow> web_client res" where
  "new_client brackets ws = bind_res (normalize_base_url brackets (ws_base_url ws)) (\<lambda>base.
     if base = '''' then Inl (MillenniumError ''Millennium base URL is not configured'')
     else Inr \<lparr>wc_base = base, wc_cookies = session_cookies ws\<rparr>)"

definition web_now :: "'h web_env \<Rightarrow> web_client \<Rightarrow> 'h web \<Rightarrow> int" where
  "web_now env cl s = http_now (we_open env (wc_cookies cl)) (wb_net s)"

text \<open>\<open>str(int(time.time() * 1000))\<close>.\<close>

definition now_ms :: "'h web_env \<Rightarrow> web_client \<Rightarrow> 'h web \<Rightarrow> string" where
  "now_ms env cl s = string_of_int (web_now env cl s div 1000)"

definition web_sleep :: "'h web_env \<Rightarrow> int \<Rightarrow> 'h web \<Rightarrow> 'h web" where
  "web_sleep env d s = s\<lparr>wb_net := we_sleep env d (wb_net s)\<rparr>"

definition pace :: "'h web_env \<Rightarrow> 'h web \<Rightarrow> 'h web" where
  "pace env s =
     (let w = wb_last s + MIN_REQUEST_INTERVAL - we_monotonic env (wb_net s);
          s1 = (if w > 0 then web_sleep env w s else s)
      in s1\<lparr>wb_last := we_monotonic env (wb_net s1)\<rparr>)"

text \<open>Every request is paced: \<open>self._pace()\<close> and then the call on the HTTP client.\<close>

definition web_send :: "'h web_env \<Rightarrow> web_client \<Rightarrow> request \<Rightarrow> ('h web, response) comp" where
  "web_send env cl rq s =
     (let s1 = pace env s; (r, h) = http_send (we_open env (wc_cookies cl)) rq (wb_net s1) in (r, s1\<lparr>wb_net := h\<rparr>))"

definition is_redirect :: "response \<Rightarrow> bool" where
  "is_redirect r \<longleftrightarrow> 300 \<le> rs_status r \<and> rs_status r \<le> 399"

definition session_expired :: exn where
  "session_expired = MillenniumAuthError ''Millennium session expired -- reconnect via AG Connect''"

definition check_auth :: "response \<Rightarrow> unit res" where
  "check_auth r = (if is_redirect r \<and> py_contains (header_of r ''location'') ''/Account/Log'' then Inl session_expired else Inr ())"

definition AJAX_ACCEPT :: string where
  "AJAX_ACCEPT = ''application/json, text/javascript, */*; q=0.01''"

definition http_failure :: "string \<Rightarrow> string \<Rightarrow> nat \<Rightarrow> exn" where
  "http_failure verb path n = MillenniumError (verb @ '' '' @ path @ '' -> HTTP '' @ string_of_nat n)"

definition get_verdict :: "string \<Rightarrow> bool \<Rightarrow> response \<Rightarrow> response res" where
  "get_verdict path screen r = bind_res (check_auth r) (\<lambda>_.
     if rs_status r \<ge> 500 \<and> screen then
       Inl (MillenniumAuthError (''Millennium returned HTTP '' @ string_of_nat (rs_status r)
         @ '' for a cardholder screen -- the session has probably expired''))
     else if rs_status r \<ge> 400 then Inl (http_failure ''GET'' path (rs_status r))
     else Inr r)"

definition web_get :: "'h web_env \<Rightarrow> web_client \<Rightarrow> string \<Rightarrow> (string \<times> string) list \<Rightarrow> bool \<Rightarrow> bool \<Rightarrow> ('h web, response) comp" where
  "web_get env cl path params ajax screen =
     bind_comp
       (web_send env cl (mk_request ''GET'' (wc_base cl @ path) params
         (if ajax then [(''Accept'', AJAX_ACCEPT), (''X-Requested-With'', ''XMLHttpRequest'')] else [(''Accept'', ''text/html'')]) NoBody))
       (\<lambda>r. pure_res (get_verdict path screen r))"

text \<open>A POST and the check that the session is still good.\<close>

definition web_post :: "'h web_env \<Rightarrow> web_client \<Rightarrow> string \<Rightarrow> (string \<times> string) list \<Rightarrow> body \<Rightarrow> ('h web, response) comp" where
  "web_post env cl path headers b =
     bind_comp (web_send env cl (mk_request ''POST'' (wc_base cl @ path) [] headers b))
       (\<lambda>r. pure_res (bind_res (check_auth r) (\<lambda>_. Inr r)))"

definition post_answer :: "string \<Rightarrow> response \<Rightarrow> json res" where
  "post_answer path r =
     (if rs_status r \<ge> 400 then Inl (http_failure ''POST'' path (rs_status r))
      else case rs_json r of
             Some v \<Rightarrow> Inr v
           | None \<Rightarrow> Inl (MillenniumError (''POST '' @ path @ '' did not answer JSON'')))"

definition post_json :: "'h web_env \<Rightarrow> web_client \<Rightarrow> string \<Rightarrow> json \<Rightarrow> string \<Rightarrow> ('h web, json) comp" where
  "post_json env cl path payload referer =
     bind_comp
       (web_post env cl path
         [(''Accept'', AJAX_ACCEPT), (''Content-Type'', ''application/json''), (''X-Requested-With'', ''XMLHttpRequest''),
          (''Origin'', wc_base cl), (''Referer'', wc_base cl @ referer)] (JsonBody payload))
       (\<lambda>r. pure_res (post_answer path r))"


section \<open>The roster screens\<close>

definition no_roster :: exn where
  "no_roster = MillenniumAuthError
     ''Millennium returned no cardholders under any letter -- the session has probably expired''"

definition letter_rows :: "'h web_env \<Rightarrow> nat \<Rightarrow> response \<Rightarrow> json list res" where
  "letter_rows env code r =
     (let body = py_strip (rs_text r) in
      if body = '''' then Inl (MillenniumAuthError ''Millennium returned an empty roster -- the session has expired'')
      else case we_loads env body of
             None \<Rightarrow> Inl (MillenniumError (''Roster for letter '' @ string_of_nat code @ '' was not JSON''))
           | Some (JArr rows) \<Rightarrow> Inr rows
           | Some _ \<Rightarrow> Inr [])"

definition list_letter :: "'h web_env \<Rightarrow> web_client \<Rightarrow> nat \<Rightarrow> ('h web, json list) comp" where
  "list_letter env cl code s =
     bind_comp
       (web_get env cl ''/Cardholders/CardholdersHelper/GetList/0''
         [(''firstLetter'', string_of_nat code), (''_'', now_ms env cl s)] True False)
       (\<lambda>r. pure_res (letter_rows env code r)) s"

fun first_id_from :: "'h web_env \<Rightarrow> web_client \<Rightarrow> nat list \<Rightarrow> ('h web, string) comp" where
  "first_id_from env cl [] s = (Inl no_roster, s)"
| "first_id_from env cl (code # codes) s =
     (case list_letter env cl code s of
        (Inl e, s1) \<Rightarrow> (Inl e, s1)
      | (Inr [], s1) \<Rightarrow> first_id_from env cl codes s1
      | (Inr (row # rows), s1) \<Rightarrow> (bind_res (jget ''ID'' row) (\<lambda>v. Inr (jstr v)), s1))"

definition first_cardholder_id :: "'h web_env \<Rightarrow> web_client \<Rightarrow> ('h web, string) comp" where
  "first_cardholder_id env cl = first_id_from env cl LETTER_CODES"

definition test_connection :: "'h web_env \<Rightarrow> web_client \<Rightarrow> 'h web \<Rightarrow> (bool \<times> string) \<times> 'h web" where
  "test_connection env cl s =
     (case first_cardholder_id env cl s of
        (Inr cid, s1) \<Rightarrow> ((True, ''Connected -- cardholders are readable (e.g. '' @ cid @ '')''), s1)
      | (Inl (MillenniumAuthError m), s1) \<Rightarrow> ((False, m), s1)
      | (Inl e, s1) \<Rightarrow> ((False, exn_class e @ '': '' @ exn_message e), s1))"

text \<open>A dictionary key: \<open>True\<close> and \<open>1\<close> are the same one, a list or a dictionary is none.\<close>

fun dict_key :: "json \<Rightarrow> json res" where
  "dict_key (JVal (PBool b)) = Inr (JInt (if b then 1 else 0))"
| "dict_key (JVal v) = Inr (JVal v)"
| "dict_key _ = Inl (type_error ''unhashable type'')"

definition note_row :: "(json \<times> json) list \<Rightarrow> json \<Rightarrow> (json \<times> json) list res" where
  "note_row seen row = bind_res (jget ''ID'' row) (\<lambda>cid.
     if cid = JNull then Inr seen
     else bind_res (dict_key cid) (\<lambda>k. Inr (AList.update k row seen)))"

fun note_rows :: "json list \<Rightarrow> (json \<times> json) list \<Rightarrow> (json \<times> json) list res" where
  "note_rows [] seen = Inr seen"
| "note_rows (row # rows) seen = bind_res (note_row seen row) (note_rows rows)"

definition letter_step :: "'h web_env \<Rightarrow> web_client \<Rightarrow> nat \<Rightarrow> (json \<times> json) list \<Rightarrow> ('h web, (json \<times> json) list) comp" where
  "letter_step env cl code seen = bind_comp (list_letter env cl code) (\<lambda>rows. pure_res (note_rows rows seen))"

definition list_cardholders :: "'h web_env \<Rightarrow> web_client \<Rightarrow> ('h web, json list) comp" where
  "list_cardholders env cl =
     bind_comp (for_each (letter_step env cl) LETTER_CODES [])
       (\<lambda>seen. pure_res (if seen = [] then Inl no_roster else Inr (List.map snd seen)))"

section \<open>One cardholder's screen\<close>

definition get_cardholder_form :: "'h web_env \<Rightarrow> web_client \<Rightarrow> string \<Rightarrow> ('h web, form) comp" where
  "get_cardholder_form env cl cid =
     bind_comp (web_get env cl (''/Cardholders/Cardholders/Index/'' @ cid) [(''pw'', ''200'')] False True)
       (\<lambda>r. pure_res (form_parse (we_events env (rs_text r))))"

definition slot_field :: "nat \<Rightarrow> string \<Rightarrow> string" where
  "slot_field n what = ''Card_'' @ string_of_nat n @ ''_'' @ what"

text \<open>The options of the first slot that has any.\<close>

definition formats_on :: "form \<Rightarrow> (string \<times> string) list" where
  "formats_on f =
     (case List.find (\<lambda>n. form_options f (slot_field n ''CardFormat'') \<noteq> []) CARD_SLOTS of
        None \<Rightarrow> []
      | Some n \<Rightarrow> List.map (\<lambda>opt. (ho_value opt, py_strip (ho_label opt)))
          (List.filter (\<lambda>opt. ho_value opt \<noteq> '''') (form_options f (slot_field n ''CardFormat''))))"

definition card_formats :: "'h web_env \<Rightarrow> web_client \<Rightarrow> string \<Rightarrow> ('h web, (string \<times> string) list) comp" where
  "card_formats env cl cid = bind_comp (get_cardholder_form env cl cid) (\<lambda>f. pure_res (Inr (formats_on f)))"

definition card_number_is_free :: "'h web_env \<Rightarrow> web_client \<Rightarrow> nat \<Rightarrow> string \<Rightarrow> string \<Rightarrow> string \<Rightarrow> ('h web, bool) comp" where
  "card_number_is_free env cl n number facility fmt s =
     bind_comp
       (web_get env cl ''/Cardholders/Cardholders/ValidateEncodedCardNumber''
         [(slot_field n ''EncodedCardNumber'', number), (slot_field n ''CardID'', ''''), (slot_field n ''FacilityCode'', facility),
          (slot_field n ''CardFormat'', fmt), (''_'', now_ms env cl s)] True False)
       (\<lambda>r. pure_res (Inr (py_lower (py_strip (rs_text r)) = ''true''))) s"

section \<open>Queued jobs\<close>

definition operation_status :: "'h web_env \<Rightarrow> web_client \<Rightarrow> string \<Rightarrow> ('h web, json) comp" where
  "operation_status env cl operation s =
     bind_comp
       (web_get env cl ''/api/LongOperationStatus'' [(''operationtype'', operation), (''_'', now_ms env cl s)] True False)
       (\<lambda>r. pure_res (case rs_json r of
          Some v \<Rightarrow> Inr v
        | None \<Rightarrow> Inl (MillenniumError (''Unreadable '' @ operation @ '' status: Expecting value'')))) s"

text \<open>What one answer says: refused, finished, or not yet.\<close>

definition job_verdict :: "string \<Rightarrow> json \<Rightarrow> bool res" where
  "job_verdict operation st =
     (case st of
        JObj d \<Rightarrow>
          (if jtruthy (jlookup d ''Failed'') \<or> jtruthy (jlookup d ''Error'') then
             Inl (MillenniumError (''Millennium'' @ [CHR 0x27] @ ''s '' @ operation @ '' failed: '' @ jstr (jor (jlookup d ''Error'') (JStr ''no detail''))))
           else Inr (jtruthy (jlookup d ''Completed'') \<and> jtruthy (jlookup d ''Success'')))
      | _ \<Rightarrow> Inl (MillenniumError (''Unreadable '' @ operation @ '' status: '' @ jrepr st)))"

definition not_finished :: "string \<Rightarrow> exn" where
  "not_finished operation = MillenniumError (''Millennium'' @ [CHR 0x27] @ ''s '' @ operation @ '' did not finish within 90s'')"

text \<open>The polling loop, with fuel: None when it has not returned by then.\<close>

fun wait_polls :: "'h web_env \<Rightarrow> web_client \<Rightarrow> string \<Rightarrow> int \<Rightarrow> nat \<Rightarrow> 'h web \<Rightarrow> ((exn + json) \<times> 'h web) option" where
  "wait_polls env cl operation deadline 0 s = None"
| "wait_polls env cl operation deadline (Suc n) s =
     (if \<not> web_now env cl s < deadline then Some (Inl (not_finished operation), s)
      else case operation_status env cl operation s of
             (Inl e, s1) \<Rightarrow> Some (Inl e, s1)
           | (Inr st, s1) \<Rightarrow>
               (case job_verdict operation st of
                  Inl e \<Rightarrow> Some (Inl e, s1)
                | Inr True \<Rightarrow> Some (Inr st, s1)
                | Inr False \<Rightarrow> wait_polls env cl operation deadline n (web_sleep env EXPORT_POLL_INTERVAL s1)))"

definition wait_job :: "'h web_env \<Rightarrow> web_client \<Rightarrow> nat \<Rightarrow> string \<Rightarrow> ('h web, json) comp" where
  "wait_job env cl fuel operation s =
     (case wait_polls env cl operation (web_now env cl s + EXPORT_TIMEOUT) fuel s of
        None \<Rightarrow> (Inl not_returned, s)
      | Some r \<Rightarrow> r)"

section \<open>The export\<close>

definition fetch_export_file :: "'h web_env \<Rightarrow> web_client \<Rightarrow> ('h web, response) comp" where
  "fetch_export_file env cl =
     web_get env cl ''/WebServices/FileDownload/'' [(''FileType'', EXPORT_OPERATION)] False False"

definition py_endswith :: "string \<Rightarrow> string \<Rightarrow> bool" where
  "py_endswith s p \<longleftrightarrow> py_startswith (rev s) (rev p)"

text \<open>\<open>export.unpack\<close>: the first member named \<open>.csv\<close>; a name written twice reads its last entry.\<close>

definition unpack :: "'h web_env \<Rightarrow> response \<Rightarrow> string res" where
  "unpack env r = bind_res (we_archive env r) (\<lambda>members.
     case List.find (\<lambda>(name, text). py_endswith (py_lower name) ''.csv'') members of
       None \<Rightarrow> Inl (PyError ''ValueError''
         (''No CSV in the export archive: '' @ jrepr (JArr (List.map (JStr \<circ> fst) members))))
     | Some (name, text) \<Rightarrow> the (map_of (rev members) name))"

definition must_start :: "string \<Rightarrow> json \<Rightarrow> unit res" where
  "must_start what started =
     (if started = JVal (PBool True) then Inr ()
      else Inl (MillenniumError (''Millennium refused to start the '' @ what @ '': '' @ jrepr started)))"

definition export_cardholders :: "'h web_env \<Rightarrow> web_client \<Rightarrow> nat \<Rightarrow> ('h web, string) comp" where
  "export_cardholders env cl fuel =
     bind_comp (post_json env cl ''/DatabaseFunctions/ExportCardholders/ExportCardholdersNow'' EXPORT_REQUEST
       ''/DatabaseFunctions/ExportCardholders'') (\<lambda>started.
     bind_comp (pure_res (must_start ''export'' started)) (\<lambda>_.
     bind_comp (wait_job env cl fuel EXPORT_OPERATION) (\<lambda>st.
     bind_comp (pure_res (bind_res (jget ''Context'' st) (\<lambda>c.
       if jtruthy c then Inr () else Inl (MillenniumError ''Export finished without naming its file'')))) (\<lambda>_.
     bind_comp (fetch_export_file env cl) (\<lambda>r. pure_res (unpack env r))))))"


section \<open>Reading a value out of a page\<close>

text \<open>\<open>name="__RequestVerificationToken"[^>]*value="([^"]+)"\<close>: the last \<open>value\<close> of the tag that has one.\<close>

definition value_at :: "string \<Rightarrow> string option" where
  "value_at s =
     (case cut_prefix (''value='' @ [CHR 0x22]) s of
        None \<Rightarrow> None
      | Some t \<Rightarrow>
          let v = takeWhile (\<lambda>c. c \<noteq> CHR 0x22) t in
          if v \<noteq> [] \<and> CHR 0x22 \<in> set t then Some v else None)"

fun last_value :: "string \<Rightarrow> string option" where
  "last_value [] = None"
| "last_value (c # s) =
     (if c = CHR 0x3E then None
      else case last_value s of Some v \<Rightarrow> Some v | None \<Rightarrow> value_at (c # s))"

definition TOKEN_FIELD :: string where
  "TOKEN_FIELD = ''__RequestVerificationToken''"

fun find_token :: "string \<Rightarrow> string option" where
  "find_token s =
     (case Option.bind (cut_prefix (''name='' @ [CHR 0x22] @ TOKEN_FIELD @ [CHR 0x22]) s) last_value of
        Some v \<Rightarrow> Some v
      | None \<Rightarrow> (case s of [] \<Rightarrow> None | _ # t \<Rightarrow> find_token t))"

declare find_token.simps [simp del]

definition page_token :: "'h web_env \<Rightarrow> web_client \<Rightarrow> string \<Rightarrow> ('h web, string) comp" where
  "page_token env cl path =
     bind_comp (web_get env cl path [] False False)
       (\<lambda>r. pure_res (case find_token (rs_text r) of
          Some t \<Rightarrow> Inr t
        | None \<Rightarrow> Inl (MillenniumError (path @ '' carries no anti-forgery token''))))"

text \<open>\<open>var data = (\[.*?\]);\s*</script>\<close>: from the bracket to the first end of the statement.\<close>

definition statement_end :: "string \<Rightarrow> bool" where
  "statement_end s = (case cut_prefix ''];'' s of None \<Rightarrow> False | Some t \<Rightarrow> py_startswith (dropWhile is_space t) ''</script>'')"

fun lazy_array :: "string \<Rightarrow> string option" where
  "lazy_array s =
     (if statement_end s then Some '']'' else case s of [] \<Rightarrow> None | c # t \<Rightarrow> map_option (Cons c) (lazy_array t))"

declare lazy_array.simps [simp del]

fun find_data :: "string \<Rightarrow> string option" where
  "find_data s =
     (case Option.bind (cut_prefix ''var data = ['' s) lazy_array of
        Some v \<Rightarrow> Some (CHR ''['' # v)
      | None \<Rightarrow> (case s of [] \<Rightarrow> None | _ # t \<Rightarrow> find_data t))"

declare find_data.simps [simp del]

section \<open>The import\<close>

definition field_json :: "import_field \<Rightarrow> json" where
  "field_json f = JObj
     [(''Card'', JInt (int (if_card f))), (''ID'', JInt (int (if_id f))), (''Name'', JStr (if_name f)),
      (''TenantID'', JInt (int (if_tenant f))), (''UserColumnID'', JInt (int (if_index f))), (''UserColumnName'', JStr (if_header f))]"

definition adds_cards :: "import_file \<Rightarrow> bool" where
  "adds_cards im \<longleftrightarrow> (\<exists>f\<in>set (im_fields im). Some (if_id f) = map_of FIELD_IDS ''Card Format'')"

definition import_rule :: "import_file \<Rightarrow> int" where
  "import_rule im = (if adds_cards im then IMPORT_RULE_UPDATE_AND_ADD else IMPORT_RULE_UPDATE_ONLY)"

definition import_upload :: "string \<Rightarrow> import_file \<Rightarrow> body" where
  "import_upload token im = FilesBody [(''ImportFile'', Some IMPORT_FILENAME, im_csv im)]
     [(''FileName'', IMPORT_FILENAME), (''FileFormat'', ''1''), (''FieldHeaders'', ''true''), (TOKEN_FIELD, token)]"

definition import_request :: "import_file \<Rightarrow> json" where
  "import_request im = JObj
     [(''format'', JInt 1), (''rule'', JInt (import_rule im)), (''HeaderIncluded'', JVal (PBool True)),
      (''ImportNewDropDownEntries'', JVal (PBool False)), (''Filename'', JStr IMPORT_FILENAME),
      (''ImportedFields'', JArr (List.map field_json (im_fields im))), (''DontReplaceAccessLevel'', JVal (PBool False))]"

definition upload_verdict :: "response \<Rightarrow> unit res" where
  "upload_verdict r =
     (if rs_status r \<noteq> 200 \<or> \<not> py_contains (rs_text r) (''id='' @ [CHR 0x22] @ ''selected_fields'' @ [CHR 0x22])
      then Inl (MillenniumError (''Millennium did not accept the import file (HTTP '' @ string_of_nat (rs_status r) @ '')''))
      else Inr ())"

text \<open>The log decides: an error in it is a failure, a skipped row is not.\<close>

definition log_verdict :: "string \<Rightarrow> import_log res" where
  "log_verdict text =
     (let lg = parse_log text in
      if lg_errors lg \<noteq> [] then Inl (MillenniumError (''Millennium'' @ [CHR 0x27] @ ''s import failed: '' @ py_join ''; '' (lg_errors lg)))
      else Inr lg)"

definition import_cardholders :: "'h web_env \<Rightarrow> web_client \<Rightarrow> nat \<Rightarrow> import_file \<Rightarrow> ('h web, import_log) comp" where
  "import_cardholders env cl fuel im =
     bind_comp (page_token env cl ''/DatabaseFunctions/ImportCardholders'') (\<lambda>token.
     bind_comp (web_post env cl ''/DatabaseFunctions/ImportCardholders/SelectFields''
       [(''Referer'', wc_base cl @ ''/DatabaseFunctions/ImportCardholders/Index'')] (import_upload token im)) (\<lambda>r.
     bind_comp (pure_res (upload_verdict r)) (\<lambda>_.
     bind_comp (post_json env cl ''/DatabaseFunctions/ImportCardholders/ImportCardholdersNow'' (import_request im)
       ''/DatabaseFunctions/ImportCardholders/SelectFields'') (\<lambda>started.
     bind_comp (pure_res (must_start ''import'' started)) (\<lambda>_.
     bind_comp (wait_job env cl fuel IMPORT_OPERATION) (\<lambda>st.
     bind_comp (pure_res (bind_res (jget ''Context'' st) (\<lambda>c.
       if jtruthy c then Inr (jstr c) else Inl (MillenniumError ''Import finished without naming its log'')))) (\<lambda>context_id.
     bind_comp (web_get env cl (''/DatabaseFunctions/ImportCardholders/GetImportLogFile/'' @ context_id) [] False False)
       (\<lambda>r. pure_res (log_verdict (rs_text r))))))))))"

section \<open>Finding a cardholder\<close>

text \<open>The form of the search: blanks, then the defaults over them, then the two values.\<close>

definition search_form :: "string \<Rightarrow> string \<Rightarrow> (string \<times> string) list" where
  "search_form employee_id token =
     fold (\<lambda>(k, v). AList.update k v) (SEARCH_DEFAULTS @ [(''EmployeeID'', employee_id), (TOKEN_FIELD, token)])
       (List.map (\<lambda>k. (k, '''')) SEARCH_BLANK)"

fun matching_ids :: "string \<Rightarrow> json list \<Rightarrow> string list res" where
  "matching_ids employee_id [] = Inr []"
| "matching_ids employee_id (row # rows) =
     bind_res (jget_or ''EmployeeID'' (JStr '''') row) (\<lambda>eid.
       if py_strip (jstr eid) = employee_id
       then bind_res (jindex ''ID'' row) (\<lambda>i. bind_res (matching_ids employee_id rows) (\<lambda>ids. Inr (jstr i # ids)))
       else matching_ids employee_id rows)"

definition the_one_id :: "string \<Rightarrow> string list \<Rightarrow> string res" where
  "the_one_id employee_id ids =
     (case ids of
        [i] \<Rightarrow> Inr i
      | _ \<Rightarrow> Inl (MillenniumError (''Employee ID '' @ employee_id @ '' matches '' @ string_of_nat (length ids)
               @ '' cardholders in Millennium'')))"

definition search_answer :: "'h web_env \<Rightarrow> string \<Rightarrow> response \<Rightarrow> string res" where
  "search_answer env employee_id r =
     (case (if rs_status r = 200 then find_data (rs_text r) else None) of
        None \<Rightarrow> Inl (MillenniumError (''Millennium'' @ [CHR 0x27] @ ''s search for Employee ID '' @ employee_id
                 @ '' did not return results (HTTP '' @ string_of_nat (rs_status r) @ '')''))
      | Some text \<Rightarrow>
          bind_res (case we_loads env text of Some v \<Rightarrow> Inr v | None \<Rightarrow> Inl (PyError ''JSONDecodeError'' ''Expecting value''))
            (\<lambda>v. bind_res (jiter v) (\<lambda>rows. bind_res (matching_ids employee_id rows) (the_one_id employee_id))))"

definition find_cardholder_id :: "'h web_env \<Rightarrow> web_client \<Rightarrow> string \<Rightarrow> ('h web, string) comp" where
  "find_cardholder_id env cl employee_id =
     bind_comp (page_token env cl ''/Cardholders/Cardholders/Search'') (\<lambda>token.
     bind_comp (web_post env cl ''/Cardholders/Cardholders/SearchResult''
       [(''Referer'', wc_base cl @ ''/Cardholders/Cardholders/Search'')]
       (FilesBody (List.map (\<lambda>(k, v). (k, None, v)) (search_form employee_id token)) []))
       (\<lambda>r. pure_res (search_answer env employee_id r)))"

section \<open>Writes\<close>

text \<open>\<open>_is_cardholder_form\<close>: the parser refuses a page with no controls.\<close>

definition is_cardholder_form :: "'h web_env \<Rightarrow> string \<Rightarrow> bool" where
  "is_cardholder_form env text = (case form_parse (we_events env text) of Inl _ \<Rightarrow> False | Inr _ \<Rightarrow> True)"

definition screen_url :: "web_client \<Rightarrow> string \<Rightarrow> string" where
  "screen_url cl cid = wc_base cl @ ''/Cardholders/Cardholders/Index/'' @ cid @ ''?pw=200''"

text \<open>True when the server moved on to the record; False is the form with its complaints.\<close>

definition save_verdict :: "'h web_env \<Rightarrow> string \<Rightarrow> response \<Rightarrow> bool res" where
  "save_verdict env cid r =
     (if is_redirect r then Inr True
      else if rs_status r = 200 then
        (if \<not> is_cardholder_form env (rs_text r)
         then Inl (MillenniumError (''Millennium answered the save for cardholder '' @ cid
           @ '' with something other than the cardholder form -- the record is unchanged''))
         else Inr False)
      else Inl (MillenniumError (''Save for cardholder '' @ cid @ '' -> HTTP '' @ string_of_nat (rs_status r))))"

text \<open>The lines a refused save is logged with: at most ten complaints, and how many were left out.\<close>

definition save_complaints :: "'h web_env \<Rightarrow> string \<Rightarrow> response \<Rightarrow> string list" where
  "save_complaints env cid r =
     (let reasons = validation_errors (we_events env (rs_text r)) in
      if reasons = [] then [''Millennium rejected the save for cardholder '' @ cid @ '' and the page carries no validation message -- the refusal was something other than a bad field'']
      else (''Millennium rejected the save for cardholder '' @ cid @ '': '' @ py_join ''; '' (take MAX_VALIDATION_ERRORS reasons))
        # (if length reasons > MAX_VALIDATION_ERRORS
           then [''Millennium: and '' @ string_of_nat (length reasons - MAX_VALIDATION_ERRORS)
             @ '' more complaint(s) about cardholder '' @ cid] else []))"

definition save_cardholder :: "'h web_env \<Rightarrow> web_client \<Rightarrow> string \<Rightarrow> form \<Rightarrow> ('h web, bool) comp" where
  "save_cardholder env cl cid f s =
     (let boundary = we_boundary env (wb_net s) in
      bind_comp
        (web_post env cl (''/Cardholders/Cardholders/Index/'' @ cid)
          [(''Content-Type'', multipart_type boundary), (''Accept'', ''text/html''), (''Origin'', wc_base cl),
           (''Referer'', screen_url cl cid)] (RawBody (multipart_body boundary f)))
        (\<lambda>r. pure_res (save_verdict env cid r)) s)"

definition delete_card :: "'h web_env \<Rightarrow> web_client \<Rightarrow> string \<Rightarrow> string \<Rightarrow> string \<Rightarrow> ('h web, bool) comp" where
  "delete_card env cl cid card_id token =
     bind_comp
       (web_post env cl ''/Cardholders/Cardholders/DeleteCard'' [(''Origin'', wc_base cl), (''Referer'', screen_url cl cid)]
         (FormBody [(TOKEN_FIELD, token), (''ID'', cid), (''CardID'', card_id)]))
       (\<lambda>r. pure_res (Inr (rs_status r = 200 \<and> py_lower (py_strip (rs_text r)) = ''true'')))"

text \<open>The first slot of the record that shows this card; a card without an id is not deleted.\<close>

definition slot_shows :: "form \<Rightarrow> string \<Rightarrow> string \<Rightarrow> nat \<Rightarrow> bool" where
  "slot_shows f facility number n \<longleftrightarrow>
     py_strip (form_value f (slot_field n ''EncodedCardNumber'')) = number
     \<and> py_strip (form_value f (slot_field n ''FacilityCode'')) = facility"

definition card_on_page :: "form \<Rightarrow> string \<Rightarrow> string \<Rightarrow> string option" where
  "card_on_page f facility number =
     (case List.find (slot_shows f facility number) CARD_SLOTS of
        None \<Rightarrow> None
      | Some n \<Rightarrow> let i = py_strip (form_value f (slot_field n ''CardID'')) in if i = '''' then None else Some i)"

definition delete_card_by_number :: "'h web_env \<Rightarrow> web_client \<Rightarrow> string \<Rightarrow> string \<Rightarrow> string \<Rightarrow> ('h web, bool) comp" where
  "delete_card_by_number env cl employee_id facility number =
     bind_comp (find_cardholder_id env cl employee_id) (\<lambda>record_id.
     bind_comp (get_cardholder_form env cl record_id) (\<lambda>f.
       case card_on_page f facility number of
         Some card_id \<Rightarrow> delete_card env cl record_id card_id (form_token f)
       | None \<Rightarrow> pure_res (Inl (MillenniumError (''Employee ID '' @ employee_id @ '' holds no card '' @ facility @ ''/'' @ number)))))"

section \<open>The client the adapter is given\<close>

definition web_card_formats :: "'h web_env \<Rightarrow> web_client \<Rightarrow> ('h web, (string \<times> string) list) comp" where
  "web_card_formats env cl =
     bind_comp (first_cardholder_id env cl) (\<lambda>cid. if cid = '''' then pure_res (Inr []) else card_formats env cl cid)"

definition web_mill_client :: "'h web_env \<Rightarrow> web_client \<Rightarrow> nat \<Rightarrow> 'h web mill_client" where
  "web_mill_client env cl fuel = \<lparr>
     mc_card_formats = web_card_formats env cl,
     mc_get_cardholder_form = (\<lambda>cid. bind_comp (get_cardholder_form env cl cid) (\<lambda>f. pure_res (Inr (form_value f)))),
     mc_export_cardholders = export_cardholders env cl fuel,
     mc_import_cardholders = import_cardholders env cl fuel,
     mc_delete_card_by_number = delete_card_by_number env cl\<rparr>"

section \<open>The captured session\<close>

definition get_or :: "(string \<times> string) list \<Rightarrow> string \<Rightarrow> string" where
  "get_or d k = (case map_of d k of None \<Rightarrow> '''' | Some v \<Rightarrow> v)"

definition session_from_cookies :: "string \<Rightarrow> (string \<times> string) list \<Rightarrow> web_session" where
  "session_from_cookies base jar =
     (let token_name = (case List.find (\<lambda>kv. py_startswith (fst kv) ANTIFORGERY_COOKIE_PREFIX) jar of
                          None \<Rightarrow> '''' | Some kv \<Rightarrow> fst kv) in
      \<lparr>ws_base_url = base,
       ws_auth_cookie = get_or jar AUTH_COOKIE,
       ws_company_name = get_or jar COMPANY_COOKIE,
       ws_time_offset = get_or jar TIMEOFFSET_COOKIE,
       ws_request_token = (if token_name = '''' then '''' else get_or jar token_name),
       ws_request_token_cookie = token_name\<rparr>)"

definition validate_session :: "'h web_env \<Rightarrow> string \<Rightarrow> web_session \<Rightarrow> 'h web \<Rightarrow> (bool \<times> string) \<times> 'h web" where
  "validate_session env base ws s =
     (case new_client (we_brackets env) (if ws_base_url ws = '''' then ws\<lparr>ws_base_url := base\<rparr> else ws) of
        Inl e \<Rightarrow> ((False, exn_class e @ '': '' @ exn_message e), s)
      | Inr cl \<Rightarrow>
          (case first_cardholder_id env cl s of
             (Inl e, s1) \<Rightarrow> ((False, exn_class e @ '': '' @ exn_message e), s1)
           | (Inr cid, s1) \<Rightarrow>
               (if cid = '''' then (False, ''signed in, but no cardholders were readable'') else (True, ''''), s1)))"

text \<open>What the adapter is built with: a cookie given, or the stored session under what is given.\<close>

definition adapter_session :: "web_session \<Rightarrow> web_session \<Rightarrow> web_session" where
  "adapter_session given kept =
     (let st = (if ws_auth_cookie given = '''' then kept
                else \<lparr>ws_base_url = '''', ws_auth_cookie = '''', ws_company_name = '''', ws_time_offset = '''',
                  ws_request_token = '''', ws_request_token_cookie = ''''\<rparr>);
          pick = (\<lambda>f. if f given = '''' then f st else f given) in
      \<lparr>ws_base_url = pick ws_base_url, ws_auth_cookie = pick ws_auth_cookie, ws_company_name = pick ws_company_name,
       ws_time_offset = pick ws_time_offset, ws_request_token = pick ws_request_token,
       ws_request_token_cookie = pick ws_request_token_cookie\<rparr>)"

end
