(* ===== verification/Html_Laws.thy ===== *)
theory Html_Laws
  imports Html_Form
begin

text \<open>
  What the form keeps: a page that shows a form is read back as that form, a change touches the one
  control it names, and the posted body says exactly what the form submits. The page and the
  reading of the body are reference definitions, on the side of the browser and of the server.
\<close>

section \<open>A page that shows a form\<close>

definition option_events :: "html_option \<Rightarrow> html_event list" where
  "option_events opt = [Start_tag ''option'' ((''value'', Some (ho_value opt)) # (if ho_selected opt then [(''selected'', None)] else [])),
     Text_data (ho_label opt), End_tag ''option'']"

definition control_events :: "control \<Rightarrow> html_event list" where
  "control_events c =
     (if ct_kind c = ''select''
      then Start_tag ''select'' [(''name'', Some (ct_name c))] # concat (List.map option_events (ct_options c)) @ [End_tag ''select'']
      else if ct_kind c = ''textarea''
      then [Start_tag ''textarea'' [(''name'', Some (ct_name c))], Text_data (ct_value c), End_tag ''textarea'']
      else [Start_tag ''input'' ([(''name'', Some (ct_name c)), (''type'', Some (ct_kind c)), (''value'', Some (ct_value c))]
         @ (if ct_checked c then [(''checked'', None)] else []))])"

definition form_page :: "form \<Rightarrow> html_event list" where
  "form_page f = Start_tag ''form'' [(''id'', Some FORM_ID), (''action'', Some (fm_action f))]
     # concat (List.map control_events (fm_controls f)) @ [End_tag ''form'']"

text \<open>The controls the parser can produce: named, and carrying only what their kind has.\<close>

definition plain_control :: "control \<Rightarrow> bool" where
  "plain_control c \<longleftrightarrow> ct_name c \<noteq> '''' \<and> ct_kind c \<noteq> '''' \<and> py_lower (ct_kind c) = ct_kind c
     \<and> (ct_kind c = ''select'' \<longrightarrow> ct_value c = '''' \<and> \<not> ct_checked c)
     \<and> (ct_kind c = ''textarea'' \<longrightarrow> \<not> ct_checked c) \<and> (ct_kind c \<noteq> ''select'' \<longrightarrow> ct_options c = [])"

text \<open>Between two controls nothing is held.\<close>

definition at_rest :: "control list \<Rightarrow> string \<Rightarrow> form_parser" where
  "at_rest cs act = form_start\<lparr>fp_in_form := True, fp_action := act, fp_controls := cs\<rparr>"

lemma lower_names [simp]:
  "py_lower ''form'' = ''form''" "py_lower ''input'' = ''input''" "py_lower ''select'' = ''select''" "py_lower ''option'' = ''option''"
  "py_lower ''textarea'' = ''textarea''" "py_lower ''name'' = ''name''" "py_lower ''type'' = ''type''" "py_lower ''value'' = ''value''"
  "py_lower ''checked'' = ''checked''" "py_lower ''selected'' = ''selected''" "py_lower ''id'' = ''id''" "py_lower ''action'' = ''action''"
  by (simp_all add: py_lower_def lower_char_def)

lemmas parser_defs = form_starttag_def form_endtag_def form_data_def attrs_of_def attr_or_def has_attr_def Let_def
  start_select_def start_option_def start_textarea_def input_control_def empty_control_def add_control_def change_control_def
  add_label_def at_rest_def form_start_def

lemma read_input:
  assumes "plain_control c" and "ct_kind c \<noteq> ''select''" and "ct_kind c \<noteq> ''textarea''"
  shows "fold form_event (control_events c) (at_rest cs act) = at_rest (cs @ [c]) act"
  using assms by (cases c) (auto simp: control_events_def plain_control_def parser_defs)

lemma read_textarea:
  assumes "plain_control c" and "ct_kind c = ''textarea''"
  shows "fold form_event (control_events c) (at_rest cs act) = at_rest (cs @ [c]) act"
  using assms by (cases c) (auto simp: control_events_def plain_control_def parser_defs)

lemma read_options:
  "fold form_event (concat (List.map option_events opts)) ((at_rest (cs @ [c]) act)\<lparr>fp_select := Some (length cs)\<rparr>)
     = (at_rest (cs @ [c\<lparr>ct_options := ct_options c @ opts\<rparr>]) act)\<lparr>fp_select := Some (length cs)\<rparr>"
proof (induction opts arbitrary: c)
  case (Cons opt opts)
  have "fold form_event (option_events opt) ((at_rest (cs @ [c]) act)\<lparr>fp_select := Some (length cs)\<rparr>)
      = (at_rest (cs @ [c\<lparr>ct_options := ct_options c @ [opt]\<rparr>]) act)\<lparr>fp_select := Some (length cs)\<rparr>"
    by (cases opt) (simp add: option_events_def parser_defs)
  then show ?case using Cons.IH [of "c\<lparr>ct_options := ct_options c @ [opt]\<rparr>"] by simp
qed simp

lemma read_select:
  assumes "plain_control c" and "ct_kind c = ''select''"
  shows "fold form_event (control_events c) (at_rest cs act) = at_rest (cs @ [c]) act"
proof -
  let ?e = "empty_control (ct_name c) ''select''"
  have "form_event (Start_tag ''select'' [(''name'', Some (ct_name c))]) (at_rest cs act)
      = (at_rest (cs @ [?e]) act)\<lparr>fp_select := Some (length cs)\<rparr>"
    using assms by (simp add: plain_control_def parser_defs)
  then have "fold form_event (control_events c) (at_rest cs act)
      = at_rest (cs @ [?e\<lparr>ct_options := ct_options ?e @ ct_options c\<rparr>]) act"
    using assms(2) read_options [of "ct_options c" cs ?e act] by (simp add: control_events_def) (simp add: parser_defs)
  moreover have "?e\<lparr>ct_options := ct_options ?e @ ct_options c\<rparr> = c"
    using assms by (cases c) (simp add: plain_control_def empty_control_def)
  ultimately show ?thesis by simp
qed

lemma read_controls:
  "\<forall>c\<in>set ds. plain_control c \<Longrightarrow>
     fold form_event (concat (List.map control_events ds)) (at_rest cs act) = at_rest (cs @ ds) act"
proof (induction ds arbitrary: cs)
  case (Cons c ds)
  then have "fold form_event (control_events c) (at_rest cs act) = at_rest (cs @ [c]) act"
    using read_input read_textarea read_select by (cases "ct_kind c = ''select''"; cases "ct_kind c = ''textarea''") auto
  then show ?case using Cons by simp
qed simp

lemma form_page_parse:
  assumes "\<forall>c\<in>set (fm_controls f). plain_control c" and "fm_controls f \<noteq> []"
  shows "form_parse (form_page f) = Inr f"
proof -
  have "form_event (Start_tag ''form'' [(''id'', Some FORM_ID), (''action'', Some (fm_action f))]) form_start = at_rest [] (fm_action f)"
    by (simp add: parser_defs wanted_form_def)
  then have "fold form_event (form_page f) form_start = (at_rest (fm_controls f) (fm_action f))\<lparr>fp_done := True\<rparr>"
    using read_controls [OF assms(1), of "[]"] by (simp add: form_page_def) (simp add: parser_defs)
  then show ?thesis using assms(2) by (simp add: form_parse_def at_rest_def)
qed

section \<open>A change touches one control\<close>

lemma change_first_split:
  assumes "change_first name f cs = Inr ds"
  obtains as c bs d where "cs = as @ c # bs" "ds = as @ d # bs" "name \<notin> ct_name ` set as" "ct_name c = name" "f c = Inr d"
  using assms
proof (induction cs arbitrary: ds thesis)
  case (Cons c cs)
  show ?case
  proof (cases "ct_name c = name")
    case True
    with Cons.prems(2) obtain d where "f c = Inr d" "ds = d # cs" by (auto simp: bind_res_Inr_iff)
    then show ?thesis using True Cons.prems(1) [of "[]" c cs d] by simp
  next
    case False
    with Cons.prems(2) obtain es where es: "change_first name f cs = Inr es" "ds = c # es" by (auto simp: bind_res_Inr_iff)
    from Cons.IH [OF _ es(1)] obtain as d bs d' where "cs = as @ d # bs" "es = as @ d' # bs" "name \<notin> ct_name ` set as"
      "ct_name d = name" "f d = Inr d'" by metis
    then show ?thesis using False es(2) Cons.prems(1) [of "c # as" d bs d'] by auto
  qed
qed simp

lemma pick_option_selected: "pick_option v opts = Some os \<Longrightarrow> \<exists>opt. List.find ho_selected os = Some opt \<and> ho_value opt = v"
  by (induction opts arbitrary: os) (auto split: if_splits)

lemma give_value_value: "give_value v c = Inr d \<Longrightarrow> submitted_value d = v \<and> ct_name d = ct_name c \<and> submits d = submits c"
  by (auto simp: give_value_def submitted_value_def submits_def split: if_splits option.splits dest!: pick_option_selected)

lemma set_value_local:
  assumes "set_value name v f = Inr g"
  shows "form_value g name = v" and "n \<noteq> name \<Longrightarrow> form_find g n = form_find f n"
    and "List.map ct_name (List.filter submits (fm_controls g)) = List.map ct_name (List.filter submits (fm_controls f))"
    and "fm_action g = fm_action f"
    and "\<exists>as c d bs. fm_controls f = as @ c # bs \<and> fm_controls g = as @ d # bs \<and> ct_name c = name"
proof -
  from assms obtain ds where first: "change_first name (give_value v) (fm_controls f) = Inr ds" and g: "g = f\<lparr>fm_controls := ds\<rparr>"
    by (auto simp: set_value_def change_form_def bind_res_Inr_iff)
  from first obtain as c bs d where split: "fm_controls f = as @ c # bs" "ds = as @ d # bs" "name \<notin> ct_name ` set as"
    "ct_name c = name" "give_value v c = Inr d" by (rule change_first_split)
  note d = give_value_value [OF split(5)]
  have none: "List.find (\<lambda>c. ct_name c = name) as = None" using split(3) by (auto simp: find_None_iff_all)
  show "form_value g name = v"
    using none d split(4) by (simp add: form_value_def form_find_def g split(2) find_append)
  show "n \<noteq> name \<Longrightarrow> form_find g n = form_find f n"
    using d split(4) by (auto simp: form_find_def g split(1,2) find_append split: option.split)
  show "List.map ct_name (List.filter submits (fm_controls g)) = List.map ct_name (List.filter submits (fm_controls f))"
    using d by (simp add: g split(1,2))
  show "fm_action g = fm_action f" by (simp add: g)
  show "\<exists>as c d bs. fm_controls f = as @ c # bs \<and> fm_controls g = as @ d # bs \<and> ct_name c = name"
    using split by (auto simp: g)
qed

section \<open>The posted body\<close>

text \<open>A server's reading of the body: the parts between the boundaries, each past its header lines.\<close>

fun split_all :: "nat \<Rightarrow> string \<Rightarrow> string \<Rightarrow> string list" where
  "split_all 0 sep s = [s]"
| "split_all (Suc n) sep s = (case split_once sep s of None \<Rightarrow> [s] | Some (a, r) \<Rightarrow> a # split_all n sep r)"

fun after_headers :: "nat \<Rightarrow> string \<Rightarrow> string" where
  "after_headers 0 s = s"
| "after_headers (Suc n) s = (case split_once crlf s of None \<Rightarrow> s | Some (line, r) \<Rightarrow> if line = [] then r else after_headers n r)"

definition read_part :: "string \<Rightarrow> string \<times> string" where
  "read_part part = (takeWhile (\<lambda>c. c \<noteq> quote_char) (drop (length (crlf @ DISPOSITION)) part),
     after_headers (length part) (drop (length crlf) part))"

definition read_multipart :: "string \<Rightarrow> string \<Rightarrow> (string \<times> string) list" where
  "read_multipart boundary body =
     List.map read_part (butlast (tl (split_all (length body) (crlf @ ''--'' @ boundary) (crlf @ body))))"

text \<open>What the server is told: a file control says nothing.\<close>

definition told :: "control \<Rightarrow> string \<times> string" where
  "told c = (ct_name c, if ct_kind c = ''file'' then '''' else submitted_value c)"

text \<open>The names are clean, and the boundary was drawn so that it is in no part.\<close>

definition clean_for :: "string \<Rightarrow> control \<Rightarrow> bool" where
  "clean_for boundary c \<longleftrightarrow> quote_char \<notin> set (ct_name c) \<and> CHR 0x0D \<notin> set (ct_name c)
     \<and> \<not> py_contains (crlf @ part_of c) boundary"

lemma py_contains_iff: "py_contains s p \<longleftrightarrow> (\<exists>a r. s = a @ p @ r)"
proof (induction s)
  case Nil
  then show ?case by (auto simp: py_contains.simps [of "[]"] py_startswith_def)
next
  case (Cons c s)
  have starts: "py_startswith (c # s) p \<longleftrightarrow> (\<exists>r. c # s = p @ r)"
    by (metis append_eq_conv_conj append_take_drop_id py_startswith_def)
  show ?case
  proof
    assume "py_contains (c # s) p"
    then have "py_startswith (c # s) p \<or> py_contains s p" by (subst (asm) py_contains.simps) simp
    then show "\<exists>a r. c # s = a @ p @ r" using starts Cons by (metis append.left_neutral append_Cons)
  next
    assume "\<exists>a r. c # s = a @ p @ r"
    then obtain a r where "c # s = a @ p @ r" by blast
    then have "py_startswith (c # s) p \<or> py_contains s p"
      using starts Cons by (cases a) auto
    then show "py_contains (c # s) p" by (subst py_contains.simps) simp
  qed
qed

lemma split_once_eq: "split_once sep s = Some (a, r) \<Longrightarrow> s = a @ sep @ r"
proof (induction s arbitrary: a)
  case Nil
  then show ?case by (auto simp: split_once.simps [of _ "[]"] py_startswith_def split: if_splits)
next
  case (Cons c s)
  show ?case
  proof (cases "py_startswith (c # s) sep")
    case True
    then show ?thesis using Cons.prems by (metis append_Nil append_take_drop_id option.inject prod.inject py_startswith_def split_once.simps)
  next
    case False
    then obtain b where "split_once sep s = Some (b, r)" "a = c # b"
      using Cons.prems by (subst (asm) split_once.simps) auto
    then show ?thesis using Cons.IH by simp
  qed
qed

text \<open>A separator whose first character does not come again in it, after a text without it.\<close>

lemma split_once_free:
  assumes "sep = c # sep'" and "c \<notin> set sep'" and "split_once sep s = None"
  shows "split_once sep (s @ sep @ t) = Some (s, t)"
  using assms(3)
proof (induction s)
  case Nil
  then show ?case by (simp add: split_once_head)
next
  case (Cons d s)
  have free: "\<not> py_startswith (d # s) sep" "split_once sep s = None"
    using Cons.prems by (subst (asm) split_once.simps; simp split: if_splits)+
  have "\<not> py_startswith (d # s @ sep @ t) sep"
  proof
    assume "py_startswith (d # s @ sep @ t) sep"
    then have pre: "take (length sep) ((d # s) @ sep @ t) = sep" by (simp add: py_startswith_def)
    show False
    proof (cases "length sep \<le> length (d # s)")
      case True
      then have "take (length sep) ((d # s) @ sep @ t) = take (length sep) (d # s)" by (simp only: take_append) simp
      then show False using pre free(1) by (simp add: py_startswith_def)
    next
      case False
      then have len: "length (d # s) < length sep" by simp
      then have "sep ! length (d # s) = c"
        using pre assms(1) by (metis append_Cons nth_append_length nth_take)
      moreover have "sep ! length (d # s) = sep' ! length s" using assms(1) by simp
      moreover have "length s < length sep'" using len assms(1) by simp
      ultimately show False using assms(2) by (metis nth_mem)
    qed
  qed
  then show ?case using Cons.IH [OF free(2)] by (subst split_once.simps) simp
qed

text \<open>A part without the line end that starts the next boundary.\<close>

definition part_core :: "control \<Rightarrow> string" where
  "part_core c =
     (if ct_kind c = ''file''
      then DISPOSITION @ ct_name c @ [quote_char] @ ''; filename='' @ [quote_char, quote_char] @ crlf
        @ ''Content-Type: application/octet-stream'' @ crlf @ crlf
      else DISPOSITION @ ct_name c @ [quote_char] @ crlf @ crlf @ submitted_value c)"

lemma part_of_core: "part_of c = part_core c @ crlf"
  by (simp add: part_of_def part_core_def)

lemma split_all_parts:
  assumes "sep = c # sep'" and "c \<notin> set sep'" and "split_once sep z = None" and "\<forall>x\<in>set (pre # parts). split_once sep x = None"
    and "length parts < n"
  shows "split_all n sep (pre @ concat (List.map (\<lambda>x. sep @ x) parts) @ sep @ z) = pre # parts @ [z]"
  using assms(4,5)
proof (induction parts arbitrary: pre n)
  case Nil
  then obtain m where n: "n = Suc m" by (cases n) auto
  have "split_once sep (pre @ sep @ z) = Some (pre, z)" using split_once_free [OF assms(1,2)] Nil by simp
  moreover have "split_all m sep z = [z]" using assms(3) by (cases m) simp_all
  ultimately show ?case by (simp add: n)
next
  case (Cons x parts)
  then obtain m where n: "n = Suc m" by (cases n) auto
  have "split_once sep (pre @ sep @ x @ concat (List.map (\<lambda>x. sep @ x) parts) @ sep @ z)
      = Some (pre, x @ concat (List.map (\<lambda>x. sep @ x) parts) @ sep @ z)"
    using split_once_free [OF assms(1,2)] Cons.prems(1) by simp
  then show ?case using Cons n by simp
qed

lemma crlf_line: "CHR 0x0D \<notin> set line \<Longrightarrow> split_once crlf (line @ crlf @ r) = Some (line, r)"
  by (rule split_once_after [where c = "CHR 0x0D" and sep' = "[CHR 0x0A]"]) (simp_all add: crlf_def)

lemma no_cr [simp]:
  "CHR 0x0D \<notin> set DISPOSITION" "CHR 0x0D \<noteq> quote_char" "DISPOSITION \<noteq> []"
  by (simp_all add: DISPOSITION_def quote_char_def)

lemma read_core:
  assumes "quote_char \<notin> set (ct_name c)" and "CHR 0x0D \<notin> set (ct_name c)"
  shows "read_part (crlf @ part_core c) = told c"
proof -
  let ?line = "DISPOSITION @ ct_name c @ [quote_char]"
  let ?file = "?line @ ''; filename='' @ [quote_char, quote_char]"
  have name: "takeWhile (\<lambda>d. d \<noteq> quote_char) (ct_name c @ quote_char # r) = ct_name c" for r
    using assms(1) by (simp add: takeWhile_tail takeWhile_append2 takeWhile_eq_all_conv) (metis takeWhile_eq_all_conv)
  have text_part: "after_headers (Suc (Suc n)) (?line @ crlf @ crlf @ v) = v" for n v
    using assms(2) crlf_line [of ?line "crlf @ v"] split_once_head [of crlf v] by simp
  have "CHR 0x0D \<notin> set ?file" "CHR 0x0D \<notin> set ''Content-Type: application/octet-stream''"
    using assms(2) by simp_all
  then have file_part: "after_headers (Suc (Suc (Suc n))) (?file @ crlf @ ''Content-Type: application/octet-stream'' @ crlf @ crlf) = []" for n
    using crlf_line [of ?file "''Content-Type: application/octet-stream'' @ crlf @ crlf"]
      crlf_line [of "''Content-Type: application/octet-stream''" crlf] split_once_head [of crlf "[]"] by simp
  have "part_core c \<noteq> []" by (simp add: part_core_def)
  then obtain n where len: "length (crlf @ part_core c) = Suc (Suc (Suc n))"
    by (cases "part_core c") (auto simp: crlf_def)
  have drops: "drop (length crlf) (crlf @ part_core c) = part_core c" by simp
  show ?thesis
  proof (cases "ct_kind c = ''file''")
    case True
    then have core: "part_core c = ?file @ crlf @ ''Content-Type: application/octet-stream'' @ crlf @ crlf"
      by (simp add: part_core_def)
    have "drop (length (crlf @ DISPOSITION)) (crlf @ part_core c)
        = ct_name c @ quote_char # drop (length ?line) (part_core c)"
      by (simp add: core)
    then show ?thesis
      unfolding read_part_def len drops told_def using True name file_part [of n] by (simp only: core) simp
  next
    case False
    then have core: "part_core c = ?line @ crlf @ crlf @ submitted_value c" by (simp add: part_core_def)
    have "drop (length (crlf @ DISPOSITION)) (crlf @ part_core c)
        = ct_name c @ quote_char # drop (length ?line) (part_core c)"
      by (simp add: core)
    then show ?thesis
      unfolding read_part_def len drops told_def using False name text_part [of "Suc n"] by (simp only: core) simp
  qed
qed

lemma multipart_layout:
  "crlf @ multipart_body b f = [] @ concat (List.map (\<lambda>x. (crlf @ ''--'' @ b) @ x)
      (List.map (\<lambda>c. crlf @ part_core c) (List.filter submits (fm_controls f)))) @ (crlf @ ''--'' @ b) @ ''--'' @ crlf"
proof -
  have "crlf @ concat (List.map (\<lambda>c. ''--'' @ b @ crlf @ part_of c) cs) @ ''--'' @ b @ r
      = concat (List.map (\<lambda>x. (crlf @ ''--'' @ b) @ x) (List.map (\<lambda>c. crlf @ part_core c) cs)) @ (crlf @ ''--'' @ b) @ r"
    for cs r by (induction cs) (simp_all add: part_of_core)
  then show ?thesis by (simp add: multipart_body_def)
qed

lemma boundary_absent:
  assumes "\<not> py_contains s b"
  shows "split_once (crlf @ ''--'' @ b) s = None"
proof (rule ccontr)
  assume "split_once (crlf @ ''--'' @ b) s \<noteq> None"
  then obtain a r where "s = a @ (crlf @ ''--'' @ b) @ r" using split_once_eq by fastforce
  then have "s = (a @ crlf @ ''--'') @ b @ r" by simp
  then show False using assms py_contains_iff by blast
qed

lemma core_clean: "clean_for b c \<Longrightarrow> \<not> py_contains (crlf @ part_core c) b"
  unfolding clean_for_def part_of_core py_contains_iff by (metis append.assoc)

text \<open>The server is told exactly what the form submits, in its order.\<close>

lemma multipart_read:
  assumes "\<forall>c\<in>set (fm_controls f). clean_for b c" and "CHR 0x0D \<notin> set b"
  shows "read_multipart b (multipart_body b f) = List.map told (List.filter submits (fm_controls f))"
proof -
  let ?cs = "List.filter submits (fm_controls f)" and ?sep = "crlf @ ''--'' @ b"
  let ?parts = "List.map (\<lambda>c. crlf @ part_core c) ?cs"
  have sep: "?sep = CHR 0x0D # CHR 0x0A # ''--'' @ b" by (simp add: crlf_def)
  have free: "CHR 0x0D \<notin> set (CHR 0x0A # ''--'' @ b)" using assms(2) by simp
  have last: "split_once ?sep (''--'' @ crlf) = None"
    by (auto simp: crlf_def split_once.simps [of _ "_ # _"] split_once.simps [of _ "[]"] py_startswith_def)
  have "split_once ?sep x = None" if "x \<in> set ?parts" for x
  proof -
    from that obtain c where "clean_for b c" "x = crlf @ part_core c" using assms(1) by auto
    then show ?thesis by (simp only: boundary_absent core_clean not_False_eq_True)
  qed
  moreover have "split_once ?sep [] = None" by (simp add: crlf_def split_once.simps [of _ "[]"] py_startswith_def)
  ultimately have parts: "\<forall>x\<in>set ([] # ?parts). split_once ?sep x = None" by (metis set_ConsD)
  have "length cs < length (concat (List.map (\<lambda>c. ''--'' @ b @ crlf @ part_of c) cs) @ ''--'' @ b @ ''--'' @ crlf)" for cs
    by (induction cs) simp_all
  then have "length ?parts < length (multipart_body b f)" by (simp add: multipart_body_def)
  then have "split_all (length (multipart_body b f)) ?sep (crlf @ multipart_body b f) = [] # ?parts @ [''--'' @ crlf]"
    unfolding multipart_layout by (rule split_all_parts [OF sep free last parts])
  then have "read_multipart b (multipart_body b f) = List.map read_part ?parts" by (simp add: read_multipart_def butlast_append)
  also have "\<dots> = List.map told ?cs"
    using assms(1) read_core by (auto simp: clean_for_def)
  finally show ?thesis .
qed

section \<open>Complaints\<close>

text \<open>The two shapes a refused page writes them in.\<close>

definition field_complaint :: "string \<Rightarrow> string \<Rightarrow> html_event list" where
  "field_complaint fld m = [Start_tag ''span'' [(''class'', Some FIELD_CLASS), (''data-valmsg-for'', Some fld)], Text_data m, End_tag ''span'']"

definition summary_complaints :: "string list \<Rightarrow> html_event list" where
  "summary_complaints ms = [Start_tag ''div'' [(''class'', Some SUMMARY_CLASS)], Start_tag ''ul'' []]
     @ concat (List.map (\<lambda>m. [Start_tag ''li'' [], Text_data m, End_tag ''li'']) ms) @ [End_tag ''ul'', End_tag ''div'']"

definition settled :: "string list \<Rightarrow> complaints" where
  "settled ms = complaints_start\<lparr>cp_messages := ms\<rparr>"

definition one_line :: "string \<Rightarrow> bool" where
  "one_line m \<longleftrightarrow> m \<noteq> '''' \<and> py_join '' '' (split_space m) = m"

lemma class_split [simp]: "split_space FIELD_CLASS = [FIELD_CLASS]" "split_space SUMMARY_CLASS = [SUMMARY_CLASS]"
  by code_simp+

lemma classes_differ [simp]: "SUMMARY_CLASS \<noteq> FIELD_CLASS" "FIELD_CLASS \<noteq> SUMMARY_CLASS"
  by (simp_all add: SUMMARY_CLASS_def FIELD_CLASS_def)

lemmas complaint_defs = complaints_starttag_def complaints_endtag_def begin_capture_def emit_def raw_attr_def settled_def
  complaints_start_def Let_def

lemma read_field_complaint:
  assumes "one_line m" and "fld \<noteq> ''''"
  shows "fold complaints_event (field_complaint fld m) (settled ms) = settled (ms @ [fld @ '': '' @ m])"
  using assms by (simp add: field_complaint_def one_line_def complaint_defs)

lemma read_summary:
  assumes "\<forall>m\<in>set new. one_line m"
  shows "fold complaints_event (summary_complaints new) (settled ms) = settled (ms @ new)"
proof -
  have "fold complaints_event (concat (List.map (\<lambda>m. [Start_tag ''li'' [], Text_data m, End_tag ''li'']) new)) ((settled ms)\<lparr>cp_summary := 2\<rparr>)
      = (settled (ms @ new))\<lparr>cp_summary := 2\<rparr>"
    using assms
  proof (induction new arbitrary: ms)
    case (Cons m new)
    then have "fold complaints_event [Start_tag ''li'' [], Text_data m, End_tag ''li''] ((settled ms)\<lparr>cp_summary := 2\<rparr>)
        = (settled (ms @ [m]))\<lparr>cp_summary := 2\<rparr>"
      by (simp add: one_line_def complaint_defs)
    then show ?case using Cons by simp
  qed simp
  then show ?thesis by (simp add: summary_complaints_def) (simp add: complaint_defs eval_nat_numeral)
qed

text \<open>A void element is a start without an end: the message it stands in swallows what follows on the page.\<close>

lemma void_tag_swallows:
  assumes "list_all (\<lambda>ev. case ev of Text_data d \<Rightarrow> True | _ \<Rightarrow> False) rest"
  shows "cp_capture (fold complaints_event ([Start_tag ''span'' [(''class'', Some FIELD_CLASS)], Start_tag ''br'' [], End_tag ''span''] @ rest)
      (settled ms)) = 1"
proof -
  have "cp_capture (fold complaints_event rest s) = cp_capture s" for s
    using assms by (induction rest arbitrary: s) (auto split: html_event.splits)
  then show ?thesis by (simp add: complaint_defs)
qed


section \<open>The parser stays well formed\<close>

text \<open>
  What the parser holds is always a control or an option it has seen, of the kind it takes it for;
  every control has a name and a kind in lower case, and only a select has options.
\<close>

definition typed_control :: "control \<Rightarrow> bool" where
  "typed_control c \<longleftrightarrow> ct_name c \<noteq> '''' \<and> ct_kind c \<noteq> '''' \<and> py_lower (ct_kind c) = ct_kind c
     \<and> (ct_options c \<noteq> [] \<longrightarrow> ct_kind c = ''select'')"

definition held_kind :: "control list \<Rightarrow> string \<Rightarrow> nat option \<Rightarrow> bool" where
  "held_kind cs kind h \<longleftrightarrow> (case h of None \<Rightarrow> True | Some i \<Rightarrow> i < length cs \<and> ct_kind (cs ! i) = kind)"

definition held_option :: "control list \<Rightarrow> (nat \<times> nat) option \<Rightarrow> bool" where
  "held_option cs h \<longleftrightarrow> (case h of None \<Rightarrow> True | Some (i, j) \<Rightarrow> i < length cs \<and> j < length (ct_options (cs ! i)))"

definition typed_parser :: "form_parser \<Rightarrow> bool" where
  "typed_parser p \<longleftrightarrow> list_all typed_control (fp_controls p) \<and> held_kind (fp_controls p) ''select'' (fp_select p)
     \<and> held_kind (fp_controls p) ''textarea'' (fp_textarea p) \<and> held_option (fp_controls p) (fp_option p)"

lemma lower_char_idem [simp]: "lower_char (lower_char c) = lower_char c"
  by (auto simp: lower_char_def Let_def)

lemma py_lower_idem [simp]: "py_lower (py_lower s) = py_lower s"
  by (simp add: py_lower_def)

lemma py_lower_Nil_iff [simp]: "py_lower s = [] \<longleftrightarrow> s = []"
  by (simp add: py_lower_def)

lemma held_kind_simps [simp]: "held_kind cs k None" "held_kind cs k (Some i) \<longleftrightarrow> i < length cs \<and> ct_kind (cs ! i) = k"
  by (simp_all add: held_kind_def)

lemma held_option_simps [simp]: "held_option cs None" "held_option cs (Some (i, j)) \<longleftrightarrow> i < length cs \<and> j < length (ct_options (cs ! i))"
  by (simp_all add: held_option_def)

text \<open>Adding a control, and changing one without changing its kind or losing an option, keeps what is held.\<close>

lemma held_kind_append: "held_kind cs k h \<Longrightarrow> held_kind (cs @ [c]) k h"
  by (cases h) (simp_all add: nth_append)

lemma held_option_append: "held_option cs h \<Longrightarrow> held_option (cs @ [c]) h"
  by (cases h) (auto simp: nth_append)

lemma nth_update_any: "a < length cs \<Longrightarrow> cs[i := x] ! a = (if i = a then x else cs ! a)"
  by (cases "i = a") simp_all

lemma held_kind_change: "held_kind cs k h \<Longrightarrow> ct_kind (f (cs ! i)) = ct_kind (cs ! i) \<Longrightarrow> held_kind (cs[i := f (cs ! i)]) k h"
  by (cases h) (auto simp: nth_update_any)

lemma held_option_change:
  "held_option cs h \<Longrightarrow> length (ct_options (cs ! i)) \<le> length (ct_options (f (cs ! i))) \<Longrightarrow> held_option (cs[i := f (cs ! i)]) h"
  by (cases h) (auto simp: nth_update_any)

lemma typed_add: "typed_parser p \<Longrightarrow> typed_control c \<Longrightarrow> typed_parser (add_control c p)"
  by (simp add: typed_parser_def add_control_def held_kind_append held_option_append)

lemma typed_change:
  assumes "typed_parser p" and "i < length (fp_controls p)"
    and "typed_control (f (fp_controls p ! i))" and "ct_kind (f (fp_controls p ! i)) = ct_kind (fp_controls p ! i)"
    and "length (ct_options (fp_controls p ! i)) \<le> length (ct_options (f (fp_controls p ! i)))"
  shows "typed_parser (change_control i f p)"
  using assms by (simp add: typed_parser_def change_control_def held_kind_change held_option_change list_all_length nth_list_update)

lemma typed_input: "name \<noteq> '''' \<Longrightarrow> typed_control (input_control name attrs)"
  by (simp add: typed_control_def input_control_def Let_def)

lemma typed_starttag:
  assumes "typed_parser p"
  shows "typed_parser (form_starttag t attrs p)"
proof -
  have sel: "typed_parser (start_select name p)" for name
  proof (cases "name = ''''")
    case True
    then show ?thesis using assms by (simp add: start_select_def typed_parser_def)
  next
    case False
    then have "typed_control (empty_control name ''select'')" by (simp add: typed_control_def empty_control_def)
    from typed_add [OF assms this] show ?thesis using False
      by (simp add: start_select_def typed_parser_def add_control_def empty_control_def)
  qed
  have area: "typed_parser (start_textarea name p)" for name
  proof (cases "name = ''''")
    case True
    then show ?thesis using assms by (simp add: start_textarea_def typed_parser_def)
  next
    case False
    then have "typed_control (empty_control name ''textarea'')" by (simp add: typed_control_def empty_control_def)
    from typed_add [OF assms this] show ?thesis using False
      by (simp add: start_textarea_def typed_parser_def add_control_def empty_control_def)
  qed
  have opt: "typed_parser (start_option as i p)" if i: "fp_select p = Some i" for as i
  proof -
    have at: "i < length (fp_controls p)" "ct_kind (fp_controls p ! i) = ''select''" "typed_control (fp_controls p ! i)"
      using assms i by (auto simp: typed_parser_def list_all_length)
    let ?opt = "\<lparr>ho_value = attr_or as ''value'' '''', ho_selected = has_attr as ''selected'', ho_label = ''''\<rparr>"
    have "typed_parser (change_control i (\<lambda>c. c\<lparr>ct_options := ct_options c @ [?opt]\<rparr>) p)"
      using at by (intro typed_change [OF assms]) (simp_all add: typed_control_def)
    then show ?thesis using at(1) by (simp add: start_option_def Let_def typed_parser_def change_control_def)
  qed
  have frm: "typed_parser (p\<lparr>fp_in_form := b, fp_action := a\<rparr>)" for a b using assms by (simp add: typed_parser_def)
  show ?thesis using assms sel area opt frm by (auto simp: form_starttag_def Let_def typed_add typed_input)
qed

lemma typed_endtag: "typed_parser p \<Longrightarrow> typed_parser (form_endtag t p)"
  by (simp add: form_endtag_def Let_def typed_parser_def)

lemma typed_data:
  assumes "typed_parser p"
  shows "typed_parser (form_data d p)"
proof (cases "fp_option p")
  case (Some ij)
  obtain i j where ij: "ij = (i, j)" by fastforce
  then have at: "i < length (fp_controls p)" "j < length (ct_options (fp_controls p ! i))" "typed_control (fp_controls p ! i)"
    using assms Some by (auto simp: typed_parser_def list_all_length)
  have "typed_parser (change_control i (add_label j d) p)"
    using at by (intro typed_change [OF assms]) (auto simp: typed_control_def add_label_def)
  then show ?thesis using assms Some ij by (simp add: form_data_def)
next
  case None
  have "typed_parser (change_control i (\<lambda>c. c\<lparr>ct_value := ct_value c @ d\<rparr>) p)" if i: "fp_textarea p = Some i" for i
  proof -
    have at: "i < length (fp_controls p)" "typed_control (fp_controls p ! i)"
      using assms i by (auto simp: typed_parser_def list_all_length)
    then show ?thesis by (intro typed_change [OF assms]) (simp_all add: typed_control_def)
  qed
  then show ?thesis using assms None by (simp add: form_data_def split: option.split)
qed

lemma typed_event: "typed_parser p \<Longrightarrow> typed_parser (form_event e p)"
  by (cases e) (simp_all add: typed_starttag typed_endtag typed_data)

lemma typed_fold: "typed_parser p \<Longrightarrow> typed_parser (fold form_event page p)"
  by (induction page arbitrary: p) (simp_all add: typed_event)

lemma typed_start: "typed_parser form_start"
  by (simp add: typed_parser_def form_start_def)

end
