(* ===== verification/Mill_Web_Laws.thy ===== *)
theory Mill_Web_Laws
  imports Mill_Web Html_Laws
begin

text \<open>
  What the client of a Millennium install does, whatever the install answers: requests keep their
  distance, waiting for a job ends and delivers what finished in time, a dead session is told from
  an empty roster, and a deletion reaches only the card it names. The last section holds a small
  install for the examples.
\<close>

section \<open>Every call sends its requests one after another\<close>

lemma web_get_state: "snd (web_get env cl path params ajax screen s) = snd (web_send env cl (mk_request ''GET'' (wc_base cl @ path) params
    (if ajax then [(''Accept'', AJAX_ACCEPT), (''X-Requested-With'', ''XMLHttpRequest'')] else [(''Accept'', ''text/html'')]) NoBody) s)"
  by (simp add: web_get_def bind_comp_def pure_res_def split: prod.split sum.split)

lemma web_post_state:
  "snd (web_post env cl path hs b s) = snd (web_send env cl (mk_request ''POST'' (wc_base cl @ path) [] hs b) s)"
  by (simp add: web_post_def bind_comp_def pure_res_def split: prod.split sum.split)

lemma bind_pure_state [simp]: "snd (bind_comp m (\<lambda>v. pure_res (f v)) s) = snd (m s)"
  by (simp add: bind_comp_def pure_res_def split: prod.split sum.split)

text \<open>A request that may be sent, by the client the calls are made on.\<close>

definition kept_by_sends :: "'h web_env \<Rightarrow> web_client \<Rightarrow> (request \<Rightarrow> bool) \<Rightarrow> ('h web \<Rightarrow> bool) \<Rightarrow> bool" where
  "kept_by_sends env cl ok P \<longleftrightarrow> (\<forall>rq s. ok rq \<longrightarrow> P s \<longrightarrow> P (snd (web_send env cl rq s)))"

lemma web_get_keeps:
  assumes "kept_by_sends env cl ok P" and "P s" and "\<And>hs. ok (mk_request ''GET'' (wc_base cl @ path) params hs NoBody)"
  shows "P (snd (web_get env cl path params ajax screen s))"
  using assms by (simp add: web_get_state kept_by_sends_def)

lemma web_post_keeps:
  assumes "kept_by_sends env cl ok P" and "P s" and "ok (mk_request ''POST'' (wc_base cl @ path) [] hs b)"
  shows "P (snd (web_post env cl path hs b s))"
  using assms by (simp add: web_post_state kept_by_sends_def)

lemma bind_comp_keeps:
  assumes "P (snd (m s))" and "\<And>v s1. m s = (Inr v, s1) \<Longrightarrow> P s1 \<Longrightarrow> P (snd (k v s1))"
  shows "P (snd (bind_comp m k s))"
  using assms by (cases "m s") (auto simp: bind_comp_def split: sum.split)

lemma pure_res_state [simp]: "snd (pure_res r s) = s"
  by (simp add: pure_res_def)

section \<open>The pace\<close>

text \<open>The monotonic clock does not go back, and a sleep lasts at least as long as it was asked to.\<close>

definition sleeps_enough :: "'h web_env \<Rightarrow> bool" where
  "sleeps_enough env \<longleftrightarrow> (\<forall>d h. 0 \<le> d \<longrightarrow> we_monotonic env h + d \<le> we_monotonic env (we_sleep env d h))"

lemma pace_last: "wb_last (pace env s) = we_monotonic env (wb_net (pace env s))"
  by (simp add: pace_def Let_def web_sleep_def)

lemma pace_gap:
  assumes "sleeps_enough env"
  shows "wb_last s + MIN_REQUEST_INTERVAL \<le> wb_last (pace env s)"
proof -
  let ?w = "wb_last s + MIN_REQUEST_INTERVAL - we_monotonic env (wb_net s)"
  have "we_monotonic env (wb_net s) + ?w \<le> we_monotonic env (we_sleep env ?w (wb_net s))" if "0 \<le> ?w"
    using assms that unfolding sleeps_enough_def by blast
  then show ?thesis by (simp add: pace_def Let_def web_sleep_def)
qed

lemma web_send_last [simp]: "wb_last (snd (web_send env cl rq s)) = wb_last (pace env s)"
  by (simp add: web_send_def Let_def split: prod.split)

section \<open>Waiting for a job\<close>

definition clock_forward :: "'h web_env \<Rightarrow> web_client \<Rightarrow> bool" where
  "clock_forward env cl \<longleftrightarrow>
     (\<forall>rq h. http_now (we_open env (wc_cookies cl)) h
        \<le> http_now (we_open env (wc_cookies cl)) (snd (http_send (we_open env (wc_cookies cl)) rq h))) \<and>
     (\<forall>d h. 0 \<le> d \<longrightarrow> http_now (we_open env (wc_cookies cl)) h + d
        \<le> http_now (we_open env (wc_cookies cl)) (we_sleep env d h))"

lemma web_sleep_forward: "clock_forward env cl \<Longrightarrow> 0 \<le> d \<Longrightarrow> web_now env cl s + d \<le> web_now env cl (web_sleep env d s)"
  by (simp add: clock_forward_def web_now_def web_sleep_def)

lemma pace_forward:
  assumes "clock_forward env cl"
  shows "web_now env cl s \<le> web_now env cl (pace env s)"
proof -
  let ?w = "wb_last s + MIN_REQUEST_INTERVAL - we_monotonic env (wb_net s)"
  have "web_now env cl s + ?w \<le> web_now env cl (web_sleep env ?w s)" if "0 \<le> ?w"
    using web_sleep_forward [OF assms that] .
  then have "web_now env cl s \<le> web_now env cl (web_sleep env ?w s)" if "0 < ?w" using that by fastforce
  then show ?thesis by (simp add: pace_def Let_def web_now_def)
qed

lemma web_send_net: "wb_net (snd (web_send env cl rq s)) = snd (http_send (we_open env (wc_cookies cl)) rq (wb_net (pace env s)))"
  by (simp add: web_send_def Let_def split: prod.split)

lemma web_send_forward:
  assumes "clock_forward env cl"
  shows "web_now env cl s \<le> web_now env cl (snd (web_send env cl rq s))"
proof -
  have "web_now env cl (pace env s) \<le> web_now env cl (snd (web_send env cl rq s))"
    using assms by (simp add: clock_forward_def web_now_def web_send_net)
  then show ?thesis using pace_forward [OF assms, of s] by simp
qed

lemma operation_status_forward:
  "clock_forward env cl \<Longrightarrow> web_now env cl s \<le> web_now env cl (snd (operation_status env cl op s))"
  by (simp add: operation_status_def web_get_state web_send_forward)

lemma wait_polls_end:
  assumes "clock_forward env cl" and "deadline \<le> web_now env cl s + int n * EXPORT_POLL_INTERVAL"
  shows "wait_polls env cl op deadline (Suc n) s \<noteq> None"
  using assms(2)
proof (induction n arbitrary: s)
  case 0
  then show ?case by simp
next
  case (Suc n)
  obtain r s1 where poll: "operation_status env cl op s = (r, s1)" by fastforce
  have "web_now env cl s \<le> web_now env cl s1"
    using operation_status_forward [OF assms(1), of s op] poll by simp
  moreover have "web_now env cl s1 + EXPORT_POLL_INTERVAL \<le> web_now env cl (web_sleep env EXPORT_POLL_INTERVAL s1)"
    using web_sleep_forward [OF assms(1)] by (simp add: EXPORT_POLL_INTERVAL_def)
  ultimately have "deadline \<le> web_now env cl (web_sleep env EXPORT_POLL_INTERVAL s1) + int n * EXPORT_POLL_INTERVAL"
    using Suc.prems by (simp add: algebra_simps)
  then have "wait_polls env cl op deadline (Suc n) (web_sleep env EXPORT_POLL_INTERVAL s1) \<noteq> None" by (rule Suc.IH)
  then show ?case using poll by (simp split: sum.split bool.split)
qed

text \<open>More fuel changes nothing once the loop has returned.\<close>

lemma wait_polls_more:
  "wait_polls env cl op deadline n s = Some r \<Longrightarrow> n \<le> m \<Longrightarrow> wait_polls env cl op deadline m s = Some r"
proof (induction n arbitrary: m s)
  case (Suc n)
  then obtain m' where "m = Suc m'" "n \<le> m'" by (cases m) auto
  then show ?case using Suc by (auto split: if_splits prod.splits sum.splits bool.splits)
qed simp

definition WAIT_FUEL :: nat where
  "WAIT_FUEL = 91"

lemma wait_job_returns:
  assumes "clock_forward env cl"
  shows "wait_polls env cl op (web_now env cl s + EXPORT_TIMEOUT) WAIT_FUEL s \<noteq> None"
proof -
  have "WAIT_FUEL = Suc 90" by (simp add: WAIT_FUEL_def)
  then show ?thesis using wait_polls_end [OF assms, of _ s 90] by (simp add: EXPORT_TIMEOUT_def EXPORT_POLL_INTERVAL_def)
qed

lemma wait_job_fuel:
  assumes "clock_forward env cl" and "WAIT_FUEL \<le> n"
  shows "wait_job env cl n = wait_job env cl WAIT_FUEL"
proof (intro ext)
  fix op s
  obtain r where "wait_polls env cl op (web_now env cl s + EXPORT_TIMEOUT) WAIT_FUEL s = Some r"
    using wait_job_returns [OF assms(1), of op s] by blast
  then show "wait_job env cl n op s = wait_job env cl WAIT_FUEL op s"
    using wait_polls_more [OF _ assms(2), of env cl op _ s r] by (simp add: wait_job_def)
qed

text \<open>The two jobs return whatever fuel above it they are given.\<close>

lemma jobs_fuel:
  assumes "clock_forward env cl" and "WAIT_FUEL \<le> n"
  shows "export_cardholders env cl n = export_cardholders env cl WAIT_FUEL"
    and "import_cardholders env cl n = import_cardholders env cl WAIT_FUEL"
  by (simp_all add: export_cardholders_def import_cardholders_def [abs_def] wait_job_fuel [OF assms])

section \<open>A job that finishes in time is delivered\<close>

text \<open>
  An install that answers within \<open>late\<close>, whose status page reads well and, from an instant on, says
  the job is finished; and a host that wakes a sleeper no earlier than it asked, as \<open>time.sleep\<close> promises,
  and at most \<open>slack\<close> later.
\<close>

definition wakes_within :: "int \<Rightarrow> 'h web_env \<Rightarrow> web_client \<Rightarrow> bool" where
  "wakes_within slack env cl \<longleftrightarrow> (\<forall>d h. 0 \<le> d \<longrightarrow>
     http_now (we_open env (wc_cookies cl)) h + d \<le> http_now (we_open env (wc_cookies cl)) (we_sleep env d h)
     \<and> http_now (we_open env (wc_cookies cl)) (we_sleep env d h) \<le> http_now (we_open env (wc_cookies cl)) h + d + slack
     \<and> we_monotonic env h \<le> we_monotonic env (we_sleep env d h))"

definition healthy_status :: "'h web_env \<Rightarrow> web_client \<Rightarrow> string \<Rightarrow> int \<Rightarrow> int \<Rightarrow> bool" where
  "healthy_status env cl op late ready \<longleftrightarrow>
     (let net = we_open env (wc_cookies cl) in
      \<forall>rq h. rq_path rq = wc_base cl @ ''/api/LongOperationStatus'' \<longrightarrow>
        (\<exists>r h' st b. http_send net rq h = (Inr r, h') \<and> rs_status r = 200 \<and> rs_json r = Some st \<and> job_verdict op st = Inr b
           \<and> (ready \<le> http_now net h \<longrightarrow> b) \<and> http_now net h \<le> http_now net h' \<and> http_now net h' \<le> http_now net h + late
           \<and> we_monotonic env h \<le> we_monotonic env h'))"

definition paced_before :: "'h web_env \<Rightarrow> 'h web \<Rightarrow> bool" where
  "paced_before env s \<longleftrightarrow> wb_last s \<le> we_monotonic env (wb_net s)"

lemma wakes_withinD:
  assumes "wakes_within slack env cl" and "0 \<le> d"
  shows "web_now env cl s + d \<le> web_now env cl (web_sleep env d s)"
    and "web_now env cl (web_sleep env d s) \<le> web_now env cl s + d + slack"
    and "we_monotonic env (wb_net s) \<le> we_monotonic env (wb_net (web_sleep env d s))"
  using assms by (simp_all add: wakes_within_def web_now_def web_sleep_def)

lemma pace_late:
  assumes "wakes_within slack env cl" and "0 \<le> slack" and "paced_before env s"
  shows "web_now env cl s \<le> web_now env cl (pace env s)"
    and "web_now env cl (pace env s) \<le> web_now env cl s + MIN_REQUEST_INTERVAL + slack"
    and "paced_before env (pace env s)"
proof -
  let ?w = "wb_last s + MIN_REQUEST_INTERVAL - we_monotonic env (wb_net s)"
  have w: "?w \<le> MIN_REQUEST_INTERVAL" "0 \<le> MIN_REQUEST_INTERVAL"
    using assms(3) by (simp_all add: paced_before_def MIN_REQUEST_INTERVAL_def)
  have now: "web_now env cl (pace env s) = (if 0 < ?w then web_now env cl (web_sleep env ?w s) else web_now env cl s)"
    by (simp add: pace_def Let_def web_now_def)
  have sl: "web_now env cl s \<le> web_now env cl (web_sleep env ?w s)"
    "web_now env cl (web_sleep env ?w s) \<le> web_now env cl s + MIN_REQUEST_INTERVAL + slack" if "0 < ?w"
    using wakes_withinD(1,2) [OF assms(1), of ?w s] that w(1) by linarith+
  show "web_now env cl s \<le> web_now env cl (pace env s)" by (cases "0 < ?w") (simp_all only: now if_True if_False sl(1) order_refl)
  show "web_now env cl (pace env s) \<le> web_now env cl s + MIN_REQUEST_INTERVAL + slack"
  proof (cases "0 < ?w")
    case True
    then show ?thesis using sl(2) by (simp only: now if_True)
  next
    case False
    then have "web_now env cl (pace env s) = web_now env cl s" by (simp only: now if_False)
    then show ?thesis using w(2) assms(2) by linarith
  qed
  show "paced_before env (pace env s)" by (simp add: paced_before_def pace_last)
qed

lemma healthy_poll:
  assumes "healthy_status env cl op late ready" and "wakes_within slack env cl" and "0 \<le> slack" and "paced_before env s"
  obtains st b s1 where "operation_status env cl op s = (Inr st, s1)" and "job_verdict op st = Inr b"
    and "ready \<le> web_now env cl s \<Longrightarrow> b" and "web_now env cl s1 \<le> web_now env cl s + MIN_REQUEST_INTERVAL + slack + late"
    and "paced_before env s1"
proof -
  let ?rq = "mk_request ''GET'' (wc_base cl @ ''/api/LongOperationStatus'') [(''operationtype'', op), (''_'', now_ms env cl s)]
    [(''Accept'', AJAX_ACCEPT), (''X-Requested-With'', ''XMLHttpRequest'')] NoBody"
  note p = pace_late [OF assms(2-4)]
  have "rq_path ?rq = wc_base cl @ ''/api/LongOperationStatus''" by (simp add: mk_request_def)
  then obtain r h' st b where r: "http_send (we_open env (wc_cookies cl)) ?rq (wb_net (pace env s)) = (Inr r, h')"
    "rs_status r = 200" "rs_json r = Some st" "job_verdict op st = Inr b"
    and b: "ready \<le> web_now env cl (pace env s) \<longrightarrow> b"
    and t: "http_now (we_open env (wc_cookies cl)) h' \<le> web_now env cl (pace env s) + late"
    and m: "we_monotonic env (wb_net (pace env s)) \<le> we_monotonic env h'"
    using assms(1) unfolding healthy_status_def Let_def web_now_def by blast
  let ?s1 = "(pace env s)\<lparr>wb_net := h'\<rparr>"
  have "check_auth r = Inr ()" using r(2) by (simp add: check_auth_def is_redirect_def)
  then have "operation_status env cl op s = (Inr st, ?s1)"
    using r by (simp add: operation_status_def web_get_def get_verdict_def web_send_def Let_def bind_comp_def pure_res_def)
  moreover have "web_now env cl ?s1 \<le> web_now env cl s + MIN_REQUEST_INTERVAL + slack + late"
    using t p(2) by (simp add: web_now_def)
  moreover have "paced_before env ?s1" using m pace_last [of env s] by (simp add: paced_before_def)
  ultimately show thesis using that r(4) b p(1) by (meson order_trans)
qed

lemma finished_job_delivered:
  assumes "healthy_status env cl op late ready" and "wakes_within slack env cl" and "0 \<le> slack" and "0 \<le> late"
    and "ready + MIN_REQUEST_INTERVAL + late + EXPORT_POLL_INTERVAL + 2 * slack < deadline"
    and "paced_before env s" and "web_now env cl s < deadline"
    and "wait_polls env cl op deadline n s = Some out"
  shows "\<exists>st s'. out = (Inr st, s') \<and> job_verdict op st = Inr True"
  using assms(6-8)
proof (induction n arbitrary: s)
  case (Suc n)
  obtain st b s1 where poll: "operation_status env cl op s = (Inr st, s1)" "job_verdict op st = Inr b"
    "ready \<le> web_now env cl s \<Longrightarrow> b" "web_now env cl s1 \<le> web_now env cl s + MIN_REQUEST_INTERVAL + slack + late" "paced_before env s1"
    using healthy_poll [OF assms(1-3) Suc.prems(1)] by metis
  show ?case
  proof (cases b)
    case True
    then show ?thesis using Suc.prems(2,3) poll(1,2) by auto
  next
    case False
    let ?s2 = "web_sleep env EXPORT_POLL_INTERVAL s1"
    note later = wakes_withinD [OF assms(2), of EXPORT_POLL_INTERVAL s1]
    have "web_now env cl ?s2 \<le> web_now env cl s1 + EXPORT_POLL_INTERVAL + slack" "paced_before env ?s2"
      using later poll(5) by (simp_all add: paced_before_def EXPORT_POLL_INTERVAL_def web_sleep_def)
    moreover have "web_now env cl s < ready" using False poll(3) by force
    ultimately have "web_now env cl ?s2 < deadline" "paced_before env ?s2" using poll(4) assms(5) by simp_all
    moreover have "wait_polls env cl op deadline n ?s2 = Some out" using Suc.prems(2,3) poll(1,2) False by simp
    ultimately show ?thesis by (intro Suc.IH)
  qed
qed simp


section \<open>A dead session\<close>

definition sent_to_login :: "response \<Rightarrow> bool" where
  "sent_to_login r \<longleftrightarrow> is_redirect r \<and> py_contains (header_of r ''location'') ''/Account/Log''"

text \<open>The three shapes in which the roster screen answers a dead cookie.\<close>

definition dead_answer :: "'h web_env \<Rightarrow> response \<Rightarrow> bool" where
  "dead_answer env r \<longleftrightarrow> sent_to_login r
     \<or> rs_status r = 200 \<and> py_strip (rs_text r) = ''''
     \<or> rs_status r = 200 \<and> we_loads env (py_strip (rs_text r)) = Some (JArr [])"

definition dead_session :: "'h web_env \<Rightarrow> web_client \<Rightarrow> bool" where
  "dead_session env cl \<longleftrightarrow> (\<forall>rq h. rq_path rq = wc_base cl @ ''/Cardholders/CardholdersHelper/GetList/0'' \<longrightarrow>
     (\<exists>r h'. http_send (we_open env (wc_cookies cl)) rq h = (Inr r, h') \<and> dead_answer env r))"

lemma check_auth_login: "check_auth r = (if sent_to_login r then Inl session_expired else Inr ())"
  by (simp add: check_auth_def sent_to_login_def)

lemma letter_of_dead:
  assumes "dead_session env cl"
  obtains m s1 where "list_letter env cl code s = (Inl (MillenniumAuthError m), s1)"
  | s1 where "list_letter env cl code s = (Inr [], s1)"
proof -
  let ?rq = "mk_request ''GET'' (wc_base cl @ ''/Cardholders/CardholdersHelper/GetList/0'')
    [(''firstLetter'', string_of_nat code), (''_'', now_ms env cl s)]
    [(''Accept'', AJAX_ACCEPT), (''X-Requested-With'', ''XMLHttpRequest'')] NoBody"
  have "rq_path ?rq = wc_base cl @ ''/Cardholders/CardholdersHelper/GetList/0''" by (simp add: mk_request_def)
  then obtain r h' where r: "http_send (we_open env (wc_cookies cl)) ?rq (wb_net (pace env s)) = (Inr r, h')" "dead_answer env r"
    using assms unfolding dead_session_def by blast
  let ?s1 = "(pace env s)\<lparr>wb_net := h'\<rparr>"
  have letter: "list_letter env cl code s =
      (bind_res (get_verdict ''/Cardholders/CardholdersHelper/GetList/0'' False r) (letter_rows env code), ?s1)"
    using r(1) by (simp add: list_letter_def web_get_def web_send_def Let_def bind_comp_def pure_res_def bind_res_def
      split: sum.split)
  show thesis
  proof (cases "sent_to_login r")
    case True
    then show thesis using letter that(1) by (simp add: get_verdict_def check_auth_login session_expired_def)
  next
    case False
    then have "rs_status r = 200" "py_strip (rs_text r) = '''' \<or> we_loads env (py_strip (rs_text r)) = Some (JArr [])"
      using r(2) by (auto simp: dead_answer_def)
    then show thesis using letter that False
      by (cases "py_strip (rs_text r) = ''''") (simp_all add: get_verdict_def check_auth_login letter_rows_def)
  qed
qed

lemma first_id_of_dead:
  assumes "dead_session env cl"
  shows "\<exists>m s1. first_id_from env cl codes s = (Inl (MillenniumAuthError m), s1)"
proof (induction codes arbitrary: s)
  case Nil
  then show ?case by (simp add: no_roster_def)
next
  case (Cons code codes)
  show ?case
  proof (rule letter_of_dead [OF assms, of code s])
    fix m s1 assume "list_letter env cl code s = (Inl (MillenniumAuthError m), s1)"
    then show ?thesis by simp
  next
    fix s1 assume "list_letter env cl code s = (Inr [], s1)"
    then show ?thesis using Cons.IH by simp
  qed
qed

lemma sweep_of_dead:
  assumes "dead_session env cl"
  shows "(\<exists>s1. for_each (letter_step env cl) codes [] s = (Inr [], s1))
    \<or> (\<exists>m s1. for_each (letter_step env cl) codes [] s = (Inl (MillenniumAuthError m), s1))"
proof (induction codes arbitrary: s)
  case (Cons code codes)
  show ?case
  proof (rule letter_of_dead [OF assms, of code s])
    fix m s1 assume "list_letter env cl code s = (Inl (MillenniumAuthError m), s1)"
    then show ?thesis by (simp add: letter_step_def bind_comp_def)
  next
    fix s1 assume "list_letter env cl code s = (Inr [], s1)"
    then show ?thesis using Cons.IH [of s1] by (simp add: letter_step_def bind_comp_def pure_res_def)
  qed
qed simp

lemma list_of_dead:
  assumes "dead_session env cl"
  shows "\<exists>m s1. list_cardholders env cl s = (Inl (MillenniumAuthError m), s1)"
  using sweep_of_dead [OF assms, of LETTER_CODES s]
  by (auto simp: list_cardholders_def bind_comp_def pure_res_def no_roster_def)

text \<open>A roster that is returned names somebody.\<close>

lemma list_cardholders_nonempty: "list_cardholders env cl s = (Inr rows, s1) \<Longrightarrow> rows \<noteq> []"
  by (auto simp: list_cardholders_def bind_comp_def pure_res_def split: prod.splits sum.splits if_splits)

section \<open>The export on a dead session\<close>

definition export_start :: "web_client \<Rightarrow> request" where
  "export_start cl = mk_request ''POST'' (wc_base cl @ ''/DatabaseFunctions/ExportCardholders/ExportCardholdersNow'') []
     [(''Accept'', AJAX_ACCEPT), (''Content-Type'', ''application/json''), (''X-Requested-With'', ''XMLHttpRequest''),
      (''Origin'', wc_base cl), (''Referer'', wc_base cl @ ''/DatabaseFunctions/ExportCardholders'')] (JsonBody EXPORT_REQUEST)"

lemma export_refused:
  assumes "http_send (we_open env (wc_cookies cl)) (export_start cl) (wb_net (pace env s)) = (Inr r, h')"
    and "sent_to_login r \<or> 400 \<le> rs_status r \<or> rs_json r \<noteq> Some (JVal (PBool True))"
  obtains e s1 where "export_cardholders env cl fuel s = (Inl e, s1)" "is_auth_expired e = sent_to_login r" "is_millennium_error e"
proof -
  have post: "web_post env cl ''/DatabaseFunctions/ExportCardholders/ExportCardholdersNow''
      [(''Accept'', AJAX_ACCEPT), (''Content-Type'', ''application/json''), (''X-Requested-With'', ''XMLHttpRequest''),
       (''Origin'', wc_base cl), (''Referer'', wc_base cl @ ''/DatabaseFunctions/ExportCardholders'')] (JsonBody EXPORT_REQUEST) s
      = (if sent_to_login r then Inl session_expired else Inr r, (pace env s)\<lparr>wb_net := h'\<rparr>)"
    using assms(1) by (simp add: web_post_def web_send_def Let_def bind_comp_def pure_res_def check_auth_login export_start_def)
  show thesis
  proof (cases "sent_to_login r")
    case True
    then show thesis using that post by (simp add: export_cardholders_def post_json_def bind_comp_def session_expired_def)
  next
    case False
    let ?path = "''/DatabaseFunctions/ExportCardholders/ExportCardholdersNow''"
    have answer: "(\<exists>m. post_answer ?path r = Inl (MillenniumError m)) \<or> (\<exists>v. post_answer ?path r = Inr v \<and> v \<noteq> JVal (PBool True))"
      using assms(2) False by (auto simp: post_answer_def http_failure_def split: option.splits)
    then have "\<exists>m s1. export_cardholders env cl fuel s = (Inl (MillenniumError m), s1)"
      using post False by (auto simp: export_cardholders_def post_json_def bind_comp_def pure_res_def must_start_def)
    then show thesis using that False by auto
  qed
qed

section \<open>Deleting a card\<close>

text \<open>A row of the search's answer that names exactly this Employee ID.\<close>

definition names_employee :: "string \<Rightarrow> json \<Rightarrow> bool" where
  "names_employee employee_id row \<longleftrightarrow> (\<exists>v. jget_or ''EmployeeID'' (JStr '''') row = Inr v \<and> py_strip (jstr v) = employee_id)"

lemma matching_ids_spec:
  "matching_ids eid rows = Inr ids \<Longrightarrow> list_all2 (\<lambda>row i. \<exists>v. jindex ''ID'' row = Inr v \<and> i = jstr v) (List.filter (names_employee eid) rows) ids"
  by (induction rows arbitrary: ids) (auto simp: bind_res_Inr_iff names_employee_def split: if_splits)

lemma the_one_id_Inr: "the_one_id eid ids = Inr i \<longleftrightarrow> ids = [i]"
  by (auto simp: the_one_id_def split: list.splits)

lemma search_answer_found:
  assumes "search_answer env eid r = Inr i"
  obtains t v rows row w where "find_data (rs_text r) = Some t" "we_loads env t = Some v" "jiter v = Inr rows"
    "List.filter (names_employee eid) rows = [row]" "jindex ''ID'' row = Inr w" "i = jstr w"
proof -
  from assms obtain t v rows where found: "find_data (rs_text r) = Some t" "we_loads env t = Some v" "jiter v = Inr rows"
    "matching_ids eid rows = Inr [i]"
    by (auto simp: search_answer_def bind_res_Inr_iff the_one_id_Inr split: option.splits if_splits)
  from matching_ids_spec [OF found(4)] obtain row w where "List.filter (names_employee eid) rows = [row]" "jindex ''ID'' row = Inr w" "i = jstr w"
    by (auto simp: list_all2_Cons2)
  then show thesis using found that by blast
qed

text \<open>What the other requests leave alone, everything but the deletion leaves alone.\<close>

definition only_deletion_changes :: "'h web_env \<Rightarrow> web_client \<Rightarrow> ('h \<Rightarrow> 'x) \<Rightarrow> bool" where
  "only_deletion_changes env cl cards \<longleftrightarrow>
     (\<forall>rq h. rq_path rq \<noteq> wc_base cl @ ''/Cardholders/Cardholders/DeleteCard'' \<longrightarrow>
        cards (snd (http_send (we_open env (wc_cookies cl)) rq h)) = cards h) \<and>
     (\<forall>d h. cards (we_sleep env d h) = cards h)"

lemma kept_reading:
  assumes "only_deletion_changes env cl cards"
  shows "kept_by_sends env cl (\<lambda>rq. rq_path rq \<noteq> wc_base cl @ ''/Cardholders/Cardholders/DeleteCard'') (\<lambda>s. cards (wb_net s) = x)"
proof -
  have "cards (wb_net (pace env s)) = cards (wb_net s)" for s
    using assms by (simp add: only_deletion_changes_def pace_def Let_def web_sleep_def)
  then show ?thesis using assms by (simp add: only_deletion_changes_def kept_by_sends_def web_send_net)
qed

abbreviation not_deletion :: "web_client \<Rightarrow> request \<Rightarrow> bool" where
  "not_deletion cl \<equiv> \<lambda>rq. rq_path rq \<noteq> wc_base cl @ ''/Cardholders/Cardholders/DeleteCard''"

lemma not_deletion_request: "path \<noteq> ''/Cardholders/Cardholders/DeleteCard'' \<Longrightarrow> not_deletion cl (mk_request m (wc_base cl @ path) q hs b)"
  by (simp add: mk_request_def)

lemma page_token_keeps:
  assumes "kept_by_sends env cl (not_deletion cl) P" and "P s" and "path \<noteq> ''/Cardholders/Cardholders/DeleteCard''"
  shows "P (snd (page_token env cl path s))"
  unfolding page_token_def bind_pure_state by (rule web_get_keeps [OF assms(1,2)]) (rule not_deletion_request [OF assms(3)])

lemma find_cardholder_keeps:
  assumes "kept_by_sends env cl (not_deletion cl) P" and "P s"
  shows "P (snd (find_cardholder_id env cl eid s))"
  unfolding find_cardholder_id_def
proof (rule bind_comp_keeps)
  show "P (snd (page_token env cl ''/Cardholders/Cardholders/Search'' s))"
    by (rule page_token_keeps [OF assms]) simp
  fix token s1
  assume "P s1"
  then show "P (snd (bind_comp (web_post env cl ''/Cardholders/Cardholders/SearchResult''
       [(''Referer'', wc_base cl @ ''/Cardholders/Cardholders/Search'')]
       (FilesBody (List.map (\<lambda>(k, v). (k, None, v)) (search_form eid token)) []))
       (\<lambda>r. pure_res (search_answer env eid r)) s1))"
    unfolding bind_pure_state by (rule web_post_keeps [OF assms(1)]) (rule not_deletion_request, simp)
qed

lemma get_form_keeps:
  assumes "kept_by_sends env cl (not_deletion cl) P" and "P s"
  shows "P (snd (get_cardholder_form env cl cid s))"
  unfolding get_cardholder_form_def bind_pure_state
  by (rule web_get_keeps [OF assms]) (rule not_deletion_request, simp)

lemma card_on_page_found:
  assumes "card_on_page f facility number = Some i"
  obtains n where "n \<in> set CARD_SLOTS" "slot_shows f facility number n" "i = py_strip (form_value f (slot_field n ''CardID''))" "i \<noteq> ''''"
  using assms by (auto simp: card_on_page_def Let_def split: option.splits if_splits dest!: find_SomeD)


section \<open>The instants of requests\<close>

text \<open>
  The instants at which \<open>_pace\<close> lets the requests go, one for each, as it records them; a request leaves
  after its own.
\<close>

fun send_times :: "'h web_env \<Rightarrow> (web_client \<times> request) list \<Rightarrow> 'h web \<Rightarrow> int list" where
  "send_times env [] s = []"
| "send_times env ((cl, rq) # rs) s = wb_last (pace env s) # send_times env rs (snd (web_send env cl rq s))"

lemma send_times_length [simp]: "length (send_times env rs s) = length rs"
  by (induction env rs s rule: send_times.induct) simp_all

lemma send_times_after:
  assumes "sleeps_enough env"
  shows "\<forall>t\<in>set (send_times env rs s). wb_last s + MIN_REQUEST_INTERVAL \<le> t"
proof (induction rs arbitrary: s)
  case (Cons r rs)
  obtain cl rq where r: "r = (cl, rq)" by fastforce
  have "wb_last s + MIN_REQUEST_INTERVAL \<le> wb_last (pace env s)" by (rule pace_gap [OF assms])
  moreover have "0 \<le> MIN_REQUEST_INTERVAL" by (simp add: MIN_REQUEST_INTERVAL_def)
  ultimately show ?case using Cons.IH [of "snd (web_send env cl rq s)"] by (fastforce simp: r)
qed simp

lemma send_times_apart:
  assumes "sleeps_enough env"
  shows "sorted_wrt (\<lambda>a b. a + MIN_REQUEST_INTERVAL \<le> b) (send_times env rs s)"
proof (induction rs arbitrary: s)
  case (Cons r rs)
  obtain cl rq where r: "r = (cl, rq)" by fastforce
  show ?case using Cons.IH send_times_after [OF assms, of rs "snd (web_send env cl rq s)"] by (simp add: r)
qed simp

lemma apart_distance:
  assumes "sorted_wrt (\<lambda>a b. a + MIN_REQUEST_INTERVAL \<le> b) ts" and "i + n < length ts"
  shows "ts ! i + int n * MIN_REQUEST_INTERVAL \<le> ts ! (i + n)"
  using assms(2)
proof (induction n)
  case (Suc n)
  have "ts ! (i + n) + MIN_REQUEST_INTERVAL \<le> ts ! (i + Suc n)"
    using assms(1) Suc.prems by (simp add: sorted_wrt_iff_nth_less)
  then show ?case using Suc by (simp add: algebra_simps)
qed simp

lemma send_times_window:
  assumes "sleeps_enough env"
  shows "card {i. i < length rs \<and> t \<le> send_times env rs s ! i \<and> send_times env rs s ! i < t + 1000000} \<le> 10"
proof -
  let ?ts = "send_times env rs s"
  let ?I = "{i. i < length rs \<and> t \<le> ?ts ! i \<and> ?ts ! i < t + 1000000}"
  show ?thesis
  proof (cases "?I = {}")
    case True
    then show ?thesis by (simp only: card.empty zero_le)
  next
    case False
    define m where "m = Min ?I"
    have fin: "finite ?I" by simp
    have m: "m \<in> ?I" unfolding m_def by (rule Min_in [OF fin False])
    have "i < m + 10" if i: "i \<in> ?I" for i
    proof (rule ccontr)
      assume "\<not> i < m + 10"
      then have "m + 10 < length ?ts \<or> m + 10 = i" "m + 10 \<le> i" using i by auto
      then have len: "m + (i - m) < length ?ts" using i by simp
      have "?ts ! m + int (i - m) * MIN_REQUEST_INTERVAL \<le> ?ts ! (m + (i - m))"
        by (rule apart_distance [OF send_times_apart [OF assms] len])
      moreover have "10 * MIN_REQUEST_INTERVAL \<le> int (i - m) * MIN_REQUEST_INTERVAL"
        using \<open>m + 10 \<le> i\<close> by (simp add: MIN_REQUEST_INTERVAL_def)
      ultimately show False using m i \<open>m + 10 \<le> i\<close> by (simp add: MIN_REQUEST_INTERVAL_def)
    qed
    moreover have "m \<le> i" if "i \<in> ?I" for i unfolding m_def by (rule Min_le [OF fin that])
    ultimately have "?I \<subseteq> {m..<m + 10}" by auto
    from card_mono [OF _ this] show ?thesis by simp
  qed
qed

end
