(* ===== verification/Web_Properties.thy ===== *)
theory Web_Properties
  imports Mill_Web_Laws Adapter_Demo Mill_Writes Engine
begin

section \<open>A small install behind the client\<close>

text \<open>
  A small install behind the client, for the examples: its state is a clock and the cards it was
  told to delete, and a request takes twenty milliseconds. One cardholder, whose record is 12 and whose
  first slot holds card 500; a job is finished when the clock shows three seconds.
\<close>

record web_site =
  si_clock :: int
  si_deleted :: "string list"

definition dq :: "string \<Rightarrow> string" where
  "dq s = [CHR 0x22] @ s @ [CHR 0x22]"

definition site_form :: form where
  "site_form = \<lparr>fm_action = ''/Cardholders/Cardholders/Index/12'', fm_controls =
     [\<lparr>ct_name = TOKEN_FIELD, ct_kind = ''hidden'', ct_value = ''tok'', ct_checked = False, ct_options = []\<rparr>,
      \<lparr>ct_name = ''Card_1_EncodedCardNumber'', ct_kind = ''text'', ct_value = ''500'', ct_checked = False, ct_options = []\<rparr>,
      \<lparr>ct_name = ''Card_1_FacilityCode'', ct_kind = ''text'', ct_value = ''10'', ct_checked = False, ct_options = []\<rparr>,
      \<lparr>ct_name = ''Card_1_CardID'', ct_kind = ''hidden'', ct_value = ''77'', ct_checked = False, ct_options = []\<rparr>,
      \<lparr>ct_name = ''Card_1_Active'', ct_kind = ''checkbox'', ct_value = ''true'', ct_checked = False, ct_options = []\<rparr>]\<rparr>"

definition site_row :: json where
  "site_row = JObj [(''ID'', JInt 12), (''EmployeeID'', JStr ''E12'')]"

definition site_base :: string where
  "site_base = ''https://m''"

definition site_answer :: "request \<Rightarrow> web_site \<Rightarrow> response" where
  "site_answer rq h =
     (let path = drop (length site_base) (rq_path rq) in
      if path = ''/api/LongOperationStatus'' then
        json_answer 200 (JObj [(''Completed'', JVal (PBool (3000000 \<le> si_clock h))), (''Success'', JVal (PBool True)), (''Context'', JStr ''9'')])
      else if path = ''/Cardholders/Cardholders/Search'' then
        text_answer 200 (''<input name='' @ dq TOKEN_FIELD @ '' value='' @ dq ''tok'' @ '' />'')
      else if path = ''/Cardholders/Cardholders/SearchResult'' then text_answer 200 ''var data = [1]; </script>''
      else if path = ''/Cardholders/Cardholders/DeleteCard'' then text_answer 200 ''True''
      else text_answer 200 ''page'')"

definition site_after :: "request \<Rightarrow> web_site \<Rightarrow> web_site" where
  "site_after rq h = h\<lparr>si_clock := si_clock h + 20000,
     si_deleted := (if rq_path rq = site_base @ ''/Cardholders/Cardholders/DeleteCard'' then ''card'' # si_deleted h else si_deleted h)\<rparr>"

definition site_http :: "(request \<Rightarrow> web_site \<Rightarrow> response) \<Rightarrow> web_site http" where
  "site_http f = \<lparr>http_send = (\<lambda>rq h. (Inr (f rq h), site_after rq h)), http_now = si_clock, http_cookie = (\<lambda>_ _. None),
     http_forget_cookies = (\<lambda>h. h)\<rparr>"

definition site_env :: "(request \<Rightarrow> web_site \<Rightarrow> response) \<Rightarrow> web_site web_env" where
  "site_env f = \<lparr>we_open = (\<lambda>_. site_http f), we_sleep = (\<lambda>d h. h\<lparr>si_clock := si_clock h + d\<rparr>), we_monotonic = si_clock,
     we_boundary = (\<lambda>_. ''bnd''), we_events = (\<lambda>t. if t = ''page'' then form_page site_form else []),
     we_loads = (\<lambda>t. if t = ''[1]'' then Some (JArr [site_row]) else if t = ''[]'' then Some (JArr []) else None),
     we_archive = (\<lambda>r. Inr []), we_brackets = (\<lambda>_. False)\<rparr>"

definition site_client :: web_client where
  "site_client = \<lparr>wc_base = site_base, wc_cookies = []\<rparr>"

definition site_start :: "web_site web" where
  "site_start = \<lparr>wb_net = \<lparr>si_clock = 1000000, si_deleted = []\<rparr>, wb_last = 0\<rparr>"

lemma site_clock_forward: "clock_forward (site_env f) cl"
  by (simp add: clock_forward_def site_env_def site_http_def site_after_def)

lemma site_sleeps: "sleeps_enough (site_env f)" "wakes_within 5000 (site_env f) cl"
  by (simp_all add: sleeps_enough_def wakes_within_def site_env_def site_http_def)

lemma site_paced: "paced_before (site_env f) site_start"
  by (simp add: paced_before_def site_start_def site_env_def)

lemma site_status: "healthy_status (site_env site_answer) site_client op 20000 3000000"
  by (auto simp: healthy_status_def Let_def site_env_def site_http_def site_client_def site_answer_def site_after_def
      json_answer_def job_verdict_def jlookup_def)

lemma site_deletion: "only_deletion_changes (site_env f) site_client si_deleted"
  by (simp add: only_deletion_changes_def site_env_def site_http_def site_client_def site_after_def)

text \<open>An install whose session has lapsed: empty rosters, and the export answered with nothing.\<close>

definition lapsed_answer :: "request \<Rightarrow> web_site \<Rightarrow> response" where
  "lapsed_answer rq h = (if rq_path rq = site_base @ ''/Cardholders/CardholdersHelper/GetList/0''
     then text_answer 200 ''[]'' else text_answer 200 '''')"

lemma lapsed_dead: "dead_session (site_env lapsed_answer) site_client"
  by (auto simp: dead_session_def dead_answer_def site_env_def site_http_def lapsed_answer_def site_client_def text_answer_def
      py_strip_def is_space_def)

definition site_mill :: "web_site web mill" where
  "site_mill = \<lparr>ms_holders = [], ms_ours = [], ms_label = ''T'', ms_config_label = ''T'', ms_migrated = True, ms_cards = [],
     ms_rows = [], ms_problems = [], ms_site = site_start\<rparr>"

text \<open>
  The properties of the client that drives a Millennium install: the form it reads and posts back,
  the pace of its requests, the jobs it waits for, a session that has lapsed, and the card it deletes.
\<close>

section \<open>The cardholder form\<close>

text \<open>
  C8. A save posts the whole record back with one field changed. A page that shows a form is read as
  that form; changing a field by its name, when the form can take the value, changes the value of
  the first control of that name and nothing else; and the body the save posts, read back by a
  server that splits it at the boundary, tells every other control that submits exactly as the page
  had it, in the page's order.
\<close>

theorem save_reposts_the_record:
  assumes "\<forall>c\<in>set (fm_controls f). plain_control c" and "set_value name v f = Inr g"
    and "b = we_boundary env (wb_net s)" and "\<forall>c\<in>set (fm_controls g). clean_for b c" and "CHR 0x0D \<notin> set b"
  shows "form_parse (form_page f) = Inr f \<and>
    (\<exists>as c d bs. fm_controls f = as @ c # bs \<and> fm_controls g = as @ d # bs \<and> ct_name c = name \<and> submitted_value d = v \<and>
       submits d = submits c \<and>
       read_multipart b (multipart_body b g) = List.map told (List.filter submits as)
         @ (if submits c then [told d] else []) @ List.map told (List.filter submits bs)) \<and>
    snd (save_cardholder env cl cid g s) = snd (web_send env cl
      (mk_request ''POST'' (wc_base cl @ ''/Cardholders/Cardholders/Index/'' @ cid) []
        [(''Content-Type'', multipart_type b), (''Accept'', ''text/html''), (''Origin'', wc_base cl), (''Referer'', screen_url cl cid)]
        (RawBody (multipart_body b g))) s)"
proof (intro conjI)
  from assms(2) obtain ds where first: "change_first name (give_value v) (fm_controls f) = Inr ds" and g: "g = f\<lparr>fm_controls := ds\<rparr>"
    by (auto simp: set_value_def change_form_def bind_res_Inr_iff)
  from first obtain as c bs d where split: "fm_controls f = as @ c # bs" "ds = as @ d # bs" "name \<notin> ct_name ` set as"
    "ct_name c = name" "give_value v c = Inr d" by (rule change_first_split)
  note d = give_value_value [OF split(5)]
  show "form_parse (form_page f) = Inr f" using assms(1) split(1) by (intro form_page_parse) simp_all
  have "read_multipart b (multipart_body b g) = List.map told (List.filter submits as)
      @ (if submits c then [told d] else []) @ List.map told (List.filter submits bs)"
    using multipart_read [OF assms(4,5)] d by (simp add: g split(2))
  then show "\<exists>as c d bs. fm_controls f = as @ c # bs \<and> fm_controls g = as @ d # bs \<and> ct_name c = name \<and> submitted_value d = v \<and>
      submits d = submits c \<and> read_multipart b (multipart_body b g) = List.map told (List.filter submits as)
        @ (if submits c then [told d] else []) @ List.map told (List.filter submits bs)"
    using split d by (intro exI [of _ as] exI [of _ c] exI [of _ d] exI [of _ bs]) (simp add: g)
qed (simp add: save_cardholder_def Let_def web_post_state assms(3))

theorem save_reposts_the_record_witness:
  "form_parse (form_page site_form) = Inr site_form"
proof -
  let ?env = "site_env site_answer"
  let ?g = "case set_value ''Card_1_FacilityCode'' ''11'' site_form of Inr g \<Rightarrow> g | Inl _ \<Rightarrow> site_form"
  have plain: "\<forall>c\<in>set (fm_controls site_form). plain_control c" by code_simp
  have changed: "set_value ''Card_1_FacilityCode'' ''11'' site_form = Inr ?g" by code_simp
  have b: "''bnd'' = we_boundary ?env (wb_net site_start)" by (simp add: site_env_def)
  have clean: "\<forall>c\<in>set (fm_controls ?g). clean_for ''bnd'' c" by code_simp
  have cr: "CHR 0x0D \<notin> set ''bnd''" by code_simp
  show ?thesis using save_reposts_the_record [OF plain changed b clean cr, of site_client "''12''"] by blast
qed

text \<open>
  C30. The form parser is well formed on every page. Whatever events the tokenizer reports, the
  select, the textarea and the option the parser holds are ones it has seen, of that kind, and every
  control it returns has a name and a kind in lower case and has options only if it is a select; a
  page without controls is the one error there is.
\<close>

theorem form_parser_well_formed:
  "typed_parser (fold form_event page form_start) \<and>
   (case form_parse page of
      Inl e \<Rightarrow> e = no_controls
    | Inr f \<Rightarrow> fm_controls f \<noteq> [] \<and> list_all typed_control (fm_controls f))"
proof
  show "typed_parser (fold form_event page form_start)" by (rule typed_fold [OF typed_start])
  then show "case form_parse page of Inl e \<Rightarrow> e = no_controls | Inr f \<Rightarrow> fm_controls f \<noteq> [] \<and> list_all typed_control (fm_controls f)"
    by (simp add: form_parse_def Let_def typed_parser_def)
qed

section \<open>Pace and waiting\<close>

text \<open>
  C31. Requests keep their distance. The instants at which the requests of the whole process are let go,
  whichever clients make them, are at least 100 milliseconds apart, so at most ten fall in any second.
\<close>

theorem requests_are_paced:
  assumes "sleeps_enough env"
  shows "sorted_wrt (\<lambda>a b. a + MIN_REQUEST_INTERVAL \<le> b) (send_times env rs s) \<and>
    card {i. i < length rs \<and> t \<le> send_times env rs s ! i \<and> send_times env rs s ! i < t + 1000000} \<le> 10"
  using send_times_apart [OF assms] send_times_window [OF assms] by blast

theorem requests_are_paced_witness:
  "send_times (site_env site_answer) [(site_client, export_start site_client), (site_client, export_start site_client)] site_start
     = [1000000, 1100000] \<and>
   sorted_wrt (\<lambda>a b. a + MIN_REQUEST_INTERVAL \<le> b) [1000000::int, 1100000]"
proof -
  have times: "send_times (site_env site_answer) [(site_client, export_start site_client), (site_client, export_start site_client)] site_start
     = [1000000, 1100000]" by code_simp
  show ?thesis
    using requests_are_paced [OF site_sleeps(1), of site_answer
      "[(site_client, export_start site_client), (site_client, export_start site_client)]" site_start] times by simp
qed

text \<open>
  C19. Waiting for a job ends. On a clock that does not go back, polling a queued job returns within
  91 polls whatever the install answers, and neither the export nor the import depends on more fuel.
\<close>

theorem waiting_for_a_job_ends:
  assumes "clock_forward env cl"
  shows "wait_polls env cl op (web_now env cl s + EXPORT_TIMEOUT) WAIT_FUEL s \<noteq> None \<and>
    (\<forall>n\<ge>WAIT_FUEL. export_cardholders env cl n = export_cardholders env cl WAIT_FUEL \<and>
       import_cardholders env cl n = import_cardholders env cl WAIT_FUEL)"
  using wait_job_returns [OF assms] jobs_fuel [OF assms] by blast

theorem waiting_for_a_job_ends_witness:
  "wait_polls (site_env lapsed_answer) site_client EXPORT_OPERATION 91000000 WAIT_FUEL site_start \<noteq> None \<and>
   export_cardholders (site_env lapsed_answer) site_client 200 = export_cardholders (site_env lapsed_answer) site_client WAIT_FUEL"
proof -
  have now: "web_now (site_env lapsed_answer) site_client site_start + EXPORT_TIMEOUT = 91000000" by code_simp
  have "WAIT_FUEL \<le> 200" by (simp add: WAIT_FUEL_def)
  then show ?thesis
    using waiting_for_a_job_ends [OF site_clock_forward, of lapsed_answer site_client EXPORT_OPERATION site_start]
    unfolding now by blast
qed

text \<open>
  C20. A job that finishes in time is delivered, on a host that is never more than \<open>slack\<close> late in
  waking a sleeper. If every status read is answered within \<open>late\<close>, none reports a failure, and from an
  instant at least one poll (a pace, an answer, a second's sleep, and the lateness of both sleeps)
  before the deadline every read says the job is finished, then the wait returns a status that says so.
\<close>

theorem finished_job_is_delivered:
  assumes "clock_forward env cl" and "healthy_status env cl op late ready" and "wakes_within slack env cl"
    and "0 \<le> slack" and "0 \<le> late"
    and "ready + MIN_REQUEST_INTERVAL + late + EXPORT_POLL_INTERVAL + 2 * slack < web_now env cl s + EXPORT_TIMEOUT"
    and "paced_before env s"
  shows "\<exists>st s'. wait_job env cl WAIT_FUEL op s = (Inr st, s') \<and> job_verdict op st = Inr True"
proof -
  obtain out where out: "wait_polls env cl op (web_now env cl s + EXPORT_TIMEOUT) WAIT_FUEL s = Some out"
    using wait_job_returns [OF assms(1)] by blast
  have "web_now env cl s < web_now env cl s + EXPORT_TIMEOUT" by (simp add: EXPORT_TIMEOUT_def)
  from finished_job_delivered [OF assms(2-7) this out] show ?thesis using out by (auto simp: wait_job_def)
qed

theorem finished_job_is_delivered_witness:
  "\<exists>st s'. wait_job (site_env site_answer) site_client WAIT_FUEL EXPORT_OPERATION site_start = (Inr st, s') \<and>
     job_verdict EXPORT_OPERATION st = Inr True"
proof -
  have room: "3000000 + MIN_REQUEST_INTERVAL + 20000 + EXPORT_POLL_INTERVAL + 2 * 5000
      < web_now (site_env site_answer) site_client site_start + EXPORT_TIMEOUT" by code_simp
  show ?thesis
    by (rule finished_job_is_delivered [OF site_clock_forward site_status site_sleeps(2) _ _ room site_paced]) simp_all
qed


section \<open>A session that has lapsed\<close>

text \<open>
  C18. A lapsed session is noticed by the roster screens. When every letter of the roster is answered
  in one of the three shapes a dead cookie has been seen to produce (a redirect to the login, an
  empty 200, an empty list), the sweep and the search for a first cardholder both raise the
  authentication error, so the connection test and the check of a captured session refuse it; and no
  sweep that returns, returns nobody.
\<close>

theorem lapsed_session_is_noticed:
  assumes "dead_session env cl"
  shows "(\<exists>m. fst (list_cardholders env cl s) = Inl (MillenniumAuthError m)) \<and>
    (\<exists>m. fst (first_cardholder_id env cl s) = Inl (MillenniumAuthError m)) \<and>
    \<not> fst (fst (test_connection env cl s)) \<and>
    (new_client (we_brackets env) ws = Inr cl \<longrightarrow> \<not> fst (fst (validate_session env base ws s))) \<and>
    (list_cardholders env' cl' s' = (Inr rows, s'') \<longrightarrow> rows \<noteq> [])"
proof -
  obtain m s1 where first: "first_cardholder_id env cl s = (Inl (MillenniumAuthError m), s1)"
    using first_id_of_dead [OF assms] unfolding first_cardholder_id_def by blast
  have "\<not> fst (fst (validate_session env base ws s))" if c: "new_client (we_brackets env) ws = Inr cl"
  proof -
    have "ws_base_url ws \<noteq> ''''" using c by (auto simp: new_client_def normalize_base_url_def)
    then show ?thesis using c first by (simp add: validate_session_def)
  qed
  then show ?thesis
    using first list_of_dead [OF assms, of s] list_cardholders_nonempty [of env' cl' s' rows s''] by (auto simp: test_connection_def)
qed

theorem lapsed_session_is_noticed_witness:
  "\<exists>m. fst (list_cardholders (site_env lapsed_answer) site_client site_start) = Inl (MillenniumAuthError m)"
  using lapsed_session_is_noticed [OF lapsed_dead, of site_start] by blast

text \<open>
  C34. The export does not notice every lapsed session. The roster the engine syncs from is the
  export, whose first request recognises only the redirect: that one parks the cycle with the
  reconnect flag up. An empty 200, a list or a server error, which the other screens and the
  documentation take for a lapsed session, end the cycle as an ordinary failure that counts towards
  the breaker, and the flag stays as it was.
\<close>

theorem export_misses_a_lapsed_session:
  assumes "ce_configured cenv" and "ce_ag_init cenv = None" and "ce_pacs_init cenv = None"
    and "ms_migrated (w_pacs w)" and "ms_label (w_pacs w) \<noteq> ''''"
    and "http_send (we_open env (wc_cookies cl)) (export_start cl) (wb_net (pace env (ms_site (w_pacs w)))) = (Inr resp, h')"
    and "sent_to_login resp \<or> 400 \<le> rs_status resp \<or> rs_json resp \<noteq> Some (JVal (PBool True))"
    and "run_one_cycle refs ag (mill_api cfg (web_mill_client env cl fuel)) cenv st w = (r, st', w')"
  shows "if sent_to_login resp then es_reconnect_required st' \<and> \<not> cy_counts_as_failure r
    else es_reconnect_required st' = es_reconnect_required st \<and> cy_counts_as_failure r \<and> cy_error r \<noteq> None \<and>
      es_consecutive_errors (after_cycle r st') = Suc (es_consecutive_errors st)"
proof -
  obtain e s1 where export: "export_cardholders env cl fuel (ms_site (w_pacs w)) = (Inl e, s1)"
    and auth: "is_auth_expired e = sent_to_login resp" by (rule export_refused [OF assms(6,7)])
  have "list_people cfg (web_mill_client env cl fuel) (w_pacs w) = (Inl e, (w_pacs w)\<lparr>ms_site := s1\<rparr>)"
    using assms(4,5) export by (simp add: list_people_def migrate_ensure_def read_roster_def on_site_def web_mill_client_def)
  then have "\<exists>w1. build_snapshot ag (mill_api cfg (web_mill_client env cl fuel)) (ic_template_id (ce_cfg cenv)) w = (Inl e, w1)"
    by (simp add: build_snapshot_def Let_def pacs_call_def mill_api_def)
  moreover have "adapter_error (mill_api cfg (web_mill_client env cl fuel)) cenv = None"
    using assms(3) by (simp add: adapter_error_def mill_api_def)
  ultimately show ?thesis using assms(1,2,8) auth
    by (auto simp: run_one_cycle_def Let_def auth_expired_result_def flag_reconnect_def new_result_def after_cycle_def failed_def
      split: prod.splits sum.splits)
qed

theorem export_misses_a_lapsed_session_witness:
  "\<not> es_reconnect_required (fst (snd (run_one_cycle demo_refs demo_ag
     (mill_api (demo_mill_cfg False) (web_mill_client (site_env lapsed_answer) site_client 91)) (demo_env False) initial_status
     (world_on site_mill []))))"
proof -
  let ?env = "site_env lapsed_answer"
  let ?run = "run_one_cycle demo_refs demo_ag (mill_api (demo_mill_cfg False) (web_mill_client ?env site_client 91)) (demo_env False)
    initial_status (world_on site_mill [])"
  have run: "?run = (fst ?run, fst (snd ?run), snd (snd ?run))" by simp
  have conf: "ce_configured (demo_env False)" "ce_ag_init (demo_env False) = None" "ce_pacs_init (demo_env False) = None"
    by (simp_all add: demo_env_def)
  have mill: "ms_migrated (w_pacs (world_on site_mill []))" "ms_label (w_pacs (world_on site_mill [])) \<noteq> ''''"
    by (simp_all add: world_on_def site_mill_def)
  have resp: "http_send (we_open ?env (wc_cookies site_client)) (export_start site_client)
      (wb_net (pace ?env (ms_site (w_pacs (world_on site_mill []))))) = (Inr (text_answer 200 ''''), \<lparr>si_clock = 1020000, si_deleted = []\<rparr>)"
    by code_simp
  have dead: "sent_to_login (text_answer 200 '''') \<or> 400 \<le> rs_status (text_answer 200 '''')
      \<or> rs_json (text_answer 200 '''') \<noteq> Some (JVal (PBool True))" by code_simp
  have no: "\<not> sent_to_login (text_answer 200 '''')" by code_simp
  from export_misses_a_lapsed_session [OF conf mill resp dead run] no show ?thesis by (simp add: initial_status_def)
qed

section \<open>Deleting a card\<close>

text \<open>
  C9. A deletion reaches only the card it names. Suppose no request but a deletion changes the cards
  of the install. When \<open>delete_card_by_number\<close> changes them, the search answered with exactly one row
  of this Employee ID, the page of that record shows the card in a slot with an id, and the one
  deletion sent was for that record and that id.
\<close>

theorem deletes_only_the_card_it_names:
  assumes "only_deletion_changes env cl cards"
    and "cards (wb_net (snd (delete_card_by_number env cl eid facility number s))) \<noteq> cards (wb_net s)"
  shows "\<exists>record_id s1 f s2 n. find_cardholder_id env cl eid s = (Inr record_id, s1) \<and>
    (\<exists>(resp :: response) t v rows row i. find_data (rs_text resp) = Some t \<and> we_loads env t = Some v \<and> jiter v = Inr rows \<and>
       List.filter (names_employee eid) rows = [row] \<and> jindex ''ID'' row = Inr i \<and> record_id = jstr i) \<and>
    get_cardholder_form env cl record_id s1 = (Inr f, s2) \<and>
    n \<in> set CARD_SLOTS \<and> slot_shows f facility number n \<and> py_strip (form_value f (slot_field n ''CardID'')) \<noteq> '''' \<and>
    delete_card_by_number env cl eid facility number s
      = Mill_Web.delete_card env cl record_id (py_strip (form_value f (slot_field n ''CardID''))) (form_token f) s2"
proof -
  note kept = kept_reading [OF assms(1), of "cards (wb_net s)"]
  obtain r1 s1 where find: "find_cardholder_id env cl eid s = (r1, s1)" by fastforce
  have k1: "cards (wb_net s1) = cards (wb_net s)" using find_cardholder_keeps [OF kept, of s eid] find by simp
  then obtain record_id where r1: "r1 = Inr record_id"
    using assms(2) find by (cases r1) (simp_all add: delete_card_by_number_def bind_comp_def)
  obtain r2 s2 where page: "get_cardholder_form env cl record_id s1 = (r2, s2)" by fastforce
  have k2: "cards (wb_net s2) = cards (wb_net s)" using get_form_keeps [OF kept k1, of record_id] page by simp
  then obtain f where r2: "r2 = Inr f"
    using assms(2) find page r1 by (cases r2) (simp_all add: delete_card_by_number_def bind_comp_def)
  obtain card_id where card_id: "card_on_page f facility number = Some card_id"
    using assms(2) find page r1 r2 k2 by (cases "card_on_page f facility number")
      (simp_all add: delete_card_by_number_def bind_comp_def pure_res_def)
  then obtain n where n: "n \<in> set CARD_SLOTS" "slot_shows f facility number n"
    "card_id = py_strip (form_value f (slot_field n ''CardID''))" "card_id \<noteq> ''''" by (rule card_on_page_found)
  have eq: "delete_card_by_number env cl eid facility number s = Mill_Web.delete_card env cl record_id card_id (form_token f) s2"
    using find page r1 r2 card_id by (simp add: delete_card_by_number_def bind_comp_def)
  obtain resp where "search_answer env eid resp = Inr record_id"
    using find r1 by (auto simp: find_cardholder_id_def bind_comp_def pure_res_def split: prod.splits sum.splits)
  then have "\<exists>(resp :: response) t v rows row i. find_data (rs_text resp) = Some t \<and> we_loads env t = Some v \<and> jiter v = Inr rows \<and>
       List.filter (names_employee eid) rows = [row] \<and> jindex ''ID'' row = Inr i \<and> record_id = jstr i"
    by (rule search_answer_found) blast
  then show ?thesis using find r1 page r2 n eq by blast
qed

theorem deletes_only_the_card_it_names_witness:
  "\<exists>f n. slot_shows f ''10'' ''500'' n \<and> n \<in> set CARD_SLOTS \<and>
     delete_card_by_number (site_env site_answer) site_client ''E12'' ''10'' ''500'' site_start
       = (Inr True, \<lparr>wb_net = \<lparr>si_clock = 1320000, si_deleted = [''card'']\<rparr>, wb_last = 1300000\<rparr>)"
proof -
  let ?env = "site_env site_answer"
  have run: "delete_card_by_number ?env site_client ''E12'' ''10'' ''500'' site_start
       = (Inr True, \<lparr>wb_net = \<lparr>si_clock = 1320000, si_deleted = [''card'']\<rparr>, wb_last = 1300000\<rparr>)"
    by code_simp
  have changed: "si_deleted (wb_net (snd (delete_card_by_number ?env site_client ''E12'' ''10'' ''500'' site_start))) \<noteq> si_deleted (wb_net site_start)"
    unfolding run by (simp add: site_start_def)
  show ?thesis using deletes_only_the_card_it_names [OF site_deletion changed] run by blast
qed

end
