(* ===== verification/Connect_Wire.thy ===== *)
theory Connect_Wire
  imports Url_Text
begin

text \<open>
  \<open>connect/protocol.py\<close>: what travels between the hub and the AG Connect side-car. Base64 as the
  standard library encodes and (leniently) decodes it, the launch link, and the sealed payload. The
  cipher (AES-GCM), the random nonce, the two directions of \<open>json\<close> and the decoding of text that is
  not ASCII are parameters. A byte is a number below 256.
\<close>

section \<open>Base64\<close>

text \<open>The URL-safe alphabet: capitals, small letters, digits, hyphen and underscore.\<close>

definition b64_char :: "nat \<Rightarrow> char" where
  "b64_char n = char_of (if n < 26 then 65 + n else if n < 52 then 71 + n else if n < 62 then n - 4 else if n = 62 then 45 else 95)"

definition pad_char :: char where
  "pad_char = CHR ''=''"

text \<open>\<open>base64.urlsafe_b64encode\<close>.\<close>

fun urlsafe_b64encode :: "nat list \<Rightarrow> string" where
  "urlsafe_b64encode [] = ''''"
| "urlsafe_b64encode [a] = [b64_char (a div 4), b64_char (a mod 4 * 16), pad_char, pad_char]"
| "urlsafe_b64encode [a, b] = [b64_char (a div 4), b64_char (a mod 4 * 16 + b div 16), b64_char (b mod 16 * 4), pad_char]"
| "urlsafe_b64encode (a # b # c # r) =
     b64_char (a div 4) # b64_char (a mod 4 * 16 + b div 16) # b64_char (b mod 16 * 4 + c div 64) # b64_char (c mod 64)
       # urlsafe_b64encode r"

definition b64url_encode :: "nat list \<Rightarrow> string" where
  "b64url_encode raw = rev (dropWhile (\<lambda>c. c = pad_char) (rev (urlsafe_b64encode raw)))"

text \<open>The reader takes both alphabets.\<close>

definition b64_value :: "char \<Rightarrow> nat option" where
  "b64_value c = (let n = (of_char c :: nat) in
     if 65 \<le> n \<and> n \<le> 90 then Some (n - 65)
     else if 97 \<le> n \<and> n \<le> 122 then Some (n - 71)
     else if 48 \<le> n \<and> n \<le> 57 then Some (n + 4)
     else if n = 43 \<or> n = 45 then Some 62
     else if n = 47 \<or> n = 95 then Some 63
     else None)"

definition bad_base64 :: exn where
  "bad_base64 = PyError ''Error'' ''Incorrect padding''"

text \<open>
  \<open>binascii.a2b_base64\<close>: the position in the group of four, the bits left over and the padding seen.
  Characters of no meaning are skipped, and a complete padding ends the text.
\<close>

fun a2b_base64 :: "nat \<Rightarrow> nat \<Rightarrow> nat \<Rightarrow> string \<Rightarrow> nat list res" where
  "a2b_base64 pos left pads [] = (if pos = 0 then Inr [] else Inl bad_base64)"
| "a2b_base64 pos left pads (c # s) =
     (if c = pad_char then
        (if 2 \<le> pos \<and> 4 \<le> pos + Suc pads then Inr []
         else a2b_base64 pos left (if 2 \<le> pos then Suc pads else pads) s)
      else case b64_value c of
        None \<Rightarrow> a2b_base64 pos left pads s
      | Some v \<Rightarrow>
          if pos = 0 then a2b_base64 1 v 0 s
          else if pos = 1 then bind_res (a2b_base64 2 (v mod 16) 0 s) (\<lambda>r. Inr ((left * 4 + v div 16) # r))
          else if pos = 2 then bind_res (a2b_base64 3 (v mod 4) 0 s) (\<lambda>r. Inr ((left * 16 + v div 4) # r))
          else bind_res (a2b_base64 0 0 0 s) (\<lambda>r. Inr ((left * 64 + v) # r)))"

definition is_ascii :: "char \<Rightarrow> bool" where
  "is_ascii c \<longleftrightarrow> (of_char c :: nat) < 128"

definition b64url_decode :: "string \<Rightarrow> nat list res" where
  "b64url_decode t =
     (if list_all is_ascii t then a2b_base64 0 0 0 (t @ replicate ((4 - length t mod 4) mod 4) pad_char)
      else Inl (PyError ''ValueError'' ''string argument should contain only ASCII characters''))"

section \<open>Query strings\<close>

text \<open>
  \<open>urllib.parse.quote_plus\<close>: the bytes of UTF-8, those that are not safe as a percent and two digits.
  Safe are letters, digits, and the hyphen, full stop, underscore and tilde.
\<close>

definition safe_char :: "char \<Rightarrow> bool" where
  "safe_char c \<longleftrightarrow> is_letter c \<or> is_digit c \<or> (of_char c :: nat) \<in> {45, 46, 95, 126}"

definition utf8_bytes :: "char \<Rightarrow> nat list" where
  "utf8_bytes c = (let n = (of_char c :: nat) in if n < 128 then [n] else [192 + n div 64, 128 + n mod 64])"

definition upper_hex :: "nat \<Rightarrow> char" where
  "upper_hex n = (if n < 10 then char_of (48 + n) else char_of (55 + n))"

definition percent :: "nat \<Rightarrow> string" where
  "percent n = [CHR 0x25, upper_hex (n div 16), upper_hex (n mod 16)]"

definition quote_char_plus :: "char \<Rightarrow> string" where
  "quote_char_plus c =
     (if safe_char c then [c] else if c = CHR '' '' then [CHR 0x2B] else concat (List.map percent (utf8_bytes c)))"

definition quote_plus :: "string \<Rightarrow> string" where
  "quote_plus s = concat (List.map quote_char_plus s)"

definition urlencode :: "(string \<times> string) list \<Rightarrow> string" where
  "urlencode kvs = py_join ''&'' (List.map (\<lambda>(k, v). quote_plus k @ ''='' @ quote_plus v) kvs)"

definition hex_value :: "char \<Rightarrow> nat option" where
  "hex_value c = (let n = (of_char c :: nat) in
     if 48 \<le> n \<and> n \<le> 57 then Some (n - 48)
     else if 65 \<le> n \<and> n \<le> 70 then Some (n - 55)
     else if 97 \<le> n \<and> n \<le> 102 then Some (n - 87) else None)"

text \<open>\<open>unquote_to_bytes\<close>, of an ASCII text: a percent that two digits do not follow stays.\<close>

fun unquote_bytes :: "string \<Rightarrow> nat list" where
  "unquote_bytes (p # h # l # s) =
     (if p = CHR 0x25 \<and> hex_value h \<noteq> None \<and> hex_value l \<noteq> None
      then (16 * the (hex_value h) + the (hex_value l)) # unquote_bytes s
      else of_char p # unquote_bytes (h # l # s))"
| "unquote_bytes [c, d] = [of_char c, of_char d]"
| "unquote_bytes [c] = [of_char c]"
| "unquote_bytes [] = []"

text \<open>The longest runs of ASCII and of other characters.\<close>

definition ascii_runs :: "string \<Rightarrow> string list" where
  "ascii_runs s = foldr (\<lambda>c rs. case rs of
       (d # run) # others \<Rightarrow> if is_ascii c = is_ascii d then (c # d # run) # others else [c] # rs
     | _ \<Rightarrow> [c] # rs) s []"

definition unquote :: "(nat list \<Rightarrow> string) \<Rightarrow> string \<Rightarrow> string" where
  "unquote dec s =
     (if CHR 0x25 \<in> set s
      then concat (List.map (\<lambda>run. if list_all is_ascii run then dec (unquote_bytes run) else run) (ascii_runs s))
      else s)"

definition unquote_plus :: "(nat list \<Rightarrow> string) \<Rightarrow> string \<Rightarrow> string" where
  "unquote_plus dec s = unquote dec (List.map (\<lambda>c. if c = CHR 0x2B then CHR '' '' else c) s)"

definition py_split :: "char \<Rightarrow> string \<Rightarrow> string list" where
  "py_split sep s = foldr (\<lambda>c ws. if c = sep then [] # ws else (c # hd ws) # tl ws) s [[]]"

text \<open>\<open>parse_qs\<close> with its defaults: a pair without a value is left out.\<close>

definition query_pair :: "(nat list \<Rightarrow> string) \<Rightarrow> string \<Rightarrow> (string \<times> string) list" where
  "query_pair dec part =
     (case split_once ''='' part of
        None \<Rightarrow> []
      | Some (k, v) \<Rightarrow> if v = '''' then [] else [(unquote_plus dec k, unquote_plus dec v)])"

definition query_pairs :: "(nat list \<Rightarrow> string) \<Rightarrow> string \<Rightarrow> (string \<times> string) list" where
  "query_pairs dec query = concat (List.map (query_pair dec) (py_split (CHR ''&'') query))"

section \<open>The launch link\<close>

definition URI_SCHEME :: string where "URI_SCHEME = ''agconnect''"
definition URI_VERSION :: string where "URI_VERSION = ''v1''"

definition build_launch_uri :: "string \<Rightarrow> string \<Rightarrow> string" where
  "build_launch_uri launch_id server_url =
     URI_SCHEME @ ''://'' @ URI_VERSION @ ''/connect?'' @ urlencode [(''launch'', launch_id), (''server'', server_url)]"

text \<open>\<open>urlparse(uri).query\<close>.\<close>

definition url_query :: "string \<Rightarrow> string" where
  "url_query text = (let tail = snd (url_netloc (snd (url_scheme (url_clean text)))) in
     drop 1 (dropWhile (\<lambda>c. c \<noteq> CHR ''?'') (takeWhile (\<lambda>c. c \<noteq> CHR ''#'') tail)))"

definition first_param :: "(string \<times> string) list \<Rightarrow> string \<Rightarrow> string" where
  "first_param params k = (case map_of params k of None \<Rightarrow> '''' | Some v \<Rightarrow> v)"

definition parse_launch_uri :: "(nat list \<Rightarrow> string) \<Rightarrow> (string \<Rightarrow> bool) \<Rightarrow> string \<Rightarrow> (string \<times> string) res" where
  "parse_launch_uri dec brackets uri = bind_res (url_parse brackets uri) (\<lambda>u.
     if ur_scheme u \<noteq> URI_SCHEME then Inl (PyError ''ValueError'' (''Not an agconnect:// URI: '' @ repr_str uri))
     else let params = query_pairs dec (url_query uri); launch_id = first_param params ''launch'';
              server_url = first_param params ''server'' in
          if launch_id = '''' \<or> server_url = ''''
          then Inl (PyError ''ValueError'' (''Launch URI is missing '' @ repr_str ''launch'' @ '' or '' @ repr_str ''server''))
          else Inr (launch_id, server_url))"

section \<open>The sealed payload\<close>

record box =
  bx_encrypt :: "nat list \<Rightarrow> nat list \<Rightarrow> nat list \<Rightarrow> nat list"
  bx_decrypt :: "nat list \<Rightarrow> nat list \<Rightarrow> nat list \<Rightarrow> nat list res"
  bx_dumps :: "json \<Rightarrow> nat list"
  bx_loads :: "nat list \<Rightarrow> json res"

definition seal :: "box \<Rightarrow> nat list \<Rightarrow> nat list \<Rightarrow> json \<Rightarrow> string" where
  "seal bx nonce key payload = b64url_encode (nonce @ bx_encrypt bx key nonce (bx_dumps bx payload))"

definition unseal :: "box \<Rightarrow> nat list \<Rightarrow> string \<Rightarrow> json res" where
  "unseal bx key sealed = bind_res (b64url_decode sealed) (\<lambda>blob.
     bind_res (bx_decrypt bx key (take 12 blob) (drop 12 blob)) (bx_loads bx))"

section \<open>What was written is read\<close>

lemma b64_value_char: "n < 64 \<Longrightarrow> b64_value (b64_char n) = Some n"
  by (auto simp: b64_value_def b64_char_def Let_def)

lemma b64_char_ascii: "n < 64 \<Longrightarrow> is_ascii (b64_char n)"
  by (auto simp: b64_char_def is_ascii_def)

lemma b64_char_plain: "n < 64 \<Longrightarrow> b64_char n \<noteq> pad_char \<and> is_ascii (b64_char n)"
proof
  assume n: "n < 64"
  have "b64_value pad_char = None" by (simp add: b64_value_def pad_char_def Let_def)
  then show "b64_char n \<noteq> pad_char" using b64_value_char [OF n] by auto
qed (rule b64_char_ascii)

definition bytes :: "nat list \<Rightarrow> bool" where
  "bytes raw \<longleftrightarrow> (\<forall>b\<in>set raw. b < 256)"

lemma bytes_simps [simp]: "bytes []" "bytes (b # raw) \<longleftrightarrow> b < 256 \<and> bytes raw" "bytes (xs @ ys) \<longleftrightarrow> bytes xs \<and> bytes ys"
  by (auto simp: bytes_def)

lemma a2b_step:
  assumes "n < 64"
  shows "a2b_base64 0 l p (b64_char n # s) = a2b_base64 1 n 0 s"
    and "a2b_base64 (Suc 0) l p (b64_char n # s) = bind_res (a2b_base64 2 (n mod 16) 0 s) (\<lambda>r. Inr ((l * 4 + n div 16) # r))"
    and "a2b_base64 2 l p (b64_char n # s) = bind_res (a2b_base64 3 (n mod 4) 0 s) (\<lambda>r. Inr ((l * 16 + n div 4) # r))"
    and "a2b_base64 3 l p (b64_char n # s) = bind_res (a2b_base64 0 0 0 s) (\<lambda>r. Inr ((l * 64 + n) # r))"
  using assms by (simp_all add: b64_value_char b64_char_plain)

lemma pack_div: "y < m \<Longrightarrow> (x * m + y) div m = (x::nat)"
  by simp

lemma pack_mod: "y < m \<Longrightarrow> (x * m + y) mod m = (y::nat)"
  by simp

lemma b64_arith:
  assumes "(a::nat) < 256" "b < 256" "c < 256"
  shows "a div 4 < 64" "a mod 4 * 16 + b div 16 < 64" "b mod 16 * 4 + c div 64 < 64" "a mod 4 * 16 < 64" "b mod 16 * 4 < 64" "c mod 64 < 64"
    and "a div 4 * 4 + (a mod 4 * 16 + b div 16) div 16 = a" and "(a mod 4 * 16 + b div 16) mod 16 * 16 + (b mod 16 * 4 + c div 64) div 4 = b"
    and "(b mod 16 * 4 + c div 64) mod 4 * 64 + c mod 64 = c" and "a div 4 * 4 + a mod 4 * 16 div 16 = a"
    and "(a mod 4 * 16 + b div 16) mod 16 * 16 + b mod 16 * 4 div 4 = b"
proof -
  show "a div 4 < 64" "a mod 4 * 16 + b div 16 < 64" "b mod 16 * 4 + c div 64 < 64" "a mod 4 * 16 < 64" "b mod 16 * 4 < 64" "c mod 64 < 64"
    using assms by linarith+
  have bh: "b div 16 < 16" and ch: "c div 64 < 4" using assms by simp_all
  show "a div 4 * 4 + (a mod 4 * 16 + b div 16) div 16 = a" by (simp add: pack_div [OF bh])
  show "(a mod 4 * 16 + b div 16) mod 16 * 16 + (b mod 16 * 4 + c div 64) div 4 = b"
    unfolding pack_div [OF ch] pack_mod [OF bh] by simp
  show "(b mod 16 * 4 + c div 64) mod 4 * 64 + c mod 64 = c" unfolding pack_mod [OF ch] by simp
  show "a div 4 * 4 + a mod 4 * 16 div 16 = a" by simp
  show "(a mod 4 * 16 + b div 16) mod 16 * 16 + b mod 16 * 4 div 4 = b"
    unfolding pack_mod [OF bh] by (simp only: nonzero_mult_div_cancel_right zero_neq_numeral not_False_eq_True div_mult_mod_eq)
qed

lemma a2b_pads: "a2b_base64 2 l 0 [pad_char, pad_char] = Inr []" "a2b_base64 3 l 0 [pad_char] = Inr []"
  by simp_all

text \<open>What the encoder writes, its padding included, is read back.\<close>

lemma a2b_encode: "bytes raw \<Longrightarrow> a2b_base64 0 0 0 (urlsafe_b64encode raw) = Inr raw"
proof (induction raw rule: urlsafe_b64encode.induct)
  case (2 a)
  then show ?case using b64_arith [of a 0 0] by (simp add: a2b_step a2b_pads del: a2b_base64.simps)
next
  case (3 a b)
  then show ?case using b64_arith [of a b 0] by (simp add: a2b_step a2b_pads del: a2b_base64.simps)
next
  case (4 a b c r)
  then show ?case using b64_arith [of a b c] by (simp add: a2b_step del: a2b_base64.simps)
qed simp

lemma encode_padding:
  "bytes raw \<Longrightarrow> \<exists>core. urlsafe_b64encode raw = core @ replicate ((4 - length core mod 4) mod 4) pad_char
     \<and> list_all is_ascii core \<and> (core = [] \<or> last core \<noteq> pad_char)"
proof (induction raw rule: urlsafe_b64encode.induct)
  case (2 a)
  then show ?case using b64_arith [of a 0 0]
    by (intro exI [of _ "[b64_char (a div 4), b64_char (a mod 4 * 16)]"]) (simp add: b64_char_plain numeral_2_eq_2)
next
  case (3 a b)
  then show ?case using b64_arith [of a b 0]
    by (intro exI [of _ "[b64_char (a div 4), b64_char (a mod 4 * 16 + b div 16), b64_char (b mod 16 * 4)]"]) (simp add: b64_char_plain)
next
  case (4 a b c r)
  then obtain core where core: "urlsafe_b64encode r = core @ replicate ((4 - length core mod 4) mod 4) pad_char"
    "list_all is_ascii core" "core = [] \<or> last core \<noteq> pad_char" by auto
  let ?four = "[b64_char (a div 4), b64_char (a mod 4 * 16 + b div 16), b64_char (b mod 16 * 4 + c div 64), b64_char (c mod 64)]"
  have "length (?four @ core) mod 4 = length core mod 4" by simp
  then show ?case using core 4(2) b64_arith [of a b c]
    by (intro exI [of _ "?four @ core"]) (auto simp: b64_char_plain)
qed simp

lemma b64url_round_trip:
  assumes "bytes raw"
  shows "b64url_decode (b64url_encode raw) = Inr raw"
proof -
  obtain core where core: "urlsafe_b64encode raw = core @ replicate ((4 - length core mod 4) mod 4) pad_char"
    "list_all is_ascii core" "core = [] \<or> last core \<noteq> pad_char" using encode_padding [OF assms] by blast
  have "dropWhile (\<lambda>c. c = pad_char) (replicate n pad_char @ rev core) = rev core" for n
    using core(3) by (induction n) (auto simp: dropWhile_eq_self_iff hd_rev)
  then have "b64url_encode raw = core" by (simp add: b64url_encode_def core(1))
  then show ?thesis using core a2b_encode [OF assms] by (simp add: b64url_decode_def)
qed

section \<open>The link is read back\<close>

text \<open>ASCII text, and a reader of bytes that is right about ASCII.\<close>

definition ascii_text :: "string \<Rightarrow> bool" where
  "ascii_text s \<longleftrightarrow> list_all is_ascii s"

definition reads_ascii :: "(nat list \<Rightarrow> string) \<Rightarrow> bool" where
  "reads_ascii dec \<longleftrightarrow> (\<forall>s. list_all is_ascii s \<longrightarrow> dec (List.map of_char s) = s)"

lemma ascii_runs_one: "list_all is_ascii s \<Longrightarrow> ascii_runs s = (if s = [] then [] else [s])"
proof (induction s)
  case (Cons c s)
  then show ?case by (cases s) (simp_all add: ascii_runs_def)
qed (simp add: ascii_runs_def)

definition quoted_char :: "char \<Rightarrow> bool" where
  "quoted_char c \<longleftrightarrow> (let n = (of_char c :: nat) in 32 < n \<and> n < 128 \<and> n \<notin> {35, 38, 43, 47, 61, 63})"

definition unplus :: "string \<Rightarrow> string" where
  "unplus s = List.map (\<lambda>c. if c = CHR 0x2B then CHR '' '' else c) s"

lemma unquote_plain: "c \<noteq> CHR 0x25 \<Longrightarrow> unquote_bytes (c # s) = of_char c # unquote_bytes s"
  by (cases s; cases "tl s") auto

lemma upper_hex_value: "n < 16 \<Longrightarrow> hex_value (upper_hex n) = Some n"
  by (auto simp: hex_value_def upper_hex_def Let_def)

lemma unquote_percent: "n < 256 \<Longrightarrow> unquote_bytes (percent n @ s) = n # unquote_bytes s"
  by (simp add: percent_def upper_hex_value)

lemma upper_hex_quoted: "n < 16 \<Longrightarrow> quoted_char (upper_hex n) \<and> upper_hex n \<noteq> CHR 0x2B"
proof
  assume n: "n < 16"
  show "quoted_char (upper_hex n)" using n by (simp add: quoted_char_def upper_hex_def Let_def)
  have "hex_value CHR 0x2B = None" by (simp add: hex_value_def Let_def)
  then show "upper_hex n \<noteq> CHR 0x2B" using upper_hex_value [OF n] by auto
qed

lemma safe_quoted:
  assumes "safe_char c"
  shows "quoted_char c \<and> c \<noteq> CHR 0x2B \<and> c \<noteq> CHR 0x25"
proof -
  have num: "(of_char c :: nat) \<in> {45, 46, 95, 126} \<or> 48 \<le> (of_char c :: nat) \<and> (of_char c :: nat) \<le> 57
      \<or> 65 \<le> (of_char c :: nat) \<and> (of_char c :: nat) \<le> 90 \<or> 97 \<le> (of_char c :: nat) \<and> (of_char c :: nat) \<le> 122"
    using assms by (auto simp: safe_char_def is_letter_def is_digit_def Let_def)
  then have "quoted_char c" "(of_char c :: nat) \<noteq> 43" "(of_char c :: nat) \<noteq> 37" by (auto simp: quoted_char_def Let_def)
  then show ?thesis by auto
qed

text \<open>One quoted character: plain in a query, and read back as itself.\<close>

lemma quote_char_cases:
  assumes "is_ascii c"
  shows "list_all (\<lambda>d. d = CHR 0x2B \<or> quoted_char d) (quote_char_plus c) \<and>
    unquote_bytes (unplus (quote_char_plus c) @ s) = of_char c # unquote_bytes s"
proof -
  have n: "(of_char c :: nat) < 128" using assms by (simp add: is_ascii_def)
  consider "safe_char c" | "\<not> safe_char c" "c = CHR '' ''" | "\<not> safe_char c" "c \<noteq> CHR '' ''" by blast
  then show ?thesis
  proof cases
    case 1
    then show ?thesis using safe_quoted [OF 1] by (simp add: quote_char_plus_def unplus_def unquote_plain)
  next
    case 2
    then show ?thesis by (simp add: quote_char_plus_def unplus_def unquote_plain)
  next
    case 3
    have q: "quote_char_plus c = percent (of_char c)" using 3 n by (simp add: quote_char_plus_def utf8_bytes_def)
    have h: "of_char c div 16 < (16::nat)" "of_char c mod 16 < (16::nat)" using n by simp_all
    have "unplus (percent (of_char c)) = percent (of_char c)"
      using upper_hex_quoted [OF h(1)] upper_hex_quoted [OF h(2)] by (simp add: unplus_def percent_def)
    moreover have "quoted_char CHR 0x25" by code_simp
    ultimately show ?thesis using n upper_hex_quoted [OF h(1)] upper_hex_quoted [OF h(2)]
      by (simp add: q unquote_percent) (simp add: percent_def)
  qed
qed

lemma quote_plus_chars: "list_all is_ascii s \<Longrightarrow> list_all (\<lambda>d. d = CHR 0x2B \<or> quoted_char d) (quote_plus s)"
  by (induction s) (simp_all add: quote_plus_def quote_char_cases)

lemma unquote_quote: "list_all is_ascii s \<Longrightarrow> unquote_bytes (unplus (quote_plus s)) = List.map of_char s"
proof (induction s)
  case (Cons c s)
  then show ?case using quote_char_cases [of c "unplus (quote_plus s)"] by (simp add: quote_plus_def unplus_def)
qed (simp add: quote_plus_def unplus_def)

lemma unquote_no_percent: "CHR 0x25 \<notin> set s \<Longrightarrow> unquote_bytes s = List.map of_char s"
proof (induction s)
  case (Cons c s)
  then have "c \<noteq> CHR 0x25" "CHR 0x25 \<notin> set s" by auto
  then show ?case using Cons.IH by (simp add: unquote_plain)
qed simp

lemma unquote_plus_quote:
  assumes "reads_ascii dec" and "list_all is_ascii s"
  shows "unquote_plus dec (quote_plus s) = s"
proof -
  let ?u = "unplus (quote_plus s)"
  have u: "unquote_bytes ?u = List.map of_char s" using unquote_quote [OF assms(2)] .
  have ascii: "list_all is_ascii ?u"
    using quote_plus_chars [OF assms(2)] unfolding unplus_def list.pred_map
    by (rule list.pred_mono_strong) (auto simp: quoted_char_def is_ascii_def Let_def)
  have dec: "dec (List.map of_char s) = s" using assms by (simp add: reads_ascii_def)
  show ?thesis
  proof (cases "CHR 0x25 \<in> set ?u")
    case True
    then have "?u \<noteq> []" by auto
    then show ?thesis using True ascii u dec
      by (simp add: unquote_plus_def unquote_def unplus_def [symmetric] ascii_runs_one)
  next
    case False
    then have "List.map of_char ?u = (List.map of_char s :: nat list)" using unquote_no_percent u by metis
    then have "?u = s" by (metis (no_types) list.inj_map_strong of_char_eq_iff)
    then show ?thesis using False by (simp add: unquote_plus_def unquote_def unplus_def [symmetric])
  qed
qed


text \<open>The link has one scheme, one host and one query, whatever is in it.\<close>

definition plain_query :: "string \<Rightarrow> bool" where
  "plain_query q \<longleftrightarrow> (\<forall>c\<in>set q. c \<noteq> CHR ''#'' \<and> c \<noteq> CHR ''?'' \<and> \<not> line_char c)"

lemma plain_append: "plain_query (a @ b) \<longleftrightarrow> plain_query a \<and> plain_query b"
  by (auto simp: plain_query_def)

lemma plain_marks: "plain_query ''=''" "plain_query ''&''"
  by (simp_all add: plain_query_def line_char_def)

lemma link_parts:
  assumes "plain_query q"
  defines "uri \<equiv> ''agconnect://v1/connect?'' @ q"
  shows "url_scheme (url_clean uri) = (''agconnect'', ''//v1/connect?'' @ q)" and "url_query uri = q"
    and "\<exists>p. url_parse brackets uri = Inr \<lparr>ur_scheme = ''agconnect'', ur_netloc = ''v1'', ur_path = p\<rparr>"
proof -
  have lines: "List.filter (\<lambda>c. \<not> line_char c) q = q"
    using assms(1) by (simp add: plain_query_def filter_id_conv)
  have clean: "url_clean uri = uri"
    by (simp add: uri_def url_clean_def lines) (simp add: line_char_def)
  have part: "py_partition (CHR '':'') uri = (''agconnect'', ''//v1/connect?'' @ q)"
    by (simp add: uri_def py_partition_def)
  show sch: "url_scheme (url_clean uri) = (''agconnect'', ''//v1/connect?'' @ q)"
    unfolding clean url_scheme_def part
    by (simp add: uri_def scheme_char_def is_letter_def py_lower_def lower_char_def)
  have net: "url_netloc (''//v1/connect?'' @ q) = (''v1'', ''/connect?'' @ q)"
    by (simp add: url_netloc_def py_startswith_def ends_netloc_def)
  have hash: "takeWhile (\<lambda>c. c \<noteq> CHR ''#'') (''/connect?'' @ q) = ''/connect?'' @ q"
    using assms(1) by (simp add: plain_query_def takeWhile_eq_all_conv)
  show "url_query uri = q"
    unfolding url_query_def sch net snd_conv Let_def hash by simp
  show "\<exists>p. url_parse brackets uri = Inr \<lparr>ur_scheme = ''agconnect'', ur_netloc = ''v1'', ur_path = p\<rparr>"
    unfolding url_parse_def sch prod.case Let_def net by simp
qed

lemma py_split_plain: "sep \<notin> set s \<Longrightarrow> py_split sep (s @ sep # t) = s # py_split sep t"
proof (induction s)
  case Nil
  then show ?case by (simp add: py_split_def)
next
  case (Cons c s)
  then show ?case by (auto simp: py_split_def)
qed

lemma py_split_none: "sep \<notin> set s \<Longrightarrow> py_split sep s = [s]"
  by (induction s) (auto simp: py_split_def)

lemma quote_plus_free:
  assumes "list_all is_ascii s"
  shows "CHR ''&'' \<notin> set (quote_plus s)" "CHR ''='' \<notin> set (quote_plus s)" "plain_query (quote_plus s)"
proof -
  have all: "\<forall>d\<in>set (quote_plus s). d = CHR 0x2B \<or> quoted_char d"
    using quote_plus_chars [OF assms] by (simp add: list_all_iff)
  have no: "\<not> quoted_char CHR ''&''" "\<not> quoted_char CHR ''=''" "\<not> quoted_char CHR ''#''" "\<not> quoted_char CHR ''?''"
    by (simp_all add: quoted_char_def)
  show "CHR ''&'' \<notin> set (quote_plus s)" "CHR ''='' \<notin> set (quote_plus s)" using all no by fastforce+
  have "\<not> line_char d" if "d = CHR 0x2B \<or> quoted_char d" for d
    using that by (auto simp: quoted_char_def line_char_def Let_def)
  then show "plain_query (quote_plus s)" unfolding plain_query_def using all no by fastforce
qed

lemma quote_plus_Nil_iff: "quote_plus s = [] \<longleftrightarrow> s = []"
  by (cases s) (auto simp: quote_plus_def quote_char_plus_def utf8_bytes_def percent_def Let_def)

lemma query_pair_quoted:
  assumes "reads_ascii dec" and "list_all is_ascii k" and "list_all is_ascii v" and "v \<noteq> []"
  shows "query_pair dec (quote_plus k @ ''='' @ quote_plus v) = [(k, v)]"
proof -
  have "split_once ''='' (quote_plus k @ ''='' @ quote_plus v) = Some (quote_plus k, quote_plus v)"
    using split_once_after [of "''=''" "CHR ''=''" "[]" "quote_plus k" "quote_plus v"] quote_plus_free(2) [OF assms(2)] by simp
  then show ?thesis using assms by (simp add: query_pair_def quote_plus_Nil_iff unquote_plus_quote)
qed

lemma launch_uri_round_trip:
  assumes "reads_ascii dec" and "list_all is_ascii launch_id" and "list_all is_ascii server_url"
    and "launch_id \<noteq> ''''" and "server_url \<noteq> ''''"
  shows "parse_launch_uri dec brackets (build_launch_uri launch_id server_url) = Inr (launch_id, server_url)"
proof -
  let ?q = "quote_plus ''launch'' @ ''='' @ quote_plus launch_id @ ''&'' @ quote_plus ''server'' @ ''='' @ quote_plus server_url"
  have names: "list_all is_ascii ''launch''" "list_all is_ascii ''server''" by (simp_all add: is_ascii_def)
  have uri: "build_launch_uri launch_id server_url = ''agconnect://v1/connect?'' @ ?q"
    by (simp add: build_launch_uri_def URI_SCHEME_def URI_VERSION_def urlencode_def)
  have plain: "plain_query ?q"
    using quote_plus_free(3) [OF names(1)] quote_plus_free(3) [OF names(2)] quote_plus_free(3) [OF assms(2)] quote_plus_free(3) [OF assms(3)]
    by (simp only: plain_append plain_marks)
  have amp: "CHR ''&'' \<notin> set (quote_plus ''launch'' @ ''='' @ quote_plus launch_id)"
    "CHR ''&'' \<notin> set (quote_plus ''server'' @ ''='' @ quote_plus server_url)"
    using quote_plus_free(1) [OF names(1)] quote_plus_free(1) [OF names(2)] quote_plus_free(1) [OF assms(2)] quote_plus_free(1) [OF assms(3)]
    by auto
  have "py_split (CHR ''&'') ?q = [quote_plus ''launch'' @ ''='' @ quote_plus launch_id, quote_plus ''server'' @ ''='' @ quote_plus server_url]"
    using py_split_plain [OF amp(1), of "quote_plus ''server'' @ ''='' @ quote_plus server_url"] py_split_none [OF amp(2)] by simp
  then have "query_pairs dec ?q = [(''launch'', launch_id), (''server'', server_url)]"
    using query_pair_quoted [OF assms(1) names(1) assms(2,4)] query_pair_quoted [OF assms(1) names(2) assms(3,5)]
    by (simp add: query_pairs_def)
  moreover obtain p where "url_parse brackets (''agconnect://v1/connect?'' @ ?q) = Inr \<lparr>ur_scheme = ''agconnect'', ur_netloc = ''v1'', ur_path = p\<rparr>"
    using link_parts(3) [OF plain] by blast
  ultimately show ?thesis
    using link_parts(2) [OF plain] assms(4,5) unfolding parse_launch_uri_def uri
    by (simp add: URI_SCHEME_def first_param_def)
qed

section \<open>The seal is opened\<close>

text \<open>
  What is relied on of the cipher under one key, the nonce and \<open>json\<close>. The cipher raises for a key that is
  not 16, 24 or 32 bytes long, of which nothing is said; the hub makes keys of 32.
\<close>

definition honest_box :: "box \<Rightarrow> nat list \<Rightarrow> bool" where
  "honest_box bx k \<longleftrightarrow>
     (\<forall>n p. length n = 12 \<longrightarrow> bytes n \<longrightarrow> bytes p \<longrightarrow> bytes (bx_encrypt bx k n p) \<and> bx_decrypt bx k n (bx_encrypt bx k n p) = Inr p) \<and>
     (\<forall>v. bytes (bx_dumps bx v) \<and> bx_loads bx (bx_dumps bx v) = Inr v)"

lemma unseal_seal:
  assumes "honest_box bx key" and "length nonce = 12" and "bytes nonce"
  shows "unseal bx key (seal bx nonce key payload) = Inr payload"
proof -
  have "bytes (nonce @ bx_encrypt bx key nonce (bx_dumps bx payload))"
    using assms by (simp add: honest_box_def)
  then show ?thesis using assms by (simp add: unseal_def seal_def b64url_round_trip honest_box_def)
qed

end
