(* ===== verification/Connect_Sidecar.thy ===== *)
theory Connect_Sidecar
  imports Connect_Wire Json_Data
begin

text \<open>
  The AG Connect side-car (\<open>connect/capture.py\<close>, \<open>connect/runner.py\<close>): it opens a browser at the login
  page, watches the cookie jar until the session cookie appears, seals the cookies that were asked
  for and hands them back. The desktop is a parameter: the clock, the file system, the browser's
  process, its DevTools socket and its port file, and the hub behind HTTP. Instants are
  microseconds. Status lines are left out.
\<close>

record 'b desk =
  dk_now :: "'b \<Rightarrow> int"
  dk_sleep :: "int \<Rightarrow> 'b \<Rightarrow> 'b"
  dk_exists :: "string \<Rightarrow> bool"
  dk_which :: "string \<Rightarrow> string option"
  dk_launch :: "string \<Rightarrow> string \<Rightarrow> ('b, unit) comp"
  dk_closed :: "'b \<Rightarrow> bool"
  dk_port_file :: "'b \<Rightarrow> string option"
  dk_targets :: "nat \<Rightarrow> ('b, json) comp"
  dk_attach :: "string \<Rightarrow> ('b, unit) comp"
  dk_send :: "json \<Rightarrow> ('b, unit) comp"
  dk_recv :: "int \<Rightarrow> ('b, json) comp"
  dk_finish :: "'b \<Rightarrow> 'b"
  dk_nonce :: "'b \<Rightarrow> nat list"
  dk_box :: box

text \<open>The state: the desktop, and the number of the last DevTools call.\<close>

record 'b sidecar =
  sd_desk :: 'b
  sd_calls :: int

definition on_desk :: "('b, 'a) comp \<Rightarrow> ('b sidecar, 'a) comp" where
  "on_desk m s = (case m (sd_desk s) of (r, b) \<Rightarrow> (r, s\<lparr>sd_desk := b\<rparr>))"

definition sd_sleep :: "'b desk \<Rightarrow> int \<Rightarrow> 'b sidecar \<Rightarrow> 'b sidecar" where
  "sd_sleep dk d s = s\<lparr>sd_desk := dk_sleep dk d (sd_desk s)\<rparr>"

definition sd_now :: "'b desk \<Rightarrow> 'b sidecar \<Rightarrow> int" where
  "sd_now dk s = dk_now dk (sd_desk s)"

definition connect_error :: "string \<Rightarrow> exn" where
  "connect_error m = PyError ''ConnectError'' m"

definition POLL_INTERVAL :: int where "POLL_INTERVAL = 1000000"
definition LAUNCH_TIMEOUT :: int where "LAUNCH_TIMEOUT = 30 * 1000000"
definition LOGIN_TIMEOUT :: int where "LOGIN_TIMEOUT = 600 * 1000000"
definition SETTLE :: int where "SETTLE = 4 * 1000000"

section \<open>The browser\<close>

definition win_path :: "string list \<Rightarrow> string" where
  "win_path parts = py_join [CHR 0x5C] parts"

definition BROWSER_CANDIDATES :: "string list" where
  "BROWSER_CANDIDATES =
     [win_path [''C:'', ''Program Files'', ''Google'', ''Chrome'', ''Application'', ''chrome.exe''],
      win_path [''C:'', ''Program Files (x86)'', ''Google'', ''Chrome'', ''Application'', ''chrome.exe''],
      win_path [''C:'', ''Program Files (x86)'', ''Microsoft'', ''Edge'', ''Application'', ''msedge.exe''],
      win_path [''C:'', ''Program Files'', ''Microsoft'', ''Edge'', ''Application'', ''msedge.exe''],
      ''/Applications/Google Chrome.app/Contents/MacOS/Google Chrome'',
      ''/Applications/Microsoft Edge.app/Contents/MacOS/Microsoft Edge'',
      ''/Applications/Chromium.app/Contents/MacOS/Chromium'']"

definition find_browser :: "'b desk \<Rightarrow> string res" where
  "find_browser dk =
     (case List.find (dk_exists dk) BROWSER_CANDIDATES of
        Some path \<Rightarrow> Inr path
      | None \<Rightarrow>
          (case List.find (\<lambda>n. dk_which dk n \<noteq> None \<and> dk_which dk n \<noteq> Some '''') [''chrome'', ''google-chrome'', ''chromium'', ''msedge''] of
             Some n \<Rightarrow> Inr (the (dk_which dk n))
           | None \<Rightarrow> Inl (connect_error ''No Chromium-family browser found. Install Google Chrome or Microsoft Edge.'')))"

text \<open>
  \<open>while time.time() < deadline: ...; time.sleep(d)\<close> around a probe, and what is raised when the time
  is up. With fuel, as nothing in the loop bounds it but the clock.
\<close>

fun poll_until :: "'b desk \<Rightarrow> int \<Rightarrow> int \<Rightarrow> ('b sidecar, 'a option) comp \<Rightarrow> exn \<Rightarrow> nat \<Rightarrow> ('b sidecar, 'a) comp" where
  "poll_until dk deadline d probe late 0 s = (Inl not_returned, s)"
| "poll_until dk deadline d probe late (Suc n) s =
     (if \<not> sd_now dk s < deadline then (Inl late, s)
      else case probe s of
             (Inl e, s1) \<Rightarrow> (Inl e, s1)
           | (Inr (Some v), s1) \<Rightarrow> (Inr v, s1)
           | (Inr None, s1) \<Rightarrow> poll_until dk deadline d probe late n (sd_sleep dk d s1))"

text \<open>A line of digits that \<open>int()\<close> does not take (a superscript) raises.\<close>

definition port_probe :: "'b desk \<Rightarrow> ('b sidecar, nat option) comp" where
  "port_probe dk s =
     (case dk_port_file dk (sd_desk s) of
        None \<Rightarrow> (Inr None, s)
      | Some t \<Rightarrow>
          (case splitlines t of
             [] \<Rightarrow> (Inr None, s)
           | h # _ \<Rightarrow>
               if \<not> py_isdigit (py_strip h) then (Inr None, s)
               else (case parse_nat (py_strip h) of
                       Some n \<Rightarrow> (Inr (Some n), s)
                     | None \<Rightarrow> (Inl (PyError ''ValueError'' ''invalid literal for int''), s))))"

definition wait_for_devtools_port :: "'b desk \<Rightarrow> nat \<Rightarrow> int \<Rightarrow> ('b sidecar, nat) comp" where
  "wait_for_devtools_port dk fuel deadline =
     poll_until dk deadline 200000 (port_probe dk) (connect_error ''Browser failed to start (no DevTools port)'') fuel"

fun page_target :: "json list \<Rightarrow> string option res" where
  "page_target [] = Inr None"
| "page_target (t # ts) =
     bind_res (jget ''type'' t) (\<lambda>k. bind_res (jget ''webSocketDebuggerUrl'' t) (\<lambda>u.
       if k = JStr ''page'' \<and> jtruthy u then Inr (Some (jstr u)) else page_target ts))"

text \<open>Whatever goes wrong while asking for the pages is taken for a browser not listening yet.\<close>

definition page_probe :: "'b desk \<Rightarrow> nat \<Rightarrow> ('b sidecar, string option) comp" where
  "page_probe dk port s =
     (case on_desk (dk_targets dk port) s of
        (Inl _, s1) \<Rightarrow> (Inr None, s1)
      | (Inr v, s1) \<Rightarrow>
          (case bind_res (jiter v) page_target of Inl _ \<Rightarrow> (Inr None, s1) | Inr found \<Rightarrow> (Inr found, s1)))"

definition page_socket :: "'b desk \<Rightarrow> nat \<Rightarrow> int \<Rightarrow> nat \<Rightarrow> ('b sidecar, string) comp" where
  "page_socket dk fuel deadline port =
     poll_until dk deadline 300000 (page_probe dk port) (connect_error ''Browser exposed no debuggable page'') fuel"

section \<open>The DevTools protocol\<close>

text \<open>The answer to our own call; other frames on the socket are passed over.\<close>

definition cdp_answer :: "string \<Rightarrow> int \<Rightarrow> json \<Rightarrow> json option res" where
  "cdp_answer meth want message =
     (case message of
        JObj d \<Rightarrow>
          (if jlookup d ''id'' \<noteq> JInt want then Inr None
           else case map_of d ''error'' of
                  Some e \<Rightarrow> Inl (connect_error (meth @ '': '' @ jstr e))
                | None \<Rightarrow> Inr (Some (case map_of d ''result'' of None \<Rightarrow> JObj [] | Some r \<Rightarrow> r)))
      | _ \<Rightarrow> Inl (attribute_error ''get''))"

fun cdp_wait :: "'b desk \<Rightarrow> string \<Rightarrow> int \<Rightarrow> int \<Rightarrow> nat \<Rightarrow> ('b sidecar, json) comp" where
  "cdp_wait dk meth want deadline 0 s = (Inl not_returned, s)"
| "cdp_wait dk meth want deadline (Suc n) s =
     (if \<not> sd_now dk s < deadline then (Inl (connect_error (meth @ '' timed out'')), s)
      else case on_desk (dk_recv dk (max 100000 (deadline - sd_now dk s))) s of
             (Inl e, s1) \<Rightarrow> (Inl e, s1)
           | (Inr message, s1) \<Rightarrow>
               (case cdp_answer meth want message of
                  Inl e \<Rightarrow> (Inl e, s1)
                | Inr (Some r) \<Rightarrow> (Inr r, s1)
                | Inr None \<Rightarrow> cdp_wait dk meth want deadline n s1))"

definition cdp_call :: "'b desk \<Rightarrow> nat \<Rightarrow> string \<Rightarrow> ('b sidecar, json) comp" where
  "cdp_call dk fuel meth s =
     (let s1 = s\<lparr>sd_calls := sd_calls s + 1\<rparr>; want = sd_calls s1 in
      bind_comp (on_desk (dk_send dk (JObj [(''id'', JInt want), (''method'', JStr meth), (''params'', JObj [])])))
        (\<lambda>_ s2. cdp_wait dk meth want (sd_now dk s2 + 10000000) fuel s2) s1)"

section \<open>The cookies\<close>

text \<open>\<open>_wanted\<close>: exact, or by prefix when the pattern ends in a star.\<close>

definition matches :: "string \<Rightarrow> string \<Rightarrow> bool" where
  "matches name pattern =
     (if pattern \<noteq> [] \<and> last pattern = CHR ''*'' then py_startswith name (butlast pattern) else name = pattern)"

definition wanted :: "string \<Rightarrow> string list \<Rightarrow> bool" where
  "wanted name patterns \<longleftrightarrow> (\<exists>p\<in>set patterns. matches name p)"

definition all_cookies :: "'b desk \<Rightarrow> nat \<Rightarrow> ('b sidecar, json list) comp" where
  "all_cookies dk fuel = bind_comp (cdp_call dk fuel ''Network.getAllCookies'')
     (\<lambda>r. pure_res (bind_res (jget_or ''cookies'' (JArr []) r) jiter))"

text \<open>The first cookie of this name that has a value.\<close>

fun named_cookie :: "string \<Rightarrow> json list \<Rightarrow> json option res" where
  "named_cookie name [] = Inr None"
| "named_cookie name (c # cs) =
     bind_res (jget ''name'' c) (\<lambda>n.
       if n \<noteq> JStr name then named_cookie name cs
       else bind_res (jget ''value'' c) (\<lambda>v. if jtruthy v then Inr (Some c) else named_cookie name cs))"

definition name_wanted :: "json \<Rightarrow> string list \<Rightarrow> bool res" where
  "name_wanted n patterns =
     (case n of
        JVal (PStr s) \<Rightarrow> Inr (wanted s patterns)
      | _ \<Rightarrow> if \<exists>p\<in>set patterns. p \<noteq> [] \<and> last p = CHR ''*'' then Inl (attribute_error ''startswith'') else Inr False)"

text \<open>What is handed over of a cookie, None for one that was not asked for.\<close>

definition handed_cookie :: "string list \<Rightarrow> json \<Rightarrow> json option res" where
  "handed_cookie patterns c =
     bind_res (jindex ''name'' c) (\<lambda>n. bind_res (name_wanted n patterns) (\<lambda>ok.
       if \<not> ok then Inr None
       else bind_res (jget ''value'' c) (\<lambda>v.
         if \<not> jtruthy v then Inr None
         else bind_res (jget_or ''domain'' (JStr '''') c) (\<lambda>d.
           Inr (Some (JObj [(''name'', n), (''value'', v), (''domain'', d)]))))))"

fun handed_cookies :: "string list \<Rightarrow> json list \<Rightarrow> json list res" where
  "handed_cookies patterns [] = Inr []"
| "handed_cookies patterns (c # cs) =
     bind_res (handed_cookie patterns c) (\<lambda>h. bind_res (handed_cookies patterns cs) (\<lambda>hs.
       Inr (case h of None \<Rightarrow> hs | Some x \<Rightarrow> x # hs)))"

definition cookie_payload :: "json list \<Rightarrow> json" where
  "cookie_payload cs = JObj [(''cookies'', JArr cs)]"

section \<open>Watching the login\<close>

datatype sign_in = Window_closed | Too_late | Signed "json list"

fun login_polls :: "'b desk \<Rightarrow> nat \<Rightarrow> string \<Rightarrow> int \<Rightarrow> nat \<Rightarrow> ('b sidecar, sign_in) comp" where
  "login_polls dk fuel name deadline 0 s = (Inl not_returned, s)"
| "login_polls dk fuel name deadline (Suc n) s =
     (if \<not> sd_now dk s < deadline then (Inr Too_late, s)
      else if dk_closed dk (sd_desk s) then (Inr Window_closed, s)
      else case all_cookies dk fuel s of
             (Inl e, s1) \<Rightarrow> (Inl e, s1)
           | (Inr jar, s1) \<Rightarrow>
               (case named_cookie name jar of
                  Inl e \<Rightarrow> (Inl e, s1)
                | Inr (Some c) \<Rightarrow> (Inr (Signed jar), s1)
                | Inr None \<Rightarrow> login_polls dk fuel name deadline n (sd_sleep dk POLL_INTERVAL s1)))"

text \<open>The jar after the login has settled, unless the cookie is gone from it.\<close>

definition settled_jar :: "string \<Rightarrow> json list \<Rightarrow> json list \<Rightarrow> json list res" where
  "settled_jar name jar settled = bind_res (named_cookie name settled) (\<lambda>c. Inr (if c = None then jar else settled))"

definition hand_over :: "'b desk \<Rightarrow> nat list \<Rightarrow> string list \<Rightarrow> json list \<Rightarrow> ('b sidecar, string option) comp" where
  "hand_over dk key patterns jar s =
     (bind_res (handed_cookies patterns jar) (\<lambda>cs.
        Inr (Some (seal (dk_box dk) (dk_nonce dk (sd_desk s)) key (cookie_payload cs)))), s)"

definition settle_and_seal :: "'b desk \<Rightarrow> nat \<Rightarrow> nat list \<Rightarrow> string \<Rightarrow> string list \<Rightarrow> json list \<Rightarrow> ('b sidecar, string option) comp" where
  "settle_and_seal dk fuel key name also_wanted jar s =
     bind_comp (all_cookies dk fuel) (\<lambda>settled.
     bind_comp (pure_res (settled_jar name jar settled)) (\<lambda>jar1. hand_over dk key (name # also_wanted) jar1)) (sd_sleep dk SETTLE s)"

definition watch_login :: "'b desk \<Rightarrow> nat \<Rightarrow> nat list \<Rightarrow> string \<Rightarrow> string list \<Rightarrow> ('b sidecar, string option) comp" where
  "watch_login dk fuel key name also_wanted s =
     bind_comp (login_polls dk fuel name (sd_now dk s + LOGIN_TIMEOUT) fuel) (\<lambda>outcome.
       case outcome of
         Signed jar \<Rightarrow> settle_and_seal dk fuel key name also_wanted jar
       | _ \<Rightarrow> pure_res (Inr None)) s"

definition attach_browser :: "'b desk \<Rightarrow> nat \<Rightarrow> ('b sidecar, json) comp" where
  "attach_browser dk fuel s =
     (let deadline = sd_now dk s + LAUNCH_TIMEOUT in
      bind_comp (wait_for_devtools_port dk fuel deadline) (\<lambda>port.
      bind_comp (page_socket dk fuel deadline port) (\<lambda>sock.
      bind_comp (on_desk (dk_attach dk sock)) (\<lambda>_ s1.
        cdp_call dk fuel ''Network.enable'' (s1\<lparr>sd_calls := 0\<rparr>)))) s)"

text \<open>Once the browser runs, it is closed and its profile deleted on every way out.\<close>

definition capture_session ::
    "'b desk \<Rightarrow> nat \<Rightarrow> string \<Rightarrow> nat list \<Rightarrow> string \<Rightarrow> string list \<Rightarrow> ('b sidecar, string option) comp" where
  "capture_session dk fuel login_url key name also_wanted s =
     (case find_browser dk of
        Inl e \<Rightarrow> (Inl e, s)
      | Inr browser \<Rightarrow>
          (case on_desk (dk_launch dk browser login_url) s of
             (Inl e, s1) \<Rightarrow> (Inl e, s1)
           | (Inr _, s1) \<Rightarrow>
               (case bind_comp (attach_browser dk fuel) (\<lambda>_. watch_login dk fuel key name also_wanted) s1 of
                  (r, s2) \<Rightarrow> (r, s2\<lparr>sd_desk := dk_finish dk (sd_desk s2)\<rparr>))))"

section \<open>One launch\<close>

text \<open>\<open>http.post\<close> to the hub named in the link.\<close>

type_synonym 'b hub_link = "string \<Rightarrow> string \<Rightarrow> json \<Rightarrow> ('b, response) comp"

fun as_text :: "json \<Rightarrow> string res" where
  "as_text (JVal (PStr s)) = Inr s"
| "as_text _ = Inl (type_error ''expected text'')"

text \<open>\<open>tuple(v or ())\<close>, of names.\<close>

definition text_list :: "json \<Rightarrow> string list res" where
  "text_list v = (if jtruthy v then bind_res (jiter v) (map_res as_text) else Inr [])"

record claim =
  cl_login_url :: string
  cl_key :: "nat list"
  cl_cookie :: string
  cl_extra :: "string list"

definition read_claim :: "response \<Rightarrow> claim res" where
  "read_claim r =
     bind_res (response_json r) (\<lambda>d.
     bind_res (bind_res (jindex ''key'' d) as_text) (\<lambda>k.
     bind_res (b64url_decode k) (\<lambda>key.
     bind_res (bind_res (jindex ''login_url'' d) as_text) (\<lambda>url.
     bind_res (bind_res (jindex ''cookie_name'' d) as_text) (\<lambda>name.
     bind_res (bind_res (jget ''extra_cookies'' d) text_list) (\<lambda>extra.
       Inr \<lparr>cl_login_url = url, cl_key = key, cl_cookie = name, cl_extra = extra\<rparr>))))))"

definition launch_body :: "string \<Rightarrow> json" where
  "launch_body launch_id = JObj [(''launch_id'', JStr launch_id)]"

definition callback_body :: "string \<Rightarrow> string \<Rightarrow> json" where
  "callback_body launch_id sealed = JObj [(''launch_id'', JStr launch_id), (''payload'', JStr sealed)]"

text \<open>The exit codes: 0 connected, 1 cancelled, 3 the link is spent, 4 the session was refused.\<close>

definition serve_claim :: "'b desk \<Rightarrow> 'b hub_link \<Rightarrow> nat \<Rightarrow> string \<Rightarrow> string \<Rightarrow> claim \<Rightarrow> ('b sidecar, int) comp" where
  "serve_claim dk post fuel launch_id server_url c =
     bind_comp (capture_session dk fuel (cl_login_url c) (cl_key c) (cl_cookie c) (cl_extra c)) (\<lambda>sealed.
       case sealed of
         None \<Rightarrow> bind_comp (on_desk (post server_url ''/connect/cancel'' (launch_body launch_id))) (\<lambda>_. pure_res (Inr 1))
       | Some t \<Rightarrow> bind_comp (on_desk (post server_url ''/connect/callback'' (callback_body launch_id t)))
           (\<lambda>r. pure_res (Inr (if rs_status r = 200 then 0 else 4))))"

definition serve_launch :: "'b desk \<Rightarrow> 'b hub_link \<Rightarrow> nat \<Rightarrow> string \<Rightarrow> string \<Rightarrow> ('b sidecar, int) comp" where
  "serve_launch dk post fuel launch_id server_url =
     bind_comp (on_desk (post server_url ''/connect/claim'' (launch_body launch_id))) (\<lambda>r.
       if rs_status r \<noteq> 200 then pure_res (Inr 3)
       else bind_comp (pure_res (read_claim r)) (serve_claim dk post fuel launch_id server_url))"

text \<open>2 a bad link, 5 the browser, 6 the hub could not be reached; any other exception escapes.\<close>

definition exit_code :: "exn + int \<Rightarrow> exn + int" where
  "exit_code r =
     (case r of
        Inr n \<Rightarrow> Inr n
      | Inl e \<Rightarrow> if exn_class e = ''ConnectError'' then Inr 5 else if is_http_error e then Inr 6 else Inl e)"

definition run_from_uri ::
    "(nat list \<Rightarrow> string) \<Rightarrow> (string \<Rightarrow> bool) \<Rightarrow> 'b desk \<Rightarrow> 'b hub_link \<Rightarrow> nat \<Rightarrow> string \<Rightarrow> ('b sidecar, int) comp" where
  "run_from_uri dec brackets dk post fuel uri s =
     (case parse_launch_uri dec brackets uri of
        Inl _ \<Rightarrow> (Inr 2, s)
      | Inr (launch_id, server_url) \<Rightarrow>
          (case serve_launch dk post fuel launch_id server_url s of (r, s1) \<Rightarrow> (exit_code r, s1)))"

end
