(* ===== verification/Sidecar_Laws.thy ===== *)
theory Sidecar_Laws
  imports Connect_Sidecar Connect_Laws
begin

text \<open>
  What the side-car hands over, and the two sides together: the hub that minted a launch answers the
  requests of the side-car that was started with its link.
\<close>

section \<open>What is handed over\<close>

definition handed_from :: "string list \<Rightarrow> json list \<Rightarrow> json \<Rightarrow> bool" where
  "handed_from patterns jar h \<longleftrightarrow> (\<exists>c\<in>set jar. \<exists>n v d. jindex ''name'' c = Inr (JStr n) \<and> jget ''value'' c = Inr v \<and>
     wanted n patterns \<and> jtruthy v \<and> h = JObj [(''name'', JStr n), (''value'', v), (''domain'', d)])"

lemma name_wanted_True: "name_wanted n patterns = Inr True \<Longrightarrow> \<exists>t. n = JStr t \<and> wanted t patterns"
  by (cases n rule: as_text.cases) (auto simp: name_wanted_def split: if_splits)

lemma handed_cookie_Some:
  assumes "handed_cookie patterns c = Inr (Some h)"
  shows "\<exists>n v d. jindex ''name'' c = Inr (JStr n) \<and> jget ''value'' c = Inr v \<and> wanted n patterns \<and> jtruthy v \<and>
     h = JObj [(''name'', JStr n), (''value'', v), (''domain'', d)]"
proof -
  obtain n ok where n: "jindex ''name'' c = Inr n" "name_wanted n patterns = Inr ok" and ok: "ok"
    using assms by (auto simp: handed_cookie_def bind_res_Inr_iff split: if_splits)
  then obtain t where t: "n = JStr t" "wanted t patterns" using name_wanted_True [of n patterns] by auto
  from assms n ok obtain v d where "jget ''value'' c = Inr v" "jtruthy v" "h = JObj [(''name'', n), (''value'', v), (''domain'', d)]"
    by (auto simp: handed_cookie_def bind_res_Inr_iff split: if_splits)
  then show ?thesis using n t by blast
qed

lemma handed_cookies_from: "handed_cookies patterns jar = Inr hs \<Longrightarrow> h \<in> set hs \<Longrightarrow> handed_from patterns jar h"
proof (induction jar arbitrary: hs)
  case (Cons c jar)
  then obtain r rs where r: "handed_cookie patterns c = Inr r" "handed_cookies patterns jar = Inr rs"
    "hs = (case r of None \<Rightarrow> rs | Some x \<Rightarrow> x # rs)" by (auto simp: bind_res_Inr_iff)
  show ?case
  proof (cases "h \<in> set rs")
    case True
    then show ?thesis using Cons.IH [OF r(2)] by (auto simp: handed_from_def)
  next
    case False
    then have "r = Some h" using Cons.prems(2) r(3) by (auto split: option.splits)
    then show ?thesis using handed_cookie_Some [of patterns c h] r(1) by (auto simp: handed_from_def)
  qed
qed simp

lemma named_cookie_Some:
  "named_cookie name jar = Inr (Some c) \<Longrightarrow> c \<in> set jar \<and> jget ''name'' c = Inr (JStr name) \<and> (\<exists>v. jget ''value'' c = Inr v \<and> jtruthy v)"
  by (induction jar) (auto simp: bind_res_Inr_iff split: if_splits)

lemma wanted_own: "wanted name (name # also_wanted)"
proof -
  have "take (length name - 1) name = butlast name" by (simp add: butlast_conv_take)
  then have "matches name name" by (simp add: matches_def py_startswith_def)
  then show ?thesis by (simp add: wanted_def)
qed

text \<open>The cookie that was waited for is among what is handed over.\<close>

lemma handed_own:
  "handed_cookies patterns jar = Inr hs \<Longrightarrow> c \<in> set jar \<Longrightarrow> jget ''name'' c = Inr (JStr n) \<Longrightarrow> jget ''value'' c = Inr v \<Longrightarrow>
    jtruthy v \<Longrightarrow> wanted n patterns \<Longrightarrow> \<exists>d. JObj [(''name'', JStr n), (''value'', v), (''domain'', d)] \<in> set hs"
proof (induction jar arbitrary: hs)
  case (Cons x jar)
  from Cons.prems(1) obtain r rs where r: "handed_cookie patterns x = Inr r" "handed_cookies patterns jar = Inr rs"
    "hs = (case r of None \<Rightarrow> rs | Some y \<Rightarrow> y # rs)" by (auto simp: bind_res_Inr_iff)
  show ?case
  proof (cases "c = x")
    case True
    then obtain d where "x = JObj d" using Cons.prems(3) by (cases x) auto
    then obtain dom where "r = Some (JObj [(''name'', JStr n), (''value'', v), (''domain'', dom)])"
      using r(1) Cons.prems(3-6) True
      by (auto simp: handed_cookie_def name_wanted_def jlookup_def bind_res_Inr_iff split: option.splits)
    then show ?thesis using r(3) by auto
  next
    case False
    then show ?thesis using Cons r by (auto split: option.splits)
  qed
qed simp

text \<open>A capture that returns something returns the sealed cookies of one reading of the jar.\<close>

lemma settle_and_seal_Some:
  assumes "settle_and_seal dk fuel key name also_wanted jar0 s = (Inr (Some t), s')" and "named_cookie name jar0 = Inr (Some c0)"
  obtains jar hs nonce s1 where "handed_cookies (name # also_wanted) jar = Inr hs" "named_cookie name jar \<noteq> Inr None"
    "\<exists>c. named_cookie name jar = Inr (Some c)" "nonce = dk_nonce dk (sd_desk s1)" "t = seal (dk_box dk) nonce key (cookie_payload hs)"
    "s' = s1"
proof -
  obtain settled s1 where a: "all_cookies dk fuel (sd_sleep dk SETTLE s) = (Inr settled, s1)"
    using assms(1) by (auto simp: settle_and_seal_def bind_comp_def split: prod.splits sum.splits)
  then obtain jar where jar: "settled_jar name jar0 settled = Inr jar" and h: "hand_over dk key (name # also_wanted) jar s1 = (Inr (Some t), s')"
    using assms(1) by (auto simp: settle_and_seal_def bind_comp_def pure_res_def split: prod.splits sum.splits)
  obtain hs where hs: "handed_cookies (name # also_wanted) jar = Inr hs"
    using h by (cases "handed_cookies (name # also_wanted) jar") (simp_all add: hand_over_def)
  then have t: "t = seal (dk_box dk) (dk_nonce dk (sd_desk s1)) key (cookie_payload hs)" "s' = s1"
    using h by (auto simp: hand_over_def)
  have "\<exists>c. named_cookie name jar = Inr (Some c)"
    using jar assms(2) by (auto simp: settled_jar_def bind_res_Inr_iff split: if_splits)
  then show thesis using that [OF hs _ _ refl t(1) t(2)] by fastforce
qed

lemma login_polls_signed:
  "login_polls dk fuel name deadline n s = (Inr (Signed jar), s') \<Longrightarrow> \<exists>c. named_cookie name jar = Inr (Some c)"
  by (induction n arbitrary: s) (auto split: if_splits prod.splits sum.splits option.splits)

lemma capture_Some:
  assumes "capture_session dk fuel url key name also_wanted s = (Inr (Some t), s')"
  obtains jar hs b where "handed_cookies (name # also_wanted) jar = Inr hs" "\<exists>c. named_cookie name jar = Inr (Some c)"
    "t = seal (dk_box dk) (dk_nonce dk b) key (cookie_payload hs)" "sd_desk s' = dk_finish dk b"
proof -
  obtain s1 s2 where w: "watch_login dk fuel key name also_wanted s1 = (Inr (Some t), s2)" and s': "s' = s2\<lparr>sd_desk := dk_finish dk (sd_desk s2)\<rparr>"
    using assms by (auto simp: capture_session_def bind_comp_def split: prod.splits sum.splits)
  obtain jar0 s3 where p: "login_polls dk fuel name (sd_now dk s1 + LOGIN_TIMEOUT) fuel s1 = (Inr (Signed jar0), s3)"
    and q: "settle_and_seal dk fuel key name also_wanted jar0 s3 = (Inr (Some t), s2)"
    using w by (auto simp: watch_login_def bind_comp_def pure_res_def split: prod.splits sum.splits sign_in.splits)
  obtain c0 where "named_cookie name jar0 = Inr (Some c0)" using login_polls_signed [OF p] by blast
  from settle_and_seal_Some [OF q this] obtain jar hs nonce s4 where r: "handed_cookies (name # also_wanted) jar = Inr hs"
    "\<exists>c. named_cookie name jar = Inr (Some c)" "nonce = dk_nonce dk (sd_desk s4)" "t = seal (dk_box dk) nonce key (cookie_payload hs)" "s2 = s4"
    by metis
  show thesis by (rule that [OF r(1,2)]) (use r s' in simp_all)
qed

text \<open>A browser that has been started is closed, whatever happened.\<close>

lemma capture_finishes:
  assumes "find_browser dk = Inr browser" and "on_desk (dk_launch dk browser url) s = (Inr u, s1)"
  shows "\<exists>b. sd_desk (snd (capture_session dk fuel url key name also_wanted s)) = dk_finish dk b"
  using assms by (auto simp: capture_session_def split: prod.split)


section \<open>The hub behind the link\<close>

text \<open>
  The hub as the side-car reaches it: the three requests of \<open>routes/connect.py\<close>, their JSON and their
  status codes, on a state that pairs the hub's with the desktop's. \<open>now\<close> reads the hub's clock.
\<close>

definition json_response :: "nat \<Rightarrow> json \<Rightarrow> response" where
  "json_response n v = \<lparr>rs_status = n, rs_headers = [], rs_text = '''', rs_json = Some v\<rparr>"

definition answer_response :: "(exn + answer) \<Rightarrow> response" where
  "answer_response r =
     (case r of
        Inl _ \<Rightarrow> json_response 500 JNull
      | Inr (Handed key url name extra) \<Rightarrow> json_response 200 (JObj
          [(''ok'', JVal (PBool True)), (''key'', JStr (b64url_encode key)), (''login_url'', JStr url),
           (''cookie_name'', JStr name), (''extra_cookies'', JArr (List.map JStr extra))])
      | Inr (Rejected n m) \<Rightarrow> json_response n (JObj [(''ok'', JVal (PBool False)), (''message'', JStr m)])
      | Inr _ \<Rightarrow> json_response 200 (JObj [(''ok'', JVal (PBool True))]))"

definition body_text :: "string \<Rightarrow> json \<Rightarrow> string" where
  "body_text k body = (case jget_or k (JStr '''') body of Inl _ \<Rightarrow> '''' | Inr v \<Rightarrow> jstr v)"

definition hub_link_of :: "connect_env \<Rightarrow> ('d \<Rightarrow> int) \<Rightarrow> string \<Rightarrow> (connect \<times> 'd) hub_link" where
  "hub_link_of cenv now captured server path body cd =
     (let (c, d) = cd; i = body_text ''launch_id'' body;
          (r, c1) = (if path = ''/connect/claim'' then connect_claim cenv (now d) i c
                     else if path = ''/connect/callback'' then connect_callback cenv (now d) captured i (body_text ''payload'' body) c
                     else connect_cancel (now d) i c)
      in (Inr (answer_response r), (c1, d)))"

text \<open>What the hub handed out is what the side-car reads.\<close>

lemma map_res_texts [simp]: "map_res as_text (List.map JStr xs) = Inr xs"
  by (induction xs) simp_all

lemma read_handed:
  "bytes key \<Longrightarrow> read_claim (answer_response (Inr (Handed key url name extra)))
    = Inr \<lparr>cl_login_url = url, cl_key = key, cl_cookie = name, cl_extra = extra\<rparr>"
  by (cases extra) (simp_all add: read_claim_def answer_response_def json_response_def response_json_def b64url_round_trip
    jlookup_def text_list_def)

text \<open>The jar the hub reads from the payload has every cookie handed over, with a value.\<close>

definition handed_shape :: "json \<Rightarrow> bool" where
  "handed_shape h \<longleftrightarrow> (\<exists>n v d. jtruthy v \<and> h = JObj [(''name'', JStr n), (''value'', v), (''domain'', d)])"

lemma fold_update_truthy:
  "(\<forall>kv\<in>set kvs. jtruthy (snd kv)) \<Longrightarrow> k \<in> fst ` set kvs \<or> (\<exists>v. map_of d k = Some v \<and> jtruthy v) \<Longrightarrow>
    \<exists>v. map_of (fold (\<lambda>(k, v). AList.update k v) kvs d) k = Some v \<and> jtruthy v"
proof (induction kvs arbitrary: d)
  case (Cons kv kvs)
  obtain k' v' where kv: "kv = (k', v')" by fastforce
  show ?case
    unfolding kv fold.simps comp_apply prod.case
    by (rule Cons.IH) (use Cons.prems kv in auto)
qed auto

lemma cookie_jar_handed:
  assumes "\<forall>h\<in>set hs. handed_shape h" and "JObj [(''name'', JStr n), (''value'', v), (''domain'', d)] \<in> set hs"
  shows "\<exists>jar. cookie_jar (cookie_payload hs) = Inr jar \<and> jtruthy (jlookup jar n)"
proof -
  let ?f = "\<lambda>c. bind_res (jindex ''name'' c) (\<lambda>n. bind_res (jindex ''value'' c) (\<lambda>v. Inr (jstr n, v)))"
  have "\<exists>kvs. map_res ?f hs = Inr kvs \<and> (\<forall>kv\<in>set kvs. jtruthy (snd kv)) \<and>
      (\<forall>n v d. JObj [(''name'', JStr n), (''value'', v), (''domain'', d)] \<in> set hs \<longrightarrow> n \<in> fst ` set kvs)"
    using assms(1)
  proof (induction hs)
    case (Cons h hs)
    then obtain kvs where kvs: "map_res ?f hs = Inr kvs" "\<forall>kv\<in>set kvs. jtruthy (snd kv)"
      "\<forall>n v d. JObj [(''name'', JStr n), (''value'', v), (''domain'', d)] \<in> set hs \<longrightarrow> n \<in> fst ` set kvs" by auto
    obtain n v d where h: "jtruthy v" "h = JObj [(''name'', JStr n), (''value'', v), (''domain'', d)]"
      using Cons.prems by (auto simp: handed_shape_def)
    then show ?case using kvs by (intro exI [of _ "(n, v) # kvs"]) auto
  qed simp
  then obtain kvs where kvs: "map_res ?f hs = Inr kvs" "\<forall>kv\<in>set kvs. jtruthy (snd kv)" "n \<in> fst ` set kvs"
    using assms(2) by blast
  then obtain w where "map_of (fold (\<lambda>(k, v). AList.update k v) kvs []) n = Some w" "jtruthy w"
    using fold_update_truthy [of kvs n "[]"] by blast
  then show ?thesis using kvs(1) by (simp add: cookie_jar_def cookie_payload_def jlookup_def)
qed

lemma handed_from_shape: "handed_from patterns jar h \<Longrightarrow> handed_shape h"
  unfolding handed_from_def handed_shape_def by blast

text \<open>What a capture seals, the hub unseals, and finds the session cookie in.\<close>

lemma captured_opens:
  assumes "capture_session dk fuel url key name also_wanted s = (Inr (Some t), s')" and "honest_box (dk_box dk) key"
    and "\<And>b. length (dk_nonce dk b) = 12 \<and> bytes (dk_nonce dk b)"
  obtains payload jar where "unseal (dk_box dk) key t = Inr payload" "cookie_jar payload = Inr jar" "jtruthy (jlookup jar name)"
proof -
  from capture_Some [OF assms(1)] obtain jar hs b where c: "handed_cookies (name # also_wanted) jar = Inr hs"
    "\<exists>c. named_cookie name jar = Inr (Some c)" "t = seal (dk_box dk) (dk_nonce dk b) key (cookie_payload hs)" by metis
  then obtain k v where k: "k \<in> set jar" "jget ''name'' k = Inr (JStr name)" "jget ''value'' k = Inr v" "jtruthy v"
    using named_cookie_Some by blast
  from handed_own [OF c(1) k(1,2,3,4) wanted_own] obtain d
    where "JObj [(''name'', JStr name), (''value'', v), (''domain'', d)] \<in> set hs" by blast
  moreover have "\<forall>h\<in>set hs. handed_shape h" using handed_cookies_from [OF c(1)] handed_from_shape by blast
  ultimately obtain m where "cookie_jar (cookie_payload hs) = Inr m" "jtruthy (jlookup m name)" using cookie_jar_handed by blast
  moreover have "unseal (dk_box dk) key t = Inr (cookie_payload hs)"
    using unseal_seal [OF assms(2)] assms(3) c(3) by blast
  ultimately show thesis using that by blast
qed

end
