(* ===== verification/Sidecar_Properties.thy ===== *)
theory Sidecar_Properties
  imports Sidecar_Laws Hub_Properties
begin

text \<open>
  The properties of AG Connect's two sides: what the wire carries is read back, only the cookies that
  were asked for leave the operator's machine, and a sign-in that is seen through ends as a stored
  session. The examples run a small desktop against the hub of the other examples.
\<close>

section \<open>A small desktop\<close>

text \<open>A clock and the number of the last call; the session cookie is in the jar from the third second on.\<close>

definition demo_cookie :: "string \<Rightarrow> string \<Rightarrow> json" where
  "demo_cookie n v = JObj [(''name'', JStr n), (''value'', JStr v), (''domain'', JStr ''u.example'')]"

definition demo_jar :: "int \<Rightarrow> json list" where
  "demo_jar t = demo_cookie ''tracker'' ''x'' # (if 3000000 \<le> t then [demo_cookie ''Ultra'' ''abc''] else [])"

definition demo_box :: box where
  "demo_box = \<lparr>bx_encrypt = (\<lambda>_ _ p. p), bx_decrypt = (\<lambda>_ _ p. Inr p),
     bx_dumps = (\<lambda>v. List.map of_char (enc_json v)),
     bx_loads = (\<lambda>p. case dec_json (length p) (List.map char_of p) of Some (v, _) \<Rightarrow> Inr v | None \<Rightarrow> Inl bad_base64)\<rparr>"

type_synonym demo_desktop = "connect \<times> (int \<times> json)"

definition demo_desk :: "demo_desktop desk" where
  "demo_desk = \<lparr>dk_now = (\<lambda>(c, t, i). t), dk_sleep = (\<lambda>d (c, t, i). (c, t + d, i)), dk_exists = (\<lambda>_. False),
     dk_which = (\<lambda>n. if n = ''chromium'' then Some ''/usr/bin/chromium'' else None), dk_launch = (\<lambda>_ _ s. (Inr (), s)),
     dk_closed = (\<lambda>_. False), dk_port_file = (\<lambda>_. Some ''9222''),
     dk_targets = (\<lambda>_ s. (Inr (JArr [JObj [(''type'', JStr ''page''), (''webSocketDebuggerUrl'', JStr ''ws'')]]), s)),
     dk_attach = (\<lambda>_ s. (Inr (), s)), dk_send = (\<lambda>m (c, t, i). (Inr (), c, t, case jget ''id'' m of Inr v \<Rightarrow> v | Inl _ \<Rightarrow> JNull)),
     dk_recv = (\<lambda>_ (c, t, i). (Inr (JObj [(''id'', i), (''result'', JObj [(''cookies'', JArr (demo_jar t))])]), c, t, i)),
     dk_finish = (\<lambda>s. s), dk_nonce = (\<lambda>_. replicate 12 7), dk_box = demo_box\<rparr>"

lemma demo_box_honest: "honest_box demo_box key"
proof -
  have "bytes (List.map of_char t)" for t :: string by (auto simp: bytes_def)
  moreover have "List.map (char_of \<circ> (of_char :: char \<Rightarrow> nat)) t = t" for t by (simp add: map_idI)
  ultimately show ?thesis using dec_enc(1) [OF order_refl, where r = "[]"] by (simp add: honest_box_def demo_box_def)
qed

definition ascii_reader :: "nat list \<Rightarrow> string" where
  "ascii_reader = List.map char_of"

lemma ascii_reader_reads: "reads_ascii ascii_reader"
  by (simp add: reads_ascii_def ascii_reader_def map_idI)

section \<open>The wire\<close>

text \<open>
  C38. What the wire carries is read back. Base64 as the hub and the side-car write it is decoded to
  the same bytes; a launch link, whatever ASCII is in its id and its address, is parsed back to
  both; and a payload sealed under the launch's key is unsealed to itself, given a cipher that undoes
  itself under that key and a JSON library that does.
\<close>

theorem wire_round_trip:
  assumes "honest_box bx key" and "length nonce = 12" and "bytes nonce" and "bytes raw"
    and "reads_ascii dec" and "list_all is_ascii launch_id" and "list_all is_ascii server_url"
    and "launch_id \<noteq> ''''" and "server_url \<noteq> ''''"
  shows "b64url_decode (b64url_encode raw) = Inr raw \<and>
    parse_launch_uri dec brackets (build_launch_uri launch_id server_url) = Inr (launch_id, server_url) \<and>
    unseal bx key (seal bx nonce key payload) = Inr payload"
  using b64url_round_trip [OF assms(4)] launch_uri_round_trip [OF assms(5-9)] unseal_seal [OF assms(1-3)] by blast

theorem wire_round_trip_witness:
  "b64url_decode (b64url_encode [251, 255, 1, 2]) = Inr [251, 255, 1, 2] \<and>
   parse_launch_uri ascii_reader (\<lambda>_. False) (build_launch_uri ''L-1'' ''https://127.0.0.1:5355'') = Inr (''L-1'', ''https://127.0.0.1:5355'') \<and>
   unseal demo_box [1] (seal demo_box (replicate 12 7) [1] (JStr ''x'')) = Inr (JStr ''x'')"
proof -
  have n: "length (replicate 12 (7::nat)) = 12" "bytes (replicate 12 7)" by (simp_all add: bytes_def)
  have raw: "bytes [251, 255, 1, 2]" by simp
  have plain: "list_all is_ascii ''L-1''" "list_all is_ascii ''https://127.0.0.1:5355''" by (simp_all add: is_ascii_def)
  show ?thesis by (rule wire_round_trip [OF demo_box_honest n raw ascii_reader_reads plain]) simp_all
qed

section \<open>What leaves the machine\<close>

text \<open>
  C39. Only the cookies that were asked for leave the operator's machine. Whatever the browser's jar
  holds, what the side-car seals is a list of cookies of one reading of that jar, each with a value
  and a name the vendor asked for, exactly or by a prefix marked with a star; the session cookie it
  waited for is one of them.
\<close>

theorem only_wanted_cookies_leave:
  assumes "capture_session dk fuel url key name also_wanted s = (Inr (Some t), s')"
  shows "\<exists>jar hs nonce. t = seal (dk_box dk) nonce key (cookie_payload hs) \<and>
    (\<forall>h\<in>set hs. handed_from (name # also_wanted) jar h) \<and>
    (\<exists>v d. jtruthy v \<and> JObj [(''name'', JStr name), (''value'', v), (''domain'', d)] \<in> set hs)"
proof -
  from capture_Some [OF assms] obtain jar hs b where c: "handed_cookies (name # also_wanted) jar = Inr hs"
    "\<exists>c. named_cookie name jar = Inr (Some c)" "t = seal (dk_box dk) (dk_nonce dk b) key (cookie_payload hs)" by metis
  then obtain k v where k: "k \<in> set jar" "jget ''name'' k = Inr (JStr name)" "jget ''value'' k = Inr v" "jtruthy v"
    using named_cookie_Some by blast
  then show ?thesis using c handed_cookies_from [OF c(1)] handed_own [OF c(1) k wanted_own] by blast
qed

theorem only_wanted_cookies_leave_witness:
  "\<exists>hs nonce jar. fst (capture_session demo_desk 20 ''https://u.example/Account'' [1] ''Ultra'' [''timeoffset'']
      \<lparr>sd_desk = (demo_connect, 0, JNull), sd_calls = 0\<rparr>) = Inr (Some (seal demo_box nonce [1] (cookie_payload hs))) \<and>
    (\<forall>h\<in>set hs. handed_from [''Ultra'', ''timeoffset''] jar h)"
proof -
  let ?s = "\<lparr>sd_desk = (demo_connect, 0, JNull), sd_calls = 0\<rparr> :: demo_desktop sidecar"
  let ?run = "capture_session demo_desk 20 ''https://u.example/Account'' [1] ''Ultra'' [''timeoffset''] ?s"
  have "case fst ?run of Inr (Some _) \<Rightarrow> True | _ \<Rightarrow> False" by code_simp
  then obtain t where t: "fst ?run = Inr (Some t)" by (auto split: sum.splits option.splits)
  then have "?run = (Inr (Some t), snd ?run)" by (simp only: prod_eq_iff fst_conv snd_conv)
  moreover have "dk_box demo_desk = demo_box" by (simp add: demo_desk_def)
  ultimately show ?thesis using only_wanted_cookies_leave t by metis
qed


section \<open>A sign-in seen through\<close>

text \<open>
  C40. A sign-in that is seen through ends as a stored session. When the operator opens the link of an
  unspent launch, the browser is driven to a captured cookie within the launch's fifteen minutes, and
  the captured session reads, the side-car exits with 0 and the hub has the session stored, the launch
  connected, its key dropped and the engine told; when the session does not read, the exit code is 4
  and only the launch's state has changed.
\<close>

theorem sign_in_seen_through:
  assumes ascii: "reads_ascii dec" "list_all is_ascii i" "list_all is_ascii server" "i \<noteq> ''''" "server \<noteq> ''''"
    and launch: "sd_desk s = (c, d)" "map_of (cn_launches c) i = Some l" "\<not> ln_claimed l" "\<not> expired_at (now d) l" "bytes (ln_key l)"
    and vendor: "configured_vendor cenv c = Inr vendor" "browser_login vendor = Some spec" "pacs_params cenv c = Inr ps"
    and box: "cx_unseal cenv = unseal (dk_box dk)" "honest_box (dk_box dk) (ln_key l)" "\<And>b. length (dk_nonce dk b) = 12 \<and> bytes (dk_nonce dk b)"
    and claimed: "c1 = c\<lparr>cn_launches := AList.update i (l\<lparr>ln_claimed := True\<rparr>) (cn_launches c)\<rparr>"
    and captured: "capture_session dk fuel (ln_login_url l) (ln_key l) (bs_required spec) (bs_extra spec) (s\<lparr>sd_desk := (c1, d)\<rparr>)
      = (Inr (Some t), s2)" "sd_desk s2 = (c1, d2)" "\<not> expired_at (now d2) l"
    and session: "\<And>jar. cx_session_from cenv vendor ps jar = Inr (mk jar)" "\<And>jar. cx_validate cenv vendor ps (mk jar) = Inr (ok, detail)"
  shows "\<exists>jar s3. run_from_uri dec brackets dk (hub_link_of cenv now stamp) fuel (build_launch_uri i server) s = (Inr (if ok then 0 else 4), s3) \<and>
    jtruthy (jlookup jar (bs_required spec)) \<and>
    (if ok then fst (sd_desk s3) = keep_session cenv vendor stamp i (mk jar) (l\<lparr>ln_claimed := True\<rparr>) c1
     else \<exists>m. fst (sd_desk s3) = fail_launch i (l\<lparr>ln_claimed := True\<rparr>) m c1)"
proof -
  let ?l1 = "l\<lparr>ln_claimed := True\<rparr>"
  have link: "parse_launch_uri dec brackets (build_launch_uri i server) = Inr (i, server)"
    by (rule launch_uri_round_trip [OF ascii])
  have claim: "connect_claim cenv (now d) i c = (Inr (Handed (ln_key l) (ln_login_url l) (bs_required spec) (bs_extra spec)), c1)"
    using launch vendor(1,2) claimed by (simp add: connect_claim_def claim_launch_def)
  have handed: "on_desk (hub_link_of cenv now stamp server ''/connect/claim'' (launch_body i)) s
      = (Inr (answer_response (Inr (Handed (ln_key l) (ln_login_url l) (bs_required spec) (bs_extra spec)))), s\<lparr>sd_desk := (c1, d)\<rparr>)"
    using launch(1) claim by (simp add: on_desk_def hub_link_of_def launch_body_def body_text_def)
  from captured_opens [OF captured(1) box(2,3)] obtain payload jar where opened: "unseal (dk_box dk) (ln_key l) t = Inr payload"
    "cookie_jar payload = Inr jar" "jtruthy (jlookup jar (bs_required spec))" by metis
  have same: "configured_vendor cenv c1 = Inr vendor" "pacs_params cenv c1 = Inr ps"
    using vendor by (simp_all add: configured_vendor_def pacs_params_def claimed)
  have found: "get_launch (now d2) i (cn_launches c1) = (Some ?l1, cn_launches c1)"
    using captured(3) by (simp add: get_launch_def claimed expired_at_def)
  obtain r c2 where called: "connect_callback cenv (now d2) stamp i t c1 = (r, c2)" by fastforce
  have result: "rs_status (answer_response r) = (if ok then 200 else 400)"
    "if ok then c2 = keep_session cenv vendor stamp i (mk jar) ?l1 c1 else \<exists>m. c2 = fail_launch i ?l1 m c1"
    using called found opened same vendor(2) box(1) session
    by (auto simp: connect_callback_def take_payload_def check_session_def Let_def answer_response_def json_response_def)
  have posted: "on_desk (hub_link_of cenv now stamp server ''/connect/callback'' (callback_body i t)) s2
      = (Inr (answer_response r), s2\<lparr>sd_desk := (c2, d2)\<rparr>)"
    using captured(2) called by (simp add: on_desk_def hub_link_of_def callback_body_def body_text_def)
  have "serve_launch dk (hub_link_of cenv now stamp) fuel i server s = (Inr (if ok then 0 else 4), s2\<lparr>sd_desk := (c2, d2)\<rparr>)"
    using handed read_handed [OF launch(5)] captured(1) posted result(1)
    by (simp add: serve_launch_def bind_comp_def serve_claim_def pure_res_def answer_response_def json_response_def)
  then show ?thesis using link opened(3) result(2) by (intro exI [of _ jar]) (simp add: run_from_uri_def exit_code_def)
qed

definition demo_sealed_env :: connect_env where
  "demo_sealed_env = demo_connect_env\<lparr>cx_unseal := unseal demo_box\<rparr>"

definition demo_begun :: connect where
  "demo_begun = snd (connect_begin demo_sealed_env True 0 ''L'' [1] demo_connect)"

definition demo_launch :: launch where
  "demo_launch = \<lparr>ln_key = [1], ln_login_url = ''https://u.example/Account'', ln_created_at = 0, ln_claimed = False,
     ln_state = ''waiting'', ln_message = ''''\<rparr>"

definition demo_spec :: browser_sign_in where
  "demo_spec = the (browser_login ''millennium_ultra'')"

definition demo_claimed :: connect where
  "demo_claimed = demo_begun\<lparr>cn_launches := AList.update ''L'' (demo_launch\<lparr>ln_claimed := True\<rparr>) (cn_launches demo_begun)\<rparr>"

theorem sign_in_seen_through_witness:
  "\<exists>s3. run_from_uri ascii_reader (\<lambda>_. False) demo_desk (hub_link_of demo_sealed_env fst ''now'') 20
     (build_launch_uri ''L'' ''https://127.0.0.1:5355'') \<lparr>sd_desk = (demo_begun, 0, JNull), sd_calls = 0\<rparr> = (Inr 0, s3)"
proof -
  let ?s = "\<lparr>sd_desk = (demo_begun, 0, JNull), sd_calls = 0\<rparr> :: demo_desktop sidecar"
  let ?run = "capture_session demo_desk 20 (ln_login_url demo_launch) (ln_key demo_launch) (bs_required demo_spec) (bs_extra demo_spec)
    (?s\<lparr>sd_desk := (demo_claimed, 0, JNull)\<rparr>)"
  have plain: "list_all is_ascii ''L''" "list_all is_ascii ''https://127.0.0.1:5355''" by (simp_all add: is_ascii_def)
  have here: "sd_desk ?s = (demo_begun, 0, JNull)" by simp
  have launch: "map_of (cn_launches demo_begun) ''L'' = Some demo_launch" by code_simp
  have fresh: "\<not> ln_claimed demo_launch" "\<not> expired_at (fst (0, JNull)) demo_launch" "bytes (ln_key demo_launch)"
    by (simp_all add: demo_launch_def expired_at_def LAUNCH_TTL_def)
  have vendor: "configured_vendor demo_sealed_env demo_begun = Inr ''millennium_ultra''" by code_simp
  have spec: "browser_login ''millennium_ultra'' = Some demo_spec" by code_simp
  have ps: "pacs_params demo_sealed_env demo_begun = Inr [(''base_url'', JStr ''https://u.example'')]" by code_simp
  have box: "cx_unseal demo_sealed_env = unseal (dk_box demo_desk)" "honest_box (dk_box demo_desk) (ln_key demo_launch)"
    "\<And>b. length (dk_nonce demo_desk b) = 12 \<and> bytes (dk_nonce demo_desk b)"
    by (simp_all add: demo_sealed_env_def demo_desk_def demo_box_honest bytes_def)
  have "case fst ?run of Inr (Some _) \<Rightarrow> True | _ \<Rightarrow> False" by code_simp
  then obtain t where "fst ?run = Inr (Some t)" by (auto split: sum.splits option.splits)
  then have run: "?run = (Inr (Some t), snd ?run)" by (simp only: prod_eq_iff fst_conv snd_conv)
  have "fst (sd_desk (snd ?run)) = demo_claimed" by code_simp
  then have kept: "sd_desk (snd ?run) = (demo_claimed, snd (sd_desk (snd ?run)))" by (simp only: prod_eq_iff fst_conv snd_conv)
  have time: "\<not> expired_at (fst (snd (sd_desk (snd ?run)))) demo_launch" by code_simp
  have session: "\<And>jar. cx_session_from demo_sealed_env ''millennium_ultra'' [(''base_url'', JStr ''https://u.example'')] jar
      = Inr ((\<lambda>jar. [(''auth_cookie'', jlookup jar ''Ultra'')]) jar)"
    "\<And>jar. cx_validate demo_sealed_env ''millennium_ultra'' [(''base_url'', JStr ''https://u.example'')]
      ((\<lambda>jar. [(''auth_cookie'', jlookup jar ''Ultra'')]) jar) = Inr (True, '''')"
    by (simp_all add: demo_sealed_env_def demo_connect_env_def)
  from sign_in_seen_through [OF ascii_reader_reads plain _ _ here launch fresh vendor spec ps box demo_claimed_def run kept time session,
      of "\<lambda>_. False" "''now''"]
  show ?thesis by auto
qed

section \<open>A window closed too soon\<close>

text \<open>
  A window closed while the login settles is not reported. The side-car watches the browser's
  process only until the session cookie appears; when the socket is gone four seconds later, the
  exception of the DevTools library escapes the run: there is no exit code, and the hub is told
  neither of the session nor of a cancellation (the desktop's state after it is the one the
  clean-up of the browser leaves).
\<close>

theorem closing_while_settling_is_not_reported:
  assumes "parse_launch_uri dec brackets uri = Inr (i, server)"
    and "on_desk (post server ''/connect/claim'' (launch_body i)) s = (Inr r, s1)" and "rs_status r = 200" and "read_claim r = Inr c"
    and "find_browser dk = Inr browser" and "on_desk (dk_launch dk browser (cl_login_url c)) s1 = (Inr u, s2)"
    and "attach_browser dk fuel s2 = (Inr v, s3)"
    and "login_polls dk fuel (cl_cookie c) (sd_now dk s3 + LOGIN_TIMEOUT) fuel s3 = (Inr (Signed jar), s4)"
    and "all_cookies dk fuel (sd_sleep dk SETTLE s4) = (Inl e, s5)"
    and "exn_class e \<noteq> ''ConnectError''" and "\<not> is_http_error e"
  shows "run_from_uri dec brackets dk post fuel uri s = (Inl e, s5\<lparr>sd_desk := dk_finish dk (sd_desk s5)\<rparr>)"
proof -
  have "settle_and_seal dk fuel (cl_key c) (cl_cookie c) (cl_extra c) jar s4 = (Inl e, s5)"
    using assms(9) by (simp add: settle_and_seal_def bind_comp_def)
  then have "watch_login dk fuel (cl_key c) (cl_cookie c) (cl_extra c) s3 = (Inl e, s5)"
    using assms(8) by (simp add: watch_login_def bind_comp_def)
  then have "capture_session dk fuel (cl_login_url c) (cl_key c) (cl_cookie c) (cl_extra c) s1
      = (Inl e, s5\<lparr>sd_desk := dk_finish dk (sd_desk s5)\<rparr>)"
    using assms(5-7) by (simp add: capture_session_def bind_comp_def)
  then have "serve_launch dk post fuel i server s = (Inl e, s5\<lparr>sd_desk := dk_finish dk (sd_desk s5)\<rparr>)"
    using assms(2-4) by (simp add: serve_launch_def serve_claim_def bind_comp_def pure_res_def)
  then show ?thesis using assms(1,10,11) by (simp add: run_from_uri_def exit_code_def)
qed

definition closing_desk :: "demo_desktop desk" where
  "closing_desk = demo_desk\<lparr>dk_recv := (\<lambda>n (c, t, i). if t \<ge> 5000000 then (Inl (PyError ''ConnectionClosedError'' ''''), c, t, i)
     else dk_recv demo_desk n (c, t, i))\<rparr>"

theorem closing_while_settling_is_not_reported_witness:
  "fst (run_from_uri ascii_reader (\<lambda>_. False) closing_desk (hub_link_of demo_sealed_env fst ''now'') 20
     (build_launch_uri ''L'' ''https://127.0.0.1:5355'') \<lparr>sd_desk = (demo_begun, 0, JNull), sd_calls = 0\<rparr>)
   = Inl (PyError ''ConnectionClosedError'' '''')"
proof -
  let ?s = "\<lparr>sd_desk = (demo_begun, 0, JNull), sd_calls = 0\<rparr> :: demo_desktop sidecar"
  let ?post = "hub_link_of demo_sealed_env fst ''now'' :: demo_desktop hub_link"
  let ?one = "on_desk (?post ''https://127.0.0.1:5355'' ''/connect/claim'' (launch_body ''L'')) ?s"
  let ?c = "\<lparr>cl_login_url = ''https://u.example/Account'', cl_key = [1], cl_cookie = ''Ultra'', cl_extra = bs_extra demo_spec\<rparr>"
  let ?s1 = "snd ?one"
  let ?three = "attach_browser closing_desk 20 ?s1"
  let ?four = "login_polls closing_desk 20 (cl_cookie ?c) (sd_now closing_desk (snd ?three) + LOGIN_TIMEOUT) 20 (snd ?three)"
  let ?five = "all_cookies closing_desk 20 (sd_sleep closing_desk SETTLE (snd ?four))"
  have plain: "list_all is_ascii ''L''" "list_all is_ascii ''https://127.0.0.1:5355''" by (simp_all add: is_ascii_def)
  have link: "parse_launch_uri ascii_reader (\<lambda>_. False) (build_launch_uri ''L'' ''https://127.0.0.1:5355'') = Inr (''L'', ''https://127.0.0.1:5355'')"
    by (rule launch_uri_round_trip [OF ascii_reader_reads plain]) simp_all
  have good: "case fst ?one of Inr r \<Rightarrow> rs_status r = 200 \<and> read_claim r = Inr ?c | Inl _ \<Rightarrow> False" by code_simp
  then obtain r where r: "fst ?one = Inr r" "rs_status r = 200 \<and> read_claim r = Inr ?c" by (cases "fst ?one") (simp_all only: sum.case)
  then have one: "?one = (Inr r, ?s1)" by (simp only: prod_eq_iff fst_conv snd_conv)
  have claim: "rs_status r = 200" "read_claim r = Inr ?c" using r(2) by blast+
  have browser: "find_browser closing_desk = Inr ''/usr/bin/chromium''" by code_simp
  have started: "on_desk (dk_launch closing_desk ''/usr/bin/chromium'' (cl_login_url ?c)) ?s1 = (Inr (), ?s1)"
    by (simp add: closing_desk_def demo_desk_def on_desk_def)
  have "case fst ?three of Inr _ \<Rightarrow> True | Inl _ \<Rightarrow> False" by code_simp
  then obtain v where "fst ?three = Inr v" by (auto split: sum.splits)
  then have three: "?three = (Inr v, snd ?three)" by (simp only: prod_eq_iff fst_conv snd_conv)
  have "case fst ?four of Inr (Signed _) \<Rightarrow> True | _ \<Rightarrow> False" by code_simp
  then obtain jar where "fst ?four = Inr (Signed jar)" by (auto split: sum.splits sign_in.splits)
  then have four: "?four = (Inr (Signed jar), snd ?four)" by (simp only: prod_eq_iff fst_conv snd_conv)
  have "fst ?five = Inl (PyError ''ConnectionClosedError'' '''')" by code_simp
  then have five: "?five = (Inl (PyError ''ConnectionClosedError'' ''''), snd ?five)" by (simp only: prod_eq_iff fst_conv snd_conv)
  have other: "exn_class (PyError ''ConnectionClosedError'' '''') \<noteq> ''ConnectError''" "\<not> is_http_error (PyError ''ConnectionClosedError'' '''')"
    by code_simp+
  show ?thesis
    unfolding closing_while_settling_is_not_reported [where post = ?post and dk = closing_desk and s = ?s and fuel = 20 and c = ?c, OF link one claim browser started three four five other] by simp
qed

end
