(* ===== verification/Engine_Report.thy ===== *)
theory Engine_Report
  imports Engine Status_Report
begin

text \<open>
  The parts of \<open>sync/engine.py\<close> around a cycle: the copy of the status other threads read
  (\<open>get_status\<close>), naming the PACS, the adapter that is built once and reused, starting and
  stopping; and \<open>status/reporter.py\<close>'s report built from that copy.
\<close>

section \<open>The status as other threads read it\<close>

text \<open>The fields of \<open>EngineStatus\<close> no step of the loop decides on: the switch of the thread, texts and times for people.\<close>

record status_notes =
  sn_running :: bool
  sn_pause_reason :: string
  sn_next_run :: "string option"
  sn_last_read :: "string option"
  sn_started_at :: string

definition opt_text :: "string option \<Rightarrow> json" where
  "opt_text t = (case t of None \<Rightarrow> JNull | Some x \<Rightarrow> JStr x)"

definition opt_bool :: "bool option \<Rightarrow> json" where
  "opt_bool b = (case b of None \<Rightarrow> JNull | Some x \<Rightarrow> JBool x)"

text \<open>\<open>asdict(s.last_cycle)\<close>.\<close>

definition cycle_dict :: "string \<Rightarrow> cycle_result \<Rightarrow> dict" where
  "cycle_dict started r =
     [(''started_at'', JStr started), (''duration_ms'', JInt (cy_duration_ms r)),
      (''provisioned'', JInt (int (cy_provisioned r))), (''status_changes'', JInt (int (cy_status_changes r))),
      (''deleted'', JInt (int (cy_deleted r))), (''ag_to_pacs'', JInt (int (cy_ag_to_pacs r))),
      (''retried'', JInt (int (cy_retried r))), (''field_updates'', JInt (int (cy_field_updates r))),
      (''error'', opt_text (cy_error r)), (''counts_as_failure'', JBool (cy_counts_as_failure r))]"

text \<open>\<open>get_status\<close>. The interval is cut to whole seconds, which is all its readers use of it.\<close>

definition count_dict :: "(string \<times> nat) list \<Rightarrow> (string \<times> int) list" where
  "count_dict = List.map (\<lambda>(k, n). (k, int n))"

definition get_status :: "status_notes \<Rightarrow> engine_status \<Rightarrow> dict" where
  "get_status n st =
     [(''running'', JBool (sn_running n)), (''paused'', JBool (es_paused st)), (''pause_reason'', JStr (sn_pause_reason n)),
      (''last_cycle'', case es_last_cycle st of None \<Rightarrow> JNull | Some r \<Rightarrow> JObj (cycle_dict (sn_started_at n) r)),
      (''last_error'', opt_text (es_last_error st)), (''next_run_iso'', opt_text (sn_next_run n)),
      (''cached_interval_s'', JInt (es_interval_ms st div 1000)),
      (''consecutive_errors'', JInt (int (es_consecutive_errors st))), (''pacs_reachable'', JBool (es_pacs_reachable st)),
      (''ag_reachable'', JBool (es_ag_reachable st)), (''reconnect_required'', JBool (es_reconnect_required st)),
      (''pacs_vendor'', JStr (es_pacs_vendor st)), (''pacs_display_name'', JStr (es_pacs_display_name st)),
      (''pacs_writes_credentials'', opt_bool (es_pacs_writes st)), (''last_pacs_read_iso'', opt_text (sn_last_read n)),
      (''totals'', JObj (List.map (\<lambda>(k, i). (k, JInt i)) (count_dict (es_totals st))))]"

text \<open>\<open>StatusReporter._report\<close>: the body, from one copy of the status.\<close>

definition report_of :: "string \<Rightarrow> (string \<times> string) list \<Rightarrow> int \<Rightarrow> status_notes \<Rightarrow> engine_status \<Rightarrow> json res" where
  "report_of now instance_block uptime n st =
     build_report now (get_status n st) instance_block uptime (es_pacs_vendor st) (es_pacs_display_name st)
       (es_pacs_writes st) (count_dict (es_totals st))"

text \<open>It can be built of every state the engine may be in.\<close>

lemma report_builds: "\<exists>d. report_of now instance_block uptime n st = Inr (JObj d)"
proof -
  have "jlookup (get_status n st) ''last_cycle'' = (case es_last_cycle st of None \<Rightarrow> JNull | Some r \<Rightarrow> JObj (cycle_dict (sn_started_at n) r))"
    "jlookup (get_status n st) ''cached_interval_s'' = JInt (es_interval_ms st div 1000)"
    by (simp_all add: get_status_def jlookup_def)
  then have "\<exists>c. last_cycle (get_status n st) = Inr c"
    "jint (jor (jlookup (get_status n st) ''cached_interval_s'') (JInt 0)) = Inr (es_interval_ms st div 1000)"
    by (auto simp: last_cycle_def Let_def jor_def split: option.split)
  then show ?thesis by (auto simp: report_of_def build_report_def Let_def)
qed

section \<open>Naming the PACS\<close>

text \<open>\<open>_record_pacs_identity\<close>; \<open>names\<close> gives a vendor's display name, and may raise.\<close>

definition record_pacs_identity :: "(string \<Rightarrow> string option res) \<Rightarrow> string \<Rightarrow> engine_status \<Rightarrow> engine_status" where
  "record_pacs_identity names vendor st =
     st\<lparr>es_pacs_vendor := vendor,
        es_pacs_display_name := (case names vendor of Inr (Some d) \<Rightarrow> d | _ \<Rightarrow> vendor)\<rparr>"

section \<open>The adapter is built once\<close>

text \<open>
  \<open>_pacs\<close>, the adapter in use with the text of the configuration it was built from. Adapters are
  numbered as they are built; \<open>ac_closed\<close> are those \<open>close\<close> was called on, in order.
\<close>

record adapter_cache =
  ac_current :: "(string \<times> nat) option"
  ac_built :: nat
  ac_closed :: "nat list"

definition no_adapter :: adapter_cache where
  "no_adapter = \<lparr>ac_current = None, ac_built = 0, ac_closed = []\<rparr>"

text \<open>\<open>_retire_pacs_adapter\<close>; an exception of \<open>close\<close> is swallowed.\<close>

definition retire_pacs_adapter :: "adapter_cache \<Rightarrow> adapter_cache" where
  "retire_pacs_adapter c =
     (case ac_current c of None \<Rightarrow> c
      | Some (_, i) \<Rightarrow> c\<lparr>ac_current := None, ac_closed := ac_closed c @ [i]\<rparr>)"

text \<open>\<open>_pacs_adapter\<close>: \<open>builds\<close> is what the vendor's factory does with the configuration, an exception or an adapter.\<close>

definition build_adapter :: "(string \<Rightarrow> unit res) \<Rightarrow> string \<Rightarrow> (adapter_cache, nat) comp" where
  "build_adapter builds fingerprint c =
     (case builds fingerprint of
        Inl e \<Rightarrow> (Inl e, c)
      | Inr _ \<Rightarrow> (Inr (ac_built c), c\<lparr>ac_current := Some (fingerprint, ac_built c), ac_built := Suc (ac_built c)\<rparr>))"

definition pacs_adapter :: "(string \<Rightarrow> unit res) \<Rightarrow> string \<Rightarrow> (adapter_cache, nat) comp" where
  "pacs_adapter builds fingerprint c =
     (if map_option fst (ac_current c) = Some fingerprint then (Inr (snd (the (ac_current c))), c)
      else build_adapter builds fingerprint (retire_pacs_adapter c))"

text \<open>A run of the cache: cycles that ask for their adapter, and the invalidations and the stop between them.\<close>

datatype cache_use = Ask string | Retire

fun use_cache :: "(string \<Rightarrow> unit res) \<Rightarrow> cache_use \<Rightarrow> adapter_cache \<Rightarrow> adapter_cache" where
  "use_cache builds (Ask f) c = snd (pacs_adapter builds f c)"
| "use_cache builds Retire c = retire_pacs_adapter c"

text \<open>Every adapter built is closed, once and in the order they were built, but for the one in use.\<close>

definition cache_ok :: "adapter_cache \<Rightarrow> bool" where
  "cache_ok c \<longleftrightarrow> ac_closed c @ (case ac_current c of None \<Rightarrow> [] | Some (_, i) \<Rightarrow> [i]) = [0..<ac_built c]"

lemma retire_ok: "cache_ok c \<Longrightarrow> cache_ok (retire_pacs_adapter c) \<and> ac_current (retire_pacs_adapter c) = None"
  by (auto simp: cache_ok_def retire_pacs_adapter_def split: option.splits)

lemma pacs_adapter_ok:
  assumes "cache_ok c"
  shows "cache_ok (snd (pacs_adapter builds f c))"
proof -
  have "cache_ok (retire_pacs_adapter c)" "ac_current (retire_pacs_adapter c) = None"
    using retire_ok [OF assms] by blast+
  then show ?thesis using assms
    by (auto simp: pacs_adapter_def build_adapter_def cache_ok_def split: option.splits sum.splits)
qed

lemma pacs_adapter_current:
  assumes "pacs_adapter builds f c = (Inr i, c')"
  shows "ac_current c' = Some (f, i)"
  using assms by (auto simp: pacs_adapter_def build_adapter_def split: sum.splits if_splits)

lemma use_cache_ok: "cache_ok c \<Longrightarrow> cache_ok (use_cache builds u c)"
  by (cases u) (simp_all add: pacs_adapter_ok retire_ok)

lemma fold_cache_ok: "cache_ok c \<Longrightarrow> cache_ok (fold (use_cache builds) us c)"
  by (induction us arbitrary: c) (simp_all add: use_cache_ok)

section \<open>Starting and stopping\<close>

text \<open>\<open>start\<close> and \<open>stop\<close>: the thread, its two events, the flag the status shows, and the adapter.\<close>

record engine_switch =
  sw_alive :: bool
  sw_stop :: bool
  sw_trigger :: bool
  sw_running :: bool
  sw_cache :: adapter_cache

definition switch_on :: "engine_switch \<Rightarrow> engine_switch" where
  "switch_on s = (if sw_alive s then s else s\<lparr>sw_stop := False, sw_alive := True, sw_running := True\<rparr>)"

text \<open>\<open>ends\<close>: whether the thread came to an end within the time \<open>stop\<close> waits for it.\<close>

definition switch_off :: "bool \<Rightarrow> engine_switch \<Rightarrow> engine_switch" where
  "switch_off ends s = s\<lparr>sw_stop := True, sw_trigger := True, sw_alive := sw_alive s \<and> \<not> ends,
     sw_cache := retire_pacs_adapter (sw_cache s), sw_running := False\<rparr>"

text \<open>
  A stop that did not wait long enough, then a start: the old thread is still there, so no new one
  is made, and the event that tells it to end stays set.
\<close>

lemma start_after_unfinished_stop:
  assumes "sw_alive s"
  shows "switch_on (switch_off False s) = switch_off False s" "sw_stop (switch_on (switch_off False s))"
    "\<not> sw_running (switch_on (switch_off False s))"
  using assms by (simp_all add: switch_on_def switch_off_def)

end
