(* ===== verification/Support_Bundle.thy ===== *)
theory Support_Bundle
  imports Settings_Store
begin

text \<open>
  \<open>diagnostics.py\<close>: the read-only dump of what an install believes it has issued. The database is
  what its SELECT statements return, \<open>None\<close> where a statement fails; a path is its text; Fernet and
  \<open>json.loads\<close> are parameters. The long dash of the texts is written as a hyphen.
\<close>

section \<open>The host and the database\<close>

text \<open>The environment, the key file (\<open>None\<close> when it is not there) and the files that exist.\<close>

record diag_host =
  dh_env :: "string \<Rightarrow> string option"
  dh_data_dir :: string
  dh_key_file :: "string option"
  dh_exists :: "string \<Rightarrow> bool"
  dh_decrypt :: "string \<Rightarrow> string \<Rightarrow> string res"
  dh_loads :: "string \<Rightarrow> json res"
  dh_version :: string

text \<open>A row of \<open>ag_credentials\<close> as it is stored, its contact details among the columns.\<close>

record diag_row =
  dr_person :: string
  dr_credential :: string
  dr_card :: "string option"
  dr_name :: "string option"
  dr_status :: string
  dr_email :: "string option"
  dr_phone :: "string option"
  dr_sync_ref :: "string option"
  dr_last_known :: "string option"
  dr_retries :: int
  dr_error :: "string option"
  dr_updated :: string

text \<open>A row of \<open>pacs_cards\<close>: two columns are ciphertext.\<close>

record sealed_card =
  sd_person :: string
  sd_credential :: string
  sd_slot :: json
  sd_facility :: string
  sd_number :: string
  sd_status :: string

record diag_db =
  db_migrations :: "string list option"
  db_tracked :: "diag_row list option"
  db_cards :: "sealed_card list option"
  db_settings :: "setting list option"

definition LEDGER_KEY :: string where "LEDGER_KEY = ''millennium_seos_slots''"

text \<open>\<open>_rows\<close>: a statement that fails has no rows.\<close>

definition rows_of :: "'a list option \<Rightarrow> 'a list" where
  "rows_of r = (case r of None \<Rightarrow> [] | Some xs \<Rightarrow> xs)"

definition or_blank :: "string option \<Rightarrow> string" where
  "or_blank t = (case t of None \<Rightarrow> '''' | Some s \<Rightarrow> s)"

definition resolve_db_path :: "diag_host \<Rightarrow> string" where
  "resolve_db_path h = (let p = or_blank (dh_env h ''AG_SYNC_DB_PATH'') in if p \<noteq> '''' then p else dh_data_dir h @ ''/app.db'')"

definition resolve_key :: "diag_host \<Rightarrow> string option" where
  "resolve_key h =
     (let v = or_blank (dh_env h ''AG_SYNC_ENCRYPTION_KEY''); f = py_strip (or_blank (dh_key_file h)) in
      if v \<noteq> '''' then Some (py_strip v) else if f \<noteq> '''' then Some f else None)"

section \<open>What is read\<close>

record shown_row =
  sh_person :: string
  sh_credential :: string
  sh_name :: string
  sh_status :: string
  sh_card :: "string option"
  sh_sync_ref :: string
  sh_last_known :: string
  sh_retries :: int
  sh_error :: "string option"
  sh_updated :: string

definition shown :: "diag_row \<Rightarrow> shown_row" where
  "shown r = \<lparr>sh_person = dr_person r, sh_credential = dr_credential r, sh_name = or_blank (dr_name r),
     sh_status = dr_status r, sh_card = dr_card r, sh_sync_ref = or_blank (dr_sync_ref r),
     sh_last_known = or_blank (dr_last_known r), sh_retries = dr_retries r, sh_error = dr_error r, sh_updated = dr_updated r\<rparr>"

definition diag_tracking :: "diag_db \<Rightarrow> shown_row list" where
  "diag_tracking db = List.map shown (sort_key dr_person (rows_of (db_tracked db)))"

text \<open>The cards, keyed by \<open>person:credential\<close>: each opened with the key; the first that does not open ends it.\<close>

definition pair_key :: "string \<Rightarrow> string \<Rightarrow> string" where
  "pair_key p c = p @ '':'' @ c"

definition open_card :: "diag_host \<Rightarrow> string \<Rightarrow> sealed_card \<Rightarrow> (string \<times> json) res" where
  "open_card h key r =
     bind_res (dh_decrypt h key (sd_number r)) (\<lambda>n.
     bind_res (dh_decrypt h key (sd_facility r)) (\<lambda>f.
       Inr (pair_key (sd_person r) (sd_credential r), JObj [(''slot'', sd_slot r), (''card_number'', JStr n),
         (''facility_code'', JStr f), (''status'', JStr (sd_status r))])))"

definition card_order :: "sealed_card \<Rightarrow> string \<times> int" where
  "card_order r = (sd_person r, case sd_slot r of JVal (PInt i) \<Rightarrow> i + 1 | _ \<Rightarrow> 0)"

text \<open>\<open>sqlite\<close> orders a missing slot first; slots are not negative.\<close>

definition cards_ledger :: "diag_host \<Rightarrow> string \<Rightarrow> sealed_card list \<Rightarrow> (string \<times> json list) list res" where
  "cards_ledger h key rows =
     bind_res (map_res (open_card h key) (sort_key card_order rows)) (\<lambda>es.
       Inr (fold (\<lambda>(k, e). dict_append k e) es []))"

definition failed_with :: "string \<Rightarrow> exn \<Rightarrow> string" where
  "failed_with what e = ''could not decrypt the '' @ what @ '': '' @ exn_class e @ '': '' @ exn_message e"

text \<open>\<open>_ledger\<close>: the ledger, and what is wrong with it. The older one is whatever JSON the blob holds.\<close>

definition diag_ledger :: "diag_host \<Rightarrow> string option \<Rightarrow> diag_db \<Rightarrow> json \<times> string" where
  "diag_ledger h key db =
     (case db_cards db of
        Some rows \<Rightarrow>
          (case key of
             None \<Rightarrow> (JObj [], if rows \<noteq> [] then ''cards are stored, but no encryption key was found to read them'' else '''')
           | Some k \<Rightarrow> (case cards_ledger h k rows of
                Inl e \<Rightarrow> (JObj [], failed_with ''cards'' e)
              | Inr l \<Rightarrow> (JObj (List.map (\<lambda>(p, es). (p, JArr es)) l), '''')))
      | None \<Rightarrow>
          (case table_get se_key (rows_of (db_settings db)) LEDGER_KEY of
             None \<Rightarrow> (JObj [], ''no ledger stored'')
           | Some row \<Rightarrow> (case key of
                None \<Rightarrow> (JObj [], ''a ledger is stored, but no encryption key was found to read it'')
              | Some k \<Rightarrow> (case bind_res (dh_decrypt h k (se_value row)) (dh_loads h) of
                   Inl e \<Rightarrow> (JObj [], failed_with ''ledger'' e)
                 | Inr j \<Rightarrow> (j, '''')))))"

section \<open>Where the two records disagree\<close>

definition shown_key :: "shown_row \<Rightarrow> string" where
  "shown_key t = pair_key (sh_person t) (sh_credential t)"

definition holds_pass :: "shown_row \<Rightarrow> bool" where
  "holds_pass t \<longleftrightarrow> sh_status t \<notin> {''deleted'', ''deduped''} \<and> or_blank (sh_card t) \<noteq> ''''"

definition no_cards_line :: "shown_row \<Rightarrow> string" where
  "no_cards_line t = ''  '' @ shown_key t @ '' holds a pass ('' @ or_blank (sh_card t) @ '') but the ledger records no cards for it''"

definition untracked_line :: "string \<Rightarrow> string" where
  "untracked_line k = ''  '' @ k @ '' has cards recorded but no tracking row''"

definition deleted_line :: "string \<Rightarrow> string" where
  "deleted_line k = ''  '' @ k @ '' is marked deleted but still has cards recorded - those slots will never be released''"

definition deleted_in :: "shown_row list \<Rightarrow> string \<Rightarrow> bool" where
  "deleted_in tracked k \<longleftrightarrow> map_option sh_status (List.find (\<lambda>t. shown_key t = k) tracked) = Some ''deleted''"

definition cross_reference :: "shown_row list \<Rightarrow> string list \<Rightarrow> string list" where
  "cross_reference tracked ledger_keys =
     (let tracked_keys = List.map shown_key tracked in
      List.map no_cards_line (List.filter (\<lambda>t. holds_pass t \<and> shown_key t \<notin> set ledger_keys) tracked)
      @ List.map untracked_line (sort (remdups (List.filter (\<lambda>k. k \<notin> set tracked_keys) ledger_keys)))
      @ List.map deleted_line (List.filter (deleted_in tracked)
          (sort (remdups (List.filter (\<lambda>k. k \<in> set tracked_keys) ledger_keys)))))"

section \<open>The report\<close>

definition NEVER_PRINT :: "string list" where "NEVER_PRINT = [''accessgrid'', ''pacs'', ''notifications'']"

definition secret_key :: "string \<Rightarrow> bool" where
  "secret_key k \<longleftrightarrow> k \<in> set NEVER_PRINT \<or> take 13 k = ''pacs_session:''"

definition or_word :: "string \<Rightarrow> string \<Rightarrow> string" where
  "or_word t word = (if t = '''' then word else t)"

definition newline :: string where "newline = [char_of (10::nat)]"

definition tracked_line :: "shown_row \<Rightarrow> string" where
  "tracked_line t =
     ''  '' @ sh_person t @ ''/'' @ sh_credential t @ ''  '' @ repr_str (sh_name t)
     @ newline @ ''      status='' @ sh_status t @ ''  ag_card_id='' @ or_word (or_blank (sh_card t)) ''none''
     @ ''  last_known='' @ or_word (sh_last_known t) ''-''
     @ newline @ ''      sync_ref='' @ or_word (sh_sync_ref t) ''none'' @ ''  retries='' @ string_of_int (sh_retries t)
     @ ''  updated='' @ sh_updated t
     @ (if or_blank (sh_error t) = '''' then '''' else newline @ ''      error='' @ or_blank (sh_error t))"

definition card_text :: "json \<Rightarrow> string res" where
  "card_text e =
     bind_res (jget ''facility_code'' e) (\<lambda>f. bind_res (jget ''card_number'' e) (\<lambda>n. bind_res (jget ''slot'' e) (\<lambda>s.
       Inr (jstr f @ ''/'' @ jstr n @ ''@slot'' @ jstr s))))"

definition ledger_line :: "string \<times> json \<Rightarrow> string res" where
  "ledger_line kv =
     bind_res (jiter (snd kv)) (\<lambda>es. bind_res (map_res card_text es) (\<lambda>ts.
       Inr (''  '' @ fst kv @ ''  ->  '' @ or_word (py_join '', '' ts) ''nothing'')))"

text \<open>\<open>sorted(ledger.items())\<close> and \<open>set(ledger)\<close>; the count is taken first.\<close>

fun ledger_items :: "json \<Rightarrow> (string \<times> json) list res" where
  "ledger_items (JObj d) = Inr (sort_key fst d)"
| "ledger_items (JArr xs) = Inl (attribute_error ''items'')"
| "ledger_items (JVal (PStr t)) = Inl (attribute_error ''items'')"
| "ledger_items _ = Inl (type_error ''len'')"

definition or_none :: "string list \<Rightarrow> string \<Rightarrow> string list" where
  "or_none ls t = (if ls = [] then [t] else ls)"

definition setting_line :: "string \<Rightarrow> string" where
  "setting_line k = ''  '' @ k @ (if secret_key k then ''  [holds credentials - not printed]'' else '''')"

definition migrations_part :: "diag_db \<Rightarrow> string list" where
  "migrations_part db = (let names = sort (rows_of (db_migrations db)) in
     ['''', ''Migrations applied ('' @ string_of_nat (length names) @ ''):'']
     @ or_none (List.map (\<lambda>n. ''  '' @ n) names) ''  none'')"

definition tracking_part :: "shown_row list \<Rightarrow> string list" where
  "tracking_part tracked =
     ['''', ''Tracking table - ag_credentials ('' @ string_of_nat (length tracked) @ '' rows):'']
     @ or_none (List.map tracked_line tracked) ''  none''"

definition ledger_part :: "(string \<times> json) list \<Rightarrow> string \<Rightarrow> string list res" where
  "ledger_part items problem =
     bind_res (map_res ledger_line items) (\<lambda>ls.
       Inr (['''', ''Seos ledger - what we wrote into Millennium ('' @ string_of_nat (length items) @ '' entries):'']
         @ (if problem \<noteq> '''' then [''  '' @ problem] else []) @ (if items = [] \<and> problem = '''' then [''  none''] else []) @ ls))"

definition settings_part :: "diag_db \<Rightarrow> string list" where
  "settings_part db =
     ['''', ''Settings keys present (values withheld):''] @ List.map setting_line (sort (List.map se_key (rows_of (db_settings db))))"

definition report_lines :: "diag_host \<Rightarrow> diag_db \<Rightarrow> string list res" where
  "report_lines h db =
     (let key = resolve_key h; tracked = diag_tracking db; lg = diag_ledger h key db in
      bind_res (ledger_items (fst lg)) (\<lambda>items.
      bind_res (ledger_part items (snd lg)) (\<lambda>ledger.
        Inr ([''  key       '' @ (if or_blank key \<noteq> '''' then ''found'' else ''NOT FOUND - the ledger cannot be read'')]
          @ migrations_part db @ tracking_part tracked @ ledger
          @ ['''', ''Cross-reference:''] @ or_none (cross_reference tracked (List.map fst items)) ''  nothing inconsistent''
          @ settings_part db))))"

definition report_head :: "diag_host \<Rightarrow> string list" where
  "report_head h = [''AccessGrid Sync - diagnostic dump'', ''  version   '' @ dh_version h, ''  database  '' @ resolve_db_path h]"

definition no_database :: string where
  "no_database = newline @ ''No database at that path. Set AG_SYNC_DB_PATH if it lives elsewhere.''"

definition support_report :: "diag_host \<Rightarrow> diag_db \<Rightarrow> string res" where
  "support_report h db =
     (if \<not> dh_exists h (resolve_db_path h) then Inr (py_join newline (report_head h @ [no_database]))
      else bind_res (report_lines h db) (\<lambda>ls. Inr (py_join newline (report_head h @ ls))))"

section \<open>What the report can tell\<close>

text \<open>
  Everything of the database but the values kept in the settings (the ledger of an install that has
  not moved it yet apart) and the columns that are not shown.
\<close>

definition public_part :: "diag_db \<Rightarrow> string list option \<times> shown_row list \<times> sealed_card list option \<times> string list \<times> setting option" where
  "public_part db = (db_migrations db, diag_tracking db, db_cards db, List.map se_key (rows_of (db_settings db)),
     if db_cards db = None then table_get se_key (rows_of (db_settings db)) LEDGER_KEY else None)"

lemma ledger_of_public: "public_part db = public_part db' \<Longrightarrow> diag_ledger h key db = diag_ledger h key db'"
  by (cases "db_cards db"; cases "db_cards db'") (simp_all add: public_part_def diag_ledger_def)

lemma parts_of_public:
  assumes "public_part db = public_part db'"
  shows "migrations_part db = migrations_part db'" "diag_tracking db = diag_tracking db'" "settings_part db = settings_part db'"
  using assms by (simp_all add: public_part_def migrations_part_def settings_part_def)

text \<open>Forgetting every secret of the settings leaves that part alone.\<close>

definition wiped :: "diag_db \<Rightarrow> diag_db" where
  "wiped db = db\<lparr>db_settings := map_option (List.map (\<lambda>s. if se_key s = LEDGER_KEY then s else s\<lparr>se_value := ''''\<rparr>)) (db_settings db),
     db_tracked := map_option (List.map (\<lambda>r. r\<lparr>dr_email := None, dr_phone := None\<rparr>)) (db_tracked db)\<rparr>"

lemma shown_wiped [simp]: "shown (r\<lparr>dr_email := e, dr_phone := p\<rparr>) = shown r"
  by (simp add: shown_def)

lemma sort_wiped:
  "List.map shown (sort_key dr_person (List.map (\<lambda>r. r\<lparr>dr_email := None, dr_phone := None\<rparr>) rows))
    = List.map shown (sort_key dr_person rows)"
proof -
  let ?f = "\<lambda>r. r\<lparr>dr_email := None, dr_phone := None\<rparr>"
  have insert: "insort_key dr_person (?f r) (List.map ?f rs) = List.map ?f (insort_key dr_person r rs)" for r rs
    by (induction rs) simp_all
  have "sort_key dr_person (List.map ?f rows) = List.map ?f (sort_key dr_person rows)"
    by (induction rows) (simp_all add: insert)
  then show ?thesis by simp
qed

lemma ledger_row_wiped:
  "table_get se_key (List.map (\<lambda>s. if se_key s = LEDGER_KEY then s else s\<lparr>se_value := ''''\<rparr>) rows) LEDGER_KEY = table_get se_key rows LEDGER_KEY"
  by (induction rows) (simp_all add: table_get_def)

lemma public_wiped: "public_part (wiped db) = public_part db"
proof -
  have "List.map se_key (List.map (\<lambda>s. if se_key s = LEDGER_KEY then s else s\<lparr>se_value := ''''\<rparr>) rows) = List.map se_key rows" for rows
    by (induction rows) simp_all
  then show ?thesis
    by (cases "db_settings db"; cases "db_tracked db")
      (simp_all add: public_part_def wiped_def diag_tracking_def rows_of_def sort_wiped ledger_row_wiped)
qed

text \<open>Emptying every value of the settings, the older ledger's too.\<close>

definition no_values :: "diag_db \<Rightarrow> diag_db" where
  "no_values db = db\<lparr>db_settings := map_option (List.map (\<lambda>s. s\<lparr>se_value := ''''\<rparr>)) (db_settings db)\<rparr>"

lemma public_no_values: "db_cards db \<noteq> None \<Longrightarrow> public_part (no_values db) = public_part db"
  by (cases "db_settings db") (auto simp: public_part_def no_values_def diag_tracking_def rows_of_def o_def)

text \<open>Keys of a ledger that was read from the cards are those of its cards.\<close>

lemma cross_reference_lines:
  "l \<in> set (cross_reference tracked ks) \<longleftrightarrow>
     (\<exists>t\<in>set tracked. holds_pass t \<and> shown_key t \<notin> set ks \<and> l = no_cards_line t) \<or>
     (\<exists>k\<in>set ks. k \<notin> shown_key ` set tracked \<and> l = untracked_line k) \<or>
     (\<exists>k\<in>set ks. k \<in> shown_key ` set tracked \<and> deleted_in tracked k \<and> l = deleted_line k)"
  by (auto simp: cross_reference_def Let_def)

end
