(* ===== verification/Hub_Host.thy ===== *)
theory Hub_Host
  imports Support_Bundle
begin

text \<open>
  What the install is and keeps outside its database: the identity it reports
  (\<open>status/fingerprint.py\<close>), the key its secrets are encrypted with (\<open>config.py\<close>, \<open>crypto.py\<close>) and
  the certificate of its web page (\<open>tls.py\<close>). The operating system, SHA-256, Fernet and x509 are
  parameters.
\<close>

section \<open>The identity of the install\<close>

text \<open>Reading a file as \<open>_linux_machine_id\<close> does: \<open>None\<close> for an \<open>OSError\<close>, which it skips.\<close>

record host =
  ho_platform :: string
  ho_machine :: string
  ho_hostname :: "string res"
  ho_registry :: "string res"
  ho_ioreg :: "string res"
  ho_files :: "string option res list"
  ho_os_version :: "string res"
  ho_sha256 :: "string \<Rightarrow> string"
  ho_agent_version :: string

definition ID_CHARS :: nat where "ID_CHARS = 32"

text \<open>\<open>line.split('"')[-2]\<close>: what stands before the last quote and after the one before it.\<close>

definition quote_char :: char where "quote_char = CHR 0x22"

definition last_quoted :: "string \<Rightarrow> string res" where
  "last_quoted line =
     (if quote_char \<notin> set line then Inl (PyError ''IndexError'' ''list index out of range'')
      else Inr (rev (takeWhile (\<lambda>c. c \<noteq> quote_char) (tl (dropWhile (\<lambda>c. c \<noteq> quote_char) (rev line))))))"

fun in_text :: "string \<Rightarrow> string \<Rightarrow> bool" where
  "in_text part [] = (part = [])"
| "in_text part (c # s) = (take (length part) (c # s) = part \<or> in_text part s)"

definition macos_machine_id :: "host \<Rightarrow> string res" where
  "macos_machine_id h =
     bind_res (ho_ioreg h) (\<lambda>out.
       case List.find (in_text ''IOPlatformUUID'') (splitlines out) of None \<Rightarrow> Inr '''' | Some line \<Rightarrow> last_quoted line)"

fun first_readable :: "string option res list \<Rightarrow> string res" where
  "first_readable [] = Inr ''''"
| "first_readable (f # fs) =
     (case f of
        Inl e \<Rightarrow> Inl e
      | Inr None \<Rightarrow> first_readable fs
      | Inr (Some t) \<Rightarrow> if py_strip t \<noteq> '''' then Inr (py_strip t) else first_readable fs)"

definition read_machine_id :: "host \<Rightarrow> string res" where
  "read_machine_id h =
     (if ho_platform h = ''win32'' then ho_registry h
      else if ho_platform h = ''darwin'' then macos_machine_id h else first_readable (ho_files h))"

text \<open>The two globals: what has been worked out once stays for the life of the process.\<close>

record identity_cache =
  ic_machine :: "string option"
  ic_instance :: "string option"

definition fresh_process :: identity_cache where
  "fresh_process = \<lparr>ic_machine = None, ic_instance = None\<rparr>"

definition machine_id :: "host \<Rightarrow> identity_cache \<Rightarrow> string \<times> identity_cache" where
  "machine_id h c =
     (case ic_machine c of
        Some m \<Rightarrow> (m, c)
      | None \<Rightarrow> let m = (case read_machine_id h of Inl _ \<Rightarrow> '''' | Inr t \<Rightarrow> py_strip t) in (m, c\<lparr>ic_machine := Some m\<rparr>))"

definition hostname :: "host \<Rightarrow> string" where
  "hostname h = (case ho_hostname h of Inl _ \<Rightarrow> ''unknown'' | Inr n \<Rightarrow> or_word n ''unknown'')"

definition unit_separator :: string where "unit_separator = [char_of (31::nat)]"

definition id_material :: "string list \<Rightarrow> string" where
  "id_material parts = py_join unit_separator parts"

definition instance_id :: "host \<Rightarrow> identity_cache \<Rightarrow> string \<times> identity_cache" where
  "instance_id h c =
     (case ic_instance c of
        Some i \<Rightarrow> (i, c)
      | None \<Rightarrow>
          (let (m, c1) = machine_id h c;
               i = take ID_CHARS (ho_sha256 h (id_material [ho_platform h, ho_machine h, hostname h, m]))
           in (i, c1\<lparr>ic_instance := Some i\<rparr>)))"

definition safe_text :: "string res \<Rightarrow> string \<Rightarrow> string" where
  "safe_text r d = (case r of Inl _ \<Rightarrow> d | Inr t \<Rightarrow> or_word t d)"

definition describe :: "host \<Rightarrow> identity_cache \<Rightarrow> (string \<times> string) list \<times> identity_cache" where
  "describe h c =
     (let (i, c1) = instance_id h c in
      ([(''id'', i), (''hostname'', hostname h), (''agent_version'', ho_agent_version h), (''platform'', ho_platform h),
        (''os_version'', safe_text (ho_os_version h) ''unknown''), (''arch'', safe_text (Inr (ho_machine h)) ''unknown'')], c1))"

text \<open>What is reported by one process over its life, the host changing under it.\<close>

fun described :: "host list \<Rightarrow> identity_cache \<Rightarrow> (string \<times> string) list list" where
  "described [] c = []"
| "described (h # hs) c = (case describe h c of (d, c1) \<Rightarrow> d # described hs c1)"

definition id_of :: "host \<Rightarrow> string" where
  "id_of h = fst (instance_id h fresh_process)"

lemma instance_id_cached: "ic_instance c = Some i \<Longrightarrow> snd (describe h c) = c \<and> map_of (fst (describe h c)) ''id'' = Some i"
  by (simp add: describe_def instance_id_def)

lemma described_cached:
  assumes "ic_instance c = Some i"
  shows "\<forall>d\<in>set (described hs c). map_of d ''id'' = Some i"
  using instance_id_cached [OF assms] by (induction hs) (auto simp: split_beta)

lemma first_description:
  "map_of (fst (describe h fresh_process)) ''id'' = Some (id_of h) \<and> ic_instance (snd (describe h fresh_process)) = Some (id_of h)"
  by (simp add: describe_def id_of_def instance_id_def fresh_process_def Let_def split_beta)

text \<open>The parts can be read back off the material when none holds the separator.\<close>

lemma takeWhile_before: "x \<notin> set a \<Longrightarrow> takeWhile (\<lambda>c. c \<noteq> x) (a @ x # r) = a"
  by (induction a) auto

lemma material_cons: "ps \<noteq> [] \<Longrightarrow> id_material (p # ps) = p @ char_of (31::nat) # id_material ps"
  by (cases ps) (simp_all add: id_material_def unit_separator_def)

lemma id_material_inject:
  assumes "length ps = length qs" and "\<forall>p\<in>set ps \<union> set qs. char_of (31::nat) \<notin> set p"
    and "id_material ps = id_material qs"
  shows "ps = qs"
  using assms
proof (induction ps qs rule: list_induct2)
  case (Cons p ps q qs)
  show ?case
  proof (cases "ps = []")
    case True
    then show ?thesis using Cons by (simp add: id_material_def)
  next
    case False
    moreover from this have "qs \<noteq> []" using Cons.hyps by auto
    ultimately have eq: "p @ char_of (31::nat) # id_material ps = q @ char_of (31::nat) # id_material qs"
      using Cons.prems(2) material_cons [of ps p] material_cons [of qs q] by simp
    moreover have "char_of (31::nat) \<notin> set p" "char_of (31::nat) \<notin> set q" using Cons.prems(1) by auto
    ultimately have "p = q" by (metis takeWhile_before)
    then show ?thesis using eq Cons by auto
  qed
qed simp

section \<open>The key of the secrets\<close>

text \<open>
  \<open>_load_or_create_encryption_key\<close>: the state is the key file; \<open>new\<close> is the key Fernet makes up,
  used only when there is none.
\<close>

definition load_or_create_key :: "string \<Rightarrow> string option \<Rightarrow> string \<times> string option" where
  "load_or_create_key new file =
     (let existing = py_strip (or_blank file) in if existing \<noteq> '''' then (existing, file) else (new, Some new))"

lemma key_is_made_once:
  assumes "py_strip new = new" and "new \<noteq> ''''"
  shows "load_or_create_key new' (snd (load_or_create_key new file)) = (fst (load_or_create_key new file), snd (load_or_create_key new file))"
  using assms by (simp add: load_or_create_key_def Let_def or_blank_def)

text \<open>The support tool finds the key the hub uses, when there is one, and writes none.\<close>

lemma support_tool_finds_the_key:
  assumes "dh_env h ''AG_SYNC_ENCRYPTION_KEY'' = None"
  shows "resolve_key h = (if py_strip (or_blank (dh_key_file h)) = '''' then None
    else Some (fst (load_or_create_key new (dh_key_file h))))"
  using assms by (simp add: resolve_key_def load_or_create_key_def or_blank_def Let_def)

text \<open>\<open>encrypt\<close> and \<open>decrypt\<close> around Fernet: a key that is no key, a text that does not open.\<close>

record fernet =
  fe_valid :: "string \<Rightarrow> bool"
  fe_encrypt :: "string \<Rightarrow> string \<Rightarrow> string"
  fe_decrypt :: "string \<Rightarrow> string \<Rightarrow> string res"

definition crypto_error :: "string \<Rightarrow> exn" where
  "crypto_error m = PyError ''CryptoError'' m"

definition bad_key :: exn where
  "bad_key = crypto_error ''AG_SYNC_ENCRYPTION_KEY is not a valid Fernet key.''"

definition wrong_key :: exn where
  "wrong_key = crypto_error ''Failed to decrypt secret - the encryption key has changed since this value was written. Run 'agsync reset-admin' and re-run the wizard.''"

definition encrypt :: "fernet \<Rightarrow> string \<Rightarrow> string option \<Rightarrow> string res" where
  "encrypt f key plain = (case plain of None \<Rightarrow> Inr '''' | Some p \<Rightarrow> if fe_valid f key then Inr (fe_encrypt f key p) else Inl bad_key)"

definition decrypt :: "fernet \<Rightarrow> string \<Rightarrow> string \<Rightarrow> string res" where
  "decrypt f key cipher =
     (if cipher = '''' then Inr ''''
      else if \<not> fe_valid f key then Inl bad_key
      else (case fe_decrypt f key cipher of
              Inl e \<Rightarrow> if exn_class e = ''InvalidToken'' then Inl wrong_key else Inl e
            | Inr p \<Rightarrow> Inr p))"

text \<open>Fernet: what was encrypted under a key opens under that key, and the ciphertext is not empty.\<close>

definition honest_fernet :: "fernet \<Rightarrow> bool" where
  "honest_fernet f \<longleftrightarrow> (\<forall>k p. fe_valid f k \<longrightarrow> fe_encrypt f k p \<noteq> '''' \<and> fe_decrypt f k (fe_encrypt f k p) = Inr p)"

lemma decrypt_encrypt:
  assumes "honest_fernet f" and "encrypt f key (Some p) = Inr c"
  shows "decrypt f key c = Inr p"
  using assms by (auto simp: encrypt_def decrypt_def honest_fernet_def split: if_splits)

section \<open>The certificate of the web page\<close>

definition CERT_VALIDITY_DAYS :: int where "CERT_VALIDITY_DAYS = 825"
definition RENEW_THRESHOLD_DAYS :: int where "RENEW_THRESHOLD_DAYS = 30"

definition days :: "int \<Rightarrow> int" where "days n = n * 86400 * 1000000"

text \<open>
  The two files, by what is read off the first: \<open>None\<close> when it is missing, \<open>Some None\<close> when it is
  no certificate, else when it expires.
\<close>

record cert_store =
  cs_cert :: "int option option"
  cs_key :: bool

definition cert_usable :: "int \<Rightarrow> int option option \<Rightarrow> bool" where
  "cert_usable now c = (case c of Some (Some expires) \<Rightarrow> days RENEW_THRESHOLD_DAYS < expires - now | _ \<Rightarrow> False)"

definition generate_cert :: "int \<Rightarrow> cert_store" where
  "generate_cert now = \<lparr>cs_cert = Some (Some (now + days CERT_VALIDITY_DAYS)), cs_key = True\<rparr>"

definition ensure_cert :: "int \<Rightarrow> cert_store \<Rightarrow> cert_store" where
  "ensure_cert now s = (if cs_cert s \<noteq> None \<and> cs_key s \<and> cert_usable now (cs_cert s) then s else generate_cert now)"

lemma ensured_cert: "cert_usable now (cs_cert (ensure_cert now s)) \<and> cs_key (ensure_cert now s)"
  by (auto simp: ensure_cert_def generate_cert_def cert_usable_def days_def RENEW_THRESHOLD_DAYS_def CERT_VALIDITY_DAYS_def)

text \<open>A hub that starts again within 795 days keeps the certificate it made, and one that runs longer outlives it.\<close>

lemma made_cert_kept:
  assumes "now \<le> later" and "later - now < days (CERT_VALIDITY_DAYS - RENEW_THRESHOLD_DAYS)"
  shows "ensure_cert later (generate_cert now) = generate_cert now"
  using assms by (simp add: ensure_cert_def generate_cert_def cert_usable_def days_def RENEW_THRESHOLD_DAYS_def CERT_VALIDITY_DAYS_def)

text \<open>The names the certificate is for: the machine's and its addresses, those that are none left out.\<close>

definition cert_names :: "string res \<Rightarrow> string list res \<Rightarrow> (string \<Rightarrow> bool) \<Rightarrow> string list \<times> string list" where
  "cert_names name addresses valid =
     (''localhost'' # (case name of Inr n \<Rightarrow> if n = '''' then [] else [n] | Inl _ \<Rightarrow> []),
      List.filter valid (sort (remdups (''127.0.0.1'' # (case addresses of Inr a \<Rightarrow> a | Inl _ \<Rightarrow> [])))))"

end
