(* ===== verification/Web_Gate.thy ===== *)
theory Web_Gate
  imports Operator_Pages
begin

text \<open>
  Who is let in: the signed cookie (\<open>auth/session.py\<close>), what every page is rendered with and where
  the visitor without a session is sent (\<open>server.py\<close>), the pages of the sync (\<open>routes/status.py\<close>)
  and the connection tests (\<open>routes/api.py\<close>), and the text they answer with
  (\<open>i18n/translator.py\<close>). The signature, with \<open>json.dumps\<close> and \<open>json.loads\<close> around it, is the
  parameter \<open>signer\<close>. Templates are not rendered: a page is its name and what it is given.
\<close>

section \<open>The session cookie\<close>

text \<open>
  \<open>TimestampSigner\<close> in whole seconds: the signature of a payload at an instant, and the payload of a
  token no older than \<open>max_age\<close> (first argument) at an instant. Times elsewhere are microseconds.
\<close>

record signer =
  sg_sign :: "int \<Rightarrow> string \<Rightarrow> string"
  sg_unsign :: "int \<Rightarrow> int \<Rightarrow> string \<Rightarrow> string res"
  sg_dumps :: "json \<Rightarrow> string"
  sg_loads :: "string \<Rightarrow> json res"

definition SESSION_TTL_S :: int where "SESSION_TTL_S = 60 * 60"

definition whole_seconds :: "int \<Rightarrow> int" where
  "whole_seconds us = us div 1000000"

definition sign_session :: "signer \<Rightarrow> int \<Rightarrow> string \<Rightarrow> string" where
  "sign_session sg now user =
     sg_sign sg (whole_seconds now) (sg_dumps sg (JObj [(''sub'', JStr user), (''iat'', JInt (whole_seconds now))]))"

text \<open>\<open>except BadSignature\<close>, with its subclasses.\<close>

definition bad_signature :: "exn \<Rightarrow> bool" where
  "bad_signature e \<longleftrightarrow> exn_class e \<in> {''BadSignature'', ''BadTimeSignature'', ''SignatureExpired''}"

text \<open>\<open>None\<close> is \<open>JNull\<close>.\<close>

definition verify_session :: "signer \<Rightarrow> int \<Rightarrow> string \<Rightarrow> json res" where
  "verify_session sg now token =
     (case sg_unsign sg SESSION_TTL_S (whole_seconds now) token of
        Inl e \<Rightarrow> if bad_signature e then Inr JNull else Inl e
      | Inr raw \<Rightarrow>
          (case sg_loads sg raw of
             Inl e \<Rightarrow> if exn_class e = ''JSONDecodeError'' then Inr JNull else Inl e
           | Inr j \<Rightarrow> Inr j))"

definition current_user :: "signer \<Rightarrow> int \<Rightarrow> string option \<Rightarrow> json res" where
  "current_user sg now cookie =
     (case cookie of None \<Rightarrow> Inr JNull | Some t \<Rightarrow> if t = '''' then Inr JNull else verify_session sg now t)"

definition signed_in :: "signer \<Rightarrow> int \<Rightarrow> string option \<Rightarrow> bool res" where
  "signed_in sg now cookie = bind_res (current_user sg now cookie) (\<lambda>u. Inr (u \<noteq> JNull))"

text \<open>
  What the code relies on: a token is taken back exactly while it is no older than the limit, only
  tokens the signer made are taken back at all, and JSON reads back.
\<close>

definition honest_signer :: "signer \<Rightarrow> bool" where
  "honest_signer sg \<longleftrightarrow>
     (\<forall>m now t p. sg_unsign sg m now (sg_sign sg t p) =
        (if 0 \<le> now - t \<and> now - t \<le> m then Inr p else Inl (PyError ''SignatureExpired'' ''''))) \<and>
     (\<forall>m now tok p. sg_unsign sg m now tok = Inr p \<longrightarrow> (\<exists>t. tok = sg_sign sg t p)) \<and>
     (\<forall>t p. sg_sign sg t p \<noteq> '''') \<and> (\<forall>j. sg_loads sg (sg_dumps sg j) = Inr j)"

lemma signed_in_token:
  assumes "honest_signer sg"
  shows "signed_in sg now (Some (sign_session sg t user)) =
    Inr (0 \<le> whole_seconds now - whole_seconds t \<and> whole_seconds now - whole_seconds t \<le> SESSION_TTL_S)"
  using assms
  by (simp add: honest_signer_def signed_in_def current_user_def verify_session_def sign_session_def bad_signature_def)

text \<open>The cookie a browser holds, over the requests that set or delete it. Every other request leaves it.\<close>

datatype visit = Logs_in string | Becomes_admin string | Logs_out | Visits

definition cookie_after :: "signer \<Rightarrow> int \<times> visit \<Rightarrow> string option \<Rightarrow> string option" where
  "cookie_after sg v cookie =
     (case snd v of
        Logs_in user \<Rightarrow> Some (sign_session sg (fst v) user)
      | Becomes_admin user \<Rightarrow> Some (sign_session sg (fst v) (py_strip user))
      | Logs_out \<Rightarrow> None
      | Visits \<Rightarrow> cookie)"

lemma visits_keep_cookie:
  assumes "\<forall>v\<in>set vs. snd v = Visits"
  shows "fold (cookie_after sg) vs cookie = cookie"
  using assms by (induction vs) (simp_all add: cookie_after_def)

section \<open>Text in the operator's language\<close>

definition available_locales :: "string list" where "available_locales = [''en'', ''es'']"
definition DEFAULT_LOCALE :: string where "DEFAULT_LOCALE = ''en''"

text \<open>
  \<open>_load\<close>: the file of a language, none for one without a file, with each vendor's help texts merged
  in; a vendor without that language gives its English ones.
\<close>

type_synonym texts = "(string \<times> string) list"

definition help_for :: "(string \<times> texts) list \<Rightarrow> string \<Rightarrow> texts" where
  "help_for help l = (case map_of help l of Some t \<Rightarrow> t
     | None \<Rightarrow> (case map_of help DEFAULT_LOCALE of Some t \<Rightarrow> t | None \<Rightarrow> []))"

definition load_table :: "(string \<Rightarrow> texts option) \<Rightarrow> (string \<times> texts) list list \<Rightarrow> string \<Rightarrow> texts" where
  "load_table files helps l =
     (case files l of
        None \<Rightarrow> []
      | Some base \<Rightarrow> fold (\<lambda>help d. fold (\<lambda>(k, v). AList.update k v) (help_for help l) d) helps base)"

text \<open>\<open>Translator\<close>; \<open>table\<close> is \<open>_load\<close>, the file of a language with the vendors' help texts merged in.\<close>

record translator =
  tr_locale :: string
  tr_dict :: "(string \<times> string) list"
  tr_fallback :: "(string \<times> string) list"

definition get_translator :: "(string \<Rightarrow> (string \<times> string) list) \<Rightarrow> string option \<Rightarrow> translator" where
  "get_translator table wanted =
     (let asked = (case wanted of None \<Rightarrow> DEFAULT_LOCALE | Some l \<Rightarrow> if l = '''' then DEFAULT_LOCALE else l);
          l = (if asked \<in> set available_locales then asked else DEFAULT_LOCALE);
          d = table l
      in \<lparr>tr_locale = l, tr_dict = d, tr_fallback = (if l \<noteq> DEFAULT_LOCALE then table DEFAULT_LOCALE else d)\<rparr>)"

text \<open>
  \<open>str.format\<close> over named fields, the only ones the tables use: a doubled brace is one brace, a name
  that is not given is a \<open>KeyError\<close>, a brace without its partner a \<open>ValueError\<close>.
\<close>

definition open_brace :: char where "open_brace = char_of (123::nat)"
definition close_brace :: char where "close_brace = char_of (125::nat)"

definition format_error :: exn where
  "format_error = PyError ''ValueError'' ''Single brace encountered in format string''"

fun format_from :: "(string \<times> string) list \<Rightarrow> string option \<Rightarrow> string \<Rightarrow> string res" where
  "format_from kw None [] = Inr ''''"
| "format_from kw (Some name) [] = Inl format_error"
| "format_from kw None (c # s) =
     (if c = open_brace then
        (if s \<noteq> [] \<and> hd s = open_brace then bind_res (format_from kw None (tl s)) (\<lambda>r. Inr (open_brace # r))
         else format_from kw (Some '''') s)
      else if c = close_brace then
        (if s \<noteq> [] \<and> hd s = close_brace then bind_res (format_from kw None (tl s)) (\<lambda>r. Inr (close_brace # r))
         else Inl format_error)
      else bind_res (format_from kw None s) (\<lambda>r. Inr (c # r)))"
| "format_from kw (Some name) (c # s) =
     (if c = close_brace then
        (case map_of kw name of
           None \<Rightarrow> Inl (PyError ''KeyError'' name)
         | Some v \<Rightarrow> bind_res (format_from kw None s) (\<lambda>r. Inr (v @ r)))
      else if c = open_brace then Inl format_error
      else format_from kw (Some (name @ [c])) s)"

text \<open>\<open>t\<close>: a missing or empty text falls back to English, then to its own key.\<close>

definition tr_text :: "translator \<Rightarrow> string \<Rightarrow> string" where
  "tr_text tr key =
     (let found = (\<lambda>d. case map_of d key of None \<Rightarrow> '''' | Some s \<Rightarrow> s) in
      if found (tr_dict tr) \<noteq> '''' then found (tr_dict tr)
      else if found (tr_fallback tr) \<noteq> '''' then found (tr_fallback tr) else key)"

definition translate :: "translator \<Rightarrow> string \<Rightarrow> (string \<times> string) list \<Rightarrow> string res" where
  "translate tr key kw =
     (let s = tr_text tr key in
      if kw = [] then Inr s
      else (case format_from kw None s of
              Inl e \<Rightarrow> if exn_class e = ''KeyError'' \<or> exn_class e = ''IndexError'' then Inr s else Inl e
            | Inr r \<Rightarrow> Inr r))"

text \<open>A page never shows a bare key that English has a text for.\<close>

lemma tr_text_falls_back:
  assumes "map_of (table ''en'') key = Some s" and "s \<noteq> ''''"
  shows "tr_text (get_translator table l) key \<noteq> ''''"
    "map_of (table (tr_locale (get_translator table l))) key \<in> {None, Some ''''} \<Longrightarrow> tr_text (get_translator table l) key = s"
  using assms by (auto simp: tr_text_def get_translator_def Let_def DEFAULT_LOCALE_def split: option.splits)

lemma format_plain:
  assumes "open_brace \<notin> set s" and "close_brace \<notin> set s"
  shows "format_from kw None s = Inr s"
  using assms by (induction s) (auto simp: list.case_eq_if)

section \<open>What a page is rendered with\<close>

record request =
  rq_session :: "string option"
  rq_lang :: "string option"
  rq_htmx :: bool

record page_context =
  pc_locale :: string
  pc_configured :: bool
  pc_admin_exists :: bool
  pc_engine :: "(engine_status \<times> string) option"

text \<open>The site a request meets besides the pages' own parameters: display names, the signer and the tables of texts.\<close>

record gate =
  gt_pages :: page_env
  gt_signer :: signer
  gt_display :: "string \<Rightarrow> string"
  gt_table :: "string \<Rightarrow> (string \<times> string) list"

definition request_user :: "gate \<Rightarrow> int \<Rightarrow> request \<Rightarrow> bool res" where
  "request_user g now rq = signed_in (gt_signer g) now (rq_session rq)"

definition pacs_display_name :: "gate \<Rightarrow> hub \<Rightarrow> string res" where
  "pacs_display_name g h =
     bind_res (pacs_load (pg_vault (gt_pages g)) (hb_settings h)) (\<lambda>p.
     bind_res (jget_or ''vendor'' (JStr '''') (or_empty p)) (\<lambda>v.
       Inr (if jtruthy v \<and> get_descriptor (jstr v) \<noteq> None then gt_display g (jstr v) else ''the PACS'')))"

definition template_context :: "gate \<Rightarrow> int \<Rightarrow> request \<Rightarrow> hub \<Rightarrow> page_context res" where
  "template_context g now rq h =
     bind_res (is_configured (pg_vault (gt_pages g)) (hb_settings h)) (\<lambda>configured.
     bind_res (if configured then request_user g now rq else Inr False) (\<lambda>show.
     bind_res (if show then bind_res (pacs_display_name g h) (\<lambda>n. Inr (Some (hb_engine h, n))) else Inr None) (\<lambda>e.
       Inr \<lparr>pc_locale = (case rq_lang rq of None \<Rightarrow> DEFAULT_LOCALE | Some l \<Rightarrow> if l = '''' then DEFAULT_LOCALE else l),
            pc_configured = configured, pc_admin_exists = admin_exists h, pc_engine = e\<rparr>)))"

text \<open>Behind the session: what the engine is doing is on no page a visitor without one is given.\<close>

lemma status_only_for_signed:
  assumes "template_context g now rq h = Inr c" and "pc_engine c \<noteq> None"
  shows "request_user g now rq = Inr True"
  using assms by (auto simp: template_context_def bind_res_Inr_iff split: if_splits)

section \<open>Where a request ends\<close>

datatype answer = See_other string | Htmx_redirect string | Error_status nat | Rendered string page_context

text \<open>The handler of an \<open>HTTPException\<close>: a 401 that says where to sign in becomes a redirect.\<close>

definition auth_redirect :: "request \<Rightarrow> nat \<Rightarrow> string option \<Rightarrow> answer" where
  "auth_redirect rq status location =
     (case location of
        Some l \<Rightarrow> if status = 401 \<and> l \<noteq> '''' then (if rq_htmx rq then Htmx_redirect l else See_other l) else Error_status status
      | None \<Rightarrow> Error_status status)"

definition render :: "gate \<Rightarrow> int \<Rightarrow> request \<Rightarrow> hub \<Rightarrow> string \<Rightarrow> answer res" where
  "render g now rq h name = bind_res (template_context g now rq h) (\<lambda>c. Inr (Rendered name c))"

text \<open>\<open>require_admin\<close>, with the handler above around it.\<close>

definition behind_session :: "gate \<Rightarrow> int \<Rightarrow> request \<Rightarrow> (hub, answer) comp \<Rightarrow> (hub, answer) comp" where
  "behind_session g now rq m h =
     (case request_user g now rq of
        Inl e \<Rightarrow> (Inl e, h)
      | Inr b \<Rightarrow> if b then m h else (Inr (auth_redirect rq 401 (Some ''/login'')), h))"

definition index :: "gate \<Rightarrow> int \<Rightarrow> request \<Rightarrow> hub \<Rightarrow> answer res" where
  "index g now rq h =
     (if \<not> admin_exists h then Inr (See_other ''/wizard'') else
      bind_res (is_configured (pg_vault (gt_pages g)) (hb_settings h)) (\<lambda>c.
      if \<not> c then Inr (See_other ''/wizard'') else
      bind_res (request_user g now rq) (\<lambda>u. Inr (See_other (if u then ''/status'' else ''/login'')))))"

definition login_page :: "gate \<Rightarrow> int \<Rightarrow> request \<Rightarrow> hub \<Rightarrow> answer res" where
  "login_page g now rq h = (if \<not> admin_exists h then Inr (See_other ''/wizard'') else render g now rq h ''login.html'')"

definition wizard_index :: "gate \<Rightarrow> int \<Rightarrow> request \<Rightarrow> hub \<Rightarrow> answer res" where
  "wizard_index g now rq h =
     bind_res (wizard_step (gt_pages g) h) (\<lambda>s.
       if s = 4 then Inr (See_other ''/wizard/connect'')
       else render g now rq h (''wizard/step'' @ string_of_nat s @ ''.html''))"

definition status_page :: "gate \<Rightarrow> int \<Rightarrow> request \<Rightarrow> (hub, answer) comp" where
  "status_page g now rq = behind_session g now rq (\<lambda>h. (render g now rq h ''status.html'', h))"

definition status_partial :: "gate \<Rightarrow> int \<Rightarrow> request \<Rightarrow> (hub, answer) comp" where
  "status_partial g now rq = behind_session g now rq (\<lambda>h. (render g now rq h ''_status_card.html'', h))"

definition sync_run :: "gate \<Rightarrow> int \<Rightarrow> request \<Rightarrow> (hub, answer) comp" where
  "sync_run g now rq = behind_session g now rq (\<lambda>h. (Inr (See_other ''/status''), on_engine trigger_now h))"

text \<open>\<open>agsync reset-admin\<close>.\<close>

definition reset_admin :: "hub \<Rightarrow> hub" where
  "reset_admin h = h\<lparr>hb_site := delete_admin (hb_site h)\<rparr>"

text \<open>
  \<open>lifespan\<close>, as far as it decides something: a configured hub starts its engine, and reading the
  configuration is not guarded. The migrations, the log handler and the status thread come up around it.
\<close>

definition boot :: "gate \<Rightarrow> (hub, unit) comp" where
  "boot g h =
     (case is_configured (pg_vault (gt_pages g)) (hb_settings h) of
        Inl e \<Rightarrow> (Inl e, h)
      | Inr c \<Rightarrow> (Inr (), if c then start_engine h else h))"

section \<open>The connection tests\<close>

text \<open>\<open>_request_allowed\<close>: everyone until the install is configured.\<close>

definition request_allowed :: "gate \<Rightarrow> int \<Rightarrow> request \<Rightarrow> hub \<Rightarrow> bool res" where
  "request_allowed g now rq h =
     bind_res (is_configured (pg_vault (gt_pages g)) (hb_settings h)) (\<lambda>c. if \<not> c then Inr True else request_user g now rq)"

record test_payload =
  tp_ok :: bool
  tp_message :: string
  tp_html :: string

definition result_payload :: "gate \<Rightarrow> request \<Rightarrow> bool \<Rightarrow> string \<Rightarrow> test_payload res" where
  "result_payload g rq ok message =
     (let tr = get_translator (gt_table g) (rq_lang rq) in
      bind_res (if ok then translate tr ''test.ok'' [] else translate tr ''test.failed'' [(''error'', message)]) (\<lambda>text.
        Inr \<lparr>tp_ok = ok, tp_message = text,
          tp_html = ''<div class='' @ [CHR 0x22] @ ''test-result '' @ (if ok then ''ok'' else ''err'') @ [CHR 0x22] @ ''>'' @ text @ ''</div>''\<rparr>))"

definition unauthorized :: test_payload where
  "unauthorized = \<lparr>tp_ok = False, tp_message = ''Unauthorized'', tp_html = ''''\<rparr>"

text \<open>The tests themselves talk to AccessGrid and to the PACS: they are given as functions, and leave the hub alone.\<close>

definition test_ag :: "gate \<Rightarrow> (string \<Rightarrow> string \<Rightarrow> string \<Rightarrow> bool \<times> string) \<Rightarrow> int \<Rightarrow> request \<Rightarrow> hub \<Rightarrow> string \<Rightarrow> string \<Rightarrow> string \<Rightarrow> test_payload res" where
  "test_ag g ask now rq h account secret template =
     bind_res (request_allowed g now rq h) (\<lambda>ok.
       if \<not> ok then Inr unauthorized
       else (case ask (py_strip account) (py_strip secret) (py_strip template) of (b, m) \<Rightarrow> result_payload g rq b m))"

definition test_pacs :: "gate \<Rightarrow> (string \<Rightarrow> (string \<times> string) list \<Rightarrow> (bool \<times> string) res) \<Rightarrow> int \<Rightarrow> request \<Rightarrow> hub \<Rightarrow>
    (string \<times> string) list \<Rightarrow> test_payload res" where
  "test_pacs g ask now rq h form =
     bind_res (request_allowed g now rq h) (\<lambda>ok.
       if \<not> ok then Inr unauthorized
       else (case ask (form_get form ''vendor'' '''') (List.filter (\<lambda>kv. fst kv \<noteq> ''vendor'') form) of
               Inl e \<Rightarrow> result_payload g rq False (exn_class e @ '': '' @ exn_message e)
             | Inr (b, m) \<Rightarrow> result_payload g rq b m))"

section \<open>A database no key opens\<close>

text \<open>The stored account does not open: encryption raises whatever is asked of it.\<close>

lemma configured_fails:
  assumes "setting_get rows AG_KEY = Some raw" and "raw \<noteq> ''''" and "va_open v raw = Inl e"
  shows "is_configured v rows = Inl e"
  using assms by (simp add: is_configured_def ag_load_def get_json_def)

lemma context_fails:
  assumes "is_configured (pg_vault (gt_pages g)) (hb_settings h) = Inl e"
  shows "template_context g now rq h = Inl e" "render g now rq h name = Inl e"
  using assms by (simp_all add: template_context_def render_def)

end
