(* ===== verification/Operator_Views.thy ===== *)
theory Operator_Views
  imports Web_Gate Ag_Client
begin

text \<open>
  The pages that show what is stored: the settings page with its trigger picker
  (\<open>routes/settings.py\<close>), the list of issued passes (\<open>routes/credentials.py\<close>) and what the wizard
  reads from either system (\<open>routes/connect.py\<close>). A page is the values its template is given.
\<close>

text \<open>A page behind the session: the redirect of a visitor without one, or the page.\<close>

definition shown_to_signed :: "gate \<Rightarrow> int \<Rightarrow> request \<Rightarrow> (hub \<Rightarrow> 'v res) \<Rightarrow> hub \<Rightarrow> (answer + 'v \<times> page_context) res" where
  "shown_to_signed g now rq page h =
     bind_res (request_user g now rq) (\<lambda>u.
       if \<not> u then Inr (Inl (auth_redirect rq 401 (Some ''/login'')))
       else bind_res (page h) (\<lambda>v. bind_res (template_context g now rq h) (\<lambda>c. Inr (Inr (v, c)))))"

section \<open>The settings page\<close>

text \<open>What the page shows of this host, besides the tables.\<close>

record page_facts =
  pf_dry_run :: bool
  pf_db_path :: string
  pf_host_port :: string
  pf_ips :: "string list"
  pf_version :: string

record settings_view =
  sv_facts :: page_facts
  sv_account :: json
  sv_template :: json
  sv_site_code :: json
  sv_dedupe :: bool
  sv_extra :: "(string \<times> json) list"
  sv_card_title :: json
  sv_classification :: json
  sv_reserved :: "string list"
  sv_vendor :: json
  sv_param_keys :: "string list"
  sv_requires_connect :: bool
  sv_has_trigger :: bool
  sv_addresses :: "(string \<times> json) list"
  sv_email_domain :: json
  sv_notify_email :: json
  sv_session_at :: json
  sv_smtp :: "json list"
  sv_smtp_ssl :: bool
  sv_flash :: "string \<times> string \<times> string"

text \<open>What is taken from the account's configuration, from the relay's, and from the captured session.\<close>

definition account_view :: "json \<Rightarrow> settings_view \<Rightarrow> settings_view res" where
  "account_view ag w =
     bind_res (jget ''extra_metadata'' ag) (\<lambda>x. bind_res (as_dict (jor x (JObj []))) (\<lambda>extras.
     bind_res (jget_or ''account_id'' (JStr '''') ag) (\<lambda>a. bind_res (jget_or ''template_id'' (JStr '''') ag) (\<lambda>t.
     bind_res (jget_or ''site_code'' (JStr '''') ag) (\<lambda>s. bind_res (jget_or ''dedupe_by_site_card'' (JBool False) ag) (\<lambda>d.
     bind_res (jget_or ''card_title'' (JStr '''') ag) (\<lambda>ct.
     bind_res (jget_or ''card_classification'' (JStr DEFAULT_CARD_CLASSIFICATION) ag) (\<lambda>cc.
       Inr (w\<lparr>sv_account := a, sv_template := t, sv_site_code := s, sv_dedupe := jtruthy d, sv_extra := extras,
              sv_card_title := ct, sv_classification := cc\<rparr>)))))))))"

definition relay_view :: "json \<Rightarrow> settings_view \<Rightarrow> settings_view res" where
  "relay_view smtp w =
     bind_res (jget_or ''smtp_host'' (JStr '''') smtp) (\<lambda>h. bind_res (jget_or ''smtp_port'' (JInt 587) smtp) (\<lambda>p.
     bind_res (jget_or ''from_address'' (JStr '''') smtp) (\<lambda>f. bind_res (jget_or ''smtp_username'' (JStr '''') smtp) (\<lambda>u.
     bind_res (jget_or ''use_ssl'' (JBool False) smtp) (\<lambda>s.
       Inr (w\<lparr>sv_smtp := [h, p, f, u], sv_smtp_ssl := jtruthy s\<rparr>))))))"

definition session_view :: "json \<Rightarrow> settings_view \<Rightarrow> settings_view res" where
  "session_view session w =
     bind_res (jget ''auth_cookie'' session) (\<lambda>c. bind_res (jget_or ''captured_at'' (JStr '''') session) (\<lambda>t.
       Inr (w\<lparr>sv_session_at := if jtruthy c then t else JStr ''''\<rparr>)))"

text \<open>The connection: the names of its parameters, and the values of those that are addresses.\<close>

definition plookup :: "params \<Rightarrow> string \<Rightarrow> json \<Rightarrow> json" where
  "plookup ps k v = (case map_of ps k of None \<Rightarrow> v | Some u \<Rightarrow> u)"

definition connection_view :: "gate \<Rightarrow> json \<Rightarrow> params \<Rightarrow> settings_view \<Rightarrow> settings_view" where
  "connection_view g vendor ps w =
     (let d = (if jtruthy vendor then get_descriptor (jstr vendor) else None)
      in w\<lparr>sv_vendor := (case d of None \<Rightarrow> vendor | Some _ \<Rightarrow> JStr (gt_display g (jstr vendor))),
           sv_param_keys := List.map fst ps,
           sv_requires_connect := (case d of None \<Rightarrow> False | Some e \<Rightarrow> de_requires_connect e),
           sv_has_trigger := (map_of ps ''trigger_card_format'' \<noteq> None),
           sv_addresses := List.map (\<lambda>f. (f, plookup ps f (JStr ''''))) (address_fields d),
           sv_email_domain := plookup ps ''email_domain'' JNull,
           sv_notify_email := plookup ps ''notify_email'' (JStr '''')\<rparr>)"

definition empty_view :: "page_facts \<Rightarrow> string \<times> string \<times> string \<Rightarrow> settings_view" where
  "empty_view facts flash = \<lparr>sv_facts = facts, sv_account = JStr '''', sv_template = JStr '''', sv_site_code = JStr '''',
     sv_dedupe = False, sv_extra = [], sv_card_title = JStr '''', sv_classification = JStr '''',
     sv_reserved = sort RESERVED_METADATA_KEYS, sv_vendor = JStr '''', sv_param_keys = [], sv_requires_connect = False,
     sv_has_trigger = False, sv_addresses = [], sv_email_domain = JNull, sv_notify_email = JStr '''',
     sv_session_at = JStr '''', sv_smtp = [], sv_smtp_ssl = False, sv_flash = flash\<rparr>"

definition settings_view :: "gate \<Rightarrow> page_facts \<Rightarrow> string \<times> string \<times> string \<Rightarrow> hub \<Rightarrow> settings_view res" where
  "settings_view g facts flash h =
     (let v = pg_vault (gt_pages g); rows = hb_settings h in
      bind_res (ag_load v rows) (\<lambda>a. bind_res (pacs_load v rows) (\<lambda>p.
      bind_res (jget_or ''vendor'' (JStr '''') (or_empty p)) (\<lambda>vendor.
      bind_res (jget ''params'' (or_empty p)) (\<lambda>q. bind_res (as_dict (jor q (JObj []))) (\<lambda>ps.
      bind_res (mail_load v rows) (\<lambda>m. bind_res (session_load v (jstr vendor) rows) (\<lambda>s.
      bind_res (account_view (or_empty a) (connection_view g vendor ps (empty_view facts flash))) (\<lambda>w.
      bind_res (session_view (or_empty s) w) (relay_view (or_empty m)))))))))))"

definition settings_page :: "gate \<Rightarrow> page_facts \<Rightarrow> string \<times> string \<times> string \<Rightarrow> int \<Rightarrow> request \<Rightarrow> hub \<Rightarrow>
    (answer + settings_view \<times> page_context) res" where
  "settings_page g facts flash now rq = shown_to_signed g now rq (settings_view g facts flash)"

section \<open>What the settings page gives away\<close>

text \<open>Two stored dictionaries that differ at most in the values under some names.\<close>

definition same_but :: "string set \<Rightarrow> (string \<times> json) list \<Rightarrow> (string \<times> json) list \<Rightarrow> bool" where
  "same_but ks d d' \<longleftrightarrow> List.map fst d = List.map fst d' \<and> (\<forall>k. k \<notin> ks \<longrightarrow> map_of d k = map_of d' k)"

definition both_hold :: "json option res \<Rightarrow> json option res \<Rightarrow> ((string \<times> json) list \<Rightarrow> (string \<times> json) list \<Rightarrow> bool) \<Rightarrow> bool" where
  "both_hold r r' P \<longleftrightarrow> r = r' \<or> (\<exists>d d'. r = Inr (Some (JObj d)) \<and> r' = Inr (Some (JObj d')) \<and> P d d')"

definition secret_params :: "json \<Rightarrow> string set" where
  "secret_params vendor =
     (case get_descriptor (jstr vendor) of
        None \<Rightarrow> {} | Some d \<Rightarrow> set (List.map cf_id (List.filter (\<lambda>f. cf_kind f = Password_field) (de_fields d))))"

definition same_pacs :: "(string \<times> json) list \<Rightarrow> (string \<times> json) list \<Rightarrow> bool" where
  "same_pacs d d' \<longleftrightarrow> same_but {''params''} d d' \<and>
     (\<exists>ps ps'. jlookup d ''params'' = JObj ps \<and> jlookup d' ''params'' = JObj ps' \<and>
        same_but (secret_params (plookup d ''vendor'' (JStr ''''))) ps ps')"

definition same_session :: "(string \<times> json) list \<Rightarrow> (string \<times> json) list \<Rightarrow> bool" where
  "same_session d d' \<longleftrightarrow> List.map fst d = List.map fst d' \<and> jtruthy (jlookup d ''auth_cookie'') = jtruthy (jlookup d' ''auth_cookie'') \<and>
     map_of d ''captured_at'' = map_of d' ''captured_at''"

text \<open>
  Two hubs alike but for their secrets: the API secret, the vendor's password fields, the captured
  cookies and the relay's password.
\<close>

definition alike_but_secrets :: "vault \<Rightarrow> settings \<Rightarrow> settings \<Rightarrow> bool" where
  "alike_but_secrets v rows rows' \<longleftrightarrow>
     both_hold (ag_load v rows) (ag_load v rows') (same_but {''api_secret''}) \<and>
     both_hold (pacs_load v rows) (pacs_load v rows') same_pacs \<and>
     both_hold (mail_load v rows) (mail_load v rows') (same_but {''smtp_password''}) \<and>
     (\<forall>vendor. both_hold (session_load v vendor rows) (session_load v vendor rows') same_session)"

lemma same_but_lookup:
  "same_but ks d d' \<Longrightarrow> k \<notin> ks \<Longrightarrow> jlookup d k = jlookup d' k \<and> plookup d k v = plookup d' k v"
  by (simp add: same_but_def jlookup_def plookup_def)

lemma jget_or_plookup: "jget_or k v (JObj d) = Inr (plookup d k v)"
  by (simp add: plookup_def)

text \<open>\<open>x or {}\<close> of a dictionary is a dictionary with the same entries.\<close>

lemma or_empty_obj: "or_empty (Some (JObj d)) = JObj d"
  by (cases d) (simp_all add: or_empty_def jor_def)

lemma account_view_alike:
  assumes "same_but {''api_secret''} d d'"
  shows "account_view (JObj d) w = account_view (JObj d') w"
proof -
  note same = same_but_lookup [OF assms]
  have "jlookup d ''extra_metadata'' = jlookup d' ''extra_metadata''" using same by simp
  moreover have "plookup d k v = plookup d' k v" if "k \<noteq> ''api_secret''" for k v using same that by simp
  ultimately show ?thesis by (simp add: account_view_def jget_or_plookup del: jget_or.simps)
qed

lemma relay_view_alike:
  assumes "same_but {''smtp_password''} d d'"
  shows "relay_view (JObj d) w = relay_view (JObj d') w"
proof -
  have "plookup d k v = plookup d' k v" if "k \<noteq> ''smtp_password''" for k v using same_but_lookup [OF assms] that by simp
  then show ?thesis by (simp add: relay_view_def jget_or_plookup del: jget_or.simps)
qed

lemma session_view_alike: "same_session d d' \<Longrightarrow> session_view (JObj d) w = session_view (JObj d') w"
  by (simp add: session_view_def same_session_def)

lemma secret_params_names: "secret_params vendor \<subseteq> {''password''}"
  by (simp add: secret_params_def descriptor_defs del: set_filter)

lemma secret_params_plain:
  "secret_params vendor \<inter> ({''trigger_card_format'', ''email_domain'', ''notify_email''} \<union> set (address_fields (get_descriptor (jstr vendor)))) = {}"
  using secret_params_names [of vendor] address_fields_cases [of "jstr vendor"] by auto

lemma connection_view_alike:
  assumes "same_but (secret_params vendor) ps ps'"
  shows "connection_view g vendor ps w = connection_view g vendor ps' w"
proof -
  have same: "map_of ps k = map_of ps' k" if "k \<in> {''trigger_card_format'', ''email_domain'', ''notify_email''} \<union> set (address_fields (get_descriptor (jstr vendor)))" for k
    using assms secret_params_plain [of vendor] that by (auto simp: same_but_def)
  have "plookup ps f v = plookup ps' f v" if "f \<in> set (address_fields (if jtruthy vendor then get_descriptor (jstr vendor) else None))" for f v
    using same that by (auto simp: plookup_def address_fields_def split: if_splits)
  moreover have "List.map fst ps = List.map fst ps'" using assms by (simp add: same_but_def)
  ultimately show ?thesis using same by (simp add: connection_view_def Let_def plookup_def)
qed

text \<open>The PACS half of \<open>is_configured\<close>.\<close>

definition pacs_ready :: "json \<Rightarrow> bool res" where
  "pacs_ready pacs = bind_res (jget_or ''vendor'' (JStr '''') pacs) (\<lambda>vendor.
     if requires_connect (jstr vendor)
     then bind_res (jget ''params'' pacs) (\<lambda>ps. bind_res (oget ''trigger_card_format'' ps) (\<lambda>t. Inr (jtruthy t)))
     else Inr True)"

lemma is_configured_halves:
  "is_configured v rows = bind_res (ag_load v rows) (\<lambda>a. if a = None then Inr False
     else bind_res (pacs_load v rows) (\<lambda>p. case p of None \<Rightarrow> Inr False | Some j \<Rightarrow> pacs_ready j))"
  by (auto simp: is_configured_def pacs_ready_def bind_res_def split: sum.split option.split)

lemma pacs_ready_alike:
  assumes "same_pacs d d'"
  shows "pacs_ready (JObj d) = pacs_ready (JObj d')"
proof -
  from assms obtain ps ps' where params: "jlookup d ''params'' = JObj ps" "jlookup d' ''params'' = JObj ps'"
    and same: "same_but (secret_params (plookup d ''vendor'' (JStr ''''))) ps ps'" and top: "same_but {''params''} d d'"
    by (auto simp: same_pacs_def)
  have "''trigger_card_format'' \<notin> secret_params (plookup d ''vendor'' (JStr ''''))" using secret_params_plain by blast
  moreover have "plookup d ''vendor'' (JStr '''') = plookup d' ''vendor'' (JStr '''')" using same_but_lookup [OF top] by simp
  ultimately show ?thesis
    by (simp add: pacs_ready_def jget_or_plookup oget_obj params same_but_lookup [OF same] del: jget_or.simps)
qed

lemma configured_alike:
  assumes "alike_but_secrets v rows rows'"
  shows "is_configured v rows = is_configured v rows'"
proof -
  have "both_hold (ag_load v rows) (ag_load v rows') (same_but {''api_secret''})" "both_hold (pacs_load v rows) (pacs_load v rows') same_pacs"
    using assms by (simp_all add: alike_but_secrets_def)
  then have "bind_res (pacs_load v rows) (\<lambda>p. case p of None \<Rightarrow> Inr False | Some j \<Rightarrow> pacs_ready j) =
      bind_res (pacs_load v rows') (\<lambda>p. case p of None \<Rightarrow> Inr False | Some j \<Rightarrow> pacs_ready j)"
    and "ag_load v rows = ag_load v rows' \<or> (\<exists>d d'. ag_load v rows = Inr (Some (JObj d)) \<and> ag_load v rows' = Inr (Some (JObj d')))"
    using pacs_ready_alike by (auto simp: both_hold_def)
  then show ?thesis by (auto simp: is_configured_halves cong: if_cong)
qed

lemma display_name_alike:
  assumes "both_hold (pacs_load (pg_vault (gt_pages g)) (hb_settings h)) (pacs_load (pg_vault (gt_pages g)) (hb_settings h')) same_pacs"
  shows "pacs_display_name g h = pacs_display_name g h'"
proof -
  have "plookup d ''vendor'' v = plookup d' ''vendor'' v" if "same_pacs d d'" for d d' v
    using that same_but_lookup [of "{''params''}" d d'] by (simp add: same_pacs_def)
  then show ?thesis using assms by (auto simp: pacs_display_name_def both_hold_def or_empty_obj jget_or_plookup simp del: jget_or.simps)
qed

text \<open>One configuration read from either hub, and what is done with it.\<close>

definition held :: "((string \<times> json) list \<Rightarrow> (string \<times> json) list \<Rightarrow> bool) \<Rightarrow> json option \<Rightarrow> json option \<Rightarrow> bool" where
  "held P a a' \<longleftrightarrow> a = a' \<or> (\<exists>d d'. a = Some (JObj d) \<and> a' = Some (JObj d') \<and> P d d')"

lemma both_hold_bind:
  assumes "both_hold r r' P" and "\<And>a a'. held P a a' \<Longrightarrow> f a = f' a'"
  shows "bind_res r f = bind_res r' f'"
proof (cases "r = r'")
  case True
  have "f a = f' a" for a using assms(2) by (simp add: held_def)
  then have "f = f'" by (rule ext)
  then show ?thesis using True by simp
next
  case False
  then show ?thesis using assms by (auto simp: both_hold_def held_def)
qed

lemma held_view:
  assumes "held P a a'" and "\<And>d d' w. P d d' \<Longrightarrow> view (JObj d) w = view (JObj d') w"
  shows "view (or_empty a) w = view (or_empty a') w"
  using assms by (auto simp: held_def or_empty_obj)

lemma pacs_parts_alike:
  assumes "held same_pacs p p'" and "\<And>v ps ps'. same_but (secret_params v) ps ps' \<Longrightarrow> f v ps = f' v ps'"
  shows "bind_res (jget_or ''vendor'' (JStr '''') (or_empty p)) (\<lambda>v. bind_res (jget ''params'' (or_empty p))
      (\<lambda>q. bind_res (as_dict (jor q (JObj []))) (f v))) =
    bind_res (jget_or ''vendor'' (JStr '''') (or_empty p')) (\<lambda>v. bind_res (jget ''params'' (or_empty p'))
      (\<lambda>q. bind_res (as_dict (jor q (JObj []))) (f' v)))"
proof (cases "p = p'")
  case True
  have "f v ps = f' v ps" for v ps using assms(2) by (simp add: same_but_def)
  then have "f = f'" by (intro ext)
  then show ?thesis using True by simp
next
  case False
  then obtain d d' where p: "p = Some (JObj d)" "p' = Some (JObj d')" and same: "same_pacs d d'"
    using assms(1) by (auto simp: held_def)
  from same obtain ps ps' where params: "jlookup d ''params'' = JObj ps" "jlookup d' ''params'' = JObj ps'"
    and inner: "same_but (secret_params (plookup d ''vendor'' (JStr ''''))) ps ps'" and top: "same_but {''params''} d d'"
    by (auto simp: same_pacs_def)
  have objs: "as_dict (jor (JObj q) (JObj [])) = Inr q" for q by (cases q) (simp_all add: jor_def)
  have "plookup d ''vendor'' (JStr '''') = plookup d' ''vendor'' (JStr '''')" using same_but_lookup [OF top] by simp
  then show ?thesis using assms(2) [OF inner] by (simp add: p or_empty_obj jget_or_plookup params objs del: jget_or.simps)
qed

lemma settings_view_alike:
  assumes "alike_but_secrets (pg_vault (gt_pages g)) (hb_settings h) (hb_settings h')"
  shows "settings_view g facts flash h = settings_view g facts flash h'"
proof -
  let ?v = "pg_vault (gt_pages g)" and ?w = "empty_view facts flash"
  have both: "both_hold (ag_load ?v (hb_settings h)) (ag_load ?v (hb_settings h')) (same_but {''api_secret''})"
    "both_hold (pacs_load ?v (hb_settings h)) (pacs_load ?v (hb_settings h')) same_pacs"
    "both_hold (mail_load ?v (hb_settings h)) (mail_load ?v (hb_settings h')) (same_but {''smtp_password''})"
    "\<And>vendor. both_hold (session_load ?v vendor (hb_settings h)) (session_load ?v vendor (hb_settings h')) same_session"
    using assms by (simp_all add: alike_but_secrets_def)
  have last: "bind_res (account_view (or_empty a) (connection_view g vendor ps ?w))
      (\<lambda>w. bind_res (session_view (or_empty s) w) (relay_view (or_empty m))) =
    bind_res (account_view (or_empty a') (connection_view g vendor ps' ?w))
      (\<lambda>w. bind_res (session_view (or_empty s') w) (relay_view (or_empty m')))"
    if "held (same_but {''api_secret''}) a a'" "same_but (secret_params vendor) ps ps'" "held (same_but {''smtp_password''}) m m'"
      "held same_session s s'" for a a' vendor ps ps' m m' s s'
  proof -
    have "relay_view (or_empty m) = relay_view (or_empty m')"
      using held_view [where view = relay_view, OF that(3) relay_view_alike] by (intro ext)
    moreover have "session_view (or_empty s) w = session_view (or_empty s') w" for w
      using held_view [where view = session_view, OF that(4) session_view_alike] .
    moreover have "account_view (or_empty a) w = account_view (or_empty a') w" for w
      using held_view [where view = account_view, OF that(1) account_view_alike] .
    ultimately show ?thesis using connection_view_alike [OF that(2)] by simp
  qed
  show ?thesis unfolding settings_view_def Let_def
    by (rule both_hold_bind [OF both(1)], rule both_hold_bind [OF both(2)], rule pacs_parts_alike, assumption,
        rule both_hold_bind [OF both(3)], rule both_hold_bind [OF both(4)], rule last)
qed

section \<open>The trigger picker and the card formats\<close>

record picker =
  pk_formats :: "(string \<times> string) list"
  pk_current :: string
  pk_error :: string

definition trigger_format_view :: "gate \<Rightarrow> hub \<Rightarrow> picker res" where
  "trigger_format_view g h =
     bind_res (pacs_load (pg_vault (gt_pages g)) (hb_settings h)) (\<lambda>p.
     bind_res (jget ''params'' (or_empty p)) (\<lambda>q.
     bind_res (jget ''trigger_card_format'' (jor q (JObj []))) (\<lambda>t.
       Inr (case bind_res (jindex ''vendor'' (or_empty p)) (\<lambda>v. bind_res (as_dict (jor q (JObj []))) (\<lambda>ps.
              pg_card_formats (gt_pages g) (jstr v) ps)) of
            Inl e \<Rightarrow> \<lparr>pk_formats = [], pk_current = text_or_empty t, pk_error = exn_class e @ '': '' @ exn_message e\<rparr>
          | Inr fs \<Rightarrow> \<lparr>pk_formats = fs, pk_current = text_or_empty t, pk_error = ''''\<rparr>))))"

text \<open>\<open>_read_card_formats\<close>, with the vendor and the parameters that were read before it.\<close>

definition read_card_formats :: "gate \<Rightarrow> string \<Rightarrow> params res \<Rightarrow> (string \<times> string) list \<times> string" where
  "read_card_formats g vendor ps =
     (if get_descriptor vendor = None then ([], ''No PACS adapter is configured'')
      else (case bind_res ps (pg_card_formats (gt_pages g) vendor) of
              Inl e \<Rightarrow> ([], exn_class e @ '': '' @ exn_message e)
            | Inr fs \<Rightarrow> (fs, '''')))"

section \<open>The direction, and the adapter of a page\<close>

text \<open>
  What the pages ask of either system: the templates an id names, a pass by its id, an adapter built
  for a connection, and the picture of an address.
\<close>

record 'p shop =
  sp_templates :: "json \<Rightarrow> json \<Rightarrow> json \<Rightarrow> exn + ag_entry list"
  sp_card :: "json \<Rightarrow> json \<Rightarrow> string \<Rightarrow> ag_entry res"
  sp_build :: "string \<Rightarrow> params \<Rightarrow> ('p pacs_api \<times> 'p) res"
  sp_qr :: "string \<Rightarrow> string"

definition derives_mode :: "string \<Rightarrow> bool" where
  "derives_mode vendor \<longleftrightarrow> vendor = ''millennium_ultra''"

text \<open>\<open>_detected_mode\<close>.\<close>

definition detected_mode :: "'p shop \<Rightarrow> gate \<Rightarrow> hub \<Rightarrow> string res" where
  "detected_mode sp g h =
     bind_res (ag_load (pg_vault (gt_pages g)) (hb_settings h)) (\<lambda>a. let ag = or_empty a in
       if \<not> jtruthy ag then Inr ''desfire''
       else Inr (case bind_res (jindex ''account_id'' ag) (\<lambda>i. bind_res (jindex ''api_secret'' ag) (\<lambda>s.
                  bind_res (jindex ''template_id'' ag) (\<lambda>t. Inr (template_protocol (sp_templates sp i s t))))) of
              Inl e \<Rightarrow> ''desfire'' | Inr protocol \<Rightarrow> mode_of_protocol protocol))"

text \<open>\<open>derived_pacs_params\<close> on the stored configuration.\<close>

definition derived_config :: "'p shop \<Rightarrow> json \<Rightarrow> json \<Rightarrow> json \<Rightarrow> json \<Rightarrow> json res" where
  "derived_config sp account secret ag pacs =
     bind_res (jget_or ''vendor'' (JStr '''') pacs) (\<lambda>v.
       if \<not> derives_mode (jstr v) then Inr pacs
       else bind_res (jindex ''template_id'' ag) (\<lambda>t.
            bind_res (jget ''params'' pacs) (\<lambda>p. bind_res (as_dict (jor p (JObj []))) (\<lambda>ps.
              let (protocol, pair) = template_shape (sp_templates sp account secret t)
              in json_put ''params'' (JObj (AList.update ''pair'' (JBool pair)
                   (AList.update ''mode'' (JStr (mode_of_protocol protocol)) ps))) pacs))))"

section \<open>The issued passes\<close>

definition listed_passes :: "table \<Rightarrow> tracked list" where
  "listed_passes rows = List.filter (\<lambda>c. has_card c \<and> t_status c \<noteq> ''deduped'') (all_tracked rows)"

text \<open>\<open>_written_credentials\<close>: what reached the PACS, and what to call it; nothing when that cannot be told.\<close>

type_synonym written = "((string \<times> string) \<times> string list) list"

definition adapter_config :: "'p shop \<Rightarrow> json option \<Rightarrow> json \<Rightarrow> json res" where
  "adapter_config sp a pacs =
     (if \<not> jtruthy (or_empty a) then Inr pacs
      else bind_res (jindex ''account_id'' (or_empty a)) (\<lambda>i. bind_res (jindex ''api_secret'' (or_empty a)) (\<lambda>s.
             derived_config sp i s (or_empty a) pacs)))"

definition ask_written :: "'p shop \<Rightarrow> gate \<Rightarrow> hub \<Rightarrow> json \<Rightarrow> string \<Rightarrow> (written \<times> string) res" where
  "ask_written sp g h pacs vendor =
     bind_res (ag_load (pg_vault (gt_pages g)) (hb_settings h)) (\<lambda>a.
     bind_res (adapter_config sp a pacs) (\<lambda>resolved.
     bind_res (jget ''params'' resolved) (\<lambda>p. bind_res (as_dict (jor p (JObj []))) (\<lambda>ps.
     bind_res (sp_build sp vendor ps) (\<lambda>(api, s).
       if \<not> pacs_supports_credential_writeback api s then Inr ([], '''')
       else bind_res (fst (pacs_written_credentials api s)) (\<lambda>w. Inr (w, gt_display g vendor)))))))"

definition written_view :: "'p shop \<Rightarrow> gate \<Rightarrow> hub \<Rightarrow> (written \<times> string) res" where
  "written_view sp g h =
     bind_res (pacs_load (pg_vault (gt_pages g)) (hb_settings h)) (\<lambda>p.
     bind_res (jget_or ''vendor'' (JStr '''') (or_empty p)) (\<lambda>v.
       if \<not> jtruthy v \<or> get_descriptor (jstr v) = None then Inr ([], '''')
       else Inr (case ask_written sp g h (or_empty p) (jstr v) of
              Inl e \<Rightarrow> ([], gt_display g (jstr v)) | Inr x \<Rightarrow> x)))"

definition credentials_page :: "'p shop \<Rightarrow> gate \<Rightarrow> table \<Rightarrow> int \<Rightarrow> request \<Rightarrow> hub \<Rightarrow>
    (answer + (tracked list \<times> written \<times> string) \<times> page_context) res" where
  "credentials_page sp g rows now rq = shown_to_signed g now rq (\<lambda>h.
     bind_res (written_view sp g h) (\<lambda>w. Inr (listed_passes rows, w)))"

text \<open>The row of one pass: the address it is installed from with its picture, or why there is none.\<close>

datatype install = Install_error string | Install_at string string

definition install_url :: "ag_entry \<Rightarrow> pyval" where
  "install_url c = (if truthy (attr_of c ''install_url'') then attr_of c ''install_url'' else attr_of c ''url'')"

definition credentials_install :: "'p shop \<Rightarrow> gate \<Rightarrow> string \<Rightarrow> hub \<Rightarrow> install res" where
  "credentials_install sp g card_id h =
     bind_res (ag_load (pg_vault (gt_pages g)) (hb_settings h)) (\<lambda>a. let ag = or_empty a in
       if \<not> jtruthy ag then Inr (Install_error ''AccessGrid not configured'')
       else Inr (case bind_res (jindex ''account_id'' ag) (\<lambda>i. bind_res (jindex ''api_secret'' ag) (\<lambda>s. sp_card sp i s card_id)) of
              Inl (AccessGridError m) \<Rightarrow> Install_error m
            | Inl e \<Rightarrow> Install_error (exn_class e @ '': '' @ exn_message e)
            | Inr c \<Rightarrow> if truthy (install_url c) then Install_at (py_str (install_url c)) (sp_qr sp (py_str (install_url c)))
                      else Install_error ''No install URL on this card yet''))"

text \<open>A listing page must still render: past the configuration of the PACS nothing raises.\<close>

lemma written_view_returns:
  assumes "pacs_load (pg_vault (gt_pages g)) (hb_settings h) = Inr (Some (JObj d))"
  shows "\<exists>w. written_view sp g h = Inr w"
  using assms by (simp add: written_view_def or_empty_obj)

end
