(* ===== verification/Uri_Register.thy ===== *)
theory Uri_Register
  imports Connect_Wire
begin

text \<open>
  \<open>connect/register.py\<close>: the \<open>agconnect\<close> scheme is claimed with the operating system, in the
  registry of Windows or by a compiled applet on macOS, and given up again. The registry is the
  list of its keys with their values, an applet the dictionary of its \<open>Info.plist\<close>; the compiler
  \<open>osacompile\<close> is a parameter. The nudge to Launch Services and the temporary file are left out.
\<close>

section \<open>The command line\<close>

record machine =
  mc_frozen :: bool
  mc_executable :: string

definition executable :: "machine \<Rightarrow> string \<times> string list" where
  "executable m = (mc_executable m, if mc_frozen m then [''connect''] else [''-m'', ''agsync'', ''connect''])"

definition dquote :: char where "dquote = CHR 0x22"
definition squote :: char where "squote = CHR 0x27"
definition backslash :: char where "backslash = CHR 0x5C"

definition in_dquotes :: "string \<Rightarrow> string" where
  "in_dquotes s = dquote # s @ [dquote]"

definition windows_command :: "machine \<Rightarrow> string" where
  "windows_command m = (case executable m of (program, leading) \<Rightarrow>
     py_join '' '' (in_dquotes program # List.map in_dquotes leading @ [in_dquotes ''%1'']))"

text \<open>\<open>shlex.quote\<close> and \<open>shlex.join\<close>.\<close>

definition shell_safe :: "char \<Rightarrow> bool" where
  "shell_safe c \<longleftrightarrow> (let n = (of_char c :: nat) in
     48 \<le> n \<and> n \<le> 57 \<or> 65 \<le> n \<and> n \<le> 90 \<or> 97 \<le> n \<and> n \<le> 122 \<or> n \<in> {95, 64, 37, 43, 61, 58, 44, 46, 47, 45})"

definition shell_char :: "char \<Rightarrow> string" where
  "shell_char c = (if c = squote then [squote, dquote, squote, dquote, squote] else [c])"

definition shell_quote :: "string \<Rightarrow> string" where
  "shell_quote s =
     (if s = '''' then [squote, squote]
      else if list_all shell_safe s then s
      else squote # concat (List.map shell_char s) @ [squote])"

definition shell_join :: "string list \<Rightarrow> string" where
  "shell_join args = py_join '' '' (List.map shell_quote args)"

text \<open>\<open>_applescript_quote\<close>: the backslashes first, then the quotes.\<close>

definition applescript_char :: "char \<Rightarrow> string" where
  "applescript_char c = (if c = backslash \<or> c = dquote then [backslash, c] else [c])"

definition applescript_quote :: "string \<Rightarrow> string" where
  "applescript_quote s = in_dquotes (concat (List.map applescript_char s))"

definition lf :: string where "lf = [CHR 0x0A]"

definition applescript_source :: "string \<Rightarrow> string" where
  "applescript_source command =
     ''on open location this_URL'' @ lf
     @ ''    with timeout of 3600 seconds'' @ lf
     @ ''        do shell script '' @ command @ '' & '' @ in_dquotes '' '' @ '' & quoted form of this_URL'' @ lf
     @ ''    end timeout'' @ lf
     @ ''end open location'' @ lf"

definition applet_source :: "machine \<Rightarrow> string" where
  "applet_source m = (case executable m of (program, leading) \<Rightarrow>
     applescript_source (applescript_quote (shell_join (program # leading))))"

section \<open>What reads them back\<close>

text \<open>
  An AppleScript string literal, from after its opening quote: the text it stands for and what
  follows. The words of a POSIX shell for the two kinds of quotes and plain characters, as far as
  they occur here: the words so far, and the one being read.
\<close>

fun applescript_literal :: "string \<Rightarrow> (string \<times> string) option" where
  "applescript_literal [] = None"
| "applescript_literal (c # s) =
     (if c = dquote then Some ([], s)
      else if c = backslash then (case s of [] \<Rightarrow> None | d # r \<Rightarrow> map_option (\<lambda>(t, q). (d # t, q)) (applescript_literal r))
      else map_option (\<lambda>(t, q). (c # t, q)) (applescript_literal s))"

datatype quoting = Plain | Single | Double

fun shell_words :: "quoting \<Rightarrow> string option \<Rightarrow> string \<Rightarrow> string list option" where
  "shell_words q w [] = (if q = Plain then Some (case w of None \<Rightarrow> [] | Some t \<Rightarrow> [t]) else None)"
| "shell_words Plain w (c # s) =
     (if c = CHR '' '' then map_option (\<lambda>ws. (case w of None \<Rightarrow> ws | Some t \<Rightarrow> t # ws)) (shell_words Plain None s)
      else if c = squote then shell_words Single (Some (case w of None \<Rightarrow> '''' | Some t \<Rightarrow> t)) s
      else if c = dquote then shell_words Double (Some (case w of None \<Rightarrow> '''' | Some t \<Rightarrow> t)) s
      else if shell_safe c then shell_words Plain (Some ((case w of None \<Rightarrow> '''' | Some t \<Rightarrow> t) @ [c])) s
      else None)"
| "shell_words Single w (c # s) =
     (if c = squote then shell_words Plain w s else shell_words Single (map_option (\<lambda>t. t @ [c]) w) s)"
| "shell_words Double w (c # s) =
     (if c = dquote then shell_words Plain w s
      else if c = backslash then None else shell_words Double (map_option (\<lambda>t. t @ [c]) w) s)"

lemma applescript_round_trip: "applescript_literal (tl (applescript_quote s) @ r) = Some (s, r)"
  by (induction s) (simp_all add: applescript_quote_def in_dquotes_def applescript_char_def dquote_def backslash_def)

lemma shell_safe_plain: "shell_safe c \<Longrightarrow> c \<noteq> CHR '' '' \<and> c \<noteq> squote \<and> c \<noteq> dquote"
  by (auto simp: shell_safe_def squote_def dquote_def)

lemma words_plain:
  assumes "list_all shell_safe s"
  shows "shell_words Plain (Some t) (s @ r) = shell_words Plain (Some (t @ s)) r"
  using assms by (induction s arbitrary: t) (simp_all add: shell_safe_plain)

lemma words_single: "shell_words Single (Some t) (concat (List.map shell_char s) @ squote # r) = shell_words Plain (Some (t @ s)) r"
  by (induction s arbitrary: t) (simp_all add: shell_char_def squote_def dquote_def backslash_def)

lemma words_quoted: "shell_words Plain None (shell_quote s @ r) = shell_words Plain (Some s) r"
proof (cases "s \<noteq> [] \<and> list_all shell_safe s")
  case True
  then obtain c u where s: "s = c # u" "shell_safe c" "list_all shell_safe u" by (cases s) auto
  then show ?thesis using words_plain [OF s(3), of "[c]" r] True by (simp add: shell_quote_def shell_safe_plain)
next
  case False
  have q: "squote \<noteq> CHR '' ''" by (simp add: squote_def)
  show ?thesis
  proof (cases "s = []")
    case True
    then show ?thesis using q by (simp add: shell_quote_def)
  next
    case nonempty: False
    with False have "\<not> list_all shell_safe s" by simp
    then show ?thesis using q nonempty words_single [of "[]" s r] by (simp add: shell_quote_def)
  qed
qed

lemma words_joined: "shell_words Plain None (shell_join args) = Some args"
proof (induction args)
  case (Cons a as)
  show ?case
  proof (cases as)
    case Nil
    then show ?thesis using words_quoted [of a "[]"] by (simp add: shell_join_def)
  next
    case (Cons b bs)
    have "shell_words Plain None (shell_quote a @ '' '' @ shell_join as) = Some (a # as)"
      using Cons.IH by (simp add: words_quoted)
    then show ?thesis using Cons by (simp add: shell_join_def)
  qed
qed (simp add: shell_join_def)

section \<open>The registry of Windows\<close>

type_synonym registry = "(string \<times> (string \<times> string) list) list"

definition SCHEME_ROOT :: string where
  "SCHEME_ROOT = ''Software'' @ [backslash] @ ''Classes'' @ [backslash] @ URI_SCHEME"

definition sub_key :: "string \<Rightarrow> string \<Rightarrow> string" where
  "sub_key k name = k @ backslash # name"

definition command_key :: string where
  "command_key = sub_key (sub_key (sub_key SCHEME_ROOT ''shell'') ''open'') ''command''"

text \<open>\<open>CreateKey\<close> opens a key or makes it, with every key above it that is missing.\<close>

definition ensure_key :: "string \<Rightarrow> registry \<Rightarrow> registry" where
  "ensure_key k r = (if map_of r k = None then r @ [(k, [])] else r)"

definition set_value :: "string \<Rightarrow> string \<Rightarrow> string \<Rightarrow> registry \<Rightarrow> registry" where
  "set_value k name v r = AList.update k (AList.update name v (case map_of r k of None \<Rightarrow> [] | Some vs \<Rightarrow> vs)) r"

definition scheme_keys :: "string list" where
  "scheme_keys = [SCHEME_ROOT, sub_key SCHEME_ROOT ''shell'', sub_key (sub_key SCHEME_ROOT ''shell'') ''open'', command_key]"

definition register_windows :: "machine \<Rightarrow> registry \<Rightarrow> string \<times> registry" where
  "register_windows m r =
     (let r1 = set_value SCHEME_ROOT ''URL Protocol'' '''' (set_value SCHEME_ROOT '''' (''URL:'' @ URI_SCHEME @ '' Protocol'')
                 (ensure_key SCHEME_ROOT r))
      in (''HKCU'' @ [backslash] @ SCHEME_ROOT @ '' -> '' @ windows_command m,
          set_value command_key '''' (windows_command m) (fold ensure_key (tl scheme_keys) r1)))"

text \<open>\<open>DeleteKey\<close>: a missing key is skipped; these four have no others below them once the deeper ones are gone.\<close>

definition unregister_windows :: "registry \<Rightarrow> string \<times> registry" where
  "unregister_windows r = (''Removed HKCU'' @ [backslash] @ SCHEME_ROOT, fold AList.delete (rev scheme_keys) r)"

definition registered_windows :: "registry \<Rightarrow> bool" where
  "registered_windows r \<longleftrightarrow> map_of r command_key \<noteq> None"

lemma set_value_keys [simp]: "map_of (set_value k n v r) k' = None \<longleftrightarrow> k' \<noteq> k \<and> map_of r k' = None"
  by (auto simp: set_value_def)

lemma register_then_registered:
  "registered_windows (snd (register_windows m r))"
  "map_option (\<lambda>vs. map_of vs '''') (map_of (snd (register_windows m r)) command_key) = Some (Some (windows_command m))"
  by (simp_all add: registered_windows_def register_windows_def Let_def) (simp add: set_value_def)

lemma unregister_then_gone: "\<not> registered_windows (snd (unregister_windows r))"
  by (simp add: registered_windows_def unregister_windows_def scheme_keys_def delete_conv')

section \<open>The applet of macOS\<close>

text \<open>What \<open>osacompile\<close> answers for a source: its exit code and what it complained of, and the dictionary of the bundle it made.\<close>

type_synonym plist = "(string \<times> json) list"

definition claim_scheme :: "plist \<Rightarrow> plist" where
  "claim_scheme info =
     AList.update ''CFBundleURLTypes'' (JArr [JObj [(''CFBundleURLName'', JStr ''AG Connect''),
         (''CFBundleURLSchemes'', JArr [JStr URI_SCHEME])]])
       (AList.update ''LSUIElement'' (JVal (PBool True))
         (AList.update ''CFBundleIdentifier'' (JStr ''com.accessgrid.agconnect'')
           (AList.update ''CFBundleName'' (JStr ''AG Connect'') info)))"

definition register_macos :: "(string \<Rightarrow> int \<times> string \<times> plist) \<Rightarrow> machine \<Rightarrow> (plist option, unit) comp" where
  "register_macos compile m applet =
     (case compile (applet_source m) of (code, stderr, info) \<Rightarrow>
        if code \<noteq> 0 then (Inl (PyError ''RuntimeError'' (''osacompile failed: '' @ py_strip stderr)), None)
        else (Inr (), Some (claim_scheme info)))"

definition unregister_macos :: "plist option \<Rightarrow> plist option" where
  "unregister_macos applet = None"

definition registered_macos :: "plist option \<Rightarrow> bool" where
  "registered_macos applet \<longleftrightarrow> applet \<noteq> None"

text \<open>A compiler that fails leaves no applet, the one before it included.\<close>

lemma failed_compile_drops_the_applet:
  assumes "compile (applet_source m) = (code, stderr, info)" and "code \<noteq> 0"
  shows "register_macos compile m (Some old) = (Inl (PyError ''RuntimeError'' (''osacompile failed: '' @ py_strip stderr)), None)"
  using assms by (simp add: register_macos_def)

section \<open>The two together\<close>

record desktop_scheme =
  dp_platform :: string
  dp_registry :: registry
  dp_applet :: "plist option"

definition unsupported :: "string \<Rightarrow> exn" where
  "unsupported platform = PyError ''RuntimeError'' (URI_SCHEME @ ''://'' @ '' registration is not supported on '' @ platform @ ''.'')"

definition register_scheme :: "(string \<Rightarrow> int \<times> string \<times> plist) \<Rightarrow> machine \<Rightarrow> (desktop_scheme, unit) comp" where
  "register_scheme compile m d =
     (if dp_platform d = ''win32'' then (Inr (), d\<lparr>dp_registry := snd (register_windows m (dp_registry d))\<rparr>)
      else if dp_platform d = ''darwin''
      then (case register_macos compile m (dp_applet d) of (r, a) \<Rightarrow> (r, d\<lparr>dp_applet := a\<rparr>))
      else (Inl (unsupported (dp_platform d)), d))"

definition unregister_scheme :: "(desktop_scheme, unit) comp" where
  "unregister_scheme d =
     (if dp_platform d = ''win32'' then (Inr (), d\<lparr>dp_registry := snd (unregister_windows (dp_registry d))\<rparr>)
      else if dp_platform d = ''darwin'' then (Inr (), d\<lparr>dp_applet := unregister_macos (dp_applet d)\<rparr>)
      else (Inl (PyError ''RuntimeError'' (''Nothing to remove on '' @ dp_platform d)), d))"

definition is_registered :: "desktop_scheme \<Rightarrow> bool" where
  "is_registered d \<longleftrightarrow>
     (if dp_platform d = ''win32'' then registered_windows (dp_registry d)
      else if dp_platform d = ''darwin'' then registered_macos (dp_applet d) else False)"

lemma register_registers: "register_scheme compile m d = (Inr u, d') \<Longrightarrow> is_registered d'"
  using register_then_registered
  by (auto simp: register_scheme_def is_registered_def register_macos_def registered_macos_def split: if_splits prod.splits)

lemma unregister_removes: "\<not> is_registered (snd (unregister_scheme d))"
  using unregister_then_gone by (simp add: unregister_scheme_def is_registered_def registered_macos_def unregister_macos_def)

end
