(* ===== verification/Status_Transport.thy ===== *)
theory Status_Transport
  imports Status_Report Connect_Wire
begin

text \<open>
  \<open>status/transport.py\<close>: the report as the text that is signed and sent. HMAC-SHA256 is a
  parameter; a body is its characters, which are all ASCII, so its bytes are the same.
\<close>

section \<open>The exact body\<close>

text \<open>\<open>json.dumps(report, separators=(",", ":"), sort_keys=True)\<close>, everything outside ASCII escaped.\<close>

definition json_char :: "char \<Rightarrow> string" where
  "json_char c = (let n = (of_char c :: nat); esc = CHR 0x5C in
     if n = 34 \<or> n = 92 then [esc, c]
     else if n = 10 then esc # ''n'' else if n = 13 then esc # ''r'' else if n = 9 then esc # ''t''
     else if n = 12 then esc # ''f'' else if n = 8 then esc # ''b''
     else if n < 32 \<or> 126 < n then esc # ''u00'' @ [hex_digit (n div 16), hex_digit (n mod 16)]
     else [c])"

definition json_string :: "string \<Rightarrow> string" where
  "json_string s = CHR 0x22 # concat (List.map json_char s) @ [CHR 0x22]"

fun json_val :: "pyval \<Rightarrow> string" where
  "json_val PNone = ''null''"
| "json_val (PBool b) = (if b then ''true'' else ''false'')"
| "json_val (PInt i) = string_of_int i"
| "json_val (PStr s) = json_string s"

fun json_dumps :: "json \<Rightarrow> string" where
  "json_dumps (JVal v) = json_val v"
| "json_dumps (JArr xs) = ''['' @ py_join '','' (List.map json_dumps xs) @ '']''"
| "json_dumps (JObj d) = ''{'' @ py_join '','' (List.map (\<lambda>(k, t). json_string k @ '':'' @ t)
     (sort_key fst (List.map (\<lambda>kv. (fst kv, json_dumps (snd kv))) d))) @ ''}''"

section \<open>The signature and the request\<close>

text \<open>\<open>base64.b64encode\<close>: the alphabet of the other encoder with its two last characters exchanged.\<close>

definition std_b64 :: "char \<Rightarrow> char" where
  "std_b64 c = (let n = (of_char c :: nat) in if n = 45 then char_of (43::nat) else if n = 95 then char_of (47::nat) else c)"

definition b64encode :: "string \<Rightarrow> string" where
  "b64encode body = List.map std_b64 (urlsafe_b64encode (List.map of_char body))"

definition sign_report :: "(string \<Rightarrow> string \<Rightarrow> string) \<Rightarrow> string \<Rightarrow> string \<Rightarrow> string" where
  "sign_report hmac body secret = hmac (py_strip secret) (b64encode body)"

definition STATUS_PATH :: string where "STATUS_PATH = ''/v1/console/integration-hub/status''"

record status_post =
  tp_url :: string
  tp_body :: string
  tp_headers :: "(string \<times> string) list"

definition rstrip_slashes :: "string \<Rightarrow> string" where
  "rstrip_slashes s = rev (dropWhile (\<lambda>c. c = CHR ''/'') (rev s))"

definition status_request :: "(string \<Rightarrow> string \<Rightarrow> string) \<Rightarrow> json \<Rightarrow> string \<Rightarrow> string \<Rightarrow> string \<Rightarrow> status_post" where
  "status_request hmac report account secret base_url =
     (let body = json_dumps report in
      \<lparr>tp_url = rstrip_slashes base_url @ STATUS_PATH, tp_body = body,
       tp_headers = [(''X-ACCT-ID'', account), (''X-PAYLOAD-SIG'', sign_report hmac body secret), (''Content-Type'', ''application/json'')]\<rparr>)"

text \<open>
  \<open>send\<close>: the network raises, or answers a status, a \<open>Retry-After\<close>, whether there is a body, and
  what it decodes to; \<open>take_response\<close> reads that.
\<close>

definition send_report ::
    "(string \<Rightarrow> string \<Rightarrow> string) \<Rightarrow> (string \<Rightarrow> pyfloat option) \<Rightarrow> (status_post \<Rightarrow> (nat \<times> string option \<times> bool \<times> json option) res) \<Rightarrow>
     json \<Rightarrow> string \<Rightarrow> string \<Rightarrow> string \<Rightarrow> post_end" where
  "send_report hmac read_float network report account secret base_url =
     (case network (status_request hmac report account secret base_url) of
        Inl e \<Rightarrow> Failed e
      | Inr (status, retry, has_body, body) \<Rightarrow> take_response read_float status retry has_body body)"

section \<open>What reaches the wire\<close>

definition ascii_text :: "string \<Rightarrow> bool" where
  "ascii_text s \<longleftrightarrow> list_all (\<lambda>c. (of_char c :: nat) < 128) s"

lemma ascii_text_append [simp]: "ascii_text (s @ t) \<longleftrightarrow> ascii_text s \<and> ascii_text t"
  by (simp add: ascii_text_def)

lemma ascii_text_Cons [simp]: "ascii_text (c # s) \<longleftrightarrow> (of_char c :: nat) < 128 \<and> ascii_text s"
  by (simp add: ascii_text_def)

lemma ascii_text_Nil [simp]: "ascii_text []"
  by (simp add: ascii_text_def)

lemma ascii_hex: "n < 16 \<Longrightarrow> (of_char (hex_digit n) :: nat) < 128"
  by (simp add: hex_digit_def)

lemma ascii_json_char: "ascii_text (json_char c)"
proof -
  have "(of_char c :: nat) < 256" by simp
  then have "(of_char c :: nat) div 16 < 16" "(of_char c :: nat) mod 16 < 16" by (simp_all add: less_mult_imp_div_less)
  then show ?thesis using ascii_hex by (auto simp: json_char_def Let_def)
qed

lemma ascii_json_string: "ascii_text (json_string s)"
  by (induction s) (simp_all add: json_string_def ascii_json_char)

lemma ascii_join:
  assumes "ascii_text sep" and "\<forall>s\<in>set ss. ascii_text s"
  shows "ascii_text (py_join sep ss)"
  using assms by (induction sep ss rule: py_join.induct) simp_all

lemma ascii_digits: "ascii_text (string_of_nat n)"
proof -
  have "(of_char c :: nat) < 128" if "is_digit c" for c using that by (auto simp: is_digit_def Let_def)
  then show ?thesis using string_of_nat_digits [of n] by (auto simp: ascii_text_def list_all_iff)
qed

lemma ascii_json_val: "ascii_text (json_val v)"
  by (cases v) (simp_all add: ascii_json_string string_of_int_def ascii_digits)

lemma ascii_json_dumps: "ascii_text (json_dumps j)"
proof (induction j rule: json_dumps.induct)
  case (2 xs)
  then show ?case using ascii_join [of "'',''"] by simp
next
  case (3 d)
  have "\<forall>s\<in>set (List.map (\<lambda>(k, t). json_string k @ '':'' @ t) (sort_key fst (List.map (\<lambda>kv. (fst kv, json_dumps (snd kv))) d))). ascii_text s"
    using 3 ascii_json_string by fastforce
  then show ?case using ascii_join [of "'',''"] by simp
qed (simp add: ascii_json_val)

end
