(* ===== verification/Pacs_Registry.thy ===== *)
theory Pacs_Registry
  imports Operator_Views Settings_Store
begin

text \<open>
  \<open>lib/pacs/registry.py\<close>: vendors by their ids, and building an adapter from the stored parameters, which
  are handed to its constructor as keyword arguments; what the web pages store is what a constructor
  takes. Then \<open>lib/pacs/lenel/adapter.py\<close>, the stub a site may choose in the wizard: every operation
  raises, and a cycle over it counts as a failure before anything is read.
\<close>

section \<open>The registry\<close>

text \<open>Both dictionaries of the module, in the order of registration; what a vendor registers twice stays where it was.\<close>

definition register :: "string \<Rightarrow> descriptor \<Rightarrow> (string \<times> descriptor) list \<Rightarrow> (string \<times> descriptor) list" where
  "register vendor d reg = AList.update vendor d reg"

definition built_in :: "(string \<times> descriptor) list" where
  "built_in =
     register ''millennium_ultra'' millennium_descriptor (register ''lenel'' lenel_descriptor
       (register ''cdvi'' cdvi_descriptor (register ''avigilon_alta'' alta_descriptor (register ''avigilon'' unity_descriptor []))))"

definition available_pacs :: "(string \<times> descriptor) list \<Rightarrow> descriptor list" where
  "available_pacs reg = List.map snd reg"

lemma built_in_vendors: "get_descriptor = map_of built_in"
  by (simp add: built_in_def register_def get_descriptor_def)

text \<open>The arguments of a vendor's \<open>__init__\<close>: those without a default, those with one; None is \<open>**_params\<close>.\<close>

definition MILLENNIUM_ARGUMENTS :: "string list" where
  "MILLENNIUM_ARGUMENTS = [''base_url'', ''email_domain'', ''notify_email'', ''trigger_card_format'', ''trigger_card_format_label'',
     ''mode'', ''pair'', ''auth_cookie'', ''company_name'', ''time_offset'', ''request_token'', ''request_token_cookie'']"

definition constructor_arguments :: "string \<Rightarrow> (string list \<times> string list) option option" where
  "constructor_arguments = map_of
     [(''avigilon'', Some ([''host'', ''username'', ''password''], [''verify_ssl''])),
      (''avigilon_alta'', Some ([''email'', ''password''], [])),
      (''cdvi'', Some ([''base_url'', ''username'', ''password''], [])),
      (''lenel'', None),
      (''millennium_ultra'', Some ([], MILLENNIUM_ARGUMENTS))]"

definition bind_arguments :: "string list \<times> string list \<Rightarrow> string list \<Rightarrow> unit res" where
  "bind_arguments args ks =
     (case List.find (\<lambda>k. k \<notin> set (fst args @ snd args)) ks of
        Some k \<Rightarrow> Inl (type_error (''__init__() got an unexpected keyword argument '' @ repr_str k))
      | None \<Rightarrow> if \<exists>a\<in>set (fst args). a \<notin> set ks then Inl (type_error ''__init__() missing required arguments'') else Inr ())"

text \<open>\<open>build_adapter\<close>, up to the constructor's own body.\<close>

definition build_adapter :: "string \<Rightarrow> params \<Rightarrow> unit res" where
  "build_adapter vendor ps =
     (case constructor_arguments vendor of
        None \<Rightarrow> Inl (PyError ''KeyError'' (''Unknown PACS vendor: '' @ vendor))
      | Some None \<Rightarrow> Inr ()
      | Some (Some args) \<Rightarrow> bind_arguments args (List.map fst ps))"

definition takes_params :: "string \<Rightarrow> params \<Rightarrow> bool" where
  "takes_params vendor ps \<longleftrightarrow> build_adapter vendor ps = Inr ()"

lemma bind_arguments_ok: "bind_arguments args ks = Inr () \<longleftrightarrow> set ks \<subseteq> set (fst args @ snd args) \<and> set (fst args) \<subseteq> set ks"
  by (auto simp: bind_arguments_def find_None_iff split: option.split dest: find_SomeD)

lemmas argument_defs = takes_params_def build_adapter_def constructor_arguments_def bind_arguments_ok MILLENNIUM_ARGUMENTS_def

text \<open>Every registered vendor has a constructor, and it takes what the wizard's form stores.\<close>

lemma keys_update: "List.map fst (AList.update k v d) = (if k \<in> fst ` set d then List.map fst d else List.map fst d @ [k])"
  by (induction d) auto

theorem wizard_params_build:
  assumes "get_descriptor vendor = Some d"
  shows "takes_params vendor (form_params form d)"
  using assms by (auto simp: argument_defs descriptor_defs form_params_def split: if_splits)

text \<open>And it takes them after every later change: an address, the trigger, the direction of the template.\<close>

lemma takes_update:
  assumes "takes_params vendor ps" and "k \<in> fst ` set ps \<or> (\<exists>r d. constructor_arguments vendor = Some (Some (r, d)) \<and> k \<in> set d)"
  shows "takes_params vendor (AList.update k v ps)"
  using assms by (auto simp: takes_params_def build_adapter_def bind_arguments_ok keys_update split: option.splits)

lemma address_change_builds:
  assumes "takes_params vendor ps" and "get_descriptor vendor = Some d" and "f \<in> set (address_fields (Some d))"
    and "f \<in> fst ` set ps"
  shows "takes_params vendor (AList.update f v ps)"
  using takes_update [OF assms(1)] assms(4) by blast

lemma derived_params_build:
  assumes "takes_params vendor ps" and "derives_mode vendor"
  shows "takes_params vendor (AList.update ''pair'' p (AList.update ''mode'' m ps))"
proof -
  have v: "vendor = ''millennium_ultra''" using assms(2) by (simp add: derives_mode_def)
  show ?thesis
    by (intro takes_update assms(1)) (auto simp: v constructor_arguments_def MILLENNIUM_ARGUMENTS_def)
qed

text \<open>Not every route asks which vendor it changes: an e-mail domain stored for Unity stops its adapter from being built.\<close>

lemma email_domain_stops_unity:
  "build_adapter ''avigilon'' (AList.update ''email_domain'' v (form_params form unity_descriptor))
    = Inl (type_error (''__init__() got an unexpected keyword argument '' @ repr_str ''email_domain''))"
  by (simp add: build_adapter_def constructor_arguments_def bind_arguments_def form_params_def descriptor_defs)

text \<open>\<open>_stored_session\<close>: the captured session, nothing when it cannot be read.\<close>

definition stored_session :: "vault \<Rightarrow> settings \<Rightarrow> json" where
  "stored_session v rows = (case session_load v ''millennium_ultra'' rows of Inr s \<Rightarrow> or_empty s | Inl _ \<Rightarrow> JObj [])"

section \<open>The Lenel stub\<close>

definition not_implemented :: exn where
  "not_implemented = PyError ''NotImplementedError'' ''Lenel adapter not implemented''"

definition lenel_test_connection :: "bool \<times> string" where
  "lenel_test_connection = (False, ''Lenel adapter is not yet implemented in this build.'')"

definition lenel_api :: "'p pacs_api" where
  "lenel_api =
     \<lparr>pacs_declares_writeback = False, pacs_supports_status_writeback = (\<lambda>_. False), pacs_supports_credential_writeback = (\<lambda>_. False),
      pacs_supports_credential_retirement = (\<lambda>_. False), pacs_list_people = pure_res (Inl not_implemented),
      pacs_list_credentials = (\<lambda>_. pure_res (Inl not_implemented)),
      pacs_update_credential_status = (\<lambda>_ _ _. pure_res (Inl not_implemented)),
      pacs_write_back_credentials = (\<lambda>_ _ _. pure_res (Inl (attribute_error ''write_back_credentials''))),
      pacs_retire_credentials = (\<lambda>_ _ _. pure_res (Inl (attribute_error ''retire_credentials''))),
      pacs_written_credentials = pure_res (Inl (attribute_error ''written_credentials'')),
      pacs_finish_cycle = None\<rparr>"

lemma lenel_snapshot_fails: "fst (build_snapshot ag lenel_api template w) = Inl not_implemented"
  by (simp add: build_snapshot_def lenel_api_def pacs_call_def pure_res_def Let_def)

text \<open>A configured cycle over the stub calls neither system and moves the breaker by one.\<close>

lemma lenel_cycle_counts:
  assumes "ce_configured env" and "ce_ag_init env = None" and "run_one_cycle refs ag lenel_api env st w = (r, st1, w1)"
  shows "w1 = w" "es_consecutive_errors (after_cycle r st1) = Suc (es_consecutive_errors st)"
  using assms by (auto simp: run_one_cycle_def Let_def adapter_error_def lenel_api_def new_result_def after_cycle_def failed_def split: option.splits)

end
