(* ===== verification/Service_Properties.thy ===== *)
theory Service_Properties
  imports Engine_Report Hub_Host Operator_Views Uri_Register Status_Transport Pacs_Registry Adapter_Demo Mill_Writes Hub_Properties
begin

text \<open>
  The properties of what surrounds the sync: whose cycles get past the adapter, what the
  support report and the settings page keep to themselves, how long a session lasts, and two states
  the hub does not tell the truth in or does not come out of. The examples share a small signer and
  the hub of the other examples.
\<close>

section \<open>A signer to run on\<close>

definition demo_sign :: "int \<Rightarrow> string \<Rightarrow> string" where
  "demo_sign t p = enc_json (JArr [JInt t, JStr p])"

definition demo_unsign :: "int \<Rightarrow> int \<Rightarrow> string \<Rightarrow> string res" where
  "demo_unsign m now tok =
     (case dec_json (length tok) tok of
        Some (JArr [JVal (PInt t), JVal (PStr p)], r) \<Rightarrow>
          if tok \<noteq> demo_sign t p then Inl (PyError ''BadSignature'' '''')
          else if 0 \<le> now - t \<and> now - t \<le> m then Inr p else Inl (PyError ''SignatureExpired'' '''')
      | _ \<Rightarrow> Inl (PyError ''BadSignature'' ''''))"

definition demo_signer :: signer where
  "demo_signer = \<lparr>sg_sign = demo_sign, sg_unsign = demo_unsign, sg_dumps = enc_json,
     sg_loads = (\<lambda>s. case dec_json (length s) s of Some (j, _) \<Rightarrow> Inr j | None \<Rightarrow> Inl (PyError ''JSONDecodeError'' ''''))\<rparr>"

lemma dec_enc_whole: "dec_json (length (enc_json j)) (enc_json j) = Some (j, [])"
  using dec_enc(1) [OF order_refl, where r = "[]"] by simp

lemma demo_signer_honest: "honest_signer demo_signer"
proof -
  have made: "demo_unsign m now (demo_sign t p) =
      (if 0 \<le> now - t \<and> now - t \<le> m then Inr p else Inl (PyError ''SignatureExpired'' ''''))" for m now t p
  proof -
    have "dec_json (length (demo_sign t p)) (demo_sign t p) = Some (JArr [JInt t, JStr p], [])"
      unfolding demo_sign_def by (rule dec_enc_whole)
    then show ?thesis by (simp add: demo_unsign_def)
  qed
  have only: "\<exists>t. tok = demo_sign t p" if "demo_unsign m now tok = Inr p" for m now tok p
    using that by (auto simp: demo_unsign_def split: option.splits prod.splits json.splits list.splits pyval.splits if_splits)
  have "demo_sign t p \<noteq> ''''" for t p by (simp add: demo_sign_def)
  then show ?thesis using made only by (auto simp: honest_signer_def demo_signer_def dec_enc_whole)
qed

definition demo_gate :: gate where
  "demo_gate = \<lparr>gt_pages = demo_pages, gt_signer = demo_signer, gt_display = (\<lambda>v. v), gt_table = (\<lambda>_. [])\<rparr>"

section \<open>Who is synced at all\<close>

text \<open>How a cycle over an adapter without the capability ends, and what it leaves of the status.\<close>

definition stillborn :: "cycle_env \<Rightarrow> cycle_result" where
  "stillborn env = (new_result (ce_duration_ms env))\<lparr>cy_error := Some (''pacs_init: '' @ exn_message no_writeback_attribute)\<rparr>"

definition unasked :: "cycle_env \<Rightarrow> engine_status \<Rightarrow> engine_status" where
  "unasked env st = st\<lparr>es_pacs_vendor := ce_vendor env, es_pacs_display_name := ce_display_name env, es_pacs_reachable := False\<rparr>"

lemma undeclared_cycle:
  assumes "\<not> pacs_declares_writeback api" and "ce_configured env" and "ce_ag_init env = None" and "ce_pacs_init env = None"
  shows "run_one_cycle refs ag api env st w = (stillborn env, unasked env st, w)"
  using assms by (simp add: run_one_cycle_def adapter_error_def stillborn_def unasked_def Let_def)

text \<open>The loop over such an adapter, left to itself: one failure a round, and after the tenth the pause.\<close>

lemma undeclared_attempt:
  assumes "\<not> pacs_declares_writeback api" and "ce_configured env" and "ce_ag_init env = None" and "ce_pacs_init env = None"
    and "\<not> ce_in_flight env" and "ce_unreadable env = None"
  shows "cycle_attempt refs ag api env st w = (Inr (stillborn env), unasked env st, w)"
  by (simp add: cycle_attempt_def undeclared_cycle [OF assms(1-4)] assms(5,6))

lemma stillborn_failed: "failed (stillborn env)"
  by (simp add: failed_def stillborn_def new_result_def)

lemma failing_rounds:
  assumes "\<And>st w. cycle_attempt refs ag api env st w = (Inr (stillborn env), unasked env st, w)"
    and "es_consecutive_errors st + n \<le> 10"
  shows "\<exists>st'. (loop_step refs ag api env ^^ (4 * n)) (Looking, st, w) = (Looking, st', w) \<and>
    es_consecutive_errors st' = es_consecutive_errors st + n"
  using assms(2)
proof (induction n)
  case (Suc n)
  then obtain st' where st': "(loop_step refs ag api env ^^ (4 * n)) (Looking, st, w) = (Looking, st', w)"
    "es_consecutive_errors st' = es_consecutive_errors st + n" by auto
  then have "es_consecutive_errors st' < MAX_CONSECUTIVE_ERRORS" using Suc.prems by (simp add: engine_constants)
  from loop_round [OF this assms(1), where w = w]
  have "(loop_step refs ag api env ^^ (4 + 4 * n)) (Looking, st, w) =
      (Looking, (after_cycle (stillborn env) (unasked env st'))\<lparr>es_trigger := False\<rparr>, w)"
    by (simp only: funpow_add o_apply st'(1))
  moreover have "4 * Suc n = 4 + 4 * n" by simp
  moreover have "es_consecutive_errors (after_cycle (stillborn env) (unasked env st')) = es_consecutive_errors st + Suc n"
    by (simp add: stillborn_failed unasked_def st'(2))
  ultimately show ?case by (intro exI conjI) (simp only:, simp)
qed simp

lemma failing_loop_pauses:
  assumes "\<And>st w. cycle_attempt refs ag api env st w = (Inr (stillborn env), unasked env st, w)"
    and "es_consecutive_errors st \<le> 10"
  shows "\<exists>st'. (loop_step refs ag api env ^^ (4 * (10 - es_consecutive_errors st) + 2)) (Looking, st, w) = (Parked, st', w) \<and>
    es_paused st' \<and> es_consecutive_errors st' = 10"
proof -
  obtain st' where st': "(loop_step refs ag api env ^^ (4 * (10 - es_consecutive_errors st))) (Looking, st, w) = (Looking, st', w)"
    "es_consecutive_errors st' = 10" using failing_rounds [OF assms(1), of st "10 - es_consecutive_errors st" w] assms(2) by auto
  have "(loop_step refs ag api env ^^ (2 + 4 * (10 - es_consecutive_errors st))) (Looking, st, w) = (Parked, pause st', w)"
    by (simp only: funpow_add o_apply st'(1)) (simp add: numeral_2_eq_2 st'(2) engine_constants)
  then show ?thesis using st'(2) by (intro exI [of _ "pause st'"]) (simp add: pause_def add.commute)
qed

text \<open>
  C1. Only Millennium is synced (a defect). The engine asks every adapter it has built whether it
  writes credentials, and the adapters of Unity, Alta and CDVI do not define that: a configured cycle
  over any of them ends before the roster is read, calls neither system and counts as a failure, and
  the engine's thread, left to itself, books one such failure a round until it has counted ten and then
  pauses, with both systems as they were. Millennium's adapter answers.
\<close>

theorem only_millennium_is_synced:
  assumes "ce_configured env" and "ce_ag_init env = None" and "ce_pacs_init env = None"
    and "\<not> ce_in_flight env" and "ce_unreadable env = None" and "es_consecutive_errors st \<le> 10"
  shows "run_one_cycle refs ag (unity_api eu) env st wu = (stillborn env, unasked env st, wu) \<and>
    run_one_cycle refs ag (alta_api net ea fuel) env st wa = (stillborn env, unasked env st, wa) \<and>
    run_one_cycle refs ag (cdvi_api ec) env st wc = (stillborn env, unasked env st, wc) \<and>
    (let rounds = 4 * (10 - es_consecutive_errors st) + 2 in
     (\<exists>st'. (loop_step refs ag (unity_api eu) env ^^ rounds) (Looking, st, wu) = (Parked, st', wu) \<and>
        es_paused st' \<and> es_consecutive_errors st' = 10) \<and>
     (\<exists>st'. (loop_step refs ag (alta_api net ea fuel) env ^^ rounds) (Looking, st, wa) = (Parked, st', wa) \<and>
        es_paused st' \<and> es_consecutive_errors st' = 10) \<and>
     (\<exists>st'. (loop_step refs ag (cdvi_api ec) env ^^ rounds) (Looking, st, wc) = (Parked, st', wc) \<and>
        es_paused st' \<and> es_consecutive_errors st' = 10)) \<and>
    pacs_declares_writeback (mill_api cfg client)"
proof -
  have none: "\<not> pacs_declares_writeback (unity_api eu)" "\<not> pacs_declares_writeback (alta_api net ea fuel)"
    "\<not> pacs_declares_writeback (cdvi_api ec)" "pacs_declares_writeback (mill_api cfg client)"
    by (simp_all add: unity_api_def alta_api_def cdvi_api_def mill_api_def)
  note attempts = none(1-3) [THEN undeclared_attempt, OF assms(1-5)]
  show ?thesis unfolding Let_def
    by (intro conjI)
      (rule none(4) none(1-3) [THEN undeclared_cycle, OF assms(1-3)] attempts [THEN failing_loop_pauses, OF assms(6)])+
qed

theorem only_millennium_is_synced_witness:
  "\<forall>w. \<exists>st'. (loop_step demo_refs demo_ag (unity_api unity_demo) (demo_env False) ^^ 42) (Looking, initial_status, w)
      = (Parked, st', w) \<and> es_paused st'"
proof -
  have conf: "ce_configured (demo_env False)" "ce_ag_init (demo_env False) = None" "ce_pacs_init (demo_env False) = None"
    "\<not> ce_in_flight (demo_env False)" "ce_unreadable (demo_env False) = None" "es_consecutive_errors initial_status \<le> 10"
    by (simp_all add: demo_env_def initial_status_def)
  have "4 * (10 - es_consecutive_errors initial_status) + 2 = 42" by (simp add: initial_status_def)
  note paused = only_millennium_is_synced [OF conf, unfolded this Let_def, where refs = demo_refs and ag = demo_ag and eu = unity_demo]
  show ?thesis
  proof
    fix w
    show "\<exists>st'. (loop_step demo_refs demo_ag (unity_api unity_demo) (demo_env False) ^^ 42) (Looking, initial_status, w)
      = (Parked, st', w) \<and> es_paused st'" using paused [where wu = w] by blast
  qed
qed

section \<open>How long a session lasts\<close>

text \<open>
  C25. A session lasts one hour from the sign-in, used or not. Whatever pages are visited after it, a
  request carries a session exactly while the token is no more than 3600 seconds old, and a token
  the hub did not sign is never one. (The module says the window slides, a request past half of it
  getting a fresh cookie; no code does that.)
\<close>

theorem session_lasts_an_hour:
  assumes "honest_signer sg" and "\<forall>v\<in>set vs. snd v = Visits" and "t \<le> now"
  shows "signed_in sg now (fold (cookie_after sg) ((t, Logs_in user) # vs) cookie) =
      Inr (whole_seconds now - whole_seconds t \<le> 3600) \<and>
    (\<forall>tok. signed_in sg now (Some tok) = Inr True \<longrightarrow> (\<exists>t' p. tok = sg_sign sg t' p))"
proof -
  have "whole_seconds t \<le> whole_seconds now" using assms(3) by (simp add: whole_seconds_def zdiv_mono1)
  then have "signed_in sg now (Some (sign_session sg t user)) = Inr (whole_seconds now - whole_seconds t \<le> 3600)"
    by (simp add: signed_in_token [OF assms(1)] SESSION_TTL_S_def)
  moreover have "\<exists>t' p. tok = sg_sign sg t' p" if "signed_in sg now (Some tok) = Inr True" for tok
    using that assms(1)
    by (fastforce simp: signed_in_def current_user_def verify_session_def honest_signer_def bind_res_Inr_iff split: if_splits sum.splits)
  ultimately show ?thesis by (simp add: cookie_after_def visits_keep_cookie [OF assms(2)])
qed

theorem session_lasts_an_hour_witness:
  "signed_in demo_signer 5000000 (fold (cookie_after demo_signer) [(0, Logs_in ''op''), (4000000, Visits)] None) = Inr True \<and>
   signed_in demo_signer 3601000000 (fold (cookie_after demo_signer) [(0, Logs_in ''op''), (3600000000, Visits)] None) = Inr False"
  using session_lasts_an_hour [OF demo_signer_honest, of "[(4000000, Visits)]" 0 5000000 "''op''" None]
    session_lasts_an_hour [OF demo_signer_honest, of "[(3600000000, Visits)]" 0 3601000000 "''op''" None]
  by (simp add: whole_seconds_def)

section \<open>A key that is lost\<close>

text \<open>
  C10. An install whose key no longer opens its settings does not come up again (a defect). Once the
  stored account does not open, the server does not start and no page renders, and removing the
  administrator, which the error message asks for, changes neither: the wizard that was to be run
  again raises the same error. Only a form that is posted blindly would get through.
\<close>

theorem lost_key_locks_the_hub:
  assumes "setting_get (hb_settings h) AG_KEY = Some raw" and "raw \<noteq> ''''" and "va_open (pg_vault (gt_pages g)) raw = Inl e"
  shows "fst (boot g (reset_admin h)) = Inl e \<and> wizard_index g now rq (reset_admin h) = Inl e \<and>
    index g now rq (reset_admin h) = Inr (See_other ''/wizard'') \<and>
    fst (boot g h) = Inl e \<and> (\<forall>name. render g now rq h name = Inl e)"
proof -
  have lost: "is_configured (pg_vault (gt_pages g)) (hb_settings h) = Inl e" by (rule configured_fails [OF assms])
  moreover have rows: "hb_settings (reset_admin h) = hb_settings h" by (simp add: reset_admin_def)
  moreover have none: "\<not> admin_exists (reset_admin h)" by (simp add: admin_exists_def reset_admin_def delete_admin_def)
  ultimately have "render g now rq (reset_admin h) name = Inl e" "render g now rq h name = Inl e" for name
    using context_fails(2) [where g = g and h = "reset_admin h"] context_fails(2) [where g = g and h = h] by simp_all
  then show ?thesis using lost rows none by (simp add: boot_def wizard_index_def wizard_step_def index_def)
qed

definition lost_hub :: hub where
  "lost_hub = (demo_hub None)\<lparr>hb_settings := [\<lparr>se_key = ''accessgrid'', se_value = ''x''\<rparr>]\<rparr>"

theorem lost_key_locks_the_hub_witness:
  "\<exists>e. wizard_index demo_gate 0 \<lparr>rq_session = None, rq_lang = None, rq_htmx = False\<rparr> (reset_admin lost_hub) = Inl e"
proof -
  have a: "setting_get (hb_settings lost_hub) AG_KEY = Some ''x''"
    by (simp add: lost_hub_def setting_get_def table_get_def AG_KEY_def)
  have "case va_open (pg_vault (gt_pages demo_gate)) ''x'' of Inl _ \<Rightarrow> True | Inr _ \<Rightarrow> False" by code_simp
  then obtain e where "va_open (pg_vault (gt_pages demo_gate)) ''x'' = Inl e" by (auto split: sum.splits)
  then show ?thesis using lost_key_locks_the_hub [OF a] by blast
qed

section \<open>A reconnect nobody finished\<close>

text \<open>
  C11. A reconnect nobody finished ends as connected (a defect). The session that expired stays
  stored. While the launch of the reconnect page is fresh its poll says to wait; once the launch is
  fifteen minutes old the poll finds no launch and a stored session, and reports a connection, with
  the engine still asking for one.
\<close>

theorem unfinished_reconnect_reads_connected:
  assumes "connect_page env True t i key s = (Inr (Began i), s1)" and "i \<noteq> ''''"
    and "configured_vendor env s = Inr vendor" and "session_connected (pg_vault (cx_pages env)) vendor (hb_settings (cn_hub s)) = Inr True"
  shows "if now \<le> t + LAUNCH_TTL then fst (connect_status env True now i False s1) = Inr (Some (Pending ''waiting'' ''''))
    else \<exists>s2. connect_status env True now i False s1 = (Inr (Some (Connected False)), s2) \<and>
      hb_engine (cn_hub s2) = hb_engine (cn_hub s)"
proof -
  from assms(1) obtain url where s1: "s1 = on_launches (create_launch t i key url) s"
    by (auto simp: connect_page_def split: sum.splits if_splits)
  then have "configured_vendor env s1 = Inr vendor" "session_connected (pg_vault (cx_pages env)) vendor (hb_settings (cn_hub s1)) = Inr True"
    "hb_engine (cn_hub s1) = hb_engine (cn_hub s)"
    using assms(3,4) by (simp_all add: configured_vendor_def on_launches_def)
  moreover have "map_of (cn_launches s1) i = Some \<lparr>ln_key = key, ln_login_url = url, ln_created_at = t, ln_claimed = False,
      ln_state = ''waiting'', ln_message = ''''\<rparr>"
    by (simp add: s1 on_launches_def create_launch_def)
  ultimately show ?thesis
    using assms(2) by (simp add: connect_status_def get_launch_def expired_at_def configured_vendor_def)
qed

definition expired_connect :: connect where
  "expired_connect = demo_connect\<lparr>cn_hub := (cn_hub demo_connect)\<lparr>
     hb_settings := session_save demo_vault ''millennium_ultra'' [(''auth_cookie'', JStr ''old'')] (hb_settings (cn_hub demo_connect)),
     hb_engine := flag_reconnect initial_status\<rparr>\<rparr>"

theorem unfinished_reconnect_reads_connected_witness:
  "\<exists>s2. connect_status demo_connect_env True 901000000 ''L'' False (snd (connect_page demo_connect_env True 0 ''L'' [1] expired_connect))
     = (Inr (Some (Connected False)), s2) \<and> es_reconnect_required (hb_engine (cn_hub s2))"
proof -
  let ?run = "connect_page demo_connect_env True 0 ''L'' [1] expired_connect"
  have "fst ?run = Inr (Began ''L'')" by code_simp
  then have begun: "?run = (Inr (Began ''L''), snd ?run)" by (simp only: prod_eq_iff fst_conv snd_conv)
  have vendor: "configured_vendor demo_connect_env expired_connect = Inr ''millennium_ultra''" by code_simp
  have stored: "session_connected (pg_vault (cx_pages demo_connect_env)) ''millennium_ultra'' (hb_settings (cn_hub expired_connect)) = Inr True"
    by code_simp
  have late: "\<not> (901000000::int) \<le> 0 + LAUNCH_TTL" by (simp add: LAUNCH_TTL_def)
  have flag: "es_reconnect_required (hb_engine (cn_hub expired_connect))" by (simp add: expired_connect_def flag_reconnect_def)
  from unfinished_reconnect_reads_connected [OF begun _ vendor stored, of 901000000] late flag show ?thesis by auto
qed

section \<open>What the reports keep to themselves\<close>

text \<open>
  C22. The support report keeps the secrets. It is determined by the names of the settings, the rows it
  shows, and the ledger of cards, which it prints: two databases that agree on those give the same report,
  whatever else their settings hold. Once the cards have a table of their own, emptying every setting changes
  no line of it. Before that the ledger is itself a setting, the one whose value the report opens and prints;
  emptying all the others, and every e-mail address and phone number, still changes no line.
\<close>

theorem support_report_keeps_secrets:
  assumes "public_part db = public_part db'"
  shows "support_report h db = support_report h db' \<and> support_report h (wiped db) = support_report h db \<and>
    (diag_db.db_cards db \<noteq> None \<longrightarrow> support_report h (no_values db) = support_report h db)"
proof -
  have same: "support_report h a = support_report h b" if "public_part a = public_part b" for a b
    using parts_of_public [OF that] ledger_of_public [OF that, of h] by (simp add: support_report_def report_lines_def Let_def)
  show ?thesis by (intro conjI impI same assms public_wiped public_no_values)
qed

definition demo_diag_host :: diag_host where
  "demo_diag_host = \<lparr>dh_env = (\<lambda>_. None), dh_data_dir = ''/d'', dh_key_file = Some ''k'', dh_exists = (\<lambda>_. True),
     dh_decrypt = (\<lambda>_ c. Inr c), dh_loads = (\<lambda>_. Inr (JObj [])), dh_version = ''1''\<rparr>"

definition demo_diag_db :: "string \<Rightarrow> diag_db" where
  "demo_diag_db secret = \<lparr>db_migrations = Some [''001''], db_tracked = Some [],
     db_cards = Some [\<lparr>sd_person = ''7'', sd_credential = ''seos'', sd_slot = JInt 2, sd_facility = ''2'', sd_number = ''1255'', sd_status = ''live''\<rparr>],
     db_settings = Some [\<lparr>se_key = ''accessgrid'', se_value = secret\<rparr>]\<rparr>"

theorem support_report_keeps_secrets_witness:
  "support_report demo_diag_host (demo_diag_db ''papers'') = support_report demo_diag_host (demo_diag_db ''other'') \<and>
   support_report demo_diag_host (no_values (demo_diag_db ''papers'')) = support_report demo_diag_host (demo_diag_db ''papers'')"
proof -
  have "public_part (demo_diag_db ''papers'') = public_part (demo_diag_db ''other'')"
    by (simp add: public_part_def demo_diag_db_def diag_tracking_def rows_of_def)
  moreover have "diag_db.db_cards (demo_diag_db ''papers'') \<noteq> None" by (simp add: demo_diag_db_def)
  ultimately show ?thesis using support_report_keeps_secrets by blast
qed

text \<open>
  C23. The settings page keeps the secrets. Two hubs alike but for the API secret, the password of the
  PACS, the captured cookies and the password of the mail relay show every visitor the same page.
\<close>

theorem settings_page_keeps_secrets:
  assumes "alike_but_secrets (pg_vault (gt_pages g)) (hb_settings h) rows"
  shows "settings_page g facts flash now rq h = settings_page g facts flash now rq (h\<lparr>hb_settings := rows\<rparr>)"
proof -
  let ?h = "h\<lparr>hb_settings := rows\<rparr>"
  have "both_hold (pacs_load (pg_vault (gt_pages g)) (hb_settings h)) (pacs_load (pg_vault (gt_pages g)) rows) same_pacs"
    using assms by (simp add: alike_but_secrets_def)
  then have "template_context g now rq h = template_context g now rq ?h"
    using configured_alike [OF assms] display_name_alike [of g h ?h] by (simp add: template_context_def admin_exists_def cong: if_cong)
  moreover have "settings_view g facts flash h = settings_view g facts flash ?h" by (rule settings_view_alike) (simp add: assms)
  ultimately show ?thesis by (simp add: settings_page_def shown_to_signed_def cong: if_cong)
qed

definition demo_settings :: "string \<Rightarrow> settings" where
  "demo_settings secret = ag_save demo_vault (demo_config\<lparr>gc_api_secret := secret\<rparr>) []"

theorem settings_page_keeps_secrets_witness:
  "\<forall>facts flash now rq. settings_page demo_gate facts flash now rq ((demo_hub None)\<lparr>hb_settings := demo_settings ''papers''\<rparr>) =
   settings_page demo_gate facts flash now rq ((demo_hub None)\<lparr>hb_settings := demo_settings ''other''\<rparr>)"
proof -
  have vault: "pg_vault (gt_pages demo_gate) = demo_vault" by (simp add: demo_gate_def demo_pages_def)
  have ag: "ag_load demo_vault (demo_settings x) = Inr (Some (ag_blob (demo_config\<lparr>gc_api_secret := x\<rparr>)))" for x
    using holds_save [OF demo_vault_sound] by (simp add: demo_settings_def holds_config_def)
  have other: "Settings_Store.get_json demo_vault k (demo_settings x) = Inr None" if "k \<noteq> AG_KEY" for k x
    using that by (simp add: demo_settings_def ag_save_def get_json_set_json [OF demo_vault_sound]) (simp add: Settings_Store.get_json_def setting_get_def table_get_def)
  have "both_hold (ag_load demo_vault (demo_settings ''papers'')) (ag_load demo_vault (demo_settings ''other'')) (same_but {''api_secret''})"
    unfolding both_hold_def ag by (rule disjI2) (simp add: ag_blob_def same_but_def)
  moreover have "session_key vendor \<noteq> AG_KEY" for vendor by (simp add: session_key_def AG_KEY_def)
  ultimately have "alike_but_secrets demo_vault (demo_settings ''papers'') (demo_settings ''other'')"
    by (simp add: alike_but_secrets_def pacs_load_def mail_load_def session_load_def other both_hold_def PACS_KEY_def NOTIFY_KEY_def AG_KEY_def)
  then have "alike_but_secrets (pg_vault (gt_pages demo_gate)) (hb_settings ((demo_hub None)\<lparr>hb_settings := demo_settings ''papers''\<rparr>)) (demo_settings ''other'')"
    by (simp add: vault)
  from settings_page_keeps_secrets [OF this] show ?thesis by simp
qed

end
