(* ===== verification/Hub_Process.thy ===== *)
theory Hub_Process
  imports Web_Gate Engine_Report Hub_Host Schema_Migrations
begin

text \<open>
  The process the hub runs as: its settings (\<open>config.py\<close>), the connections of its threads
  (\<open>db/connection.py\<close>), the log handler (\<open>logs/store.py\<close>), the status thread (\<open>status/reporter.py\<close>), the
  order in which \<open>server.py\<close> brings these up and down, the commands of \<open>__main__.py\<close> and
  \<open>service.py\<close>, and what Sentry is told.
\<close>

section \<open>The settings\<close>

text \<open>The environment as pydantic-settings reads it: a variable, or its line in \<open>.env\<close>; names without their prefix.\<close>

record environment =
  ev_windows :: bool
  ev_home :: string
  ev_local_app_data :: "string option"
  ev_var :: "string \<Rightarrow> string option"

definition path_join :: "string \<Rightarrow> string \<Rightarrow> string" where
  "path_join a b = (if a = '''' then b else a @ ''/'' @ b)"

definition data_dir :: "environment \<Rightarrow> string" where
  "data_dir e =
     (let base = if ev_windows e
        then (case ev_local_app_data e of None \<Rightarrow> path_join (path_join (ev_home e) ''AppData'') ''Local'' | Some d \<Rightarrow> d)
        else path_join (path_join (ev_home e) ''.local'') ''share''
      in path_join base ''AGSyncTool'')"

text \<open>The support tool has a copy of its own, so as not to load the settings.\<close>

definition diag_data_dir :: "environment \<Rightarrow> string" where
  "diag_data_dir e =
     (if ev_windows e
      then path_join (case ev_local_app_data e of Some d \<Rightarrow> d | None \<Rightarrow> path_join (path_join (ev_home e) ''AppData'') ''Local'') ''AGSyncTool''
      else path_join (path_join (path_join (ev_home e) ''.local'') ''share'') ''AGSyncTool'')"

lemma diag_data_dir_agrees: "diag_data_dir e = data_dir e"
  by (simp add: diag_data_dir_def data_dir_def split: option.split)

definition default_db_path :: "environment \<Rightarrow> string" where
  "default_db_path e = path_join (data_dir e) ''app.db''"

record app_settings =
  as_encryption_key :: string
  as_host :: string
  as_port :: int
  as_db_path :: string
  as_sentry_dsn :: string
  as_log_level :: string
  as_status_reporting :: bool
  as_status_base_url :: string
  as_status_interval_s :: int

text \<open>How pydantic reads a number and a truth value is a parameter; a field it refuses is a validation error.
  \<open>fr_mkdir\<close> makes the directory a path is in.\<close>

record field_readers =
  fr_int :: "string \<Rightarrow> int option"
  fr_bool :: "string \<Rightarrow> bool option"
  fr_mkdir :: "string \<Rightarrow> unit res"

definition validation_error :: exn where
  "validation_error = PyError ''ValidationError'' ''validation error for Settings''"

definition text_field :: "environment \<Rightarrow> string \<Rightarrow> string \<Rightarrow> string" where
  "text_field e name dflt = (case ev_var e name of None \<Rightarrow> dflt | Some t \<Rightarrow> t)"

definition read_field :: "(string \<Rightarrow> 'a option) \<Rightarrow> environment \<Rightarrow> string \<Rightarrow> 'a \<Rightarrow> 'a res" where
  "read_field rd e name dflt =
     (case ev_var e name of None \<Rightarrow> Inr dflt | Some t \<Rightarrow> (case rd t of None \<Rightarrow> Inl validation_error | Some v \<Rightarrow> Inr v))"

definition other_fields :: "field_readers \<Rightarrow> environment \<Rightarrow> string \<Rightarrow> app_settings res" where
  "other_fields fr e key =
     bind_res (read_field (fr_int fr) e ''port'' 5355) (\<lambda>port.
     bind_res (read_field (fr_bool fr) e ''status_reporting'' True) (\<lambda>reporting.
     bind_res (read_field (fr_int fr) e ''status_interval_s'' 15) (\<lambda>interval.
       Inr \<lparr>as_encryption_key = key, as_host = text_field e ''host'' ''0.0.0.0'', as_port = port,
            as_db_path = text_field e ''db_path'' (default_db_path e), as_sentry_dsn = text_field e ''sentry_dsn'' '''',
            as_log_level = text_field e ''log_level'' ''INFO'', as_status_reporting = reporting,
            as_status_base_url = text_field e ''status_base_url'' ''https://api.accessgrid.com'',
            as_status_interval_s = interval\<rparr>)))"

text \<open>
  \<open>get_settings\<close>: the state is the cached object and the key file. The key is the first field, so its
  default, which writes the file, is made before any other field can be refused. The directory of the
  database is made last; when that raises, nothing is cached and the next call starts again.
\<close>

record config_state =
  co_cached :: "app_settings option"
  co_key_file :: "string option"

definition read_settings :: "field_readers \<Rightarrow> environment \<Rightarrow> string \<Rightarrow> string option \<Rightarrow> app_settings res \<times> string option" where
  "read_settings fr e new file =
     (let (key, file') = (case ev_var e ''encryption_key'' of Some k \<Rightarrow> (k, file) | None \<Rightarrow> load_or_create_key new file)
      in (other_fields fr e key, file'))"

definition get_settings :: "field_readers \<Rightarrow> environment \<Rightarrow> string \<Rightarrow> (config_state, app_settings) comp" where
  "get_settings fr e new c =
     (case co_cached c of
        Some s \<Rightarrow> (Inr s, c)
      | None \<Rightarrow>
          (case read_settings fr e new (co_key_file c) of
             (Inl x, f) \<Rightarrow> (Inl x, c\<lparr>co_key_file := f\<rparr>)
           | (Inr s, f) \<Rightarrow>
               (case fr_mkdir fr (as_db_path s) of
                  Inl x \<Rightarrow> (Inl x, c\<lparr>co_key_file := f\<rparr>)
                | Inr _ \<Rightarrow> (Inr s, c\<lparr>co_cached := Some s, co_key_file := f\<rparr>))))"

text \<open>A process that has its settings keeps them, whatever becomes of the environment.\<close>

lemma settings_are_read_once:
  assumes "get_settings fr e new c = (Inr s, c')"
  shows "get_settings fr' e' new' c' = (Inr s, c')"
  using assms by (auto simp: get_settings_def split: option.splits sum.splits prod.splits)

text \<open>The next process reads the key of the first, when the environment names none.\<close>

lemma next_process_has_the_key:
  assumes "get_settings fr e new c = (Inr s, c')" and "co_cached c = None" and "ev_var e ''encryption_key'' = None"
    and "py_strip new = new" and "new \<noteq> ''''"
    and "get_settings fr e new' (c'\<lparr>co_cached := None\<rparr>) = (Inr s', c'')"
  shows "as_encryption_key s' = as_encryption_key s"
  using assms key_is_made_once [OF assms(4,5), of new' "co_key_file c"]
  by (auto simp: get_settings_def read_settings_def other_fields_def bind_res_Inr_iff split: option.splits sum.splits prod.splits)

section \<open>The database of the process\<close>

text \<open>\<open>_initialized\<close>, the database, and the threads that hold a connection.\<close>

record db_process =
  dp_initialized :: bool
  dp_database :: database
  dp_threads :: "nat list"

definition new_db_process :: "database \<Rightarrow> db_process" where
  "new_db_process db = \<lparr>dp_initialized = False, dp_database = db, dp_threads = []\<rparr>"

definition init_db :: "vault \<Rightarrow> (db_process, unit) comp" where
  "init_db v s =
     (if dp_initialized s then (Inr (), s)
      else (case apply_migrations v (dp_database s) of
              (Inl e, db) \<Rightarrow> (Inl e, s\<lparr>dp_database := db\<rparr>)
            | (Inr _, db) \<Rightarrow> (Inr (), s\<lparr>dp_database := db, dp_initialized := True\<rparr>)))"

definition connected :: "nat \<Rightarrow> db_process \<Rightarrow> db_process" where
  "connected thread s = (if thread \<in> set (dp_threads s) then s else s\<lparr>dp_threads := dp_threads s @ [thread]\<rparr>)"

definition get_db :: "vault \<Rightarrow> nat \<Rightarrow> (db_process, unit) comp" where
  "get_db v thread s =
     (case (if dp_initialized s then (Inr (), s) else init_db v s) of
        (Inl e, s') \<Rightarrow> (Inl e, s')
      | (Inr _, s') \<Rightarrow> (Inr (), connected thread s'))"

text \<open>Who has a connection works on a migrated database, through a connection of their own.\<close>

definition db_process_ok :: "vault \<Rightarrow> db_process \<Rightarrow> bool" where
  "db_process_ok v s \<longleftrightarrow> distinct (dp_threads s) \<and> (dp_threads s \<noteq> [] \<longrightarrow> dp_initialized s)
     \<and> (dp_initialized s \<longrightarrow> fst ` set (MIGRATIONS v) \<subseteq> set (db_applied (dp_database s)))"

lemma init_db_ok: "db_process_ok v s \<Longrightarrow> db_process_ok v (snd (init_db v s))"
proof -
  assume ok: "db_process_ok v s"
  have recorded: "fst ` set (MIGRATIONS v) \<subseteq> set (db_applied db)" if "apply_migrations v (dp_database s) = (Inr u, db)" for u db
    using that migrations_recorded [of "db_applied (dp_database s)" "MIGRATIONS v" "dp_database s" u db] MIGRATIONS_keep
    by (simp add: apply_migrations_def)
  show ?thesis
  proof (cases "apply_migrations v (dp_database s)")
    case (Pair r db)
    then show ?thesis using ok recorded by (cases r) (auto simp: db_process_ok_def init_db_def)
  qed
qed

lemma init_db_initialized: "init_db v s = (Inr u, s') \<Longrightarrow> dp_initialized s'"
  by (auto simp: init_db_def split: if_splits prod.splits sum.splits)

lemma connected_ok: "db_process_ok v s \<Longrightarrow> dp_initialized s \<Longrightarrow> db_process_ok v (connected thread s)"
  by (simp add: db_process_ok_def connected_def)

lemma get_db_ok: "db_process_ok v s \<Longrightarrow> db_process_ok v (snd (get_db v thread s))"
proof (cases "init_db v s")
  case (Pair r s')
  assume ok: "db_process_ok v s"
  have "db_process_ok v s'" using init_db_ok [OF ok] Pair by simp
  then show ?thesis using Pair ok init_db_initialized [of v s]
    by (cases r; cases "dp_initialized s") (simp_all add: get_db_def connected_ok)
qed

text \<open>
  Any number of threads, in any order: after the first connection the migrations are over, and no
  later one touches the database.
\<close>

lemma get_db_settles:
  assumes "get_db v i s = (Inr u, s1)"
  shows "fst (get_db v j s1) = Inr ()" "dp_database (snd (get_db v j s1)) = dp_database s1" "dp_initialized (snd (get_db v j s1))"
  using assms init_db_initialized [of v s] by (auto simp: get_db_def connected_def split: prod.splits sum.splits if_splits)

text \<open>A step that fails leaves every thread without a connection, and is tried again by the next.\<close>

lemma failed_step_fails_everyone:
  assumes "\<not> dp_initialized s" and "apply_migrations v (dp_database s) = (Inl e, dp_database s)"
  shows "get_db v i s = (Inl e, s)"
  using assms by (simp add: get_db_def init_db_def)

section \<open>Where log lines go\<close>

datatype log_handler = Sqlite_handler string | Other_handler nat

record log_setup =
  lo_handlers :: "log_handler list"
  lo_root_level :: string
  lo_levels :: "(string \<times> string) list"

definition NOISY_LOGGERS :: "string list" where
  "NOISY_LOGGERS = [''httpx'', ''httpcore'', ''urllib3'', ''websockets'']"

definition quieten_noisy_libraries :: "log_setup \<Rightarrow> log_setup" where
  "quieten_noisy_libraries l = l\<lparr>lo_levels := fold (\<lambda>n. AList.update n ''WARNING'') NOISY_LOGGERS (lo_levels l)\<rparr>"

fun ours :: "log_handler \<Rightarrow> bool" where
  "ours (Sqlite_handler _) = True"
| "ours (Other_handler _) = False"

definition install_handler :: "string \<Rightarrow> log_setup \<Rightarrow> log_setup" where
  "install_handler level l =
     quieten_noisy_libraries (l\<lparr>lo_root_level := level,
       lo_handlers := List.filter (\<lambda>h. \<not> ours h) (lo_handlers l) @ [Sqlite_handler ''%(message)s'']\<rparr>)"

text \<open>\<open>emit\<close>: the record's level, its text once formatted, its phase; nothing raised gets out.\<close>

definition emit :: "string \<Rightarrow> string \<Rightarrow> string res \<Rightarrow> string option \<Rightarrow> log_store \<Rightarrow> log_store" where
  "emit ts level formatted phase st = (case formatted of Inl _ \<Rightarrow> st | Inr m \<Rightarrow> log_entry ts level m phase st)"

lemma install_handler_one:
  "List.filter ours (lo_handlers (install_handler level l)) = [Sqlite_handler ''%(message)s'']"
  "List.filter (\<lambda>h. \<not> ours h) (lo_handlers (install_handler level l)) = List.filter (\<lambda>h. \<not> ours h) (lo_handlers l)"
  by (simp_all add: install_handler_def quieten_noisy_libraries_def)

lemma install_handler_again: "lo_handlers (install_handler level (install_handler level' l)) = lo_handlers (install_handler level l)"
  by (simp add: install_handler_def quieten_noisy_libraries_def)

lemma noisy_libraries_are_quiet: "n \<in> set NOISY_LOGGERS \<Longrightarrow> map_of (lo_levels (install_handler level l)) n = Some ''WARNING''"
  by (auto simp: install_handler_def quieten_noisy_libraries_def NOISY_LOGGERS_def update_conv')

section \<open>The status thread\<close>

record status_thread =
  st_alive :: bool
  st_stop :: bool
  st_started_at :: int
  st_client :: bool
  st_reporter :: reporter

definition new_status_thread :: "int \<Rightarrow> int \<Rightarrow> status_thread" where
  "new_status_thread now interval_s =
     \<lparr>st_alive = False, st_stop = False, st_started_at = now, st_client = False, st_reporter = new_reporter (of_int interval_s)\<rparr>"

definition start_thread :: "int \<Rightarrow> status_thread \<Rightarrow> status_thread" where
  "start_thread now s = (if st_alive s then s else s\<lparr>st_stop := False, st_started_at := now, st_alive := True\<rparr>)"

text \<open>\<open>_close_client\<close>: an exception of the client is dropped, and so is the client.\<close>

definition close_client :: "status_thread \<Rightarrow> status_thread" where
  "close_client s = (if st_client s then s\<lparr>st_client := False\<rparr> else s)"

lemma close_client_state [simp]: "\<not> st_client (close_client s)" "st_alive (close_client s) = st_alive s"
  by (simp_all add: close_client_def)

text \<open>\<open>ends\<close>: whether the thread came to an end in the two seconds \<open>stop\<close> waits.\<close>

definition stop_thread :: "bool \<Rightarrow> status_thread \<Rightarrow> status_thread" where
  "stop_thread ends s = close_client (s\<lparr>st_stop := True, st_alive := st_alive s \<and> \<not> ends\<rparr>)"

text \<open>\<open>_http_client\<close>: made at the first beat and kept.\<close>

definition http_client :: "status_thread \<Rightarrow> status_thread" where
  "http_client s = (if st_client s then s else s\<lparr>st_client := True\<rparr>)"

text \<open>\<open>_start_status_reporter\<close>: \<open>starts\<close> is whether the operating system gives a thread; a failure is logged.\<close>

definition start_status_reporter :: "app_settings \<Rightarrow> int \<Rightarrow> bool \<Rightarrow> status_thread option" where
  "start_status_reporter cfg now starts =
     (if \<not> as_status_reporting cfg then None
      else if starts then Some (start_thread now (new_status_thread now (as_status_interval_s cfg))) else None)"

text \<open>Whatever interval is configured, a beat comes every 15 to 300 seconds.\<close>

lemma reporter_interval_bounds:
  assumes "start_status_reporter cfg now starts = Some s"
  shows "15 \<le> rp_interval (st_reporter s)" "rp_interval (st_reporter s) \<le> 300" "st_alive s"
  using assms by (auto simp: start_status_reporter_def start_thread_def new_status_thread_def new_reporter_def
      MIN_INTERVAL_S_def MAX_INTERVAL_S_def split: if_splits)


section \<open>Up and down\<close>

text \<open>
  What \<open>lifespan\<close> brings up: the database, the log handler, the engine (None before \<open>get_engine\<close> made
  it) and the status thread.
\<close>

record process =
  ps_db :: db_process
  ps_logging :: log_setup
  ps_engine :: "engine_switch option"
  ps_reporter :: "status_thread option"

definition new_engine_switch :: engine_switch where
  "new_engine_switch = \<lparr>sw_alive = False, sw_stop = False, sw_trigger = False, sw_running = False, sw_cache = no_adapter\<rparr>"

definition get_engine :: "process \<Rightarrow> engine_switch" where
  "get_engine p = (case ps_engine p of None \<Rightarrow> new_engine_switch | Some e \<Rightarrow> e)"

text \<open>\<open>_ignore_client_disconnects\<close>: whether the loop's own handler still gets to see an exception.\<close>

definition reported_by_loop :: "exn option \<Rightarrow> bool" where
  "reported_by_loop e \<longleftrightarrow> map_option exn_class e \<noteq> Some ''ConnectionResetError''"

definition after_database :: "vault \<Rightarrow> app_settings \<Rightarrow> int \<Rightarrow> bool \<Rightarrow> (process, unit) comp" where
  "after_database v cfg now starts p =
     (let p1 = p\<lparr>ps_logging := install_handler ''INFO'' (ps_logging p), ps_engine := Some (get_engine p)\<rparr> in
      case is_configured v (db_settings (dp_database (ps_db p1))) of
        Inl e \<Rightarrow> (Inl e, p1)
      | Inr c \<Rightarrow> (Inr (), p1\<lparr>ps_engine := Some (if c then switch_on (get_engine p) else get_engine p),
                               ps_reporter := start_status_reporter cfg now starts\<rparr>))"

definition lifespan_up :: "vault \<Rightarrow> app_settings \<Rightarrow> int \<Rightarrow> bool \<Rightarrow> nat \<Rightarrow> (process, unit) comp" where
  "lifespan_up v cfg now starts thread p =
     (case init_db v (ps_db p) of
        (Inl e, d) \<Rightarrow> (Inl e, p\<lparr>ps_db := d\<rparr>)
      | (Inr _, d) \<Rightarrow> after_database v cfg now starts (p\<lparr>ps_db := snd (get_db v thread d)\<rparr>))"

text \<open>After the server: the reporter first, then the engine; \<open>ended\<close> says which threads ended in time.\<close>

definition lifespan_down :: "bool \<times> bool \<Rightarrow> process \<Rightarrow> process" where
  "lifespan_down ended p =
     p\<lparr>ps_reporter := map_option (stop_thread (fst ended)) (ps_reporter p),
       ps_engine := Some (switch_off (snd ended) (get_engine p))\<rparr>"

definition cold :: "database \<Rightarrow> process" where
  "cold db = \<lparr>ps_db = new_db_process db, ps_logging = \<lparr>lo_handlers = [], lo_root_level = ''WARNING'', lo_levels = []\<rparr>,
     ps_engine = None, ps_reporter = None\<rparr>"

lemma cold_ok [simp]: "db_process_ok v (new_db_process db)"
  by (simp add: db_process_ok_def new_db_process_def)

text \<open>
  A hub that came up has every migration behind it, and its engine runs exactly when it is configured,
  whatever became of the status thread.
\<close>

lemma came_up:
  assumes "lifespan_up v cfg now starts thread (cold db) = (Inr u, p)"
  shows "fst ` set (MIGRATIONS v) \<subseteq> set (db_applied (dp_database (ps_db p)))"
    and "is_configured v (db_settings (dp_database (ps_db p))) = Inr c \<Longrightarrow> sw_alive (get_engine p) \<longleftrightarrow> c"
proof -
  obtain d where d: "init_db v (new_db_process db) = (Inr (), d)"
    and rest: "after_database v cfg now starts ((cold db)\<lparr>ps_db := snd (get_db v thread d)\<rparr>) = (Inr u, p)"
    using assms by (auto simp: lifespan_up_def cold_def split: prod.splits sum.splits)
  have ok: "db_process_ok v d" using init_db_ok [of v "new_db_process db"] d by simp
  have init: "dp_initialized d" using init_db_initialized [OF d] .
  have same: "ps_db p = snd (get_db v thread d)"
    using rest by (auto simp: after_database_def Let_def split: sum.splits)
  have "dp_initialized (snd (get_db v thread d))" using init by (simp add: get_db_def connected_def)
  then show "fst ` set (MIGRATIONS v) \<subseteq> set (db_applied (dp_database (ps_db p)))"
    using get_db_ok [OF ok, of thread] same by (simp add: db_process_ok_def)
  show "sw_alive (get_engine p) \<longleftrightarrow> c" if "is_configured v (db_settings (dp_database (ps_db p))) = Inr c"
    using rest that by (auto simp: after_database_def Let_def get_engine_def cold_def new_engine_switch_def switch_on_def split: sum.splits if_splits)
qed

text \<open>A migration that fails keeps the hub down: no engine, no status thread, and the same at the next start.\<close>

lemma stuck_migration_keeps_the_hub_down:
  assumes "drop_slots db = (Inl e, db)" and "db_applied db = List.map fst (take 4 (MIGRATIONS v))"
  shows "lifespan_up v cfg now starts thread (cold db) = (Inl e, cold db)"
  using migrations_stuck [OF assms] by (simp add: lifespan_up_def cold_def new_db_process_def init_db_def)

text \<open>A restart on the database of a hub that came up changes nothing in it.\<close>

lemma restart_keeps_the_database:
  assumes "lifespan_up v cfg now starts thread (cold db) = (Inr u, p)"
    and "lifespan_up v cfg' now' starts' thread' (cold (dp_database (ps_db p))) = (r, p')"
  shows "dp_database (ps_db p') = dp_database (ps_db p)"
proof -
  have "fst ` set (MIGRATIONS v) \<subseteq> set (db_applied (dp_database (ps_db p)))" using came_up(1) [OF assms(1)] .
  then have "apply_migrations v (dp_database (ps_db p)) = (Inr (), dp_database (ps_db p))"
    by (simp add: apply_migrations_def all_applied_skipped)
  then show ?thesis using assms(2)
    by (auto simp: lifespan_up_def init_db_def get_db_def connected_def new_db_process_def cold_def after_database_def Let_def
        split: sum.splits if_splits)
qed

text \<open>Going down in time leaves no thread, no connection to AccessGrid and no adapter in use.\<close>

lemma went_down:
  "\<not> sw_alive (get_engine (lifespan_down (True, True) p))"
  "ps_reporter (lifespan_down (True, True) p) = Some s \<Longrightarrow> \<not> st_alive s \<and> \<not> st_client s"
  "ac_current (sw_cache (get_engine (lifespan_down ended p))) = None"
  by (auto simp: lifespan_down_def get_engine_def switch_off_def stop_thread_def retire_pacs_adapter_def
      split: option.splits)


section \<open>Commands\<close>

text \<open>\<open>_local_ips\<close>: the addresses of the host by family (true for IPv4), None when the system refuses to say.\<close>

definition local_ips :: "(bool \<times> string) list option \<Rightarrow> string list" where
  "local_ips infos =
     (case infos of None \<Rightarrow> []
      | Some xs \<Rightarrow> sort (remdups (List.map snd (List.filter (\<lambda>(inet, ip). inet \<and> \<not> py_startswith ip ''127.'') xs))))"

text \<open>The same function again, in \<open>routes/settings.py\<close>.\<close>

definition settings_local_ips :: "(bool \<times> string) list option \<Rightarrow> string list" where
  "settings_local_ips infos =
     (case infos of None \<Rightarrow> []
      | Some xs \<Rightarrow> sort (remdups (List.map snd (List.filter (\<lambda>(inet, ip). inet \<and> \<not> py_startswith ip ''127.'') xs))))"

record server_args =
  sv_host :: string
  sv_port :: int
  sv_log_level :: string
  sv_urls :: "string list"

text \<open>\<open>run\<close>: an option that was not given, or that is empty or zero, leaves the choice to the settings.\<close>

definition server_url :: "string \<Rightarrow> int \<Rightarrow> string" where
  "server_url host port = ''https://'' @ host @ '':'' @ string_of_int port"

definition server_run :: "app_settings \<Rightarrow> (bool \<times> string) list option \<Rightarrow> string option \<Rightarrow> int option \<Rightarrow> server_args" where
  "server_run cfg infos host port =
     (let bind_host = or_word (or_blank host) (as_host cfg);
          bind_port = (case port of Some n \<Rightarrow> if n = 0 then as_port cfg else n | None \<Rightarrow> as_port cfg) in
      \<lparr>sv_host = bind_host, sv_port = bind_port, sv_log_level = py_lower (as_log_level cfg),
       sv_urls = List.map (\<lambda>h. server_url h bind_port) (''localhost'' # local_ips infos)\<rparr>)"

datatype command =
    Run_server "string option" "int option"
  | Reset_admin
  | Generate_key
  | Connect_uri string
  | Register_uri
  | Unregister_uri
  | Install_service
  | Uninstall_service

text \<open>Without a subcommand the server is run, so that a double click starts it.\<close>

definition invoked :: "command option \<Rightarrow> command" where
  "invoked c = (case c of None \<Rightarrow> Run_server None None | Some x \<Rightarrow> x)"

text \<open>\<open>install_service\<close> and \<open>uninstall_service\<close>: what is handed to pywin32, in order.\<close>

definition not_windows :: exn where
  "not_windows = PyError ''RuntimeError'' ''Windows Service operations require Windows.''"

definition install_service :: "bool \<Rightarrow> string list res" where
  "install_service windows = (if \<not> windows then Inl not_windows else Inr [''install'', ''start''])"

definition uninstall_service :: "bool \<Rightarrow> string list res" where
  "uninstall_service windows = (if \<not> windows then Inl not_windows else Inr [''stop'', ''remove''])"

text \<open>The commands ask first: on another system they print a line and leave with 1, and never raise.\<close>

definition install_service_cmd :: "bool \<Rightarrow> (nat + string list) res" where
  "install_service_cmd windows =
     (if \<not> windows then Inr (Inl 1) else bind_res (install_service windows) (\<lambda>verbs. Inr (Inr verbs)))"

definition uninstall_service_cmd :: "bool \<Rightarrow> (nat + string list) res" where
  "uninstall_service_cmd windows =
     (if \<not> windows then Inr (Inl 1) else bind_res (uninstall_service windows) (\<lambda>verbs. Inr (Inr verbs)))"

lemma service_commands_never_raise: "\<exists>r. install_service_cmd w = Inr r" "\<exists>r. uninstall_service_cmd w = Inr r"
  by (simp_all add: install_service_cmd_def uninstall_service_cmd_def install_service_def uninstall_service_def)

text \<open>
  The Windows service: \<open>SvcDoRun\<close> starts the server in a daemon thread and waits for the event that
  \<open>SvcStop\<close> sets. When it returns the process is over, and with it the server, whose shutdown is
  not asked for.
\<close>

datatype service_phase = Not_run | Serving | Returned

record win_service =
  ws_phase :: service_phase
  ws_stop_event :: bool
  ws_reported :: "string list"

definition svc_stop :: "win_service \<Rightarrow> win_service" where
  "svc_stop w = w\<lparr>ws_reported := ws_reported w @ [''SERVICE_STOP_PENDING''], ws_stop_event := True\<rparr>"

definition svc_do_run :: "win_service \<Rightarrow> win_service" where
  "svc_do_run w = w\<lparr>ws_reported := ws_reported w @ [''PYS_SERVICE_STARTED''], ws_phase := Serving\<rparr>"

text \<open>The wait: an automatic-reset event, consumed by the one that waits.\<close>

definition svc_wait :: "win_service \<Rightarrow> win_service" where
  "svc_wait w = (if ws_phase w = Serving \<and> ws_stop_event w then w\<lparr>ws_phase := Returned, ws_stop_event := False\<rparr> else w)"

lemma service_returns_only_when_stopped:
  assumes "ws_phase w = Serving"
  shows "ws_phase (svc_wait w) = Returned \<longleftrightarrow> ws_stop_event w" "ws_phase (svc_wait (svc_stop w)) = Returned"
  using assms by (simp_all add: svc_wait_def svc_stop_def)

definition serve :: "app_settings \<Rightarrow> server_args" where
  "serve cfg = \<lparr>sv_host = as_host cfg, sv_port = as_port cfg, sv_log_level = py_lower (as_log_level cfg), sv_urls = []\<rparr>"

text \<open>The service and a double click bind the same address.\<close>

lemma service_binds_like_run:
  "sv_host (serve cfg) = sv_host (server_run cfg infos None None)" "sv_port (serve cfg) = sv_port (server_run cfg infos None None)"
  by (simp_all add: serve_def server_run_def Let_def or_blank_def or_word_def)

section \<open>What Sentry is told\<close>

record sentry_options =
  so_dsn :: string
  so_release :: string
  so_send_default_pii :: bool

definition init_sentry :: "app_settings \<Rightarrow> string \<Rightarrow> sentry_options option" where
  "init_sentry cfg version =
     (if as_sentry_dsn cfg = '''' then None
      else Some \<lparr>so_dsn = as_sentry_dsn cfg, so_release = ''ag-sync-tool@'' @ version, so_send_default_pii = False\<rparr>)"

text \<open>
  \<open>_attach_user\<close>: the account's id under \<open>user\<close>; an exception on the way leaves what was done so far. A
  \<open>user\<close> that is no dictionary takes no item.
\<close>

definition set_user_id :: "json \<Rightarrow> dict \<Rightarrow> dict" where
  "set_user_id account event =
     (let event1 = (if map_of event ''user'' = None then event @ [(''user'', JObj [])] else event) in
      case map_of event1 ''user'' of
        Some (JObj u) \<Rightarrow> AList.update ''user'' (JObj (AList.update ''id'' account u)) event1
      | _ \<Rightarrow> event1)"

definition attach_user :: "json option res \<Rightarrow> dict \<Rightarrow> dict" where
  "attach_user loaded event =
     (case bind_res loaded (\<lambda>c. case c of None \<Rightarrow> Inr JNull | Some a \<Rightarrow> if jtruthy a then jget ''account_id'' a else Inr JNull) of
        Inl _ \<Rightarrow> event
      | Inr account \<Rightarrow> if jtruthy account then set_user_id account event else event)"

text \<open>Of the stored account only its id reaches an event, and nothing else of the event changes.\<close>

lemma attach_user_others:
  assumes "k \<noteq> ''user''"
  shows "map_of (attach_user loaded event) k = map_of event k"
  using assms by (auto simp: attach_user_def set_user_id_def Let_def update_conv' map_add_def split: sum.split option.split json.split)

lemma attach_user_only_the_id:
  assumes "jlookup d ''account_id'' = jlookup d' ''account_id''" and "d \<noteq> []" and "d' \<noteq> []"
  shows "attach_user (Inr (Some (JObj d))) event = attach_user (Inr (Some (JObj d'))) event"
  using assms by (simp add: attach_user_def)

section \<open>Small answers\<close>

text \<open>\<open>set_lang\<close>: back to where the visitor came from, with a cookie for a year when the language is one of ours.\<close>

definition set_lang :: "string \<Rightarrow> string option \<Rightarrow> string \<times> (string \<times> int) option" where
  "set_lang locale referer =
     (case referer of None \<Rightarrow> ''/'' | Some r \<Rightarrow> r,
      if locale \<in> {''en'', ''es''} then Some (locale, 60 * 60 * 24 * 365) else None)"

text \<open>\<open>wizard_pacs_vendor\<close>: the connection form of a vendor the hub knows.\<close>

definition wizard_pacs_vendor :: "bool \<Rightarrow> string \<Rightarrow> (hub, reply) comp" where
  "wizard_pacs_vendor signed vendor =
     if_bootstrapped signed (\<lambda>h. (Inr (if get_descriptor vendor = None then Redirect ''/wizard'' else Page ''wizard/step4.html''), h))"

text \<open>\<open>ag.test_connection\<close>: building the client and listing one template's first page, each of which may raise.\<close>

definition ag_test_connection :: "(string \<Rightarrow> string \<Rightarrow> 'c res) \<Rightarrow> ('c \<Rightarrow> string \<Rightarrow> unit res) \<Rightarrow> string \<Rightarrow> string \<Rightarrow> string \<Rightarrow> bool \<times> string" where
  "ag_test_connection build list_first account secret template =
     (case bind_res (build account secret) (\<lambda>c. list_first c template) of
        Inr _ \<Rightarrow> (True, '''')
      | Inl e \<Rightarrow> (False, if is_ag_error e then ''AccessGrid: '' @ exn_message e else exn_class e @ '': '' @ exn_message e))"

text \<open>\<open>_run_one_cycle\<close>: a cycle that finds another in flight does nothing and says so.\<close>

definition guarded_cycle :: "bool \<Rightarrow> ('s \<Rightarrow> cycle_result \<times> 's) \<Rightarrow> 's \<Rightarrow> cycle_result \<times> 's" where
  "guarded_cycle in_flight cycle s = (if in_flight then ((new_result 0)\<lparr>cy_error := Some ''cycle_in_flight''\<rparr>, s) else cycle s)"

end
