(* ===== verification/Overlapping_Saves.thy ===== *)
theory Overlapping_Saves
  imports Hub_Properties
begin

text \<open>
  Two requests that overlap. The handlers of the settings page run in a pool of threads (those that are
  coroutines on the event loop beside it), a save of \<open>settings_store.py\<close> is a SELECT and an upsert with
  nothing held in between, and the trigger forms ask the PACS for its card formats in between. A save
  is a small program of two steps here; \<open>saves_run\<close> interleaves any number of them.
\<close>

section \<open>A save in its two steps\<close>

text \<open>A change of a stored dictionary, before its read, between read and write, and after.\<close>

datatype save =
    Waiting "json \<Rightarrow> json res"
  | Loaded json "json \<Rightarrow> json res"
  | Answered_with bool
  | Raised_with exn

definition load_step :: "vault \<Rightarrow> string \<Rightarrow> (json \<Rightarrow> json res) \<Rightarrow> settings \<Rightarrow> save" where
  "load_step v k f rows =
     (case get_json v k rows of
        Inl e \<Rightarrow> Raised_with e
      | Inr None \<Rightarrow> Answered_with False
      | Inr (Some j) \<Rightarrow> if \<not> jtruthy j then Answered_with False else Loaded j f)"

definition store_step :: "vault \<Rightarrow> string \<Rightarrow> json \<Rightarrow> (json \<Rightarrow> json res) \<Rightarrow> settings \<Rightarrow> save \<times> settings" where
  "store_step v k j f rows = (case f j of Inl e \<Rightarrow> (Raised_with e, rows) | Inr j' \<Rightarrow> (Answered_with True, set_json v k j' rows))"

fun save_step :: "vault \<Rightarrow> string \<Rightarrow> save \<Rightarrow> settings \<Rightarrow> save \<times> settings" where
  "save_step v k (Waiting f) rows = (load_step v k f rows, rows)"
| "save_step v k (Loaded j f) rows = store_step v k j f rows"
| "save_step v k s rows = (s, rows)"

fun outcome_of :: "save \<Rightarrow> (exn + bool) option" where
  "outcome_of (Answered_with b) = Some (Inr b)"
| "outcome_of (Raised_with e) = Some (Inl e)"
| "outcome_of _ = None"

text \<open>Left alone, a save is the \<open>change_blob\<close> the configuration classes are made of.\<close>

lemma save_alone:
  "(case save_step v k (Waiting f) rows of (s, rows1) \<Rightarrow> (case save_step v k s rows1 of (t, rows2) \<Rightarrow> (outcome_of t, rows2)))
    = (case change_blob v k f rows of (r, rows2) \<Rightarrow> (Some r, rows2))"
  by (auto simp: load_step_def store_step_def change_blob_def split: sum.split option.split)

text \<open>Any number of saves of one blob: each step is one of any of them.\<close>

inductive saves_run :: "vault \<Rightarrow> string \<Rightarrow> save list \<times> settings \<Rightarrow> save list \<times> settings \<Rightarrow> bool" for v k start where
  begin_run: "saves_run v k start start"
| one_step: "\<lbrakk>saves_run v k start (ss, rows); i < length ss; save_step v k (ss ! i) rows = (s, rows')\<rbrakk>
    \<Longrightarrow> saves_run v k start (ss[i := s], rows')"

section \<open>Two saves of one blob\<close>

text \<open>A change of a dictionary that always succeeds and never leaves it empty, as those of the configuration are.\<close>

definition changes_dict :: "(json \<Rightarrow> json res) \<Rightarrow> ((string \<times> json) list \<Rightarrow> (string \<times> json) list) \<Rightarrow> bool" where
  "changes_dict f g \<longleftrightarrow> (\<forall>d. f (JObj d) = Inr (JObj (g d)) \<and> g d \<noteq> [])"

lemma changes_put: "changes_dict (json_put k x) (AList.update k x)"
proof -
  have "AList.update k x d \<noteq> []" for d by (cases d) auto
  then show ?thesis by (simp add: changes_dict_def)
qed

definition blob_is :: "vault \<Rightarrow> string \<Rightarrow> settings \<Rightarrow> (string \<times> json) list \<Rightarrow> bool" where
  "blob_is v k rows d \<longleftrightarrow> d \<noteq> [] \<and> get_json v k rows = Inr (Some (JObj d))"

lemma save_step_blob:
  assumes "sound_vault v" and "blob_is v k rows d" and "changes_dict f g"
  shows "save_step v k (Waiting f) rows = (Loaded (JObj d) f, rows)"
    and "save_step v k (Loaded (JObj c) f) rows = (Answered_with True, set_json v k (JObj (g c)) rows)"
    and "blob_is v k (set_json v k (JObj (g c)) rows) (g c)"
  using assms get_json_set_json [OF assms(1)]
  by (simp_all add: blob_is_def load_step_def store_step_def changes_dict_def)

text \<open>Where two saves of one blob can be, and what it then holds.\<close>

definition pair_states :: "(json \<Rightarrow> json res) \<Rightarrow> (json \<Rightarrow> json res) \<Rightarrow> ((string \<times> json) list \<Rightarrow> (string \<times> json) list) \<Rightarrow>
    ((string \<times> json) list \<Rightarrow> (string \<times> json) list) \<Rightarrow> (string \<times> json) list \<Rightarrow> (save list \<times> (string \<times> json) list) set" where
  "pair_states f1 f2 g1 g2 d =
     {([Waiting f1, Waiting f2], d), ([Loaded (JObj d) f1, Waiting f2], d), ([Waiting f1, Loaded (JObj d) f2], d),
      ([Loaded (JObj d) f1, Loaded (JObj d) f2], d),
      ([Answered_with True, Waiting f2], g1 d), ([Answered_with True, Loaded (JObj d) f2], g1 d),
      ([Answered_with True, Loaded (JObj (g1 d)) f2], g1 d),
      ([Waiting f1, Answered_with True], g2 d), ([Loaded (JObj d) f1, Answered_with True], g2 d),
      ([Loaded (JObj (g2 d)) f1, Answered_with True], g2 d)}
     \<union> {([Answered_with True, Answered_with True], r) | r. r \<in> {g2 (g1 d), g1 (g2 d), g1 d, g2 d}}"

text \<open>One step of either, with the blob for the settings.\<close>

definition pair_next :: "((string \<times> json) list \<Rightarrow> (string \<times> json) list) \<Rightarrow> ((string \<times> json) list \<Rightarrow> (string \<times> json) list) \<Rightarrow>
    nat \<Rightarrow> save list \<times> (string \<times> json) list \<Rightarrow> save list \<times> (string \<times> json) list" where
  "pair_next g1 g2 i x =
     (case fst x ! i of
        Waiting f \<Rightarrow> ((fst x)[i := Loaded (JObj (snd x)) f], snd x)
      | Loaded (JObj c) f \<Rightarrow> ((fst x)[i := Answered_with True], (if i = 0 then g1 else g2) c)
      | _ \<Rightarrow> x)"

lemma pair_next_closed:
  assumes "x \<in> pair_states f1 f2 g1 g2 d" and "i = 0 \<or> i = Suc 0"
  shows "pair_next g1 g2 i x \<in> pair_states f1 f2 g1 g2 d"
  using assms(1) unfolding pair_states_def Un_iff insert_iff empty_iff mem_Collect_eq
  by (elim disjE exE conjE; insert assms(2); elim disjE; simp add: pair_next_def)

lemma pair_shape:
  assumes "(ss, r) \<in> pair_states f1 f2 g1 g2 d" and "i < length ss"
  shows "i = 0 \<or> i = Suc 0"
    and "ss ! i \<in> {Waiting (if i = 0 then f1 else f2), Answered_with True} \<union> range (\<lambda>c. Loaded (JObj c) (if i = 0 then f1 else f2))"
proof -
  show i: "i = 0 \<or> i = Suc 0" using assms by (auto simp: pair_states_def less_Suc_eq)
  show "ss ! i \<in> {Waiting (if i = 0 then f1 else f2), Answered_with True} \<union> range (\<lambda>c. Loaded (JObj c) (if i = 0 then f1 else f2))"
    using assms(1) i by (auto simp: pair_states_def)
qed

lemma pair_step:
  assumes "sound_vault v" and "changes_dict f1 g1" and "changes_dict f2 g2"
    and "(ss, r) \<in> pair_states f1 f2 g1 g2 d" and "blob_is v k rows r" and "i < length ss"
    and "save_step v k (ss ! i) rows = (s, rows')"
  shows "\<exists>r'. (ss[i := s], r') = pair_next g1 g2 i (ss, r) \<and> blob_is v k rows' r'"
proof -
  obtain f g where f: "f = (if i = 0 then f1 else f2)" and g: "g = (if i = 0 then g1 else g2)" by blast
  have change: "changes_dict f g" using assms(2,3) by (simp add: f g)
  note st = save_step_blob [OF assms(1,5) change]
  consider "ss ! i = Waiting f" | "ss ! i = Answered_with True" | c where "ss ! i = Loaded (JObj c) f"
    using pair_shape(2) [OF assms(4,6), folded f] by blast
  then show ?thesis
  proof cases
    case 1
    then have "s = Loaded (JObj r) f" "rows' = rows" using assms(7) st(1) by auto
    then show ?thesis using 1 assms(5) by (simp add: pair_next_def)
  next
    case 2
    then have "ss[i := s] = ss" "rows' = rows" using assms(7) by auto
    then show ?thesis using 2 assms(5) by (simp add: pair_next_def)
  next
    case 3
    then have "s = Answered_with True" "rows' = set_json v k (JObj (g c)) rows" using assms(7) st(2) [of c] by simp_all
    then show ?thesis using 3 st(3) [of c] by (simp add: pair_next_def g)
  qed
qed

lemma pair_run:
  assumes "saves_run v k ([Waiting f1, Waiting f2], rows) out" and "sound_vault v" and "changes_dict f1 g1" and "changes_dict f2 g2"
    and "blob_is v k rows d"
  shows "\<exists>r. (fst out, r) \<in> pair_states f1 f2 g1 g2 d \<and> blob_is v k (snd out) r"
  using assms(1)
proof (induction rule: saves_run.induct)
  case begin_run
  then show ?case using assms(5) by (auto simp: pair_states_def)
next
  case (one_step ss rows1 i s rows')
  then obtain r where r: "(ss, r) \<in> pair_states f1 f2 g1 g2 d" "blob_is v k rows1 r" by auto
  from pair_step [OF assms(2-4) r one_step.hyps(2,3)] obtain r'
    where r': "(ss[i := s], r') = pair_next g1 g2 i (ss, r)" "blob_is v k rows' r'" by blast
  then show ?case using pair_next_closed [OF r(1) pair_shape(1) [OF r(1) one_step.hyps(2)]] by (metis fst_conv snd_conv)
qed

text \<open>One save after the other has read is enough for any of the four ends.\<close>

lemma run_steps:
  assumes "saves_run v k start (ss, rows)" and "i < length ss"
  shows "saves_run v k start (ss[i := fst (save_step v k (ss ! i) rows)], snd (save_step v k (ss ! i) rows))"
  using saves_run.one_step [OF assms] by (cases "save_step v k (ss ! i) rows") simp

text \<open>The indices of the saves that move, in order.\<close>

definition move :: "vault \<Rightarrow> string \<Rightarrow> nat \<Rightarrow> save list \<times> settings \<Rightarrow> save list \<times> settings" where
  "move v k i x = ((fst x)[i := fst (save_step v k (fst x ! i) (snd x))], snd (save_step v k (fst x ! i) (snd x)))"

lemma length_move [simp]: "length (fst (move v k i x)) = length (fst x)"
  by (simp add: move_def)

lemma run_schedule:
  assumes "saves_run v k start x" and "\<forall>i\<in>set is. i < length (fst x)"
  shows "saves_run v k start (fold (move v k) is x)"
  using assms
proof (induction "is" arbitrary: x)
  case (Cons i js)
  have "saves_run v k start (move v k i x)" using run_steps [of v k start "fst x" "snd x" i] Cons.prems by (simp add: move_def)
  then show ?case using Cons.IH [of "move v k i x"] Cons.prems(2) by simp
qed simp

text \<open>Both at once: who stores last decides, unless one reads after the other stored.\<close>

lemma two_save_ends:
  assumes "sound_vault v" and "changes_dict f1 g1" and "changes_dict f2 g2" and "blob_is v k rows d"
    and "r \<in> {g2 (g1 d), g1 (g2 d), g1 d, g2 d}"
  shows "\<exists>rows'. saves_run v k ([Waiting f1, Waiting f2], rows) ([Answered_with True, Answered_with True], rows') \<and>
    get_json v k rows' = Inr (Some (JObj r))"
proof -
  let ?start = "([Waiting f1, Waiting f2], rows)"
  have ends: ?thesis if "fold (move v k) is ?start = ([Answered_with True, Answered_with True], set_json v k (JObj r) rows')"
    and "\<forall>i\<in>set is. i < 2" for "is" rows'
  proof -
    have "\<forall>i\<in>set is. i < length (fst ?start)" using that(2) by (simp add: numeral_2_eq_2)
    from run_schedule [OF begin_run this, of v k] show ?thesis using that(1) get_json_set_json [OF assms(1)] by auto
  qed
  note st = save_step_blob [OF assms(1)]
  note w1 = st [OF assms(4,2)] and w2 = st [OF assms(4,3)]
  note a1 = st [OF w1(3) [of d] assms(3)] and a2 = st [OF w2(3) [of d] assms(2)]
  consider "r = g2 (g1 d)" | "r = g1 (g2 d)" | "r = g1 d" | "r = g2 d" using assms(5) by blast
  then show ?thesis
  proof cases
    case 1
    then show ?thesis using w1 a1 by (intro ends [of "[0, 0, 1, 1]" "set_json v k (JObj (g1 d)) rows"]) (simp_all add: move_def)
  next
    case 2
    then show ?thesis using w2 a2 by (intro ends [of "[1, 1, 0, 0]" "set_json v k (JObj (g2 d)) rows"]) (simp_all add: move_def)
  next
    case 3
    then show ?thesis using w1 w2 a2(2)
      by (intro ends [of "[0, 1, 1, 0]" "set_json v k (JObj (g2 d)) rows"]) (simp_all add: move_def)
  next
    case 4
    then show ?thesis using w1 w2 a1(2)
      by (intro ends [of "[0, 1, 0, 1]" "set_json v k (JObj (g1 d)) rows"]) (simp_all add: move_def)
  qed
qed

text \<open>
  C13. Overlapping saves lose changes, silently. Two changes of one stored configuration that are made at
  the same time are both answered as saved, whatever the order of their steps; what is stored then is
  both changes, or either one alone, and each of these four ends is the end of some run: nothing tells
  the operator that the other change is gone.
\<close>

theorem overlapping_saves_lose_changes:
  assumes "sound_vault v" and "changes_dict f1 g1" and "changes_dict f2 g2"
    and "get_json v k rows = Inr (Some (JObj d))" and "d \<noteq> []"
  shows "(\<forall>s t rows'. saves_run v k ([Waiting f1, Waiting f2], rows) ([s, t], rows') \<and> outcome_of s \<noteq> None \<and> outcome_of t \<noteq> None \<longrightarrow>
      outcome_of s = Some (Inr True) \<and> outcome_of t = Some (Inr True) \<and>
      (\<exists>r\<in>{g2 (g1 d), g1 (g2 d), g1 d, g2 d}. get_json v k rows' = Inr (Some (JObj r)))) \<and>
    (\<forall>r\<in>{g2 (g1 d), g1 (g2 d), g1 d, g2 d}. \<exists>rows'.
      saves_run v k ([Waiting f1, Waiting f2], rows) ([Answered_with True, Answered_with True], rows') \<and>
      get_json v k rows' = Inr (Some (JObj r)))"
proof (intro conjI)
  have start: "blob_is v k rows d" using assms(4,5) by (simp add: blob_is_def)
  show "\<forall>s t rows'. saves_run v k ([Waiting f1, Waiting f2], rows) ([s, t], rows') \<and> outcome_of s \<noteq> None \<and> outcome_of t \<noteq> None \<longrightarrow>
      outcome_of s = Some (Inr True) \<and> outcome_of t = Some (Inr True) \<and>
      (\<exists>r\<in>{g2 (g1 d), g1 (g2 d), g1 d, g2 d}. get_json v k rows' = Inr (Some (JObj r)))"
    using pair_run [OF _ assms(1-3) start] by (fastforce simp: pair_states_def blob_is_def)
  show "\<forall>r\<in>{g2 (g1 d), g1 (g2 d), g1 d, g2 d}. \<exists>rows'.
      saves_run v k ([Waiting f1, Waiting f2], rows) ([Answered_with True, Answered_with True], rows') \<and>
      get_json v k rows' = Inr (Some (JObj r))"
    using two_save_ends [OF assms(1-3) start] by blast
qed

definition two_changes :: "save list \<times> settings" where
  "two_changes = ([Waiting (json_put ''site_code'' (JStr ''7'')), Waiting (json_put ''card_title'' (JStr ''T''))],
     ag_save demo_vault demo_config [])"

theorem overlapping_saves_lose_changes_witness:
  "\<exists>rows' d. saves_run demo_vault AG_KEY two_changes ([Answered_with True, Answered_with True], rows') \<and>
     get_json demo_vault AG_KEY rows' = Inr (Some (JObj d)) \<and>
     map_of d ''site_code'' = Some (JStr ''7'') \<and> map_of d ''card_title'' \<noteq> Some (JStr ''T'')"
proof -
  obtain d where d: "ag_blob demo_config = JObj d" "d \<noteq> []" "map_of d ''card_title'' = Some (JStr '''')"
    by (simp add: ag_blob_def demo_config_def new_config_def)
  have stored: "get_json demo_vault AG_KEY (ag_save demo_vault demo_config []) = Inr (Some (JObj d))"
    using holds_save [OF demo_vault_sound, of demo_config "[]"] d(1) by (simp add: holds_config_def ag_load_def)
  note all = overlapping_saves_lose_changes [OF demo_vault_sound changes_put [of "''site_code''" "JStr ''7''"]
    changes_put [of "''card_title''" "JStr ''T''"] stored d(2)]
  show ?thesis using all d(3) unfolding two_changes_def by (auto simp: update_conv')
qed

section \<open>The trigger form, which asks the PACS in between\<close>

text \<open>\<open>update_trigger_format\<close> from the moment the configuration is loaded: the PACS is asked, then all of it stored.\<close>

definition finish_trigger :: "page_env \<Rightarrow> string \<Rightarrow> json option \<Rightarrow> (hub, reply) comp" where
  "finish_trigger env fmt p =
     (if \<not> jtruthy (or_empty p) then give not_configured
      else bind_comp (store_trigger env fmt (or_empty p)) (\<lambda>stored.
        if stored then do_then (on_engine trigger_now) (give (Redirect ''/settings?ok=trigger''))
        else give (Redirect ''/settings?err=trigger'')))"

lemma trigger_in_two:
  "post_trigger_format env True fmt h =
     (case pacs_load (pg_vault env) (hb_settings h) of Inl e \<Rightarrow> (Inl e, h) | Inr p \<Rightarrow> finish_trigger env fmt p h)"
  by (auto simp: post_trigger_format_def finish_trigger_def if_signed_def bind_comp_def read_setting_def split: sum.split)

definition pacs_blob :: "string \<Rightarrow> params \<Rightarrow> params \<Rightarrow> json" where
  "pacs_blob vendor ps opts = JObj [(''vendor'', JStr vendor), (''params'', JObj ps), (''options'', JObj opts)]"

definition trigger_hub :: "page_env \<Rightarrow> string \<Rightarrow> params \<Rightarrow> params \<Rightarrow> hub \<Rightarrow> hub" where
  "trigger_hub env vendor qs opts h =
     on_engine trigger_now (on_engine invalidate_pacs_adapter (h\<lparr>hb_settings := pacs_save (pg_vault env) vendor qs opts (hb_settings h)\<rparr>))"

lemma finish_trigger_stores:
  assumes "trigger_params env vendor ps fmt = Inr qs"
  shows "finish_trigger env fmt (Some (pacs_blob vendor ps opts)) h = (Inr (Redirect ''/settings?ok=trigger''), trigger_hub env vendor qs opts h)"
proof -
  have keep: "jor (JObj d) (JObj []) = JObj d" for d by (cases d) (simp_all add: jor_def)
  then have "or_empty (Some (pacs_blob vendor ps opts)) = pacs_blob vendor ps opts" by (simp add: or_empty_def pacs_blob_def)
  then show ?thesis using assms
    by (simp add: finish_trigger_def store_trigger_def bind_comp_def pacs_blob_def jlookup_def keep do_then_def give_def trigger_hub_def)
qed

lemma trigger_hub_settings [simp]: "hb_settings (trigger_hub env vendor qs opts h) = pacs_save (pg_vault env) vendor qs opts (hb_settings h)"
  by (simp add: trigger_hub_def on_engine_def)

lemma trigger_hub_stores:
  assumes "sound_vault (pg_vault env)"
  shows "stored_pacs env (trigger_hub env vendor qs opts h) vendor qs opts"
    and "session_connected (pg_vault env) vendor' (hb_settings (trigger_hub env vendor qs opts h))
      = session_connected (pg_vault env) vendor' (hb_settings h)"
  using get_json_set_json [OF assms]
  by (simp_all add: stored_pacs_def pacs_load_def pacs_save_def session_connected_def PACS_KEY_def session_key_def)

lemma trigger_params_others:
  assumes "trigger_params env vendor ps fmt = Inr qs" and "k \<notin> {''trigger_card_format'', ''trigger_card_format_label''}"
  shows "map_of qs k = map_of ps k"
  using assms by (auto simp: trigger_params_def bind_res_Inr_iff split: option.splits)

lemma address_is_no_trigger:
  "address_fields (get_descriptor vendor) = [f] \<Longrightarrow> f \<notin> {''trigger_card_format'', ''trigger_card_format_label''}"
  using address_fields_cases [of vendor] by auto

text \<open>
  C12. A trigger saved over a new address puts the old one back. The trigger form loads the configuration,
  asks the PACS for its card formats, which takes as long as the PACS takes, and stores all it loaded. When
  the address form is answered in between, its change is undone: both forms say they saved, the address
  stored is the old host's, and the session captured for it is gone. A trigger form sent after the answer
  keeps the new address.
\<close>

theorem late_trigger_restores_the_address:
  assumes "sound_vault (pg_vault env)" and "stored_pacs env h vendor ps opts" and "address_fields (get_descriptor vendor) = [f]"
    and "read_address env form f = Inr (Some (f, JStr a))" and "jget_or f (JStr '''') (JObj ps) \<noteq> Inr (JStr a)"
    and "trigger_params env vendor ps fmt = Inr qs" and "trigger_params env vendor (AList.update f (JStr a) ps) fmt = Inr qs'"
  shows "\<exists>p h1 h2 h3. pacs_load (pg_vault env) (hb_settings h) = Inr p \<and> submit env True (SetAddress form) h = (Inr address_ok, h1) \<and>
    finish_trigger env fmt p h1 = (Inr (Redirect ''/settings?ok=trigger''), h2) \<and>
    stored_pacs env h2 vendor qs opts \<and> map_of qs f = map_of ps f \<and>
    session_connected (pg_vault env) vendor (hb_settings h2) = Inr False \<and>
    submit env True (SetTrigger fmt) h1 = (Inr (Redirect ''/settings?ok=trigger''), h3) \<and>
    stored_pacs env h3 vendor qs' opts \<and> map_of qs' f = Some (JStr a)"
proof -
  let ?h1 = "moved_hub env vendor (AList.update f (JStr a) ps) opts h"
  let ?h2 = "trigger_hub env vendor qs opts ?h1" and ?h3 = "trigger_hub env vendor qs' opts ?h1"
  note f = address_is_no_trigger [OF assms(3)]
  have load: "pacs_load (pg_vault env) (hb_settings h) = Inr (Some (pacs_blob vendor ps opts))"
    using assms(2) by (simp add: stored_pacs_def pacs_blob_def)
  have load1: "pacs_load (pg_vault env) (hb_settings ?h1) = Inr (Some (pacs_blob vendor (AList.update f (JStr a) ps) opts))"
    using pacs_of_moved [OF assms(1)] by (simp add: stored_pacs_def pacs_blob_def)
  have "submit env True (SetAddress form) h = (Inr address_ok, ?h1)" using post_address [OF assms(1-4)] assms(5) by simp
  moreover have "submit env True (SetTrigger fmt) ?h1 = (Inr (Redirect ''/settings?ok=trigger''), ?h3)"
    using load1 finish_trigger_stores [OF assms(7)] by (simp add: trigger_in_two)
  moreover have "map_of qs f = map_of ps f" "map_of qs' f = Some (JStr a)"
    using trigger_params_others [OF assms(6) f] trigger_params_others [OF assms(7) f] by (simp_all add: update_conv')
  ultimately show ?thesis
    using load finish_trigger_stores [OF assms(6), of opts ?h1] trigger_hub_stores [OF assms(1)] no_session_after_move by metis
qed

definition ultra_hub :: hub where
  "ultra_hub = (demo_hub None)\<lparr>hb_settings := pacs_save demo_vault ''millennium_ultra'' [(''base_url'', JStr ''https://old.example'')] [] []\<rparr>"

theorem late_trigger_restores_the_address_witness:
  "\<exists>p h1 h2 qs. pacs_load demo_vault (hb_settings ultra_hub) = Inr p \<and>
     submit demo_pages True (SetAddress [(''base_url'', ''https://new.example'')]) ultra_hub = (Inr address_ok, h1) \<and>
     finish_trigger demo_pages ''7'' p h1 = (Inr (Redirect ''/settings?ok=trigger''), h2) \<and>
     stored_pacs demo_pages h2 ''millennium_ultra'' qs [] \<and> map_of qs ''base_url'' = Some (JStr ''https://old.example'')"
proof -
  let ?ps = "[(''base_url'', JStr ''https://old.example'')]"
  have a: "sound_vault (pg_vault demo_pages)" by (simp add: demo_pages_def demo_vault_sound)
  have b: "stored_pacs demo_pages ultra_hub ''millennium_ultra'' ?ps []"
    by (simp add: stored_pacs_def ultra_hub_def demo_pages_def pacs_load_def pacs_save_def get_json_set_json [OF demo_vault_sound])
  have c: "address_fields (get_descriptor ''millennium_ultra'') = [''base_url'']" by code_simp
  have "normalise_url (pg_bracketed demo_pages) (py_strip (form_get [(''base_url'', ''https://new.example'')] ''base_url'' '''')) =
      Inr (Some ''https://new.example'')"
    unfolding demo_pages_def page_env.select_convs by code_simp
  then have d: "read_address demo_pages [(''base_url'', ''https://new.example'')] ''base_url'' = Inr (Some (''base_url'', JStr ''https://new.example''))"
    by (simp add: read_address_def)
  have e: "jget_or ''base_url'' (JStr '''') (JObj ?ps) \<noteq> Inr (JStr ''https://new.example'')" by simp
  have t: "trigger_params demo_pages ''millennium_ultra'' ps ''7'' = Inr (AList.update ''trigger_card_format_label'' (JStr ''AG'')
      (AList.update ''trigger_card_format'' (JStr ''7'') ps))" for ps
  proof -
    have "py_strip ''7'' = ''7''" by code_simp
    then show ?thesis by (simp add: trigger_params_def demo_pages_def)
  qed
  have v: "pg_vault demo_pages = demo_vault" by (simp add: demo_pages_def)
  from late_trigger_restores_the_address [OF a b c d e t t, unfolded v] obtain p h1 h2 where
    "pacs_load demo_vault (hb_settings ultra_hub) = Inr p"
    "submit demo_pages True (SetAddress [(''base_url'', ''https://new.example'')]) ultra_hub = (Inr address_ok, h1)"
    "finish_trigger demo_pages ''7'' p h1 = (Inr (Redirect ''/settings?ok=trigger''), h2)"
    "stored_pacs demo_pages h2 ''millennium_ultra'' (AList.update ''trigger_card_format_label'' (JStr ''AG'')
      (AList.update ''trigger_card_format'' (JStr ''7'') ?ps)) []"
    by blast
  then show ?thesis
    by (intro exI [of _ p] exI [of _ h1] exI [of _ h2] exI [of _ "AList.update ''trigger_card_format_label'' (JStr ''AG'')
      (AList.update ''trigger_card_format'' (JStr ''7'') ?ps)"] conjI) (assumption+, simp)
qed

end
