(* ===== verification/Field_Probe.thy ===== *)
theory Field_Probe
  imports Unity_Adapter
begin

text \<open>
  \<open>scripts/avigilon_probe.py\<close>: the read-only probe a site runs against its Unity box before the adapter is
  trusted with it. What it prints is redacted and meant for a chat or a ticket; its tables are copies of
  the adapter's, kept apart so that it runs alone. The network is the \<open>http\<close> of the adapters; the XML
  parser, the length of a body in bytes, the regular expressions over whole pages, the name lookup and the
  direct connection to AccessGrid are parameters. The last lemmas show that a run only reads.
\<close>

type_synonym facts = "(string \<times> json) list"

section \<open>Redaction\<close>

definition PII_WORDS :: "string list" where
  "PII_WORDS = [''name'', ''email'', ''phone'', ''number'', ''photo'', ''address'', ''udf'', ''login'']"

text \<open>The pattern, searched regardless of case; \<open>pin\<close> only where the key ends (or ends a line).\<close>

definition pii_key :: "string \<Rightarrow> bool" where
  "pii_key k \<longleftrightarrow> (let t = py_lower k; r = rev t in
     list_ex (\<lambda>w. py_contains t w) PII_WORDS \<or> take 3 r = ''nip'' \<or> take 4 r = char_of (10::nat) # ''nip'')"

definition redacted_text :: "string \<Rightarrow> string" where
  "redacted_text s = ''<str len='' @ string_of_nat (length s) @ '' '' @ (if py_isdigit s then ''digits'' else ''text'') @ ''>''"

fun redact_val :: "string \<Rightarrow> bool \<Rightarrow> pyval \<Rightarrow> pyval" where
  "redact_val key pii (PStr s) =
     (if \<not> (pii \<and> s \<noteq> '''' \<and> pii_key key) then PStr s
      else if py_lower s = ''accessgrid'' then PStr s else PStr (redacted_text s))"
| "redact_val key pii v = v"

fun redact :: "string \<Rightarrow> bool \<Rightarrow> json \<Rightarrow> json" where
  "redact key pii (JObj d) = JObj (List.map (\<lambda>kv. (fst kv, redact (fst kv) pii (snd kv))) d)"
| "redact key pii (JArr xs) =
     JArr (take 3 (List.map (redact key pii) xs)
       @ (if 3 < length xs then [JStr (''<'' @ string_of_nat (length xs - 3) @ '' more>'')] else []))"
| "redact key pii (JVal v) = JVal (redact_val key pii v)"

text \<open>
  Two values a reader of the report cannot tell apart: the same but for texts under a personal key,
  which need only have the same length and both be digits or both not, neither of them the trigger; of a
  list only the first three count.
\<close>

definition hidden_alike :: "string \<Rightarrow> string \<Rightarrow> bool" where
  "hidden_alike s t \<longleftrightarrow> s \<noteq> '''' \<and> t \<noteq> '''' \<and> length s = length t \<and> py_isdigit s = py_isdigit t
     \<and> py_lower s \<noteq> ''accessgrid'' \<and> py_lower t \<noteq> ''accessgrid''"

inductive alike :: "string \<Rightarrow> json \<Rightarrow> json \<Rightarrow> bool" where
  same_value: "alike key (JVal v) (JVal v)"
| hidden: "pii_key key \<Longrightarrow> hidden_alike s t \<Longrightarrow> alike key (JStr s) (JStr t)"
| lists: "length xs = length ys \<Longrightarrow> list_all2 (alike key) (take 3 xs) (take 3 ys) \<Longrightarrow> alike key (JArr xs) (JArr ys)"
| dicts: "list_all2 (\<lambda>kv kw. fst kv = fst kw \<and> alike (fst kv) (snd kv) (snd kw)) d e \<Longrightarrow> alike key (JObj d) (JObj e)"

lemma redact_alike: "alike key v w \<Longrightarrow> redact key True v = redact key True w"
proof (induction rule: alike.induct)
  case (hidden key s t)
  then show ?case by (simp add: hidden_alike_def redacted_text_def)
next
  case (lists xs ys key)
  then have "List.map (redact key True) (take 3 xs) = List.map (redact key True) (take 3 ys)"
    by (auto simp: list_all2_conv_all_nth intro!: nth_equalityI)
  then show ?case using lists.hyps by (simp add: take_map)
next
  case (dicts d e key)
  then show ?case by (auto simp: list_all2_conv_all_nth intro!: nth_equalityI)
qed simp


text \<open>What gets through: a number that is not a text, and any text under a key of its own inside a personal one.\<close>

lemma numbers_are_printed: "redact key True (JInt n) = JInt n"
  by simp

lemma inner_key_decides:
  assumes "\<not> pii_key inner"
  shows "redact key True (JObj [(inner, JStr s)]) = JObj [(inner, JStr s)]"
  using assms by simp

section \<open>The adapter's tables, copied\<close>

definition PROBE_PREFIXES :: "string list" where "PROBE_PREFIXES = [''plasec'', ''avigilon'']"

definition IDENTITY_FIELDS :: "string list" where
  "IDENTITY_FIELDS = [''Fname'', ''Lname'', ''Name'', ''Idstatus'', ''identityEmailaddress'', ''identityPhone'',
     ''identityWorkphone'', ''identityTitle'', ''identityDepartment'']"

definition TOKEN_FIELDS :: "(string \<times> string option) list" where
  "TOKEN_FIELDS = [(''Internalnumber'', None), (''Embossednumber'', None), (''Tokenstatus'', Some ''token_status''),
     (''Issuedate'', Some ''formatted_issue_date''), (''Activatedate'', Some ''formatted_activate_date''),
     (''Deactivatedate'', Some ''formatted_deactivate_date'')]"

definition PROBE_FORM_FIELDS :: "string list" where
  "PROBE_FORM_FIELDS = [
    ''plasecInternalnumber'', ''plasecEmbossednumber'', ''plasecPIN'', ''plasecTokenType'',
    ''plasecTokenlevel'', ''plasecTokenMobileAppType'', ''plasecTokenOrigoMobileIdType'',
    ''plasecDownload'', ''plasecTokenEnableReValidation'', ''plasecTokenUnitofUpdatePeriod'',
    ''plasecTokenVIP'', ''plasecTrace'', ''plasectokenExtaccess'', ''plasecTokennoexpire'',
    ''plasectokenPinexempt'', ''plasectokenUseloseexempt'', ''plasecTokenOffice'',
    ''plasecTokenSetLockDown'', ''plasecTokenAuditOpenings'', ''plasecTokenOverridePrivacy'',
    ''plasecTokenOverrideLockDown'']"

definition PROBE_FORM_DATES :: "string list" where
  "PROBE_FORM_DATES = [''plasecIssuedate'', ''plasecActivatedate'', ''plasecDeactivatedate'']"

definition PROBE_STATUS_CODES :: "(string \<times> string) list" where
  "PROBE_STATUS_CODES = [(''active'', ''1''), (''inactive'', ''2''), (''not yet active'', ''3''), (''expired'', ''4'')]"

definition PROBE_DATE_FORMATS :: "directive list list" where
  "PROBE_DATE_FORMATS =
    [[DYear, DMonth, DDay, DHour, DMinute, DSecond, DLit (CHR ''Z'')],
     [DMonth, DLit (CHR ''/''), DDay, DLit (CHR ''/''), DYear, DSpace, DHour12, DLit (CHR '':''), DMinute, DSpace, DAmPm],
     [DMonth, DLit (CHR ''/''), DDay, DLit (CHR ''/''), DYear, DSpace, DHour, DLit (CHR '':''), DMinute, DLit (CHR '':''), DSecond],
     [DMonth, DLit (CHR ''/''), DDay, DLit (CHR ''/''), DYear, DSpace, DHour, DLit (CHR '':''), DMinute],
     [DMonth, DLit (CHR ''/''), DDay, DLit (CHR ''/''), DYear]]"

definition XML_SEARCH :: "(string \<times> string) list" where
  "XML_SEARCH = [
    (''identity_search_exec_search'', ''true''), (''adv_search_field_0'', ''''),
    (''adv_search_udf_0'', ''''), (''adv_search_val_0'', ''''), (''search_pattern_0'', ''2''),
    (''adv_search_and_or'', ''&''), (''adv_search_cnt'', ''0''), (''adv_search_exec_search'', ''true''),
    (''quick_search'', ''true''), (''qck_search_and_or'', ''&''), (''lnam'', ''''), (''fnam'', ''''), (''tkn'', ''''),
    (''search_pattern_fnam'', ''2''), (''search_pattern_lnam'', ''2''), (''group_id'', ''''), (''id'', '''')]"

lemma copies_agree:
  "PROBE_PREFIXES = PREFIXES" "PROBE_FORM_FIELDS = TOKEN_FORM_FIELDS" "PROBE_FORM_DATES = TOKEN_FORM_DATES"
  "PROBE_STATUS_CODES = STATUS_CODES" "PROBE_DATE_FORMATS = DATE_FORMATS" "XML_SEARCH = XML_IDENTITY_SEARCH"
  by (simp_all add: PROBE_PREFIXES_def PREFIXES_def PROBE_FORM_FIELDS_def TOKEN_FORM_FIELDS_def PROBE_FORM_DATES_def
      TOKEN_FORM_DATES_def PROBE_STATUS_CODES_def STATUS_CODES_def PROBE_DATE_FORMATS_def DATE_FORMATS_def
      XML_SEARCH_def XML_IDENTITY_SEARCH_def)

section \<open>Verdicts on values\<close>

definition adapter_reads_date :: "string \<Rightarrow> bool" where
  "adapter_reads_date t \<longleftrightarrow> parse_iso t \<noteq> None \<or> first_some (\<lambda>f. strptime f t) PROBE_DATE_FORMATS \<noteq> None"

definition recognised :: "string \<Rightarrow> bool" where
  "recognised t \<longleftrightarrow> t \<in> {''1'', ''2'', ''3'', ''4''} \<or> map_of PROBE_STATUS_CODES (py_lower t) \<noteq> None"

text \<open>A date is called readable exactly when the adapter's \<open>parse_date\<close> returns, a status exactly when it has a code.\<close>

lemma date_verdict_is_the_adapters:
  assumes "py_strip t = t" and "t \<noteq> ''''"
  shows "adapter_reads_date t \<longleftrightarrow> (\<exists>d. parse_date offset t = Inr (Some d))"
  using assms by (auto simp: adapter_reads_date_def parse_date_def Let_def copies_agree split: option.splits)

lemma status_verdict_is_the_adapters:
  assumes "raw \<noteq> JNull"
  shows "recognised (py_strip (jstr raw)) \<longleftrightarrow> status_code raw \<noteq> ''''"
proof -
  have codes: "map_of STATUS_CODES k = Some c \<Longrightarrow> c \<noteq> ''''" for k c
    by (auto simp: STATUS_CODES_def split: if_splits)
  show ?thesis using assms by (auto simp: recognised_def status_code_def Let_def copies_agree dest: codes split: option.splits)
qed

section \<open>Whether a list can be read in pieces\<close>

definition PIECE_SIZE :: nat where "PIECE_SIZE = 25"

text \<open>\<open>xml_paging.paged\<close>: the two pieces (None when not answered) and the whole list, when it was read.\<close>

definition paged :: "string list option \<Rightarrow> string list option \<Rightarrow> string list option \<Rightarrow> string" where
  "paged first second whole =
     (case (first, second) of
        (Some a, Some b) \<Rightarrow>
          (if whole \<noteq> None \<and> length (remdups (the whole)) \<le> PIECE_SIZE
           then ''can't tell: only '' @ string_of_nat (length (remdups (the whole))) @ '' identities''
           else if PIECE_SIZE < length (remdups a)
           then ''ignored: '' @ string_of_nat (length (remdups a)) @ '' rows for '' @ string_of_nat PIECE_SIZE @ '' asked''
           else if set a = set b then ''ignored: both pieces hold the same rows''
           else if set a \<inter> set b \<noteq> {} then ''broken: pieces share '' @ string_of_nat (card (set a \<inter> set b)) @ '' rows''
           else if whole \<noteq> None \<and> \<not> set a \<union> set b \<subseteq> set (the whole) then ''broken: pieces hold rows the whole list lacks''
           else ''works'')
      | _ \<Rightarrow> ''not answered'')"

text \<open>
  What \<open>works\<close> promises: two pieces of at most 25 that have nothing in common, of a list that is longer than
  one piece. What it does not: that there was anything in the second.
\<close>

lemma paged_works_iff:
  "paged (Some a) (Some b) whole = ''works'' \<longleftrightarrow>
     length (remdups a) \<le> PIECE_SIZE \<and> set a \<noteq> set b \<and> set a \<inter> set b = {} \<and>
     (case whole of None \<Rightarrow> True | Some w \<Rightarrow> PIECE_SIZE < length (remdups w) \<and> set a \<union> set b \<subseteq> set w)"
  by (auto simp: paged_def split: option.split)

lemma ignored_paging_is_noticed:
  assumes "PIECE_SIZE < length (remdups w)"
  shows "paged (Some w) (Some w) (Some w) \<noteq> ''works''"
  by (simp add: paged_works_iff)

lemma empty_second_piece_works:
  assumes "length (remdups a) \<le> PIECE_SIZE" and "a \<noteq> []" and "set a \<subseteq> set w" and "PIECE_SIZE < length (remdups w)"
  shows "paged (Some a) (Some []) (Some w) = ''works''"
  using assms by (simp add: paged_works_iff)


section \<open>Reading and recording\<close>

text \<open>
  The report: a step's facts by its name, how often each format answered, and the rows kept for comparing.
  Times are kept as hundredths of a second, rounded down; the timeouts are left to the network.
\<close>

record 'h probe_env =
  pv_net :: "'h http"
  pv_xml :: "string \<Rightarrow> string + xml"
  pv_bytes :: "response \<Rightarrow> nat"
  pv_path :: "response \<Rightarrow> string"
  pv_cookie_names :: "'h \<Rightarrow> string list"
  pv_versions :: "string \<Rightarrow> string list"
  pv_title :: "string \<Rightarrow> string option"
  pv_csrf_meta :: "string \<Rightarrow> bool"
  pv_name_first :: "string \<Rightarrow> bool"
  pv_in_environ :: "string \<Rightarrow> bool"
  pv_lookup :: "'h \<Rightarrow> (string + string list) \<times> 'h"
  pv_connect :: "'h \<Rightarrow> (string + unit) \<times> 'h"
  pv_outside :: "'h http"
  pv_username :: string
  pv_password :: string

record 'h probe =
  pb_steps :: "(string \<times> facts) list"
  pb_formats :: "(string \<times> facts) list"
  pb_rows :: "(string \<times> facts list) list"
  pb_paging :: facts
  pb_summary :: facts
  pb_fields :: "(string \<times> facts) list"
  pb_accessgrid :: facts
  pb_net :: 'h

definition facts_at :: "(string \<times> facts) list \<Rightarrow> string \<Rightarrow> facts" where
  "facts_at d k = (case map_of d k of None \<Rightarrow> [] | Some fs \<Rightarrow> fs)"

definition update_facts :: "facts \<Rightarrow> facts \<Rightarrow> facts" where
  "update_facts new fs = fold (\<lambda>(k, v). AList.update k v) new fs"

definition probe_note :: "string \<Rightarrow> facts \<Rightarrow> 'h probe \<Rightarrow> 'h probe" where
  "probe_note step new st = st\<lparr>pb_steps := AList.update step (update_facts new (facts_at (pb_steps st) step)) (pb_steps st)\<rparr>"

definition set_step :: "string \<Rightarrow> facts \<Rightarrow> 'h probe \<Rightarrow> 'h probe" where
  "set_step step fs st = st\<lparr>pb_steps := AList.update step fs (pb_steps st)\<rparr>"

definition extend_rows :: "string \<Rightarrow> facts list \<Rightarrow> 'h probe \<Rightarrow> 'h probe" where
  "extend_rows source rows st =
     st\<lparr>pb_rows := AList.update source ((case map_of (pb_rows st) source of None \<Rightarrow> [] | Some r \<Rightarrow> r) @ rows) (pb_rows st)\<rparr>"

text \<open>\<open>Probe.get\<close>: what the step records of an answer; the body only of a short refusal.\<close>

definition response_facts :: "'h probe_env \<Rightarrow> string \<Rightarrow> int \<Rightarrow> response \<Rightarrow> facts" where
  "response_facts env path elapsed r =
     [(''path'', JStr path), (''status'', JInt (int (rs_status r))), (''seconds'', JInt (elapsed div 10000)),
      (''content_type'', JStr (header_of r ''content-type'')), (''bytes'', JInt (int (pv_bytes env r))),
      (''location'', JStr (header_of r ''location'')), (''server'', JStr (header_of r ''server'')),
      (''powered_by'', JStr (header_of r ''x-powered-by''))]
     @ (if 400 \<le> rs_status r \<and> pv_bytes env r \<le> 300 then [(''body'', JStr (rs_text r))] else [])"

definition probe_get :: "'h probe_env \<Rightarrow> string \<Rightarrow> request \<Rightarrow> ('h probe, response option) comp" where
  "probe_get env step rq st =
     (let t = http_now (pv_net env) (pb_net st) in
      case http_send (pv_net env) rq (pb_net st) of
        (Inl e, h) \<Rightarrow>
          (if is_http_error e
           then (Inr None, set_step step [(''path'', JStr (rq_path rq)), (''error'', JStr (exn_class e @ '': '' @ exn_message e))] (st\<lparr>pb_net := h\<rparr>))
           else (Inl e, st\<lparr>pb_net := h\<rparr>))
      | (Inr r, h) \<Rightarrow>
          (Inr (Some r), set_step step (response_facts env (rq_path rq) (http_now (pv_net env) h - t) r) (st\<lparr>pb_net := h\<rparr>)))"

text \<open>\<open>json_body\<close>: Python's \<open>None\<close> is \<open>JNull\<close>; of a body that is no JSON the first 200 characters are noted.\<close>

definition json_body :: "string \<Rightarrow> response option \<Rightarrow> 'h probe \<Rightarrow> json \<times> 'h probe" where
  "json_body step r st =
     (case r of
        None \<Rightarrow> (JNull, st)
      | Some x \<Rightarrow> if rs_status x \<noteq> 200 then (JNull, st)
          else (case rs_json x of Some j \<Rightarrow> (j, st) | None \<Rightarrow> (JNull, probe_note step [(''not_json'', JStr (take 200 (rs_text x)))] st)))"

definition count_up :: "string \<Rightarrow> facts \<Rightarrow> facts" where
  "count_up k d = AList.update k (JInt ((case map_of d k of Some (JVal (PInt n)) \<Rightarrow> n | _ \<Rightarrow> 0) + 1)) d"

definition as_counts :: "json option \<Rightarrow> facts" where
  "as_counts v = (case v of Some (JObj d) \<Rightarrow> d | _ \<Rightarrow> [])"

definition tally :: "string \<Rightarrow> string \<Rightarrow> string \<Rightarrow> 'h probe \<Rightarrow> 'h probe" where
  "tally read fmt result st =
     (let formats = facts_at (pb_formats st) read in
      st\<lparr>pb_formats := AList.update read
        (AList.update fmt (JObj (count_up result (as_counts (map_of formats fmt)))) formats) (pb_formats st)\<rparr>)"

definition outcome :: "response option \<Rightarrow> string" where
  "outcome r = (case r of
     None \<Rightarrow> ''no response''
   | Some x \<Rightarrow> if rs_status x = 302 \<and> py_contains (header_of x ''location'') ''/sessions'' then ''sent to sign-in''
       else if rs_status x = 200 then ''ok'' else ''HTTP '' @ string_of_nat (rs_status x))"

definition read_json :: "'h probe_env \<Rightarrow> string \<Rightarrow> string \<Rightarrow> string \<Rightarrow> (string \<times> string) list \<Rightarrow> ('h probe, json) comp" where
  "read_json env read step path params =
     bind_comp (probe_get env step (mk_request ''GET'' path params [(''Accept'', ''application/json'')] NoBody)) (\<lambda>r st.
       let result = outcome r;
           (body, st1) = (if result = ''ok'' then json_body step r st else (JNull, st))
       in (Inr body, tally read ''json'' (if result = ''ok'' \<and> body = JNull then ''200 but not JSON'' else result) st1))"

text \<open>\<open>xml_shape\<close>: the first 200 characters of what is not XML, else the first row with its texts redacted.\<close>

definition xml_text_of :: "xml \<Rightarrow> string" where
  "xml_text_of c = (case xml_text c of None \<Rightarrow> '''' | Some t \<Rightarrow> t)"

definition first_row :: "xml list \<Rightarrow> facts" where
  "first_row rows = (case rows of [] \<Rightarrow> []
   | row # _ \<Rightarrow> fold (\<lambda>c d. AList.update (xml_tag c) (redact (xml_tag c) True (JStr (xml_text_of c))) d) (xml_below row) [])"

definition xml_shape :: "'h probe_env \<Rightarrow> string \<Rightarrow> json" where
  "xml_shape env t =
     (case pv_xml env t of
        Inl e \<Rightarrow> JObj [(''parse_error'', JStr e), (''head'', JStr (take 200 t))]
      | Inr root \<Rightarrow> JObj [(''root'', JStr (xml_tag root)), (''rows'', JInt (int (length (xml_children root)))),
          (''row_tag'', case xml_children root of [] \<Rightarrow> JNull | row # _ \<Rightarrow> JStr (xml_tag row)),
          (''first_row'', JObj (first_row (xml_children root)))])"

text \<open>\<open>flat\<close> is the client's own flattening of a row.\<close>

definition flat :: "xml \<Rightarrow> facts" where
  "flat el = fold (\<lambda>c d. if map_of d (xml_tag c) = None then d @ [(xml_tag c, JStr (py_strip (xml_text_of c)))] else d) (xml_below el) []"

lemma flat_is_the_clients: "flat_row el = JObj (flat el)"
  by (simp only: flat_def flat_row_def xml_text_of_def)

definition sort_rows :: "'h probe_env \<Rightarrow> string \<Rightarrow> string \<Rightarrow> string \<Rightarrow> string \<times> facts list option" where
  "sort_rows env t root_tag row_tag =
     (case pv_xml env t of
        Inl _ \<Rightarrow> (''200 but not XML'', None)
      | Inr root \<Rightarrow>
          if xml_tag root = row_tag then (''ok'', Some [flat root])
          else if xml_tag root \<in> {root_tag, ''nil-classes''}
            then (''ok'', Some (List.map flat (List.filter (\<lambda>c. xml_tag c = row_tag) (xml_children root))))
          else (''200 but <'' @ xml_tag root @ ''>, not <'' @ root_tag @ ''>'', None))"

definition read_xml :: "'h probe_env \<Rightarrow> string \<Rightarrow> string \<Rightarrow> string \<Rightarrow> string \<Rightarrow> string \<Rightarrow> (string \<times> string) list
    \<Rightarrow> ('h probe, facts list option) comp" where
  "read_xml env read step path root_tag row_tag params =
     bind_comp (probe_get env step (mk_request ''GET'' path params
         [(''Accept'', ''*/*''), (''X-Requested-With'', ''XMLHttpRequest'')] NoBody)) (\<lambda>r st.
       let result = outcome r in
       if result \<noteq> ''ok'' then (Inr None, tally read ''xml'' result st)
       else (let t = rs_text (the r); (result', rows) = sort_rows env t root_tag row_tag
             in (Inr rows, tally read ''xml'' result' (probe_note step [(''shape'', xml_shape env t)] st))))"


section \<open>Signing in\<close>

definition probe_logins :: "'h probe_env \<Rightarrow> (string \<times> request) list" where
  "probe_logins env =
     [(''form'', (mk_request ''POST'' ''/sessions'' [] []
         (FormBody [(''login'', pv_username env), (''password'', pv_password env)]))\<lparr>rq_follow := True\<rparr>),
      (''json'', (mk_request ''POST'' ''/sessions'' []
         [(''X-Requested-With'', ''XMLHttpRequest''), (''Accept'', ''application/json'')]
         (JsonBody (JObj [(''login'', JStr (pv_username env)), (''password'', JStr (pv_password env))])))\<lparr>rq_follow := True\<rparr>)]"

definition has_cookie :: "'h probe_env \<Rightarrow> 'h \<Rightarrow> string \<Rightarrow> bool" where
  "has_cookie env h k \<longleftrightarrow> http_cookie (pv_net env) h k \<noteq> None \<and> http_cookie (pv_net env) h k \<noteq> Some ''''"

definition login_facts :: "'h probe_env \<Rightarrow> 'h \<Rightarrow> response \<Rightarrow> facts" where
  "login_facts env h r =
     [(''status'', JInt (int (rs_status r))), (''final_path'', JStr (pv_path env r)),
      (''cookie_names'', JArr (List.map JStr (sort (remdups (pv_cookie_names env h))))),
      (''ok'', JVal (PBool (has_cookie env h ''_session_id'')))]"

definition logged :: "json \<Rightarrow> facts \<Rightarrow> 'h probe \<Rightarrow> 'h probe" where
  "logged accepted results = set_step ''login'' [(''accepted'', accepted), (''attempts'', JObj results)]"

text \<open>The names of cookies are recorded, never their values.\<close>

fun try_probe_logins :: "'h probe_env \<Rightarrow> (string \<times> request) list \<Rightarrow> facts \<Rightarrow> ('h probe, bool) comp" where
  "try_probe_logins env [] results st = (Inr False, logged JNull results st)"
| "try_probe_logins env ((name, rq) # attempts) results st =
     (case http_send (pv_net env) rq (http_forget_cookies (pv_net env) (pb_net st)) of
        (Inl e, h) \<Rightarrow>
          (if is_http_error e
           then try_probe_logins env attempts
             (AList.update name (JObj [(''error'', JStr (exn_class e @ '': '' @ exn_message e))]) results) (st\<lparr>pb_net := h\<rparr>)
           else (Inl e, st\<lparr>pb_net := h\<rparr>))
      | (Inr r, h) \<Rightarrow>
          (let results' = AList.update name (JObj (login_facts env h r)) results in
           if has_cookie env h ''_session_id'' then (Inr True, logged (JStr name) results' (st\<lparr>pb_net := h\<rparr>))
           else try_probe_logins env attempts results' (st\<lparr>pb_net := h\<rparr>)))"

definition probe_login :: "'h probe_env \<Rightarrow> ('h probe, bool) comp" where
  "probe_login env = try_probe_logins env (probe_logins env) []"

section \<open>The list of identities\<close>

text \<open>\<open>attrs_of\<close>: the fields of a row, flat, JSON:API or wrapped.\<close>

definition attrs_of :: "json \<Rightarrow> facts" where
  "attrs_of raw =
     (let row = (case raw of JObj d \<Rightarrow> (case jlookup d ''data'' of JObj e \<Rightarrow> JObj e | _ \<Rightarrow> raw) | _ \<Rightarrow> raw) in
      case row of JObj d \<Rightarrow> (case jlookup d ''attributes'' of JObj a \<Rightarrow> a | _ \<Rightarrow> d) | _ \<Rightarrow> [])"

text \<open>On a row that is not wrapped these are the fields the client reads.\<close>

lemma attrs_of_unwrap:
  assumes "unwrap (JObj d) = Inr (i, fs)" and "\<And>e. jlookup d ''data'' \<noteq> JObj e"
  shows "attrs_of (JObj d) = fs"
  using assms by (auto simp: attrs_of_def unwrap_def Let_def split: json.splits)

text \<open>\<open>r.get("cn") or r.get("id")\<close>.\<close>

definition row_id :: "json \<Rightarrow> json res" where
  "row_id r = bind_res (jget ''cn'' r) (\<lambda>cn. if jtruthy cn then Inr cn else jget ''id'' r)"

definition page_ids :: "json list \<Rightarrow> string list res" where
  "page_ids rows = bind_res (map_res row_id rows) (\<lambda>ids. Inr (List.map jstr (List.filter (\<lambda>i. i \<noteq> JNull \<and> i \<noteq> JStr ''0'') ids)))"

text \<open>\<open>body.get("data") or []\<close>, a list; what is none is refused by the slice below it.\<close>

definition rows_of_body :: "facts \<Rightarrow> json list res" where
  "rows_of_body body = (case jor (jlookup body ''data'') (JArr []) of JArr rows \<Rightarrow> Inr rows | _ \<Rightarrow> Inl (type_error ''slice''))"

definition second_page :: "'h probe_env \<Rightarrow> json list \<Rightarrow> ('h probe, unit) comp" where
  "second_page env rows =
     bind_comp (probe_get env ''identities_json_page2'' (mk_request ''GET'' ''/identities.json''
         [(''page'', ''2''), (''perpage'', ''25'')] [(''Accept'', ''application/json'')] NoBody)) (\<lambda>r st0.
       let (body, st) = json_body ''identities_json_page2'' r st0 in
       case body of
         JObj d \<Rightarrow>
           (case bind_res (map_res row_id rows) (\<lambda>a. bind_res (rows_of_body d) (\<lambda>rs. bind_res (map_res row_id rs) (\<lambda>b. Inr (a, b)))) of
              Inl e \<Rightarrow> (Inl e, st)
            | Inr (a, b) \<Rightarrow>
                (let ids1 = jstr ` set a; ids2 = jstr ` set b in
                 (Inr (), probe_note ''identities_json_page2''
                    [(''rows'', JInt (int (card ids2))), (''overlaps_page1'', JInt (int (card (ids1 \<inter> ids2))))] st)))
       | _ \<Rightarrow> (Inr (), st))"

definition identities_facts :: "facts \<Rightarrow> json list \<Rightarrow> nat \<Rightarrow> facts" where
  "identities_facts body rows samples =
     [(''top_keys'', JArr (List.map JStr (sort (List.map fst body)))), (''meta'', jlookup body ''meta''),
      (''rows_on_page'', JInt (int (length rows))), (''sample'', redact '''' True (JArr (take samples rows)))]"

definition set_total :: "json \<Rightarrow> 'h probe \<Rightarrow> 'h probe" where
  "set_total n st = st\<lparr>pb_formats := AList.update ''identities''
     (AList.update ''json_total'' n (facts_at (pb_formats st) ''identities'')) (pb_formats st)\<rparr>"

definition identities :: "'h probe_env \<Rightarrow> nat \<Rightarrow> ('h probe, string list) comp" where
  "identities env samples =
     bind_comp (read_json env ''identities'' ''identities_json'' ''/identities.json''
         [(''page'', ''1''), (''perpage'', ''25''), (''sort_by'', ''plasecName''), (''order'', ''ascend'')]) (\<lambda>body.
     case body of
       JObj d \<Rightarrow>
         bind_comp (pure_res (rows_of_body d)) (\<lambda>rows st.
           let st1 = probe_note ''identities_json'' (identities_facts d rows samples)
                 (extend_rows ''identity list json'' (List.map attrs_of rows) st) in
           bind_comp (pure_res (oget ''recordsFiltered'' (jlookup d ''meta''))) (\<lambda>n st2.
             bind_comp (second_page env rows) (\<lambda>_. pure_res (page_ids rows)) (set_total n st2)) st1)
     | _ \<Rightarrow> pure_res (Inr []))"

text \<open>\<open>identities_xml\<close>: the ids of the whole list, none when it was not read.\<close>

definition known_ids :: "facts list \<Rightarrow> string list" where
  "known_ids rows = List.map jstr (List.filter (\<lambda>v. v \<noteq> JNull \<and> v \<noteq> JStr '''' \<and> v \<noteq> JStr ''0'') (List.map (\<lambda>r. jlookup r ''cn'') rows))"

definition identities_xml :: "'h probe_env \<Rightarrow> nat \<Rightarrow> ('h probe, string list) comp" where
  "identities_xml env samples =
     bind_comp (read_xml env ''identities'' ''identities_xml'' ''/identities.xml'' ''identities'' ''identity'' XML_SEARCH) (\<lambda>rows st.
       case rows of
         None \<Rightarrow> (Inr [], st)
       | Some rs \<Rightarrow>
           (let st1 = st\<lparr>pb_formats := AList.update ''identities''
                  (AList.update ''xml_rows'' (JInt (int (length rs))) (facts_at (pb_formats st) ''identities'')) (pb_formats st)\<rparr>
            in (Inr (known_ids rs), extend_rows ''identity list xml'' rs
                 (probe_note ''identities_xml'' [(''sample'', redact '''' True (JArr (List.map JObj (take samples rs))))] st1))))"


section \<open>The XML list in pieces\<close>

definition XML_PIECES :: "(string \<times> (string \<times> string) list) list" where
  "XML_PIECES =
     [(''page_1'', [(''page'', ''1''), (''perpage'', ''25'')]), (''page_2'', [(''page'', ''2''), (''perpage'', ''25'')]),
      (''start_0'', [(''start'', ''0''), (''length'', ''25'')]), (''start_25'', [(''start'', ''25''), (''length'', ''25'')]),
      (''letter_a'', [(''letter_search'', ''true''), (''lnam'', ''A'')])]"

definition piece_params :: "(string \<times> string) list \<Rightarrow> (string \<times> string) list" where
  "piece_params extra = fold (\<lambda>(k, v). AList.update k v) extra XML_SEARCH"

definition piece_ids :: "facts list \<Rightarrow> string list" where
  "piece_ids rows = remdups (List.filter (\<lambda>i. i \<noteq> '''' \<and> i \<noteq> ''0'')
     (List.map (\<lambda>r. case map_of r ''cn'' of None \<Rightarrow> '''' | Some v \<Rightarrow> jstr v) rows))"

fun read_pieces :: "'h probe_env \<Rightarrow> (string \<times> (string \<times> string) list) list \<Rightarrow> (string \<times> string list) list
    \<Rightarrow> ('h probe, (string \<times> string list) list) comp" where
  "read_pieces env [] pieces = (\<lambda>st. (Inr pieces, st))"
| "read_pieces env ((name, extra) # todo) pieces =
     bind_comp (read_xml env ''identities_xml_pieces'' (''xml_'' @ name) ''/identities.xml'' ''identities'' ''identity''
         (piece_params extra)) (\<lambda>rows.
       case rows of
         None \<Rightarrow> read_pieces env todo pieces
       | Some rs \<Rightarrow> (\<lambda>st. read_pieces env todo (AList.update name (piece_ids rs) pieces)
           (probe_note (''xml_'' @ name) [(''rows'', JInt (int (length rs)))] st)))"

definition whole_facts :: "facts \<Rightarrow> string list option \<Rightarrow> facts" where
  "whole_facts step whole =
     List.map (\<lambda>k. (k, jlookup step k)) [''status'', ''seconds'', ''bytes'', ''error'']
     @ [(''identities'', case whole of None \<Rightarrow> JNull | Some w \<Rightarrow> JInt (int (length (remdups w))))]"

definition letter_facts :: "facts \<Rightarrow> string list option \<Rightarrow> string list option \<Rightarrow> json" where
  "letter_facts step letter whole =
     (case letter of
        None \<Rightarrow> JStr ''not answered''
      | Some l \<Rightarrow> JObj [(''identities'', JInt (int (length l))), (''seconds'', jlookup step ''seconds''),
          (''within_whole_list'', case whole of None \<Rightarrow> JNull | Some w \<Rightarrow> JVal (PBool (set l \<subseteq> set w))),
          (''smaller_than_whole_list'', case whole of None \<Rightarrow> JNull | Some w \<Rightarrow> JVal (PBool (length l < length (remdups w))))])"

definition paging_facts :: "(string \<times> facts) list \<Rightarrow> (string \<times> string list) list \<Rightarrow> string list option \<Rightarrow> facts" where
  "paging_facts steps pieces whole =
     [(''whole_list'', JObj (whole_facts (facts_at steps ''identities_xml'') whole)),
      (''page_perpage'', JStr (paged (map_of pieces ''page_1'') (map_of pieces ''page_2'') whole)),
      (''start_length'', JStr (paged (map_of pieces ''start_0'') (map_of pieces ''start_25'') whole)),
      (''letter_a'', letter_facts (facts_at steps ''xml_letter_a'') (map_of pieces ''letter_a'') whole)]"

text \<open>The pieces go first, so that they are answered even if the whole list is not.\<close>

definition xml_paging :: "'h probe_env \<Rightarrow> nat \<Rightarrow> ('h probe, string list) comp" where
  "xml_paging env samples =
     bind_comp (read_pieces env XML_PIECES []) (\<lambda>pieces.
     bind_comp (identities_xml env samples) (\<lambda>ids st.
       let whole = (if jlookup (facts_at (pb_steps st) ''identities_xml'') ''status'' = JInt 200 then Some ids else None)
       in (Inr (if ids \<noteq> [] then ids else sort (remdups (concat (List.map snd pieces)))),
           st\<lparr>pb_paging := paging_facts (pb_steps st) pieces whole\<rparr>)))"

section \<open>Tokens and detail\<close>

text \<open>What is kept per format of the tokens seen; at most eight dates, written with their keys.\<close>

record token_stats =
  ts_seen :: nat
  ts_accessgrid :: nat
  ts_statuses :: facts
  ts_dates :: "string list"

definition no_stats :: token_stats where
  "no_stats = \<lparr>ts_seen = 0, ts_accessgrid = 0, ts_statuses = [], ts_dates = []\<rparr>"

definition date_example :: "string \<times> json \<Rightarrow> string list \<Rightarrow> string list" where
  "date_example kv ds =
     (if py_contains (py_lower (fst kv)) ''date'' \<and> jtruthy (snd kv) \<and> length ds < 8
      then List.insert (fst kv @ ''='' @ jstr (snd kv)) ds else ds)"

definition token_parts :: "json \<Rightarrow> (facts \<times> facts) res" where
  "token_parts t =
     (case t of
        JObj d \<Rightarrow>
          (case (case map_of d ''attributes'' of None \<Rightarrow> JObj d | Some a \<Rightarrow> a) of
             JObj attrs \<Rightarrow>
               (case jor (jlookup attrs ''extended_attributes'') (JObj []) of
                  JObj ext \<Rightarrow> Inr (attrs, ext) | _ \<Rightarrow> Inl (attribute_error ''get''))
           | _ \<Rightarrow> Inl (attribute_error ''get''))
      | _ \<Rightarrow> Inr ([], []))"

definition count_token :: "facts \<times> facts \<Rightarrow> token_stats \<Rightarrow> token_stats" where
  "count_token at s =
     (case at of (attrs, ext) \<Rightarrow>
       let status = jstr (case map_of ext ''token_status'' of None \<Rightarrow> jlookup attrs ''plasecTokenstatus'' | Some v \<Rightarrow> v);
           embossed = (case map_of attrs ''plasecEmbossednumber'' of None \<Rightarrow> '''' | Some v \<Rightarrow> jstr v)
       in s\<lparr>ts_seen := Suc (ts_seen s), ts_statuses := count_up status (ts_statuses s),
            ts_accessgrid := ts_accessgrid s + (if py_lower embossed = ''accessgrid'' then 1 else 0),
            ts_dates := fold date_example (update_facts ext attrs) (ts_dates s)\<rparr>)"

definition count_tokens :: "json list \<Rightarrow> token_stats \<Rightarrow> token_stats res" where
  "count_tokens ts s = bind_res (map_res token_parts ts) (\<lambda>parts. Inr (fold count_token parts s))"

text \<open>
  The values of the date examples are printed as they came, and \<open>date\<close> is looked for anywhere in a key:
  whatever an appliance keeps under a key such as \<open>updated_by_name\<close> is in the report, which \<open>redact\<close> would hide.
\<close>

lemma update_keys_are_printed:
  "ts_dates (count_token ([(''updated_by_name'', JStr ''Ann'')], []) no_stats) = [''updated_by_name=Ann'']"
  "redact '''' True (JObj [(''updated_by_name'', JStr ''Ann'')]) = JObj [(''updated_by_name'', JStr ''<str len=3 text>'')]"
  by code_simp+

lemma eight_dates_at_most:
  "length (ts_dates s) \<le> 8 \<Longrightarrow> length (ts_dates (count_token at s)) \<le> 8"
proof -
  have step: "length ds \<le> 8 \<Longrightarrow> length (date_example kv ds) \<le> 8" for kv ds
    by (simp add: date_example_def List.insert_def)
  have "length ds \<le> 8 \<Longrightarrow> length (fold date_example kvs ds) \<le> 8" for kvs ds
    by (induction kvs arbitrary: ds) (simp_all add: step)
  then show "length (ts_dates s) \<le> 8 \<Longrightarrow> length (ts_dates (count_token at s)) \<le> 8"
    by (simp add: count_token_def Let_def split: prod.split)
qed

text \<open>The JSON tokens: \<open>tokens\<close> or \<open>data\<close> of an answer that is a dictionary, the answer itself otherwise.\<close>

definition tokens_in :: "json \<Rightarrow> json" where
  "tokens_in body = (case body of
     JObj d \<Rightarrow> jor (jor (jlookup d ''tokens'') (jlookup d ''data'')) (JArr [])
   | _ \<Rightarrow> jor body (JArr []))"

text \<open>What \<open>for\<close> walks, and \<open>[:2]\<close> of it; a dictionary can be walked but not cut, which ends the probe.\<close>

fun json_items :: "json \<Rightarrow> json list res" where
  "json_items (JArr xs) = Inr xs"
| "json_items (JVal (PStr s)) = Inr (List.map (\<lambda>c. JStr [c]) s)"
| "json_items v = Inl (type_error ''slice'')"

fun json_cut :: "nat \<Rightarrow> json \<Rightarrow> json" where
  "json_cut n (JArr xs) = JArr (take n xs)"
| "json_cut n (JVal (PStr s)) = JStr (take n s)"
| "json_cut n v = v"

record probe_walk =
  pw_found :: "string list"
  pw_json :: token_stats
  pw_xml :: token_stats

definition sort_keys :: "json \<Rightarrow> json" where
  "sort_keys body = (case body of JObj d \<Rightarrow> JArr (List.map JStr (sort (List.map fst d))) | _ \<Rightarrow> JStr ''list'')"

definition note_tokens :: "string \<Rightarrow> json \<Rightarrow> json \<Rightarrow> json list \<Rightarrow> facts list \<Rightarrow> 'h probe \<Rightarrow> 'h probe" where
  "note_tokens cn body tokens items xml_tokens st =
     (let st1 = extend_rows ''token xml'' xml_tokens (extend_rows ''token json'' (List.map attrs_of items) st);
          st2 = (if items \<noteq> [] then probe_note (''tokens_json:'' @ cn)
                   [(''top_keys'', sort_keys body), (''sample'', redact '''' True (json_cut 2 tokens))] st1 else st1)
      in if xml_tokens \<noteq> [] then probe_note (''tokens_xml:'' @ cn)
           [(''sample'', redact '''' True (JArr (List.map JObj (take 2 xml_tokens))))] st2 else st2)"

definition read_both_details :: "'h probe_env \<Rightarrow> string \<Rightarrow> ('h probe, unit) comp" where
  "read_both_details env cn =
     bind_comp (read_json env ''identity_detail'' (''identity_json:'' @ cn) (''/identities/'' @ cn @ ''.json'') []) (\<lambda>detail st.
       let st1 = (if detail = JNull then st
                  else extend_rows ''identity detail json'' [attrs_of detail]
                    (probe_note (''identity_json:'' @ cn) [(''sample'', redact '''' True detail)] st))
       in bind_comp (read_xml env ''identity_detail'' (''identity_xml:'' @ cn) (''/identities/'' @ cn @ ''.xml'') ''identities'' ''identity'' [])
            (\<lambda>rows st2. (Inr (), extend_rows ''identity detail xml'' (case rows of None \<Rightarrow> [] | Some rs \<Rightarrow> rs) st2)) st1)"

definition drop_steps :: "string \<Rightarrow> 'h probe \<Rightarrow> 'h probe" where
  "drop_steps cn st = st\<lparr>pb_steps := AList.delete (''tokens_xml:'' @ cn) (AList.delete (''tokens_json:'' @ cn) (pb_steps st))\<rparr>"

definition sample_one :: "'h probe_env \<Rightarrow> string \<Rightarrow> probe_walk \<Rightarrow> ('h probe, probe_walk) comp" where
  "sample_one env cn w =
     bind_comp (read_json env ''tokens'' (''tokens_json:'' @ cn) (''/identities/'' @ cn @ ''/tokens.json'') []) (\<lambda>body.
     bind_comp (read_xml env ''tokens'' (''tokens_xml:'' @ cn) (''/identities/'' @ cn @ ''/tokens.xml'') ''tokens'' ''token'' []) (\<lambda>rows.
       let tokens = tokens_in body; xml_tokens = (case rows of None \<Rightarrow> [] | Some rs \<Rightarrow> rs) in
       if \<not> jtruthy tokens \<and> xml_tokens = [] then (\<lambda>st. (Inr w, drop_steps cn st))
       else bind_comp (pure_res (json_items tokens)) (\<lambda>items.
            bind_comp (pure_res (count_tokens items (pw_json w))) (\<lambda>js.
            bind_comp (pure_res (count_tokens (List.map JObj xml_tokens) (pw_xml w))) (\<lambda>xs st.
            bind_comp (read_both_details env cn) (\<lambda>_. pure_res (Inr \<lparr>pw_found = pw_found w @ [cn], pw_json = js, pw_xml = xs\<rparr>))
              (note_tokens cn body tokens items xml_tokens st))))))"

fun sample_all :: "'h probe_env \<Rightarrow> nat \<Rightarrow> string list \<Rightarrow> probe_walk \<Rightarrow> ('h probe, probe_walk) comp" where
  "sample_all env samples [] w = pure_res (Inr w)"
| "sample_all env samples (cn # cns) w =
     (if samples \<le> length (pw_found w) then pure_res (Inr w)
      else bind_comp (sample_one env cn w) (sample_all env samples cns))"

definition stats_facts :: "token_stats \<Rightarrow> json" where
  "stats_facts s = JObj [(''tokens_seen'', JInt (int (ts_seen s))), (''accessgrid_tokens'', JInt (int (ts_accessgrid s))),
     (''token_statuses'', JObj (ts_statuses s)), (''date_examples'', JArr (List.map JStr (sort (ts_dates s))))]"

definition per_identity :: "'h probe_env \<Rightarrow> string list \<Rightarrow> nat \<Rightarrow> ('h probe, unit) comp" where
  "per_identity env ids samples =
     bind_comp (sample_all env samples (take 25 ids) \<lparr>pw_found = [], pw_json = no_stats, pw_xml = no_stats\<rparr>) (\<lambda>w st.
       (Inr (), st\<lparr>pb_summary := [(''json'', stats_facts (pw_json w)), (''xml'', stats_facts (pw_xml w))]\<rparr>))"


section \<open>Comparing what was sent with what the adapter reads\<close>

definition name_for :: "string \<Rightarrow> string option \<Rightarrow> string list \<Rightarrow> string list \<Rightarrow> string option" where
  "name_for suffix alt names ext_names =
     (case List.find (\<lambda>n. n \<in> set names) (List.map (\<lambda>p. p @ suffix) PROBE_PREFIXES) of
        Some n \<Rightarrow> Some n
      | None \<Rightarrow> (case alt of
            Some a \<Rightarrow> if a \<noteq> '''' \<and> (a \<in> set ext_names \<or> a \<in> set names) then Some a else None
          | None \<Rightarrow> None))"

definition probe_ext :: "facts \<Rightarrow> facts" where
  "probe_ext r = (case jlookup r ''extended_attributes'' of JObj d \<Rightarrow> d | _ \<Rightarrow> [])"

definition probe_status :: "bool \<Rightarrow> facts \<Rightarrow> json" where
  "probe_status token r =
     (let word = jlookup (probe_ext r) ''token_status'' in
      if token \<and> jtruthy word then word
      else case List.find (\<lambda>v. v \<noteq> JNull \<and> v \<noteq> JStr '''')
          (List.map (\<lambda>p. jlookup r (p @ (if token then ''Tokenstatus'' else ''Idstatus''))) PROBE_PREFIXES) of
        None \<Rightarrow> JStr '''' | Some v \<Rightarrow> v)"

definition status_label :: "string \<Rightarrow> string" where
  "status_label t = repr_str t @ '' -> '' @ (if recognised t then ''recognised'' else ''NOT RECOGNISED'')"

definition count_statuses :: "bool \<Rightarrow> facts list \<Rightarrow> facts" where
  "count_statuses token rows =
     fold (\<lambda>r. count_up (status_label (py_strip (jstr (probe_status token r))))) rows []"

definition PROBE_DATES :: "(string \<times> string) list" where
  "PROBE_DATES = [(''Issuedate'', ''formatted_issue_date''), (''Activatedate'', ''formatted_activate_date''),
     (''Deactivatedate'', ''formatted_deactivate_date'')]"

definition probe_date :: "facts \<Rightarrow> string \<times> string \<Rightarrow> string" where
  "probe_date r sa =
     (let listed = jlookup (probe_ext r) (snd sa) in
      py_strip (jstr (if jtruthy listed then listed
        else case List.find jtruthy (List.map (\<lambda>p. jlookup r (p @ fst sa)) PROBE_PREFIXES) of None \<Rightarrow> JStr '''' | Some v \<Rightarrow> v)))"

definition sort_date :: "string \<Rightarrow> nat \<times> string list \<Rightarrow> nat \<times> string list" where
  "sort_date v d =
     (if v = '''' then d
      else if adapter_reads_date v then (Suc (fst d), snd d)
      else if v \<notin> set (snd d) \<and> length (snd d) < 8 then (fst d, snd d @ [v]) else d)"

definition sort_dates :: "facts list \<Rightarrow> nat \<times> string list" where
  "sort_dates rows = fold sort_date (concat (List.map (\<lambda>r. List.map (probe_date r) PROBE_DATES) rows)) (0, [])"

definition source_facts :: "string \<Rightarrow> facts list \<Rightarrow> facts" where
  "source_facts source rows =
     (let names = remdups (concat (List.map (List.map fst) rows));
          ext_names = remdups (concat (List.map (\<lambda>r. List.map fst (probe_ext r)) rows));
          token = (take 5 source = ''token'');
          wanted = (if token then TOKEN_FIELDS else List.map (\<lambda>s. (s, None)) IDENTITY_FIELDS);
          hits = List.map (\<lambda>sa. (fst sa, name_for (fst sa) (snd sa) names ext_names)) wanted;
          form = PROBE_FORM_FIELDS @ PROBE_FORM_DATES;
          known = List.map_filter snd hits @ (if token then form else []);
          dates = sort_dates rows
      in [(''rows'', JInt (int (length rows))),
          (''adapter_reads'', JObj (List.map (\<lambda>h. (fst h, case snd h of None \<Rightarrow> JNull | Some n \<Rightarrow> JStr n)) hits))]
         @ (if token then [(''write_form_missing'', JArr (List.map JStr (List.filter (\<lambda>f. f \<notin> set names) form)))] else [])
         @ [(''other_names'', JArr (List.map JStr (sort (remdups
              (List.filter (\<lambda>n. n \<notin> set known \<and> n \<noteq> ''extended_attributes'') names @ List.filter (\<lambda>n. n \<notin> set known) ext_names))))),
            (''statuses'', JObj (count_statuses token rows))]
         @ (if token then [(''dates'', JObj [(''read'', JInt (int (fst dates))), (''unreadable'', JArr (List.map JStr (snd dates)))])] else []))"

definition compare_fields :: "'h probe \<Rightarrow> 'h probe" where
  "compare_fields st =
     st\<lparr>pb_fields := fold (\<lambda>(source, rows). AList.update source (source_facts source rows))
       (List.filter (\<lambda>sr. snd sr \<noteq> []) (pb_rows st)) (pb_fields st)\<rparr>"

text \<open>What is called unreadable is refused by the adapter: at most eight texts, none of them twice, none only if there is none.\<close>

lemma sort_date_keeps:
  "\<forall>v\<in>set (snd d). \<not> adapter_reads_date v \<Longrightarrow> distinct (snd d) \<Longrightarrow> length (snd d) \<le> 8 \<Longrightarrow>
   (\<forall>v\<in>set (snd (sort_date t d)). \<not> adapter_reads_date v) \<and> distinct (snd (sort_date t d)) \<and> length (snd (sort_date t d)) \<le> 8"
  by (auto simp: sort_date_def)

lemma fold_sort_date_keeps:
  "\<forall>v\<in>set (snd d). \<not> adapter_reads_date v \<Longrightarrow> distinct (snd d) \<Longrightarrow> length (snd d) \<le> 8 \<Longrightarrow>
   (\<forall>v\<in>set (snd (fold sort_date ts d)). \<not> adapter_reads_date v) \<and> distinct (snd (fold sort_date ts d)) \<and> length (snd (fold sort_date ts d)) \<le> 8"
proof (induction ts arbitrary: d)
  case (Cons t ts)
  from Cons.IH[of "sort_date t d"] sort_date_keeps[OF Cons.prems, of t] show ?case by simp
qed simp

lemma unreadable_dates_are_refused:
  "(\<forall>v\<in>set (snd (sort_dates rows)). \<not> adapter_reads_date v) \<and> distinct (snd (sort_dates rows)) \<and> length (snd (sort_dates rows)) \<le> 8"
  unfolding sort_dates_def by (rule fold_sort_date_keeps) simp_all

lemma refused_date_is_listed:
  "t \<in> set ts \<Longrightarrow> t \<noteq> '''' \<Longrightarrow> \<not> adapter_reads_date t \<Longrightarrow> snd (fold sort_date ts d) \<noteq> []"
proof -
  have grows: "snd d \<noteq> [] \<Longrightarrow> snd (fold sort_date us d) \<noteq> []" for us d
    by (induction us arbitrary: d) (auto simp: sort_date_def)
  show "t \<in> set ts \<Longrightarrow> t \<noteq> '''' \<Longrightarrow> \<not> adapter_reads_date t \<Longrightarrow> snd (fold sort_date ts d) \<noteq> []"
  proof (induction ts arbitrary: d)
    case (Cons u us)
    show ?case
    proof (cases "u = t")
      case True
      have "snd (sort_date t d) \<noteq> []" using Cons.prems by (auto simp: sort_date_def)
      then show ?thesis using True by (simp add: grows)
    qed (use Cons in auto)
  qed simp
qed

text \<open>A token's status is the one the adapter reads; an identity's too, unless the adapter finds it under \<open>status\<close>.\<close>

lemma find_is_first_value:
  "first_value vs = (case List.find (\<lambda>v. v \<noteq> JNull \<and> v \<noteq> JStr '''') vs of None \<Rightarrow> '''' | Some v \<Rightarrow> jstr v)"
  by (simp add: first_value_def)

lemma status_code_of_text: "v \<noteq> JNull \<Longrightarrow> status_code (JStr (jstr v)) = status_code v"
  by (simp add: status_code_def)

lemma found_is_no_null: "List.find (\<lambda>v. v \<noteq> JNull \<and> v \<noteq> JStr '''') vs = Some v \<Longrightarrow> v \<noteq> JNull"
  by (auto simp: find_Some_iff)

lemma probe_status_without_word:
  assumes "\<not> (token \<and> jtruthy (jlookup (probe_ext r) ''token_status''))"
  shows "status_code (probe_status token r) = status_code (JStr (unity_field r (if token then ''Tokenstatus'' else ''Idstatus'')))"
  using assms by (auto simp: probe_status_def Let_def unity_field_def first_value_def copies_agree status_code_of_text
      simp del: jstr.simps dest: found_is_no_null split: option.split)

lemma probe_status_word: "jtruthy (jlookup (probe_ext r) ''token_status'') \<Longrightarrow> probe_status True r = jlookup (probe_ext r) ''token_status''"
  by (simp add: probe_status_def Let_def)

lemma no_word_in_nothing: "\<not> jtruthy (jlookup [] k)"
  by (simp add: jlookup_def)

lemma probe_ext_falsy: "\<not> jtruthy (jlookup r ''extended_attributes'') \<Longrightarrow> probe_ext r = []"
  by (auto simp: probe_ext_def split: json.splits)

lemma probe_ext_obj: "jlookup r ''extended_attributes'' = JObj d \<Longrightarrow> probe_ext r = d"
  by (simp add: probe_ext_def)

lemma token_status_is_the_adapters:
  assumes "token_row pid raw = Inr t"
  shows "status_code (probe_status True (tk_fields t)) = tk_status t"
  using assms
  by (auto simp: token_row_def bind_res_def Let_def probe_status_without_word probe_status_word probe_ext_falsy probe_ext_obj jor_def no_word_in_nothing
      split: sum.splits json.splits if_splits prod.splits)

lemma listed_status_is_missed:
  assumes "unity_field r ''Idstatus'' = ''''"
  shows "status_code (probe_status False r) = ''''"
proof -
  have "status_code (probe_status False r) = status_code (JStr '''')"
    by (subst probe_status_without_word) (simp_all add: assms)
  also have "... = ''''" by code_simp
  finally show ?thesis .
qed


section \<open>The rest of a run\<close>

text \<open>Card formats hold nothing personal: they are only cut short.\<close>

definition formats_of :: "json \<Rightarrow> json" where
  "formats_of body = (case body of JObj d \<Rightarrow> (case map_of d ''data'' of None \<Rightarrow> body | Some v \<Rightarrow> v) | _ \<Rightarrow> body)"

definition card_formats :: "'h probe_env \<Rightarrow> ('h probe, unit) comp" where
  "card_formats env =
     bind_comp (read_json env ''card_formats'' ''card_formats'' ''/card_formats.json'' []) (\<lambda>body.
     bind_comp (read_xml env ''card_formats'' ''card_formats_xml'' ''/card_formats.xml'' ''card-formats'' ''card-format'' []) (\<lambda>_ st.
       (Inr (), if body = JNull then st
          else probe_note ''card_formats''
            [(''count'', case formats_of body of JArr xs \<Rightarrow> JInt (int (length xs)) | _ \<Rightarrow> JNull),
             (''formats'', redact '''' False (formats_of body))] st)))"

definition version_hints :: "'h probe_env \<Rightarrow> string \<Rightarrow> json" where
  "version_hints env t = JArr (List.map JStr (take 10 (sort (remdups (pv_versions env t)))))"

definition page_request :: "string \<Rightarrow> request" where
  "page_request path = (mk_request ''GET'' path [] [] NoBody)\<lparr>rq_follow := True\<rparr>"

definition landing :: "'h probe_env \<Rightarrow> ('h probe, unit) comp" where
  "landing env =
     bind_comp (probe_get env ''login_page'' (page_request ''/sessions/new'')) (\<lambda>r st.
       (Inr (), case r of None \<Rightarrow> st
        | Some x \<Rightarrow> probe_note ''login_page'' [(''version_hints'', version_hints env (rs_text x)),
            (''title'', JStr (py_strip (case pv_title env (rs_text x) of None \<Rightarrow> '''' | Some t \<Rightarrow> t)))] st))"

definition PREFIX_SIGNALS :: "string list" where
  "PREFIX_SIGNALS = [''Fname'', ''Lname'', ''Idstatus'', ''Tokenstatus'', ''Internalnumber'']"

definition prefixes_seen :: "string \<Rightarrow> string list" where
  "prefixes_seen t = sort (List.filter (\<lambda>p. list_ex (\<lambda>s. py_contains t (p @ s)) PREFIX_SIGNALS) [''plasec'', ''avigilon''])"

definition dashboard :: "'h probe_env \<Rightarrow> ('h probe, unit) comp" where
  "dashboard env =
     bind_comp (probe_get env ''dashboard'' (page_request ''/'')) (\<lambda>r st.
       (Inr (), case r of None \<Rightarrow> st
        | Some x \<Rightarrow> probe_note ''dashboard''
            [(''csrf_meta_tag'', JVal (PBool (pv_csrf_meta env (rs_text x)))),
             (''csrf_meta_name_first'', JVal (PBool (pv_name_first env (rs_text x)))),
             (''xsrf_cookie'', JVal (PBool (has_cookie env (pb_net st) ''XSRF-TOKEN''))),
             (''prefixes_seen'', JArr (List.map JStr (prefixes_seen (rs_text x)))),
             (''version_hints'', version_hints env (rs_text x))] st))"

text \<open>
  \<open>accessgrid\<close>: each layer is tried whatever became of the one before. A lookup and a direct connection
  answer with the text of their \<open>OSError\<close>, or with what they found.
\<close>

definition PROXY_VARS :: "string list" where
  "PROXY_VARS = [''HTTPS_PROXY'', ''https_proxy'', ''HTTP_PROXY'', ''http_proxy'', ''ALL_PROXY'', ''NO_PROXY'', ''no_proxy'']"

definition seconds_text :: "int \<Rightarrow> string" where
  "seconds_text us = (let n = nat (us div 10000) in
     string_of_nat (n div 100) @ ''.'' @ (if n mod 100 < 10 then ''0'' else '''') @ string_of_nat (n mod 100))"

definition https_layer :: "'h probe_env \<Rightarrow> 'h \<Rightarrow> (exn + string) \<times> 'h" where
  "https_layer env h =
     (case http_send (pv_outside env) (mk_request ''GET'' ''/'' [] [(''User-Agent'', ''AGSyncProbe/1'')] NoBody) h of
        (Inr r, h1) \<Rightarrow> (Inr (''ok: HTTP '' @ string_of_nat (rs_status r) @ '' in ''
            @ seconds_text (http_now (pv_outside env) h1 - http_now (pv_outside env) h) @ ''s''), h1)
      | (Inl e, h1) \<Rightarrow>
          (if is_http_error e then (Inr (''failed: '' @ exn_class e @ '': '' @ exn_message e), h1) else (Inl e, h1)))"

definition accessgrid :: "'h probe_env \<Rightarrow> ('h probe, unit) comp" where
  "accessgrid env st =
     (let (dns, h1) = pv_lookup env (pb_net st); (tcp, h2) = pv_connect env h1; (https, h3) = https_layer env h2;
          found = [(''host'', JStr ''api.accessgrid.com''),
            (''proxy_env_vars'', JArr (List.map JStr (List.filter (pv_in_environ env) PROXY_VARS))),
            (''dns'', case dns of Inl e \<Rightarrow> JStr (''failed: '' @ e) | Inr ips \<Rightarrow> JArr (List.map JStr (sort (remdups ips)))),
            (''tcp_443'', case tcp of Inl e \<Rightarrow> JStr (''failed: '' @ e)
              | Inr _ \<Rightarrow> JStr (''ok in '' @ seconds_text (http_now (pv_outside env) h2 - http_now (pv_outside env) h1) @ ''s''))]
      in case https of
           Inl e \<Rightarrow> (Inl e, st\<lparr>pb_accessgrid := found, pb_net := h3\<rparr>)
         | Inr t \<Rightarrow> (Inr (), st\<lparr>pb_accessgrid := found @ [(''https'', JStr t), (''reachable'', JVal (PBool (take 2 t = ''ok'')))],
             pb_net := h3\<rparr>))"

definition compare_and_end :: "('h probe, unit) comp" where
  "compare_and_end st = (Inr (), compare_fields st)"

definition probe_run :: "'h probe_env \<Rightarrow> nat \<Rightarrow> ('h probe, unit) comp" where
  "probe_run env samples =
     bind_comp (accessgrid env) (\<lambda>_. bind_comp (landing env) (\<lambda>_. bind_comp (probe_login env) (\<lambda>ok.
       if \<not> ok then pure_res (Inr ())
       else bind_comp (dashboard env) (\<lambda>_.
         bind_comp (identities env samples) (\<lambda>json_ids.
         bind_comp (identities_xml env samples) (\<lambda>xml_ids.
         bind_comp (per_identity env (if json_ids \<noteq> [] then json_ids else xml_ids) samples) (\<lambda>_.
         bind_comp (card_formats env) (\<lambda>_. compare_and_end))))))))"

definition probe_run_xml :: "'h probe_env \<Rightarrow> nat \<Rightarrow> ('h probe, unit) comp" where
  "probe_run_xml env samples =
     bind_comp (accessgrid env) (\<lambda>_. bind_comp (landing env) (\<lambda>_. bind_comp (probe_login env) (\<lambda>ok.
       if \<not> ok then pure_res (Inr ())
       else bind_comp (dashboard env) (\<lambda>_.
         bind_comp (xml_paging env samples) (\<lambda>ids.
         bind_comp (per_identity env ids samples) (\<lambda>_.
         bind_comp (card_formats env) (\<lambda>_. compare_and_end)))))))"

text \<open>\<open>main\<close>: the mode in front when it was left out, the run of that mode, and the exit code.\<close>

definition probe_argv :: "string list \<Rightarrow> string list" where
  "probe_argv argv = (case argv of [] \<Rightarrow> []
   | a # _ \<Rightarrow> if a \<notin> {''all'', ''xml''} \<and> take 1 a \<noteq> ''-'' then ''all'' # argv else argv)"

definition probe_mode :: "'h probe_env \<Rightarrow> string \<Rightarrow> nat \<Rightarrow> ('h probe, unit) comp" where
  "probe_mode env mode samples = (if mode = ''xml'' then probe_run_xml env samples else probe_run env samples)"

definition exit_code :: "'h probe \<Rightarrow> nat" where
  "exit_code st = (if jtruthy (jlookup (facts_at (pb_steps st) ''login'') ''accepted'') then 0 else 1)"

section \<open>Read-only\<close>

text \<open>
  The first of the probe's three rules: \<open>GET\<close>, and the \<open>POST\<close> that signs in. Whatever of the network's
  state such requests leave alone, a run leaves alone.
\<close>

definition only_reads :: "request \<Rightarrow> bool" where
  "only_reads rq \<longleftrightarrow> rq_method rq = ''GET'' \<or> (rq_method rq = ''POST'' \<and> rq_path rq = ''/sessions'')"

definition survives_reads :: "('h \<Rightarrow> bool) \<Rightarrow> 'h probe_env \<Rightarrow> bool" where
  "survives_reads I env \<longleftrightarrow>
     (\<forall>h. I h \<longrightarrow>
        (\<forall>rq. only_reads rq \<longrightarrow> I (snd (http_send (pv_net env) rq h)) \<and> I (snd (http_send (pv_outside env) rq h)))
        \<and> I (http_forget_cookies (pv_net env) h) \<and> I (snd (pv_lookup env h)) \<and> I (snd (pv_connect env h)))"

definition net_kept :: "('h \<Rightarrow> bool) \<Rightarrow> ('h probe, 'a) comp \<Rightarrow> bool" where
  "net_kept I m \<longleftrightarrow> (\<forall>st. I (pb_net st) \<longrightarrow> I (pb_net (snd (m st))))"

named_theorems net_kept_rules "which computations of the probe keep what reading requests keep"

lemma net_kept_bind [net_kept_rules]: "net_kept I m \<Longrightarrow> (\<And>v. net_kept I (k v)) \<Longrightarrow> net_kept I (bind_comp m k)"
  unfolding net_kept_def bind_comp_def by (auto split: prod.splits sum.splits)

lemma net_kept_pure [net_kept_rules]: "net_kept I (pure_res r)"
  by (simp add: net_kept_def pure_res_def)

lemma net_kept_done: "(\<And>st. pb_net (f st) = pb_net st) \<Longrightarrow> net_kept I (\<lambda>st. (r st, f st))"
  by (simp add: net_kept_def)

lemma net_kept_bind_after:
  "net_kept I (bind_comp m k) \<Longrightarrow> (\<And>st. pb_net (f st) = pb_net st) \<Longrightarrow> net_kept I (\<lambda>st. bind_comp m k (f st))"
  by (simp add: net_kept_def)

lemma net_of_records [simp]:
  "pb_net (probe_note step new st) = pb_net st" "pb_net (set_step step fs st) = pb_net st"
  "pb_net (extend_rows source rows st) = pb_net st" "pb_net (tally read fmt result st) = pb_net st"
  "pb_net (logged a rs st) = pb_net st" "pb_net (snd (json_body step r st)) = pb_net st"
  "pb_net (set_total n st) = pb_net st" "pb_net (drop_steps cn st) = pb_net st" "pb_net (compare_fields st) = pb_net st"
  "pb_net (note_tokens cn body tokens items xml_tokens st) = pb_net st"
  by (simp_all add: probe_note_def set_step_def extend_rows_def tally_def logged_def json_body_def set_total_def
      drop_steps_def compare_fields_def note_tokens_def Let_def split: option.split)

lemma get_keeps [net_kept_rules]:
  fixes env :: "'h probe_env"
  assumes "survives_reads I env" and "only_reads rq"
  shows "net_kept I (probe_get env step rq)"
  unfolding net_kept_def
proof (intro allI impI)
  fix st :: "'h probe" assume I: "I (pb_net st)"
  then have "I (snd (http_send (pv_net env) rq (pb_net st)))" using assms by (simp add: survives_reads_def)
  then show "I (pb_net (snd (probe_get env step rq st)))"
    by (cases "http_send (pv_net env) rq (pb_net st)") (auto simp: probe_get_def Let_def split: sum.split)
qed

lemma gets_only_read [simp]: "only_reads (mk_request ''GET'' path params headers body)" "only_reads (page_request path)"
  by (simp_all add: only_reads_def mk_request_def page_request_def)

lemma read_json_keeps [net_kept_rules]: "survives_reads I env \<Longrightarrow> net_kept I (read_json env read step path params)"
  unfolding read_json_def
  by (rule net_kept_bind [OF get_keeps [OF _ gets_only_read(1)]], assumption)
    (auto simp: net_kept_def Let_def split: prod.split, metis net_of_records(6) snd_conv)

lemma read_xml_keeps [net_kept_rules]:
  "survives_reads I env \<Longrightarrow> net_kept I (read_xml env read step path root_tag row_tag params)"
  unfolding read_xml_def
  by (intro net_kept_bind get_keeps) (auto simp: net_kept_def Let_def split: prod.split)


lemma landing_keeps [net_kept_rules]: "survives_reads I env \<Longrightarrow> net_kept I (landing env)"
  unfolding landing_def by (intro net_kept_bind get_keeps) (auto simp: net_kept_def split: option.split)

lemma dashboard_keeps [net_kept_rules]: "survives_reads I env \<Longrightarrow> net_kept I (dashboard env)"
  unfolding dashboard_def by (intro net_kept_bind get_keeps) (auto simp: net_kept_def split: option.split)

lemma card_formats_keeps [net_kept_rules]: "survives_reads I env \<Longrightarrow> net_kept I (card_formats env)"
  unfolding card_formats_def by (intro net_kept_bind read_json_keeps read_xml_keeps) (auto simp: net_kept_def)

lemma compare_keeps [net_kept_rules]: "net_kept I compare_and_end"
  by (simp add: net_kept_def compare_and_end_def)

lemma https_keeps: "survives_reads I env \<Longrightarrow> I h \<Longrightarrow> I (snd (https_layer env h))"
proof -
  assume s: "survives_reads I env" and h: "I h"
  let ?rq = "mk_request ''GET'' ''/'' [] [(''User-Agent'', ''AGSyncProbe/1'')] NoBody"
  have "I (snd (http_send (pv_outside env) ?rq h))"
    using s h gets_only_read(1)[of "''/''" "[]" "[(''User-Agent'', ''AGSyncProbe/1'')]" NoBody] by (simp only: survives_reads_def)
  then show ?thesis by (cases "http_send (pv_outside env) ?rq h") (auto simp: https_layer_def split: sum.split)
qed

lemma accessgrid_keeps [net_kept_rules]: "survives_reads I env \<Longrightarrow> net_kept I (accessgrid env)"
  unfolding net_kept_def
proof (intro allI impI)
  fix st :: "_ probe" assume s: "survives_reads I env" and h: "I (pb_net st)"
  obtain dns h1 where 1: "pv_lookup env (pb_net st) = (dns, h1)" by (cases "pv_lookup env (pb_net st)")
  obtain tcp h2 where 2: "pv_connect env h1 = (tcp, h2)" by (cases "pv_connect env h1")
  obtain https h3 where 3: "https_layer env h2 = (https, h3)" by (cases "https_layer env h2")
  have "I h1" using s h 1 by (auto simp: survives_reads_def dest: spec[of _ "pb_net st"])
  then have "I h2" using s 2 by (auto simp: survives_reads_def dest: spec[of _ h1])
  then have "I h3" using https_keeps[OF s] 3 by (metis snd_conv)
  then show "I (pb_net (snd (accessgrid env st)))" using 1 2 3 by (auto simp: accessgrid_def Let_def split: sum.split)
qed

lemma logins_keep:
  "survives_reads I env \<Longrightarrow> (\<forall>nr\<in>set attempts. only_reads (snd nr)) \<Longrightarrow> I (pb_net st) \<Longrightarrow>
   I (pb_net (snd (try_probe_logins env attempts results st)))"
proof (induction env attempts results st rule: try_probe_logins.induct)
  case (2 env name rq attempts results st)
  let ?h = "http_forget_cookies (pv_net env) (pb_net st)"
  have "I ?h" using 2 by (simp add: survives_reads_def)
  then have "I (snd (http_send (pv_net env) rq ?h))" using 2 by (simp add: survives_reads_def)
  then show ?case using 2
    by (cases "http_send (pv_net env) rq ?h") (auto simp: Let_def split: sum.split)
qed simp

lemma login_keeps [net_kept_rules]: "survives_reads I env \<Longrightarrow> net_kept I (probe_login env)"
  using logins_keep[of I env "probe_logins env"]
  by (simp add: net_kept_def probe_login_def) (simp add: probe_logins_def only_reads_def mk_request_def)

lemma second_page_keeps [net_kept_rules]: "survives_reads I env \<Longrightarrow> net_kept I (second_page env rows)"
proof -
  have body: "pb_net st = pb_net st0" if "json_body step r st0 = (j, st)" for step r and st0 st :: "'a probe" and j
    using that net_of_records(6)[of step r st0] by simp
  show "survives_reads I env \<Longrightarrow> ?thesis"
    unfolding second_page_def
    by (intro net_kept_bind get_keeps)
      (auto simp: net_kept_def Let_def dest!: body split: prod.split json.split sum.split)
qed

lemma identities_keep [net_kept_rules]:
  assumes s: "survives_reads I env"
  shows "net_kept I (identities env samples)"
proof -
  have page: "net_kept I (bind_comp (second_page env rows) (\<lambda>_. pure_res (page_ids rows)))" for rows
    by (intro net_kept_bind second_page_keeps net_kept_pure s)
  have rest: "net_kept I (bind_comp (pure_res r) (\<lambda>n st2.
      bind_comp (second_page env rows) (\<lambda>_. pure_res (page_ids rows)) (set_total n st2)))" for r rows
    by (rule net_kept_bind[OF net_kept_pure]) (rule net_kept_bind_after[OF page], simp)
  have rows: "net_kept I (bind_comp (pure_res q) (\<lambda>rows st. bind_comp (pure_res r) (\<lambda>n st2.
      bind_comp (second_page env rows) (\<lambda>_. pure_res (page_ids rows)) (set_total n st2))
      (probe_note ''identities_json'' (identities_facts d rows samples)
        (extend_rows ''identity list json'' (List.map attrs_of rows) st))))" for q r d
    by (rule net_kept_bind[OF net_kept_pure]) (rule net_kept_bind_after[OF rest], simp)
  show ?thesis unfolding identities_def Let_def
    by (rule net_kept_bind[OF read_json_keeps[OF s]]) (simp add: rows net_kept_pure split: json.split)
qed

lemma identities_xml_keep [net_kept_rules]: "survives_reads I env \<Longrightarrow> net_kept I (identities_xml env samples)"
  unfolding identities_xml_def
  by (intro net_kept_bind read_xml_keeps) (auto simp: net_kept_def Let_def split: option.split)

lemma pieces_keep [net_kept_rules]: "survives_reads I env \<Longrightarrow> net_kept I (read_pieces env todo pieces)"
proof (induction env todo pieces rule: read_pieces.induct)
  case (2 env name extra todo pieces)
  then show ?case
    by (simp only: read_pieces.simps) (rule net_kept_bind[OF read_xml_keeps], assumption, simp add: net_kept_def split: option.split)
qed (simp add: net_kept_def)

lemma paging_keeps [net_kept_rules]: "survives_reads I env \<Longrightarrow> net_kept I (xml_paging env samples)"
  unfolding xml_paging_def
  by (intro net_kept_bind pieces_keep identities_xml_keep) (auto simp: net_kept_def Let_def)

lemma details_keep [net_kept_rules]: "survives_reads I env \<Longrightarrow> net_kept I (read_both_details env cn)"
  unfolding read_both_details_def Let_def
  by (rule net_kept_bind[OF read_json_keeps], assumption)
    (rule net_kept_bind_after[OF net_kept_bind[OF read_xml_keeps]], auto simp: net_kept_def)

lemma sample_one_keeps [net_kept_rules]: "survives_reads I env \<Longrightarrow> net_kept I (sample_one env cn w)"
proof -
  assume s: "survives_reads I env"
  have details: "net_kept I (bind_comp (read_both_details env cn) (\<lambda>_. pure_res r))" for r :: "probe_walk res"
    by (intro net_kept_bind details_keep net_kept_pure s)
  have sampled: "net_kept I (bind_comp (pure_res a) (\<lambda>items. bind_comp (pure_res (b items)) (\<lambda>js. bind_comp (pure_res c) (\<lambda>xs st.
      bind_comp (read_both_details env cn) (\<lambda>_. pure_res (d js xs)) (note_tokens cn body tokens items rows st)))))"
    for a :: "json list res" and b :: "json list \<Rightarrow> token_stats res" and c :: "token_stats res" and d :: "token_stats \<Rightarrow> token_stats \<Rightarrow> probe_walk res"
      and body tokens rows
    by (intro net_kept_bind net_kept_pure) (rule net_kept_bind_after[OF details], simp)
  have dropped: "net_kept I (\<lambda>st. (Inr w, drop_steps cn st))"
    by (rule net_kept_done) simp
  show ?thesis unfolding sample_one_def Let_def
    by (rule net_kept_bind[OF read_json_keeps[OF s]], rule net_kept_bind[OF read_xml_keeps[OF s]])
      (simp only: sampled dropped if_split simp_thms)
qed

lemma sample_all_keeps [net_kept_rules]: "survives_reads I env \<Longrightarrow> net_kept I (sample_all env samples cns w)"
  by (induction cns arbitrary: w) (auto intro!: net_kept_pure net_kept_bind sample_one_keeps)

lemma per_identity_keeps [net_kept_rules]: "survives_reads I env \<Longrightarrow> net_kept I (per_identity env ids samples)"
  unfolding per_identity_def by (intro net_kept_bind sample_all_keeps) (auto simp: net_kept_def)

text \<open>
  C24. The probe is read-only, as its first rule says: whatever state of the network survives requests that
  only read (\<open>GET\<close>, and the \<open>POST\<close> to \<open>/sessions\<close> that signs in) survives a run of either mode, however the
  appliance answers and whether or not the run ends in an exception.
\<close>

theorem probe_only_reads:
  assumes "survives_reads I env" and "I (pb_net st)"
  shows "I (pb_net (snd (probe_mode env mode samples st)))"
proof -
  have "net_kept I (probe_mode env mode samples)"
    unfolding probe_mode_def probe_run_def probe_run_xml_def
    by (auto intro!: net_kept_rules assms)
  then show ?thesis using assms by (simp add: net_kept_def)
qed

text \<open>An appliance that signs everyone in, answers every request with one identity, and keeps a log of the requests.\<close>

definition logging_net :: "request list http" where
  "logging_net = \<lparr>http_send = (\<lambda>rq log. (Inr \<lparr>rs_status = 200, rs_headers = [], rs_text = '''',
       rs_json = Some (JObj [(''data'', JArr [JObj [(''id'', JStr ''7'')]])])\<rparr>, log @ [rq])),
     http_now = (\<lambda>log. int (length log)), http_cookie = (\<lambda>_ _. Some ''c''), http_forget_cookies = (\<lambda>log. log)\<rparr>"

definition logging_env :: "request list probe_env" where
  "logging_env = \<lparr>pv_net = logging_net, pv_xml = (\<lambda>_. Inl ''no element found''), pv_bytes = (\<lambda>r. length (rs_text r)),
     pv_path = (\<lambda>_. ''/dashboard''), pv_cookie_names = (\<lambda>_. [''_session_id'']), pv_versions = (\<lambda>_. []), pv_title = (\<lambda>_. None),
     pv_csrf_meta = (\<lambda>_. False), pv_name_first = (\<lambda>_. False), pv_in_environ = (\<lambda>_. False), pv_lookup = (\<lambda>log. (Inr [], log)),
     pv_connect = (\<lambda>log. (Inr (), log)), pv_outside = logging_net, pv_username = ''u'', pv_password = ''p''\<rparr>"

definition fresh_probe :: "request list probe" where
  "fresh_probe = \<lparr>pb_steps = [], pb_formats = [], pb_rows = [], pb_paging = [], pb_summary = [], pb_fields = [],
     pb_accessgrid = [], pb_net = []\<rparr>"

theorem probe_only_reads_witness:
  "\<forall>mode. list_all only_reads (pb_net (snd (probe_mode logging_env mode 5 fresh_probe)))"
proof
  fix mode
  have "survives_reads (list_all only_reads) logging_env"
    by (simp add: survives_reads_def logging_env_def logging_net_def)
  moreover have "list_all only_reads (pb_net fresh_probe)" by (simp add: fresh_probe_def)
  ultimately show "list_all only_reads (pb_net (snd (probe_mode logging_env mode 5 fresh_probe)))" by (rule probe_only_reads)
qed

end
