(* ===== verification/Spec2Isabelle.thy ===== *)
theory Spec2Isabelle
  imports Sync_Properties Exchange_Properties Engine_Properties Millennium_Properties Adapter_Properties Hub_Properties Web_Properties Sidecar_Properties Service_Properties Hub_Process Overlapping_Saves Field_Probe
begin

text \<open>
  \<^bold>\<open>The AccessGrid integration hub.\<close> The hub (\<open>src/src/agsync\<close>) keeps the mobile passes of AccessGrid and
  the cards of one physical access control system (PACS) in step. A thread runs a cycle once a
  minute: it reads the roster and the credentials from the PACS and the passes of one card template
  from AccessGrid (\<open>sync/snapshot.py\<close>), then runs six phases over that snapshot and over its own
  table of passes (\<open>sync/tracking.py\<close>). The PACS is reached through an adapter (\<open>lib/pacs\<close>). Around
  the thread are a web site that configures it, a side-car that captures a browser session, a log, a
  mail notice, a status report and the migrations of the database.

  \<^bold>\<open>How it is modelled.\<close> Data are records and datatypes, tables are lists of rows with their primary
  key, times are integers (microseconds), text is Latin-1. An exception is a value of \<open>exn\<close>; an
  operation that may raise and changes a state is a computation \<open>('s, 'a) comp\<close>, a function from a
  state to an \<open>exn\<close> or a value, and the state left behind. A cycle works on a \<open>world\<close>: the table, the
  state of the PACS, the calls sent to either system, the dry-run switch and the settings
  generation. What is not under \<open>src/\<close> is a parameter of the definitions that use it: the AccessGrid
  SDK, the servers behind httpx, the XML parser, the HTML tokenizer, the zip reader, \<open>json.loads\<close> where text
  comes from outside, MD5, the password hash, Fernet (the \<open>vault\<close>), AES-GCM, SMTP, float parsing, the clocks
  and the time zone, random boundaries and nonces, the operator's browser, and what urlparse accepts in
  brackets, the signer of the session cookie (itsdangerous), SHA-256 and HMAC, the X.509 and QR code
  builders, the operating system's answers. Web requests are taken one
  at a time; in \<open>Overlapping_Saves\<close> two saves of the settings overlap, each a read and a write of the whole.

  \<^bold>\<open>The sync.\<close>
  \<^item> \<open>Hub_Prelude\<close>, \<open>Keyed_Table\<close>, \<open>Hub_Time\<close>: computations, text, tables with a key, ISO dates.
  \<^item> \<open>Pacs_Contract\<close> (\<open>lib/pacs/base.py\<close>), \<open>Ag_Client\<close> (\<open>ag/\<close>), \<open>Tracking\<close> and \<open>Sync_World\<close>
    (\<open>sync/tracking.py\<close>), \<open>Snapshot\<close>, \<open>Writeback\<close>, \<open>Issue\<close>, \<open>Phase1\<close> to \<open>Phase6\<close>
    (\<open>sync/phases/\<close>), \<open>Engine\<close> (\<open>sync/engine.py\<close>: one cycle, as one step, and the loop
    by the positions between its critical sections, the breaker being two of them; \<open>engine_step\<close> lets the
    calls of other threads come in at every position. A cycle in another thread and a configuration that
    cannot be read, which ends the thread, are parameters of the round), \<open>Engine_Report\<close> (\<open>get_status\<close>, the adapter cache, start and
    stop).
  \<^item> \<open>Cycle_Laws\<close> holds what the properties share (what a phase may send, the frame of a row),
    \<open>Demo_Site\<close> a small site the witnesses run on. \<open>Sync_Properties\<close>: who gets, keeps and loses a
    pass. \<open>Exchange_Properties\<close>: snapshot, write-back, install gate, retries, field changes.
    \<open>Engine_Properties\<close>: breaker, pauses, lost sessions.

  \<^bold>\<open>Millennium Ultra\<close> (\<open>lib/pacs/millennium_ultra/\<close>): \<open>Csv_Text\<close> and \<open>Mill_Export\<close> (\<open>export.py\<close>),
  \<open>Mill_Import\<close> (\<open>import_file.py\<close>), \<open>Pacs_Cards\<close> (\<open>pacs_cards.py\<close>), \<open>Mill_State\<close>, \<open>Mill_Cards\<close> and
  \<open>Mill_Writes\<close> (\<open>adapter.py\<close>: the roster, the credentials, and what is recorded and sent at the end
  of a cycle), \<open>Mill_Migrate\<close> (\<open>migrate.py\<close>). \<open>Mill_Laws\<close> and \<open>Adapter_Demo\<close> serve
  \<open>Millennium_Properties\<close>: writes fit and are new, an operator's choice stands until the
  pass is next suspended, files read back, the move of the tables refines a function of the pages that were read.

  \<^bold>\<open>The web client of Millennium.\<close> \<open>Html_Form\<close> (\<open>html_form.py\<close>: the parser of the record page as a fold
  over the tokenizer's events, the changes, the multipart body, the complaints of a refused save) and
  \<open>Mill_Web\<close> (\<open>client.py\<close>: sessions, pacing, jobs, the export, the import, the writes); its
  \<open>web_mill_client\<close> is the record of functions the adapter is given. \<open>Html_Laws\<close> (the parser stays
  well formed, a form is reposted as it was read) and \<open>Mill_Web_Laws\<close> (when requests may leave, how a wait
  ends on a host that wakes sleepers late, how a dead session shows) serve \<open>Web_Properties\<close>.

  \<^bold>\<open>The other adapters.\<close> \<open>Json_Data\<close> (Python values and HTTP sessions) is shared. \<open>Alta_Client\<close>, \<open>Alta_Adapter\<close>
  (\<open>lib/pacs/avigilon_alta/\<close>); \<open>Unity_Client\<close>, \<open>Unity_Reads\<close>, \<open>Unity_Adapter\<close>
  (\<open>lib/pacs/avigilon/\<close>); \<open>Cdvi_Wire\<close>, \<open>Cdvi_Client\<close>, \<open>Cdvi_Adapter\<close>
  (\<open>lib/pacs/cdvi/\<close>), with bytes as \<open>8 word\<close>. \<open>Cloud_Laws\<close>, \<open>Cdvi_Laws\<close> and \<open>Adapter_Demo\<close>
  serve \<open>Adapter_Properties\<close>: rosters are whole, reads that fail are raised
  (or, for Alta, look empty), the cipher round trips. \<open>Pacs_Registry\<close> builds an adapter from stored
  parameters (\<open>lib/pacs/registry.py\<close>, the constructors) and holds the stub of \<open>lib/pacs/lenel/\<close>. The engine asks
  every adapter for \<open>supports_credential_writeback\<close>, which only Millennium defines: a cycle over any other
  adapter ends there (\<open>only_millennium_is_synced\<close>), so the theorems on these adapters are about the
  adapters and the phases, which are what would run once the attribute exists. \<open>Field_Probe\<close>
  (\<open>scripts/avigilon_probe.py\<close>) is the probe run on a Unity site beforehand: a run only reads, its copied tables and
  its verdicts on statuses and dates are the adapter's, and which values its redaction hides.

  \<^bold>\<open>The hub around the sync.\<close> \<open>Sign_In\<close> (\<open>auth/store.py\<close>, \<open>routes/auth.py\<close>), \<open>Pacs_Vendors\<close>
  (\<open>lib/pacs/registry.py\<close> and the descriptors), \<open>Settings_Store\<close> (\<open>settings_store.py\<close>), \<open>Url_Text\<close>
  and \<open>Operator_Pages\<close> (\<open>routes/wizard.py\<close>, \<open>routes/settings.py\<close>), \<open>Connect_Launch\<close>
  (\<open>routes/connect.py\<close>), \<open>Hub_Services\<close> (\<open>logs/store.py\<close>, \<open>dryrun.py\<close>, \<open>notifications.py\<close>),
  \<open>Status_Report\<close> (\<open>status/\<close>), \<open>Schema_Migrations\<close> (\<open>db/schema.py\<close>). \<open>Sign_In\<close> and
  \<open>Connect_Laws\<close> have the runs of an attacker and of AG Connect as inductive relations;
  \<open>Vault_Demo\<close> is an executable vault that keeps the laws. \<open>Hub_Properties\<close> has the theorems.

  \<^bold>\<open>The hub as a service.\<close> \<open>Hub_Host\<close> (\<open>lib/fingerprint.py\<close>, \<open>lib/config_key.py\<close>, \<open>lib/crypto.py\<close>, \<open>tls.py\<close>: what a
  host's key is made of, and what becomes of the secrets when it changes), \<open>Web_Gate\<close> (the session
  cookie, the translator, the gate in front of the pages, \<open>routes/api.py\<close>, \<open>routes/status.py\<close>), \<open>Operator_Views\<close>
  (what the settings, credentials and connect pages hand to their templates), \<open>Support_Bundle\<close>
  (\<open>diagnostics.py\<close>: the redacted report), \<open>Status_Transport\<close> (\<open>status/transport.py\<close>), \<open>Uri_Register\<close>
  (\<open>connect/register.py\<close>: the URL scheme on three operating systems), \<open>Hub_Process\<close> (\<open>config.py\<close>,
  \<open>db/connection.py\<close>, the start-up and shutdown of \<open>server.py\<close>, the status thread, \<open>__main__.py\<close>, \<open>service.py\<close>,
  \<open>observability/sentry.py\<close>: settings, connections and threads of one process). \<open>Service_Properties\<close>: a session lasts an
  hour, a lost key locks the hub, no page and no report shows a secret, an adapter
  without the attribute pauses the engine.
  \<open>Overlapping_Saves\<close>: what two requests at once do to the stored settings.

  \<^bold>\<open>The side-car of AG Connect\<close> (\<open>connect/\<close>). \<open>Connect_Wire\<close> (\<open>protocol.py\<close>: base64, the launch link, the
  sealed payload) and \<open>Connect_Sidecar\<close> (\<open>capture.py\<close>, \<open>runner.py\<close>: the browser, the DevTools socket, the
  watch over the login, the run and its exit codes). \<open>Sidecar_Laws\<close> joins it to the requests of
  \<open>Connect_Launch\<close>; \<open>Sidecar_Properties\<close> follows a sign-in from the link to the stored session.

  \<^bold>\<open>Interfaces.\<close> \<open>keyed_store\<close> (a table with a primary key; interpreted by the tracking,
  settings and login tables), \<open>card_ledger\<close> (the ledger of written cards; by \<open>pacs_cards\<close>), \<open>recorded_write\<close> (an
  adapter write that is only recorded; by the three writes of Millennium), \<open>honest_reader\<close> (a read
  that fails by raising and leaves the rest alone; by Unity and Millennium).

  \<^bold>\<open>Bounds and fuel.\<close> The Alta roster loop has fuel, which \<open>alta_roster_read_ends\<close> shows to be
  enough once it passes the number of users the server declares. Unity and CDVI stop at the page
  limits of the code (10000 and 100). Substitution in the scrubbing of reports has the
  length of the text as fuel, which shrinks with every step. The wait for a Millennium job polls at
  most \<open>WAIT_FUEL\<close> times; \<open>waiting_for_a_job_ends\<close> shows that the deadline comes first. The side-car's loops
  have fuel, since the frames a browser may send before the answer are not bounded by the code;
  running out is the exception \<open>not_returned\<close>, and its theorems are about runs that return or say that
  they do. Everything else is total.

  \<^bold>\<open>Not modelled.\<close> Routing, click, uvicorn and the rendering of templates, which are libraries the
  sources only call; the pragmas of SQLite; the packaging entry points, which only call \<open>__main__.py\<close> and
  \<open>diagnostics.py\<close>; the prompts and the printing of the probe. Log lines and help texts are
  left out everywhere. The schema steps that only create or drop tables are no-ops on the rows.
\<close>

end
